(* ===== verification/Prelude.thy ===== *)
theory Prelude
  imports Main "HOL-Library.Word" "HOL-Library.Multiset" "HOL-Library.List_Lexorder"
    "HOL-Library.Char_ord" "HOL-Library.Product_Lexorder"
begin

text \<open>
  Shared vocabulary of the development: the widths of the machine integers, Rust's
  \<^verbatim>\<open>Result\<close> as a sum type (\<open>Inl\<close> the error, \<open>Inr\<close> the value) with the combinators
  the sources use (\<^verbatim>\<open>?\<close>, \<^verbatim>\<open>and_then\<close>, \<^verbatim>\<open>ok_or\<close>, \<^verbatim>\<open>collect\<close>), big-endian byte
  conversions, signed 32-bit wrap-around, and the list lemmas several components use.
\<close>

unbundle bit_operations_syntax

named_theorems result_simps \<open>inversion of the Result combinators\<close>
named_theorems length_simps \<open>lengths of encodings and digests\<close>

type_synonym u8 = "8 word"
type_synonym u16 = "16 word"
type_synonym u32 = "32 word"
type_synonym u64 = "64 word"
type_synonym bytes = "u8 list"

section \<open>Results\<close>

text \<open>The \<^verbatim>\<open>?\<close> operator and \<^verbatim>\<open>Result::and_then\<close>.\<close>

fun and_then :: "'e + 'a \<Rightarrow> ('a \<Rightarrow> 'e + 'b) \<Rightarrow> 'e + 'b" where
  "and_then (Inl e) f = Inl e"
| "and_then (Inr x) f = f x"

text \<open>\<^verbatim>\<open>Option::ok_or\<close>, \<^verbatim>\<open>Result::map_err\<close>, \<^verbatim>\<open>Result::map\<close> and \<^verbatim>\<open>Result::ok\<close>.\<close>

fun ok_or :: "'a option \<Rightarrow> 'e \<Rightarrow> 'e + 'a" where
  "ok_or None e = Inl e"
| "ok_or (Some x) e = Inr x"

fun map_err :: "('e \<Rightarrow> 'f) \<Rightarrow> 'e + 'a \<Rightarrow> 'f + 'a" where
  "map_err f (Inl e) = Inl (f e)"
| "map_err f (Inr x) = Inr x"

fun map_ok :: "('a \<Rightarrow> 'b) \<Rightarrow> 'e + 'a \<Rightarrow> 'e + 'b" where
  "map_ok f (Inl e) = Inl e"
| "map_ok f (Inr x) = Inr (f x)"

fun result_ok :: "'e + 'a \<Rightarrow> 'a option" where
  "result_ok (Inl e) = None"
| "result_ok (Inr x) = Some x"

text \<open>\<^verbatim>\<open>Option::transpose\<close> on an optional result.\<close>

fun transpose :: "('e + 'a) option \<Rightarrow> 'e + 'a option" where
  "transpose None = Inr None"
| "transpose (Some (Inl e)) = Inl e"
| "transpose (Some (Inr x)) = Inr (Some x)"

text \<open>
  \<^verbatim>\<open>iter.map(f).collect::<Result<Vec<_>, _>>()\<close>: elements are converted from left to right
  and the first error stops the iteration.
\<close>

fun try_collect :: "('a \<Rightarrow> 'e + 'b) \<Rightarrow> 'a list \<Rightarrow> 'e + 'b list" where
  "try_collect f [] = Inr []"
| "try_collect f (x # xs) =
     and_then (f x) (\<lambda>y. and_then (try_collect f xs) (\<lambda>ys. Inr (y # ys)))"

lemma and_then_cong [fundef_cong]:
  "r = r' \<Longrightarrow> (\<And>x. r' = Inr x \<Longrightarrow> f x = g x) \<Longrightarrow> and_then r f = and_then r' g"
  by (cases r') auto

lemma and_then_Inr [result_simps]: "and_then r f = Inr y \<longleftrightarrow> (\<exists>x. r = Inr x \<and> f x = Inr y)"
  by (cases r) auto

lemma and_then_Inl [result_simps]:
  "and_then r f = Inl e \<longleftrightarrow> r = Inl e \<or> (\<exists>x. r = Inr x \<and> f x = Inl e)"
  by (cases r) auto

lemma and_then_assoc: "and_then (and_then r f) g = and_then r (\<lambda>x. and_then (f x) g)"
  by (cases r) auto

lemma ok_or_Inr [result_simps]: "ok_or m e = Inr x \<longleftrightarrow> m = Some x"
  by (cases m) auto

lemma ok_or_Inl [result_simps]: "ok_or m e = Inl e' \<longleftrightarrow> m = None \<and> e' = e"
  by (cases m) auto

lemma map_err_Inr [result_simps]: "map_err f r = Inr x \<longleftrightarrow> r = Inr x"
  by (cases r) auto

lemma map_err_Inl [result_simps]: "map_err f r = Inl e \<longleftrightarrow> (\<exists>d. r = Inl d \<and> e = f d)"
  by (cases r) auto

lemma map_ok_Inr [result_simps]: "map_ok f r = Inr y \<longleftrightarrow> (\<exists>x. r = Inr x \<and> y = f x)"
  by (cases r) auto

lemma map_ok_Inl [result_simps]: "map_ok f r = Inl e \<longleftrightarrow> r = Inl e"
  by (cases r) auto

lemma result_ok_Some [result_simps]: "result_ok r = Some x \<longleftrightarrow> r = Inr x"
  by (cases r) auto

lemma try_collect_Inr: "try_collect f xs = Inr ys \<longleftrightarrow> list_all2 (\<lambda>x y. f x = Inr y) xs ys"
  by (induction xs arbitrary: ys) (auto simp: and_then_Inr list_all2_Cons1)

lemma try_collect_length: "try_collect f xs = Inr ys \<Longrightarrow> length ys = length xs"
  by (simp add: try_collect_Inr list_all2_lengthD)

lemma try_collect_map: "(\<And>x. x \<in> set xs \<Longrightarrow> f x = Inr (g x)) \<Longrightarrow> try_collect f xs = Inr (map g xs)"
  by (induction xs) auto

lemma try_collect_cong [fundef_cong]:
  "xs = ys \<Longrightarrow> (\<And>x. x \<in> set ys \<Longrightarrow> f x = g x) \<Longrightarrow> try_collect f xs = try_collect g ys"
  by (induction ys arbitrary: xs) auto

text \<open>The first element that fails decides the error; everything before it succeeded.\<close>

lemma try_collect_Inl:
  "try_collect f xs = Inl e \<longleftrightarrow>
     (\<exists>us x vs. xs = us @ x # vs \<and> (\<forall>u \<in> set us. \<exists>y. f u = Inr y) \<and> f x = Inl e)"
proof (induction xs)
  case Nil
  then show ?case by simp
next
  case (Cons a xs)
  show ?case
  proof (cases "f a")
    case (Inl d)
    then show ?thesis
      by (auto simp: Cons_eq_append_conv) (metis append_Nil empty_iff list.set(1))+
  next
    case (Inr b)
    then have "try_collect f (a # xs) = Inl e \<longleftrightarrow> try_collect f xs = Inl e"
      by (auto simp: and_then_Inl)
    also have "\<dots> \<longleftrightarrow> (\<exists>us x vs. a # xs = us @ x # vs \<and>
        (\<forall>u \<in> set us. \<exists>y. f u = Inr y) \<and> f x = Inl e)" (is "_ \<longleftrightarrow> ?R")
    proof
      assume "try_collect f xs = Inl e"
      then obtain us x vs where "xs = us @ x # vs" "\<forall>u \<in> set us. \<exists>y. f u = Inr y" "f x = Inl e"
        using Cons.IH by auto
      with Inr have "a # xs = (a # us) @ x # vs \<and> (\<forall>u \<in> set (a # us). \<exists>y. f u = Inr y) \<and> f x = Inl e"
        by simp
      then show ?R by blast
    next
      assume ?R
      then obtain us x vs where "a # xs = us @ x # vs" "\<forall>u \<in> set us. \<exists>y. f u = Inr y" "f x = Inl e"
        by blast
      with Inr have "\<exists>us'. xs = us' @ x # vs \<and> (\<forall>u \<in> set us'. \<exists>y. f u = Inr y) \<and> f x = Inl e"
        by (cases us) auto
      then show "try_collect f xs = Inl e" using Cons.IH by blast
    qed
    finally show ?thesis .
  qed
qed

section \<open>Signed 32-bit integers\<close>

definition i32_min :: int where "i32_min = - (2 ^ 31)"
definition i32_max :: int where "i32_max = 2 ^ 31 - 1"

definition is_i32 :: "int \<Rightarrow> bool" where
  "is_i32 x \<longleftrightarrow> i32_min \<le> x \<and> x \<le> i32_max"

text \<open>Two's complement wrap-around, the behaviour of arithmetic without overflow checks.\<close>

definition wrap_i32 :: "int \<Rightarrow> int" where
  "wrap_i32 x = (x + 2 ^ 31) mod 2 ^ 32 - 2 ^ 31"

lemma wrap_i32_range: "is_i32 (wrap_i32 x)"
proof -
  have "0 \<le> (x + 2 ^ 31) mod 2 ^ 32" "(x + 2 ^ 31) mod 2 ^ 32 < (2 ^ 32 :: int)"
    by (auto intro: pos_mod_bound)
  then show ?thesis by (simp add: wrap_i32_def is_i32_def i32_min_def i32_max_def)
qed

lemma wrap_i32_id: "is_i32 x \<Longrightarrow> wrap_i32 x = x"
  by (simp add: wrap_i32_def is_i32_def i32_min_def i32_max_def)

section \<open>Big-endian bytes\<close>

definition be_bytes32 :: "u32 \<Rightarrow> bytes" where
  "be_bytes32 w = [ucast (drop_bit 24 w), ucast (drop_bit 16 w), ucast (drop_bit 8 w), ucast w]"

definition be_bytes64 :: "u64 \<Rightarrow> bytes" where
  "be_bytes64 w = map (\<lambda>k. ucast (drop_bit (8 * (7 - k)) w)) [0, 1, 2, 3, 4, 5, 6, 7]"

definition be_bytes16 :: "u16 \<Rightarrow> bytes" where
  "be_bytes16 w = [ucast (drop_bit 8 w), ucast w]"

definition from_be_bytes32 :: "u8 \<Rightarrow> u8 \<Rightarrow> u8 \<Rightarrow> u8 \<Rightarrow> u32" where
  "from_be_bytes32 a b c d =
     push_bit 24 (ucast a) OR push_bit 16 (ucast b) OR push_bit 8 (ucast c) OR ucast d"

lemma length_be_bytes32 [simp, length_simps]: "length (be_bytes32 w) = 4"
  by (simp add: be_bytes32_def)

lemma length_be_bytes64 [simp, length_simps]: "length (be_bytes64 w) = 8"
  by (simp add: be_bytes64_def)

lemma from_be_bytes32_bit:
  "bit (from_be_bytes32 a b c d) n \<longleftrightarrow>
     (n < 8 \<and> bit d n) \<or> (8 \<le> n \<and> n < 16 \<and> bit c (n - 8)) \<or>
     (16 \<le> n \<and> n < 24 \<and> bit b (n - 16)) \<or> (24 \<le> n \<and> n < 32 \<and> bit a (n - 24))"
  by (auto simp: from_be_bytes32_def bit_simps dest: bit_imp_le_length)

lemma be_bytes32_from_be_bytes32: "be_bytes32 (from_be_bytes32 a b c d) = [a, b, c, d]"
  by (auto simp: be_bytes32_def intro!: bit_word_eqI)
    (auto simp: bit_simps from_be_bytes32_bit dest: bit_imp_le_length)

lemma be_bytes32_inj: "be_bytes32 v = be_bytes32 w \<Longrightarrow> v = w"
proof (rule bit_word_eqI)
  fix n
  assume eq: "be_bytes32 v = be_bytes32 w" and n: "n < LENGTH(32)"
  have bits: "bit (drop_bit s v) k = bit (drop_bit s w) k"
    if "ucast (drop_bit s v) = (ucast (drop_bit s w) :: u8)" "k < 8" for s k
    using arg_cong [OF that(1), of "\<lambda>x. bit x k"] that(2) by (simp add: bit_simps)
  consider "n < 8" | "8 \<le> n" "n < 16" | "16 \<le> n" "n < 24" | "24 \<le> n" "n < 32"
    using n by fastforce
  then show "bit v n = bit w n"
  proof cases
    case 1
    with eq bits [of 0 n] show ?thesis by (simp add: be_bytes32_def)
  next
    case 2
    with eq bits [of 8 "n - 8"] show ?thesis by (simp add: be_bytes32_def bit_simps)
  next
    case 3
    with eq bits [of 16 "n - 16"] show ?thesis by (simp add: be_bytes32_def bit_simps)
  next
    case 4
    with eq bits [of 24 "n - 24"] show ?thesis by (simp add: be_bytes32_def bit_simps)
  qed
qed

section \<open>Lists\<close>

text \<open>\<^verbatim>\<open>slice.chunks(n)\<close>: consecutive pieces of length \<open>n\<close>, the last one possibly shorter.\<close>

function chunks :: "nat \<Rightarrow> 'a list \<Rightarrow> 'a list list" where
  "chunks n xs = (if xs = [] \<or> n = 0 then [] else take n xs # chunks n (drop n xs))"
  by pat_completeness auto
termination
  by (relation "measure (\<lambda>(n, xs). length xs)") auto

declare chunks.simps [simp del]

lemma chunks_Nil [simp]: "chunks n [] = []"
  by (simp add: chunks.simps)

lemma concat_chunks: "0 < n \<Longrightarrow> concat (chunks n xs) = xs"
proof (induction n xs rule: chunks.induct)
  case (1 n xs)
  then show ?case
    by (cases "xs = []") (simp_all add: chunks.simps [of n xs])
qed

lemma map_concat_chunks: "0 < n \<Longrightarrow> concat (map (map f) (chunks n xs)) = map f xs"
  by (metis concat_chunks map_concat)

lemma chunks_append: "0 < n \<Longrightarrow> length xs = n \<Longrightarrow> chunks n (xs @ ys) = xs # chunks n ys"
  by (subst chunks.simps) auto

lemma chunks_dvd_append:
  "0 < n \<Longrightarrow> n dvd length xs \<Longrightarrow> chunks n (xs @ ys) = chunks n xs @ chunks n ys"
proof (induction n xs rule: chunks.induct)
  case (1 n xs)
  show ?case
  proof (cases "xs = []")
    case True
    then show ?thesis by simp
  next
    case False
    then have le: "n \<le> length xs" using 1(3) by (auto dest: dvd_imp_le)
    have "n dvd length (drop n xs)" using 1(3) le by (simp add: dvd_diff_nat)
    then have "chunks n (drop n xs @ ys) = chunks n (drop n xs) @ chunks n ys"
      using 1(1) 1(2) False by simp
    then show ?thesis
      using False le 1(2)
      by (subst (1 2) chunks.simps) (simp add: chunks.simps [of n "drop n xs @ ys"] chunks.simps [of n "drop n xs"])
  qed
qed

lemma chunks_nth:
  "0 < n \<Longrightarrow> length xs = n * m \<Longrightarrow> chunks n xs = map (\<lambda>k. take n (drop (n * k) xs)) [0..<m]"
proof (induction m arbitrary: xs)
  case 0
  then show ?case by simp
next
  case (Suc m)
  then have "xs \<noteq> []" by auto
  have "chunks n (drop n xs) = map (\<lambda>k. take n (drop (n * k) (drop n xs))) [0..<m]"
    using Suc by simp
  moreover have "map (\<lambda>k. take n (drop (n * k) xs)) [0..<Suc m]
      = take n xs # map (\<lambda>k. take n (drop (n * k) (drop n xs))) [0..<m]"
    by (simp add: map_upt_Suc add.commute del: upt_Suc)
  ultimately show ?case
    using \<open>xs \<noteq> []\<close> Suc.prems(1) by (subst chunks.simps) simp
qed

lemma chunks_group_lengths:
  "0 < n \<Longrightarrow> n dvd length xs \<Longrightarrow> g \<in> set (chunks n xs) \<Longrightarrow> length g = n \<and> set g \<subseteq> set xs"
proof -
  assume n: "0 < n" and d: "n dvd length xs" and g: "g \<in> set (chunks n xs)"
  then obtain m where m: "length xs = n * m" by blast
  then obtain k where "g = take n (drop (n * k) xs)" "k < m"
    using g chunks_nth [OF n m] by auto
  moreover have "n * k + n \<le> length xs" using m \<open>k < m\<close>
    by (metis Suc_leI add.commute mult_Suc_right mult_le_mono2)
  ultimately show ?thesis using set_take_subset set_drop_subset by fastforce
qed

lemma foldl_invariant:
  "P a \<Longrightarrow> (\<And>a x. P a \<Longrightarrow> x \<in> set xs \<Longrightarrow> P (f a x)) \<Longrightarrow> P (foldl f a xs)"
  by (induction xs arbitrary: a) auto

lemma distinct_map_mset:
  "mset xs = mset ys \<Longrightarrow> distinct (map f xs) \<longleftrightarrow> distinct (map f ys)"
  by (metis mset_eq_imp_distinct_iff mset_map)

end
