(* ===== verification/Sha256.thy ===== *)
theory Sha256
  imports Prelude
begin

text \<open>
  A reference specification of SHA-256 on byte strings (FIPS 180-4): padding, message
  schedule, compression and the digest. The two implementations in the sources, the
  eight-lane one of \<^verbatim>\<open>src/simd_sha256.rs\<close> and the streaming one of
  \<^verbatim>\<open>src/definitions/session_crypto.rs\<close>, are proved against it; the constants are the ones the
  sources carry, and the last section checks them against the standard's definition as
  fractional parts of roots of primes.
\<close>

datatype 'v st8 = St8 'v 'v 'v 'v 'v 'v 'v 'v

primrec st8_list :: "'v st8 \<Rightarrow> 'v list" where
  "st8_list (St8 a b c d e f g h) = [a, b, c, d, e, f, g, h]"

fun st8_map2 :: "('v \<Rightarrow> 'w \<Rightarrow> 'x) \<Rightarrow> 'v st8 \<Rightarrow> 'w st8 \<Rightarrow> 'x st8" where
  "st8_map2 p (St8 a b c d e f g h) (St8 a' b' c' d' e' f' g' h') =
     St8 (p a a') (p b b') (p c c') (p d d') (p e e') (p f f') (p g g') (p h h')"

section \<open>Constants\<close>

definition INITIAL_STATE :: "u32 st8" where
  "INITIAL_STATE = St8 0x6a09e667 0xbb67ae85 0x3c6ef372 0xa54ff53a
                       0x510e527f 0x9b05688c 0x1f83d9ab 0x5be0cd19"

definition ROUND_CONSTANTS :: "u32 list" where
  "ROUND_CONSTANTS =
     [0x428a2f98, 0x71374491, 0xb5c0fbcf, 0xe9b5dba5] @
     [0x3956c25b, 0x59f111f1, 0x923f82a4, 0xab1c5ed5] @
     [0xd807aa98, 0x12835b01, 0x243185be, 0x550c7dc3] @
     [0x72be5d74, 0x80deb1fe, 0x9bdc06a7, 0xc19bf174] @
     [0xe49b69c1, 0xefbe4786, 0x0fc19dc6, 0x240ca1cc] @
     [0x2de92c6f, 0x4a7484aa, 0x5cb0a9dc, 0x76f988da] @
     [0x983e5152, 0xa831c66d, 0xb00327c8, 0xbf597fc7] @
     [0xc6e00bf3, 0xd5a79147, 0x06ca6351, 0x14292967] @
     [0x27b70a85, 0x2e1b2138, 0x4d2c6dfc, 0x53380d13] @
     [0x650a7354, 0x766a0abb, 0x81c2c92e, 0x92722c85] @
     [0xa2bfe8a1, 0xa81a664b, 0xc24b8b70, 0xc76c51a3] @
     [0xd192e819, 0xd6990624, 0xf40e3585, 0x106aa070] @
     [0x19a4c116, 0x1e376c08, 0x2748774c, 0x34b0bcb5] @
     [0x391c0cb3, 0x4ed8aa4a, 0x5b9cca4f, 0x682e6ff3] @
     [0x748f82ee, 0x78a5636f, 0x84c87814, 0x8cc70208] @
     [0x90befffa, 0xa4506ceb, 0xbef9a3f7, 0xc67178f2]"

lemma length_ROUND_CONSTANTS [length_simps]: "length ROUND_CONSTANTS = 64"
  by (simp add: ROUND_CONSTANTS_def)

section \<open>The functions of the standard\<close>

definition sha_ch :: "u32 \<Rightarrow> u32 \<Rightarrow> u32 \<Rightarrow> u32" where
  "sha_ch x y z = (x AND y) XOR (NOT x AND z)"

definition sha_maj :: "u32 \<Rightarrow> u32 \<Rightarrow> u32 \<Rightarrow> u32" where
  "sha_maj x y z = (x AND y) XOR (x AND z) XOR (y AND z)"

definition sha_Sigma0 :: "u32 \<Rightarrow> u32" where
  "sha_Sigma0 x = word_rotr 2 x XOR word_rotr 13 x XOR word_rotr 22 x"

definition sha_Sigma1 :: "u32 \<Rightarrow> u32" where
  "sha_Sigma1 x = word_rotr 6 x XOR word_rotr 11 x XOR word_rotr 25 x"

definition sha_sigma0 :: "u32 \<Rightarrow> u32" where
  "sha_sigma0 x = word_rotr 7 x XOR word_rotr 18 x XOR drop_bit 3 x"

definition sha_sigma1 :: "u32 \<Rightarrow> u32" where
  "sha_sigma1 x = word_rotr 17 x XOR word_rotr 19 x XOR drop_bit 10 x"

section \<open>Padding\<close>

text \<open>The number of zero bytes between the marker byte and the 64-bit length.\<close>

definition pad_zeros :: "nat \<Rightarrow> nat" where
  "pad_zeros n = (if n mod 64 < 56 then 55 - n mod 64 else 119 - n mod 64)"

definition sha_pad :: "bytes \<Rightarrow> bytes" where
  "sha_pad m = m @ 0x80 # replicate (pad_zeros (length m)) 0 @ be_bytes64 (of_nat (length m) * 8)"

lemma length_sha_pad [length_simps]:
  "length (sha_pad m) = 64 * (length m div 64 + (if 56 \<le> length m mod 64 then 1 else 0) + 1)"
proof -
  let ?q = "length m div 64" and ?r = "length m mod 64"
  have l: "length m = 64 * ?q + ?r" by simp
  have r: "?r < 64" by simp
  have "length (sha_pad m) = length m + 9 + pad_zeros (length m)"
    by (simp add: sha_pad_def)
  also have "\<dots> = 64 * ?q + (?r + 9 + pad_zeros (length m))" using l by linarith
  also have "?r + 9 + pad_zeros (length m) = (if 56 \<le> ?r then 128 else 64)"
    using r by (simp add: pad_zeros_def)
  finally show ?thesis by (simp add: algebra_simps)
qed

section \<open>Compression\<close>

definition block_words :: "bytes \<Rightarrow> u32 list" where
  "block_words b = map (\<lambda>k. from_be_bytes32 (b ! (4 * k)) (b ! (4 * k + 1))
                                 (b ! (4 * k + 2)) (b ! (4 * k + 3))) [0..<16]"

primrec sha_expand :: "nat \<Rightarrow> u32 list \<Rightarrow> u32 list" where
  "sha_expand 0 w = w"
| "sha_expand (Suc n) w =
     (let w' = sha_expand n w; t = length w' in
      w' @ [sha_sigma1 (w' ! (t - 2)) + w' ! (t - 7) + sha_sigma0 (w' ! (t - 15)) + w' ! (t - 16)])"

fun sha_round :: "u32 st8 \<Rightarrow> u32 \<times> u32 \<Rightarrow> u32 st8" where
  "sha_round (St8 a b c d e f g h) (k, w) =
     (let t1 = h + sha_Sigma1 e + sha_ch e f g + k + w;
          t2 = sha_Sigma0 a + sha_maj a b c
      in St8 (t1 + t2) a b c (d + t1) e f g)"

definition sha_compress :: "u32 st8 \<Rightarrow> bytes \<Rightarrow> u32 st8" where
  "sha_compress s b =
     st8_map2 (+) s (foldl sha_round s (zip ROUND_CONSTANTS (sha_expand 48 (block_words b))))"

definition sha_digest_bytes :: "u32 st8 \<Rightarrow> bytes" where
  "sha_digest_bytes s = concat (map be_bytes32 (st8_list s))"

definition sha256 :: "bytes \<Rightarrow> bytes" where
  "sha256 m = sha_digest_bytes (foldl sha_compress INITIAL_STATE (chunks 64 (sha_pad m)))"

lemma length_sha_digest_bytes [length_simps]: "length (sha_digest_bytes s) = 32"
  by (cases s) (simp add: sha_digest_bytes_def)

lemma length_sha256 [length_simps]: "length (sha256 m) = 32"
  by (simp add: sha256_def length_sha_digest_bytes)

lemma length_sha_expand [length_simps]: "length (sha_expand n w) = n + length w"
  by (induction n) (auto simp: Let_def)

lemma length_block_words [length_simps]: "length (block_words b) = 16"
  by (simp add: block_words_def)

section \<open>The constants are those of the standard\<close>

text \<open>
  \<open>c\<close> is the first 32 bits of the fractional part of the \<open>n\<close>-th root of \<open>p\<close>: with the integer
  part \<open>q\<close>, the number \<open>q 2\<^sup>3\<^sup>2 + c\<close> is the root of \<open>p 2\<^sup>3\<^sup>2\<^sup>n\<close> rounded down.
\<close>

definition root_fraction :: "nat \<Rightarrow> nat \<Rightarrow> nat \<Rightarrow> u32 \<Rightarrow> bool" where
  "root_fraction n p q c \<longleftrightarrow>
     (q * 2 ^ 32 + unat c) ^ n \<le> p * 2 ^ (32 * n) \<and>
     p * 2 ^ (32 * n) < (q * 2 ^ 32 + unat c + 1) ^ n"

definition first_primes :: "nat list" where
  "first_primes =
     [2, 3, 5, 7, 11, 13, 17, 19, 23, 29, 31, 37, 41, 43, 47, 53, 59, 61, 67, 71, 73, 79, 83, 89,
      97, 101, 103, 107, 109, 113, 127, 131, 137, 139, 149, 151, 157, 163, 167, 173, 179, 181,
      191, 193, 197, 199, 211, 223, 227, 229, 233, 239, 241, 251, 257, 263, 269, 271, 277, 281,
      283, 293, 307, 311]"

text \<open>The integer parts of the cube roots of the primes below 343 are between 1 and 6.\<close>

definition int_cube_root :: "nat \<Rightarrow> nat" where
  "int_cube_root p = (if p < 8 then 1 else if p < 27 then 2 else if p < 64 then 3
                      else if p < 125 then 4 else if p < 216 then 5 else 6)"

definition int_square_root :: "nat \<Rightarrow> nat" where
  "int_square_root p = (if p < 4 then 1 else if p < 9 then 2 else if p < 16 then 3 else 4)"

lemma sha256_constants_standard:
  "list_all2 (\<lambda>p. root_fraction 3 p (int_cube_root p)) first_primes ROUND_CONSTANTS"
  "list_all2 (\<lambda>p. root_fraction 2 p (int_square_root p)) (take 8 first_primes)
     (st8_list INITIAL_STATE)"
  by (simp_all add: ROUND_CONSTANTS_def INITIAL_STATE_def first_primes_def root_fraction_def
      int_cube_root_def int_square_root_def)

text \<open>The known answer of the standard for the message \<^verbatim>\<open>abc\<close>.\<close>

lemma sha256_abc:
  "sha256 [0x61, 0x62, 0x63] =
     [0xba, 0x78, 0x16, 0xbf, 0x8f, 0x01, 0xcf, 0xea, 0x41, 0x41, 0x40, 0xde, 0x5d, 0xae, 0x22, 0x23,
      0xb0, 0x03, 0x61, 0xa3, 0x96, 0x17, 0x7a, 0x9c, 0xb4, 0x10, 0xff, 0x61, 0xf2, 0x00, 0x15, 0xad]"
  by code_simp

section \<open>Properties\<close>

text \<open>The constants of both SHA-256 implementations are those of the standard: the round
  constants are the first 32 bits of the fractional parts of the cube roots of the first 64
  primes, the initial state of the square roots of the first eight.\<close>
lemma sha256_constants:
  "list_all2 (\<lambda>p. root_fraction 3 p (int_cube_root p)) first_primes ROUND_CONSTANTS \<and>
   list_all2 (\<lambda>p. root_fraction 2 p (int_square_root p)) (take 8 first_primes) (st8_list INITIAL_STATE)"
  using sha256_constants_standard by blast

end
