(* ===== verification/Simd_Sha256.thy ===== *)
theory Simd_Sha256
  imports Sha256
begin

text \<open>
  \<^verbatim>\<open>src/simd_sha256.rs\<close>: the eight-lane SHA-256 of the opt-in digest executor. The lane type
  \<^verbatim>\<open>wide::u32x8\<close> is a third-party package, so its operations are the fields of a record the
  definitions take as an argument; \<open>lanewise\<close> states what that package documents, that every
  operation acts on the eight lanes independently. The result is that each lane computes
  the SHA-256 of its own message.
\<close>

section \<open>The lane type\<close>

record 'v u32x8_ops =
  u32x8_splat :: "u32 \<Rightarrow> 'v"
  u32x8_new :: "u32 list \<Rightarrow> 'v"
  u32x8_to_array :: "'v \<Rightarrow> u32 list"
  u32x8_add :: "'v \<Rightarrow> 'v \<Rightarrow> 'v"
  u32x8_and :: "'v \<Rightarrow> 'v \<Rightarrow> 'v"
  u32x8_or :: "'v \<Rightarrow> 'v \<Rightarrow> 'v"
  u32x8_xor :: "'v \<Rightarrow> 'v \<Rightarrow> 'v"
  u32x8_not :: "'v \<Rightarrow> 'v"
  u32x8_shl :: "'v \<Rightarrow> nat \<Rightarrow> 'v"
  u32x8_shr :: "'v \<Rightarrow> nat \<Rightarrow> 'v"

definition LANES :: nat where "LANES = 8"
definition BLOCK_BYTES :: nat where "BLOCK_BYTES = 64"

definition lanewise :: "'v u32x8_ops \<Rightarrow> bool" where
  "lanewise ops \<longleftrightarrow>
     (\<forall>v. length (u32x8_to_array ops v) = LANES) \<and>
     (\<forall>w. u32x8_to_array ops (u32x8_splat ops w) = replicate LANES w) \<and>
     (\<forall>ws. length ws = LANES \<longrightarrow> u32x8_to_array ops (u32x8_new ops ws) = ws) \<and>
     (\<forall>a b. u32x8_to_array ops (u32x8_add ops a b) =
        map2 (+) (u32x8_to_array ops a) (u32x8_to_array ops b)) \<and>
     (\<forall>a b. u32x8_to_array ops (u32x8_and ops a b) =
        map2 (AND) (u32x8_to_array ops a) (u32x8_to_array ops b)) \<and>
     (\<forall>a b. u32x8_to_array ops (u32x8_or ops a b) =
        map2 (OR) (u32x8_to_array ops a) (u32x8_to_array ops b)) \<and>
     (\<forall>a b. u32x8_to_array ops (u32x8_xor ops a b) =
        map2 (XOR) (u32x8_to_array ops a) (u32x8_to_array ops b)) \<and>
     (\<forall>a. u32x8_to_array ops (u32x8_not ops a) = map NOT (u32x8_to_array ops a)) \<and>
     (\<forall>a n. n < 32 \<longrightarrow> u32x8_to_array ops (u32x8_shl ops a n) = map (push_bit n) (u32x8_to_array ops a)) \<and>
     (\<forall>a n. n < 32 \<longrightarrow> u32x8_to_array ops (u32x8_shr ops a n) = map (drop_bit n) (u32x8_to_array ops a))"

section \<open>The program\<close>

definition sha256_block_count :: "nat \<Rightarrow> nat" where
  "sha256_block_count input_len =
     input_len div BLOCK_BYTES + (if 56 \<le> input_len mod BLOCK_BYTES then 1 else 0) + 1"

definition fill_block :: "bytes \<Rightarrow> nat \<Rightarrow> nat \<Rightarrow> bytes" where
  "fill_block input block_index block_count =
     (let block = replicate BLOCK_BYTES 0;
          start = block_index * BLOCK_BYTES;
          block = (if start < length input
                   then (let byte_count = min (length input - start) BLOCK_BYTES
                         in take byte_count (drop start input) @ drop byte_count block)
                   else block);
          block = (if start \<le> length input \<and> length input < start + BLOCK_BYTES
                   then block[length input - start := 0x80]
                   else block)
      in if block_index + 1 = block_count
         then take (BLOCK_BYTES - 8) block @ be_bytes64 (of_nat (length input) * 8)
         else block)"

definition rotate_right_v :: "'v u32x8_ops \<Rightarrow> 'v \<Rightarrow> nat \<Rightarrow> 'v" where
  "rotate_right_v ops value cnt =
     u32x8_or ops (u32x8_shr ops value cnt) (u32x8_shl ops value (32 - cnt))"

definition choose_v :: "'v u32x8_ops \<Rightarrow> 'v \<Rightarrow> 'v \<Rightarrow> 'v \<Rightarrow> 'v" where
  "choose_v ops x y z = u32x8_xor ops (u32x8_and ops x y) (u32x8_and ops (u32x8_not ops x) z)"

definition majority_v :: "'v u32x8_ops \<Rightarrow> 'v \<Rightarrow> 'v \<Rightarrow> 'v \<Rightarrow> 'v" where
  "majority_v ops x y z =
     u32x8_xor ops (u32x8_xor ops (u32x8_and ops x y) (u32x8_and ops x z)) (u32x8_and ops y z)"

definition big_sigma_zero_v :: "'v u32x8_ops \<Rightarrow> 'v \<Rightarrow> 'v" where
  "big_sigma_zero_v ops v =
     u32x8_xor ops (u32x8_xor ops (rotate_right_v ops v 2) (rotate_right_v ops v 13))
       (rotate_right_v ops v 22)"

definition big_sigma_one_v :: "'v u32x8_ops \<Rightarrow> 'v \<Rightarrow> 'v" where
  "big_sigma_one_v ops v =
     u32x8_xor ops (u32x8_xor ops (rotate_right_v ops v 6) (rotate_right_v ops v 11))
       (rotate_right_v ops v 25)"

definition small_sigma_zero_v :: "'v u32x8_ops \<Rightarrow> 'v \<Rightarrow> 'v" where
  "small_sigma_zero_v ops v =
     u32x8_xor ops (u32x8_xor ops (rotate_right_v ops v 7) (rotate_right_v ops v 18))
       (u32x8_shr ops v 3)"

definition small_sigma_one_v :: "'v u32x8_ops \<Rightarrow> 'v \<Rightarrow> 'v" where
  "small_sigma_one_v ops v =
     u32x8_xor ops (u32x8_xor ops (rotate_right_v ops v 17) (rotate_right_v ops v 19))
       (u32x8_shr ops v 10)"

text \<open>The message schedule: 16 words read from the staged blocks, then the loop from 16 to 63.\<close>

definition schedule_word :: "'v u32x8_ops \<Rightarrow> bytes list \<Rightarrow> nat \<Rightarrow> 'v" where
  "schedule_word ops staged word_index =
     (let offset = word_index * 4 in
      u32x8_new ops (map (\<lambda>lane. from_be_bytes32 (staged ! lane ! offset) (staged ! lane ! (offset + 1))
         (staged ! lane ! (offset + 2)) (staged ! lane ! (offset + 3))) [0..<LANES]))"

definition schedule_step :: "'v u32x8_ops \<Rightarrow> 'v list \<Rightarrow> nat \<Rightarrow> 'v list" where
  "schedule_step ops schedule index =
     schedule[index :=
       u32x8_add ops
         (u32x8_add ops
           (u32x8_add ops (small_sigma_one_v ops (schedule ! (index - 2))) (schedule ! (index - 7)))
           (small_sigma_zero_v ops (schedule ! (index - 15))))
         (schedule ! (index - 16))]"

definition message_schedule :: "'v u32x8_ops \<Rightarrow> bytes list \<Rightarrow> 'v list" where
  "message_schedule ops staged =
     foldl (schedule_step ops)
       (map (schedule_word ops staged) [0..<16] @ replicate 48 (u32x8_splat ops 0)) [16..<64]"

fun hash_round :: "'v u32x8_ops \<Rightarrow> 'v list \<Rightarrow> 'v st8 \<Rightarrow> nat \<Rightarrow> 'v st8" where
  "hash_round ops schedule (St8 a b c d e f g h) index =
     (let first = u32x8_add ops (u32x8_add ops (u32x8_add ops (u32x8_add ops h
                    (big_sigma_one_v ops e)) (choose_v ops e f g))
                    (u32x8_splat ops (ROUND_CONSTANTS ! index))) (schedule ! index);
          second = u32x8_add ops (big_sigma_zero_v ops a) (majority_v ops a b c)
      in St8 (u32x8_add ops first second) a b c (u32x8_add ops d first) e f g)"

definition hash_block :: "'v u32x8_ops \<Rightarrow> bytes list \<Rightarrow> nat \<Rightarrow> 'v st8 \<Rightarrow> nat \<Rightarrow> 'v st8" where
  "hash_block ops inputs block_count state block_index =
     (let staged = map (\<lambda>input. fill_block input block_index block_count) inputs;
          schedule = message_schedule ops staged
      in st8_map2 (u32x8_add ops) state (foldl (hash_round ops schedule) state [0..<64]))"

definition hash_eight :: "'v u32x8_ops \<Rightarrow> bytes list \<Rightarrow> nat \<Rightarrow> bytes list" where
  "hash_eight ops inputs block_count =
     (let state = foldl (hash_block ops inputs block_count) (map_st8 (u32x8_splat ops) INITIAL_STATE)
                    [0..<block_count];
          state_words = st8_list (map_st8 (u32x8_to_array ops) state)
      in map (\<lambda>lane. concat (map (\<lambda>word_index. be_bytes32 (state_words ! word_index ! lane)) [0..<8]))
           [0..<LANES])"

text \<open>
  The outputs are a mutable slice: the model returns the flag together with the slice after
  the call. The two \<^verbatim>\<open>debug_assert\<close>s hold by the length check above them.
\<close>

definition hash_many_same_block_count ::
    "'v u32x8_ops \<Rightarrow> bytes list \<Rightarrow> bytes list \<Rightarrow> bool \<times> bytes list" where
  "hash_many_same_block_count ops inputs outputs =
     (if length inputs \<noteq> length outputs \<or> length inputs mod LANES \<noteq> 0 then (False, outputs)
      else if inputs = [] then (True, outputs)
      else (let block_count = sha256_block_count (length (inputs ! 0)) in
            if list_ex (\<lambda>input. sha256_block_count (length input) \<noteq> block_count) inputs
            then (False, outputs)
            else (True, concat (map2 (\<lambda>input_group output_group. hash_eight ops input_group block_count)
                          (chunks LANES inputs) (chunks LANES outputs)))))"

section \<open>One lane\<close>

definition lane :: "'v u32x8_ops \<Rightarrow> nat \<Rightarrow> 'v \<Rightarrow> u32" where
  "lane ops i v = u32x8_to_array ops v ! i"

lemma lane_ops:
  assumes "lanewise ops" "i < LANES"
  shows "lane ops i (u32x8_splat ops w) = w"
    and "length ws = LANES \<Longrightarrow> lane ops i (u32x8_new ops ws) = ws ! i"
    and "lane ops i (u32x8_add ops a b) = lane ops i a + lane ops i b"
    and "lane ops i (u32x8_and ops a b) = lane ops i a AND lane ops i b"
    and "lane ops i (u32x8_or ops a b) = lane ops i a OR lane ops i b"
    and "lane ops i (u32x8_xor ops a b) = lane ops i a XOR lane ops i b"
    and "lane ops i (u32x8_not ops a) = NOT (lane ops i a)"
    and "n < 32 \<Longrightarrow> lane ops i (u32x8_shl ops a n) = push_bit n (lane ops i a)"
    and "n < 32 \<Longrightarrow> lane ops i (u32x8_shr ops a n) = drop_bit n (lane ops i a)"
  using assms by (auto simp: lanewise_def lane_def)

lemma word_rotr_shifts:
  assumes "0 < n" "n < 32"
  shows "word_rotr n (w :: u32) = drop_bit n w OR push_bit (32 - n) w"
proof (rule bit_word_eqI)
  fix k
  assume "k < LENGTH(32)"
  then have k: "k < 32" by simp
  have high: "bit w m \<Longrightarrow> m < 32" for m using bit_imp_le_length [of w m] by simp
  show "bit (word_rotr n w) k = bit (drop_bit n w OR push_bit (32 - n) w) k"
  proof (cases "k + n < 32")
    case True
    then have "(k + n) mod 32 = k + n" "k < 32 - n" by simp_all
    with k show ?thesis by (auto simp: bit_word_rotr_iff bit_simps add.commute)
  next
    case False
    then have "(k + n) mod 32 = k - (32 - n)" "\<not> bit w (n + k)"
      using k assms(2) le_mod_geq [of 32 "k + n"] high [of "n + k"] by auto
    with False k assms(2) show ?thesis by (auto simp: bit_word_rotr_iff bit_simps)
  qed
qed

lemma lane_rotate:
  "lanewise ops \<Longrightarrow> i < LANES \<Longrightarrow> 0 < n \<Longrightarrow> n < 32 \<Longrightarrow>
     lane ops i (rotate_right_v ops v n) = word_rotr n (lane ops i v)"
  by (simp add: rotate_right_v_def lane_ops word_rotr_shifts)

lemma lane_functions:
  assumes "lanewise ops" "i < LANES"
  shows "lane ops i (choose_v ops x y z) = sha_ch (lane ops i x) (lane ops i y) (lane ops i z)"
    and "lane ops i (majority_v ops x y z) = sha_maj (lane ops i x) (lane ops i y) (lane ops i z)"
    and "lane ops i (big_sigma_zero_v ops x) = sha_Sigma0 (lane ops i x)"
    and "lane ops i (big_sigma_one_v ops x) = sha_Sigma1 (lane ops i x)"
    and "lane ops i (small_sigma_zero_v ops x) = sha_sigma0 (lane ops i x)"
    and "lane ops i (small_sigma_one_v ops x) = sha_sigma1 (lane ops i x)"
  using assms
  by (simp_all add: choose_v_def majority_v_def big_sigma_zero_v_def big_sigma_one_v_def
      small_sigma_zero_v_def small_sigma_one_v_def sha_ch_def sha_maj_def sha_Sigma0_def
      sha_Sigma1_def sha_sigma0_def sha_sigma1_def lane_ops lane_rotate xor.assoc)

lemma lane_schedule_word:
  assumes "lanewise ops" "i < LANES" "k < 16"
  shows "lane ops i (schedule_word ops staged k) = block_words (staged ! i) ! k"
  using assms
  by (simp add: schedule_word_def Let_def lane_ops block_words_def mult.commute)

lemma length_schedule_step: "length (schedule_step ops s k) = length s"
  by (simp add: schedule_step_def)

lemma take_schedule_step: "take k (schedule_step ops s k) = take k s"
  by (simp add: schedule_step_def)

text \<open>
  The schedule loop writes index \<open>t\<close> in step \<open>t\<close>, so after the steps \<open>16..<16 + n\<close> the first
  \<open>16 + n\<close> words of a lane are the expansion of its block by \<open>n\<close> words.
\<close>

lemma schedule_loop:
  fixes ops :: "'v u32x8_ops" and staged :: "bytes list"
  assumes "lanewise ops" "i < LANES" "n \<le> 48"
  defines "s0 \<equiv> map (schedule_word ops staged) [0..<16] @ replicate 48 (u32x8_splat ops 0)"
  shows "length (foldl (schedule_step ops) s0 [16..<16 + n]) = 64 \<and>
    map (lane ops i) (take (16 + n) (foldl (schedule_step ops) s0 [16..<16 + n]))
      = sha_expand n (block_words (staged ! i))"
  using assms(3)
proof (induction n)
  case 0
  have "map (lane ops i) (take 16 s0) = map (\<lambda>k. block_words (staged ! i) ! k) [0..<16]"
    using assms(1,2) by (auto simp: s0_def lane_schedule_word)
  also have "\<dots> = block_words (staged ! i)"
    by (metis length_block_words map_nth)
  finally show ?case by (simp add: s0_def)
next
  case (Suc n)
  let ?s = "foldl (schedule_step ops) s0 [16..<16 + n]"
  let ?e = "sha_expand n (block_words (staged ! i))"
  have len: "length ?s = 64" and eq: "map (lane ops i) (take (16 + n) ?s) = ?e"
    using Suc by auto
  have le: "length ?e = 16 + n" by (simp add: length_simps)
  have at: "lane ops i (?s ! k) = ?e ! k" if "k < 16 + n" for k
    using that len Suc.prems by (simp flip: eq)
  have step: "foldl (schedule_step ops) s0 [16..<16 + Suc n] = schedule_step ops ?s (16 + n)"
    by (simp only: add_Suc_right upt_Suc le_add1 if_True foldl_append foldl.simps)
  have idx: "16 + n < 64" using Suc.prems by simp
  have "take (16 + Suc n) (schedule_step ops ?s (16 + n))
      = take (16 + n) ?s @ [schedule_step ops ?s (16 + n) ! (16 + n)]"
    using idx len
    by (simp only: add_Suc_right) (simp only: take_Suc_conv_app_nth length_schedule_step take_schedule_step)
  moreover have "lane ops i (schedule_step ops ?s (16 + n) ! (16 + n))
      = sha_sigma1 (?e ! (16 + n - 2)) + ?e ! (16 + n - 7) + sha_sigma0 (?e ! (16 + n - 15))
        + ?e ! (16 + n - 16)"
    using idx len assms(1,2) by (simp add: schedule_step_def lane_ops lane_functions at)
  ultimately have "map (lane ops i) (take (16 + Suc n) (schedule_step ops ?s (16 + n)))
      = sha_expand (Suc n) (block_words (staged ! i))"
    using eq by (simp add: Let_def le)
  then show ?case unfolding step using len by (simp only: length_schedule_step)
qed

lemma lane_message_schedule:
  assumes "lanewise ops" "i < LANES"
  shows "length (message_schedule ops staged) = 64"
    and "map (lane ops i) (message_schedule ops staged) = sha_expand 48 (block_words (staged ! i))"
proof -
  have "(16 :: nat) + 48 = 64" by simp
  from schedule_loop [OF assms order_refl, of staged, unfolded this]
  have "length (message_schedule ops staged) = 64 \<and>
      map (lane ops i) (take 64 (message_schedule ops staged)) = sha_expand 48 (block_words (staged ! i))"
    unfolding message_schedule_def .
  then show "length (message_schedule ops staged) = 64"
    "map (lane ops i) (message_schedule ops staged) = sha_expand 48 (block_words (staged ! i))"
    by auto
qed

lemma lane_round:
  assumes "lanewise ops" "i < LANES" "k < 64"
  shows "map_st8 (lane ops i) (hash_round ops schedule s k)
    = sha_round (map_st8 (lane ops i) s) (ROUND_CONSTANTS ! k, lane ops i (schedule ! k))"
  using assms by (cases s) (simp add: Let_def lane_ops lane_functions)

lemma lane_rounds:
  assumes "lanewise ops" "i < LANES" "length schedule = 64"
  shows "map_st8 (lane ops i) (foldl (hash_round ops schedule) s [0..<64])
    = foldl sha_round (map_st8 (lane ops i) s) (zip ROUND_CONSTANTS (map (lane ops i) schedule))"
proof -
  have "map_st8 (lane ops i) (foldl (hash_round ops schedule) s [0..<n])
      = foldl sha_round (map_st8 (lane ops i) s)
          (map (\<lambda>k. (ROUND_CONSTANTS ! k, lane ops i (schedule ! k))) [0..<n])" if "n \<le> 64" for n
    using that assms by (induction n) (auto simp: lane_round)
  moreover have "zip ROUND_CONSTANTS (map (lane ops i) schedule)
      = map (\<lambda>k. (ROUND_CONSTANTS ! k, lane ops i (schedule ! k))) [0..<64]"
    using assms(3) by (intro nth_equalityI) (auto simp: length_ROUND_CONSTANTS)
  ultimately show ?thesis by simp
qed

lemma map_st8_map2:
  assumes "lanewise ops" "i < LANES"
  shows "map_st8 (lane ops i) (st8_map2 (u32x8_add ops) s t)
    = st8_map2 (+) (map_st8 (lane ops i) s) (map_st8 (lane ops i) t)"
  using assms by (cases s; cases t) (simp add: lane_ops)

lemma lane_hash_block:
  assumes "lanewise ops" "i < LANES" "length inputs = LANES"
  shows "map_st8 (lane ops i) (hash_block ops inputs n s k)
    = sha_compress (map_st8 (lane ops i) s) (fill_block (inputs ! i) k n)"
  using assms
  by (simp add: hash_block_def Let_def map_st8_map2 lane_rounds lane_message_schedule sha_compress_def)

section \<open>The staged blocks are the padded message\<close>

lemma sha_pad_blocks: "length (sha_pad m) = 64 * sha256_block_count (length m)"
  by (simp add: length_sha_pad sha256_block_count_def BLOCK_BYTES_def)

lemma length_fill_block [length_simps]: "length (fill_block m k n) = 64"
  by (simp add: fill_block_def Let_def BLOCK_BYTES_def)

text \<open>Byte \<open>j\<close> of block \<open>k\<close> before the length is written.\<close>

lemma fill_block_byte:
  assumes "j < 64" "k + 1 \<noteq> n \<or> j < 56"
  shows "fill_block m k n ! j =
    (if 64 * k + j < length m then m ! (64 * k + j) else if 64 * k + j = length m then 0x80 else 0)"
proof -
  let ?L = "length m"
  let ?b1 = "if k * 64 < ?L
     then take (min (?L - k * 64) 64) (drop (k * 64) m) @ drop (min (?L - k * 64) 64) (replicate 64 0)
     else replicate 64 (0 :: u8)"
  have len: "length ?b1 = 64" by simp
  have b1: "?b1 ! j = (if 64 * k + j < ?L then m ! (64 * k + j) else 0)"
    using assms(1) by (auto simp: nth_append mult.commute)
  have "fill_block m k n ! j =
    (if k * 64 \<le> ?L \<and> ?L < k * 64 + 64 then ?b1[?L - k * 64 := 0x80] else ?b1) ! j"
    using assms len by (auto simp: fill_block_def Let_def BLOCK_BYTES_def nth_append)
  also have "\<dots> = (if k * 64 \<le> ?L \<and> ?L < k * 64 + 64 \<and> j = ?L - k * 64 then 0x80 else ?b1 ! j)"
    using assms(1) len by (auto simp: nth_list_update)
  also have "\<dots> = (if 64 * k + j < ?L then m ! (64 * k + j)
      else if 64 * k + j = ?L then 0x80 else 0)"
    unfolding b1 using assms(1) by (auto simp: mult.commute)
  finally show ?thesis .
qed

lemma sha_pad_byte:
  assumes "p < length (sha_pad m) - 8"
  shows "sha_pad m ! p = (if p < length m then m ! p else if p = length m then 0x80 else 0)"
proof -
  have "p < length m + 1 + pad_zeros (length m)"
    using assms by (simp add: sha_pad_def)
  then show ?thesis
    by (auto simp: sha_pad_def nth_append nth_Cons')
qed

lemma sha_pad_length_bytes:
  "drop (length (sha_pad m) - 8) (sha_pad m) = be_bytes64 (of_nat (length m) * 8)"
  by (simp add: sha_pad_def)

lemma fill_block_pad:
  assumes "k < n" "n = sha256_block_count (length m)"
  shows "fill_block m k n = take 64 (drop (64 * k) (sha_pad m))"
proof (rule nth_equalityI)
  have L: "length (sha_pad m) = 64 * n" using assms sha_pad_blocks by simp
  then have "64 * k + 64 \<le> length (sha_pad m)" using assms(1) by simp
  then show "length (fill_block m k n) = length (take 64 (drop (64 * k) (sha_pad m)))"
    by (simp add: length_fill_block)
  fix j assume "j < length (fill_block m k n)"
  then have j: "j < 64" by (simp add: length_fill_block)
  have rhs: "take 64 (drop (64 * k) (sha_pad m)) ! j = sha_pad m ! (64 * k + j)"
    using j \<open>64 * k + 64 \<le> length (sha_pad m)\<close> by simp
  show "fill_block m k n ! j = take 64 (drop (64 * k) (sha_pad m)) ! j"
  proof (cases "k + 1 \<noteq> n \<or> j < 56")
    case True
    then have "64 * k + j < 64 * n - 8" using assms(1) j by auto
    then show ?thesis
      unfolding rhs fill_block_byte [OF j True]
      using sha_pad_byte [of "64 * k + j" m] L by simp
  next
    case False
    then have last: "k + 1 = n" "56 \<le> j" by auto
    then have "64 * k + j = length (sha_pad m) - 8 + (j - 56)" using L by auto
    moreover have "length (sha_pad m) - 8 + (j - 56) < length (sha_pad m)"
      using L last(1) j by auto
    ultimately have "sha_pad m ! (64 * k + j) = be_bytes64 (of_nat (length m) * 8) ! (j - 56)"
      using sha_pad_length_bytes [of m] by (metis nth_drop le_add1 diff_le_self)
    moreover have "fill_block m k n ! j = be_bytes64 (of_nat (length m) * 8) ! (j - 56)"
      using last j by (auto simp: fill_block_def Let_def BLOCK_BYTES_def nth_append)
    ultimately show ?thesis unfolding rhs by simp
  qed
qed

lemma fill_blocks_pad:
  "n = sha256_block_count (length m) \<Longrightarrow>
     map (\<lambda>k. fill_block m k n) [0..<n] = chunks 64 (sha_pad m)"
  using sha_pad_blocks [of m] by (simp add: chunks_nth fill_block_pad)

section \<open>Every lane computes SHA-256\<close>

lemma hash_eight_state:
  assumes "lanewise ops" "i < LANES" "length inputs = LANES"
  shows "map_st8 (lane ops i) (foldl (hash_block ops inputs n) s ks)
    = foldl sha_compress (map_st8 (lane ops i) s) (map (\<lambda>k. fill_block (inputs ! i) k n) ks)"
  using assms by (induction ks arbitrary: s) (auto simp: lane_hash_block)

lemma state_words_lane:
  "concat (map (\<lambda>k. be_bytes32 (st8_list (map_st8 (u32x8_to_array ops) s) ! k ! i)) [0..<8])
     = sha_digest_bytes (map_st8 (lane ops i) s)"
  by (cases s) (simp add: sha_digest_bytes_def lane_def upt_rec)

lemma hash_eight_sha256:
  assumes "lanewise ops" "length inputs = LANES"
    and "\<forall>m \<in> set inputs. sha256_block_count (length m) = n"
  shows "hash_eight ops inputs n = map sha256 inputs"
proof (rule nth_equalityI)
  show "length (hash_eight ops inputs n) = length (map sha256 inputs)"
    using assms(2) by (simp add: hash_eight_def Let_def)
  fix i assume "i < length (hash_eight ops inputs n)"
  then have i: "i < LANES" by (simp add: hash_eight_def Let_def)
  have n: "n = sha256_block_count (length (inputs ! i))" using assms(2,3) i by auto
  have init: "map_st8 (lane ops i) (map_st8 (u32x8_splat ops) INITIAL_STATE) = INITIAL_STATE"
    using assms(1) i by (simp add: INITIAL_STATE_def lane_ops)
  have "hash_eight ops inputs n ! i
      = sha_digest_bytes (foldl sha_compress INITIAL_STATE
          (map (\<lambda>k. fill_block (inputs ! i) k n) [0..<n]))"
    using assms(1,2) i
    by (simp add: hash_eight_def Let_def state_words_lane hash_eight_state init)
  also have "\<dots> = sha256 (inputs ! i)" by (simp add: fill_blocks_pad [OF n] sha256_def)
  finally show "hash_eight ops inputs n ! i = map sha256 inputs ! i" using i assms(2) by simp
qed

text \<open>A group that does not meet the grouping contract is refused and nothing is written.\<close>

definition grouping_contract :: "bytes list \<Rightarrow> bytes list \<Rightarrow> bool" where
  "grouping_contract inputs outputs \<longleftrightarrow>
     length inputs = length outputs \<and> LANES dvd length inputs \<and>
     (\<forall>m \<in> set inputs. \<forall>m' \<in> set inputs.
        sha256_block_count (length m) = sha256_block_count (length m'))"

lemma length_chunks_eq: "0 < n \<Longrightarrow> n dvd length xs \<Longrightarrow> length (chunks n xs) = length xs div n"
  using chunks_nth [of n xs "length xs div n"] by simp

lemma map2_ignore_second: "length xs = length ys \<Longrightarrow> map2 (\<lambda>x y. f x) xs ys = map f xs"
  by (induction xs ys rule: list_induct2) auto

lemma hash_many_groups:
  assumes "lanewise ops" "LANES dvd length inputs" "length inputs = length outputs"
    and "\<forall>m \<in> set inputs. sha256_block_count (length m) = n"
  shows "concat (map2 (\<lambda>ig og. hash_eight ops ig n) (chunks LANES inputs) (chunks LANES outputs))
    = map sha256 inputs"
proof -
  have L: "0 < LANES" by (simp add: LANES_def)
  have "length (chunks LANES inputs) = length (chunks LANES outputs)"
    using assms(2,3) L by (simp add: length_chunks_eq)
  then have "map2 (\<lambda>ig og. hash_eight ops ig n) (chunks LANES inputs) (chunks LANES outputs)
      = map (\<lambda>ig. hash_eight ops ig n) (chunks LANES inputs)"
    by (rule map2_ignore_second)
  also have "\<dots> = map (map sha256) (chunks LANES inputs)"
  proof (rule map_cong [OF refl])
    fix g assume "g \<in> set (chunks LANES inputs)"
    then have "length g = LANES" "set g \<subseteq> set inputs"
      using chunks_group_lengths [OF L assms(2)] by auto
    then show "hash_eight ops g n = map sha256 g"
      using assms(1,4) by (intro hash_eight_sha256) auto
  qed
  finally show ?thesis using map_concat_chunks [OF L] by metis
qed

lemma hash_many_spec:
  assumes "lanewise ops"
  shows "hash_many_same_block_count ops inputs outputs =
    (if grouping_contract inputs outputs then (True, map sha256 inputs) else (False, outputs))"
proof (cases "length inputs = length outputs \<and> LANES dvd length inputs \<and> inputs \<noteq> []")
  case True
  let ?n = "sha256_block_count (length (inputs ! 0))"
  have mem: "inputs ! 0 \<in> set inputs" using True by (cases inputs) auto
  have iff: "grouping_contract inputs outputs \<longleftrightarrow>
      (\<forall>m \<in> set inputs. sha256_block_count (length m) = ?n)"
    using True mem unfolding grouping_contract_def by metis
  show ?thesis
    using True hash_many_groups [OF assms, of inputs outputs ?n]
    by (auto simp: hash_many_same_block_count_def Let_def list_ex_iff iff dvd_eq_mod_eq_0)
next
  case False
  then show ?thesis
    by (auto simp: hash_many_same_block_count_def grouping_contract_def dvd_eq_mod_eq_0 Let_def)
qed

section \<open>Properties\<close>

text \<open>A concrete lane type: a vector is a function from lane numbers to words.\<close>

definition lane_array_ops :: "(nat \<Rightarrow> u32) u32x8_ops" where
  "lane_array_ops =
     \<lparr> u32x8_splat = (\<lambda>w _. w), u32x8_new = (\<lambda>ws i. ws ! i), u32x8_to_array = (\<lambda>v. map v [0..<8]),
       u32x8_add = (\<lambda>a b i. a i + b i), u32x8_and = (\<lambda>a b i. a i AND b i),
       u32x8_or = (\<lambda>a b i. a i OR b i), u32x8_xor = (\<lambda>a b i. a i XOR b i),
       u32x8_not = (\<lambda>a i. NOT (a i)), u32x8_shl = (\<lambda>a n i. push_bit n (a i)),
       u32x8_shr = (\<lambda>a n i. drop_bit n (a i)) \<rparr>"

lemma lanewise_lane_array_ops: "lanewise lane_array_ops"
proof -
  have "map ((!) ws) [0..<8] = ws" if "length ws = 8" for ws :: "u32 list"
    using that by (metis map_nth)
  moreover have "map (\<lambda>_. w) [0..<8] = replicate 8 w" for w :: u32
    by (simp add: map_replicate_const)
  moreover have "map2 p (map a [0..<8]) (map b [0..<8]) = map (\<lambda>i. p (a i) (b i)) [0..<8]"
    for p :: "u32 \<Rightarrow> u32 \<Rightarrow> u32" and a b :: "nat \<Rightarrow> u32"
    by (simp add: zip_map_map zip_same_conv_map comp_def del: upt_rec_numeral)
  ultimately show ?thesis
    by (simp add: lanewise_def lane_array_ops_def LANES_def comp_def del: upt_rec_numeral)
qed

text \<open>Grouping contract of the SIMD hash: a call whose inputs and outputs have equal
  lengths, whose length is a multiple of eight and whose messages have one padded block count
  writes the SHA-256 of every message in its place; every other call is refused and leaves the
  outputs as they were.\<close>
lemma hash_many_contract:
  assumes "lanewise ops"
  shows "hash_many_same_block_count ops inputs outputs =
    (if grouping_contract inputs outputs then (True, map sha256 inputs) else (False, outputs))"
  by (rule hash_many_spec [OF assms])

lemma hash_many_contract_witness:
  "hash_many_same_block_count lane_array_ops (replicate 8 [1, 2, 3]) (replicate 8 [])
     = (True, replicate 8 (sha256 [1, 2, 3])) \<and>
   hash_many_same_block_count lane_array_ops [[1]] [[7]] = (False, [[7]])"
proof -
  have "grouping_contract (replicate 8 [1, 2, 3]) (replicate 8 [])"
    "\<not> grouping_contract [[1]] [[7]]"
    by (simp_all add: grouping_contract_def LANES_def)
  then show ?thesis
    using hash_many_contract [OF lanewise_lane_array_ops, of "replicate 8 [1, 2, 3]" "replicate 8 []"]
      hash_many_contract [OF lanewise_lane_array_ops, of "[[1]]" "[[7]]"] by simp
qed

end
