(* ===== verification/BTree_Map.thy ===== *)
theory BTree_Map
  imports Prelude
begin

text \<open>
  The part of \<^verbatim>\<open>std::collections::BTreeMap\<close> the program uses, as association lists kept
  strictly sorted by key, so that iteration is in key order as in Rust. The locale
  \<open>ordered_map\<close> is the interface the clients rely on; \<open>btm\<close> interprets it on the lists.
  Non-empty maps and vectors (\<^verbatim>\<open>src/definitions/helpers\<close>) are built on top.
\<close>

type_synonym ('k, 'v) btree_map = "('k \<times> 'v) list"

definition bt_wf :: "('k::linorder, 'v) btree_map \<Rightarrow> bool" where
  "bt_wf m \<longleftrightarrow> sorted_wrt (<) (map fst m)"

definition bt_get :: "('k, 'v) btree_map \<Rightarrow> 'k \<Rightarrow> 'v option" where
  "bt_get m k = map_of m k"

fun bt_insert :: "'k::linorder \<Rightarrow> 'v \<Rightarrow> ('k, 'v) btree_map \<Rightarrow> ('k, 'v) btree_map" where
  "bt_insert k v [] = [(k, v)]"
| "bt_insert k v ((k', v') # m) =
     (if k < k' then (k, v) # (k', v') # m
      else if k = k' then (k, v) # m
      else (k', v') # bt_insert k v m)"

fun bt_remove :: "'k \<Rightarrow> ('k, 'v) btree_map \<Rightarrow> ('k, 'v) btree_map" where
  "bt_remove k [] = []"
| "bt_remove k ((k', v') # m) = (if k = k' then m else (k', v') # bt_remove k m)"

text \<open>\<^verbatim>\<open>collect::<BTreeMap<_, _>>()\<close>: later entries replace earlier ones with the same key.\<close>

definition bt_of_list :: "('k::linorder \<times> 'v) list \<Rightarrow> ('k, 'v) btree_map" where
  "bt_of_list xs = foldl (\<lambda>m (k, v). bt_insert k v m) [] xs"

definition bt_contains_key :: "('k, 'v) btree_map \<Rightarrow> 'k \<Rightarrow> bool" where
  "bt_contains_key m k \<longleftrightarrow> bt_get m k \<noteq> None"

section \<open>The interface\<close>

lemma key_unique:
  "distinct (map fst xs) \<Longrightarrow> p \<in> set xs \<Longrightarrow> q \<in> set xs \<Longrightarrow> fst p = fst q \<Longrightarrow> snd p = snd q"
  by (metis eq_key_imp_eq_value prod.collapse)

locale ordered_map =
  fixes empty :: "'m"
    and insert :: "'k::linorder \<Rightarrow> 'v \<Rightarrow> 'm \<Rightarrow> 'm"
    and remove :: "'k \<Rightarrow> 'm \<Rightarrow> 'm"
    and get :: "'m \<Rightarrow> 'k \<Rightarrow> 'v option"
    and items :: "'m \<Rightarrow> ('k \<times> 'v) list"
    and wf :: "'m \<Rightarrow> bool"
  assumes wf_empty: "wf empty"
    and wf_insert: "wf m \<Longrightarrow> wf (insert k v m)"
    and wf_remove: "wf m \<Longrightarrow> wf (remove k m)"
    and get_empty: "get empty = Map.empty"
    and get_insert: "wf m \<Longrightarrow> get (insert k v m) = (get m)(k \<mapsto> v)"
    and get_remove: "wf m \<Longrightarrow> get (remove k m) = (get m)(k := None)"
    and items_get: "wf m \<Longrightarrow> map_of (items m) = get m"
    and items_sorted: "wf m \<Longrightarrow> sorted_wrt (<) (map fst (items m))"
    and items_inj: "wf m \<Longrightarrow> wf m' \<Longrightarrow> items m = items m' \<Longrightarrow> m = m'"
begin

definition insert_all :: "('k \<times> 'v) list \<Rightarrow> 'm \<Rightarrow> 'm" where
  "insert_all xs m = foldl (\<lambda>m (k, v). insert k v m) m xs"

lemma insert_all_Nil: "insert_all [] m = m"
  by (simp add: insert_all_def)

lemma insert_all_Cons: "insert_all ((k, v) # xs) m = insert_all xs (insert k v m)"
  by (simp add: insert_all_def)

lemma items_distinct: "wf m \<Longrightarrow> distinct (map fst (items m))"
  using items_sorted strict_sorted_iff by blast

lemma map_ext:
  assumes "wf m" "wf m'" "get m = get m'"
  shows "m = m'"
proof (rule items_inj [OF assms(1,2)])
  have "map_of (items m) = map_of (items m')"
    using assms items_get by metis
  then have set: "set (items m) = set (items m')"
    using items_distinct assms by (metis map_of_inject_set)
  have keys: "map fst (items m) = map fst (items m')"
  proof (rule sorted_distinct_set_unique)
    show "sorted (map fst (items m))" "sorted (map fst (items m'))"
      using items_sorted assms strict_sorted_iff by blast+
    show "distinct (map fst (items m))" "distinct (map fst (items m'))"
      using items_distinct assms by blast+
    show "set (map fst (items m)) = set (map fst (items m'))"
      using set by simp
  qed
  have len: "length (items m) = length (items m')"
    using keys by (metis length_map)
  show "items m = items m'"
  proof (rule nth_equalityI [OF len])
    fix i assume i: "i < length (items m)"
    let ?p = "items m ! i" and ?q = "items m' ! i"
    have "map fst (items m) ! i = map fst (items m') ! i" using keys by simp
    then have fst: "fst ?p = fst ?q" using i len by simp
    have p: "?p \<in> set (items m')" using set i nth_mem by blast
    have q: "?q \<in> set (items m')" using i len by simp
    have "snd ?p = snd ?q" using items_distinct [OF assms(2)] p q fst by (rule key_unique)
    with fst show "?p = ?q" by (rule prod_eqI)
  qed
qed

lemma insert_commute:
  "wf m \<Longrightarrow> k \<noteq> l \<Longrightarrow> insert k v (insert l w m) = insert l w (insert k v m)"
  by (rule map_ext) (auto simp: wf_insert get_insert)

lemma remove_insert_same: "wf m \<Longrightarrow> get m k = None \<Longrightarrow> remove k (insert k v m) = m"
  by (rule map_ext) (auto simp: wf_insert wf_remove get_insert get_remove)

lemma remove_insert_other:
  "wf m \<Longrightarrow> k \<noteq> l \<Longrightarrow> remove k (insert l v m) = insert l v (remove k m)"
  by (rule map_ext) (auto simp: wf_insert wf_remove get_insert get_remove)

lemma wf_insert_all: "wf m \<Longrightarrow> wf (insert_all xs m)"
  by (induction xs arbitrary: m) (auto simp: insert_all_Nil insert_all_Cons wf_insert)

lemma get_insert_all: "wf m \<Longrightarrow> get (insert_all xs m) = get m ++ map_of (rev xs)"
  by (induction xs arbitrary: m)
    (auto simp: insert_all_Nil insert_all_Cons wf_insert get_insert map_add_def fun_eq_iff
      split: option.splits)

text \<open>Entries with distinct keys can be inserted in any order.\<close>

lemma insert_all_perm:
  assumes "wf m" "distinct (map fst xs)" "mset xs = mset ys"
  shows "insert_all xs m = insert_all ys m"
proof (rule map_ext)
  have "distinct (map fst (rev xs))" "distinct (map fst (rev ys))"
    using assms(2,3) distinct_map_mset [OF assms(3), of fst] by (simp_all add: rev_map [symmetric])
  moreover have "set (rev xs) = set (rev ys)" using assms(3) by (metis set_mset_mset set_rev)
  ultimately have "map_of (rev xs) = map_of (rev ys)" by (metis map_of_inject_set)
  then show "get (insert_all xs m) = get (insert_all ys m)"
    using assms(1) by (simp add: get_insert_all)
qed (simp_all add: wf_insert_all assms(1))

lemma items_empty_iff: "wf m \<Longrightarrow> items m = [] \<longleftrightarrow> get m = Map.empty"
  using items_get by (metis map_of_eq_empty_iff)

lemma items_mem_iff: "wf m \<Longrightarrow> (k, v) \<in> set (items m) \<longleftrightarrow> get m k = Some v"
  using items_get items_distinct by (metis map_of_eq_Some_iff)

end

section \<open>Sorted association lists implement it\<close>

lemma bt_wf_Nil: "bt_wf []"
  by (simp add: bt_wf_def)

lemma fst_bt_insert: "fst ` set (bt_insert k v m) = insert k (fst ` set m)"
  by (induction k v m rule: bt_insert.induct) auto

lemma fst_bt_remove: "fst ` set (bt_remove k m) \<subseteq> fst ` set m"
  by (induction k m rule: bt_remove.induct) auto

lemma bt_wf_insert: "bt_wf m \<Longrightarrow> bt_wf (bt_insert k v m)"
proof (induction k v m rule: bt_insert.induct)
  case (1 k v)
  then show ?case by (simp add: bt_wf_def)
next
  case (2 k v k' v' m)
  then have tail: "\<forall>x \<in> fst ` set m. k' < x" "bt_wf m" by (auto simp: bt_wf_def)
  show ?case
  proof (cases "k < k'")
    case True
    with 2 tail show ?thesis by (auto simp: bt_wf_def)
  next
    case False
    show ?thesis
    proof (cases "k = k'")
      case True
      with 2 show ?thesis by (simp add: bt_wf_def)
    next
      case neq: False
      with False have "k' < k" by simp
      moreover have "bt_wf (bt_insert k v m)" using 2(1) False neq tail(2) by simp
      ultimately show ?thesis
        using False neq tail(1) fst_bt_insert [of k v m]
        by (auto simp: bt_wf_def)
    qed
  qed
qed

lemma bt_wf_remove: "bt_wf m \<Longrightarrow> bt_wf (bt_remove k m)"
proof (induction k m rule: bt_remove.induct)
  case (1 k)
  then show ?case by (simp add: bt_wf_def)
next
  case (2 k k' v' m)
  then have "\<forall>x \<in> fst ` set (bt_remove k m). k' < x"
    using fst_bt_remove [of k m] by (fastforce simp: bt_wf_def)
  with 2 show ?case by (auto simp: bt_wf_def)
qed

lemma bt_get_insert: "bt_get (bt_insert k v m) = (bt_get m)(k \<mapsto> v)"
  by (induction k v m rule: bt_insert.induct) (auto simp: bt_get_def fun_eq_iff)

lemma bt_get_remove: "bt_wf m \<Longrightarrow> bt_get (bt_remove k m) = (bt_get m)(k := None)"
proof (induction k m rule: bt_remove.induct)
  case (1 k)
  then show ?case by (simp add: bt_get_def fun_eq_iff)
next
  case (2 k k' v' m)
  then have "k' \<notin> fst ` set m" by (auto simp: bt_wf_def)
  then have "map_of m k' = None" by (simp add: map_of_eq_None_iff)
  with 2 show ?case by (auto simp: bt_wf_def bt_get_def fun_eq_iff)
qed

interpretation btm: ordered_map "[]" bt_insert bt_remove bt_get "\<lambda>m. m" bt_wf
proof
  show "bt_wf []" by (rule bt_wf_Nil)
  show "bt_get [] = Map.empty" by (simp add: bt_get_def fun_eq_iff)
  show "bt_wf (bt_insert k v m)" if "bt_wf m" for m :: "('a, 'b) btree_map" and k v
    using that by (rule bt_wf_insert)
  show "bt_wf (bt_remove k m)" if "bt_wf m" for m :: "('a, 'b) btree_map" and k
    using that by (rule bt_wf_remove)
  show "bt_get (bt_insert k v m) = (bt_get m)(k \<mapsto> v)" for m :: "('a, 'b) btree_map" and k v
    by (rule bt_get_insert)
  show "bt_get (bt_remove k m) = (bt_get m)(k := None)" if "bt_wf m" for m :: "('a, 'b) btree_map" and k
    using that by (rule bt_get_remove)
  show "map_of m = bt_get m" for m :: "('a, 'b) btree_map"
    by (simp add: bt_get_def fun_eq_iff)
  show "sorted_wrt (<) (map fst m)" if "bt_wf m" for m :: "('a, 'b) btree_map"
    using that by (simp add: bt_wf_def)
qed

lemma map_of_rev_distinct: "distinct (map fst xs) \<Longrightarrow> map_of (rev xs) = map_of xs"
proof -
  assume d: "distinct (map fst xs)"
  then have "distinct (map fst (rev xs))" by (simp add: rev_map [symmetric])
  with d show ?thesis using map_of_inject_set [of "rev xs" xs] by simp
qed

lemma bt_of_list_insert_all: "bt_of_list xs = btm.insert_all xs []"
  by (simp add: bt_of_list_def btm.insert_all_def)

lemma bt_wf_of_list: "bt_wf (bt_of_list xs)"
  by (simp add: bt_of_list_insert_all btm.wf_insert_all bt_wf_Nil)

lemma bt_get_of_list: "bt_get (bt_of_list xs) = map_of (rev xs)"
  by (simp add: bt_of_list_insert_all btm.get_insert_all bt_wf_Nil btm.get_empty)

lemma bt_get_of_list_distinct: "distinct (map fst xs) \<Longrightarrow> bt_get (bt_of_list xs) = map_of xs"
  by (simp add: bt_get_of_list map_of_rev_distinct)

lemma bt_get_Some_mem: "bt_get m k = Some v \<Longrightarrow> (k, v) \<in> set m"
  by (simp add: bt_get_def map_of_SomeD)

lemma bt_mem_iff: "bt_wf m \<Longrightarrow> (k, v) \<in> set m \<longleftrightarrow> bt_get m k = Some v"
  by (rule btm.items_mem_iff)

lemma bt_wf_Cons: "bt_wf ((k, v) # m) \<longleftrightarrow> bt_wf m \<and> (\<forall>x \<in> fst ` set m. k < x)"
  by (auto simp: bt_wf_def)

lemma bt_insert_greater: "\<forall>x \<in> fst ` set m. x < k \<Longrightarrow> bt_insert k v m = m @ [(k, v)]"
  by (induction m) auto

text \<open>Collecting an already sorted list changes nothing.\<close>

lemma bt_of_list_wf: "bt_wf m \<Longrightarrow> bt_of_list m = m"
proof (rule btm.map_ext)
  show "bt_wf (bt_of_list m)" by (rule bt_wf_of_list)
  assume wf: "bt_wf m"
  then show "bt_wf m" .
  have "distinct (map fst m)" using btm.items_distinct [OF wf] by simp
  then show "bt_get (bt_of_list m) = bt_get m"
    by (simp add: bt_get_of_list_distinct bt_get_def fun_eq_iff)
qed

section \<open>Non-empty vectors and maps\<close>

datatype non_empty_error = NonEmpty_Empty

definition NonEmptyVec_try_from :: "'a list \<Rightarrow> non_empty_error + 'a list" where
  "NonEmptyVec_try_from v = (if v = [] then Inl NonEmpty_Empty else Inr v)"

definition NonEmptyVec_new :: "'a \<Rightarrow> 'a list" where
  "NonEmptyVec_new t = [t]"

definition NonEmptyVec_push :: "'a list \<Rightarrow> 'a \<Rightarrow> 'a list" where
  "NonEmptyVec_push v t = v @ [t]"

definition NonEmptyVec_maybe_new :: "'a list \<Rightarrow> 'a list option" where
  "NonEmptyVec_maybe_new v = result_ok (NonEmptyVec_try_from v)"

definition NonEmptyVec_try_into ::
    "('a \<Rightarrow> 'e + 'b) \<Rightarrow> 'a list \<Rightarrow> ('e + 'b list) option" where
  "NonEmptyVec_try_into f v =
     (case try_collect f v of
        Inl e \<Rightarrow> Some (Inl e)
      | Inr ys \<Rightarrow> (case NonEmptyVec_try_from ys of Inl _ \<Rightarrow> None | Inr ys' \<Rightarrow> Some (Inr ys')))"

definition NonEmptyMap_try_from :: "('k, 'v) btree_map \<Rightarrow> non_empty_error + ('k, 'v) btree_map" where
  "NonEmptyMap_try_from m = (if m = [] then Inl NonEmpty_Empty else Inr m)"

definition NonEmptyMap_new :: "'k::linorder \<Rightarrow> 'v \<Rightarrow> ('k, 'v) btree_map" where
  "NonEmptyMap_new k v = bt_insert k v []"

definition NonEmptyMap_insert ::
    "('k::linorder, 'v) btree_map \<Rightarrow> 'k \<Rightarrow> 'v \<Rightarrow> 'v option \<times> ('k, 'v) btree_map" where
  "NonEmptyMap_insert m k v = (bt_get m k, bt_insert k v m)"

definition NonEmptyMap_maybe_new :: "('k, 'v) btree_map \<Rightarrow> ('k, 'v) btree_map option" where
  "NonEmptyMap_maybe_new m = result_ok (NonEmptyMap_try_from m)"

lemma bt_insert_not_Nil [simp]: "bt_insert k v m \<noteq> []"
  by (induction k v m rule: bt_insert.induct) auto

lemma NonEmptyVec_try_from_Inr [result_simps]:
  "NonEmptyVec_try_from v = Inr w \<longleftrightarrow> v \<noteq> [] \<and> w = v"
  by (auto simp: NonEmptyVec_try_from_def)

lemma NonEmptyMap_try_from_Inr [result_simps]:
  "NonEmptyMap_try_from m = Inr w \<longleftrightarrow> m \<noteq> [] \<and> w = m"
  by (auto simp: NonEmptyMap_try_from_def)

text \<open>Every constructor of the two wrappers keeps them non-empty.\<close>

lemma non_empty_constructors:
  "NonEmptyVec_new t \<noteq> []" "NonEmptyVec_push v t \<noteq> []"
  "NonEmptyVec_maybe_new v = Some w \<Longrightarrow> w \<noteq> []"
  "NonEmptyMap_new k x \<noteq> []" "snd (NonEmptyMap_insert m k x) \<noteq> []"
  by (auto simp: NonEmptyVec_new_def NonEmptyVec_push_def NonEmptyVec_maybe_new_def
      NonEmptyMap_new_def NonEmptyMap_insert_def result_simps)

text \<open>
  The \<^verbatim>\<open>unwrap\<close> in \<^verbatim>\<open>NonEmptyVec::try_into\<close> never panics: converting a non-empty vector element by
  element gives a non-empty vector or the first conversion error.
\<close>

lemma NonEmptyVec_try_into_total:
  assumes "v \<noteq> []"
  shows "NonEmptyVec_try_into f v = Some (try_collect f v)"
proof (cases "try_collect f v")
  case (Inl e)
  then show ?thesis by (simp add: NonEmptyVec_try_into_def)
next
  case (Inr ys)
  with assms have "ys \<noteq> []" using try_collect_length [OF Inr] by auto
  with Inr show ?thesis by (simp add: NonEmptyVec_try_into_def NonEmptyVec_try_from_def)
qed

end
