(* ===== verification/Digest_Executor.thy ===== *)
theory Digest_Executor
  imports Simd_Sha256 BTree_Map
begin

text \<open>
  \<^verbatim>\<open>src/digest_executor.rs\<close>: digest jobs, the contract of the trait \<^verbatim>\<open>DigestExecutor\<close> as the locale
  \<open>digest_executor\<close>, and the five executors that implement it: the serial oracle, the SIMD
  grouping executor, the native pool executor, the adaptive selector and the default.
  The packages \<^verbatim>\<open>sha2\<close> and \<^verbatim>\<open>rayon\<close> and the host are parameters: \<open>sha2_ops\<close> holds the three
  hash functions, \<open>digest_host\<close> what the process can ask the operating system and the pool.
\<close>

section \<open>Jobs and results\<close>

datatype DigestAlgorithm = SHA256 | SHA384 | SHA512

record DigestJob =
  job_credential_id :: u64
  job_job_id :: u64
  job_ordinal :: nat
  job_algorithm :: DigestAlgorithm
  job_input :: bytes

record DigestResult =
  res_credential_id :: u64
  res_job_id :: u64
  res_ordinal :: nat
  res_digest :: bytes

datatype DigestExecutionError = DigestExecutionError

type_synonym digest_outcome = "DigestExecutionError + DigestResult list"

record sha2_ops =
  sha2_256 :: "bytes \<Rightarrow> bytes"
  sha2_384 :: "bytes \<Rightarrow> bytes"
  sha2_512 :: "bytes \<Rightarrow> bytes"

fun digest_length :: "DigestAlgorithm \<Rightarrow> nat" where
  "digest_length SHA256 = 32"
| "digest_length SHA384 = 48"
| "digest_length SHA512 = 64"

fun digest :: "sha2_ops \<Rightarrow> DigestAlgorithm \<Rightarrow> bytes \<Rightarrow> bytes" where
  "digest h SHA256 input = sha2_256 h input"
| "digest h SHA384 input = sha2_384 h input"
| "digest h SHA512 input = sha2_512 h input"

definition digest_result :: "DigestJob \<Rightarrow> bytes \<Rightarrow> DigestResult" where
  "digest_result job d =
     \<lparr> res_credential_id = job_credential_id job, res_job_id = job_job_id job,
       res_ordinal = job_ordinal job, res_digest = d \<rparr>"

definition execute_digest_job :: "sha2_ops \<Rightarrow> DigestJob \<Rightarrow> DigestResult" where
  "execute_digest_job h job = digest_result job (digest h (job_algorithm job) (job_input job))"

text \<open>What the hash package documents: the output lengths, and that SHA-256 is the standard's.\<close>

definition sha2_lengths :: "sha2_ops \<Rightarrow> bool" where
  "sha2_lengths h \<longleftrightarrow> (\<forall>alg m. length (digest h alg m) = digest_length alg)"

definition sha2_standard :: "sha2_ops \<Rightarrow> bool" where
  "sha2_standard h \<longleftrightarrow> sha2_256 h = sha256"

section \<open>The serial executor\<close>

definition SerialDigestExecutor_execute :: "sha2_ops \<Rightarrow> DigestJob list \<Rightarrow> digest_outcome" where
  "SerialDigestExecutor_execute h jobs = Inr (map (execute_digest_job h) jobs)"

section \<open>The SIMD executor\<close>

text \<open>The first loop: SHA-256 jobs are grouped by padded block count, others are hashed at once.\<close>

definition simd_group_step :: "sha2_ops \<Rightarrow> DigestJob list
    \<Rightarrow> DigestResult option list \<times> (nat, nat list) btree_map \<Rightarrow> nat
    \<Rightarrow> DigestResult option list \<times> (nat, nat list) btree_map" where
  "simd_group_step h jobs = (\<lambda>(results, groups) index.
     (let job = jobs ! index in
      if job_algorithm job = SHA256
      then (let key = sha256_block_count (length (job_input job));
                bucket = (case bt_get groups key of None \<Rightarrow> [] | Some is \<Rightarrow> is)
            in (results, bt_insert key (bucket @ [index]) groups))
      else (results[index := Some (execute_digest_job h job)], groups)))"

text \<open>The second loop, for one group: whole lanes through SIMD, the remainder through the oracle.\<close>

definition simd_run_group :: "'v u32x8_ops \<Rightarrow> sha2_ops \<Rightarrow> DigestJob list
    \<Rightarrow> DigestResult option list \<Rightarrow> nat list
    \<Rightarrow> DigestExecutionError + DigestResult option list" where
  "simd_run_group ops h jobs results indices =
     (let simd_job_count = length indices div LANES * LANES in
      and_then
        (if simd_job_count \<noteq> 0
         then (let inputs = map (\<lambda>index. job_input (jobs ! index)) (take simd_job_count indices);
                   (accepted, digests) = hash_many_same_block_count ops inputs
                      (replicate simd_job_count (replicate 32 0))
               in if \<not> accepted then Inl DigestExecutionError
                  else Inr (foldl (\<lambda>rs (index, d). rs[index := Some (digest_result (jobs ! index) d)])
                              results (zip (take simd_job_count indices) digests)))
         else Inr results)
        (\<lambda>results'. Inr (foldl (\<lambda>rs index. rs[index := Some (execute_digest_job h (jobs ! index))])
                           results' (drop simd_job_count indices))))"

fun simd_run_groups :: "'v u32x8_ops \<Rightarrow> sha2_ops \<Rightarrow> DigestJob list
    \<Rightarrow> DigestResult option list \<Rightarrow> nat list list
    \<Rightarrow> DigestExecutionError + DigestResult option list" where
  "simd_run_groups ops h jobs results [] = Inr results"
| "simd_run_groups ops h jobs results (indices # groups) =
     and_then (simd_run_group ops h jobs results indices)
       (\<lambda>results'. simd_run_groups ops h jobs results' groups)"

definition execute_simd_digest_jobs ::
    "'v u32x8_ops \<Rightarrow> sha2_ops \<Rightarrow> DigestJob list \<Rightarrow> digest_outcome" where
  "execute_simd_digest_jobs ops h jobs =
     (let (results, sha256_groups) =
            foldl (simd_group_step h jobs) (replicate (length jobs) None, []) [0..<length jobs]
      in and_then (simd_run_groups ops h jobs results (map snd sha256_groups))
           (\<lambda>results'. ok_or (those results') DigestExecutionError))"

text \<open>The executor itself; \<open>supported\<close> says that the target has the eight-lane path.\<close>

definition sha256_lane_width :: "bool \<Rightarrow> nat" where
  "sha256_lane_width supported = (if supported then 8 else 1)"

definition SimdDigestExecutor_execute ::
    "bool \<Rightarrow> 'v u32x8_ops \<Rightarrow> sha2_ops \<Rightarrow> DigestJob list \<Rightarrow> digest_outcome" where
  "SimdDigestExecutor_execute supported ops h jobs =
     (if supported then execute_simd_digest_jobs ops h jobs else SerialDigestExecutor_execute h jobs)"

section \<open>The worker budget, the pool and the native executor\<close>

definition MAX_PARALLEL_DIGEST_WORKERS :: nat where "MAX_PARALLEL_DIGEST_WORKERS = 8"
definition ADAPTIVE_PARALLEL_MIN_DIGEST_JOBS :: nat where "ADAPTIVE_PARALLEL_MIN_DIGEST_JOBS = 512"
definition ADAPTIVE_PARALLEL_MIN_INPUT_BYTES :: nat where
  "ADAPTIVE_PARALLEL_MIN_INPUT_BYTES = 2 * 1024 * 1024"
definition ADAPTIVE_PARALLEL_MAX_WORKERS :: nat where "ADAPTIVE_PARALLEL_MAX_WORKERS = 4"

record ParallelDigestWorkerBudget =
  budget_available :: nat
  budget_capacity :: nat

definition Budget_new :: "nat \<Rightarrow> ParallelDigestWorkerBudget" where
  "Budget_new capacity = \<lparr> budget_available = capacity, budget_capacity = capacity \<rparr>"

text \<open>
  One call of \<^verbatim>\<open>try_acquire\<close> and one \<^verbatim>\<open>drop\<close> of a lease without interference; the interleaved
  executions of the compare-and-exchange loop are the subject of \<^verbatim>\<open>Worker_Budget\<close>.
\<close>

definition try_acquire ::
    "ParallelDigestWorkerBudget \<Rightarrow> nat \<Rightarrow> (nat \<times> ParallelDigestWorkerBudget) option" where
  "try_acquire budget worker_count =
     (if worker_count < 2 \<or> worker_count > budget_capacity budget then None
      else if budget_available budget < worker_count then None
      else Some (worker_count,
             budget \<lparr> budget_available := budget_available budget - worker_count \<rparr>))"

definition drop_lease :: "nat \<Rightarrow> ParallelDigestWorkerBudget \<Rightarrow> ParallelDigestWorkerBudget" where
  "drop_lease worker_count budget =
     budget \<lparr> budget_available := budget_available budget + worker_count \<rparr>"

text \<open>
  The host: the reported parallelism (\<open>None\<close> when the query fails), whether a pool of a given
  size can be built, and the pool's \<^verbatim>\<open>install(par_chunks(n).flat_map_iter(f).collect())\<close>, whose
  value \<open>None\<close> is an unwinding panic.
\<close>

record digest_host =
  host_parallelism :: "nat option"
  host_build_pool :: "nat \<Rightarrow> bool"
  host_par_chunks :: "nat \<Rightarrow> (DigestJob \<Rightarrow> DigestResult) \<Rightarrow> DigestJob list \<Rightarrow> DigestResult list option"

record NativeDigestPool =
  pool_worker_count :: nat
  pool_budget :: ParallelDigestWorkerBudget

definition NativeDigestPool_new :: "digest_host \<Rightarrow> nat \<Rightarrow> NativeDigestPool option" where
  "NativeDigestPool_new host worker_count =
     (if worker_count = 0 \<or> worker_count > MAX_PARALLEL_DIGEST_WORKERS then None
      else if host_build_pool host worker_count
      then Some \<lparr> pool_worker_count = worker_count, pool_budget = Budget_new worker_count \<rparr>
      else None)"

text \<open>
  \<open>slot\<close> is the \<^verbatim>\<open>OnceLock\<close> as the first read sees it, \<open>locked_slot\<close> as the read under the
  initialization lock sees it, so that another thread may have filled it in between. The result
  is the pool and the slot afterwards.
\<close>

definition get_or_initialize_native_digest_pool ::
    "NativeDigestPool option \<Rightarrow> NativeDigestPool option \<Rightarrow> NativeDigestPool option
      \<Rightarrow> NativeDigestPool option \<times> NativeDigestPool option" where
  "get_or_initialize_native_digest_pool slot locked_slot initialize =
     (case slot of
        Some pool \<Rightarrow> (Some pool, slot)
      | None \<Rightarrow> (case locked_slot of
          Some pool \<Rightarrow> (Some pool, locked_slot)
        | None \<Rightarrow> (case initialize of
            None \<Rightarrow> (None, None)
          | Some pool \<Rightarrow> (Some pool, Some pool))))"

definition available_workers :: "digest_host \<Rightarrow> nat" where
  "available_workers host = (case host_parallelism host of Some n \<Rightarrow> n | None \<Rightarrow> 1)"

definition native_digest_pool ::
    "digest_host \<Rightarrow> NativeDigestPool option \<Rightarrow> NativeDigestPool option
      \<Rightarrow> NativeDigestPool option \<times> NativeDigestPool option" where
  "native_digest_pool host slot locked_slot =
     get_or_initialize_native_digest_pool slot locked_slot
       (NativeDigestPool_new host (min (available_workers host) MAX_PARALLEL_DIGEST_WORKERS))"

definition static_chunk_size :: "nat \<Rightarrow> nat \<Rightarrow> nat" where
  "static_chunk_size job_count worker_count =
     job_count div worker_count + (if worker_count dvd job_count then 0 else 1)"

definition NativeParallel_new :: "nat \<Rightarrow> nat" where
  "NativeParallel_new worker_count = min worker_count MAX_PARALLEL_DIGEST_WORKERS"

definition NativeParallel_available_parallelism :: "digest_host \<Rightarrow> nat" where
  "NativeParallel_available_parallelism host = NativeParallel_new (available_workers host)"

definition execute_with_pool :: "digest_host \<Rightarrow> sha2_ops \<Rightarrow> nat \<Rightarrow> DigestJob list
    \<Rightarrow> NativeDigestPool \<Rightarrow> digest_outcome \<times> NativeDigestPool" where
  "execute_with_pool host h self_worker_count jobs pool =
     (let worker_count = min (min self_worker_count (pool_worker_count pool)) (length jobs) in
      case try_acquire (pool_budget pool) worker_count of
        None \<Rightarrow> (Inr (map (execute_digest_job h) jobs), pool)
      | Some (lease, budget) \<Rightarrow>
          (let chunk_size = static_chunk_size (length jobs) worker_count;
               result = (case host_par_chunks host chunk_size (execute_digest_job h) jobs of
                   None \<Rightarrow> Inl DigestExecutionError
                 | Some results \<Rightarrow> if length results = length jobs then Inr results
                                  else Inl DigestExecutionError)
           in (result, pool \<lparr> pool_budget := drop_lease lease budget \<rparr>)))"

definition NativeParallelDigestExecutor_execute ::
    "digest_host \<Rightarrow> sha2_ops \<Rightarrow> nat \<Rightarrow> NativeDigestPool option \<Rightarrow> NativeDigestPool option
      \<Rightarrow> DigestJob list \<Rightarrow> digest_outcome \<times> NativeDigestPool option" where
  "NativeParallelDigestExecutor_execute host h self_worker_count slot locked_slot jobs =
     (if length jobs < 2 \<or> self_worker_count < 2
      then (Inr (map (execute_digest_job h) jobs), slot)
      else (case native_digest_pool host slot locked_slot of
              (None, slot') \<Rightarrow> (Inl DigestExecutionError, slot')
            | (Some pool, slot') \<Rightarrow>
                (let (result, pool') = execute_with_pool host h self_worker_count jobs pool
                 in (result, Some pool'))))"

section \<open>The adaptive and the default executor\<close>

datatype AdaptiveDigestExecutionMode = ModeSerial | ModeNativeParallel nat

definition saturating_add_u128 :: "nat \<Rightarrow> nat \<Rightarrow> nat" where
  "saturating_add_u128 a b = min (a + b) (2 ^ 128 - 1)"

definition total_bytes :: "DigestJob list \<Rightarrow> nat" where
  "total_bytes jobs = foldl (\<lambda>total job. saturating_add_u128 total (length (job_input job))) 0 jobs"

definition select_adaptive_digest_execution_mode ::
    "DigestJob list \<Rightarrow> nat \<Rightarrow> AdaptiveDigestExecutionMode" where
  "select_adaptive_digest_execution_mode jobs available_parallelism =
     (if length jobs < ADAPTIVE_PARALLEL_MIN_DIGEST_JOBS then ModeSerial
      else (let total_input_bytes = total_bytes jobs in
        if total_input_bytes < ADAPTIVE_PARALLEL_MIN_INPUT_BYTES then ModeSerial
        else (let worker_count = min (min available_parallelism ADAPTIVE_PARALLEL_MAX_WORKERS)
                                     (length jobs) in
          if worker_count < 2 then ModeSerial
          else (let chunk_size = static_chunk_size (length jobs) worker_count;
                    largest_chunk_bytes = foldl max 0 (map total_bytes (chunks chunk_size jobs));
                    half_total_rounded_up = total_input_bytes div 2 + total_input_bytes mod 2 in
            if largest_chunk_bytes > half_total_rounded_up then ModeSerial
            else ModeNativeParallel worker_count))))"

definition AdaptiveDigestExecutor_execute ::
    "digest_host \<Rightarrow> sha2_ops \<Rightarrow> NativeDigestPool option \<Rightarrow> NativeDigestPool option
      \<Rightarrow> DigestJob list \<Rightarrow> digest_outcome \<times> NativeDigestPool option" where
  "AdaptiveDigestExecutor_execute host h slot locked_slot jobs =
     (case select_adaptive_digest_execution_mode jobs (available_workers host) of
        ModeSerial \<Rightarrow> (SerialDigestExecutor_execute h jobs, slot)
      | ModeNativeParallel worker_count \<Rightarrow>
          NativeParallelDigestExecutor_execute host h (NativeParallel_new worker_count)
            slot locked_slot jobs)"

text \<open>The default executor; \<open>parallel\<close> is the cargo feature of that name.\<close>

definition DefaultDigestExecutor_execute ::
    "bool \<Rightarrow> digest_host \<Rightarrow> sha2_ops \<Rightarrow> NativeDigestPool option \<Rightarrow> NativeDigestPool option
      \<Rightarrow> DigestJob list \<Rightarrow> digest_outcome \<times> NativeDigestPool option" where
  "DefaultDigestExecutor_execute parallel host h slot locked_slot jobs =
     (if parallel then AdaptiveDigestExecutor_execute host h slot locked_slot jobs
      else (SerialDigestExecutor_execute h jobs, slot))"

section \<open>The contract of the trait\<close>

text \<open>
  What the trait documents: a successful call returns exactly one correct result per job, with
  the job's identity, in any order.
\<close>

locale digest_executor =
  fixes hash :: sha2_ops
    and execute :: "DigestJob list \<Rightarrow> digest_outcome"
  assumes results_of_jobs:
    "execute jobs = Inr results \<Longrightarrow> mset results = mset (map (execute_digest_job hash) jobs)"
begin

lemma one_result_per_job: "execute jobs = Inr results \<Longrightarrow> length results = length jobs"
  using results_of_jobs by (metis length_map mset_eq_length)

lemma result_mem:
  "execute jobs = Inr results \<Longrightarrow> r \<in> set results \<longleftrightarrow> (\<exists>job \<in> set jobs. r = execute_digest_job hash job)"
  using mset_eq_setD [OF results_of_jobs, of jobs results] by auto

lemma digest_lengths:
  assumes "sha2_lengths hash" "execute jobs = Inr results" "r \<in> set results"
  shows "\<exists>job \<in> set jobs. length (res_digest r) = digest_length (job_algorithm job) \<and>
    (res_credential_id r, res_job_id r, res_ordinal r)
      = (job_credential_id job, job_job_id job, job_ordinal job)"
proof -
  obtain job where job: "job \<in> set jobs" "r = execute_digest_job hash job"
    using assms(2,3) result_mem by auto
  show ?thesis
  proof (rule bexI [OF _ job(1)])
    show "length (res_digest r) = digest_length (job_algorithm job) \<and>
      (res_credential_id r, res_job_id r, res_ordinal r)
        = (job_credential_id job, job_job_id job, job_ordinal job)"
      using assms(1) job(2) by (simp add: sha2_lengths_def execute_digest_job_def digest_result_def)
  qed
qed

end

text \<open>Every executor of the crate also keeps the order of the jobs, which is stronger.\<close>

locale ordered_digest_executor =
  fixes hash :: sha2_ops
    and execute :: "DigestJob list \<Rightarrow> digest_outcome"
  assumes results_in_order:
    "execute jobs = Inr results \<Longrightarrow> results = map (execute_digest_job hash) jobs"

sublocale ordered_digest_executor \<subseteq> digest_executor hash execute
  by unfold_locales (drule results_in_order, simp)

interpretation serial: ordered_digest_executor h "SerialDigestExecutor_execute h" for h
  by unfold_locales (simp add: SerialDigestExecutor_execute_def)

section \<open>The SIMD executor is the serial executor\<close>

text \<open>Writing the oracle's result at each of a list of indices.\<close>

definition write_all :: "(nat \<Rightarrow> 'a) \<Rightarrow> 'a option list \<Rightarrow> nat list \<Rightarrow> 'a option list" where
  "write_all f rs is = foldl (\<lambda>rs i. rs[i := Some (f i)]) rs is"

lemma write_all_append: "write_all f rs (is @ js) = write_all f (write_all f rs is) js"
  by (simp add: write_all_def)

lemma length_write_all [simp]: "length (write_all f rs is) = length rs"
  by (induction "is" arbitrary: rs) (auto simp: write_all_def)

lemma nth_write_all:
  "i < length rs \<Longrightarrow> write_all f rs is ! i = (if i \<in> set is then Some (f i) else rs ! i)"
  by (induction "is" arbitrary: rs) (auto simp: write_all_def nth_list_update)

lemma simd_run_group_oracle:
  assumes "lanewise ops" "sha2_standard h"
    and "\<forall>i \<in> set is. job_algorithm (jobs ! i) = SHA256 \<and>
           sha256_block_count (length (job_input (jobs ! i))) = n"
  shows "simd_run_group ops h jobs rs is
    = Inr (write_all (\<lambda>i. execute_digest_job h (jobs ! i)) rs is)"
proof -
  let ?f = "\<lambda>i. execute_digest_job h (jobs ! i)"
  let ?c = "length is div LANES * LANES"
  let ?ks = "take ?c is"
  let ?inputs = "map (\<lambda>i. job_input (jobs ! i)) ?ks"
  have le: "?c \<le> length is" by simp
  have alg: "job_algorithm (jobs ! i) = SHA256" if "i \<in> set ?ks" for i
    using that assms(3) by (meson in_set_takeD)
  have "sha256_block_count (length m) = n" if "m \<in> set ?inputs" for m
    using that assms(3) by (auto dest: in_set_takeD)
  then have contract: "grouping_contract ?inputs (replicate ?c (replicate 32 0))"
    using le by (simp add: grouping_contract_def)
  have "foldl (\<lambda>rs (i, d). rs[i := Some (digest_result (jobs ! i) d)]) rs
      (zip ks (map (\<lambda>i. sha256 (job_input (jobs ! i))) ks)) = write_all ?f rs ks"
    if "\<forall>i \<in> set ks. job_algorithm (jobs ! i) = SHA256" for ks
    using that assms(2)
    by (induction ks arbitrary: rs) (auto simp: write_all_def execute_digest_job_def sha2_standard_def)
  then have lanes: "foldl (\<lambda>rs (i, d). rs[i := Some (digest_result (jobs ! i) d)]) rs
      (zip ?ks (map sha256 ?inputs)) = write_all ?f rs ?ks"
    using alg by (simp add: comp_def)
  have split: "write_all ?f (write_all ?f rs ?ks) (drop ?c is) = write_all ?f rs is"
    by (simp flip: write_all_append)
  have rest: "foldl (\<lambda>rs i. rs[i := Some (?f i)]) rs' (drop ?c is) = write_all ?f rs' (drop ?c is)"
    for rs' by (simp add: write_all_def)
  show ?thesis
  proof (cases "?c = 0")
    case True
    show ?thesis
      unfolding simd_run_group_def Let_def True by (simp add: write_all_def)
  next
    case False
    then show ?thesis
      unfolding simd_run_group_def Let_def hash_many_spec [OF assms(1)]
      using contract by (simp only: if_True not_True_eq_False if_False case_prod_conv and_then.simps
          lanes rest split simp_thms)
  qed
qed

lemma simd_run_groups_oracle:
  assumes "lanewise ops" "sha2_standard h"
    and "\<forall>is \<in> set groups. \<exists>n. \<forall>i \<in> set is. job_algorithm (jobs ! i) = SHA256 \<and>
           sha256_block_count (length (job_input (jobs ! i))) = n"
  shows "simd_run_groups ops h jobs rs groups
    = Inr (write_all (\<lambda>i. execute_digest_job h (jobs ! i)) rs (concat groups))"
  using assms(3)
proof (induction groups arbitrary: rs)
  case Nil
  then show ?case by (simp add: write_all_def)
next
  case (Cons "is" groups)
  then obtain n where "\<forall>i \<in> set is. job_algorithm (jobs ! i) = SHA256 \<and>
      sha256_block_count (length (job_input (jobs ! i))) = n" by auto
  then have "simd_run_group ops h jobs rs is = Inr (write_all (\<lambda>i. execute_digest_job h (jobs ! i)) rs is)"
    by (rule simd_run_group_oracle [OF assms(1,2)])
  then show ?case using Cons by (simp add: write_all_append)
qed

text \<open>
  The state of the first loop after \<open>k\<close> jobs: the groups partition the SHA-256 jobs among them
  by block count, and every other job has its result.
\<close>

definition simd_key :: "DigestJob list \<Rightarrow> nat \<Rightarrow> nat" where
  "simd_key jobs i = sha256_block_count (length (job_input (jobs ! i)))"

definition simd_job :: "DigestJob list \<Rightarrow> nat \<Rightarrow> bool" where
  "simd_job jobs i \<longleftrightarrow> job_algorithm (jobs ! i) = SHA256"

definition bucket :: "(nat, nat list) btree_map \<Rightarrow> nat \<Rightarrow> nat list" where
  "bucket groups n = (case bt_get groups n of None \<Rightarrow> [] | Some is \<Rightarrow> is)"

definition grouped :: "sha2_ops \<Rightarrow> DigestJob list \<Rightarrow> nat
    \<Rightarrow> DigestResult option list \<times> (nat, nat list) btree_map \<Rightarrow> bool" where
  "grouped h jobs k = (\<lambda>(rs, groups).
     bt_wf groups \<and> length rs = length jobs \<and>
     (\<forall>n i. i \<in> set (bucket groups n) \<longleftrightarrow> i < k \<and> simd_job jobs i \<and> simd_key jobs i = n) \<and>
     (\<forall>i < k. \<not> simd_job jobs i \<longrightarrow> rs ! i = Some (execute_digest_job h (jobs ! i))))"

lemma bucket_insert: "bucket (bt_insert n is groups) m = (if m = n then is else bucket groups m)"
  by (simp add: bucket_def bt_get_insert)

lemma simd_group_step_eq:
  "simd_group_step h jobs (rs, groups) k =
     (if simd_job jobs k
      then (rs, bt_insert (simd_key jobs k) (bucket groups (simd_key jobs k) @ [k]) groups)
      else (rs[k := Some (execute_digest_job h (jobs ! k))], groups))"
  by (simp add: simd_group_step_def simd_job_def simd_key_def bucket_def Let_def)

lemma grouped_step:
  assumes "grouped h jobs k s" "k < length jobs"
  shows "grouped h jobs (Suc k) (simd_group_step h jobs s k)"
proof (cases s)
  case (Pair rs groups)
  have inv: "bt_wf groups" "length rs = length jobs"
      "\<And>n i. i \<in> set (bucket groups n) \<longleftrightarrow> i < k \<and> simd_job jobs i \<and> simd_key jobs i = n"
      "\<And>i. i < k \<Longrightarrow> \<not> simd_job jobs i \<Longrightarrow> rs ! i = Some (execute_digest_job h (jobs ! i))"
    using assms(1) Pair by (simp_all add: grouped_def)
  show ?thesis
  proof (cases "simd_job jobs k")
    case True
    have "i \<in> set (bucket (bt_insert (simd_key jobs k) (bucket groups (simd_key jobs k) @ [k]) groups) n)
        \<longleftrightarrow> i < Suc k \<and> simd_job jobs i \<and> simd_key jobs i = n" for n i
      using True by (cases "i = k") (auto simp: bucket_insert inv(3) less_Suc_eq)
    moreover have "rs ! i = Some (execute_digest_job h (jobs ! i))"
      if "i < Suc k" "\<not> simd_job jobs i" for i
      using that True inv(4) by (cases "i = k") simp_all
    ultimately show ?thesis
      using True inv(1,2) by (simp add: Pair simd_group_step_eq grouped_def bt_wf_insert)
  next
    case False
    have "i \<in> set (bucket groups n) \<longleftrightarrow> i < Suc k \<and> simd_job jobs i \<and> simd_key jobs i = n" for n i
      using False by (cases "i = k") (simp_all add: inv(3) less_Suc_eq)
    moreover have "rs[k := Some (execute_digest_job h (jobs ! k))] ! i
        = Some (execute_digest_job h (jobs ! i))" if "i < Suc k" "\<not> simd_job jobs i" for i
      using that inv(2,4) assms(2) by (cases "i = k") simp_all
    ultimately show ?thesis
      using False inv(1,2) by (simp add: Pair simd_group_step_eq grouped_def)
  qed
qed

lemma grouped_all:
  "k \<le> length jobs \<Longrightarrow>
     grouped h jobs k (foldl (simd_group_step h jobs) (replicate (length jobs) None, []) [0..<k])"
proof (induction k)
  case 0
  show ?case by (simp add: grouped_def bt_wf_Nil bucket_def bt_get_def)
next
  case (Suc k)
  then show ?case using grouped_step by simp
qed

lemma those_Some: "those (map Some xs) = Some xs"
  by (induction xs) auto

lemma execute_simd_serial:
  assumes "lanewise ops" "sha2_standard h"
  shows "execute_simd_digest_jobs ops h jobs = SerialDigestExecutor_execute h jobs"
proof -
  let ?f = "\<lambda>i. execute_digest_job h (jobs ! i)"
  obtain rs groups where fold:
    "foldl (simd_group_step h jobs) (replicate (length jobs) None, []) [0..<length jobs] = (rs, groups)"
    by fastforce
  have inv: "grouped h jobs (length jobs) (rs, groups)"
    using grouped_all [of "length jobs" jobs h] fold by simp
  then have wf: "bt_wf groups" and len: "length rs = length jobs" by (auto simp: grouped_def)
  have mem: "(n, is) \<in> set groups \<longleftrightarrow> bt_get groups n = Some is" for n "is"
    using bt_mem_iff [OF wf] .
  have bucket: "i \<in> set (bucket groups n) \<longleftrightarrow>
      i < length jobs \<and> simd_job jobs i \<and> simd_key jobs i = n" for n i
    using inv by (simp add: grouped_def)
  have "\<forall>is \<in> set (map snd groups). \<exists>n. \<forall>i \<in> set is. job_algorithm (jobs ! i) = SHA256 \<and>
      sha256_block_count (length (job_input (jobs ! i))) = n"
  proof
    fix "is" assume "is \<in> set (map snd groups)"
    then obtain n where "(n, is) \<in> set groups" by auto
    then have "is = bucket groups n" by (simp add: mem bucket_def)
    then have "\<forall>i \<in> set is. simd_job jobs i \<and> simd_key jobs i = n" by (simp add: bucket)
    then show "\<exists>n. \<forall>i \<in> set is. job_algorithm (jobs ! i) = SHA256 \<and>
        sha256_block_count (length (job_input (jobs ! i))) = n"
      unfolding simd_job_def simd_key_def by blast
  qed
  then have run: "simd_run_groups ops h jobs rs (map snd groups)
      = Inr (write_all ?f rs (concat (map snd groups)))"
    using simd_run_groups_oracle [OF assms] by blast
  have "write_all ?f rs (concat (map snd groups)) = map Some (map (execute_digest_job h) jobs)"
  proof (rule nth_equalityI)
    fix i assume "i < length (write_all ?f rs (concat (map snd groups)))"
    then have i: "i < length jobs" using len by simp
    have "i \<in> set (concat (map snd groups)) \<or> rs ! i = Some (?f i)"
    proof (cases "simd_job jobs i")
      case True
      then have "i \<in> set (bucket groups (simd_key jobs i))" using i by (simp add: bucket)
      then obtain "is" where "(simd_key jobs i, is) \<in> set groups" "i \<in> set is"
        by (cases "bt_get groups (simd_key jobs i)") (auto simp: mem bucket_def)
      then show ?thesis by force
    next
      case False
      then show ?thesis using inv i by (simp add: grouped_def)
    qed
    then show "write_all ?f rs (concat (map snd groups)) ! i = map Some (map (execute_digest_job h) jobs) ! i"
      using i len by (auto simp: nth_write_all)
  qed (simp add: len)
  then show ?thesis
    by (simp add: execute_simd_digest_jobs_def fold run those_Some SerialDigestExecutor_execute_def
        del: map_map)
qed

section \<open>The native, adaptive and default executors\<close>

text \<open>
  What the pool package documents of an indexed parallel iterator over contiguous chunks:
  chunks of a positive size, collected in their order, or a panic that unwinds.
\<close>

definition par_chunks_ordered :: "digest_host \<Rightarrow> bool" where
  "par_chunks_ordered host \<longleftrightarrow>
     (\<forall>n f jobs results. 0 < n \<longrightarrow> host_par_chunks host n f jobs = Some results \<longrightarrow>
        results = concat (map (map f) (chunks n jobs)))"

lemma static_chunk_size_pos: "0 < jobs \<Longrightarrow> 0 < workers \<Longrightarrow> 0 < static_chunk_size jobs workers"
  by (auto simp: static_chunk_size_def div_greater_zero_iff dvd_imp_le intro: ccontr)

lemma static_chunk_size_covers: "0 < workers \<Longrightarrow> jobs \<le> workers * static_chunk_size jobs workers"
proof -
  assume w: "0 < workers"
  have split: "jobs = workers * (jobs div workers) + jobs mod workers" by simp
  show ?thesis
  proof (cases "workers dvd jobs")
    case True
    then show ?thesis by (simp add: static_chunk_size_def)
  next
    case False
    have "jobs \<le> workers * (jobs div workers) + workers"
      using split mod_less_divisor [OF w, of jobs] by linarith
    then show ?thesis using False by (simp add: static_chunk_size_def)
  qed
qed

lemma length_chunks_le: "0 < n \<Longrightarrow> length xs \<le> m * n \<Longrightarrow> length (chunks n xs) \<le> m"
proof (induction m arbitrary: xs)
  case 0
  then show ?case by simp
next
  case (Suc m)
  then have "length (chunks n (drop n xs)) \<le> m" by simp
  then show ?case using Suc.prems by (subst chunks.simps) auto
qed

lemma worker_chunks:
  assumes "jobs \<noteq> []" "0 < workers"
  shows "length (chunks (static_chunk_size (length jobs) workers) jobs) \<le> workers"
  using assms static_chunk_size_covers [of workers "length jobs"]
  by (intro length_chunks_le static_chunk_size_pos) (auto simp: mult.commute)

lemma try_acquire_Some:
  "try_acquire b n = Some (l, b') \<longleftrightarrow>
     l = n \<and> 2 \<le> n \<and> n \<le> budget_capacity b \<and> n \<le> budget_available b \<and>
     b' = b \<lparr> budget_available := budget_available b - n \<rparr>"
  by (auto simp: try_acquire_def)

lemma acquire_drop: "try_acquire b n = Some (l, b') \<Longrightarrow> drop_lease l b' = b"
  by (simp add: try_acquire_Some drop_lease_def)

lemma execute_with_pool_serial:
  assumes "par_chunks_ordered host" "execute_with_pool host h n jobs pool = (Inr results, pool')"
  shows "results = map (execute_digest_job h) jobs"
proof -
  let ?w = "min (min n (pool_worker_count pool)) (length jobs)"
  show ?thesis
  proof (cases "try_acquire (pool_budget pool) ?w")
    case None
    then show ?thesis using assms(2) by (simp add: execute_with_pool_def Let_def)
  next
    case (Some lb)
    then obtain l b where lb: "try_acquire (pool_budget pool) ?w = Some (l, b)" by (cases lb) simp
    then have w: "2 \<le> ?w" by (simp add: try_acquire_Some)
    then have pos: "0 < static_chunk_size (length jobs) ?w"
      by (intro static_chunk_size_pos) auto
    have "host_par_chunks host (static_chunk_size (length jobs) ?w) (execute_digest_job h) jobs
        = Some results"
      using assms(2) lb by (auto simp: execute_with_pool_def Let_def split: option.splits if_splits)
    then show ?thesis using assms(1) pos map_concat_chunks by (metis par_chunks_ordered_def)
  qed
qed

text \<open>The lease is returned on every path, a panic of a worker included.\<close>

lemma execute_with_pool_restores: "snd (execute_with_pool host h n jobs pool) = pool"
  by (auto simp: execute_with_pool_def Let_def acquire_drop split: option.splits)

lemma native_executor_ordered:
  assumes "par_chunks_ordered host"
  shows "ordered_digest_executor h
    (\<lambda>jobs. fst (NativeParallelDigestExecutor_execute host h n slot locked_slot jobs))"
proof
  fix jobs results
  assume run: "fst (NativeParallelDigestExecutor_execute host h n slot locked_slot jobs) = Inr results"
  show "results = map (execute_digest_job h) jobs"
  proof (cases "length jobs < 2 \<or> n < 2")
    case True
    with run show ?thesis by (auto simp: NativeParallelDigestExecutor_execute_def)
  next
    case False
    with run obtain pool pool' where "execute_with_pool host h n jobs pool = (Inr results, pool')"
      by (auto simp: NativeParallelDigestExecutor_execute_def split: prod.splits option.splits)
    then show ?thesis by (rule execute_with_pool_serial [OF assms])
  qed
qed

lemma adaptive_executor_ordered:
  assumes "par_chunks_ordered host"
  shows "ordered_digest_executor h (\<lambda>jobs. fst (AdaptiveDigestExecutor_execute host h slot locked_slot jobs))"
proof
  fix jobs results
  assume "fst (AdaptiveDigestExecutor_execute host h slot locked_slot jobs) = Inr results"
  then show "results = map (execute_digest_job h) jobs"
    using ordered_digest_executor.results_in_order [OF native_executor_ordered [OF assms]]
    by (auto simp: AdaptiveDigestExecutor_execute_def SerialDigestExecutor_execute_def
        split: AdaptiveDigestExecutionMode.splits)
qed

lemma default_executor_ordered:
  assumes "par_chunks_ordered host"
  shows "ordered_digest_executor h
    (\<lambda>jobs. fst (DefaultDigestExecutor_execute parallel host h slot locked_slot jobs))"
proof
  fix jobs results
  assume "fst (DefaultDigestExecutor_execute parallel host h slot locked_slot jobs) = Inr results"
  then show "results = map (execute_digest_job h) jobs"
    using ordered_digest_executor.results_in_order [OF adaptive_executor_ordered [OF assms]]
    by (auto simp: DefaultDigestExecutor_execute_def SerialDigestExecutor_execute_def split: if_splits)
qed

text \<open>What the adaptive policy admits to the pool.\<close>

lemma adaptive_mode_native:
  assumes "select_adaptive_digest_execution_mode jobs available = ModeNativeParallel w"
  shows "512 \<le> length jobs" "2 \<le> w" "w \<le> 4" "w \<le> available" "2097152 \<le> total_bytes jobs"
    "\<forall>c \<in> set (chunks (static_chunk_size (length jobs) w) jobs).
       total_bytes c \<le> (total_bytes jobs + 1) div 2"
proof -
  have max: "x \<le> foldl max a ys" if "x \<in> set ys \<or> x \<le> a" for x a :: nat and ys
    using that by (induction ys arbitrary: a) (auto simp: le_max_iff_disj)
  show "512 \<le> length jobs" "2 \<le> w" "w \<le> 4" "w \<le> available" "2097152 \<le> total_bytes jobs"
    using assms
    by (auto simp: select_adaptive_digest_execution_mode_def ADAPTIVE_PARALLEL_MIN_DIGEST_JOBS_def
        ADAPTIVE_PARALLEL_MIN_INPUT_BYTES_def ADAPTIVE_PARALLEL_MAX_WORKERS_def Let_def
        split: if_splits)
  have "foldl max 0 (map total_bytes (chunks (static_chunk_size (length jobs) w) jobs))
      \<le> total_bytes jobs div 2 + total_bytes jobs mod 2"
    using assms by (auto simp: select_adaptive_digest_execution_mode_def Let_def split: if_splits)
  also have "\<dots> = (total_bytes jobs + 1) div 2" by presburger
  finally show "\<forall>c \<in> set (chunks (static_chunk_size (length jobs) w) jobs).
       total_bytes c \<le> (total_bytes jobs + 1) div 2"
    using max by (metis (no_types, lifting) image_eqI list.set_map order_trans)
qed

section \<open>Properties\<close>

text \<open>Concrete parameters: hash functions of the right lengths, and a host with two workers.\<close>

definition sample_sha2 :: sha2_ops where
  "sample_sha2 = \<lparr> sha2_256 = sha256, sha2_384 = (\<lambda>m. replicate 48 (of_nat (length m))),
                   sha2_512 = (\<lambda>m. replicate 64 (of_nat (length m))) \<rparr>"

definition sample_host :: digest_host where
  "sample_host = \<lparr> host_parallelism = Some 2, host_build_pool = (\<lambda>_. True),
                   host_par_chunks = (\<lambda>n f jobs. Some (concat (map (map f) (chunks n jobs)))) \<rparr>"

lemma sample_sha2_ok: "sha2_standard sample_sha2" "sha2_lengths sample_sha2"
proof -
  have "length (digest sample_sha2 alg m) = digest_length alg" for alg m
    by (cases alg) (simp_all add: sample_sha2_def length_sha256)
  then show "sha2_standard sample_sha2" "sha2_lengths sample_sha2"
    by (simp_all add: sha2_standard_def sha2_lengths_def sample_sha2_def)
qed

lemma sample_host_ok: "par_chunks_ordered sample_host"
  by (simp add: par_chunks_ordered_def sample_host_def)

definition sample_job :: "u64 \<Rightarrow> DigestJob" where
  "sample_job k = \<lparr> job_credential_id = 0, job_job_id = k, job_ordinal = unat k,
                    job_algorithm = SHA256, job_input = [ucast k] \<rparr>"

text \<open>C9. The SIMD executor computes exactly what the serial oracle computes, in the same order,
  for every list of jobs and on every target: grouping by block count, eight lanes at a time,
  remainders and the other algorithms on the scalar path.\<close>
theorem simd_executor_equals_serial:
  assumes "lanewise ops" "sha2_standard h"
  shows "SimdDigestExecutor_execute supported ops h jobs = SerialDigestExecutor_execute h jobs"
  by (simp add: SimdDigestExecutor_execute_def execute_simd_serial [OF assms])

theorem simd_executor_equals_serial_witness:
  "SimdDigestExecutor_execute True lane_array_ops sample_sha2 (map sample_job [0, 1, 2, 3, 4, 5, 6, 7, 8])
     = SerialDigestExecutor_execute sample_sha2 (map sample_job [0, 1, 2, 3, 4, 5, 6, 7, 8])"
  by (rule simd_executor_equals_serial [OF lanewise_lane_array_ops sample_sha2_ok(1)])

text \<open>The executor behind the ordinary preparation calls, in every build, on every host and in
  every state of the process-wide pool, either fails or returns the serial oracle's results in
  order; without the parallel feature it never fails.\<close>
lemma default_executor_contract:
  assumes "par_chunks_ordered host"
  shows "(\<exists>e. fst (DefaultDigestExecutor_execute parallel host h slot locked_slot jobs) = Inl e \<and> parallel) \<or>
    fst (DefaultDigestExecutor_execute parallel host h slot locked_slot jobs)
      = Inr (map (execute_digest_job h) jobs)"
proof (cases "fst (DefaultDigestExecutor_execute parallel host h slot locked_slot jobs)")
  case (Inl e)
  then show ?thesis
    by (auto simp: DefaultDigestExecutor_execute_def SerialDigestExecutor_execute_def split: if_splits)
next
  case (Inr results)
  then show ?thesis
    using ordered_digest_executor.results_in_order [OF default_executor_ordered [OF assms]] by metis
qed

lemma default_executor_contract_witness:
  "fst (DefaultDigestExecutor_execute False sample_host sample_sha2 None None [sample_job 3])
     = Inr [execute_digest_job sample_sha2 (sample_job 3)]"
  using default_executor_contract [OF sample_host_ok, of False sample_sha2 None None "[sample_job 3]"]
  by simp

text \<open>A pool call gives its worker lease back on every path, also when a worker panics or a
  result is missing: the shared pool, its budget included, is what it was before the call.\<close>
lemma pool_call_returns_lease:
  "snd (execute_with_pool host h self_worker_count jobs pool) = pool"
  by (rule execute_with_pool_restores)

text \<open>The adaptive policy hands a call to the pool only for at least 512 jobs with at least
  2 MiB of input, with two to four workers no more than the host reports, and when no contiguous
  chunk carries more than half (rounded up) of the bytes.\<close>
lemma adaptive_admission:
  assumes "select_adaptive_digest_execution_mode jobs available = ModeNativeParallel w"
  shows "512 \<le> length jobs \<and> 2097152 \<le> total_bytes jobs \<and> 2 \<le> w \<and> w \<le> 4 \<and> w \<le> available \<and>
    (\<forall>c \<in> set (chunks (static_chunk_size (length jobs) w) jobs).
       total_bytes c \<le> (total_bytes jobs + 1) div 2)"
  using adaptive_mode_native [OF assms] by blast

definition sample_big_job :: DigestJob where
  "sample_big_job = (sample_job 0) \<lparr> job_input := replicate 4096 0 \<rparr>"

lemma total_bytes_replicate:
  assumes "n * length (job_input j) < 2 ^ 128"
  shows "total_bytes (replicate n j) = n * length (job_input j)"
proof -
  have "foldl (\<lambda>t job. saturating_add_u128 t (length (job_input job))) a (replicate n j)
      = a + n * length (job_input j)" if "a + n * length (job_input j) < 2 ^ 128" for a
    using that by (induction n arbitrary: a) (auto simp: saturating_add_u128_def algebra_simps)
  from this [of 0] assms show ?thesis by (simp add: total_bytes_def)
qed

lemma sample_big_mode:
  "select_adaptive_digest_execution_mode (replicate 512 sample_big_job) 2 = ModeNativeParallel 2"
proof -
  have len: "length (job_input sample_big_job) = 4096" by (simp add: sample_big_job_def)
  have totals: "total_bytes (replicate 512 sample_big_job) = 2097152"
      "total_bytes (replicate 256 sample_big_job) = 1048576"
    using total_bytes_replicate [of 512 sample_big_job] total_bytes_replicate [of 256 sample_big_job] len
    by simp_all
  have "replicate 512 sample_big_job = replicate 256 sample_big_job @ replicate 256 sample_big_job @ []"
    by (simp flip: replicate_add)
  then have "chunks 256 (replicate 512 sample_big_job) = [replicate 256 sample_big_job, replicate 256 sample_big_job]"
    using chunks_append [of 256 "replicate 256 sample_big_job"] by (metis chunks_Nil length_replicate zero_less_numeral)
  then show ?thesis
    by (simp add: select_adaptive_digest_execution_mode_def totals static_chunk_size_def
        ADAPTIVE_PARALLEL_MIN_DIGEST_JOBS_def ADAPTIVE_PARALLEL_MIN_INPUT_BYTES_def
        ADAPTIVE_PARALLEL_MAX_WORKERS_def)
qed

lemma adaptive_admission_witness:
  "2097152 \<le> total_bytes (replicate 512 sample_big_job) \<and>
   list_all (\<lambda>c. total_bytes c \<le> (total_bytes (replicate 512 sample_big_job) + 1) div 2)
     (chunks (static_chunk_size 512 2) (replicate 512 sample_big_job))"
  unfolding list_all_iff
  using adaptive_admission [OF sample_big_mode, unfolded length_replicate] by blast

end
