(* ===== verification/Worker_Budget.thy ===== *)
theory Worker_Budget
  imports Digest_Executor
begin

text \<open>
  The lock-free part of \<^verbatim>\<open>src/digest_executor.rs\<close>: any number of threads run \<^verbatim>\<open>try_acquire\<close> and
  drop leases on one shared budget. A thread is at one of the points of the loop; the steps are
  its single atomic accesses (the load, the weak compare-and-exchange, which may also fail
  spuriously, and the fetch-and-add of the drop), interleaved arbitrarily. The invariant is
  that the available workers and the leases held add up to the capacity.
\<close>

section \<open>Threads and steps\<close>

text \<open>
  \<open>Idle\<close>: outside the budget. \<open>Loaded n seen\<close>: in the loop of a call for \<open>n\<close> workers with the
  local variable \<^verbatim>\<open>available\<close> equal to \<open>seen\<close>. \<open>Holding n\<close>: owns a lease of \<open>n\<close> workers.
  \<open>Refused n\<close>: the call returned \<^verbatim>\<open>None\<close>.
\<close>

datatype budget_pc = Idle | Loaded nat nat | Holding nat | Refused nat

record budget_state =
  shared_budget :: ParallelDigestWorkerBudget
  threads :: "budget_pc list"

abbreviation avail :: "budget_state \<Rightarrow> nat" where
  "avail s \<equiv> budget_available (shared_budget s)"

abbreviation cap :: "budget_state \<Rightarrow> nat" where
  "cap s \<equiv> budget_capacity (shared_budget s)"

definition set_thread :: "budget_state \<Rightarrow> nat \<Rightarrow> budget_pc \<Rightarrow> budget_state" where
  "set_thread s t pc = s \<lparr> threads := (threads s)[t := pc] \<rparr>"

definition set_avail :: "budget_state \<Rightarrow> nat \<Rightarrow> budget_state" where
  "set_avail s n = s \<lparr> shared_budget := (shared_budget s) \<lparr> budget_available := n \<rparr> \<rparr>"

inductive budget_step :: "budget_state \<Rightarrow> budget_state \<Rightarrow> bool" where
  enter_refuse: "t < length (threads s) \<Longrightarrow> threads s ! t = Idle \<Longrightarrow> n < 2 \<or> n > cap s \<Longrightarrow>
     budget_step s (set_thread s t (Refused n))"
| enter_load: "t < length (threads s) \<Longrightarrow> threads s ! t = Idle \<Longrightarrow> 2 \<le> n \<Longrightarrow> n \<le> cap s \<Longrightarrow>
     budget_step s (set_thread s t (Loaded n (avail s)))"
| loop_refuse: "t < length (threads s) \<Longrightarrow> threads s ! t = Loaded n seen \<Longrightarrow> seen < n \<Longrightarrow>
     budget_step s (set_thread s t (Refused n))"
| cas_success: "t < length (threads s) \<Longrightarrow> threads s ! t = Loaded n seen \<Longrightarrow> n \<le> seen \<Longrightarrow>
     avail s = seen \<Longrightarrow> budget_step s (set_avail (set_thread s t (Holding n)) (seen - n))"
| cas_failure: "t < length (threads s) \<Longrightarrow> threads s ! t = Loaded n seen \<Longrightarrow> n \<le> seen \<Longrightarrow>
     budget_step s (set_thread s t (Loaded n (avail s)))"
| lease_drop: "t < length (threads s) \<Longrightarrow> threads s ! t = Holding n \<Longrightarrow>
     budget_step s (set_avail (set_thread s t Idle) (avail s + n))"
| give_up: "t < length (threads s) \<Longrightarrow> threads s ! t = Refused n \<Longrightarrow>
     budget_step s (set_thread s t Idle)"

inductive_cases budget_stepE: "budget_step s s'"

definition budget_init :: "nat \<Rightarrow> nat \<Rightarrow> budget_state" where
  "budget_init capacity thread_count =
     \<lparr> shared_budget = Budget_new capacity, threads = replicate thread_count Idle \<rparr>"

inductive budget_reachable :: "nat \<Rightarrow> nat \<Rightarrow> budget_state \<Rightarrow> bool" for capacity thread_count where
  start: "budget_reachable capacity thread_count (budget_init capacity thread_count)"
| more: "budget_reachable capacity thread_count s \<Longrightarrow> budget_step s s' \<Longrightarrow>
     budget_reachable capacity thread_count s'"

section \<open>The invariant\<close>

fun held_by :: "budget_pc \<Rightarrow> nat" where
  "held_by (Holding n) = n"
| "held_by _ = 0"

definition held :: "budget_state \<Rightarrow> nat" where
  "held s = sum_list (map held_by (threads s))"

lemma sum_list_update_at:
  fixes f :: "'a \<Rightarrow> nat"
  shows "t < length xs \<Longrightarrow> sum_list (map f (xs[t := x])) + f (xs ! t) = sum_list (map f xs) + f x"
  by (induction xs arbitrary: t) (auto split: nat.splits simp: nth_Cons' algebra_simps)

lemma threads_updates [simp]:
  "threads (set_thread s t pc) = (threads s)[t := pc]" "threads (set_avail s n) = threads s"
  "shared_budget (set_thread s t pc) = shared_budget s"
  "avail (set_avail s n) = n" "cap (set_avail s n) = cap s"
  by (simp_all add: set_thread_def set_avail_def)

lemma held_set_thread:
  "t < length (threads s) \<Longrightarrow>
     held (set_thread s t pc) + held_by (threads s ! t) = held s + held_by pc"
  using sum_list_update_at [of t "threads s" held_by pc] by (simp add: held_def)

lemma held_set_avail [simp]: "held (set_avail s n) = held s"
  by (simp add: held_def)

lemma budget_step_balance:
  assumes "budget_step s s'" "avail s + held s = cap s"
  shows "avail s' + held s' = cap s' \<and> cap s' = cap s \<and> length (threads s') = length (threads s)"
  using assms
proof (cases rule: budget_step.cases)
  case (cas_success t n seen)
  with held_set_thread [of t s "Holding n"] assms(2) show ?thesis by simp
next
  case (lease_drop t n)
  with held_set_thread [of t s Idle] assms(2) show ?thesis by simp
next
  case (enter_refuse t n)
  with held_set_thread [of t s "Refused n"] assms(2) show ?thesis by simp
next
  case (enter_load t n)
  with held_set_thread [of t s "Loaded n (avail s)"] assms(2) show ?thesis by simp
next
  case (loop_refuse t n seen)
  with held_set_thread [of t s "Refused n"] assms(2) show ?thesis by simp
next
  case (cas_failure t n seen)
  with held_set_thread [of t s "Loaded n (avail s)"] assms(2) show ?thesis by simp
next
  case (give_up t n)
  with held_set_thread [of t s Idle] assms(2) show ?thesis by simp
qed

lemma budget_reachable_balance:
  "budget_reachable capacity k s \<Longrightarrow> avail s + held s = capacity \<and> cap s = capacity"
proof (induction rule: budget_reachable.induct)
  case start
  have "sum_list (map held_by (replicate k Idle)) = 0" by (induction k) auto
  then show ?case by (simp add: budget_init_def Budget_new_def held_def)
next
  case (more s s')
  then show ?case using budget_step_balance by fastforce
qed

text \<open>A step of one thread refines the sequential operations on the shared budget.\<close>

lemma cas_success_is_try_acquire:
  assumes "budget_reachable capacity k s" "budget_step s s'" "threads s ! t = Loaded n seen"
    "threads s' ! t = Holding n" "t < length (threads s)"
  shows "avail s' + n = avail s"
  using assms(2)
proof (cases rule: budget_step.cases)
  case (cas_success t' n' seen')
  then show ?thesis using assms(3-5) by (cases "t = t'") auto
qed (use assms(3-5) in \<open>auto simp: nth_list_update split: if_splits\<close>)

lemma drop_within_capacity:
  assumes "budget_reachable capacity k s" "t < length (threads s)" "threads s ! t = Holding n"
  shows "avail s \<le> cap s - n"
proof -
  have "n \<le> held s"
    unfolding held_def using assms(2,3)
    by (metis elem_le_sum_list held_by.simps(1) length_map nth_map)
  then show ?thesis using budget_reachable_balance [OF assms(1)] by linarith
qed

section \<open>Refinement of the loop without interference\<close>

text \<open>
  The steps of one thread alone: after the load and one compare-and-exchange the thread holds
  the lease exactly when \<open>try_acquire\<close> grants it, with the same budget.
\<close>

fun solo_acquire :: "ParallelDigestWorkerBudget \<Rightarrow> nat \<Rightarrow> budget_state \<Rightarrow> bool" where
  "solo_acquire b n s \<longleftrightarrow>
     (case try_acquire b n of
        None \<Rightarrow> threads s = [Refused n] \<and> shared_budget s = b
      | Some (lease, b') \<Rightarrow> threads s = [Holding lease] \<and> shared_budget s = b')"

lemma solo_try_acquire:
  "\<exists>s. budget_step\<^sup>*\<^sup>* \<lparr> shared_budget = b, threads = [Idle] \<rparr> s \<and> solo_acquire b n s"
proof -
  let ?s0 = "\<lparr> shared_budget = b, threads = [Idle] \<rparr>"
  let ?s1 = "set_thread ?s0 0 (Loaded n (avail ?s0))"
  show ?thesis
  proof (cases "n < 2 \<or> n > budget_capacity b")
    case True
    then have "budget_step ?s0 (set_thread ?s0 0 (Refused n))" by (intro enter_refuse) auto
    moreover have "solo_acquire b n (set_thread ?s0 0 (Refused n))"
      using True by (auto simp: try_acquire_def)
    ultimately show ?thesis by blast
  next
    case False
    then have load: "budget_step ?s0 ?s1" by (intro enter_load) auto
    show ?thesis
    proof (cases "budget_available b < n")
      case True
      then have "budget_step ?s1 (set_thread ?s1 0 (Refused n))"
        by (intro loop_refuse [where seen = "avail ?s0"]) auto
      moreover have "solo_acquire b n (set_thread ?s1 0 (Refused n))"
        using False True by (auto simp: try_acquire_def)
      ultimately show ?thesis using load by (meson converse_rtranclp_into_rtranclp r_into_rtranclp)
    next
      case enough: False
      then have "budget_step ?s1 (set_avail (set_thread ?s1 0 (Holding n)) (avail ?s0 - n))"
        by (intro cas_success) auto
      moreover have "solo_acquire b n (set_avail (set_thread ?s1 0 (Holding n)) (avail ?s0 - n))"
        using False enough by (auto simp: try_acquire_def set_avail_def set_thread_def)
      ultimately show ?thesis using load by (meson converse_rtranclp_into_rtranclp r_into_rtranclp)
    qed
  qed
qed

section \<open>Properties\<close>

text \<open>C24. Under every interleaving of any number of threads, spurious compare-and-exchange failures
  included, the available workers and the leases held always add up to the pool's capacity, so
  admitted work never exceeds it, and a lease that is dropped never over-releases the budget.\<close>
theorem budget_never_over_admits:
  assumes "budget_reachable capacity thread_count s"
  shows "avail s + held s = capacity \<and> cap s = capacity \<and>
    (\<forall>t n. t < length (threads s) \<longrightarrow> threads s ! t = Holding n \<longrightarrow> avail s \<le> cap s - n)"
  using budget_reachable_balance [OF assms] drop_within_capacity [OF assms] by blast

theorem budget_never_over_admits_witness:
  "\<exists>s. budget_reachable 4 2 s \<and> threads s ! 0 = Holding 3 \<and> avail s = 1 \<and> avail s \<le> cap s - 3"
proof -
  let ?s0 = "budget_init 4 2"
  let ?s1 = "set_thread ?s0 0 (Loaded 3 (avail ?s0))"
  let ?s2 = "set_avail (set_thread ?s1 0 (Holding 3)) (4 - 3)"
  have "budget_step ?s0 ?s1"
    by (rule enter_load) (simp_all add: budget_init_def Budget_new_def numeral_2_eq_2)
  then have 1: "budget_reachable 4 2 ?s1" using budget_reachable.intros by blast
  have "budget_step ?s1 ?s2"
    by (rule cas_success) (simp_all add: budget_init_def Budget_new_def numeral_2_eq_2)
  then have 2: "budget_reachable 4 2 ?s2" using 1 budget_reachable.intros(2) by blast
  have t: "0 < length (threads ?s2)" "threads ?s2 ! 0 = Holding 3" "avail ?s2 = 1"
    by (simp_all add: budget_init_def numeral_2_eq_2)
  then show ?thesis using budget_never_over_admits [OF 2] 2 by blast
qed

end
