(* ===== verification/Cbor_Value.thy ===== *)
theory Cbor_Value
  imports BTree_Map
begin

text \<open>
  CBOR values as \<^verbatim>\<open>ciborium::Value\<close> has them, and the two wrappers of
  \<^verbatim>\<open>src/definitions/helpers\<close> that convert to and from them: \<^verbatim>\<open>ByteStr\<close> and \<^verbatim>\<open>Tag24\<close>. The byte
  encoder and decoder of \<^verbatim>\<open>src/cbor.rs\<close> are calls into the package, so they are parameters.
\<close>

datatype Value =
    VInteger int
  | VBytes bytes
  | VFloat u64
  | VText string
  | VBool bool
  | VNull
  | VTag u64 Value
  | VArray "Value list"
  | VMap "(Value \<times> Value) list"

section \<open>Byte strings\<close>

datatype bytestr_error = NotAByteString Value

definition ByteStr_into :: "bytes \<Rightarrow> Value" where
  "ByteStr_into b = VBytes b"

fun ByteStr_try_from :: "Value \<Rightarrow> bytestr_error + bytes" where
  "ByteStr_try_from (VBytes b) = Inr b"
| "ByteStr_try_from v = Inl (NotAByteString v)"

section \<open>Embedded data items\<close>

record 'a Tag24 =
  tag24_inner :: 'a
  tag24_inner_bytes :: bytes

datatype 'e tag24_error = InvalidTag24 Value | NotATag24 Value | UnableToEncode 'e | UnableToDecode 'e

definition Tag24_new :: "('a \<Rightarrow> 'e + bytes) \<Rightarrow> 'a \<Rightarrow> 'e tag24_error + 'a Tag24" where
  "Tag24_new to_vec inner =
     and_then (map_err UnableToEncode (to_vec inner))
       (\<lambda>inner_bytes. Inr \<lparr> tag24_inner = inner, tag24_inner_bytes = inner_bytes \<rparr>)"

definition Tag24_from_bytes :: "(bytes \<Rightarrow> 'e + 'a) \<Rightarrow> bytes \<Rightarrow> 'e tag24_error + 'a Tag24" where
  "Tag24_from_bytes from_slice inner_bytes =
     and_then (map_err UnableToDecode (from_slice inner_bytes))
       (\<lambda>inner. Inr \<lparr> tag24_inner = inner, tag24_inner_bytes = inner_bytes \<rparr>)"

definition Tag24_try_from :: "(bytes \<Rightarrow> 'e + 'a) \<Rightarrow> Value \<Rightarrow> 'e tag24_error + 'a Tag24" where
  "Tag24_try_from from_slice v =
     (case v of
        VTag t inner_value \<Rightarrow>
          if t = 24 then
            (case inner_value of
               VBytes inner_bytes \<Rightarrow>
                 and_then (map_err UnableToDecode (from_slice inner_bytes))
                   (\<lambda>inner. Inr \<lparr> tag24_inner = inner, tag24_inner_bytes = inner_bytes \<rparr>)
             | _ \<Rightarrow> Inl (InvalidTag24 inner_value))
          else Inl (NotATag24 v)
      | _ \<Rightarrow> Inl (NotATag24 v))"

definition Tag24_into :: "'a Tag24 \<Rightarrow> Value" where
  "Tag24_into t = VTag 24 (VBytes (tag24_inner_bytes t))"

section \<open>Round trips\<close>

lemma ByteStr_round_trip: "ByteStr_try_from v = Inr b \<longleftrightarrow> v = ByteStr_into b"
  by (cases v) (auto simp: ByteStr_into_def)

text \<open>
  What is accepted keeps its original bytes: an accepted item is written back as exactly the
  value it was read from, whatever the inner decoder makes of the bytes.
\<close>

lemma Tag24_try_from_Inr:
  "Tag24_try_from from_slice v = Inr t \<longleftrightarrow>
     v = Tag24_into t \<and> from_slice (tag24_inner_bytes t) = Inr (tag24_inner t)"
proof (cases v)
  case (VTag n w)
  then show ?thesis
    by (cases w; cases t) (auto simp: Tag24_try_from_def Tag24_into_def result_simps)
qed (auto simp: Tag24_try_from_def Tag24_into_def)

lemma Tag24_new_Inr:
  "Tag24_new to_vec x = Inr t \<longleftrightarrow> tag24_inner t = x \<and> to_vec x = Inr (tag24_inner_bytes t)"
  by (cases t) (auto simp: Tag24_new_def result_simps)

lemma Tag24_from_bytes_Inr:
  "Tag24_from_bytes from_slice b = Inr t \<longleftrightarrow>
     tag24_inner_bytes t = b \<and> from_slice b = Inr (tag24_inner t)"
  by (cases t) (auto simp: Tag24_from_bytes_def result_simps)

text \<open>The two directions compose when the decoder inverts the encoder.\<close>

lemma Tag24_new_try_from:
  assumes "Tag24_new to_vec x = Inr t" "\<And>b. to_vec x = Inr b \<Longrightarrow> from_slice b = Inr x"
  shows "Tag24_try_from from_slice (Tag24_into t) = Inr t"
  using assms by (auto simp: Tag24_try_from_Inr Tag24_new_Inr)

end
