(* ===== verification/Mdoc_Plan.thy ===== *)
theory Mdoc_Plan
  imports Digest_Executor Cbor_Value
begin

text \<open>
  The planning half of \<^verbatim>\<open>src/issuance/mdoc.rs\<close> and \<^verbatim>\<open>DigestId\<close> of \<^verbatim>\<open>src/definitions/mso.rs\<close>: digest
  identifiers drawn at random, issuer-signed items with their salts, and the list of digest
  jobs with the plan that says which digest belongs to which namespace and identifier. The
  random generator and the CBOR encoder are parameters. The loop that draws identifiers may
  run forever on a bad generator, so functions that use it return an option whose \<open>None\<close> is
  divergence; the result inside is a sum as everywhere.
\<close>

section \<open>Digest identifiers and random draws\<close>

text \<open>\<^verbatim>\<open>DigestId\<close> wraps an \<^verbatim>\<open>i32\<close>; negation of the smallest value wraps around.\<close>

definition DigestId_new :: "int \<Rightarrow> int" where
  "DigestId_new i = (if i < 0 then wrap_i32 (- i) else i)"

record 'r rng_ops =
  rng_gen_i32 :: "'r \<Rightarrow> int \<times> 'r"
  rng_gen_16 :: "'r \<Rightarrow> bytes \<times> 'r"
  rng_gen_range_5_10 :: "'r \<Rightarrow> nat \<times> 'r"
  rng_fill :: "nat \<Rightarrow> 'r \<Rightarrow> bytes \<times> 'r"

text \<open>What the generator documents: the ranges of its draws.\<close>

definition rng_ranges :: "'r rng_ops \<Rightarrow> bool" where
  "rng_ranges g \<longleftrightarrow>
     (\<forall>r. is_i32 (fst (rng_gen_i32 g r))) \<and> (\<forall>r. length (fst (rng_gen_16 g r)) = 16) \<and>
     (\<forall>r. 5 \<le> fst (rng_gen_range_5_10 g r) \<and> fst (rng_gen_range_5_10 g r) < 10) \<and>
     (\<forall>n r. length (fst (rng_fill g n r)) = n)"

partial_function (option) generate_digest_id ::
    "'r rng_ops \<Rightarrow> int set \<Rightarrow> 'r \<Rightarrow> (int \<times> int set \<times> 'r) option" where
  "generate_digest_id g used_ids r =
     (let (i, r') = rng_gen_i32 g r; digest_id = DigestId_new i in
      if digest_id \<in> used_ids then generate_digest_id g used_ids r'
      else Some (digest_id, insert digest_id used_ids, r'))"

text \<open>Sequencing of computations that may diverge (\<open>None\<close>) or fail (\<open>Some (Inl e)\<close>).\<close>

fun run_then :: "('e + 'a) option \<Rightarrow> ('a \<Rightarrow> ('e + 'b) option) \<Rightarrow> ('e + 'b) option" where
  "run_then None f = None"
| "run_then (Some (Inl e)) f = Some (Inl e)"
| "run_then (Some (Inr x)) f = f x"

lemma run_then_Inr [result_simps]:
  "run_then m f = Some (Inr y) \<longleftrightarrow> (\<exists>x. m = Some (Inr x) \<and> f x = Some (Inr y))"
  by (cases "(m, f)" rule: run_then.cases) auto

lemma run_then_Inl [result_simps]:
  "run_then m f = Some (Inl e) \<longleftrightarrow> m = Some (Inl e) \<or> (\<exists>x. m = Some (Inr x) \<and> f x = Some (Inl e))"
  by (cases "(m, f)" rule: run_then.cases) auto

section \<open>Errors, items and plans\<close>

datatype mdoc_error =
    MissingParameter string
  | InvalidKeyAuthorizations
  | NamespaceRequired
  | ElementRequired
  | CborError
  | TooManyDigestJobs
  | DigestExecutionFailed
  | PlanUnknownJob
  | PlanInconsistentCredential
  | PlanDuplicateJob
  | PlanDuplicateDigestId
  | PlanDuplicateNamespace
  | PlanUnreferencedJob
  | ExecutorOmittedResult
  | ExecutorChangedIdentity
  | ExecutorInvalidLength
  | ExecutorUnexpectedResult
  | ExecutorDuplicateResult
  | BatchDuplicateCredential
  | BatchDuplicatePlanCredential
  | BatchOmittedCredential
  | PrepareSignatureFailed
  | MissingSignatureAlgorithm
  | RemoteSignature string

record 'v IssuerSignedItem =
  item_digest_id :: int
  item_random :: bytes
  item_element_identifier :: string
  item_element_value :: 'v

type_synonym 'v IssuerSignedItemBytes = "'v IssuerSignedItem Tag24"
type_synonym 'v IssuerNamespaces = "(string, 'v IssuerSignedItemBytes list) btree_map"
type_synonym 'v Namespaces = "(string, (string, 'v) btree_map) btree_map"

text \<open>
  The encoder on the types planning serialises: an item, and any CBOR value; an item that is
  already wrapped is written as its embedded bytes.
\<close>

record 'v item_codec =
  encode_item :: "'v IssuerSignedItem \<Rightarrow> unit + bytes"
  encode_value :: "Value \<Rightarrow> unit + bytes"

definition encode_item_bytes :: "'v item_codec \<Rightarrow> 'v IssuerSignedItemBytes \<Rightarrow> unit + bytes" where
  "encode_item_bytes c item = encode_value c (Tag24_into item)"

record PlannedMdocDigest =
  pd_credential_id :: u64
  pd_job_id :: u64
  pd_digest_id :: int

record PlannedMdocNamespace =
  pn_name :: string
  pn_digests :: "PlannedMdocDigest list"

record MdocDigestPlan =
  plan_credential_id :: u64
  plan_namespaces :: "PlannedMdocNamespace list"
  plan_jobs :: "DigestJob list"

section \<open>Issuer-signed items\<close>

definition validate_namespace_shape :: "'v Namespaces \<Rightarrow> mdoc_error + unit" where
  "validate_namespace_shape namespaces =
     (if namespaces = [] then Inl NamespaceRequired
      else if list_ex (\<lambda>(_, elements). elements = []) namespaces then Inl ElementRequired
      else Inr ())"

fun to_issuer_items :: "'v item_codec \<Rightarrow> 'r rng_ops \<Rightarrow> int set \<Rightarrow> (string \<times> 'v) list \<Rightarrow> 'r
    \<Rightarrow> (mdoc_error + 'v IssuerSignedItemBytes list \<times> 'r) option" where
  "to_issuer_items c g used_ids [] r = Some (Inr ([], r))"
| "to_issuer_items c g used_ids ((key, value) # elements) r =
     (case generate_digest_id g used_ids r of
        None \<Rightarrow> None
      | Some (digest_id, used_ids', r1) \<Rightarrow>
          (let (random, r2) = rng_gen_16 g r1;
               item = \<lparr> item_digest_id = digest_id, item_random = random,
                        item_element_identifier = key, item_element_value = value \<rparr>
           in case Tag24_new (encode_item c) item of
                Inl _ \<Rightarrow> Some (Inl CborError)
              | Inr tagged \<Rightarrow>
                  run_then (to_issuer_items c g used_ids' elements r2)
                    (\<lambda>(items, r3). Some (Inr (tagged # items, r3)))))"

fun to_issuer_namespace_list :: "'v item_codec \<Rightarrow> 'r rng_ops \<Rightarrow> (string \<times> (string, 'v) btree_map) list \<Rightarrow> 'r
    \<Rightarrow> (mdoc_error + (string \<times> 'v IssuerSignedItemBytes list) list \<times> 'r) option" where
  "to_issuer_namespace_list c g [] r = Some (Inr ([], r))"
| "to_issuer_namespace_list c g ((name, elements) # namespaces) r =
     run_then (to_issuer_items c g {} elements r)
       (\<lambda>(items, r1). case NonEmptyVec_try_from items of
            Inl _ \<Rightarrow> Some (Inl ElementRequired)
          | Inr elems \<Rightarrow>
              run_then (to_issuer_namespace_list c g namespaces r1)
                (\<lambda>(rest, r2). Some (Inr ((name, elems) # rest, r2))))"

definition to_issuer_namespaces :: "'v item_codec \<Rightarrow> 'r rng_ops \<Rightarrow> 'v Namespaces \<Rightarrow> 'r
    \<Rightarrow> (mdoc_error + 'v IssuerNamespaces \<times> 'r) option" where
  "to_issuer_namespaces c g namespaces r =
     run_then (to_issuer_namespace_list c g namespaces r)
       (\<lambda>(collected, r1). case NonEmptyMap_try_from (bt_of_list collected) of
            Inl _ \<Rightarrow> Some (Inl NamespaceRequired)
          | Inr m \<Rightarrow> Some (Inr (m, r1)))"

section \<open>The plan\<close>

definition MDOC_CREDENTIAL_ID :: u64 where "MDOC_CREDENTIAL_ID = 0"
definition DECOY_BYTES_LENGTH :: nat where "DECOY_BYTES_LENGTH = 512"

text \<open>The mutable arguments of the planning functions: the next job identifier and the jobs.\<close>

type_synonym plan_acc = "u64 \<times> DigestJob list"

definition checked_add_u64 :: "u64 \<Rightarrow> u64 \<Rightarrow> u64 option" where
  "checked_add_u64 a b = (if unat a + unat b < 2 ^ 64 then Some (a + b) else None)"

definition push_planned_digest :: "u64 \<Rightarrow> int \<Rightarrow> nat \<Rightarrow> DigestAlgorithm \<Rightarrow> bytes
    \<Rightarrow> plan_acc \<times> PlannedMdocDigest list \<Rightarrow> mdoc_error + plan_acc \<times> PlannedMdocDigest list" where
  "push_planned_digest credential_id digest_id ordinal algorithm input =
     (\<lambda>((next_job_id, jobs), planned_digests).
       and_then (ok_or (checked_add_u64 next_job_id 1) TooManyDigestJobs)
         (\<lambda>next_job_id'.
           Inr ((next_job_id',
                 jobs @ [\<lparr> job_credential_id = credential_id, job_job_id = next_job_id,
                           job_ordinal = ordinal, job_algorithm = algorithm, job_input = input \<rparr>]),
                planned_digests @ [\<lparr> pd_credential_id = credential_id, pd_job_id = next_job_id,
                                     pd_digest_id = digest_id \<rparr>])))"

fun plan_elements :: "'v item_codec \<Rightarrow> u64 \<Rightarrow> DigestAlgorithm \<Rightarrow> nat \<Rightarrow> 'v IssuerSignedItemBytes list
    \<Rightarrow> plan_acc \<times> PlannedMdocDigest list \<Rightarrow> mdoc_error + plan_acc \<times> PlannedMdocDigest list" where
  "plan_elements c cid alg ordinal [] acc = Inr acc"
| "plan_elements c cid alg ordinal (item # items) acc =
     and_then (map_err (\<lambda>_. CborError) (encode_item_bytes c item))
       (\<lambda>input. and_then
          (push_planned_digest cid (item_digest_id (tag24_inner item)) ordinal alg input acc)
          (plan_elements c cid alg (Suc ordinal) items))"

fun plan_decoys :: "'r rng_ops \<Rightarrow> u64 \<Rightarrow> DigestAlgorithm \<Rightarrow> nat \<Rightarrow> nat \<Rightarrow> int set
    \<Rightarrow> plan_acc \<times> PlannedMdocDigest list \<Rightarrow> 'r
    \<Rightarrow> (mdoc_error + (plan_acc \<times> PlannedMdocDigest list) \<times> 'r) option" where
  "plan_decoys g cid alg ordinal 0 used_ids acc r = Some (Inr (acc, r))"
| "plan_decoys g cid alg ordinal (Suc n) used_ids acc r =
     (case generate_digest_id g used_ids r of
        None \<Rightarrow> None
      | Some (digest_id, used_ids', r1) \<Rightarrow>
          (let (bytes, r2) = rng_fill g DECOY_BYTES_LENGTH r1 in
           run_then (Some (push_planned_digest cid digest_id ordinal alg bytes acc))
             (\<lambda>acc'. plan_decoys g cid alg (Suc ordinal) n used_ids' acc' r2)))"

definition plan_digest_namespace :: "'v item_codec \<Rightarrow> 'r rng_ops \<Rightarrow> u64 \<Rightarrow> 'v IssuerSignedItemBytes list
    \<Rightarrow> DigestAlgorithm \<Rightarrow> bool \<Rightarrow> plan_acc \<Rightarrow> 'r
    \<Rightarrow> (mdoc_error + (plan_acc \<times> PlannedMdocDigest list) \<times> 'r) option" where
  "plan_digest_namespace c g cid elements alg enable_decoy_digests acc r =
     (let (decoy_count, r1) = (if enable_decoy_digests then rng_gen_range_5_10 g r else (0, r));
          used_ids = (if decoy_count > 0 then set (map (\<lambda>item. item_digest_id (tag24_inner item)) elements)
                      else {})
      in run_then (Some (plan_elements c cid alg 0 elements (acc, [])))
           (\<lambda>acc'. plan_decoys g cid alg (length elements) decoy_count used_ids acc' r1))"

fun plan_namespace_list :: "'v item_codec \<Rightarrow> 'r rng_ops \<Rightarrow> u64 \<Rightarrow> DigestAlgorithm \<Rightarrow> bool
    \<Rightarrow> (string \<times> 'v IssuerSignedItemBytes list) list \<Rightarrow> plan_acc \<Rightarrow> 'r
    \<Rightarrow> (mdoc_error + (plan_acc \<times> PlannedMdocNamespace list) \<times> 'r) option" where
  "plan_namespace_list c g cid alg decoys [] acc r = Some (Inr ((acc, []), r))"
| "plan_namespace_list c g cid alg decoys ((name, elements) # namespaces) acc r =
     run_then (plan_digest_namespace c g cid elements alg decoys acc r)
       (\<lambda>((acc', digests), r1). run_then (plan_namespace_list c g cid alg decoys namespaces acc' r1)
          (\<lambda>((acc'', rest), r2).
             Some (Inr ((acc'', \<lparr> pn_name = name, pn_digests = digests \<rparr> # rest), r2))))"

definition plan_digest_namespaces_for_credential :: "'v item_codec \<Rightarrow> 'r rng_ops \<Rightarrow> u64
    \<Rightarrow> 'v IssuerNamespaces \<Rightarrow> DigestAlgorithm \<Rightarrow> bool \<Rightarrow> 'r
    \<Rightarrow> (mdoc_error + MdocDigestPlan \<times> 'r) option" where
  "plan_digest_namespaces_for_credential c g credential_id namespaces alg enable_decoy_digests r =
     run_then (plan_namespace_list c g credential_id alg enable_decoy_digests namespaces (0, []) r)
       (\<lambda>(((next_job_id, jobs), planned), r').
          Some (Inr (\<lparr> plan_credential_id = credential_id, plan_namespaces = planned,
                       plan_jobs = jobs \<rparr>, r')))"

definition plan_digest_namespaces :: "'v item_codec \<Rightarrow> 'r rng_ops \<Rightarrow> 'v IssuerNamespaces
    \<Rightarrow> DigestAlgorithm \<Rightarrow> bool \<Rightarrow> 'r \<Rightarrow> (mdoc_error + MdocDigestPlan \<times> 'r) option" where
  "plan_digest_namespaces c g = plan_digest_namespaces_for_credential c g MDOC_CREDENTIAL_ID"

section \<open>Fresh identifiers\<close>

text \<open>\<^verbatim>\<open>DigestId::new\<close> is the absolute value, except on the smallest integer.\<close>

lemma DigestId_new_abs: "is_i32 i \<Longrightarrow> i \<noteq> i32_min \<Longrightarrow> DigestId_new i = \<bar>i\<bar> \<and> is_i32 (DigestId_new i)"
proof -
  assume i: "is_i32 i" "i \<noteq> i32_min"
  then have "is_i32 (- i)" if "i < 0"
    using that by (simp add: is_i32_def i32_min_def i32_max_def)
  then show ?thesis using i(1) wrap_i32_id [of "- i"] by (auto simp: DigestId_new_def)
qed

text \<open>The \<open>k\<close>-th identifier the generator offers, and the state after it.\<close>

primrec offer :: "'r rng_ops \<Rightarrow> nat \<Rightarrow> 'r \<Rightarrow> int \<times> 'r" where
  "offer g 0 r = (let (i, r') = rng_gen_i32 g r in (DigestId_new i, r'))"
| "offer g (Suc k) r = offer g k (snd (rng_gen_i32 g r))"

lemma generate_first_fresh:
  assumes "fst (offer g k r) \<notin> used" "\<forall>j < k. fst (offer g j r) \<in> used"
  shows "generate_digest_id g used r
    = Some (fst (offer g k r), insert (fst (offer g k r)) used, snd (offer g k r))"
  using assms
proof (induction k arbitrary: r)
  case 0
  then show ?case by (subst generate_digest_id.simps) (auto simp: Let_def split: prod.splits)
next
  case (Suc k)
  have "fst (offer g 0 r) \<in> used" using Suc.prems(2) by blast
  then have "generate_digest_id g used r = generate_digest_id g used (snd (rng_gen_i32 g r))"
    by (subst generate_digest_id.simps) (auto simp: Let_def split: prod.splits)
  moreover have "\<forall>j < k. fst (offer g j (snd (rng_gen_i32 g r))) \<in> used"
    using Suc.prems(2) by (metis Suc_mono offer.simps(2))
  ultimately show ?case using Suc.IH [of "snd (rng_gen_i32 g r)"] Suc.prems(1) by simp
qed

lemma generate_offers_fresh:
  "generate_digest_id g used r = Some y \<Longrightarrow>
     \<exists>k. fst (offer g k r) \<notin> used \<and> (\<forall>j < k. fst (offer g j r) \<in> used)"
proof (erule generate_digest_id.raw_induct
    [where P = "\<lambda>g used r y. \<exists>k. fst (offer g k r) \<notin> used \<and> (\<forall>j < k. fst (offer g j r) \<in> used)", rotated])
  fix gen :: "'a rng_ops \<Rightarrow> int set \<Rightarrow> 'a \<Rightarrow> (int \<times> int set \<times> 'a) option" and g used r y
  assume IH: "\<And>g used r y. gen g used r = Some y \<Longrightarrow>
      \<exists>k. fst (offer g k r) \<notin> used \<and> (\<forall>j < k. fst (offer g j r) \<in> used)"
    and body: "(let (i, r') = rng_gen_i32 g r; digest_id = DigestId_new i in
      if digest_id \<in> used then gen g used r' else Some (digest_id, insert digest_id used, r')) = Some y"
  obtain i r1 where i: "rng_gen_i32 g r = (i, r1)" by fastforce
  show "\<exists>k. fst (offer g k r) \<notin> used \<and> (\<forall>j < k. fst (offer g j r) \<in> used)"
  proof (cases "DigestId_new i \<in> used")
    case True
    with body i have "gen g used r1 = Some y" by simp
    then obtain k where k: "fst (offer g k r1) \<notin> used" "\<forall>j < k. fst (offer g j r1) \<in> used"
      using IH by blast
    have "fst (offer g j r) \<in> used" if "j < Suc k" for j
      using that k(2) True i by (cases j) auto
    then have "fst (offer g (Suc k) r) \<notin> used \<and> (\<forall>j < Suc k. fst (offer g j r) \<in> used)"
      using k(1) i by simp
    then show ?thesis by blast
  next
    case False
    then have "fst (offer g 0 r) \<notin> used \<and> (\<forall>j < 0. fst (offer g j r) \<in> used)" using i by simp
    then show ?thesis by blast
  qed
qed

lemma generate_Some:
  assumes "generate_digest_id g used r = Some (d, used', r')"
  shows "d \<notin> used" "used' = insert d used"
proof -
  obtain k where k: "fst (offer g k r) \<notin> used" "\<forall>j < k. fst (offer g j r) \<in> used"
    using generate_offers_fresh [OF assms] by blast
  then show "d \<notin> used" "used' = insert d used" using generate_first_fresh [OF k] assms by auto
qed

text \<open>The loop ends exactly when the generator offers an unused identifier at some point.\<close>

lemma generate_terminates_iff:
  "(\<exists>x. generate_digest_id g used r = Some x) \<longleftrightarrow> (\<exists>k. fst (offer g k r) \<notin> used)"
proof
  assume "\<exists>k. fst (offer g k r) \<notin> used"
  then obtain k0 where k0: "fst (offer g k0 r) \<notin> used" ..
  define k where "k = (LEAST k. fst (offer g k r) \<notin> used)"
  have k: "fst (offer g k r) \<notin> used" unfolding k_def by (rule LeastI [of _ k0]) (rule k0)
  have less: "\<forall>j < k. fst (offer g j r) \<in> used" unfolding k_def by (meson not_less_Least)
  show "\<exists>x. generate_digest_id g used r = Some x"
    by (rule exI, rule generate_first_fresh [OF k less])
next
  assume "\<exists>x. generate_digest_id g used r = Some x"
  then obtain x where "generate_digest_id g used r = Some x" ..
  from generate_offers_fresh [OF this] show "\<exists>k. fst (offer g k r) \<notin> used" by (elim exE conjE exI)
qed

section \<open>Items have distinct identifiers\<close>

abbreviation item_id :: "'v IssuerSignedItemBytes \<Rightarrow> int" where
  "item_id item \<equiv> item_digest_id (tag24_inner item)"

definition issuer_items_ok :: "'v item_codec \<Rightarrow> (string \<times> 'v) list \<Rightarrow> 'v IssuerSignedItemBytes list \<Rightarrow> bool" where
  "issuer_items_ok c elements items \<longleftrightarrow>
     distinct (map item_id items) \<and>
     map (\<lambda>t. (item_element_identifier (tag24_inner t), item_element_value (tag24_inner t))) items = elements \<and>
     (\<forall>t \<in> set items. encode_item c (tag24_inner t) = Inr (tag24_inner_bytes t))"

lemma to_issuer_items_ok:
  "to_issuer_items c g used elements r = Some (Inr (items, r')) \<Longrightarrow>
     issuer_items_ok c elements items \<and> set (map item_id items) \<inter> used = {}"
proof (induction elements arbitrary: used r items)
  case Nil
  then show ?case by (simp add: issuer_items_ok_def)
next
  case (Cons kv elements)
  obtain key val where kv: "kv = (key, val)" by fastforce
  obtain d used1 r1 where gen: "generate_digest_id g used r = Some (d, used1, r1)"
    using Cons.prems kv by (auto split: option.splits)
  obtain salt r2 where salt: "rng_gen_16 g r1 = (salt, r2)" by fastforce
  let ?item = "\<lparr> item_digest_id = d, item_random = salt,
                 item_element_identifier = key, item_element_value = val \<rparr>"
  obtain b where enc: "encode_item c ?item = Inr b"
    using Cons.prems gen salt kv by (cases "encode_item c ?item") (auto simp: Tag24_new_def)
  then obtain rest where
    rest: "to_issuer_items c g used1 elements r2 = Some (Inr (rest, r'))"
    and items: "items = \<lparr> tag24_inner = ?item, tag24_inner_bytes = b \<rparr> # rest"
    using Cons.prems gen salt kv by (auto simp: Tag24_new_def run_then_Inr)
  have "issuer_items_ok c elements rest \<and> set (map item_id rest) \<inter> used1 = {}"
    using Cons.IH rest by blast
  then show ?case using items enc kv generate_Some [OF gen] by (auto simp: issuer_items_ok_def)
qed

lemma to_issuer_namespace_list_ok:
  "to_issuer_namespace_list c g namespaces r = Some (Inr (out, r')) \<Longrightarrow>
     list_all2 (\<lambda>(name, elements) (name', items).
       name' = name \<and> items \<noteq> [] \<and> issuer_items_ok c elements items) namespaces out"
proof (induction namespaces arbitrary: r out)
  case Nil
  then show ?case by simp
next
  case (Cons ns namespaces)
  obtain name elements where ns: "ns = (name, elements)" by fastforce
  obtain items r1 rest where
    items: "to_issuer_items c g {} elements r = Some (Inr (items, r1))" "items \<noteq> []"
    and rest: "to_issuer_namespace_list c g namespaces r1 = Some (Inr (rest, r'))"
    and out: "out = (name, items) # rest"
    using Cons.prems ns
    by (auto simp: run_then_Inr NonEmptyVec_try_from_def split: sum.splits if_splits)
  show ?case using items(2) out ns to_issuer_items_ok [OF items(1)] Cons.IH [OF rest] by simp
qed

lemma to_issuer_namespaces_ok:
  assumes "to_issuer_namespaces c g namespaces r = Some (Inr (out, r'))" "bt_wf namespaces"
  shows "out \<noteq> []" "bt_wf out" "list_all2 (\<lambda>(name, elements) (name', items).
       name' = name \<and> items \<noteq> [] \<and> issuer_items_ok c elements items) namespaces out"
proof -
  obtain collected where
    col: "to_issuer_namespace_list c g namespaces r = Some (Inr (collected, r'))"
    and out: "out = bt_of_list collected" "out \<noteq> []"
    using assms(1) by (auto simp: to_issuer_namespaces_def run_then_Inr NonEmptyMap_try_from_def
        split: sum.splits if_splits)
  have rel: "list_all2 (\<lambda>(name, elements) (name', items).
      name' = name \<and> items \<noteq> [] \<and> issuer_items_ok c elements items) namespaces collected"
    by (rule to_issuer_namespace_list_ok [OF col])
  then have "map fst collected = map fst namespaces"
    by (induction rule: list_all2_induct) auto
  then have wf: "bt_wf collected" using assms(2) by (simp add: bt_wf_def)
  then have "out = collected" using out(1) by (simp add: bt_of_list_wf)
  then show "out \<noteq> []" "bt_wf out" "list_all2 (\<lambda>(name, elements) (name', items).
       name' = name \<and> items \<noteq> [] \<and> issuer_items_ok c elements items) namespaces out"
    using out(2) wf rel by auto
qed

section \<open>The plan is consistent\<close>

definition job_identity :: "DigestJob \<Rightarrow> u64 \<times> u64" where
  "job_identity job = (job_credential_id job, job_job_id job)"

definition result_identity :: "DigestResult \<Rightarrow> u64 \<times> u64" where
  "result_identity r = (res_credential_id r, res_job_id r)"

definition planned_identity :: "PlannedMdocDigest \<Rightarrow> u64 \<times> u64" where
  "planned_identity p = (pd_credential_id p, pd_job_id p)"

lemmas identity_defs = job_identity_def result_identity_def planned_identity_def

text \<open>Jobs are numbered from 0 without gaps and all carry the credential's identity.\<close>

definition jobs_numbered :: "u64 \<Rightarrow> DigestJob list \<Rightarrow> bool" where
  "jobs_numbered cid jobs \<longleftrightarrow>
     length jobs < 2 ^ 64 \<and> map job_identity jobs = map (\<lambda>k. (cid, of_nat k)) [0..<length jobs]"

definition plan_ok :: "MdocDigestPlan \<Rightarrow> bool" where
  "plan_ok plan \<longleftrightarrow>
     jobs_numbered (plan_credential_id plan) (plan_jobs plan) \<and>
     map planned_identity (concat (map pn_digests (plan_namespaces plan)))
       = map job_identity (plan_jobs plan) \<and>
     (\<forall>ns \<in> set (plan_namespaces plan). distinct (map pd_digest_id (pn_digests ns))) \<and>
     distinct (map pn_name (plan_namespaces plan))"

text \<open>
  One stretch of planning: the accumulators grow by the jobs of \<open>entries\<close>, a list of digest
  identifiers with the bytes to hash, with ordinals from \<open>ordinal\<close> on.
\<close>

definition plan_grows :: "u64 \<Rightarrow> DigestAlgorithm \<Rightarrow> nat \<Rightarrow> (int \<times> bytes) list
    \<Rightarrow> plan_acc \<times> PlannedMdocDigest list \<Rightarrow> plan_acc \<times> PlannedMdocDigest list \<Rightarrow> bool" where
  "plan_grows cid alg ordinal entries = (\<lambda>((n, jobs), ps) ((n', jobs'), ps').
     \<exists>js qs. jobs' = jobs @ js \<and> ps' = ps @ qs \<and> map planned_identity qs = map job_identity js \<and>
       map pd_digest_id qs = map fst entries \<and> map job_input js = map snd entries \<and>
       map job_ordinal js = [ordinal..<ordinal + length entries] \<and>
       (\<forall>job \<in> set js. job_algorithm job = alg) \<and>
       (unat n = length jobs \<longrightarrow> jobs_numbered cid jobs \<longrightarrow>
          unat n' = length jobs' \<and> jobs_numbered cid jobs'))"

lemma plan_grows_refl: "plan_grows cid alg k [] acc acc"
  by (auto simp: plan_grows_def split: prod.splits)

lemma plan_grows_trans:
  assumes "plan_grows cid alg k es a b" "plan_grows cid alg (k + length es) fs b c"
  shows "plan_grows cid alg k (es @ fs) a c"
proof -
  obtain n jobs ps n' jobs' ps' n'' jobs'' ps'' where
    abc: "a = ((n, jobs), ps)" "b = ((n', jobs'), ps')" "c = ((n'', jobs''), ps'')"
    by (metis prod.collapse)
  obtain js qs where 1: "jobs' = jobs @ js" "ps' = ps @ qs" "map planned_identity qs = map job_identity js"
      "map pd_digest_id qs = map fst es" "map job_input js = map snd es"
      "map job_ordinal js = [k..<k + length es]" "\<forall>job \<in> set js. job_algorithm job = alg"
      "unat n = length jobs \<longrightarrow> jobs_numbered cid jobs \<longrightarrow> unat n' = length jobs' \<and> jobs_numbered cid jobs'"
    using assms(1) unfolding abc plan_grows_def by auto
  obtain js2 qs2 where 2: "jobs'' = jobs' @ js2" "ps'' = ps' @ qs2"
      "map planned_identity qs2 = map job_identity js2"
      "map pd_digest_id qs2 = map fst fs" "map job_input js2 = map snd fs"
      "map job_ordinal js2 = [k + length es..<k + length es + length fs]"
      "\<forall>job \<in> set js2. job_algorithm job = alg"
      "unat n' = length jobs' \<longrightarrow> jobs_numbered cid jobs' \<longrightarrow>
         unat n'' = length jobs'' \<and> jobs_numbered cid jobs''"
    using assms(2) unfolding abc plan_grows_def by auto
  have "[k..<k + length (es @ fs)] = [k..<k + length es] @ [k + length es..<k + length es + length fs]"
    using upt_add_eq_append [of k "k + length es" "length fs"] by (simp only: length_append add.assoc le_add1)
  then have "jobs'' = jobs @ (js @ js2) \<and> ps'' = ps @ (qs @ qs2) \<and>
      map planned_identity (qs @ qs2) = map job_identity (js @ js2) \<and>
      map pd_digest_id (qs @ qs2) = map fst (es @ fs) \<and> map job_input (js @ js2) = map snd (es @ fs) \<and>
      map job_ordinal (js @ js2) = [k..<k + length (es @ fs)] \<and>
      (\<forall>job \<in> set (js @ js2). job_algorithm job = alg)"
    using 1 2 by (simp add: ball_Un)
  moreover have "unat n = length jobs \<longrightarrow> jobs_numbered cid jobs \<longrightarrow>
      unat n'' = length jobs'' \<and> jobs_numbered cid jobs''"
    using 1(8) 2(8) by simp
  ultimately show ?thesis
    unfolding abc plan_grows_def case_prod_conv
    by (intro exI [of _ "js @ js2"] exI [of _ "qs @ qs2"]) (elim conjE, intro conjI; assumption)
qed

lemma checked_add_u64_Some: "checked_add_u64 a 1 = Some b \<longleftrightarrow> unat a + 1 < 2 ^ 64 \<and> b = a + 1"
  by (auto simp: checked_add_u64_def)

lemma unat_add_one: "unat (a :: u64) + 1 < 2 ^ 64 \<Longrightarrow> unat (a + 1) = unat a + 1"
  by (subst unat_add_lem [THEN iffD1]) auto

lemma push_planned_digest_grows:
  assumes "push_planned_digest cid d k alg input acc = Inr acc'"
  shows "plan_grows cid alg k [(d, input)] acc acc'"
proof -
  obtain n jobs ps where acc: "acc = ((n, jobs), ps)" by (metis prod.collapse)
  let ?job = "\<lparr> job_credential_id = cid, job_job_id = n, job_ordinal = k,
                job_algorithm = alg, job_input = input \<rparr>"
  let ?pd = "\<lparr> pd_credential_id = cid, pd_job_id = n, pd_digest_id = d \<rparr>"
  have n: "unat n + 1 < 2 ^ 64" and acc': "acc' = ((n + 1, jobs @ [?job]), ps @ [?pd])"
    using assms by (auto simp: push_planned_digest_def acc result_simps checked_add_u64_Some)
  have "unat (n + 1) = length (jobs @ [?job]) \<and> jobs_numbered cid (jobs @ [?job])"
    if "unat n = length jobs" "jobs_numbered cid jobs"
  proof -
    have "n = of_nat (length jobs)" by (simp flip: that(1))
    then show ?thesis using that n unat_add_one [OF n] by (simp add: jobs_numbered_def identity_defs)
  qed
  then show ?thesis unfolding acc acc' plan_grows_def by (auto simp: identity_defs)
qed

lemma plan_elements_grows:
  assumes "plan_elements c cid alg k items acc = Inr acc'"
  shows "\<exists>es. map fst es = map item_id items \<and>
    list_all2 (\<lambda>item e. encode_item_bytes c item = Inr (snd e)) items es \<and>
    plan_grows cid alg k es acc acc'"
  using assms
proof (induction items arbitrary: k acc)
  case Nil
  then show ?case using plan_grows_refl by auto
next
  case (Cons item items)
  then obtain input acc1 where step: "encode_item_bytes c item = Inr input"
      "push_planned_digest cid (item_id item) k alg input acc = Inr acc1"
      "plan_elements c cid alg (Suc k) items acc1 = Inr acc'"
    by (auto simp: result_simps)
  obtain es where es: "map fst es = map item_id items"
      "list_all2 (\<lambda>item e. encode_item_bytes c item = Inr (snd e)) items es"
      "plan_grows cid alg (Suc k) es acc1 acc'"
    using Cons.IH [OF step(3)] by blast
  have "plan_grows cid alg k ((item_id item, input) # es) acc acc'"
    using plan_grows_trans [OF push_planned_digest_grows [OF step(2)]] es(3) by simp
  then show ?case using es(1,2) step(1)
    by (intro exI [of _ "(item_id item, input) # es"]) auto
qed

lemma plan_decoys_grows:
  assumes "plan_decoys g cid alg k n used acc r = Some (Inr (acc', r'))"
  shows "\<exists>es. length es = n \<and> distinct (map fst es) \<and> fst ` set es \<inter> used = {} \<and>
    plan_grows cid alg k es acc acc'"
  using assms
proof (induction n arbitrary: k used acc r)
  case 0
  then show ?case using plan_grows_refl by auto
next
  case (Suc n)
  then obtain d used1 r1 where gen: "generate_digest_id g used r = Some (d, used1, r1)"
    by (auto split: option.splits)
  obtain bytes r2 where bytes: "rng_fill g DECOY_BYTES_LENGTH r1 = (bytes, r2)" by fastforce
  obtain acc1 where step: "push_planned_digest cid d k alg bytes acc = Inr acc1"
      "plan_decoys g cid alg (Suc k) n used1 acc1 r2 = Some (Inr (acc', r'))"
    using Suc.prems gen bytes by (auto simp: run_then_Inr)
  obtain es where es: "length es = n" "distinct (map fst es)" "fst ` set es \<inter> used1 = {}"
      "plan_grows cid alg (Suc k) es acc1 acc'"
    using Suc.IH [OF step(2)] by blast
  have "plan_grows cid alg k ((d, bytes) # es) acc acc'"
    using plan_grows_trans [OF push_planned_digest_grows [OF step(1)]] es(4) by simp
  then show ?case using es(1-3) generate_Some [OF gen]
    by (intro exI [of _ "(d, bytes) # es"]) auto
qed

text \<open>What one namespace contributes: its items' encodings, then between five and nine decoys.\<close>

definition decoy_range :: "bool \<Rightarrow> nat \<Rightarrow> bool" where
  "decoy_range enabled n \<longleftrightarrow> (if enabled then 5 \<le> n \<and> n < 10 else n = 0)"

definition namespace_entries :: "'v item_codec \<Rightarrow> bool \<Rightarrow> 'v IssuerSignedItemBytes list
    \<Rightarrow> (int \<times> bytes) list \<Rightarrow> bool" where
  "namespace_entries c decoys items es \<longleftrightarrow>
     distinct (map fst es) \<and> length items \<le> length es \<and> decoy_range decoys (length es - length items) \<and>
     map fst (take (length items) es) = map item_id items \<and>
     list_all2 (\<lambda>item e. encode_item_bytes c item = Inr (snd e)) items (take (length items) es)"

lemma plan_digest_namespace_grows:
  assumes "plan_digest_namespace c g cid items alg decoys acc r = Some (Inr ((acc', ps), r'))"
    and "rng_ranges g" "distinct (map item_id items)"
  shows "\<exists>es. namespace_entries c decoys items es \<and> plan_grows cid alg 0 es (acc, []) (acc', ps)"
proof -
  obtain n r1 where n: "(if decoys then rng_gen_range_5_10 g r else (0, r)) = (n, r1)" by fastforce
  define used where "used = (if n > 0 then set (map item_id items) else {})"
  obtain acc1 where step: "plan_elements c cid alg 0 items (acc, []) = Inr acc1"
      "plan_decoys g cid alg (length items) n used acc1 r1 = Some (Inr ((acc', ps), r'))"
    using assms(1) n by (auto simp: plan_digest_namespace_def run_then_Inr used_def)
  obtain es where es: "map fst es = map item_id items"
      "list_all2 (\<lambda>item e. encode_item_bytes c item = Inr (snd e)) items es"
      "plan_grows cid alg 0 es (acc, []) acc1"
    using plan_elements_grows [OF step(1)] by blast
  obtain ds where ds: "length ds = n" "distinct (map fst ds)" "fst ` set ds \<inter> used = {}"
      "plan_grows cid alg (length items) ds acc1 (acc', ps)"
    using plan_decoys_grows [OF step(2)] by blast
  have len: "length es = length items" using es(1) by (metis length_map)
  have "plan_grows cid alg 0 (es @ ds) (acc, []) (acc', ps)"
    using plan_grows_trans [OF es(3)] ds(4) len by simp
  moreover have "fst ` set ds \<inter> set (map item_id items) = {}"
    using ds(1,3) by (cases "n > 0") (auto simp: used_def)
  moreover have "decoy_range decoys n"
    using n assms(2) by (auto simp: decoy_range_def rng_ranges_def split: if_splits) (metis fst_conv)+
  moreover have "fst ` set es = set (map item_id items)" by (metis es(1) set_map)
  ultimately have "plan_grows cid alg 0 (es @ ds) (acc, []) (acc', ps)"
      "distinct (map fst (es @ ds))" "decoy_range decoys n"
    using es(1) ds(2) assms(3) by (auto simp: Int_commute)
  then show ?thesis
    using es(1,2) ds(1) len by (intro exI [of _ "es @ ds"]) (simp add: namespace_entries_def)
qed

text \<open>The relation between the issuer namespaces and the finished plan.\<close>

definition namespace_planned :: "'v item_codec \<Rightarrow> bool \<Rightarrow> string \<times> 'v IssuerSignedItemBytes list
    \<Rightarrow> PlannedMdocNamespace \<Rightarrow> (int \<times> bytes) list \<Rightarrow> bool" where
  "namespace_planned c decoys = (\<lambda>(name, items) ns es.
     pn_name ns = name \<and> map pd_digest_id (pn_digests ns) = map fst es \<and>
     namespace_entries c decoys items es)"

lemma plan_namespace_list_grows:
  assumes "plan_namespace_list c g cid alg decoys namespaces (n, jobs) r = Some (Inr (((n', jobs'), out), r'))"
    and "rng_ranges g" "\<forall>(name, items) \<in> set namespaces. distinct (map item_id items)"
    and "unat n = length jobs" "jobs_numbered cid jobs"
  shows "jobs_numbered cid jobs' \<and> (\<exists>js ess. jobs' = jobs @ js \<and>
    length ess = length namespaces \<and> length out = length namespaces \<and>
    (\<forall>i < length namespaces. namespace_planned c decoys (namespaces ! i) (out ! i) (ess ! i)) \<and>
    map planned_identity (concat (map pn_digests out)) = map job_identity js \<and>
    map job_input js = map snd (concat ess) \<and> (\<forall>job \<in> set js. job_algorithm job = alg))"
  using assms
proof (induction namespaces arbitrary: n jobs r out)
  case Nil
  then show ?case by auto
next
  case (Cons nsp namespaces)
  obtain name items where nsp: "nsp = (name, items)" by fastforce
  obtain n1 jobs1 ps r1 rest where step:
      "plan_digest_namespace c g cid items alg decoys (n, jobs) r = Some (Inr (((n1, jobs1), ps), r1))"
      "plan_namespace_list c g cid alg decoys namespaces (n1, jobs1) r1 = Some (Inr (((n', jobs'), rest), r'))"
      "out = \<lparr> pn_name = name, pn_digests = ps \<rparr> # rest"
    using Cons.prems(1) nsp by (auto simp: run_then_Inr)
  have "distinct (map item_id items)" using Cons.prems(3) nsp by auto
  then obtain es where es: "namespace_entries c decoys items es"
      "plan_grows cid alg 0 es ((n, jobs), []) ((n1, jobs1), ps)"
    using plan_digest_namespace_grows [OF step(1) Cons.prems(2)] by blast
  then obtain js where js: "jobs1 = jobs @ js" "map planned_identity ps = map job_identity js"
      "map pd_digest_id ps = map fst es" "map job_input js = map snd es"
      "\<forall>job \<in> set js. job_algorithm job = alg" "unat n1 = length jobs1" "jobs_numbered cid jobs1"
    using Cons.prems(4,5) by (auto simp: plan_grows_def)
  have "\<forall>(name, items) \<in> set namespaces. distinct (map item_id items)" using Cons.prems(3) by simp
  from Cons.IH [OF step(2) Cons.prems(2) this js(6,7)]
  obtain js' ess where IH: "jobs_numbered cid jobs'" "jobs' = jobs1 @ js'"
      "length ess = length namespaces" "length rest = length namespaces"
      "\<forall>i < length namespaces. namespace_planned c decoys (namespaces ! i) (rest ! i) (ess ! i)"
      "map planned_identity (concat (map pn_digests rest)) = map job_identity js'"
      "map job_input js' = map snd (concat ess)" "\<forall>job \<in> set js'. job_algorithm job = alg"
    by blast
  have planned: "namespace_planned c decoys ((nsp # namespaces) ! i) (out ! i) ((es # ess) ! i)"
    if "i < length (nsp # namespaces)" for i
    using that IH(5) es(1) js(3) step(3) nsp by (cases i) (auto simp: namespace_planned_def)
  have "jobs' = jobs @ (js @ js') \<and> length (es # ess) = length (nsp # namespaces) \<and>
      length out = length (nsp # namespaces) \<and>
      (\<forall>i < length (nsp # namespaces). namespace_planned c decoys ((nsp # namespaces) ! i) (out ! i) ((es # ess) ! i)) \<and>
      map planned_identity (concat (map pn_digests out)) = map job_identity (js @ js') \<and>
      map job_input (js @ js') = map snd (concat (es # ess)) \<and>
      (\<forall>job \<in> set (js @ js'). job_algorithm job = alg)"
    using js IH planned step(3) by (simp add: ball_Un)
  then show ?case using IH(1) by blast
qed

definition plan_covers :: "'v item_codec \<Rightarrow> DigestAlgorithm \<Rightarrow> bool \<Rightarrow> 'v IssuerNamespaces
    \<Rightarrow> MdocDigestPlan \<Rightarrow> bool" where
  "plan_covers c alg decoys namespaces plan \<longleftrightarrow>
     (\<forall>job \<in> set (plan_jobs plan). job_algorithm job = alg) \<and>
     (\<exists>ess. length ess = length namespaces \<and> length (plan_namespaces plan) = length namespaces \<and>
        (\<forall>i < length namespaces.
           namespace_planned c decoys (namespaces ! i) (plan_namespaces plan ! i) (ess ! i)) \<and>
        map job_input (plan_jobs plan) = map snd (concat ess))"

lemma plan_for_credential_ok:
  assumes "plan_digest_namespaces_for_credential c g cid namespaces alg decoys r = Some (Inr (plan, r'))"
    and "rng_ranges g" "bt_wf namespaces" "\<forall>(name, items) \<in> set namespaces. distinct (map item_id items)"
  shows "plan_ok plan" "plan_covers c alg decoys namespaces plan" "plan_credential_id plan = cid"
proof -
  obtain n jobs out where run:
      "plan_namespace_list c g cid alg decoys namespaces (0, []) r = Some (Inr (((n, jobs), out), r'))"
    and plan: "plan = \<lparr> plan_credential_id = cid, plan_namespaces = out, plan_jobs = jobs \<rparr>"
    using assms(1) by (auto simp: plan_digest_namespaces_for_credential_def run_then_Inr)
  have "jobs_numbered cid []" by (simp add: jobs_numbered_def)
  from plan_namespace_list_grows [OF run assms(2,4) _ this]
  obtain ess where ess: "jobs_numbered cid jobs" "length ess = length namespaces"
      "length out = length namespaces"
      "\<forall>i < length namespaces. namespace_planned c decoys (namespaces ! i) (out ! i) (ess ! i)"
      "map planned_identity (concat (map pn_digests out)) = map job_identity jobs"
      "map job_input jobs = map snd (concat ess)" "\<forall>job \<in> set jobs. job_algorithm job = alg"
    by auto
  show "plan_credential_id plan = cid" by (simp add: plan)
  show "plan_covers c alg decoys namespaces plan" using ess by (auto simp: plan_covers_def plan)
  have names: "map pn_name out = map fst namespaces"
    using ess(3,4) by (simp add: list_eq_iff_nth_eq namespace_planned_def case_prod_beta)
  have "distinct (map pd_digest_id (pn_digests ns))" if "ns \<in> set out" for ns
    using that ess(3,4)
    by (auto simp: in_set_conv_nth namespace_planned_def namespace_entries_def case_prod_beta)
  moreover have "distinct (map fst namespaces)" by (rule btm.items_distinct [OF assms(3)])
  ultimately show "plan_ok plan" using ess(1,5) by (simp add: plan_ok_def plan names)
qed

section \<open>Properties\<close>

text \<open>A generator that counts up, and an encoder that wraps the identifier and value of an item.\<close>

definition sample_rng :: "nat rng_ops" where
  "sample_rng = \<lparr> rng_gen_i32 = (\<lambda>n. (int (n mod 1000), Suc n)), rng_gen_16 = (\<lambda>n. (replicate 16 0, Suc n)),
                  rng_gen_range_5_10 = (\<lambda>n. (5, Suc n)), rng_fill = (\<lambda>k n. (replicate k (of_nat n), Suc n)) \<rparr>"

definition sample_codec :: "nat item_codec" where
  "sample_codec =
     \<lparr> encode_item = (\<lambda>i. Inr [of_int (item_digest_id i), of_nat (item_element_value i)]),
       encode_value = (\<lambda>v. case v of VTag _ (VBytes b) \<Rightarrow> Inr (0xd8 # 24 # b) | _ \<Rightarrow> Inl ()) \<rparr>"

lemma sample_rng_ok: "rng_ranges sample_rng"
proof -
  have "int (n mod 1000) < 2147483648" for n
  proof -
    have "n mod 1000 < 1000" by simp
    then show ?thesis by linarith
  qed
  moreover have "n mod 1000 \<le> 2147483647" for n :: nat
  proof -
    have "n mod 1000 < 1000" by simp
    then show ?thesis by linarith
  qed
  ultimately show ?thesis
    by (simp add: rng_ranges_def sample_rng_def is_i32_def i32_min_def i32_max_def)
qed

text \<open>A digest identifier is the absolute value of the 32-bit integer it is made from, and in
  the documented range, except for the smallest integer: its negation wraps around and the
  identifier stays negative.\<close>
lemma digest_id_range:
  assumes "is_i32 i"
  shows "if i = i32_min then DigestId_new i = i32_min \<and> DigestId_new i < 0
    else DigestId_new i = \<bar>i\<bar> \<and> 0 \<le> DigestId_new i \<and> DigestId_new i \<le> 2 ^ 31 - 1"
proof (cases "i = i32_min")
  case True
  then show ?thesis by (simp add: DigestId_new_def i32_min_def wrap_i32_def)
next
  case False
  then show ?thesis
    using DigestId_new_abs [OF assms False] by (auto simp: is_i32_def i32_max_def)
qed

lemma digest_id_range_witness: "DigestId_new (-5) = 5 \<and> DigestId_new i32_min < 0"
  using digest_id_range [of "-5"] digest_id_range [of i32_min]
  by (simp add: is_i32_def i32_min_def i32_max_def)

text \<open>C29. The loop that draws a digest identifier returns exactly when the generator offers an
  unused identifier at some point, and then it returns the first such offer and records it.\<close>
theorem digest_id_loop:
  "(\<exists>x. generate_digest_id g used r = Some x) = (\<exists>k. fst (offer g k r) \<notin> used) \<and>
   (\<forall>d used' r'. generate_digest_id g used r = Some (d, used', r') \<longrightarrow>
      d \<notin> used \<and> used' = insert d used \<and>
      (\<exists>k. (d, r') = offer g k r \<and> (\<forall>j < k. fst (offer g j r) \<in> used)))"
proof (intro conjI allI impI)
  show "(\<exists>x. generate_digest_id g used r = Some x) = (\<exists>k. fst (offer g k r) \<notin> used)"
    by (rule generate_terminates_iff)
  fix d used' r'
  assume run: "generate_digest_id g used r = Some (d, used', r')"
  show "d \<notin> used" "used' = insert d used" using generate_Some [OF run] by auto
  obtain k where k: "fst (offer g k r) \<notin> used" "\<forall>j < k. fst (offer g j r) \<in> used"
    using generate_offers_fresh [OF run] by blast
  then have "(d, r') = offer g k r" using generate_first_fresh [OF k] run by auto
  then show "\<exists>k. (d, r') = offer g k r \<and> (\<forall>j < k. fst (offer g j r) \<in> used)" using k(2) by blast
qed

lemma sample_generate: "generate_digest_id sample_rng {0, 1} 0 = Some (2, {2, 0, 1}, 3)"
proof -
  have "DigestId_new 0 = 0" "DigestId_new 1 = 1" "DigestId_new 2 = 2" by (simp_all add: DigestId_new_def)
  then show ?thesis
    by (subst generate_digest_id.simps, subst generate_digest_id.simps, subst generate_digest_id.simps)
      (simp add: sample_rng_def insert_commute)
qed

theorem digest_id_loop_witness:
  "(\<exists>k. fst (offer sample_rng k 0) \<notin> {0, 1}) \<and> 2 \<notin> {0, 1 :: int}"
  using digest_id_loop [of sample_rng "{0, 1}" 0] sample_generate by blast

text \<open>C21. Planning gives a consistent plan: job identifiers count from 0 under the credential's
  identity, planned digests refer to the jobs one by one in order, digest identifiers are distinct
  within a namespace, each namespace starts with its items' encodings and is followed by five to
  nine decoys when decoys are enabled and by none otherwise.\<close>
theorem plan_consistent:
  assumes "plan_digest_namespaces_for_credential c g cid namespaces alg decoys r = Some (Inr (plan, r'))"
    and "rng_ranges g" "bt_wf namespaces" "\<forall>(name, items) \<in> set namespaces. distinct (map item_id items)"
  shows "plan_ok plan \<and> plan_covers c alg decoys namespaces plan \<and> plan_credential_id plan = cid"
  using plan_for_credential_ok [OF assms] by blast

definition sample_item :: "nat IssuerSignedItemBytes" where
  "sample_item =
     \<lparr> tag24_inner = \<lparr> item_digest_id = 4, item_random = replicate 16 0, item_element_identifier = ''age'',
                        item_element_value = 7 \<rparr>, tag24_inner_bytes = [4, 7] \<rparr>"

definition sample_plan :: MdocDigestPlan where
  "sample_plan =
     \<lparr> plan_credential_id = 9, plan_namespaces = [\<lparr> pn_name = ''ns'', pn_digests =
         [\<lparr> pd_credential_id = 9, pd_job_id = 0, pd_digest_id = 4 \<rparr>] \<rparr>],
       plan_jobs = [\<lparr> job_credential_id = 9, job_job_id = 0, job_ordinal = 0, job_algorithm = SHA256,
                      job_input = [0xd8, 24, 4, 7] \<rparr>] \<rparr>"

lemma sample_plan_run:
  "plan_digest_namespaces_for_credential sample_codec sample_rng 9 [(''ns'', [sample_item])] SHA256 False 0
     = Some (Inr (sample_plan, 0))"
  by (simp add: plan_digest_namespaces_for_credential_def plan_digest_namespace_def sample_codec_def
      encode_item_bytes_def Tag24_into_def sample_item_def push_planned_digest_def checked_add_u64_def
      sample_plan_def)

theorem plan_consistent_witness:
  "plan_ok sample_plan \<and> plan_covers sample_codec SHA256 False [(''ns'', [sample_item])] sample_plan"
  using plan_consistent [OF sample_plan_run sample_rng_ok] by (simp add: bt_wf_def)

end
