(* ===== verification/Mdoc_Assemble.thy ===== *)
theory Mdoc_Assemble
  imports Mdoc_Plan
begin

text \<open>
  The assembly half of \<^verbatim>\<open>src/issuance/mdoc.rs\<close>: digest results go back to their namespaces and
  identifiers, by position when they follow the plan's order and by identity otherwise, for one
  plan or a batch of plans. The specification \<open>plan_value_digests\<close> looks every planned digest up
  by its identity; both paths are proved to compute it exactly when the results are complete,
  so the order in which an executor answers has no influence and nothing incomplete passes.
\<close>

type_synonym digest_ids = "(int, bytes) btree_map"
type_synonym value_digests = "(string, digest_ids) btree_map"

section \<open>The ordered path\<close>

definition results_follow_plan_order :: "MdocDigestPlan \<Rightarrow> DigestResult list \<Rightarrow> bool" where
  "results_follow_plan_order plan results \<longleftrightarrow>
     length results = length (plan_jobs plan) \<and>
     list_all (\<lambda>(job, result). job_identity job = result_identity result \<and>
                 job_ordinal job = res_ordinal result) (zip (plan_jobs plan) results)"

text \<open>The state of the ordered loops: the two iterators and the expected job identifier.\<close>

type_synonym ordered_acc = "DigestJob list \<times> DigestResult list \<times> u64"

fun assemble_ordered_digests :: "u64 \<Rightarrow> PlannedMdocDigest list \<Rightarrow> ordered_acc \<Rightarrow> digest_ids
    \<Rightarrow> mdoc_error + ordered_acc \<times> digest_ids" where
  "assemble_ordered_digests cid [] acc ids = Inr (acc, ids)"
| "assemble_ordered_digests cid (p # ps) (jobs, results, expected) ids =
     (case jobs of [] \<Rightarrow> Inl PlanUnknownJob
      | job # jobs' \<Rightarrow>
     (case results of [] \<Rightarrow> Inl ExecutorOmittedResult
      | result # results' \<Rightarrow>
        if job_credential_id job \<noteq> cid then Inl PlanInconsistentCredential
        else if job_job_id job \<noteq> expected then Inl PlanDuplicateJob
        else if pd_credential_id p \<noteq> cid then Inl PlanInconsistentCredential
        else if planned_identity p \<noteq> job_identity job then Inl PlanUnknownJob
        else if result_identity result \<noteq> job_identity job then Inl ExecutorChangedIdentity
        else if res_ordinal result \<noteq> job_ordinal job then Inl ExecutorChangedIdentity
        else if length (res_digest result) \<noteq> digest_length (job_algorithm job)
        then Inl ExecutorInvalidLength
        else if bt_contains_key ids (pd_digest_id p) then Inl PlanDuplicateDigestId
        else and_then (ok_or (checked_add_u64 expected 1) TooManyDigestJobs)
          (\<lambda>expected'. assemble_ordered_digests cid ps (jobs', results', expected')
             (bt_insert (pd_digest_id p) (res_digest result) ids))))"

fun assemble_ordered_namespaces :: "u64 \<Rightarrow> PlannedMdocNamespace list \<Rightarrow> ordered_acc \<Rightarrow> value_digests
    \<Rightarrow> mdoc_error + ordered_acc \<times> value_digests" where
  "assemble_ordered_namespaces cid [] acc out = Inr (acc, out)"
| "assemble_ordered_namespaces cid (ns # nss) acc out =
     and_then (assemble_ordered_digests cid (pn_digests ns) acc [])
       (\<lambda>(acc', ids).
          if bt_contains_key out (pn_name ns) then Inl PlanDuplicateNamespace
          else assemble_ordered_namespaces cid nss acc' (bt_insert (pn_name ns) ids out))"

definition assemble_ordered_digest_namespaces ::
    "MdocDigestPlan \<Rightarrow> DigestResult list \<Rightarrow> mdoc_error + value_digests" where
  "assemble_ordered_digest_namespaces plan results =
     and_then (assemble_ordered_namespaces (plan_credential_id plan) (plan_namespaces plan)
                 (plan_jobs plan, results, 0) [])
       (\<lambda>((jobs, results', _), out).
          if jobs \<noteq> [] then Inl PlanUnreferencedJob
          else if results' \<noteq> [] then Inl ExecutorUnexpectedResult
          else Inr out)"

section \<open>The reordered path\<close>

type_synonym result_index = "(u64 \<times> u64, DigestResult) btree_map"
type_synonym digest_index = "(u64 \<times> u64, bytes) btree_map"

definition index_results :: "DigestResult list \<Rightarrow> result_index \<times> bool" where
  "index_results results =
     foldl (\<lambda>(m, dup) result.
         (bt_insert (result_identity result) result m, dup \<or> bt_contains_key m (result_identity result)))
       ([], False) results"

fun restore_jobs :: "u64 \<Rightarrow> DigestJob list \<Rightarrow> (u64 \<times> u64) set \<Rightarrow> result_index \<Rightarrow> digest_index
    \<Rightarrow> mdoc_error + result_index \<times> digest_index" where
  "restore_jobs cid [] expected by_identity digests = Inr (by_identity, digests)"
| "restore_jobs cid (job # jobs) expected by_identity digests =
     (if job_credential_id job \<noteq> cid then Inl PlanInconsistentCredential
      else if job_identity job \<in> expected then Inl PlanDuplicateJob
      else (case bt_get by_identity (job_identity job) of
          None \<Rightarrow> Inl ExecutorOmittedResult
        | Some result \<Rightarrow>
            if res_ordinal result \<noteq> job_ordinal job then Inl ExecutorChangedIdentity
            else if length (res_digest result) \<noteq> digest_length (job_algorithm job)
            then Inl ExecutorInvalidLength
            else restore_jobs cid jobs (insert (job_identity job) expected)
                   (bt_remove (job_identity job) by_identity)
                   (bt_insert (job_identity job) (res_digest result) digests)))"

fun restore_digests :: "u64 \<Rightarrow> PlannedMdocDigest list \<Rightarrow> digest_index \<Rightarrow> digest_ids
    \<Rightarrow> mdoc_error + digest_index \<times> digest_ids" where
  "restore_digests cid [] digests ids = Inr (digests, ids)"
| "restore_digests cid (p # ps) digests ids =
     (if pd_credential_id p \<noteq> cid then Inl PlanInconsistentCredential
      else (case bt_get digests (planned_identity p) of
          None \<Rightarrow> Inl PlanUnknownJob
        | Some d \<Rightarrow>
            if bt_contains_key ids (pd_digest_id p) then Inl PlanDuplicateDigestId
            else restore_digests cid ps (bt_remove (planned_identity p) digests)
                   (bt_insert (pd_digest_id p) d ids)))"

fun restore_namespaces :: "u64 \<Rightarrow> PlannedMdocNamespace list \<Rightarrow> digest_index \<Rightarrow> value_digests
    \<Rightarrow> mdoc_error + digest_index \<times> value_digests" where
  "restore_namespaces cid [] digests out = Inr (digests, out)"
| "restore_namespaces cid (ns # nss) digests out =
     and_then (restore_digests cid (pn_digests ns) digests [])
       (\<lambda>(digests', ids).
          if bt_contains_key out (pn_name ns) then Inl PlanDuplicateNamespace
          else restore_namespaces cid nss digests' (bt_insert (pn_name ns) ids out))"

fun restore_plans :: "MdocDigestPlan list \<Rightarrow> u64 set \<Rightarrow> result_index
    \<Rightarrow> mdoc_error + result_index \<times> value_digests list" where
  "restore_plans [] credential_ids by_identity = Inr (by_identity, [])"
| "restore_plans (plan # plans) credential_ids by_identity =
     (if plan_credential_id plan \<in> credential_ids then Inl BatchDuplicatePlanCredential
      else and_then (restore_jobs (plan_credential_id plan) (plan_jobs plan) {} by_identity [])
        (\<lambda>(by_identity', digests).
           and_then (restore_namespaces (plan_credential_id plan) (plan_namespaces plan) digests [])
             (\<lambda>(digests', out).
                if digests' \<noteq> [] then Inl PlanUnreferencedJob
                else and_then (restore_plans plans (insert (plan_credential_id plan) credential_ids)
                                 by_identity')
                       (\<lambda>(rest, outs). Inr (rest, out # outs)))))"

definition assemble_reordered_digest_batches ::
    "MdocDigestPlan list \<Rightarrow> DigestResult list \<Rightarrow> mdoc_error + value_digests list" where
  "assemble_reordered_digest_batches plans results =
     (let (by_identity, duplicate_result) = index_results results in
      if duplicate_result then Inl ExecutorDuplicateResult
      else and_then (restore_plans plans {} by_identity)
        (\<lambda>(rest, batches). if rest \<noteq> [] then Inl ExecutorUnexpectedResult else Inr batches))"

definition assemble_reordered_digest_namespaces ::
    "MdocDigestPlan \<Rightarrow> DigestResult list \<Rightarrow> mdoc_error + value_digests" where
  "assemble_reordered_digest_namespaces plan results =
     and_then (assemble_reordered_digest_batches [plan] results)
       (\<lambda>batches. ok_or (if batches = [] then None else Some (last batches)) BatchOmittedCredential)"

definition assemble_digest_namespaces ::
    "MdocDigestPlan \<Rightarrow> DigestResult list \<Rightarrow> mdoc_error + value_digests" where
  "assemble_digest_namespaces plan results =
     (if results_follow_plan_order plan results
      then assemble_ordered_digest_namespaces plan results
      else assemble_reordered_digest_namespaces plan results)"

section \<open>Specification\<close>

text \<open>The results as a map by identity, and what every plan is owed.\<close>

definition result_map :: "DigestResult list \<Rightarrow> u64 \<times> u64 \<rightharpoonup> DigestResult" where
  "result_map results = map_of (map (\<lambda>r. (result_identity r, r)) results)"

definition result_fits :: "DigestJob \<Rightarrow> DigestResult \<Rightarrow> bool" where
  "result_fits job r \<longleftrightarrow>
     res_ordinal r = job_ordinal job \<and> length (res_digest r) = digest_length (job_algorithm job)"

definition complete_results :: "DigestJob list \<Rightarrow> DigestResult list \<Rightarrow> bool" where
  "complete_results jobs results \<longleftrightarrow>
     distinct (map result_identity results) \<and>
     set (map result_identity results) = set (map job_identity jobs) \<and>
     (\<forall>job \<in> set jobs. \<exists>r. result_map results (job_identity job) = Some r \<and> result_fits job r)"

definition digest_of :: "DigestResult list \<Rightarrow> u64 \<times> u64 \<Rightarrow> bytes" where
  "digest_of results identity =
     (case result_map results identity of None \<Rightarrow> [] | Some r \<Rightarrow> res_digest r)"

definition namespace_digest_ids ::
    "(u64 \<times> u64 \<Rightarrow> bytes) \<Rightarrow> PlannedMdocNamespace \<Rightarrow> string \<times> digest_ids" where
  "namespace_digest_ids D ns =
     (pn_name ns, bt_of_list (map (\<lambda>p. (pd_digest_id p, D (planned_identity p))) (pn_digests ns)))"

definition plan_value_digests :: "(u64 \<times> u64 \<Rightarrow> bytes) \<Rightarrow> MdocDigestPlan \<Rightarrow> value_digests" where
  "plan_value_digests D plan = bt_of_list (map (namespace_digest_ids D) (plan_namespaces plan))"

section \<open>The reordered path computes the specification\<close>

definition bt_remove_all :: "'k list \<Rightarrow> ('k, 'v) btree_map \<Rightarrow> ('k, 'v) btree_map" where
  "bt_remove_all ks m = foldl (\<lambda>m k. bt_remove k m) m ks"

lemma bt_remove_all_Nil [simp]: "bt_remove_all [] m = m"
  by (simp add: bt_remove_all_def)

lemma bt_remove_all_Cons [simp]: "bt_remove_all (k # ks) m = bt_remove_all ks (bt_remove k m)"
  by (simp add: bt_remove_all_def)

lemma bt_remove_all_append: "bt_remove_all (ks @ ls) m = bt_remove_all ls (bt_remove_all ks m)"
  by (simp add: bt_remove_all_def)

lemma bt_wf_remove_all: "bt_wf m \<Longrightarrow> bt_wf (bt_remove_all ks m)"
  by (induction ks arbitrary: m) (auto simp: bt_wf_remove)

lemma bt_get_remove_all:
  "bt_wf m \<Longrightarrow> bt_get (bt_remove_all ks m) k = (if k \<in> set ks then None else bt_get m k)"
  by (induction ks arbitrary: m) (auto simp: bt_wf_remove bt_get_remove)

lemma bt_remove_all_Nil_iff:
  "bt_wf m \<Longrightarrow> bt_remove_all ks m = [] \<longleftrightarrow> (\<forall>k. bt_get m k \<noteq> None \<longrightarrow> k \<in> set ks)"
  using btm.items_empty_iff [OF bt_wf_remove_all, of m ks]
  by (auto simp: fun_eq_iff bt_get_remove_all split: if_splits)

text \<open>The digest stored for an identity in an index of results.\<close>

definition indexed_digest :: "result_index \<Rightarrow> u64 \<times> u64 \<Rightarrow> bytes" where
  "indexed_digest m k = (case bt_get m k of None \<Rightarrow> [] | Some r \<Rightarrow> res_digest r)"

definition jobs_fit :: "result_index \<Rightarrow> DigestJob list \<Rightarrow> bool" where
  "jobs_fit m jobs \<longleftrightarrow> (\<forall>job \<in> set jobs. \<exists>r. bt_get m (job_identity job) = Some r \<and> result_fits job r)"

lemma jobs_fit_Nil [simp]: "jobs_fit m []"
  by (simp add: jobs_fit_def)

lemma jobs_fit_append: "jobs_fit m (js @ ks) \<longleftrightarrow> jobs_fit m js \<and> jobs_fit m ks"
  by (auto simp: jobs_fit_def)

lemma jobs_fit_remove_all:
  "bt_wf m \<Longrightarrow> set ks \<inter> job_identity ` set jobs = {} \<Longrightarrow>
     jobs_fit (bt_remove_all ks m) jobs \<longleftrightarrow> jobs_fit m jobs"
  unfolding jobs_fit_def
  by (intro ball_cong refl) (auto simp: bt_get_remove_all)

lemma indexed_digest_remove_all:
  "bt_wf m \<Longrightarrow> k \<notin> set ks \<Longrightarrow> indexed_digest (bt_remove_all ks m) k = indexed_digest m k"
  by (simp add: indexed_digest_def bt_get_remove_all)

lemma restore_jobs_Inr:
  assumes "bt_wf m" "\<forall>job \<in> set jobs. job_credential_id job = cid"
    "distinct (map job_identity jobs)" "job_identity ` set jobs \<inter> expected = {}"
  shows "restore_jobs cid jobs expected m digests = Inr out \<longleftrightarrow>
    jobs_fit m jobs \<and> out = (bt_remove_all (map job_identity jobs) m,
      btm.insert_all (map (\<lambda>job. (job_identity job, indexed_digest m (job_identity job))) jobs) digests)"
  using assms
proof (induction jobs arbitrary: expected m digests)
  case Nil
  then show ?case by (auto simp: btm.insert_all_Nil)
next
  case (Cons job jobs)
  let ?k = "job_identity job" and ?m = "bt_remove (job_identity job) m"
  have fresh: "?k \<notin> job_identity ` set jobs" using Cons.prems(3) by simp
  have fit: "jobs_fit ?m jobs \<longleftrightarrow> jobs_fit m jobs"
    using jobs_fit_remove_all [OF Cons.prems(1), of "[?k]" jobs] fresh by simp
  have dg: "indexed_digest ?m (job_identity j) = indexed_digest m (job_identity j)" if "j \<in> set jobs" for j
  proof -
    have "job_identity j \<in> job_identity ` set jobs" using that by (rule imageI)
    then have "job_identity j \<noteq> ?k" using fresh by metis
    then show ?thesis
      using indexed_digest_remove_all [OF Cons.prems(1), of "job_identity j" "[?k]"] by simp
  qed
  have dgs: "map (\<lambda>job. (job_identity job, indexed_digest ?m (job_identity job))) jobs
      = map (\<lambda>job. (job_identity job, indexed_digest m (job_identity job))) jobs"
    using dg by simp
  have IH: "restore_jobs cid jobs (insert ?k expected) ?m d = Inr out \<longleftrightarrow>
      jobs_fit m jobs \<and> out = (bt_remove_all (map job_identity jobs) ?m,
        btm.insert_all (map (\<lambda>job. (job_identity job, indexed_digest m (job_identity job))) jobs) d)" for d
    using Cons.IH [of ?m "insert ?k expected" d] Cons.prems fresh
    by (simp only: fit dgs bt_wf_remove) auto
  show ?case
  proof (cases "bt_get m ?k")
    case None
    then show ?thesis using Cons.prems by (auto simp: jobs_fit_def)
  next
    case (Some r)
    have cons: "jobs_fit m (job # jobs) \<longleftrightarrow> result_fits job r \<and> jobs_fit m jobs"
      using Some by (simp add: jobs_fit_def)
    have "indexed_digest m ?k = res_digest r" using Some by (simp add: indexed_digest_def)
    with Some Cons.prems(2,4) show ?thesis
      unfolding cons by (simp add: IH btm.insert_all_Cons result_fits_def)
  qed
qed

lemma bt_contains_key_insert_all:
  "bt_wf m \<Longrightarrow> bt_contains_key (btm.insert_all xs m) k \<longleftrightarrow> bt_contains_key m k \<or> k \<in> fst ` set xs"
  by (auto simp: bt_contains_key_def btm.get_insert_all map_add_None map_of_eq_None_iff)

lemma restore_digests_ok:
  assumes "bt_wf digests" "bt_wf ids" "\<forall>p \<in> set ps. pd_credential_id p = cid"
    "distinct (map planned_identity ps)" "distinct (map pd_digest_id ps)"
    "\<forall>p \<in> set ps. bt_get digests (planned_identity p) = Some (D (planned_identity p))"
    "\<forall>p \<in> set ps. \<not> bt_contains_key ids (pd_digest_id p)"
  shows "restore_digests cid ps digests ids =
    Inr (bt_remove_all (map planned_identity ps) digests,
         btm.insert_all (map (\<lambda>p. (pd_digest_id p, D (planned_identity p))) ps) ids)"
  using assms
proof (induction ps arbitrary: digests ids)
  case Nil
  then show ?case by (simp add: btm.insert_all_Nil)
next
  case (Cons p ps)
  let ?digests = "bt_remove (planned_identity p) digests"
  let ?ids = "bt_insert (pd_digest_id p) (D (planned_identity p)) ids"
  have get: "\<forall>q \<in> set ps. bt_get ?digests (planned_identity q) = Some (D (planned_identity q))"
    using Cons.prems(1,4,6) by (auto simp: bt_get_remove image_iff)
  have new: "\<forall>q \<in> set ps. \<not> bt_contains_key ?ids (pd_digest_id q)"
    using Cons.prems(5,7) by (auto simp: bt_contains_key_def bt_get_insert image_iff)
  have "restore_digests cid ps ?digests ?ids = Inr (bt_remove_all (map planned_identity ps) ?digests,
      btm.insert_all (map (\<lambda>p. (pd_digest_id p, D (planned_identity p))) ps) ?ids)"
    using Cons.prems get new by (intro Cons.IH) (auto simp: bt_wf_remove bt_wf_insert)
  then show ?case using Cons.prems by (simp add: btm.insert_all_Cons)
qed

lemma restore_namespaces_ok:
  assumes "bt_wf digests" "bt_wf out"
    "\<forall>p \<in> set (concat (map pn_digests nss)). pd_credential_id p = cid \<and>
       bt_get digests (planned_identity p) = Some (D (planned_identity p))"
    "distinct (map planned_identity (concat (map pn_digests nss)))"
    "\<forall>ns \<in> set nss. distinct (map pd_digest_id (pn_digests ns))"
    "distinct (map pn_name nss)" "\<forall>ns \<in> set nss. \<not> bt_contains_key out (pn_name ns)"
  shows "restore_namespaces cid nss digests out =
    Inr (bt_remove_all (map planned_identity (concat (map pn_digests nss))) digests,
         btm.insert_all (map (namespace_digest_ids D) nss) out)"
  using assms
proof (induction nss arbitrary: digests out)
  case Nil
  then show ?case by (simp add: btm.insert_all_Nil)
next
  case (Cons ns nss)
  let ?ps = "pn_digests ns"
  let ?digests = "bt_remove_all (map planned_identity ?ps) digests"
  let ?ids = "btm.insert_all (map (\<lambda>p. (pd_digest_id p, D (planned_identity p))) ?ps) []"
  let ?out = "bt_insert (pn_name ns) ?ids out"
  have first: "restore_digests cid ?ps digests [] = Inr (?digests, ?ids)"
    using Cons.prems
    by (intro restore_digests_ok) (auto simp: bt_wf_Nil bt_contains_key_def bt_get_def)
  have disj: "planned_identity ` set ?ps \<inter> planned_identity ` set (concat (map pn_digests nss)) = {}"
    using Cons.prems(4) by (simp only: list.map concat.simps map_append distinct_append set_map)
  have apart: "planned_identity p \<notin> planned_identity ` set ?ps" if "p \<in> set (concat (map pn_digests nss))" for p
    using that disj by (meson disjoint_iff image_eqI)
  have "restore_namespaces cid nss ?digests ?out =
      Inr (bt_remove_all (map planned_identity (concat (map pn_digests nss))) ?digests,
           btm.insert_all (map (namespace_digest_ids D) nss) ?out)"
  proof (rule Cons.IH)
    show "\<forall>p \<in> set (concat (map pn_digests nss)). pd_credential_id p = cid \<and>
        bt_get ?digests (planned_identity p) = Some (D (planned_identity p))"
    proof
      fix p assume p: "p \<in> set (concat (map pn_digests nss))"
      then have "p \<in> set (concat (map pn_digests (ns # nss)))" by simp
      then show "pd_credential_id p = cid \<and> bt_get ?digests (planned_identity p) = Some (D (planned_identity p))"
        using Cons.prems(3) apart [OF p] by (simp add: bt_get_remove_all [OF Cons.prems(1)])
    qed
    show "\<forall>ns' \<in> set nss. \<not> bt_contains_key ?out (pn_name ns')"
      using Cons.prems(6,7) by (auto simp: bt_contains_key_def bt_get_insert image_iff)
  qed (use Cons.prems in \<open>auto simp: bt_wf_remove_all bt_wf_insert\<close>)
  moreover have "namespace_digest_ids D ns = (pn_name ns, ?ids)"
    by (simp add: namespace_digest_ids_def bt_of_list_insert_all)
  ultimately show ?case
    using first Cons.prems(7) by (simp add: btm.insert_all_Cons bt_remove_all_append)
qed

text \<open>Facts of a consistent plan.\<close>

lemma jobs_numbered_facts:
  assumes "jobs_numbered cid jobs"
  shows "\<forall>job \<in> set jobs. job_credential_id job = cid" "distinct (map job_identity jobs)"
proof -
  have len: "length jobs < 2 ^ 64" and ids: "map job_identity jobs = map (\<lambda>k. (cid, of_nat k)) [0..<length jobs]"
    using assms by (auto simp: jobs_numbered_def)
  have "fst (job_identity job) = cid" if "job \<in> set jobs" for job
  proof -
    have "job_identity job \<in> set (map (\<lambda>k. (cid, of_nat k :: u64)) [0..<length jobs])"
      using that unfolding ids [symmetric] by simp
    then show ?thesis by auto
  qed
  then show "\<forall>job \<in> set jobs. job_credential_id job = cid" by (simp add: job_identity_def)
  have "(of_nat i :: u64) = of_nat j \<longleftrightarrow> i = j" if "i < length jobs" "j < length jobs" for i j
    using that len by (simp add: word_of_nat_eq_iff take_bit_nat_eq_self)
  then show "distinct (map job_identity jobs)"
    unfolding ids by (auto simp: distinct_map inj_on_def)
qed

lemma plan_ok_facts:
  assumes "plan_ok plan"
  shows "\<forall>job \<in> set (plan_jobs plan). job_credential_id job = plan_credential_id plan"
    "distinct (map job_identity (plan_jobs plan))"
    "\<forall>p \<in> set (concat (map pn_digests (plan_namespaces plan))).
       pd_credential_id p = plan_credential_id plan \<and> planned_identity p \<in> job_identity ` set (plan_jobs plan)"
    "distinct (map planned_identity (concat (map pn_digests (plan_namespaces plan))))"
    "set (map planned_identity (concat (map pn_digests (plan_namespaces plan)))) = job_identity ` set (plan_jobs plan)"
proof -
  have num: "jobs_numbered (plan_credential_id plan) (plan_jobs plan)"
    and ids: "map planned_identity (concat (map pn_digests (plan_namespaces plan))) = map job_identity (plan_jobs plan)"
    using assms by (auto simp: plan_ok_def)
  show cid: "\<forall>job \<in> set (plan_jobs plan). job_credential_id job = plan_credential_id plan"
    and dist: "distinct (map job_identity (plan_jobs plan))"
    using jobs_numbered_facts [OF num] by auto
  show "distinct (map planned_identity (concat (map pn_digests (plan_namespaces plan))))"
    using dist ids by simp
  show sets: "set (map planned_identity (concat (map pn_digests (plan_namespaces plan)))) = job_identity ` set (plan_jobs plan)"
    by (simp only: ids set_map)
  show "\<forall>p \<in> set (concat (map pn_digests (plan_namespaces plan))).
       pd_credential_id p = plan_credential_id plan \<and> planned_identity p \<in> job_identity ` set (plan_jobs plan)"
  proof
    fix p assume "p \<in> set (concat (map pn_digests (plan_namespaces plan)))"
    then have "planned_identity p \<in> job_identity ` set (plan_jobs plan)" using sets by (metis imageI set_map)
    moreover from this have "fst (planned_identity p) = plan_credential_id plan"
      using cid by (auto simp: job_identity_def)
    ultimately show "pd_credential_id p = plan_credential_id plan \<and>
        planned_identity p \<in> job_identity ` set (plan_jobs plan)"
      by (simp add: planned_identity_def)
  qed
qed

lemma map_of_rev_graph:
  "map_of (rev (map (\<lambda>x. (f x, D (f x))) xs)) k = (if k \<in> f ` set xs then Some (D k) else None)"
  by (induction xs) (auto simp: map_add_def split: option.splits)

lemma plan_value_digests_cong:
  "\<forall>p \<in> set (concat (map pn_digests (plan_namespaces plan))).
      D (planned_identity p) = E (planned_identity p) \<Longrightarrow>
   plan_value_digests D plan = plan_value_digests E plan"
  unfolding plan_value_digests_def namespace_digest_ids_def
  by (intro arg_cong [of _ _ bt_of_list] map_cong [OF refl] arg_cong2 [of _ _ _ _ Pair] refl) auto

lemma restore_plan_ok:
  assumes "plan_ok plan" "bt_wf digests"
    and "\<And>k. bt_get digests k = (if k \<in> job_identity ` set (plan_jobs plan) then Some (D k) else None)"
  shows "restore_namespaces (plan_credential_id plan) (plan_namespaces plan) digests []
    = Inr ([], plan_value_digests D plan)"
proof -
  let ?ps = "concat (map pn_digests (plan_namespaces plan))"
  note facts = plan_ok_facts [OF assms(1)]
  have "restore_namespaces (plan_credential_id plan) (plan_namespaces plan) digests []
      = Inr (bt_remove_all (map planned_identity ?ps) digests,
             btm.insert_all (map (namespace_digest_ids D) (plan_namespaces plan)) [])"
  proof (rule restore_namespaces_ok)
    show "\<forall>p \<in> set ?ps. pd_credential_id p = plan_credential_id plan \<and>
        bt_get digests (planned_identity p) = Some (D (planned_identity p))"
      using facts(3) by (auto simp only: assms(3) if_True)
    show "\<forall>ns \<in> set (plan_namespaces plan). \<not> bt_contains_key [] (pn_name ns)"
      by (simp add: bt_contains_key_def bt_get_def)
  qed (use assms(1,2) facts(4) in \<open>auto simp: plan_ok_def bt_wf_Nil\<close>)
  moreover have "bt_remove_all (map planned_identity ?ps) digests = []"
    using assms(3) facts(5) by (simp only: bt_remove_all_Nil_iff [OF assms(2)]) simp
  ultimately show ?thesis by (simp add: plan_value_digests_def bt_of_list_insert_all)
qed

lemma restore_plans_Inr:
  assumes "bt_wf m" "\<forall>plan \<in> set plans. plan_ok plan"
    "distinct (map plan_credential_id plans)" "plan_credential_id ` set plans \<inter> creds = {}"
  shows "restore_plans plans creds m = Inr out \<longleftrightarrow>
    jobs_fit m (concat (map plan_jobs plans)) \<and>
    out = (bt_remove_all (map job_identity (concat (map plan_jobs plans))) m,
           map (plan_value_digests (indexed_digest m)) plans)"
  using assms
proof (induction plans arbitrary: creds m out)
  case Nil
  then show ?case by auto
next
  case (Cons plan plans)
  let ?cid = "plan_credential_id plan" and ?ids = "map job_identity (plan_jobs plan)"
  let ?digests = "btm.insert_all (map (\<lambda>job. (job_identity job, indexed_digest m (job_identity job))) (plan_jobs plan)) []"
  have ok: "plan_ok plan" using Cons.prems(2) by simp
  note facts = plan_ok_facts [OF ok]
  have jobs: "restore_jobs ?cid (plan_jobs plan) {} m [] = Inr mm \<longleftrightarrow>
      jobs_fit m (plan_jobs plan) \<and> mm = (bt_remove_all ?ids m, ?digests)" for mm
    using facts(1,2) by (intro restore_jobs_Inr Cons.prems(1)) auto
  have "bt_get ?digests k = (if k \<in> job_identity ` set (plan_jobs plan) then Some (indexed_digest m k) else None)" for k
    by (simp add: btm.get_insert_all bt_wf_Nil btm.get_empty map_of_rev_graph)
  then have nss: "restore_namespaces ?cid (plan_namespaces plan) ?digests [] = Inr ([], plan_value_digests (indexed_digest m) plan)"
    using ok by (intro restore_plan_ok) (simp_all add: btm.wf_insert_all bt_wf_Nil)
  have other: "job_identity ` set (plan_jobs plan) \<inter> job_identity ` set (plan_jobs q) = {}" if "q \<in> set plans" for q
  proof -
    have "plan_credential_id q \<noteq> ?cid"
      using Cons.prems(3) imageI [OF that, of plan_credential_id] by (metis distinct.simps(2) list.simps(9) set_map)
    moreover have "plan_ok q" using that Cons.prems(2) by simp
    ultimately show ?thesis using facts(1) plan_ok_facts(1) by (auto simp: job_identity_def)
  qed
  have fit: "jobs_fit (bt_remove_all ?ids m) (concat (map plan_jobs plans)) \<longleftrightarrow> jobs_fit m (concat (map plan_jobs plans))"
    using other by (intro jobs_fit_remove_all Cons.prems(1)) auto
  have "plan_value_digests (indexed_digest (bt_remove_all ?ids m)) q = plan_value_digests (indexed_digest m) q"
    if q: "q \<in> set plans" for q
  proof (rule plan_value_digests_cong, rule ballI)
    fix p assume "p \<in> set (concat (map pn_digests (plan_namespaces q)))"
    then have "planned_identity p \<in> job_identity ` set (plan_jobs q)"
      using plan_ok_facts(3) [of q] Cons.prems(2) q by auto
    then have "planned_identity p \<notin> set ?ids" using other [OF q] by auto
    then show "indexed_digest (bt_remove_all ?ids m) (planned_identity p) = indexed_digest m (planned_identity p)"
      by (rule indexed_digest_remove_all [OF Cons.prems(1)])
  qed
  then have vals: "map (plan_value_digests (indexed_digest (bt_remove_all ?ids m))) plans
      = map (plan_value_digests (indexed_digest m)) plans" by simp
  have IH: "restore_plans plans (insert ?cid creds) (bt_remove_all ?ids m) = Inr o' \<longleftrightarrow>
      jobs_fit m (concat (map plan_jobs plans)) \<and>
      o' = (bt_remove_all (map job_identity (concat (map plan_jobs plans))) (bt_remove_all ?ids m),
            map (plan_value_digests (indexed_digest m)) plans)" for o'
    using Cons.IH [of "bt_remove_all ?ids m" "insert ?cid creds" o'] Cons.prems
    by (simp only: fit vals bt_wf_remove_all) auto
  have fresh: "?cid \<notin> creds" using Cons.prems(4) by simp
  have "restore_plans (plan # plans) creds m = Inr out \<longleftrightarrow>
      (\<exists>mm. restore_jobs ?cid (plan_jobs plan) {} m [] = Inr mm \<and>
        (\<exists>dd. restore_namespaces ?cid (plan_namespaces plan) (snd mm) [] = Inr dd \<and> fst dd = [] \<and>
          (\<exists>o'. restore_plans plans (insert ?cid creds) (fst mm) = Inr o' \<and>
             out = (fst o', snd dd # snd o'))))"
    using fresh by (auto simp: and_then_Inr case_prod_beta split: if_splits)
  also have "\<dots> \<longleftrightarrow> jobs_fit m (plan_jobs plan) \<and>
      (\<exists>o'. restore_plans plans (insert ?cid creds) (bt_remove_all ?ids m) = Inr o' \<and>
         out = (fst o', plan_value_digests (indexed_digest m) plan # snd o'))"
    by (auto simp: jobs nss)
  also have "\<dots> \<longleftrightarrow> jobs_fit m (concat (map plan_jobs (plan # plans))) \<and>
      out = (bt_remove_all (map job_identity (concat (map plan_jobs (plan # plans)))) m,
             map (plan_value_digests (indexed_digest m)) (plan # plans))"
    by (auto simp: IH jobs_fit_append bt_remove_all_append)
  finally show ?case .
qed

lemma index_results_eq:
  "index_results results =
     (btm.insert_all (map (\<lambda>r. (result_identity r, r)) results) [], \<not> distinct (map result_identity results))"
proof -
  have "foldl (\<lambda>(m, dup) r. (bt_insert (result_identity r) r m, dup \<or> bt_contains_key m (result_identity r)))
      (m, dup) results
    = (btm.insert_all (map (\<lambda>r. (result_identity r, r)) results) m,
       dup \<or> \<not> distinct (map result_identity results) \<or>
         (\<exists>r \<in> set results. bt_contains_key m (result_identity r)))"
    if "bt_wf m" for m dup
    using that
    by (induction results arbitrary: m dup)
      (auto simp: btm.insert_all_Nil btm.insert_all_Cons bt_wf_insert bt_contains_key_def bt_get_insert
        image_iff, metis)
  from this [OF bt_wf_Nil] show ?thesis
    by (simp add: index_results_def bt_contains_key_def bt_get_def)
qed

lemma assemble_batches_iff:
  assumes "\<forall>plan \<in> set plans. plan_ok plan" "distinct (map plan_credential_id plans)"
  shows "assemble_reordered_digest_batches plans results = Inr out \<longleftrightarrow>
    complete_results (concat (map plan_jobs plans)) results \<and>
    out = map (plan_value_digests (digest_of results)) plans"
proof (cases "distinct (map result_identity results)")
  case False
  then show ?thesis
    by (simp add: assemble_reordered_digest_batches_def index_results_eq complete_results_def)
next
  case True
  let ?jobs = "concat (map plan_jobs plans)"
  define m where "m = btm.insert_all (map (\<lambda>r. (result_identity r, r)) results) []"
  have wf: "bt_wf m" by (simp add: m_def btm.wf_insert_all bt_wf_Nil)
  have get: "bt_get m = result_map results"
    using True by (simp add: m_def result_map_def btm.get_insert_all bt_wf_Nil btm.get_empty
        map_of_rev_distinct comp_def)
  have dg: "indexed_digest m = digest_of results"
    by (simp add: fun_eq_iff indexed_digest_def digest_of_def get)
  have dom: "result_map results k \<noteq> None \<longleftrightarrow> k \<in> set (map result_identity results)" for k
    by (auto simp: result_map_def map_of_eq_None_iff image_image)
  have fit: "jobs_fit m ?jobs \<longleftrightarrow>
      (\<forall>job \<in> set ?jobs. \<exists>r. result_map results (job_identity job) = Some r \<and> result_fits job r)"
    by (simp add: jobs_fit_def get)
  have "assemble_reordered_digest_batches plans results = Inr out \<longleftrightarrow>
      (\<exists>ro. restore_plans plans {} m = Inr ro \<and> fst ro = [] \<and> out = snd ro)"
    using True by (auto simp: assemble_reordered_digest_batches_def index_results_eq m_def and_then_Inr
        case_prod_beta split: if_splits)
  also have "\<dots> \<longleftrightarrow> jobs_fit m ?jobs \<and> bt_remove_all (map job_identity ?jobs) m = [] \<and>
      out = map (plan_value_digests (digest_of results)) plans"
    using restore_plans_Inr [OF wf assms, of "{}"] by (auto simp: dg)
  also have "\<dots> \<longleftrightarrow> jobs_fit m ?jobs \<and>
      set (map result_identity results) \<subseteq> set (map job_identity ?jobs) \<and>
      out = map (plan_value_digests (digest_of results)) plans"
    by (simp only: bt_remove_all_Nil_iff [OF wf] get dom) blast
  also have "\<dots> \<longleftrightarrow> complete_results ?jobs results \<and> out = map (plan_value_digests (digest_of results)) plans"
  proof -
    have "set (map job_identity ?jobs) \<subseteq> set (map result_identity results)" if "jobs_fit m ?jobs"
    proof
      fix k assume "k \<in> set (map job_identity ?jobs)"
      then have "result_map results k \<noteq> None" using that fit by auto
      then show "k \<in> set (map result_identity results)" by (simp only: dom)
    qed
    then show ?thesis using True fit unfolding complete_results_def by blast
  qed
  finally show ?thesis .
qed

section \<open>The ordered path computes the same\<close>

definition in_order :: "DigestJob \<Rightarrow> DigestResult \<Rightarrow> bool" where
  "in_order job r \<longleftrightarrow> result_identity r = job_identity job \<and> res_ordinal r = job_ordinal job"

lemma unat_plus_one_bound: "unat (e :: u64) + Suc n < 2 ^ 64 \<Longrightarrow> unat (e + 1) + n < 2 ^ 64"
  using unat_add_one [of e] by simp

lemma assemble_ordered_digests_iff:
  assumes "map planned_identity ps = map job_identity js" "list_all2 in_order js rs"
    "\<forall>job \<in> set js. job_credential_id job = cid"
    "map job_job_id js = map (\<lambda>k. e + of_nat k) [0..<length js]" "unat e + length ps < 2 ^ 64"
    "distinct (map pd_digest_id ps)" "\<forall>p \<in> set ps. \<not> bt_contains_key ids (pd_digest_id p)"
    "\<forall>job \<in> set js. \<forall>r \<in> set rs. result_identity r = job_identity job \<longrightarrow> D (job_identity job) = res_digest r"
  shows "assemble_ordered_digests cid ps (js @ jobs, rs @ results, e) ids = Inr out \<longleftrightarrow>
    list_all2 result_fits js rs \<and>
    out = ((jobs, results, e + of_nat (length ps)),
           btm.insert_all (map (\<lambda>p. (pd_digest_id p, D (planned_identity p))) ps) ids)"
  using assms
proof (induction ps arbitrary: js rs e ids)
  case Nil
  then show ?case by (auto simp: btm.insert_all_Nil)
next
  case (Cons p ps)
  then obtain job js' where js: "js = job # js'" "planned_identity p = job_identity job"
      "map planned_identity ps = map job_identity js'" by (cases js) auto
  then obtain r rs' where rs: "rs = r # rs'" "in_order job r" "list_all2 in_order js' rs'"
    using Cons.prems(2) by (cases rs) auto
  have upt: "[0..<Suc n] = 0 # map Suc [0..<n]" for n by (simp add: map_Suc_upt upt_conv_Cons)
  have job: "job_credential_id job = cid" "job_job_id job = e"
      "map job_job_id js' = map (\<lambda>k. e + 1 + of_nat k) [0..<length js']"
    using Cons.prems(3,4) js(1) by (auto simp: upt comp_def add.assoc simp del: upt_Suc)
  have p: "pd_credential_id p = cid" "\<not> bt_contains_key ids (pd_digest_id p)"
    using js(2) job(1) Cons.prems(7) by (auto simp: identity_defs)
  have e: "unat e + 1 < 2 ^ 64" "unat (e + 1) + length ps < 2 ^ 64"
    using Cons.prems(5) unat_plus_one_bound [of e "length ps"] by auto
  have D: "D (planned_identity p) = res_digest r"
    using Cons.prems(8) js(1,2) rs(1,2) by (auto simp: in_order_def)
  let ?ids = "bt_insert (pd_digest_id p) (res_digest r) ids"
  have new: "\<forall>q \<in> set ps. \<not> bt_contains_key ?ids (pd_digest_id q)"
    using Cons.prems(6,7) by (auto simp: bt_contains_key_def bt_get_insert image_iff)
  have IH: "assemble_ordered_digests cid ps (js' @ jobs, rs' @ results, e + 1) ?ids = Inr out \<longleftrightarrow>
      list_all2 result_fits js' rs' \<and>
      out = ((jobs, results, e + 1 + of_nat (length ps)),
             btm.insert_all (map (\<lambda>p. (pd_digest_id p, D (planned_identity p))) ps) ?ids)"
    using Cons.prems js rs job e new by (intro Cons.IH) auto
  show ?case
    using IH job(1,2) p js(1,2) rs(1,2) e(1) D
    by (simp add: in_order_def result_fits_def [of job r] btm.insert_all_Cons checked_add_u64_def add.assoc)
qed

lemma assemble_ordered_namespaces_iff:
  assumes "map planned_identity (concat (map pn_digests nss)) = map job_identity js"
    "list_all2 in_order js rs" "\<forall>job \<in> set js. job_credential_id job = cid"
    "map job_job_id js = map (\<lambda>k. e + of_nat k) [0..<length js]" "unat e + length js < 2 ^ 64"
    "\<forall>ns \<in> set nss. distinct (map pd_digest_id (pn_digests ns))" "distinct (map pn_name nss)"
    "\<forall>ns \<in> set nss. \<not> bt_contains_key out (pn_name ns)"
    "\<forall>job \<in> set js. \<forall>r \<in> set rs. result_identity r = job_identity job \<longrightarrow> D (job_identity job) = res_digest r"
  shows "assemble_ordered_namespaces cid nss (js, rs, e) out = Inr res \<longleftrightarrow>
    list_all2 result_fits js rs \<and>
    res = (([], [], e + of_nat (length js)), btm.insert_all (map (namespace_digest_ids D) nss) out)"
  using assms
proof (induction nss arbitrary: js rs e out)
  case Nil
  then show ?case by (auto simp: btm.insert_all_Nil)
next
  case (Cons ns nss)
  let ?ps = "pn_digests ns"
  obtain js1 js2 where js: "js = js1 @ js2" "map planned_identity ?ps = map job_identity js1"
      "map planned_identity (concat (map pn_digests nss)) = map job_identity js2"
    using Cons.prems(1) by (auto simp: map_eq_append_conv append_eq_map_conv)
  obtain rs1 rs2 where rs: "rs = rs1 @ rs2" "list_all2 in_order js1 rs1" "list_all2 in_order js2 rs2"
    using Cons.prems(2) js(1) by (auto simp: list_all2_append1)
  have len: "length ?ps = length js1" using js(2) by (metis length_map)
  have upt: "[0..<length js] = [0..<length js1] @ map (\<lambda>k. length js1 + k) [0..<length js2]"
    using js(1) by (simp add: upt_add_eq_append [of 0 "length js1" "length js2"] map_add_upt add.commute)
  have nums: "map job_job_id js1 = map (\<lambda>k. e + of_nat k) [0..<length js1]"
      "map job_job_id js2 = map (\<lambda>k. e + of_nat (length js1) + of_nat k) [0..<length js2]"
    using Cons.prems(4) js(1) unfolding upt by (auto simp: comp_def add.assoc)
  have bound: "unat e + length ?ps < 2 ^ 64" "unat (e + of_nat (length js1)) + length js2 < 2 ^ 64"
  proof -
    have le: "unat e + length js1 + length js2 < 2 ^ 64" using Cons.prems(5) js(1) by simp
    then show "unat e + length ?ps < 2 ^ 64" using len by simp
    have "unat (of_nat (length js1) :: u64) = length js1"
      using le by (simp add: unat_of_nat)
    moreover from this have "unat (e + of_nat (length js1)) = unat e + length js1"
      using le by (subst unat_add_lem [THEN iffD1]) auto
    ultimately show "unat (e + of_nat (length js1)) + length js2 < 2 ^ 64" using le by simp
  qed
  let ?ids = "btm.insert_all (map (\<lambda>p. (pd_digest_id p, D (planned_identity p))) ?ps) []"
  have first: "assemble_ordered_digests cid ?ps (js, rs, e) [] = Inr a \<longleftrightarrow>
      list_all2 result_fits js1 rs1 \<and> a = ((js2, rs2, e + of_nat (length js1)), ?ids)" for a
    unfolding js(1) rs(1) len [symmetric]
    using Cons.prems js(1,2) rs(1,2) nums(1) bound(1)
    by (intro assemble_ordered_digests_iff) (auto simp: bt_contains_key_def bt_get_def)
  let ?out = "bt_insert (pn_name ns) ?ids out"
  have new: "\<forall>ns' \<in> set nss. \<not> bt_contains_key ?out (pn_name ns')"
    using Cons.prems(7,8) by (auto simp: bt_contains_key_def bt_get_insert image_iff)
  have rest: "assemble_ordered_namespaces cid nss (js2, rs2, e + of_nat (length js1)) ?out = Inr res \<longleftrightarrow>
      list_all2 result_fits js2 rs2 \<and>
      res = (([], [], e + of_nat (length js1) + of_nat (length js2)),
             btm.insert_all (map (namespace_digest_ids D) nss) ?out)"
    using Cons.prems js rs nums(2) bound(2) new by (intro Cons.IH) auto
  have "length js1 = length rs1" using rs(2) by (rule list_all2_lengthD)
  then have fits: "list_all2 result_fits js rs \<longleftrightarrow> list_all2 result_fits js1 rs1 \<and> list_all2 result_fits js2 rs2"
    using js(1) rs(1) by (simp add: list_all2_append)
  have "namespace_digest_ids D ns = (pn_name ns, ?ids)"
    by (simp add: namespace_digest_ids_def bt_of_list_insert_all)
  moreover have "assemble_ordered_namespaces cid (ns # nss) (js, rs, e) out = Inr res \<longleftrightarrow>
      list_all2 result_fits js1 rs1 \<and>
      assemble_ordered_namespaces cid nss (js2, rs2, e + of_nat (length js1)) ?out = Inr res"
    using Cons.prems(8) by (auto simp: and_then_Inr first)
  ultimately show ?case
    unfolding rest fits using js(1) by (simp add: btm.insert_all_Cons add.assoc)
qed

lemma complete_in_order:
  assumes "list_all2 in_order jobs results" "distinct (map job_identity jobs)"
  shows "complete_results jobs results \<longleftrightarrow> list_all2 result_fits jobs results"
    and "\<forall>job \<in> set jobs. \<forall>r \<in> set results. result_identity r = job_identity job \<longrightarrow>
      digest_of results (job_identity job) = res_digest r"
proof -
  have ids: "map result_identity results = map job_identity jobs"
    using assms(1) by (induction rule: list_all2_induct) (auto simp: in_order_def)
  then have dist: "distinct (map result_identity results)" using assms(2) by simp
  then have "distinct (map fst (map (\<lambda>r. (result_identity r, r)) results))" by (simp add: comp_def)
  then have get: "result_map results (result_identity r) = Some r" if "r \<in> set results" for r
    using that by (simp add: result_map_def)
  show "\<forall>job \<in> set jobs. \<forall>r \<in> set results. result_identity r = job_identity job \<longrightarrow>
      digest_of results (job_identity job) = res_digest r"
    by (intro ballI impI) (metis digest_of_def get option.simps(5))
  have len: "length results = length jobs" using assms(1) by (simp add: list_all2_lengthD)
  have at: "result_map results (job_identity (jobs ! i)) = Some (results ! i)" if "i < length jobs" for i
    using that get [of "results ! i"] len list_all2_nthD [OF assms(1) that] by (simp add: in_order_def)
  have "(\<forall>job \<in> set jobs. \<exists>r. result_map results (job_identity job) = Some r \<and> result_fits job r)
      \<longleftrightarrow> (\<forall>i < length jobs. result_fits (jobs ! i) (results ! i))"
    by (auto simp: all_set_conv_all_nth at)
  then show "complete_results jobs results \<longleftrightarrow> list_all2 result_fits jobs results"
    using dist ids len by (simp only: complete_results_def list_all2_conv_all_nth set_map simp_thms)
qed

lemma assemble_ordered_iff:
  assumes "plan_ok plan" "results_follow_plan_order plan results"
  shows "assemble_ordered_digest_namespaces plan results = Inr out \<longleftrightarrow>
    complete_results (plan_jobs plan) results \<and> out = plan_value_digests (digest_of results) plan"
proof -
  let ?js = "plan_jobs plan" and ?cid = "plan_credential_id plan"
  note facts = plan_ok_facts [OF assms(1)]
  have ord: "list_all2 in_order ?js results"
    using assms(2)
    by (auto simp: results_follow_plan_order_def list_all2_iff in_order_def list_all_iff)
  have num: "map job_job_id ?js = map (\<lambda>k. 0 + of_nat k) [0..<length ?js]" "length ?js < 2 ^ 64"
  proof -
    have "map job_identity ?js = map (\<lambda>k. (?cid, of_nat k)) [0..<length ?js]"
      using assms(1) by (simp add: plan_ok_def jobs_numbered_def)
    then have "map snd (map job_identity ?js) = map snd (map (\<lambda>k. (?cid, of_nat k :: u64)) [0..<length ?js])"
      by (rule arg_cong)
    then show "map job_job_id ?js = map (\<lambda>k. 0 + of_nat k) [0..<length ?js]"
      by (simp add: job_identity_def comp_def)
    show "length ?js < 2 ^ 64" using assms(1) by (simp add: plan_ok_def jobs_numbered_def)
  qed
  have "assemble_ordered_namespaces ?cid (plan_namespaces plan) (?js, results, 0) [] = Inr res \<longleftrightarrow>
      list_all2 result_fits ?js results \<and>
      res = (([], [], 0 + of_nat (length ?js)),
             btm.insert_all (map (namespace_digest_ids (digest_of results)) (plan_namespaces plan)) [])" for res
    using assms(1) facts ord num complete_in_order(2) [OF ord facts(2)]
    by (intro assemble_ordered_namespaces_iff) (auto simp: plan_ok_def bt_contains_key_def bt_get_def)
  then show ?thesis
    unfolding complete_in_order(1) [OF ord facts(2)]
    by (auto simp: assemble_ordered_digest_namespaces_def and_then_Inr plan_value_digests_def
        bt_of_list_insert_all)
qed

lemma assemble_digest_namespaces_iff:
  assumes "plan_ok plan"
  shows "assemble_digest_namespaces plan results = Inr out \<longleftrightarrow>
    complete_results (plan_jobs plan) results \<and> out = plan_value_digests (digest_of results) plan"
proof (cases "results_follow_plan_order plan results")
  case True
  then show ?thesis using assemble_ordered_iff [OF assms] by (simp add: assemble_digest_namespaces_def)
next
  case False
  then show ?thesis
    using assemble_batches_iff [of "[plan]" results] assms
    by (auto simp: assemble_digest_namespaces_def assemble_reordered_digest_namespaces_def and_then_Inr ok_or_Inr)
qed

section \<open>Assembly over any executor that keeps the contract\<close>

lemma result_map_perm:
  assumes "distinct (map result_identity results)" "mset results = mset results'"
  shows "result_map results = result_map results'"
proof -
  have "distinct (map result_identity results')"
    using assms distinct_map_mset by blast
  moreover have "set results = set results'" using assms(2) by (rule mset_eq_setD)
  ultimately show ?thesis
    using assms(1) by (auto simp: result_map_def comp_def intro!: map_of_inject_set [THEN iffD2])
qed

lemma complete_results_perm:
  assumes "mset results = mset results'"
  shows "complete_results jobs results \<longleftrightarrow> complete_results jobs results'"
proof (cases "distinct (map result_identity results)")
  case True
  moreover have "distinct (map result_identity results')"
    using True assms distinct_map_mset by blast
  moreover have "set results = set results'" using assms by (rule mset_eq_setD)
  ultimately show ?thesis
    using result_map_perm [OF True assms] by (simp add: complete_results_def)
next
  case False
  then have "\<not> distinct (map result_identity results')" using assms distinct_map_mset by blast
  with False show ?thesis by (simp add: complete_results_def)
qed

lemma digest_of_perm:
  "distinct (map result_identity results) \<Longrightarrow> mset results = mset results' \<Longrightarrow>
     digest_of results = digest_of results'"
  using result_map_perm by (auto simp: digest_of_def fun_eq_iff)

lemma execute_digest_job_fields [simp]:
  "result_identity (execute_digest_job h job) = job_identity job"
  "res_ordinal (execute_digest_job h job) = job_ordinal job"
  "res_digest (execute_digest_job h job) = digest h (job_algorithm job) (job_input job)"
  by (simp_all add: execute_digest_job_def digest_result_def identity_defs)

lemma oracle_in_order: "list_all2 in_order jobs (map (execute_digest_job h) jobs)"
  by (simp add: list_all2_conv_all_nth in_order_def)

lemma oracle_complete:
  assumes "sha2_lengths h" "distinct (map job_identity jobs)"
  shows "complete_results jobs (map (execute_digest_job h) jobs)"
proof -
  have "list_all2 result_fits jobs (map (execute_digest_job h) jobs)"
    using assms(1) by (simp add: list_all2_conv_all_nth result_fits_def sha2_lengths_def)
  then show ?thesis using complete_in_order(1) [OF oracle_in_order assms(2)] by blast
qed

text \<open>The value digests of a plan as the serial oracle determines them.\<close>

definition oracle_value_digests :: "sha2_ops \<Rightarrow> DigestJob list \<Rightarrow> MdocDigestPlan \<Rightarrow> value_digests" where
  "oracle_value_digests h jobs plan = plan_value_digests (digest_of (map (execute_digest_job h) jobs)) plan"

context digest_executor
begin

lemma complete:
  assumes "sha2_lengths hash" "distinct (map job_identity jobs)" "execute jobs = Inr results"
  shows "complete_results jobs results"
    "digest_of results = digest_of (map (execute_digest_job hash) jobs)"
proof -
  have perm: "mset results = mset (map (execute_digest_job hash) jobs)"
    by (rule results_of_jobs [OF assms(3)])
  show comp: "complete_results jobs results"
    using oracle_complete [OF assms(1,2)] complete_results_perm [OF perm] by simp
  then show "digest_of results = digest_of (map (execute_digest_job hash) jobs)"
    using digest_of_perm [OF _ perm] by (simp add: complete_results_def)
qed

lemma assembled:
  assumes "sha2_lengths hash" "plan_ok plan" "execute (plan_jobs plan) = Inr results"
  shows "assemble_digest_namespaces plan results = Inr (oracle_value_digests hash (plan_jobs plan) plan)"
  using assms complete [OF assms(1) plan_ok_facts(2) [OF assms(2)] assms(3)]
  by (simp add: assemble_digest_namespaces_iff oracle_value_digests_def)

lemma batch_assembled:
  assumes "sha2_lengths hash" "\<forall>plan \<in> set plans. plan_ok plan" "distinct (map plan_credential_id plans)"
    and "execute (concat (map plan_jobs plans)) = Inr results"
    and "distinct (map job_identity (concat (map plan_jobs plans)))"
  shows "assemble_reordered_digest_batches plans results
    = Inr (map (oracle_value_digests hash (concat (map plan_jobs plans))) plans)"
  using assms(2,3) complete [OF assms(1,5,4)]
  by (simp add: assemble_batches_iff oracle_value_digests_def cong: map_cong)

end

text \<open>The jobs of a batch have distinct identities because the credentials do.\<close>

lemma batch_identities_distinct:
  "\<forall>plan \<in> set plans. plan_ok plan \<Longrightarrow> distinct (map plan_credential_id plans) \<Longrightarrow>
     distinct (map job_identity (concat (map plan_jobs plans)))"
proof (induction plans)
  case Nil
  then show ?case by simp
next
  case (Cons plan plans)
  have "job_identity ` set (plan_jobs plan) \<inter> job_identity ` set (concat (map plan_jobs plans)) = {}"
  proof (rule ccontr)
    assume "\<not> ?thesis"
    then obtain j q j' where j: "j \<in> set (plan_jobs plan)" "q \<in> set plans" "j' \<in> set (plan_jobs q)"
        "job_identity j = job_identity j'"
      by (simp add: disjoint_iff image_iff) (metis prod.collapse)
    then have "plan_credential_id plan = plan_credential_id q"
      using Cons.prems(1) plan_ok_facts(1) by (metis job_identity_def list.set_intros prod.inject)
    then show False using j(2) Cons.prems(2) by (metis distinct.simps(2) image_eqI list.simps(9) set_map)
  qed
  then show ?case using Cons plan_ok_facts(2) by (simp add: image_UN)
qed

text \<open>
  A digest restored for one plan depends only on that plan's own jobs, so the plans of a batch
  get the same value digests as on their own.
\<close>

lemma oracle_digest_job:
  assumes "distinct (map job_identity jobs)" "job \<in> set jobs"
  shows "digest_of (map (execute_digest_job h) jobs) (job_identity job) = digest h (job_algorithm job) (job_input job)"
  using complete_in_order(2) [OF oracle_in_order assms(1), of h] assms(2) by simp

lemma oracle_value_digests_local:
  assumes "plan_ok plan" "set (plan_jobs plan) \<subseteq> set jobs" "distinct (map job_identity jobs)"
  shows "oracle_value_digests h jobs plan = oracle_value_digests h (plan_jobs plan) plan"
  unfolding oracle_value_digests_def
proof (rule plan_value_digests_cong, rule ballI)
  fix p assume "p \<in> set (concat (map pn_digests (plan_namespaces plan)))"
  then obtain job where "job \<in> set (plan_jobs plan)" "planned_identity p = job_identity job"
    using plan_ok_facts(3) [OF assms(1)] by auto
  then show "digest_of (map (execute_digest_job h) jobs) (planned_identity p)
      = digest_of (map (execute_digest_job h) (plan_jobs plan)) (planned_identity p)"
    using assms(2,3) plan_ok_facts(2) [OF assms(1)] by (auto simp: oracle_digest_job)
qed

section \<open>Properties\<close>

text \<open>C8. Assembly of one document's digests, by position or by identity, succeeds exactly when the
  executor answered every job once, with its ordinal and a digest of the right length, and nothing
  else; the outcome is then the digest of each planned identifier looked up by identity. In
  particular it does not depend on the order of the results.\<close>
theorem assembly_characterized:
  assumes "plan_ok plan"
  shows "assemble_digest_namespaces plan results = Inr out \<longleftrightarrow>
    complete_results (plan_jobs plan) results \<and> out = plan_value_digests (digest_of results) plan"
  by (rule assemble_digest_namespaces_iff [OF assms])

lemma sample_plan_ok: "plan_ok sample_plan"
  by (simp add: plan_ok_def sample_plan_def jobs_numbered_def identity_defs)

lemma sample_plan_complete:
  "complete_results (plan_jobs sample_plan) (map (execute_digest_job sample_sha2) (plan_jobs sample_plan))"
  by (rule oracle_complete [OF sample_sha2_ok(2) plan_ok_facts(2) [OF sample_plan_ok]])

theorem assembly_characterized_witness:
  "(\<exists>out. assemble_digest_namespaces sample_plan
            (map (execute_digest_job sample_sha2) (plan_jobs sample_plan)) = Inr out) \<and>
   (\<forall>out. assemble_digest_namespaces sample_plan [] \<noteq> Inr out)"
  using assembly_characterized [OF sample_plan_ok] sample_plan_complete
  by (auto simp: complete_results_def sample_plan_def)

end
