(* ===== verification/Device_Key.thy ===== *)
theory Device_Key
  imports Cbor_Value
begin

text \<open>
  \<^verbatim>\<open>src/definitions/device_key\<close>: the \<^verbatim>\<open>COSE_Key\<close> subset (\<^verbatim>\<open>cose_key.rs\<close>) with its conversions to and
  from CBOR values and to encoded curve points, and the key authorizations (\<^verbatim>\<open>mod.rs\<close>). The
  point parser is a third-party function and a parameter.
\<close>

section \<open>COSE keys\<close>

datatype Algorithm = ES256 | ES384 | ES512 | EdDSA | HMAC_256_256 | OtherAlgorithm int

datatype EC2Y = EC2Y_Value bytes | EC2Y_SignBit bool
datatype EC2Curve = P256 | P384 | P521 | P256K
datatype OKPCurve = X25519 | X448 | Ed25519 | Ed448
datatype CoseKey = EC2 EC2Curve bytes EC2Y | OKP OKPCurve bytes

datatype cose_key_error =
    EC2MissingX | EC2MissingY | InvalidTypeY Value | NotAMap Value | UnknownCurve
  | UnsupportedCurve | UnsupportedKeyType | InvalidCoseKey | UnsupportedFormat | CoseKeyCborError

fun signature_algorithm :: "CoseKey \<Rightarrow> Algorithm option" where
  "signature_algorithm (EC2 P256 x y) = Some ES256"
| "signature_algorithm (EC2 P384 x y) = Some ES384"
| "signature_algorithm (EC2 P521 x y) = Some ES512"
| "signature_algorithm (OKP Ed448 x) = Some EdDSA"
| "signature_algorithm (OKP Ed25519 x) = Some EdDSA"
| "signature_algorithm _ = None"

fun EC2Y_into :: "EC2Y \<Rightarrow> Value" where
  "EC2Y_into (EC2Y_Value s) = VBytes s"
| "EC2Y_into (EC2Y_SignBit b) = VBool b"

fun EC2Y_try_from :: "Value \<Rightarrow> cose_key_error + EC2Y" where
  "EC2Y_try_from (VBytes s) = Inr (EC2Y_Value s)"
| "EC2Y_try_from (VBool b) = Inr (EC2Y_SignBit b)"
| "EC2Y_try_from v = Inl (InvalidTypeY v)"

fun EC2Curve_into :: "EC2Curve \<Rightarrow> Value" where
  "EC2Curve_into P256 = VInteger 1"
| "EC2Curve_into P384 = VInteger 2"
| "EC2Curve_into P521 = VInteger 3"
| "EC2Curve_into P256K = VInteger 8"

definition EC2Curve_try_from :: "int \<Rightarrow> cose_key_error + EC2Curve" where
  "EC2Curve_try_from crv_id =
     (if crv_id = 1 then Inr P256 else if crv_id = 2 then Inr P384
      else if crv_id = 3 then Inr P521 else if crv_id = 8 then Inr P256K
      else Inl UnsupportedCurve)"

fun OKPCurve_into :: "OKPCurve \<Rightarrow> Value" where
  "OKPCurve_into X25519 = VInteger 4"
| "OKPCurve_into X448 = VInteger 5"
| "OKPCurve_into Ed25519 = VInteger 6"
| "OKPCurve_into Ed448 = VInteger 7"

definition OKPCurve_try_from :: "int \<Rightarrow> cose_key_error + OKPCurve" where
  "OKPCurve_try_from crv_id =
     (if crv_id = 4 then Inr X25519 else if crv_id = 5 then Inr X448
      else if crv_id = 6 then Inr Ed25519 else if crv_id = 7 then Inr Ed448
      else Inl UnsupportedCurve)"

fun CoseKey_into :: "CoseKey \<Rightarrow> Value" where
  "CoseKey_into (EC2 crv x y) =
     VMap [(VInteger 1, VInteger 2), (VInteger (-1), EC2Curve_into crv),
           (VInteger (-2), VBytes x), (VInteger (-3), EC2Y_into y)]"
| "CoseKey_into (OKP crv x) =
     VMap [(VInteger 1, VInteger 1), (VInteger (-1), OKPCurve_into crv), (VInteger (-2), VBytes x)]"

fun integer_key :: "Value \<times> Value \<Rightarrow> cose_key_error + int \<times> Value" where
  "integer_key (VInteger k, v) = Inr (k, v)"
| "integer_key (_, v) = Inl CoseKeyCborError"

definition CoseKey_from_map :: "(int, Value) btree_map \<Rightarrow> cose_key_error + CoseKey" where
  "CoseKey_from_map m =
     (case (bt_get m 1, bt_get m (-1), bt_get m (-2)) of
        (Some (VInteger kty), Some (VInteger crv_id), Some (VBytes x)) \<Rightarrow>
          if kty = 2 then
            and_then (EC2Curve_try_from crv_id) (\<lambda>crv.
            and_then (ok_or (bt_get m (-3)) EC2MissingY) (\<lambda>yv.
            and_then (EC2Y_try_from yv) (\<lambda>y. Inr (EC2 crv x y))))
          else if kty = 1 then
            and_then (OKPCurve_try_from crv_id) (\<lambda>crv. Inr (OKP crv x))
          else Inl UnsupportedKeyType
      | _ \<Rightarrow> Inl UnsupportedKeyType)"

definition CoseKey_try_from :: "Value \<Rightarrow> cose_key_error + CoseKey" where
  "CoseKey_try_from v =
     (case v of
        VMap entries \<Rightarrow>
          and_then (try_collect integer_key entries) (\<lambda>kvs. CoseKey_from_map (bt_of_list kvs))
      | _ \<Rightarrow> Inl (NotAMap v))"

text \<open>\<^verbatim>\<open>TryFrom<CoseKey> for EncodedPoint\<close>; \<open>from_bytes\<close> is the parser of the curve package.\<close>

fun EncodedPoint_try_from :: "(bytes \<Rightarrow> unit + 'p) \<Rightarrow> CoseKey \<Rightarrow> cose_key_error + 'p" where
  "EncodedPoint_try_from from_bytes (EC2 P256 x (EC2Y_Value y)) =
     (if length x \<noteq> 32 \<or> length y \<noteq> 32 then Inl InvalidCoseKey
      else map_err (\<lambda>_. InvalidCoseKey) (from_bytes (4 # x @ y)))"
| "EncodedPoint_try_from from_bytes (EC2 P256 x (EC2Y_SignBit y)) =
     (if length x \<noteq> 32 then Inl InvalidCoseKey
      else map_err (\<lambda>_. InvalidCoseKey) (from_bytes ((if y then 3 else 2) # x)))"
| "EncodedPoint_try_from from_bytes _ = Inl InvalidCoseKey"

section \<open>Key authorizations\<close>

record KeyAuthorizations =
  ka_namespaces :: "string list option"
  ka_data_elements :: "(string, string list) btree_map option"

record DeviceKeyInfo =
  dki_device_key :: CoseKey
  dki_key_authorizations :: "KeyAuthorizations option"
  dki_key_info :: "(int, Value) btree_map option"

datatype key_authorizations_error = DoubleAuthorized string

fun first_double :: "(string, string list) btree_map \<Rightarrow> string list \<Rightarrow> key_authorizations_error + unit" where
  "first_double ds [] = Inr ()"
| "first_double ds (ns # nss) =
     (case bt_get ds ns of None \<Rightarrow> first_double ds nss | Some _ \<Rightarrow> Inl (DoubleAuthorized ns))"

definition KeyAuthorizations_validate :: "KeyAuthorizations \<Rightarrow> key_authorizations_error + unit" where
  "KeyAuthorizations_validate a =
     (case ka_data_elements a of
        None \<Rightarrow> Inr ()
      | Some ds \<Rightarrow> (case ka_namespaces a of
          Some nss \<Rightarrow> first_double ds nss
        | None \<Rightarrow> Inr ()))"

definition KeyAuthorizations_permitted :: "KeyAuthorizations \<Rightarrow> string \<Rightarrow> string \<Rightarrow> bool" where
  "KeyAuthorizations_permitted a namespace element_identifier =
     (case ka_namespaces a of
        Some nss \<Rightarrow> namespace \<in> set nss
      | None \<Rightarrow> (case ka_data_elements a of
          Some m \<Rightarrow> (case bt_get m namespace of
              Some elements \<Rightarrow> element_identifier \<in> set elements
            | None \<Rightarrow> False)
        | None \<Rightarrow> False))"

section \<open>Key round trip\<close>

lemma bt_get_of_list4:
  "a \<noteq> b \<Longrightarrow> a \<noteq> c \<Longrightarrow> a \<noteq> d \<Longrightarrow> b \<noteq> c \<Longrightarrow> b \<noteq> d \<Longrightarrow> c \<noteq> d \<Longrightarrow>
     bt_get (bt_of_list [(a, va), (b, vb), (c, vc), (d, vd)])
       = [a \<mapsto> va, b \<mapsto> vb, c \<mapsto> vc, d \<mapsto> vd]"
  by (auto simp: bt_get_of_list fun_eq_iff)

lemma bt_get_of_list3:
  "a \<noteq> b \<Longrightarrow> a \<noteq> c \<Longrightarrow> b \<noteq> c \<Longrightarrow>
     bt_get (bt_of_list [(a, va), (b, vb), (c, vc)]) = [a \<mapsto> va, b \<mapsto> vb, c \<mapsto> vc]"
  by (auto simp: bt_get_of_list fun_eq_iff)

lemma EC2Curve_round_trip: "\<exists>n. EC2Curve_into crv = VInteger n \<and> EC2Curve_try_from n = Inr crv"
  by (cases crv) (auto simp: EC2Curve_try_from_def)

lemma OKPCurve_round_trip: "\<exists>n. OKPCurve_into crv = VInteger n \<and> OKPCurve_try_from n = Inr crv"
  by (cases crv) (auto simp: OKPCurve_try_from_def)

lemma EC2Y_round_trip: "EC2Y_try_from (EC2Y_into y) = Inr y"
  by (cases y) auto

lemma CoseKey_try_from_into: "CoseKey_try_from (CoseKey_into k) = Inr k"
proof (cases k)
  case (EC2 crv x y)
  obtain n where "EC2Curve_into crv = VInteger n" "EC2Curve_try_from n = Inr crv"
    using EC2Curve_round_trip by blast
  then show ?thesis
    by (simp add: EC2 CoseKey_try_from_def CoseKey_from_map_def bt_get_of_list4 EC2Y_round_trip)
next
  case (OKP crv x)
  obtain n where "OKPCurve_into crv = VInteger n" "OKPCurve_try_from n = Inr crv"
    using OKPCurve_round_trip by blast
  then show ?thesis
    by (simp add: OKP CoseKey_try_from_def CoseKey_from_map_def bt_get_of_list3)
qed

text \<open>What is accepted is exactly a map with integer keys that carries the fields of the key.\<close>

definition key_fields :: "CoseKey \<Rightarrow> (int \<times> Value) list" where
  "key_fields k = (case k of
      EC2 crv x y \<Rightarrow> [(1, VInteger 2), (-1, EC2Curve_into crv), (-2, VBytes x), (-3, EC2Y_into y)]
    | OKP crv x \<Rightarrow> [(1, VInteger 1), (-1, OKPCurve_into crv), (-2, VBytes x)])"

lemma EC2Curve_try_from_Inr: "EC2Curve_try_from n = Inr crv \<longleftrightarrow> EC2Curve_into crv = VInteger n"
  by (cases crv) (auto simp: EC2Curve_try_from_def)

lemma OKPCurve_try_from_Inr: "OKPCurve_try_from n = Inr crv \<longleftrightarrow> OKPCurve_into crv = VInteger n"
  by (cases crv) (auto simp: OKPCurve_try_from_def)

lemma EC2Y_try_from_Inr: "EC2Y_try_from v = Inr y \<longleftrightarrow> v = EC2Y_into y"
  by (cases v; cases y) auto

lemma CoseKey_from_map_fields:
  assumes "CoseKey_from_map m = Inr k"
  shows "\<forall>(i, v) \<in> set (key_fields k). bt_get m i = Some v"
proof -
  obtain kty crv x where m: "bt_get m 1 = Some (VInteger kty)" "bt_get m (-1) = Some (VInteger crv)"
      "bt_get m (-2) = Some (VBytes x)"
    using assms by (auto simp: CoseKey_from_map_def split: option.splits Value.splits)
  show ?thesis
    using assms m
    by (auto simp: CoseKey_from_map_def key_fields_def result_simps EC2Curve_try_from_Inr
        OKPCurve_try_from_Inr EC2Y_try_from_Inr split: if_splits)
qed

text \<open>A key that becomes a curve point is a P-256 key with 32-byte coordinates.\<close>

lemma EncodedPoint_shape:
  assumes "EncodedPoint_try_from from_bytes k = Inr p"
  shows "\<exists>x y. k = EC2 P256 x y \<and> length x = 32 \<and>
    (case y of EC2Y_Value yb \<Rightarrow> length yb = 32 \<and> from_bytes (4 # x @ yb) = Inr p
             | EC2Y_SignBit s \<Rightarrow> from_bytes ((if s then 3 else 2) # x) = Inr p)"
  using assms
  by (cases "(from_bytes, k)" rule: EncodedPoint_try_from.cases)
    (auto simp: result_simps split: if_splits)

section \<open>Authorizations\<close>

lemma first_double_Inr: "first_double ds nss = Inr () \<longleftrightarrow> (\<forall>ns \<in> set nss. bt_get ds ns = None)"
  by (induction nss) (auto split: option.splits)

lemma KeyAuthorizations_validate_iff:
  "KeyAuthorizations_validate a = Inr () \<longleftrightarrow>
     (\<forall>nss ds. ka_namespaces a = Some nss \<longrightarrow> ka_data_elements a = Some ds \<longrightarrow>
        (\<forall>ns \<in> set nss. bt_get ds ns = None))"
  by (auto simp: KeyAuthorizations_validate_def first_double_Inr split: option.splits)

text \<open>
  A key is never permitted more than one of its two lists grants. The converse fails: when both
  lists are present the data elements are ignored.
\<close>

lemma permitted_granted:
  "KeyAuthorizations_permitted a ns e \<Longrightarrow>
     (\<exists>nss. ka_namespaces a = Some nss \<and> ns \<in> set nss) \<or>
     (\<exists>ds es. ka_data_elements a = Some ds \<and> bt_get ds ns = Some es \<and> e \<in> set es)"
  by (auto simp: KeyAuthorizations_permitted_def split: option.splits)

lemma permitted_ignores_data_elements:
  "ka_namespaces a = Some nss \<Longrightarrow> KeyAuthorizations_permitted a ns e \<longleftrightarrow> ns \<in> set nss"
  by (simp add: KeyAuthorizations_permitted_def)

section \<open>Properties\<close>

text \<open>Every COSE key survives the round trip through its CBOR value.\<close>
lemma cose_key_round_trip: "CoseKey_try_from (CoseKey_into k) = Inr k"
  by (rule CoseKey_try_from_into)

text \<open>A CBOR value is accepted as a COSE key only when it is a map with integer keys, and the
  key is then exactly what the map holds under the labels 1, -1, -2 and -3 (the last entry wins
  where a label is repeated).\<close>
lemma cose_key_accepts_fields:
  assumes "CoseKey_try_from v = Inr k"
  shows "\<exists>kvs. v = VMap (map (\<lambda>(i, w). (VInteger i, w)) kvs) \<and>
    (\<forall>(i, w) \<in> set (key_fields k). map_of (rev kvs) i = Some w)"
proof -
  obtain entries kvs where v: "v = VMap entries" "try_collect integer_key entries = Inr kvs"
      "CoseKey_from_map (bt_of_list kvs) = Inr k"
    using assms by (auto simp: CoseKey_try_from_def result_simps split: Value.splits)
  have "integer_key e = Inr kv \<longleftrightarrow> e = (VInteger (fst kv), snd kv)" for e kv
    by (cases e rule: integer_key.cases; cases kv) auto
  then have "entries = map (\<lambda>(i, w). (VInteger i, w)) kvs"
    using v(2) unfolding try_collect_Inr by (auto simp: list_all2_conv_all_nth list_eq_iff_nth_eq case_prod_beta)
  then show ?thesis
    using v(1) CoseKey_from_map_fields [OF v(3)] by (auto simp: bt_get_of_list)
qed

lemma cose_key_accepts_fields_witness:
  "map_of (rev [(1, VInteger 1), (-1, VInteger 6), (-2, VBytes [7])]) (-2 :: int) = Some (VBytes [7])"
proof -
  have "CoseKey_try_from (VMap [(VInteger 1, VInteger 1), (VInteger (-1), VInteger 6), (VInteger (-2), VBytes [7])])
      = Inr (OKP Ed25519 [7])"
    using CoseKey_try_from_into [of "OKP Ed25519 [7]"] by simp
  from cose_key_accepts_fields [OF this] show ?thesis
    by (auto simp: key_fields_def)
qed

text \<open>Validation of key authorizations accepts exactly when no authorized namespace also has
  authorized data elements.\<close>
lemma authorizations_validate_iff:
  "KeyAuthorizations_validate a = Inr () \<longleftrightarrow>
     (case (ka_namespaces a, ka_data_elements a) of
        (Some nss, Some ds) \<Rightarrow> set nss \<inter> dom (bt_get ds) = {}
      | _ \<Rightarrow> True)"
  by (auto simp: KeyAuthorizations_validate_iff split: option.splits)

text \<open>As soon as a key has an authorized namespace list, its authorized data elements are never
  consulted: an element that only the data elements authorize is refused, although validation
  accepts the combination.\<close>
lemma permitted_skips_data_elements:
  assumes "ka_namespaces a = Some nss" "ka_data_elements a = Some ds" "bt_get ds ns = Some es" "e \<in> set es"
    "KeyAuthorizations_validate a = Inr ()"
  shows "\<not> KeyAuthorizations_permitted a ns e"
proof
  assume "KeyAuthorizations_permitted a ns e"
  then have "ns \<in> set nss" using permitted_ignores_data_elements [OF assms(1)] by simp
  then show False using assms(1-3,5) by (simp add: KeyAuthorizations_validate_iff)
qed

lemma permitted_skips_data_elements_witness:
  "\<not> KeyAuthorizations_permitted
      \<lparr> ka_namespaces = Some [''a''], ka_data_elements = Some [(''b'', [''x''])] \<rparr> ''b'' ''x''"
  by (rule permitted_skips_data_elements [where nss = "[''a'']" and ds = "[(''b'', [''x''])]" and es = "[''x'']"])
    (simp_all add: KeyAuthorizations_validate_def bt_get_def)

end
