(* ===== verification/Session_Crypto.thy ===== *)
theory Session_Crypto
  imports Sha256
begin

text \<open>
  \<^verbatim>\<open>src/definitions/session_crypto.rs\<close>: the zeroizing streaming SHA-256, HMAC-SHA-256 and the
  one-block HKDF-SHA-256 the session keys are derived with. The compression function
  \<^verbatim>\<open>sha2::compress256\<close> is a parameter; under the hypothesis that it is the standard's, the
  streaming hash equals \<open>sha256\<close> of all bytes fed in, however they are split, and the two
  derived functions equal RFC 2104 and RFC 5869. Panics are the value \<open>None\<close>.
\<close>

section \<open>Streaming SHA-256\<close>

definition SHA256_BLOCK_BYTES :: nat where "SHA256_BLOCK_BYTES = 64"

definition SHA256_INITIAL_STATE :: "u32 st8" where
  "SHA256_INITIAL_STATE = St8 0x6a09e667 0xbb67ae85 0x3c6ef372 0xa54ff53a
                              0x510e527f 0x9b05688c 0x1f83d9ab 0x5be0cd19"

record SecureSha256 =
  sh_state :: "u32 st8"
  sh_buffer :: bytes
  sh_buffer_len :: nat
  sh_message_len :: u64

type_synonym compress256 = "u32 st8 \<Rightarrow> bytes \<Rightarrow> u32 st8"

definition SecureSha256_new :: SecureSha256 where
  "SecureSha256_new = \<lparr> sh_state = SHA256_INITIAL_STATE, sh_buffer = replicate SHA256_BLOCK_BYTES 0,
                        sh_buffer_len = 0, sh_message_len = 0 \<rparr>"

definition compress_buffer :: "compress256 \<Rightarrow> SecureSha256 \<Rightarrow> SecureSha256" where
  "compress_buffer cmpr self =
     self \<lparr> sh_state := cmpr (sh_state self) (sh_buffer self),
            sh_buffer := replicate SHA256_BLOCK_BYTES 0, sh_buffer_len := 0 \<rparr>"

text \<open>\<^verbatim>\<open>slice[start..start + len].copy_from_slice(src)\<close>.\<close>

definition copy_at :: "nat \<Rightarrow> bytes \<Rightarrow> bytes \<Rightarrow> bytes" where
  "copy_at start src dst = take start dst @ src @ drop (start + length src) dst"

function compress_blocks :: "compress256 \<Rightarrow> u32 st8 \<Rightarrow> bytes \<Rightarrow> u32 st8 \<times> bytes" where
  "compress_blocks cmpr s data =
     (if length data \<ge> 64 then compress_blocks cmpr (cmpr s (take 64 data)) (drop 64 data)
      else (s, data))"
  by pat_completeness auto
termination
  by (relation "measure (\<lambda>(cmpr, s, data). length data)") auto

declare compress_blocks.simps [simp del]

text \<open>The first half of \<^verbatim>\<open>update\<close> completes a partly filled buffer, the second takes whole blocks.\<close>

definition update_fill :: "compress256 \<Rightarrow> bytes \<Rightarrow> SecureSha256 \<Rightarrow> SecureSha256 \<times> bytes" where
  "update_fill cmpr data self =
     (if sh_buffer_len self \<noteq> 0
      then (let copied = min (SHA256_BLOCK_BYTES - sh_buffer_len self) (length data);
                filled = self \<lparr> sh_buffer := copy_at (sh_buffer_len self) (take copied data) (sh_buffer self),
                                sh_buffer_len := sh_buffer_len self + copied \<rparr>
            in (if sh_buffer_len filled = SHA256_BLOCK_BYTES then compress_buffer cmpr filled else filled,
                drop copied data))
      else (self, data))"

definition update_blocks :: "compress256 \<Rightarrow> bytes \<Rightarrow> SecureSha256 \<Rightarrow> SecureSha256" where
  "update_blocks cmpr data self =
     (let (state', remaining) = compress_blocks cmpr (sh_state self) data;
          self' = self \<lparr> sh_state := state' \<rparr>
      in if remaining \<noteq> []
         then self' \<lparr> sh_buffer := copy_at 0 remaining (sh_buffer self'), sh_buffer_len := length remaining \<rparr>
         else self')"

definition SecureSha256_update :: "compress256 \<Rightarrow> bytes \<Rightarrow> SecureSha256 \<Rightarrow> SecureSha256 option" where
  "SecureSha256_update cmpr data self =
     (if unat (sh_message_len self) + length data \<ge> 2 ^ 64 then None
      else (let self1 = self \<lparr> sh_message_len := sh_message_len self + of_nat (length data) \<rparr>;
                (self2, data2) = update_fill cmpr data self1
            in Some (update_blocks cmpr data2 self2)))"

definition SecureSha256_finish :: "compress256 \<Rightarrow> SecureSha256 \<Rightarrow> bytes option" where
  "SecureSha256_finish cmpr self =
     (if unat (sh_message_len self) * 8 \<ge> 2 ^ 64 then None
      else
        (let bit_len = sh_message_len self * 8;
             marked = self \<lparr> sh_buffer := (sh_buffer self)[sh_buffer_len self := 0x80],
                             sh_buffer_len := sh_buffer_len self + 1 \<rparr>;
             rolled = (if sh_buffer_len marked > 56
                       then compress_buffer cmpr
                              (marked \<lparr> sh_buffer := take (sh_buffer_len marked) (sh_buffer marked)
                                          @ replicate (64 - sh_buffer_len marked) 0 \<rparr>)
                       else marked);
             block = take (sh_buffer_len rolled) (sh_buffer rolled)
                       @ replicate (56 - sh_buffer_len rolled) 0 @ be_bytes64 bit_len;
             final = compress_buffer cmpr (rolled \<lparr> sh_buffer := block, sh_buffer_len := SHA256_BLOCK_BYTES \<rparr>)
         in Some (concat (map be_bytes32 (st8_list (sh_state final))))))"

definition SecureSha256_clear :: "SecureSha256 \<Rightarrow> SecureSha256" where
  "SecureSha256_clear self =
     \<lparr> sh_state = map_st8 (\<lambda>_. 0) (sh_state self), sh_buffer = map (\<lambda>_. 0) (sh_buffer self),
       sh_buffer_len = 0, sh_message_len = 0 \<rparr>"

fun SecureSha256_update_all :: "compress256 \<Rightarrow> bytes list \<Rightarrow> SecureSha256 \<Rightarrow> SecureSha256 option" where
  "SecureSha256_update_all cmpr [] self = Some self"
| "SecureSha256_update_all cmpr (part # parts) self =
     (case SecureSha256_update cmpr part self of
        None \<Rightarrow> None
      | Some self' \<Rightarrow> SecureSha256_update_all cmpr parts self')"

section \<open>HMAC and HKDF\<close>

text \<open>
  \<^verbatim>\<open>hmac_sha256_into\<close> on its three output arrays: the result is the key block, the inner digest
  and the tag it leaves in them.
\<close>

definition hmac_sha256_into :: "compress256 \<Rightarrow> bytes \<Rightarrow> bytes list \<Rightarrow> (bytes \<times> bytes \<times> bytes) option" where
  "hmac_sha256_into cmpr key message_parts =
     Option.bind
       (if length key > SHA256_BLOCK_BYTES
        then Option.bind (SecureSha256_update cmpr key SecureSha256_new) (\<lambda>hash.
             Option.bind (SecureSha256_finish cmpr hash) (\<lambda>hashed_key.
             Some (copy_at 0 hashed_key (replicate SHA256_BLOCK_BYTES 0))))
        else Some (copy_at 0 key (replicate SHA256_BLOCK_BYTES 0)))
       (\<lambda>key_block.
         (let ipad = map (\<lambda>b. b XOR 0x36) key_block in
          Option.bind (SecureSha256_update cmpr ipad SecureSha256_new) (\<lambda>inner0.
          Option.bind (SecureSha256_update_all cmpr message_parts inner0) (\<lambda>inner.
          Option.bind (SecureSha256_finish cmpr inner) (\<lambda>inner_digest.
          (let opad = map (\<lambda>b. b XOR (0x36 XOR 0x5c)) ipad in
           Option.bind (SecureSha256_update cmpr opad SecureSha256_new) (\<lambda>outer0.
           Option.bind (SecureSha256_update cmpr inner_digest outer0) (\<lambda>outer.
           Option.bind (SecureSha256_finish cmpr outer) (\<lambda>digest.
           Some (opad, inner_digest, digest))))))))))"

record HmacSha256Scratch =
  hs_key_block :: bytes
  hs_inner_digest :: bytes

record HkdfScratch = HmacSha256Scratch +
  hk_prk :: bytes

definition zeroed_hmac_scratch :: HmacSha256Scratch where
  "zeroed_hmac_scratch = \<lparr> hs_key_block = replicate 64 0, hs_inner_digest = replicate 32 0 \<rparr>"

definition zeroed_hkdf_scratch :: HkdfScratch where
  "zeroed_hkdf_scratch = \<lparr> hs_key_block = replicate 64 0, hs_inner_digest = replicate 32 0,
                           hk_prk = replicate 32 0 \<rparr>"

text \<open>What the guards leave of the memory they guard when they are dropped.\<close>

definition zeroize :: "bytes \<Rightarrow> bytes" where "zeroize = map (\<lambda>_. 0)"

definition HmacSha256ScratchGuard_drop :: "HmacSha256Scratch \<Rightarrow> HmacSha256Scratch" where
  "HmacSha256ScratchGuard_drop s =
     \<lparr> hs_key_block = zeroize (hs_key_block s), hs_inner_digest = zeroize (hs_inner_digest s) \<rparr>"

definition HkdfScratchGuard_drop :: "HkdfScratch \<Rightarrow> HkdfScratch" where
  "HkdfScratchGuard_drop s =
     \<lparr> hs_key_block = zeroize (hs_key_block s), hs_inner_digest = zeroize (hs_inner_digest s), hk_prk = zeroize (hk_prk s) \<rparr>"

definition OutputGuard_drop :: "bool \<Rightarrow> bytes \<Rightarrow> bytes" where
  "OutputGuard_drop keep output = (if keep then output else zeroize output)"

text \<open>
  The two guarded operations: \<open>after\<close> is the caller's hook, the result the returned value, the
  output array and the scratch after the guards were dropped, on the early return of the hook's
  error as on the ordinary one. The output was set to zeros before anything is computed.
\<close>

definition hmac_sha256_with_scratch :: "compress256 \<Rightarrow> bytes \<Rightarrow> bytes list \<Rightarrow> (unit + unit)
    \<Rightarrow> ((unit + unit) \<times> bytes \<times> HmacSha256Scratch) option" where
  "hmac_sha256_with_scratch cmpr key message_parts after_compute =
     Option.bind (hmac_sha256_into cmpr key message_parts) (\<lambda>(key_block, inner_digest, output).
       case after_compute of
         Inl e \<Rightarrow> Some (Inl e, OutputGuard_drop False output,
           HmacSha256ScratchGuard_drop \<lparr> hs_key_block = key_block, hs_inner_digest = inner_digest \<rparr>)
       | Inr _ \<Rightarrow> Some (Inr (), OutputGuard_drop True output,
           HmacSha256ScratchGuard_drop \<lparr> hs_key_block = key_block, hs_inner_digest = inner_digest \<rparr>))"

definition hkdf_sha256_32_with_scratch :: "compress256 \<Rightarrow> bytes \<Rightarrow> bytes \<Rightarrow> bytes \<Rightarrow> (unit + unit)
    \<Rightarrow> ((unit + unit) \<times> bytes \<times> HkdfScratch) option" where
  "hkdf_sha256_32_with_scratch cmpr input_key_material salt info after_extract =
     Option.bind (hmac_sha256_into cmpr salt [input_key_material]) (\<lambda>(key_block, inner_digest, prk).
       case after_extract of
         Inl e \<Rightarrow> Some (Inl e, OutputGuard_drop False (replicate 32 0),
           HkdfScratchGuard_drop \<lparr> hs_key_block = key_block, hs_inner_digest = inner_digest, hk_prk = prk \<rparr>)
       | Inr _ \<Rightarrow>
           Option.bind (hmac_sha256_into cmpr prk [info, [1]]) (\<lambda>(key_block, inner_digest, output).
             Some (Inr (), OutputGuard_drop True output,
               HkdfScratchGuard_drop \<lparr> hs_key_block = key_block, hs_inner_digest = inner_digest, hk_prk = prk \<rparr>)))"

section \<open>Specifications\<close>

definition hmac_key_block :: "bytes \<Rightarrow> bytes" where
  "hmac_key_block key = (let k = (if length key > 64 then sha256 key else key)
                         in k @ replicate (64 - length k) 0)"

definition hmac_sha256 :: "bytes \<Rightarrow> bytes \<Rightarrow> bytes" where
  "hmac_sha256 key m =
     sha256 (map (\<lambda>b. b XOR 0x5c) (hmac_key_block key)
       @ sha256 (map (\<lambda>b. b XOR 0x36) (hmac_key_block key) @ m))"

text \<open>HKDF with one output block: extract, then expand with the counter byte 1.\<close>

definition hkdf_sha256_32 :: "bytes \<Rightarrow> bytes \<Rightarrow> bytes \<Rightarrow> bytes" where
  "hkdf_sha256_32 ikm salt info = hmac_sha256 (hmac_sha256 salt ikm) (info @ [1])"

definition compress_standard :: "compress256 \<Rightarrow> bool" where
  "compress_standard cmpr \<longleftrightarrow> (\<forall>s b. length b = 64 \<longrightarrow> cmpr s b = sha_compress s b)"

section \<open>The streaming hash is SHA-256\<close>

definition full_part :: "bytes \<Rightarrow> bytes" where
  "full_part m = take (64 * (length m div 64)) m"

definition rest_part :: "bytes \<Rightarrow> bytes" where
  "rest_part m = drop (64 * (length m div 64)) m"

lemma full_rest: "full_part m @ rest_part m = m"
  by (simp add: full_part_def rest_part_def)

lemma length_parts: "length (full_part m) = 64 * (length m div 64)" "length (rest_part m) = length m mod 64"
  by (simp_all add: full_part_def rest_part_def minus_mult_div_eq_mod)

lemma parts_append: "64 dvd length a \<Longrightarrow> full_part (a @ p) = a @ full_part p \<and> rest_part (a @ p) = rest_part p"
  by (auto simp: full_part_def rest_part_def elim!: dvdE)

lemma parts_small: "length p < 64 \<Longrightarrow> full_part p = [] \<and> rest_part p = p"
  by (simp add: full_part_def rest_part_def)

lemma parts_update:
  "full_part (m @ d) = full_part m @ full_part (rest_part m @ d)"
  "rest_part (m @ d) = rest_part (rest_part m @ d)"
proof -
  have eq: "full_part m @ rest_part m @ d = m @ d" using full_rest [of m] by (metis append_assoc)
  have "64 dvd length (full_part m)" by (simp add: length_parts)
  from parts_append [OF this, of "rest_part m @ d"]
  show "full_part (m @ d) = full_part m @ full_part (rest_part m @ d)"
      "rest_part (m @ d) = rest_part (rest_part m @ d)"
    unfolding eq by blast+
qed

lemma compress_blocks_eq:
  "compress_blocks cmpr s data = (foldl cmpr s (chunks 64 (full_part data)), rest_part data)"
proof (induction cmpr s data rule: compress_blocks.induct)
  case (1 cmpr s data)
  show ?case
  proof (cases "64 \<le> length data")
    case True
    have "data = take 64 data @ drop 64 data" by simp
    moreover have "length (take 64 data) = 64" using True by simp
    ultimately have "full_part data = take 64 data @ full_part (drop 64 data)"
        "rest_part data = rest_part (drop 64 data)"
      using parts_append [of "take 64 data" "drop 64 data"] by auto
    then show ?thesis
      using True 1 \<open>length (take 64 data) = 64\<close>
      by (subst compress_blocks.simps) (simp add: chunks_append)
  next
    case False
    then show ?thesis using parts_small [of data] by (subst compress_blocks.simps) simp
  qed
qed

definition state_after :: "compress256 \<Rightarrow> bytes \<Rightarrow> u32 st8" where
  "state_after cmpr m = foldl cmpr SHA256_INITIAL_STATE (chunks 64 (full_part m))"

lemma state_after_append:
  "state_after cmpr (m @ d) = foldl cmpr (state_after cmpr m) (chunks 64 (full_part (rest_part m @ d)))"
proof -
  have "chunks 64 (full_part m @ full_part (rest_part m @ d))
      = chunks 64 (full_part m) @ chunks 64 (full_part (rest_part m @ d))"
    by (rule chunks_dvd_append) (simp_all add: length_parts)
  then show ?thesis unfolding state_after_def parts_update(1) [of m d] by simp
qed

text \<open>
  \<open>absorbed cmpr m s\<close>: the bytes \<open>m\<close> have gone into \<open>s\<close>, all whole blocks compressed, the
  remainder in the buffer; \<open>represents\<close> adds the length counter.
\<close>

definition absorbed :: "compress256 \<Rightarrow> bytes \<Rightarrow> SecureSha256 \<Rightarrow> bool" where
  "absorbed cmpr m s \<longleftrightarrow>
     length (sh_buffer s) = 64 \<and> sh_buffer_len s = length (rest_part m) \<and>
     take (length (rest_part m)) (sh_buffer s) = rest_part m \<and> sh_state s = state_after cmpr m"

definition represents :: "compress256 \<Rightarrow> bytes \<Rightarrow> SecureSha256 \<Rightarrow> bool" where
  "represents cmpr m s \<longleftrightarrow>
     absorbed cmpr m s \<and> length m < 2 ^ 64 \<and> sh_message_len s = of_nat (length m)"

lemma represents_new: "represents cmpr [] SecureSha256_new"
  by (simp add: represents_def absorbed_def SecureSha256_new_def SHA256_BLOCK_BYTES_def rest_part_def
      state_after_def full_part_def)

lemma rest_part_less: "length (rest_part m) < 64"
  by (simp add: length_parts)

lemma copy_at_take: "k \<le> length dst \<Longrightarrow> take (k + length src) (copy_at k src dst) = take k dst @ src"
  by (simp add: copy_at_def)

lemma length_copy_at: "k + length src \<le> length dst \<Longrightarrow> length (copy_at k src dst) = length dst"
  by (simp add: copy_at_def)

lemma update_blocks_absorbed:
  assumes "absorbed cmpr m s" "sh_buffer_len s = 0 \<or> d = []"
  shows "absorbed cmpr (m @ d) (update_blocks cmpr d s)"
    "sh_message_len (update_blocks cmpr d s) = sh_message_len s"
proof -
  show "sh_message_len (update_blocks cmpr d s) = sh_message_len s"
    by (simp add: update_blocks_def Let_def case_prod_beta)
  show "absorbed cmpr (m @ d) (update_blocks cmpr d s)"
  proof (cases "d = []")
    case True
    then show ?thesis
      using assms(1) by (simp add: update_blocks_def compress_blocks.simps absorbed_def)
  next
    case False
    then have m: "rest_part m = []" using assms by (simp add: absorbed_def)
    have st: "foldl cmpr (sh_state s) (chunks 64 (full_part d)) = state_after cmpr (m @ d)"
      using assms(1) m by (simp add: absorbed_def state_after_append)
    have rest: "rest_part (m @ d) = rest_part d" using m parts_update(2) [of m d] by simp
    show ?thesis
      using assms(1) st rest m rest_part_less [of d]
      by (auto simp: update_blocks_def Let_def compress_blocks_eq absorbed_def copy_at_def)
  qed
qed

lemma rest_part_block: "length b = 64 \<Longrightarrow> full_part b = b \<and> rest_part b = []"
  by (simp add: full_part_def rest_part_def)

lemma update_fill_absorbed:
  assumes "absorbed cmpr m s" "update_fill cmpr d s = (s2, d2)"
  shows "\<exists>c. d = c @ d2 \<and> absorbed cmpr (m @ c) s2 \<and> (sh_buffer_len s2 = 0 \<or> d2 = []) \<and>
    sh_message_len s2 = sh_message_len s"
proof (cases "sh_buffer_len s = 0")
  case True
  then show ?thesis using assms by (intro exI [of _ "[]"]) (simp add: update_fill_def)
next
  case False
  let ?bl = "sh_buffer_len s" and ?r = "rest_part m"
  let ?n = "min (64 - ?bl) (length d)"
  let ?c = "take ?n d" and ?buf = "copy_at ?bl (take ?n d) (sh_buffer s)"
  have bl: "?bl = length ?r" "take ?bl (sh_buffer s) = ?r" "length (sh_buffer s) = 64" "?bl < 64"
    using assms(1) rest_part_less [of m] by (auto simp: absorbed_def)
  have tk: "take (?bl + ?n) ?buf = ?r @ ?c"
    using copy_at_take [of ?bl "sh_buffer s" ?c] bl by simp
  have lc: "length ?buf = 64" using bl length_copy_at [of ?bl ?c "sh_buffer s"] by simp
  have d: "d = ?c @ drop ?n d" by simp
  show ?thesis
  proof (cases "?bl + ?n = 64")
    case True
    have buf: "?buf = ?r @ ?c" using tk lc True by (metis take_all order_refl)
    have block: "length (?r @ ?c) = 64" using bl(1) True by simp
    have "state_after cmpr (m @ ?c) = cmpr (sh_state s) (?r @ ?c)"
      using assms(1) rest_part_block [OF block] chunks_append [of 64 "?r @ ?c" "[]"] block
      by (simp add: state_after_append absorbed_def)
    moreover have "rest_part (m @ ?c) = []"
      using parts_update(2) [of m ?c] rest_part_block [OF block] by simp
    moreover have "d2 = drop ?n d" "s2 = compress_buffer cmpr (s \<lparr> sh_buffer := ?buf, sh_buffer_len := 64 \<rparr>)"
      using assms(2) False True by (auto simp: update_fill_def Let_def SHA256_BLOCK_BYTES_def)
    ultimately show ?thesis
      using d buf by (intro exI [of _ ?c]) (simp add: absorbed_def compress_buffer_def SHA256_BLOCK_BYTES_def)
  next
    case not_full: False
    then have n: "?n = length d" and small: "length (?r @ d) < 64" using bl by auto
    then have "full_part (?r @ d) = []" "rest_part (m @ d) = ?r @ d"
      using parts_small [OF small] parts_update(2) [of m d] by simp_all
    moreover have "d2 = []" "s2 = s \<lparr> sh_buffer := ?buf, sh_buffer_len := ?bl + ?n \<rparr>"
      using assms(2) False not_full n by (auto simp: update_fill_def Let_def SHA256_BLOCK_BYTES_def)
    moreover have "take (?bl + length d) (copy_at ?bl d (sh_buffer s)) = ?r @ d"
      using tk n by simp
    ultimately show ?thesis
      using assms(1) lc n bl(1) by (intro exI [of _ d]) (simp add: absorbed_def state_after_append)
  qed
qed

lemma update_represents:
  assumes "represents cmpr m s" "length (m @ d) < 2 ^ 64"
  shows "\<exists>s'. SecureSha256_update cmpr d s = Some s' \<and> represents cmpr (m @ d) s'"
proof -
  let ?s1 = "s \<lparr> sh_message_len := of_nat (length (m @ d)) \<rparr>"
  have un: "unat (sh_message_len s) = length m"
    using assms by (simp add: represents_def unat_of_nat)
  have ml: "sh_message_len s + of_nat (length d) = of_nat (length (m @ d))"
    using assms(1) by (simp add: represents_def)
  have ab: "absorbed cmpr m ?s1" using assms(1) by (simp add: represents_def absorbed_def)
  obtain s2 d2 where fill: "update_fill cmpr d ?s1 = (s2, d2)" by fastforce
  obtain c where c: "d = c @ d2" "absorbed cmpr (m @ c) s2" "sh_buffer_len s2 = 0 \<or> d2 = []"
      "sh_message_len s2 = of_nat (length (m @ d))"
    using update_fill_absorbed [OF ab fill] by auto
  have "represents cmpr (m @ d) (update_blocks cmpr d2 s2)"
    using update_blocks_absorbed [OF c(2,3)] c(1,4) assms(2) by (simp add: represents_def)
  moreover have "SecureSha256_update cmpr d s = Some (update_blocks cmpr d2 s2)"
    using un ml fill assms(2) by (simp add: SecureSha256_update_def)
  ultimately show ?thesis by blast
qed

lemma take_marked: "n < length b \<Longrightarrow> take (n + 1) (b[n := x]) = take n b @ [x]"
  by (simp add: take_Suc_conv_app_nth)

text \<open>The last one or two blocks of the padded message.\<close>

lemma padded_tail:
  assumes "r = rest_part m" "n = length r"
  shows "chunks 64 (sha_pad m) = chunks 64 (full_part m) @
    (if n < 56 then [r @ 0x80 # replicate (55 - n) 0 @ be_bytes64 (of_nat (length m) * 8)]
     else [r @ 0x80 # replicate (63 - n) 0, replicate 56 0 @ be_bytes64 (of_nat (length m) * 8)])"
proof -
  let ?lb = "be_bytes64 (of_nat (length m) * 8)"
  have n: "n < 64" "length m mod 64 = n" using assms rest_part_less [of m] by (simp_all add: length_parts)
  have "sha_pad m = full_part m @ r @ 0x80 # replicate (pad_zeros (length m)) 0 @ ?lb"
    using full_rest [of m] assms(1) by (metis append_assoc sha_pad_def)
  then have split: "chunks 64 (sha_pad m)
      = chunks 64 (full_part m) @ chunks 64 (r @ 0x80 # replicate (pad_zeros (length m)) 0 @ ?lb)"
    by (simp add: chunks_dvd_append length_parts)
  show ?thesis
  proof (cases "n < 56")
    case True
    then have "pad_zeros (length m) = 55 - n" using n by (simp add: pad_zeros_def)
    moreover have "length (r @ 0x80 # replicate (55 - n) 0 @ ?lb) = 64" using True assms(2) by simp
    ultimately show ?thesis
      using split True chunks_append [of 64 "r @ 0x80 # replicate (55 - n) 0 @ ?lb" "[]"] by simp
  next
    case False
    then have "pad_zeros (length m) = (63 - n) + 56" using n by (simp add: pad_zeros_def)
    then have tail: "r @ 0x80 # replicate (pad_zeros (length m)) 0 @ ?lb
        = (r @ 0x80 # replicate (63 - n) 0) @ (replicate 56 0 @ ?lb)"
      by (simp only: replicate_add append_assoc append_Cons)
    have l1: "length (r @ 0x80 # replicate (63 - n) 0) = 64" using n assms(2) by simp
    have l2: "length (replicate 56 0 @ ?lb) = 64" by simp
    show ?thesis
      using split False chunks_append [OF _ l1, of "replicate 56 0 @ ?lb"] chunks_append [OF _ l2, of "[]"]
      unfolding tail by simp
  qed
qed

lemma state_after_standard:
  assumes "compress_standard cmpr"
  shows "state_after cmpr m = foldl sha_compress INITIAL_STATE (chunks 64 (full_part m))"
proof -
  have "foldl cmpr s bs = foldl sha_compress s bs" if "\<forall>b \<in> set bs. length b = 64" for s bs
    using that assms by (induction bs arbitrary: s) (auto simp: compress_standard_def)
  moreover have "\<forall>b \<in> set (chunks 64 (full_part m)). length b = 64"
    using chunks_group_lengths [of 64 "full_part m"] by (simp add: length_parts)
  ultimately show ?thesis by (simp add: state_after_def SHA256_INITIAL_STATE_def INITIAL_STATE_def)
qed

lemma finish_represents:
  assumes "compress_standard cmpr" "represents cmpr m s" "length m * 8 < 2 ^ 64"
  shows "SecureSha256_finish cmpr s = Some (sha256 m)"
proof -
  let ?r = "rest_part m" and ?n = "length (rest_part m)"
  let ?lb = "be_bytes64 (of_nat (length m) * 8)"
  have un: "unat (sh_message_len s) = length m" "sh_message_len s = of_nat (length m)"
    using assms(2,3) by (simp_all add: represents_def unat_of_nat)
  have ab: "length (sh_buffer s) = 64" "sh_buffer_len s = ?n" "take ?n (sh_buffer s) = ?r"
      "sh_state s = foldl sha_compress INITIAL_STATE (chunks 64 (full_part m))"
    using assms(2) state_after_standard [OF assms(1)] by (simp_all add: represents_def absorbed_def)
  have n: "?n < 64" by (rule rest_part_less)
  have std: "cmpr st b = sha_compress st b" if "length b = 64" for st b
    using assms(1) that by (simp add: compress_standard_def)
  have mark: "take (?n + 1) ((sh_buffer s)[?n := 0x80]) = ?r @ [0x80]"
    using take_marked [of ?n "sh_buffer s" "0x80"] n ab(1,3) by simp
  show ?thesis
  proof (cases "?n < 56")
    case True
    then have block: "length (?r @ 0x80 # replicate (55 - ?n) 0 @ ?lb) = 64" by simp
    have "take (Suc ?n) ((sh_buffer s)[?n := 0x80]) @ replicate (55 - ?n) 0 @ ?lb
        = ?r @ 0x80 # replicate (55 - ?n) 0 @ ?lb" using mark by simp
    then have "SecureSha256_finish cmpr s = Some (sha_digest_bytes
        (sha_compress (sh_state s) (?r @ 0x80 # replicate (55 - ?n) 0 @ ?lb)))"
      using True un assms(3) ab(2) std [OF block]
      by (simp add: SecureSha256_finish_def Let_def compress_buffer_def sha_digest_bytes_def)
    then show ?thesis
      using ab(4) True padded_tail [of ?r m ?n] by (simp add: sha256_def)
  next
    case False
    then have b1: "length (?r @ 0x80 # replicate (63 - ?n) 0) = 64" using n by simp
    have b2: "length (replicate 56 0 @ ?lb) = 64" by simp
    have "take (Suc ?n) ((sh_buffer s)[?n := 0x80]) @ replicate (63 - ?n) 0
        = ?r @ 0x80 # replicate (63 - ?n) 0" using mark by simp
    then have "SecureSha256_finish cmpr s = Some (sha_digest_bytes (sha_compress
        (sha_compress (sh_state s) (?r @ 0x80 # replicate (63 - ?n) 0)) (replicate 56 0 @ ?lb)))"
      using False un assms(3) ab(2) std [OF b1] std [OF b2]
      by (simp add: SecureSha256_finish_def Let_def compress_buffer_def sha_digest_bytes_def)
    then show ?thesis
      using ab(4) False padded_tail [of ?r m ?n] by (simp add: sha256_def)
  qed
qed

lemma finish_overflow:
  "represents cmpr m s \<Longrightarrow> 2 ^ 64 \<le> length m * 8 \<Longrightarrow> SecureSha256_finish cmpr s = None"
  by (simp add: SecureSha256_finish_def represents_def unat_of_nat)

lemma update_all_represents:
  assumes "represents cmpr m s" "length (m @ concat parts) < 2 ^ 64"
  shows "\<exists>s'. SecureSha256_update_all cmpr parts s = Some s' \<and> represents cmpr (m @ concat parts) s'"
  using assms
proof (induction parts arbitrary: m s)
  case Nil
  then show ?case by simp
next
  case (Cons p ps)
  obtain s1 where "SecureSha256_update cmpr p s = Some s1" "represents cmpr (m @ p) s1"
    using update_represents [OF Cons.prems(1), of p] Cons.prems(2) by auto
  then show ?case using Cons.IH [of "m @ p" s1] Cons.prems(2) by simp
qed

section \<open>HMAC and HKDF are the standard functions\<close>

lemma hash_all_parts:
  assumes "compress_standard cmpr" "length (concat parts) < 2 ^ 61"
  shows "Option.bind (SecureSha256_update_all cmpr parts SecureSha256_new) (SecureSha256_finish cmpr)
    = Some (sha256 (concat parts))"
  using update_all_represents [OF represents_new, of parts cmpr] finish_represents [OF assms(1)] assms(2)
  by auto

lemma xor_pads: "(x XOR a) XOR (a XOR c) = x XOR (c :: u8)"
  by (rule bit_word_eqI) (auto simp: bit_simps)

lemma hmac_sha256_into_spec:
  assumes "compress_standard cmpr" "length key < 2 ^ 61" "length (concat parts) < 2 ^ 61 - 64"
  shows "\<exists>opad inner. hmac_sha256_into cmpr key parts = Some (opad, inner, hmac_sha256 key (concat parts)) \<and>
    length opad = 64 \<and> length inner = 32"
proof -
  let ?kb = "hmac_key_block key"
  let ?ipad = "map (\<lambda>b. b XOR 0x36) ?kb" and ?opad = "map (\<lambda>b. b XOR 0x5c) ?kb"
  have hash: "\<exists>s. SecureSha256_update_all cmpr ps SecureSha256_new = Some s \<and>
      SecureSha256_finish cmpr s = Some (sha256 (concat ps))" if "length (concat ps) < 2 ^ 61" for ps
    using hash_all_parts [OF assms(1) that] by (auto simp: bind_eq_Some_conv)
  have kb: "length ?kb = 64" by (simp add: hmac_key_block_def Let_def length_sha256)
  have key: "(if length key > SHA256_BLOCK_BYTES
      then Option.bind (SecureSha256_update cmpr key SecureSha256_new) (\<lambda>hash.
           Option.bind (SecureSha256_finish cmpr hash) (\<lambda>hashed_key.
           Some (copy_at 0 hashed_key (replicate SHA256_BLOCK_BYTES 0))))
      else Some (copy_at 0 key (replicate SHA256_BLOCK_BYTES 0))) = Some ?kb"
    using hash [of "[key]"] assms(2)
    by (auto simp: SHA256_BLOCK_BYTES_def hmac_key_block_def copy_at_def length_sha256
        split: option.splits)
  obtain inner where inner: "SecureSha256_update_all cmpr (?ipad # parts) SecureSha256_new = Some inner"
      "SecureSha256_finish cmpr inner = Some (sha256 (?ipad @ concat parts))"
    using hash [of "?ipad # parts"] kb assms(3) by auto
  then obtain inner0 where inner0: "SecureSha256_update cmpr ?ipad SecureSha256_new = Some inner0"
      "SecureSha256_update_all cmpr parts inner0 = Some inner"
    by (auto split: option.splits)
  obtain outer0 outer where outer: "SecureSha256_update cmpr ?opad SecureSha256_new = Some outer0"
      "SecureSha256_update cmpr (sha256 (?ipad @ concat parts)) outer0 = Some outer"
      "SecureSha256_finish cmpr outer = Some (sha256 (?opad @ sha256 (?ipad @ concat parts)))"
    using hash [of "[?opad, sha256 (?ipad @ concat parts)]"] kb
    by (auto simp: length_sha256 split: option.splits)
  have pads: "map (\<lambda>b. b XOR (0x36 XOR 0x5c)) ?ipad = ?opad"
    by (simp only: map_map comp_def xor_pads)
  show ?thesis
    unfolding hmac_sha256_into_def key hmac_sha256_def
    by (simp only: Option.bind.bind_lunit Let_def pads inner(2) inner0 outer) (simp add: kb length_sha256)
qed

lemma length_hmac_sha256 [length_simps]: "length (hmac_sha256 key m) = 32"
  by (simp add: hmac_sha256_def length_sha256)

lemma guard_drop:
  "length a = 64 \<Longrightarrow> length b = 32 \<Longrightarrow>
     HmacSha256ScratchGuard_drop \<lparr> hs_key_block = a, hs_inner_digest = b \<rparr> = zeroed_hmac_scratch"
  "length a = 64 \<Longrightarrow> length b = 32 \<Longrightarrow> length c = 32 \<Longrightarrow>
     HkdfScratchGuard_drop \<lparr> hs_key_block = a, hs_inner_digest = b, hk_prk = c \<rparr> = zeroed_hkdf_scratch"
  "OutputGuard_drop False (hmac_sha256 key m) = replicate 32 0" "OutputGuard_drop True m = m"
  "OutputGuard_drop False (replicate n 0) = replicate n 0"
  by (simp_all add: HmacSha256ScratchGuard_drop_def HkdfScratchGuard_drop_def OutputGuard_drop_def zeroize_def
    map_replicate_const length_hmac_sha256 zeroed_hmac_scratch_def zeroed_hkdf_scratch_def)

lemma hmac_with_scratch_spec:
  assumes "compress_standard cmpr" "length key < 2 ^ 61" "length (concat parts) < 2 ^ 61 - 64"
  shows "hmac_sha256_with_scratch cmpr key parts after =
    Some (after, if after = Inr () then hmac_sha256 key (concat parts) else replicate 32 0, zeroed_hmac_scratch)"
proof -
  obtain a b where "hmac_sha256_into cmpr key parts = Some (a, b, hmac_sha256 key (concat parts))"
      and "length a = 64" "length b = 32"
    using hmac_sha256_into_spec [OF assms] by blast
  then show ?thesis by (cases "after") (simp_all add: hmac_sha256_with_scratch_def guard_drop)
qed

lemma hkdf_with_scratch_spec:
  assumes "compress_standard cmpr" "length salt < 2 ^ 61" "length ikm < 2 ^ 61 - 64" "length info < 2 ^ 61 - 65"
  shows "hkdf_sha256_32_with_scratch cmpr ikm salt info after =
    Some (after, if after = Inr () then hkdf_sha256_32 ikm salt info else replicate 32 0, zeroed_hkdf_scratch)"
proof -
  obtain a b where 1: "hmac_sha256_into cmpr salt [ikm] = Some (a, b, hmac_sha256 salt ikm)" "length a = 64" "length b = 32"
    using hmac_sha256_into_spec [OF assms(1,2), of "[ikm]"] assms(3) by auto
  obtain c d where 2: "hmac_sha256_into cmpr (hmac_sha256 salt ikm) [info, [1]]
      = Some (c, d, hmac_sha256 (hmac_sha256 salt ikm) (info @ [1]))" "length c = 64" "length d = 32"
    using hmac_sha256_into_spec [OF assms(1), of "hmac_sha256 salt ikm" "[info, [1]]"] assms(4)
    by (auto simp: length_hmac_sha256)
  show ?thesis
    using 1 2 by (cases "after") (simp_all add: hkdf_sha256_32_with_scratch_def hkdf_sha256_32_def guard_drop length_hmac_sha256)
qed

section \<open>Properties\<close>

lemma sha_compress_standard: "compress_standard sha_compress"
  by (simp add: compress_standard_def)

text \<open>C22. The streaming hash computes SHA-256 of the concatenation of its inputs, however they are
  split, for messages up to the standard's length limit; from the limit on it panics instead of
  wrapping the length.\<close>
theorem streaming_sha256:
  assumes "compress_standard cmpr" "length (concat parts) < 2 ^ 64"
  shows "\<exists>s. SecureSha256_update_all cmpr parts SecureSha256_new = Some s \<and>
    SecureSha256_finish cmpr s
      = (if length (concat parts) * 8 < 2 ^ 64 then Some (sha256 (concat parts)) else None)"
proof -
  obtain s where s: "SecureSha256_update_all cmpr parts SecureSha256_new = Some s"
      "represents cmpr (concat parts) s"
    using update_all_represents [OF represents_new, of parts cmpr] assms(2) by auto
  then show ?thesis
    using finish_represents [OF assms(1) s(2)] finish_overflow [OF s(2)] by auto
qed

theorem streaming_sha256_witness:
  "\<exists>s. SecureSha256_update_all sha_compress [replicate 60 1, [2, 3], replicate 70 4] SecureSha256_new = Some s \<and>
    SecureSha256_finish sha_compress s = Some (sha256 (replicate 60 1 @ [2, 3] @ replicate 70 4))"
  using streaming_sha256 [OF sha_compress_standard, of "[replicate 60 1, [2, 3], replicate 70 4]"] by simp

text \<open>C23. The session key derivation is HKDF-SHA-256 (RFC 5869) with one output block, built on
  HMAC-SHA-256 (RFC 2104). Whatever the caller's hook answers, the scratch memory is erased, and
  when the hook fails the output is erased too.\<close>
theorem hkdf_is_standard:
  assumes "compress_standard cmpr" "length salt < 2 ^ 61" "length ikm < 2 ^ 61 - 64" "length info < 2 ^ 61 - 65"
  shows "hkdf_sha256_32_with_scratch cmpr ikm salt info after =
    Some (after, if after = Inr () then hkdf_sha256_32 ikm salt info else replicate 32 0, zeroed_hkdf_scratch)"
  by (rule hkdf_with_scratch_spec [OF assms])

theorem hkdf_is_standard_witness:
  "hkdf_sha256_32_with_scratch sha_compress [1, 2] [3] [4] (Inr ())
     = Some (Inr (), hkdf_sha256_32 [1, 2] [3] [4], zeroed_hkdf_scratch) \<and>
   hkdf_sha256_32_with_scratch sha_compress [1, 2] [3] [4] (Inl ())
     = Some (Inl (), replicate 32 0, zeroed_hkdf_scratch)"
  using hkdf_is_standard [OF sha_compress_standard, of "[3]" "[1, 2]" "[4]" "Inr ()"]
    hkdf_is_standard [OF sha_compress_standard, of "[3]" "[1, 2]" "[4]" "Inl ()"] by simp

end
