(* ===== verification/Cose.thy ===== *)
theory Cose
  imports Device_Key Session_Crypto
begin

text \<open>
  \<^verbatim>\<open>src/cose.rs\<close>, \<^verbatim>\<open>src/cose/sign1.rs\<close> and \<^verbatim>\<open>src/cose/mac0.rs\<close>: optionally tagged COSE structures,
  preparation for remote signing, finalization and verification. Of the header types of the
  COSE package the record has the two fields the sources read or write, the algorithm and the
  list of further entries. The package's \<^verbatim>\<open>sig_structure_data\<close> and \<^verbatim>\<open>mac_structure_data\<close> are
  parameters (a function of protected header, external data and payload), and so are
  signature parsing and verification; the MAC is the HMAC of \<^verbatim>\<open>session_crypto.rs\<close>.
\<close>

section \<open>Structures\<close>

datatype RegisteredAlgorithm = Assigned Algorithm | PrivateUse int | AlgorithmText string

datatype Label = LabelInt int | LabelText string

record Header =
  header_alg :: "RegisteredAlgorithm option"
  header_rest :: "(Label \<times> Value) list"

definition empty_header :: Header where
  "empty_header = \<lparr> header_alg = None, header_rest = [] \<rparr>"

record CoseSign1 =
  s1_protected :: Header
  s1_unprotected :: Header
  s1_payload :: "bytes option"
  s1_signature :: bytes

record CoseMac0 =
  m0_protected :: Header
  m0_unprotected :: Header
  m0_payload :: "bytes option"
  m0_tag :: bytes

record 'a MaybeTagged =
  mt_tagged :: bool
  mt_inner :: 'a

definition MaybeTagged_new :: "bool \<Rightarrow> 'a \<Rightarrow> 'a MaybeTagged" where
  "MaybeTagged_new tagged inner = \<lparr> mt_tagged = tagged, mt_inner = inner \<rparr>"

definition MaybeTagged_set_tagged :: "'a MaybeTagged \<Rightarrow> 'a MaybeTagged" where
  "MaybeTagged_set_tagged m = m \<lparr> mt_tagged := True \<rparr>"

definition MaybeTagged_is_tagged :: "'a MaybeTagged \<Rightarrow> bool" where
  "MaybeTagged_is_tagged m \<longleftrightarrow> mt_tagged m"

text \<open>Serialization through a captured optional tag and the inner CBOR value.\<close>

datatype 'e tag_error = UnexpectedTag | InnerError 'e

definition MaybeTagged_serialize ::
    "u64 \<Rightarrow> ('a \<Rightarrow> 'e + Value) \<Rightarrow> 'a MaybeTagged \<Rightarrow> 'e + u64 option \<times> Value" where
  "MaybeTagged_serialize TAG to_cbor_value m =
     (let tag = (if mt_tagged m then Some TAG else None)
      in map_ok (\<lambda>v. (tag, v)) (to_cbor_value (mt_inner m)))"

definition MaybeTagged_deserialize ::
    "u64 \<Rightarrow> (Value \<Rightarrow> 'e + 'a) \<Rightarrow> u64 option \<times> Value \<Rightarrow> 'e tag_error + 'a MaybeTagged" where
  "MaybeTagged_deserialize TAG from_cbor_value = (\<lambda>(tag, v).
     and_then (map_err InnerError (from_cbor_value v)) (\<lambda>inner.
       case tag of
         Some t \<Rightarrow> if t = TAG then Inr \<lparr> mt_tagged = True, mt_inner = inner \<rparr> else Inl UnexpectedTag
       | None \<Rightarrow> Inr \<lparr> mt_tagged = False, mt_inner = inner \<rparr>))"

section \<open>COSE_Sign1\<close>

datatype sign1_error = S1_DoublePayload | S1_NoPayload | S1_MalformedSignature

record PreparedCoseSign1 =
  ps_cose_sign1 :: "CoseSign1 MaybeTagged"
  ps_signature_payload :: bytes

datatype sign1_verification = S1_Success | S1_Failure string | S1_Error sign1_error

text \<open>What a caller makes of a verification result; \<open>show_error\<close> is the text of an error.\<close>

definition sign1_is_success :: "sign1_verification \<Rightarrow> bool" where
  "sign1_is_success r \<longleftrightarrow> (case r of S1_Success \<Rightarrow> True | _ \<Rightarrow> False)"

fun sign1_into_result :: "(sign1_error \<Rightarrow> string) \<Rightarrow> sign1_verification \<Rightarrow> string + unit" where
  "sign1_into_result show_error S1_Success = Inr ()"
| "sign1_into_result show_error (S1_Failure reason) = Inl reason"
| "sign1_into_result show_error (S1_Error e) = Inl (show_error e)"

definition sign1_into_error :: "sign1_verification \<Rightarrow> sign1_error option" where
  "sign1_into_error r = (case r of S1_Error e \<Rightarrow> Some e | _ \<Rightarrow> None)"

text \<open>The claims of a payload; the package's decoder of claims is a parameter.\<close>

definition sign1_claims_set :: "(bytes \<Rightarrow> 'e + 'c) \<Rightarrow> CoseSign1 MaybeTagged \<Rightarrow> 'e + 'c option" where
  "sign1_claims_set from_slice self =
     (case s1_payload (mt_inner self) of
        None \<Rightarrow> Inr None
      | Some payload \<Rightarrow> map_ok Some (from_slice payload))"

type_synonym structure_data = "Header \<Rightarrow> bytes \<Rightarrow> bytes \<Rightarrow> bytes"

definition aad_or_default :: "bytes option \<Rightarrow> bytes" where
  "aad_or_default aad = (case aad of None \<Rightarrow> [] | Some a \<Rightarrow> a)"

fun exclusive_payload :: "bytes option \<Rightarrow> bytes option \<Rightarrow> sign1_error + bytes" where
  "exclusive_payload (Some _) (Some _) = Inl S1_DoublePayload"
| "exclusive_payload None None = Inl S1_NoPayload"
| "exclusive_payload (Some payload) None = Inr payload"
| "exclusive_payload None (Some payload) = Inr payload"

definition PreparedCoseSign1_new :: "structure_data \<Rightarrow> CoseSign1 \<Rightarrow> bytes option \<Rightarrow> bytes option \<Rightarrow> bool
    \<Rightarrow> sign1_error + PreparedCoseSign1" where
  "PreparedCoseSign1_new sig_structure_data cose_sign1 detached_payload aad tagged =
     and_then (exclusive_payload (s1_payload cose_sign1) detached_payload) (\<lambda>payload.
       Inr \<lparr> ps_cose_sign1 = MaybeTagged_new tagged cose_sign1,
             ps_signature_payload =
               sig_structure_data (s1_protected cose_sign1) (aad_or_default aad) payload \<rparr>)"

definition PreparedCoseSign1_algorithm :: "PreparedCoseSign1 \<Rightarrow> Algorithm option" where
  "PreparedCoseSign1_algorithm p =
     (case header_alg (s1_protected (mt_inner (ps_cose_sign1 p))) of
        Some (Assigned algorithm) \<Rightarrow> Some algorithm
      | _ \<Rightarrow> None)"

definition PreparedCoseSign1_finalize :: "PreparedCoseSign1 \<Rightarrow> bytes \<Rightarrow> CoseSign1 MaybeTagged" where
  "PreparedCoseSign1_finalize p signature =
     (ps_cose_sign1 p) \<lparr> mt_inner := (mt_inner (ps_cose_sign1 p)) \<lparr> s1_signature := signature \<rparr> \<rparr>"

record 's verifier =
  verifier_algorithm :: Algorithm
  verifier_parse :: "bytes \<Rightarrow> 's option"
  verifier_verify :: "bytes \<Rightarrow> 's \<Rightarrow> bool"

definition CoseSign1_verify :: "structure_data \<Rightarrow> 's verifier \<Rightarrow> CoseSign1 MaybeTagged \<Rightarrow> bytes option
    \<Rightarrow> bytes option \<Rightarrow> sign1_verification" where
  "CoseSign1_verify sig_structure_data verifier self detached_payload external_aad =
     (let inner = mt_inner self in
      if (case header_alg (s1_protected inner) of
            Some (Assigned alg) \<Rightarrow> verifier_algorithm verifier \<noteq> alg | _ \<Rightarrow> False)
      then S1_Failure ''algorithm in protected headers did not match verifier's algorithm''
      else (case exclusive_payload (s1_payload inner) detached_payload of
          Inl e \<Rightarrow> S1_Error e
        | Inr payload \<Rightarrow> (case verifier_parse verifier (s1_signature inner) of
            None \<Rightarrow> S1_Error S1_MalformedSignature
          | Some signature \<Rightarrow>
              if verifier_verify verifier
                   (sig_structure_data (s1_protected inner) (aad_or_default external_aad) payload) signature
              then S1_Success else S1_Failure ''signature is not authentic'')))"

text \<open>The two curve verifiers hash the message and check the prehashed signature.\<close>

definition P256Verifier :: "(bytes \<Rightarrow> bytes) \<Rightarrow> (bytes \<Rightarrow> 's option) \<Rightarrow> ('k \<Rightarrow> bytes \<Rightarrow> 's \<Rightarrow> bool) \<Rightarrow> 'k \<Rightarrow> 's verifier" where
  "P256Verifier sha256_digest parse verify_prehashed point =
     \<lparr> verifier_algorithm = ES256, verifier_parse = parse,
       verifier_verify = (\<lambda>message signature. verify_prehashed point (sha256_digest message) signature) \<rparr>"

definition P384Verifier :: "(bytes \<Rightarrow> bytes) \<Rightarrow> (bytes \<Rightarrow> 's option) \<Rightarrow> ('k \<Rightarrow> bytes \<Rightarrow> 's \<Rightarrow> bool) \<Rightarrow> 'k \<Rightarrow> 's verifier" where
  "P384Verifier sha384_digest parse verify_prehashed point =
     \<lparr> verifier_algorithm = ES384, verifier_parse = parse,
       verifier_verify = (\<lambda>message signature. verify_prehashed point (sha384_digest message) signature) \<rparr>"

section \<open>COSE_Mac0\<close>

datatype mac0_error = M0_DoublePayload | M0_NoPayload

record PreparedCoseMac0 =
  pm_cose_mac0 :: "CoseMac0 MaybeTagged"
  pm_tag_payload :: bytes

datatype mac0_verification = M0_Success | M0_Failure string | M0_Error mac0_error

definition mac0_is_success :: "mac0_verification \<Rightarrow> bool" where
  "mac0_is_success r \<longleftrightarrow> (case r of M0_Success \<Rightarrow> True | _ \<Rightarrow> False)"

fun mac0_into_result :: "(mac0_error \<Rightarrow> string) \<Rightarrow> mac0_verification \<Rightarrow> string + unit" where
  "mac0_into_result show_error M0_Success = Inr ()"
| "mac0_into_result show_error (M0_Failure reason) = Inl reason"
| "mac0_into_result show_error (M0_Error e) = Inl (show_error e)"

definition mac0_into_error :: "mac0_verification \<Rightarrow> mac0_error option" where
  "mac0_into_error r = (case r of M0_Error e \<Rightarrow> Some e | _ \<Rightarrow> None)"

definition mac0_claims_set :: "(bytes \<Rightarrow> 'e + 'c) \<Rightarrow> CoseMac0 MaybeTagged \<Rightarrow> 'e + 'c option" where
  "mac0_claims_set from_slice self =
     (case m0_payload (mt_inner self) of
        None \<Rightarrow> Inr None
      | Some payload \<Rightarrow> map_ok Some (from_slice payload))"

fun exclusive_mac_payload :: "bytes option \<Rightarrow> bytes option \<Rightarrow> mac0_error + bytes" where
  "exclusive_mac_payload (Some _) (Some _) = Inl M0_DoublePayload"
| "exclusive_mac_payload None None = Inl M0_NoPayload"
| "exclusive_mac_payload (Some payload) None = Inr payload"
| "exclusive_mac_payload None (Some payload) = Inr payload"

text \<open>\<open>None\<close> is the panic of an input longer than the hash can count.\<close>

definition HmacSha256Key_tag :: "compress256 \<Rightarrow> bytes \<Rightarrow> bytes \<Rightarrow> bytes option" where
  "HmacSha256Key_tag cmpr key payload =
     (case hmac_sha256_with_scratch cmpr key [payload] (Inr ()) of
        Some (Inr _, output, _) \<Rightarrow> Some output
      | _ \<Rightarrow> None)"

definition HmacSha256Key_verify_payload :: "compress256 \<Rightarrow> bytes \<Rightarrow> bytes \<Rightarrow> bytes \<Rightarrow> bool option" where
  "HmacSha256Key_verify_payload cmpr key payload tag =
     (case hmac_sha256_with_scratch cmpr key [payload] (Inr ()) of
        Some (Inr _, output, _) \<Rightarrow> Some (length tag = length output \<and> output = tag)
      | _ \<Rightarrow> None)"

definition PreparedCoseMac0_new :: "structure_data \<Rightarrow> CoseMac0 \<Rightarrow> bytes option \<Rightarrow> bytes option \<Rightarrow> bool
    \<Rightarrow> mac0_error + PreparedCoseMac0" where
  "PreparedCoseMac0_new mac_structure_data cose_mac0 detached_payload aad tagged =
     and_then (exclusive_mac_payload (m0_payload cose_mac0) detached_payload) (\<lambda>payload.
       Inr \<lparr> pm_cose_mac0 = MaybeTagged_new tagged cose_mac0,
             pm_tag_payload = mac_structure_data (m0_protected cose_mac0) (aad_or_default aad) payload \<rparr>)"

definition PreparedCoseMac0_finalize :: "PreparedCoseMac0 \<Rightarrow> bytes \<Rightarrow> CoseMac0 MaybeTagged" where
  "PreparedCoseMac0_finalize p tag =
     (pm_cose_mac0 p) \<lparr> mt_inner := (mt_inner (pm_cose_mac0 p)) \<lparr> m0_tag := tag \<rparr> \<rparr>"

definition CoseMac0_verify :: "structure_data \<Rightarrow> compress256 \<Rightarrow> bytes \<Rightarrow> CoseMac0 MaybeTagged \<Rightarrow> bytes option
    \<Rightarrow> bytes option \<Rightarrow> mac0_verification option" where
  "CoseMac0_verify mac_structure_data cmpr key self detached_payload external_aad =
     (let inner = mt_inner self in
      if (case header_alg (m0_protected inner) of
            Some (Assigned alg) \<Rightarrow> HMAC_256_256 \<noteq> alg | _ \<Rightarrow> False)
      then Some (M0_Failure ''algorithm in protected headers did not match verifier's algorithm'')
      else (case exclusive_mac_payload (m0_payload inner) detached_payload of
          Inl e \<Rightarrow> Some (M0_Error e)
        | Inr payload \<Rightarrow>
            map_option (\<lambda>ok. if ok then M0_Success else M0_Failure ''tag is not authentic'')
              (HmacSha256Key_verify_payload cmpr key
                 (mac_structure_data (m0_protected inner) (aad_or_default external_aad) payload)
                 (m0_tag inner))))"

section \<open>Properties\<close>

lemma MaybeTagged_round_trip:
  assumes "MaybeTagged_serialize TAG to_v m = Inr tv" "\<And>v. to_v (mt_inner m) = Inr v \<Longrightarrow> from_v v = Inr (mt_inner m)"
  shows "MaybeTagged_deserialize TAG from_v tv = Inr m"
  using assms by (cases m) (auto simp: MaybeTagged_serialize_def MaybeTagged_deserialize_def result_simps Let_def)

lemma MaybeTagged_wrong_tag:
  "t \<noteq> TAG \<Longrightarrow> \<exists>e. MaybeTagged_deserialize TAG from_v (Some t, v) = Inl e"
  by (cases "from_v v") (auto simp: MaybeTagged_deserialize_def)

lemma exclusive_payload_Inr:
  "exclusive_payload a d = Inr p \<longleftrightarrow> (a = Some p \<and> d = None) \<or> (a = None \<and> d = Some p)"
  by (cases "(a, d)" rule: exclusive_payload.cases) auto

lemma exclusive_mac_payload_Inr:
  "exclusive_mac_payload a d = Inr p \<longleftrightarrow> (a = Some p \<and> d = None) \<or> (a = None \<and> d = Some p)"
  by (cases "(a, d)" rule: exclusive_mac_payload.cases) auto

text \<open>Success means all of it: algorithm, exactly one payload, well-formed and authentic signature.\<close>

lemma CoseSign1_verify_Success:
  "CoseSign1_verify sd v self detached aad = S1_Success \<longleftrightarrow>
     (\<forall>alg. header_alg (s1_protected (mt_inner self)) = Some (Assigned alg) \<longrightarrow> alg = verifier_algorithm v) \<and>
     (\<exists>payload sig. exclusive_payload (s1_payload (mt_inner self)) detached = Inr payload \<and>
        verifier_parse v (s1_signature (mt_inner self)) = Some sig \<and>
        verifier_verify v (sd (s1_protected (mt_inner self)) (aad_or_default aad) payload) sig)"
  by (auto simp: CoseSign1_verify_def Let_def split: option.splits sum.splits RegisteredAlgorithm.splits if_splits)

lemma prepare_finalize_verify:
  assumes "PreparedCoseSign1_new sd c detached aad tagged = Inr p"
    and "PreparedCoseSign1_algorithm p = Some (verifier_algorithm v)"
    and "verifier_parse v sigb = Some sig" "verifier_verify v (ps_signature_payload p) sig"
  shows "CoseSign1_verify sd v (PreparedCoseSign1_finalize p sigb) detached aad = S1_Success"
proof -
  obtain payload where "exclusive_payload (s1_payload c) detached = Inr payload"
      "p = \<lparr> ps_cose_sign1 = MaybeTagged_new tagged c,
             ps_signature_payload = sd (s1_protected c) (aad_or_default aad) payload \<rparr>"
    using assms(1) by (auto simp: PreparedCoseSign1_new_def result_simps)
  with assms(2-4) show ?thesis
    unfolding CoseSign1_verify_Success
    by (auto simp: PreparedCoseSign1_finalize_def PreparedCoseSign1_algorithm_def MaybeTagged_new_def
        split: option.splits RegisteredAlgorithm.splits)
qed

lemma HmacSha256Key_spec:
  assumes "compress_standard cmpr" "length key < 2 ^ 61" "length payload < 2 ^ 61 - 64"
  shows "HmacSha256Key_tag cmpr key payload = Some (hmac_sha256 key payload)"
    "HmacSha256Key_verify_payload cmpr key payload tag = Some (tag = hmac_sha256 key payload)"
  using hmac_with_scratch_spec [OF assms(1,2), of "[payload]" "Inr ()"] assms(3)
  by (auto simp: HmacSha256Key_tag_def HmacSha256Key_verify_payload_def)

lemma CoseMac0_verify_Success:
  assumes "compress_standard cmpr" "length key < 2 ^ 61"
    and "\<And>payload. length (sd (m0_protected (mt_inner self)) (aad_or_default aad) payload) < 2 ^ 61 - 64"
  shows "CoseMac0_verify sd cmpr key self detached aad = Some M0_Success \<longleftrightarrow>
     (\<forall>alg. header_alg (m0_protected (mt_inner self)) = Some (Assigned alg) \<longrightarrow> alg = HMAC_256_256) \<and>
     (\<exists>payload. exclusive_mac_payload (m0_payload (mt_inner self)) detached = Inr payload \<and>
        m0_tag (mt_inner self) =
          hmac_sha256 key (sd (m0_protected (mt_inner self)) (aad_or_default aad) payload))"
  by (auto simp: CoseMac0_verify_def Let_def HmacSha256Key_spec [OF assms]
      split: option.splits sum.splits RegisteredAlgorithm.splits if_splits)

lemma mac_prepare_finalize_verify:
  assumes "PreparedCoseMac0_new sd c detached aad tagged = Inr p"
    and "header_alg (m0_protected c) = Some (Assigned HMAC_256_256)"
    and "compress_standard cmpr" "length key < 2 ^ 61"
    and "\<And>payload. length (sd (m0_protected c) (aad_or_default aad) payload) < 2 ^ 61 - 64"
  shows "\<exists>tag. HmacSha256Key_tag cmpr key (pm_tag_payload p) = Some tag \<and>
    CoseMac0_verify sd cmpr key (PreparedCoseMac0_finalize p tag) detached aad = Some M0_Success"
proof -
  obtain payload where payload: "exclusive_mac_payload (m0_payload c) detached = Inr payload"
    and p: "p = \<lparr> pm_cose_mac0 = MaybeTagged_new tagged c,
             pm_tag_payload = sd (m0_protected c) (aad_or_default aad) payload \<rparr>"
    using assms(1) by (auto simp: PreparedCoseMac0_new_def result_simps)
  let ?tag = "hmac_sha256 key (sd (m0_protected c) (aad_or_default aad) payload)"
  have "HmacSha256Key_tag cmpr key (pm_tag_payload p) = Some ?tag"
    using HmacSha256Key_spec(1) [OF assms(3-5)] p by simp
  moreover have "CoseMac0_verify sd cmpr key (PreparedCoseMac0_finalize p ?tag) detached aad = Some M0_Success"
    using assms(2,5) payload
    by (subst CoseMac0_verify_Success [OF assms(3,4)])
      (auto simp: p PreparedCoseMac0_finalize_def MaybeTagged_new_def)
  ultimately show ?thesis by blast
qed

text \<open>The three readings of a result agree: a success is the one result without reason or error.\<close>

lemma sign1_result_readings:
  "sign1_is_success r \<longleftrightarrow> r = S1_Success" "sign1_is_success r \<longleftrightarrow> sign1_into_result d r = Inr ()"
  "sign1_into_error r = Some e \<Longrightarrow> sign1_into_result d r = Inl (d e)"
  by (cases r; simp add: sign1_is_success_def sign1_into_error_def)+

lemma mac0_result_readings:
  "mac0_is_success r \<longleftrightarrow> r = M0_Success" "mac0_is_success r \<longleftrightarrow> mac0_into_result d r = Inr ()"
  "mac0_into_error r = Some e \<Longrightarrow> mac0_into_result d r = Inl (d e)"
  by (cases r; simp add: mac0_is_success_def mac0_into_error_def)+

text \<open>C27. Verification of a COSE_Sign1 succeeds exactly when a protected algorithm, if assigned, is
  the verifier's, exactly one of attached and detached payload is present, the signature parses
  and is authentic over the signature structure of protected header, external data and payload.\<close>
theorem sign1_verify_exact:
  "CoseSign1_verify sd v self detached aad = S1_Success \<longleftrightarrow>
     (case header_alg (s1_protected (mt_inner self)) of
        Some (Assigned alg) \<Rightarrow> alg = verifier_algorithm v | _ \<Rightarrow> True) \<and>
     (\<exists>payload sig. {s1_payload (mt_inner self), detached} = {Some payload, None} \<and>
        verifier_parse v (s1_signature (mt_inner self)) = Some sig \<and>
        verifier_verify v (sd (s1_protected (mt_inner self)) (aad_or_default aad) payload) sig)"
  unfolding CoseSign1_verify_Success exclusive_payload_Inr
  by (auto simp: doubleton_eq_iff split: option.splits RegisteredAlgorithm.splits)

text \<open>Remote MAC round trip: a COSE_Mac0 prepared for tagging and finalized with the tag of the
  HMAC key over the prepared payload verifies under that key.\<close>
lemma mac0_round_trip:
  assumes "PreparedCoseMac0_new sd c detached aad tagged = Inr p"
    and "header_alg (m0_protected c) = Some (Assigned HMAC_256_256)"
    and "compress_standard cmpr" "length key < 2 ^ 61"
    and "\<And>payload. length (sd (m0_protected c) (aad_or_default aad) payload) < 2 ^ 61 - 64"
  shows "\<exists>tag. HmacSha256Key_tag cmpr key (pm_tag_payload p) = Some tag \<and>
    CoseMac0_verify sd cmpr key (PreparedCoseMac0_finalize p tag) detached aad = Some M0_Success"
  by (rule mac_prepare_finalize_verify [OF assms])

definition sample_mac0 :: CoseMac0 where
  "sample_mac0 = \<lparr> m0_protected = empty_header \<lparr> header_alg := Some (Assigned HMAC_256_256) \<rparr>,
                   m0_unprotected = empty_header, m0_payload = Some [1, 2, 3], m0_tag = [] \<rparr>"

lemma mac0_round_trip_witness:
  "\<exists>p tag. PreparedCoseMac0_new (\<lambda>h a b. take 8 a @ take 100 b) sample_mac0 None None True = Inr p \<and>
    HmacSha256Key_tag sha_compress [9] (pm_tag_payload p) = Some tag \<and>
    CoseMac0_verify (\<lambda>h a b. take 8 a @ take 100 b) sha_compress [9]
      (PreparedCoseMac0_finalize p tag) None None = Some M0_Success"
proof -
  let ?sd = "\<lambda>(h :: Header) a b. take 8 a @ take 100 b :: bytes"
  obtain p where p: "PreparedCoseMac0_new ?sd sample_mac0 None None True = Inr p"
    by (auto simp: PreparedCoseMac0_new_def sample_mac0_def)
  have "length (?sd (m0_protected sample_mac0) (aad_or_default None) payload) < 2 ^ 61 - 64" for payload
    by (simp add: aad_or_default_def min_def)
  from mac0_round_trip [OF p _ sha_compress_standard _ this, of "[9]"] p show ?thesis
    by (auto simp: sample_mac0_def)
qed

end
