(* ===== verification/Mdoc.thy ===== *)
theory Mdoc
  imports Mdoc_Assemble Cose
begin

text \<open>
  The operations of \<^verbatim>\<open>src/issuance/mdoc.rs\<close> that issue credentials: the builder, preparation of one
  mdoc and of a batch with a chosen digest executor, and completion with a remote signature.
  Randomness is a state passed along in the order the code draws it; the encoder of the mobile
  security object, signature verification and the certificate chain are parameters.
\<close>

section \<open>Data\<close>

record 'vi Mso =
  mso_version :: string
  mso_digest_algorithm :: DigestAlgorithm
  mso_value_digests :: value_digests
  mso_device_key_info :: DeviceKeyInfo
  mso_doc_type :: string
  mso_validity_info :: 'vi

record ('v, 'vi) PreparedMdoc =
  pm_doc_type :: string
  pm_mso :: "'vi Mso"
  pm_namespaces :: "'v IssuerNamespaces"
  pm_prepared_sig :: PreparedCoseSign1

record ('v, 'vi) Mdoc =
  md_doc_type :: string
  md_mso :: "'vi Mso"
  md_namespaces :: "'v IssuerNamespaces"
  md_issuer_auth :: "CoseSign1 MaybeTagged"

record ('v, 'vi) Builder =
  b_doc_type :: "string option"
  b_namespaces :: "'v Namespaces option"
  b_validity_info :: "'vi option"
  b_digest_algorithm :: "DigestAlgorithm option"
  b_device_key_info :: "DeviceKeyInfo option"
  b_enable_decoy_digests :: "bool option"

record ('v, 'vi) MdocBatchItem =
  bi_credential_id :: u64
  bi_builder :: "('v, 'vi) Builder"
  bi_signature_algorithm :: Algorithm

record ('v, 'vi) ValidatedMdocBatchItem =
  vi_credential_id :: u64
  vi_doc_type :: string
  vi_namespaces :: "'v Namespaces"
  vi_validity_info :: 'vi
  vi_digest_algorithm :: DigestAlgorithm
  vi_device_key_info :: DeviceKeyInfo
  vi_signature_algorithm :: Algorithm
  vi_enable_decoy_digests :: bool

record ('v, 'vi) PlannedMdocBatchItem =
  pi_item :: "('v, 'vi) ValidatedMdocBatchItem"
  pi_issuer_namespaces :: "'v IssuerNamespaces"

text \<open>The encoder, the generator and the COSE structure of one issuing process.\<close>

record ('v, 'vi, 'r) issuer =
  is_codec :: "'v item_codec"
  is_encode_mso :: "'vi Mso \<Rightarrow> unit + bytes"
  is_rng :: "'r rng_ops"
  is_sig_structure :: structure_data

type_synonym executor = "DigestJob list \<Rightarrow> digest_outcome"

section \<open>Preparation\<close>

definition finish_preparation :: "('v, 'vi, 'r) issuer \<Rightarrow> string \<Rightarrow> 'v IssuerNamespaces \<Rightarrow> 'vi
    \<Rightarrow> DigestAlgorithm \<Rightarrow> DeviceKeyInfo \<Rightarrow> Algorithm \<Rightarrow> value_digests
    \<Rightarrow> mdoc_error + ('v, 'vi) PreparedMdoc" where
  "finish_preparation I doc_type issuer_namespaces validity_info digest_algorithm device_key_info
     sig_alg value_digests =
     (let mso = \<lparr> mso_version = ''1.0'', mso_digest_algorithm = digest_algorithm,
                  mso_value_digests = value_digests, mso_device_key_info = device_key_info,
                  mso_doc_type = doc_type, mso_validity_info = validity_info \<rparr> in
      and_then (map_err (\<lambda>_. CborError) (Tag24_new (is_encode_mso I) mso)) (\<lambda>tagged.
      and_then (map_err (\<lambda>_. CborError) (encode_value (is_codec I) (Tag24_into tagged))) (\<lambda>mso_bytes.
      (let protected = empty_header \<lparr> header_alg := Some (Assigned sig_alg) \<rparr>;
           cose = \<lparr> s1_protected = protected, s1_unprotected = empty_header,
                    s1_payload = Some mso_bytes, s1_signature = [] \<rparr> in
       and_then (map_err (\<lambda>_. PrepareSignatureFailed)
                   (PreparedCoseSign1_new (is_sig_structure I) cose None None False)) (\<lambda>prepared_sig.
         Inr \<lparr> pm_doc_type = doc_type, pm_mso = mso, pm_namespaces = issuer_namespaces,
               pm_prepared_sig = prepared_sig \<rparr>)))))"

definition prepare_with_validated_inputs :: "('v, 'vi, 'r) issuer \<Rightarrow> executor \<Rightarrow> string \<Rightarrow> 'v Namespaces
    \<Rightarrow> 'vi \<Rightarrow> DigestAlgorithm \<Rightarrow> DeviceKeyInfo \<Rightarrow> Algorithm \<Rightarrow> bool \<Rightarrow> 'r
    \<Rightarrow> (mdoc_error + ('v, 'vi) PreparedMdoc \<times> 'r) option" where
  "prepare_with_validated_inputs I execute doc_type namespaces validity_info digest_algorithm
     device_key_info sig_alg enable_decoy_digests r =
     run_then (to_issuer_namespaces (is_codec I) (is_rng I) namespaces r) (\<lambda>(issuer_namespaces, r1).
     run_then (plan_digest_namespaces (is_codec I) (is_rng I) issuer_namespaces digest_algorithm
                 enable_decoy_digests r1) (\<lambda>(digest_plan, r2).
     Some (and_then (map_err (\<lambda>_. DigestExecutionFailed) (execute (plan_jobs digest_plan))) (\<lambda>results.
           and_then (assemble_digest_namespaces digest_plan results) (\<lambda>value_digests.
           map_ok (\<lambda>p. (p, r2)) (finish_preparation I doc_type issuer_namespaces validity_info
             digest_algorithm device_key_info sig_alg value_digests))))))"

definition validate_authorizations :: "DeviceKeyInfo \<Rightarrow> mdoc_error + unit" where
  "validate_authorizations info =
     (case dki_key_authorizations info of
        Some a \<Rightarrow> map_err (\<lambda>_. InvalidKeyAuthorizations) (KeyAuthorizations_validate a)
      | None \<Rightarrow> Inr ())"

definition prepare_with_digest_executor :: "('v, 'vi, 'r) issuer \<Rightarrow> executor \<Rightarrow> string \<Rightarrow> 'v Namespaces
    \<Rightarrow> 'vi \<Rightarrow> DigestAlgorithm \<Rightarrow> DeviceKeyInfo \<Rightarrow> Algorithm \<Rightarrow> bool \<Rightarrow> 'r
    \<Rightarrow> (mdoc_error + ('v, 'vi) PreparedMdoc \<times> 'r) option" where
  "prepare_with_digest_executor I execute doc_type namespaces validity_info digest_algorithm
     device_key_info sig_alg enable_decoy_digests r =
     run_then (Some (validate_authorizations device_key_info)) (\<lambda>_.
     run_then (Some (validate_namespace_shape namespaces)) (\<lambda>_.
       prepare_with_validated_inputs I execute doc_type namespaces validity_info digest_algorithm
         device_key_info sig_alg enable_decoy_digests r))"

text \<open>The builder: every setter replaces one optional field.\<close>

definition Builder_default :: "('v, 'vi) Builder" where
  "Builder_default = \<lparr> b_doc_type = None, b_namespaces = None, b_validity_info = None,
     b_digest_algorithm = None, b_device_key_info = None, b_enable_decoy_digests = None \<rparr>"

definition Builder_doc_type :: "('v, 'vi) Builder \<Rightarrow> string \<Rightarrow> ('v, 'vi) Builder" where
  "Builder_doc_type b doc_type = b \<lparr> b_doc_type := Some doc_type \<rparr>"

definition Builder_namespaces :: "('v, 'vi) Builder \<Rightarrow> 'v Namespaces \<Rightarrow> ('v, 'vi) Builder" where
  "Builder_namespaces b namespaces = b \<lparr> b_namespaces := Some namespaces \<rparr>"

definition Builder_validity_info :: "('v, 'vi) Builder \<Rightarrow> 'vi \<Rightarrow> ('v, 'vi) Builder" where
  "Builder_validity_info b validity_info = b \<lparr> b_validity_info := Some validity_info \<rparr>"

definition Builder_digest_algorithm :: "('v, 'vi) Builder \<Rightarrow> DigestAlgorithm \<Rightarrow> ('v, 'vi) Builder" where
  "Builder_digest_algorithm b digest_algorithm = b \<lparr> b_digest_algorithm := Some digest_algorithm \<rparr>"

definition Builder_device_key_info :: "('v, 'vi) Builder \<Rightarrow> DeviceKeyInfo \<Rightarrow> ('v, 'vi) Builder" where
  "Builder_device_key_info b device_key_info = b \<lparr> b_device_key_info := Some device_key_info \<rparr>"

definition Builder_enable_decoy_digests :: "('v, 'vi) Builder \<Rightarrow> bool \<Rightarrow> ('v, 'vi) Builder" where
  "Builder_enable_decoy_digests b enable = b \<lparr> b_enable_decoy_digests := Some enable \<rparr>"

text \<open>The fields of a builder in the order the code asks for them, with the decoy default.\<close>

definition required :: "string \<Rightarrow> 'a option \<Rightarrow> mdoc_error + 'a" where
  "required name field = ok_or field (MissingParameter name)"

definition decoy_default :: "bool option \<Rightarrow> bool" where
  "decoy_default d = (case d of None \<Rightarrow> True | Some b \<Rightarrow> b)"

definition validated_item :: "u64 \<Rightarrow> ('v, 'vi) Builder \<Rightarrow> Algorithm
    \<Rightarrow> mdoc_error + ('v, 'vi) ValidatedMdocBatchItem" where
  "validated_item credential_id b sig_alg =
     and_then (required ''doc_type'' (b_doc_type b)) (\<lambda>doc_type.
     and_then (required ''namespaces'' (b_namespaces b)) (\<lambda>namespaces.
     and_then (required ''validity_info'' (b_validity_info b)) (\<lambda>validity_info.
     and_then (required ''digest_algorithm'' (b_digest_algorithm b)) (\<lambda>digest_algorithm.
     and_then (required ''device_key_info'' (b_device_key_info b)) (\<lambda>device_key_info.
     Inr \<lparr> vi_credential_id = credential_id, vi_doc_type = doc_type, vi_namespaces = namespaces,
           vi_validity_info = validity_info, vi_digest_algorithm = digest_algorithm,
           vi_device_key_info = device_key_info, vi_signature_algorithm = sig_alg,
           vi_enable_decoy_digests = decoy_default (b_enable_decoy_digests b) \<rparr>)))))"

text \<open>The five required setters are enough, and the decoy digests are on unless switched off.\<close>

lemma builder_complete:
  "validated_item credential_id
      (Builder_device_key_info (Builder_digest_algorithm (Builder_validity_info
        (Builder_namespaces (Builder_doc_type Builder_default t) ns) vi) alg) dki) sig_alg
    = Inr \<lparr> vi_credential_id = credential_id, vi_doc_type = t, vi_namespaces = ns,
           vi_validity_info = vi, vi_digest_algorithm = alg, vi_device_key_info = dki,
           vi_signature_algorithm = sig_alg, vi_enable_decoy_digests = True \<rparr>"
  by (simp add: validated_item_def required_def decoy_default_def Builder_default_def Builder_doc_type_def
      Builder_namespaces_def Builder_validity_info_def Builder_digest_algorithm_def Builder_device_key_info_def)

definition Builder_prepare_with_digest_executor :: "('v, 'vi, 'r) issuer \<Rightarrow> executor \<Rightarrow> ('v, 'vi) Builder
    \<Rightarrow> Algorithm \<Rightarrow> 'r \<Rightarrow> (mdoc_error + ('v, 'vi) PreparedMdoc \<times> 'r) option" where
  "Builder_prepare_with_digest_executor I execute b sig_alg r =
     run_then (Some (validated_item MDOC_CREDENTIAL_ID b sig_alg)) (\<lambda>v.
       prepare_with_digest_executor I execute (vi_doc_type v) (vi_namespaces v) (vi_validity_info v)
         (vi_digest_algorithm v) (vi_device_key_info v) sig_alg
         (vi_enable_decoy_digests v) r)"

section \<open>Batches\<close>

fun validate_batch_items :: "u64 set \<Rightarrow> ('v, 'vi) MdocBatchItem list
    \<Rightarrow> mdoc_error + ('v, 'vi) ValidatedMdocBatchItem list" where
  "validate_batch_items credential_ids [] = Inr []"
| "validate_batch_items credential_ids (item # items) =
     (if bi_credential_id item \<in> credential_ids then Inl BatchDuplicateCredential
      else
        and_then (validated_item (bi_credential_id item) (bi_builder item) (bi_signature_algorithm item)) (\<lambda>v.
        and_then (validate_authorizations (vi_device_key_info v)) (\<lambda>_.
        and_then (validate_namespace_shape (vi_namespaces v)) (\<lambda>_.
        and_then (validate_batch_items (insert (bi_credential_id item) credential_ids) items) (\<lambda>vs.
        Inr (v # vs))))))"

definition validate_mdoc_batch :: "('v, 'vi) MdocBatchItem list
    \<Rightarrow> mdoc_error + ('v, 'vi) ValidatedMdocBatchItem list" where
  "validate_mdoc_batch batch = validate_batch_items {} batch"

fun plan_batch :: "('v, 'vi, 'r) issuer \<Rightarrow> ('v, 'vi) ValidatedMdocBatchItem list \<Rightarrow> 'r
    \<Rightarrow> (mdoc_error + (('v, 'vi) PlannedMdocBatchItem \<times> MdocDigestPlan) list \<times> 'r) option" where
  "plan_batch I [] r = Some (Inr ([], r))"
| "plan_batch I (item # batch) r =
     run_then (to_issuer_namespaces (is_codec I) (is_rng I) (vi_namespaces item) r) (\<lambda>(issuer_namespaces, r1).
     run_then (plan_digest_namespaces_for_credential (is_codec I) (is_rng I) (vi_credential_id item)
                 issuer_namespaces (vi_digest_algorithm item) (vi_enable_decoy_digests item) r1) (\<lambda>(plan, r2).
     run_then (plan_batch I batch r2) (\<lambda>(rest, r3).
     Some (Inr ((\<lparr> pi_item = item, pi_issuer_namespaces = issuer_namespaces \<rparr>, plan) # rest, r3)))))"

text \<open>The total of jobs is counted in a \<^verbatim>\<open>usize\<close> of 64 bits.\<close>

fun checked_job_count :: "nat \<Rightarrow> MdocDigestPlan list \<Rightarrow> mdoc_error + nat" where
  "checked_job_count jc [] = Inr jc"
| "checked_job_count jc (plan # plans) =
     (if jc + length (plan_jobs plan) < 2 ^ 64
      then checked_job_count (jc + length (plan_jobs plan)) plans
      else Inl TooManyDigestJobs)"

definition finish_item :: "('v, 'vi, 'r) issuer \<Rightarrow> ('v, 'vi) PlannedMdocBatchItem \<times> value_digests
    \<Rightarrow> mdoc_error + u64 \<times> ('v, 'vi) PreparedMdoc" where
  "finish_item I = (\<lambda>(p, value_digests).
     (let item = pi_item p in
      map_ok (\<lambda>prepared. (vi_credential_id item, prepared))
        (finish_preparation I (vi_doc_type item) (pi_issuer_namespaces p) (vi_validity_info item)
           (vi_digest_algorithm item) (vi_device_key_info item) (vi_signature_algorithm item)
           value_digests)))"

definition prepare_validated_batch :: "('v, 'vi, 'r) issuer \<Rightarrow> executor
    \<Rightarrow> ('v, 'vi) ValidatedMdocBatchItem list \<Rightarrow> 'r
    \<Rightarrow> (mdoc_error + (u64 \<times> ('v, 'vi) PreparedMdoc) list \<times> 'r) option" where
  "prepare_validated_batch I execute batch r =
     run_then (plan_batch I batch r) (\<lambda>(planned, r').
       (let plans = map snd planned in
        Some (and_then (checked_job_count 0 plans) (\<lambda>_.
              and_then (map_err (\<lambda>_. DigestExecutionFailed) (execute (concat (map plan_jobs plans)))) (\<lambda>results.
              and_then (assemble_reordered_digest_batches plans results) (\<lambda>value_digests.
              if length value_digests \<noteq> length planned then Inl BatchOmittedCredential
              else map_ok (\<lambda>out. (out, r')) (try_collect (finish_item I) (zip (map fst planned) value_digests))))))))"

definition prepare_batch_with_digest_executor :: "('v, 'vi, 'r) issuer \<Rightarrow> executor
    \<Rightarrow> ('v, 'vi) MdocBatchItem list \<Rightarrow> 'r
    \<Rightarrow> (mdoc_error + (u64 \<times> ('v, 'vi) PreparedMdoc) list \<times> 'r) option" where
  "prepare_batch_with_digest_executor I execute batch r =
     run_then (Some (validate_mdoc_batch batch)) (\<lambda>validated.
       if validated = [] then Some (Inr ([], r))
       else prepare_validated_batch I execute validated r)"

section \<open>Completion\<close>

record ('x, 'k, 's) remote_ops =
  rs_parse :: "Algorithm \<Rightarrow> bytes \<Rightarrow> 's option"
  rs_key :: "Algorithm \<Rightarrow> 'x \<Rightarrow> 'k option"
  rs_verify :: "Algorithm \<Rightarrow> 'k \<Rightarrow> bytes \<Rightarrow> 's \<Rightarrow> bool"
  rs_chain_into_cbor :: "'x \<Rightarrow> Value"

definition X5CHAIN_COSE_HEADER_LABEL :: int where "X5CHAIN_COSE_HEADER_LABEL = 0x21"

definition verify_curve :: "('x, 'k, 's) remote_ops \<Rightarrow> (bytes \<Rightarrow> bytes) \<Rightarrow> Algorithm \<Rightarrow> 'x \<Rightarrow> bytes
    \<Rightarrow> bytes \<Rightarrow> mdoc_error + unit" where
  "verify_curve ops hash alg x5chain payload signature =
     and_then (ok_or (rs_parse ops alg signature) (RemoteSignature ''invalid remote signature encoding'')) (\<lambda>sig.
     and_then (ok_or (rs_key ops alg x5chain) (RemoteSignature ''invalid end-entity public key'')) (\<lambda>key.
     if rs_verify ops alg key (hash payload) sig then Inr ()
     else Inl (RemoteSignature ''unauthentic remote signature'')))"

definition verify_remote_signature :: "('x, 'k, 's) remote_ops \<Rightarrow> sha2_ops \<Rightarrow> Algorithm \<Rightarrow> 'x \<Rightarrow> bytes
    \<Rightarrow> bytes \<Rightarrow> mdoc_error + unit" where
  "verify_remote_signature ops h algorithm x5chain payload signature =
     (case algorithm of
        ES256 \<Rightarrow> verify_curve ops (sha2_256 h) ES256 x5chain payload signature
      | ES384 \<Rightarrow> verify_curve ops (sha2_384 h) ES384 x5chain payload signature
      | ES512 \<Rightarrow> verify_curve ops (sha2_512 h) ES512 x5chain payload signature
      | _ \<Rightarrow> Inl (RemoteSignature ''unsupported remote mdoc signing algorithm''))"

definition PreparedMdoc_complete :: "('x, 'k, 's) remote_ops \<Rightarrow> sha2_ops \<Rightarrow> ('v, 'vi) PreparedMdoc \<Rightarrow> 'x
    \<Rightarrow> bytes \<Rightarrow> mdoc_error + ('v, 'vi) Mdoc" where
  "PreparedMdoc_complete ops h self x5chain signature =
     and_then (ok_or (PreparedCoseSign1_algorithm (pm_prepared_sig self)) MissingSignatureAlgorithm) (\<lambda>algorithm.
     and_then (verify_remote_signature ops h algorithm x5chain
                 (ps_signature_payload (pm_prepared_sig self)) signature) (\<lambda>_.
     (let issuer_auth = PreparedCoseSign1_finalize (pm_prepared_sig self) signature;
          inner = mt_inner issuer_auth;
          unprotected = (s1_unprotected inner) \<lparr> header_rest := header_rest (s1_unprotected inner)
             @ [(LabelInt X5CHAIN_COSE_HEADER_LABEL, rs_chain_into_cbor ops x5chain)] \<rparr>
      in Inr \<lparr> md_doc_type = pm_doc_type self, md_mso = pm_mso self, md_namespaces = pm_namespaces self,
               md_issuer_auth = issuer_auth \<lparr> mt_inner := inner \<lparr> s1_unprotected := unprotected \<rparr> \<rparr> \<rparr>)))"

section \<open>Digests of the prepared document\<close>

text \<open>A finished document carries what it was given, and its payload is the encoded MSO.\<close>

lemma finish_preparation_fields:
  assumes "finish_preparation I doc ns vinfo alg dki sa vd = Inr p"
  shows "pm_namespaces p = ns" "mso_value_digests (pm_mso p) = vd" "mso_digest_algorithm (pm_mso p) = alg"
    "pm_doc_type p = doc" "mso_doc_type (pm_mso p) = doc" "mso_device_key_info (pm_mso p) = dki"
    "PreparedCoseSign1_algorithm (pm_prepared_sig p) = Some sa"
    "\<exists>t b. Tag24_new (is_encode_mso I) (pm_mso p) = Inr t \<and> encode_value (is_codec I) (Tag24_into t) = Inr b \<and>
       s1_payload (mt_inner (ps_cose_sign1 (pm_prepared_sig p))) = Some b \<and>
       ps_signature_payload (pm_prepared_sig p)
         = is_sig_structure I (s1_protected (mt_inner (ps_cose_sign1 (pm_prepared_sig p)))) [] b"
  using assms
  by (auto simp: finish_preparation_def Let_def result_simps PreparedCoseSign1_new_def
      exclusive_payload_Inr MaybeTagged_new_def aad_or_default_def PreparedCoseSign1_algorithm_def)

text \<open>Every value digest the document needs is the digest of the item's own encoding.\<close>

definition digests_match :: "sha2_ops \<Rightarrow> 'v item_codec \<Rightarrow> DigestAlgorithm \<Rightarrow> 'v IssuerNamespaces
    \<Rightarrow> value_digests \<Rightarrow> bool" where
  "digests_match h c alg namespaces vd \<longleftrightarrow>
     (\<forall>(name, items) \<in> set namespaces. \<exists>ds. bt_get vd name = Some ds \<and>
        (\<forall>item \<in> set items. \<exists>b. encode_item_bytes c item = Inr b \<and>
           bt_get ds (item_id item) = Some (digest h alg b)))"

lemma bt_get_value_digests:
  assumes "distinct (map pn_name (plan_namespaces plan))" "ns \<in> set (plan_namespaces plan)"
  shows "bt_get (plan_value_digests D plan) (pn_name ns) = Some (snd (namespace_digest_ids D ns))"
proof -
  have "distinct (map fst (map (namespace_digest_ids D) (plan_namespaces plan)))"
    using assms(1) by (simp add: comp_def namespace_digest_ids_def)
  then show ?thesis
    using assms(2) by (auto simp: plan_value_digests_def bt_get_of_list_distinct namespace_digest_ids_def
        intro!: map_of_is_SomeI)
qed

lemma bt_get_digest_ids:
  assumes "distinct (map pd_digest_id (pn_digests ns))" "p \<in> set (pn_digests ns)"
  shows "bt_get (snd (namespace_digest_ids D ns)) (pd_digest_id p) = Some (D (planned_identity p))"
proof -
  have "distinct (map fst (map (\<lambda>p. (pd_digest_id p, D (planned_identity p))) (pn_digests ns)))"
    using assms(1) by (simp add: comp_def)
  then show ?thesis
    using assms(2) by (auto simp: namespace_digest_ids_def bt_get_of_list_distinct intro!: map_of_is_SomeI)
qed

text \<open>
  Positions in the concatenation of the namespaces' digests are positions in the job list, so
  the planned digest of an entry is the job with that entry's bytes.
\<close>

lemma concat_position:
  assumes "i < length xss" "j < length (xss ! i)" "length yss = length xss"
    "\<forall>k < length xss. length (yss ! k) = length (xss ! k)"
  shows "\<exists>n. n < length (concat xss) \<and> n < length (concat yss) \<and>
    concat xss ! n = xss ! i ! j \<and> concat yss ! n = yss ! i ! j"
  using assms
proof (induction xss arbitrary: yss i)
  case Nil
  then show ?case by simp
next
  case (Cons xs xss)
  then obtain ys yss' where yss: "yss = ys # yss'" by (cases yss) auto
  have len: "length ys = length xs" using Cons.prems(4) yss by force
  show ?case
  proof (cases i)
    case 0
    then show ?thesis using Cons.prems(2) yss len
      by (intro exI [of _ j]) (auto simp: nth_append)
  next
    case (Suc i')
    have "\<forall>k < length xss. length (yss' ! k) = length (xss ! k)"
      using Cons.prems(4) yss by force
    then obtain n where n: "n < length (concat xss)" "n < length (concat yss')"
        "concat xss ! n = xss ! i' ! j" "concat yss' ! n = yss' ! i' ! j"
      using Cons.IH [of i' yss'] Cons.prems yss Suc by auto
    then show ?thesis using yss len Suc
      by (intro exI [of _ "length xs + n"]) (auto simp: nth_append)
  qed
qed

lemma planned_entry_job:
  assumes "plan_ok plan" "length ess = length (plan_namespaces plan)"
    "\<forall>i < length ess. map pd_digest_id (pn_digests (plan_namespaces plan ! i)) = map fst (ess ! i)"
    "map job_input (plan_jobs plan) = map snd (concat ess)"
    "i < length ess" "j < length (ess ! i)"
  shows "\<exists>p job. p \<in> set (pn_digests (plan_namespaces plan ! i)) \<and> job \<in> set (plan_jobs plan) \<and>
    planned_identity p = job_identity job \<and> pd_digest_id p = fst (ess ! i ! j) \<and>
    job_input job = snd (ess ! i ! j)"
proof -
  let ?pss = "map pn_digests (plan_namespaces plan)"
  have len: "length (?pss ! k) = length (ess ! k)" if "k < length ess" for k
    using assms(2,3) that by (metis length_map nth_map)
  obtain n where n: "n < length (concat ?pss)" "n < length (concat ess)"
      "concat ?pss ! n = ?pss ! i ! j" "concat ess ! n = ess ! i ! j"
    using concat_position [of i ?pss j ess] assms(2,5,6) len by (metis length_map)
  let ?p = "?pss ! i ! j" and ?job = "plan_jobs plan ! n"
  have ids: "map planned_identity (concat ?pss) = map job_identity (plan_jobs plan)"
    using assms(1) by (simp add: plan_ok_def)
  then have nj: "n < length (plan_jobs plan)" using n(1) by (metis length_map)
  have "planned_identity ?p = job_identity ?job" using ids n(1,3) nj by (metis nth_map)
  moreover have "job_input ?job = snd (ess ! i ! j)" using assms(4) n(2,4) nj by (metis nth_map)
  moreover have "pd_digest_id ?p = fst (ess ! i ! j)"
  proof -
    have "map pd_digest_id (pn_digests (plan_namespaces plan ! i)) ! j = map fst (ess ! i) ! j"
      using assms(3,5) by simp
    then show ?thesis using assms(2,5,6) len [OF assms(5)] by simp
  qed
  moreover have "?p \<in> set (pn_digests (plan_namespaces plan ! i))" "?job \<in> set (plan_jobs plan)"
    using assms(2,5,6) len [OF assms(5)] nj by simp_all
  ultimately show ?thesis by blast
qed

lemma plan_digests_match:
  assumes "plan_ok plan" "plan_covers c alg decoys namespaces plan"
  shows "digests_match h c alg namespaces (oracle_value_digests h (plan_jobs plan) plan)"
proof -
  let ?D = "digest_of (map (execute_digest_job h) (plan_jobs plan))"
  obtain ess where ess: "length ess = length namespaces" "length (plan_namespaces plan) = length namespaces"
      "\<forall>i < length namespaces. namespace_planned c decoys (namespaces ! i) (plan_namespaces plan ! i) (ess ! i)"
      "map job_input (plan_jobs plan) = map snd (concat ess)"
    and alg: "\<forall>job \<in> set (plan_jobs plan). job_algorithm job = alg"
    using assms(2) by (auto simp: plan_covers_def)
  have "\<exists>ds. bt_get (oracle_value_digests h (plan_jobs plan) plan) name = Some ds \<and>
      (\<forall>item \<in> set items. \<exists>b. encode_item_bytes c item = Inr b \<and> bt_get ds (item_id item) = Some (digest h alg b))"
    if mem: "(name, items) \<in> set namespaces" for name items
  proof -
    obtain i where i: "i < length namespaces" "namespaces ! i = (name, items)"
      using mem by (auto simp: in_set_conv_nth)
    let ?ns = "plan_namespaces plan ! i"
    have pl: "pn_name ?ns = name" "namespace_entries c decoys items (ess ! i)"
      using ess(3) i by (auto simp: namespace_planned_def)
    have ns: "?ns \<in> set (plan_namespaces plan)" using i(1) ess(2) by simp
    have get: "bt_get (oracle_value_digests h (plan_jobs plan) plan) name = Some (snd (namespace_digest_ids ?D ?ns))"
      using bt_get_value_digests [OF _ ns, of ?D] assms(1) pl(1) by (simp add: oracle_value_digests_def plan_ok_def)
    have "\<exists>b. encode_item_bytes c item = Inr b \<and>
        bt_get (snd (namespace_digest_ids ?D ?ns)) (item_id item) = Some (digest h alg b)"
      if item: "item \<in> set items" for item
    proof -
      obtain j where j: "j < length items" "items ! j = item" using item by (auto simp: in_set_conv_nth)
      have e: "fst (ess ! i ! j) = item_id item" "encode_item_bytes c item = Inr (snd (ess ! i ! j))"
          "j < length (ess ! i)"
        using pl(2) j by (auto simp: namespace_entries_def list_all2_conv_all_nth list_eq_iff_nth_eq)
      obtain p job where p: "p \<in> set (pn_digests ?ns)" "job \<in> set (plan_jobs plan)"
          "planned_identity p = job_identity job" "pd_digest_id p = item_id item"
          "job_input job = snd (ess ! i ! j)"
        using planned_entry_job [OF assms(1), of ess i j] ess i(1) e(1,3)
        by (auto simp: namespace_planned_def case_prod_beta)
      have "bt_get (snd (namespace_digest_ids ?D ?ns)) (item_id item) = Some (?D (planned_identity p))"
        using bt_get_digest_ids [OF _ p(1), of ?D] assms(1) ns p(4) by (simp add: plan_ok_def)
      then show ?thesis
        using oracle_digest_job [OF plan_ok_facts(2) [OF assms(1)] p(2)] p(2,3,5) alg e(2) by simp
    qed
    then show ?thesis using get by blast
  qed
  then show ?thesis by (auto simp: digests_match_def)
qed

section \<open>Preparation does not depend on the executor\<close>

lemma to_issuer_namespaces_distinct:
  assumes "to_issuer_namespaces c g namespaces r = Some (Inr (out, r'))" "bt_wf namespaces"
  shows "bt_wf out" "\<forall>(name, items) \<in> set out. distinct (map item_id items)"
proof -
  have rel: "list_all2 (\<lambda>(name, elements) (name', items).
      name' = name \<and> items \<noteq> [] \<and> issuer_items_ok c elements items) namespaces out"
    by (rule to_issuer_namespaces_ok(3) [OF assms])
  show "bt_wf out" by (rule to_issuer_namespaces_ok(2) [OF assms])
  have "\<forall>i < length out. distinct (map item_id (snd (out ! i)))"
    using rel by (auto simp: list_all2_conv_all_nth case_prod_beta issuer_items_ok_def)
  then show "\<forall>(name, items) \<in> set out. distinct (map item_id items)"
    by (auto simp: in_set_conv_nth case_prod_beta) (metis snd_conv)
qed

text \<open>The plan of one credential, with all that is needed of it.\<close>

lemma planned_credential:
  assumes "to_issuer_namespaces (is_codec I) (is_rng I) namespaces r = Some (Inr (ins, r1))"
    and "plan_digest_namespaces_for_credential (is_codec I) (is_rng I) cid ins alg decoys r1 = Some (Inr (plan, r2))"
    and "rng_ranges (is_rng I)" "bt_wf namespaces"
  shows "plan_ok plan" "plan_credential_id plan = cid" "plan_covers (is_codec I) alg decoys ins plan"
  using plan_for_credential_ok [OF assms(2,3) to_issuer_namespaces_distinct [OF assms(1,4)]] by auto

context digest_executor
begin

lemma prepare_uses_oracle:
  assumes "sha2_lengths hash" "rng_ranges (is_rng I)" "bt_wf namespaces"
    and "prepare_with_validated_inputs I execute doc namespaces vinfo alg dki sa decoys r = Some (Inr (p, r'))"
  shows "\<exists>ins r1 plan. to_issuer_namespaces (is_codec I) (is_rng I) namespaces r = Some (Inr (ins, r1)) \<and>
    plan_digest_namespaces (is_codec I) (is_rng I) ins alg decoys r1 = Some (Inr (plan, r')) \<and>
    plan_ok plan \<and> plan_covers (is_codec I) alg decoys ins plan \<and>
    finish_preparation I doc ins vinfo alg dki sa (oracle_value_digests hash (plan_jobs plan) plan) = Inr p"
proof -
  obtain ins r1 plan results vd where run:
      "to_issuer_namespaces (is_codec I) (is_rng I) namespaces r = Some (Inr (ins, r1))"
      "plan_digest_namespaces (is_codec I) (is_rng I) ins alg decoys r1 = Some (Inr (plan, r'))"
      "execute (plan_jobs plan) = Inr results" "assemble_digest_namespaces plan results = Inr vd"
      "finish_preparation I doc ins vinfo alg dki sa vd = Inr p"
    using assms(4) by (auto simp: prepare_with_validated_inputs_def result_simps)
  have plan: "plan_ok plan" "plan_covers (is_codec I) alg decoys ins plan"
    using planned_credential [OF run(1) run(2) [unfolded plan_digest_namespaces_def] assms(2,3)] by auto
  have "vd = oracle_value_digests hash (plan_jobs plan) plan"
    using assembled [OF assms(1) plan(1) run(3)] run(4) by simp
  with run plan show ?thesis by blast
qed

lemma prepare_digests_match:
  assumes "sha2_lengths hash" "rng_ranges (is_rng I)" "bt_wf namespaces"
    and "prepare_with_validated_inputs I execute doc namespaces vinfo alg dki sa decoys r = Some (Inr (p, r'))"
  shows "digests_match hash (is_codec I) alg (pm_namespaces p) (mso_value_digests (pm_mso p))"
proof -
  obtain ins r1 plan where *: "plan_ok plan" "plan_covers (is_codec I) alg decoys ins plan"
      "finish_preparation I doc ins vinfo alg dki sa (oracle_value_digests hash (plan_jobs plan) plan) = Inr p"
    using prepare_uses_oracle [OF assms] by blast
  show ?thesis
    using plan_digests_match [OF *(1,2), of hash] finish_preparation_fields(1,2) [OF *(3)] by simp
qed

lemma prepare_eq_serial:
  assumes "sha2_lengths hash" "rng_ranges (is_rng I)" "bt_wf namespaces"
    and "\<And>jobs. \<exists>results. execute jobs = Inr results"
  shows "prepare_with_validated_inputs I execute doc namespaces vinfo alg dki sa decoys r
    = prepare_with_validated_inputs I (SerialDigestExecutor_execute hash) doc namespaces vinfo alg dki sa decoys r"
proof -
  have "map_err (\<lambda>_. DigestExecutionFailed) (execute (plan_jobs plan)) = Inr results \<Longrightarrow>
      assemble_digest_namespaces plan results
        = assemble_digest_namespaces plan (map (execute_digest_job hash) (plan_jobs plan))"
    if "plan_ok plan" for plan results
    using assembled [OF assms(1) that] serial.assembled [OF assms(1) that]
    by (simp add: SerialDigestExecutor_execute_def result_simps)
  then have step: "and_then (map_err (\<lambda>_. DigestExecutionFailed) (execute (plan_jobs plan)))
        (\<lambda>results. and_then (assemble_digest_namespaces plan results) f)
      = and_then (map_err (\<lambda>_. DigestExecutionFailed) (SerialDigestExecutor_execute hash (plan_jobs plan)))
        (\<lambda>results. and_then (assemble_digest_namespaces plan results) f)"
    if "plan_ok plan" for plan f
    using assms(4) [of "plan_jobs plan"] that by (auto simp: SerialDigestExecutor_execute_def)
  show ?thesis
  proof (cases "to_issuer_namespaces (is_codec I) (is_rng I) namespaces r")
    case None
    then show ?thesis by (simp add: prepare_with_validated_inputs_def)
  next
    case (Some x)
    show ?thesis
    proof (cases x)
      case (Inl e)
      with Some show ?thesis by (simp add: prepare_with_validated_inputs_def)
    next
      case (Inr y)
      then obtain ins r1 where ins: "to_issuer_namespaces (is_codec I) (is_rng I) namespaces r = Some (Inr (ins, r1))"
        using Some by (cases y) simp
      let ?plan = "plan_digest_namespaces (is_codec I) (is_rng I) ins alg decoys r1"
      consider "?plan = None" | e where "?plan = Some (Inl e)" | plan r2 where "?plan = Some (Inr (plan, r2))"
        by (metis not_None_eq old.sum.exhaust prod.collapse)
      then show ?thesis
      proof cases
        case (3 plan r2)
        then have "plan_ok plan"
          using planned_credential(1) [OF ins 3 [unfolded plan_digest_namespaces_def] assms(2,3)] by simp
        then show ?thesis
          using ins 3 step by (simp add: prepare_with_validated_inputs_def)
      qed (simp_all add: prepare_with_validated_inputs_def ins)
    qed
  qed
qed

end

section \<open>Properties\<close>

definition sample_issuer :: "(nat, nat, nat) issuer" where
  "sample_issuer = \<lparr> is_codec = sample_codec, is_encode_mso = (\<lambda>m. Inr [of_nat (length (mso_value_digests m))]),
                     is_rng = sample_rng, is_sig_structure = (\<lambda>h a b. a @ b) \<rparr>"

definition sample_dki :: DeviceKeyInfo where
  "sample_dki = \<lparr> dki_device_key = OKP Ed25519 [7], dki_key_authorizations = None, dki_key_info = None \<rparr>"

definition zero_sha2 :: sha2_ops where
  "zero_sha2 = \<lparr> sha2_256 = (\<lambda>m. replicate 32 0), sha2_384 = (\<lambda>m. replicate 48 0),
                 sha2_512 = (\<lambda>m. replicate 64 0) \<rparr>"

lemma zero_sha2_ok: "sha2_lengths zero_sha2"
proof -
  have "length (digest zero_sha2 alg m) = digest_length alg" for alg m
    by (cases alg) (simp_all add: zero_sha2_def)
  then show ?thesis by (simp add: sha2_lengths_def)
qed

text \<open>C1. Issuance correctness: in a prepared document every issuer-signed item of every namespace
  has a value digest under its namespace and digest identifier, and it is the digest, under the
  document's algorithm, of the bytes the item is encoded to. This holds for every digest executor
  that keeps the trait's contract, in whatever order it answers.\<close>
theorem prepared_digests_match:
  assumes "digest_executor h execute" "sha2_lengths h" "rng_ranges (is_rng I)" "bt_wf namespaces"
    and "prepare_with_digest_executor I execute doc namespaces vinfo alg dki sa decoys r = Some (Inr (p, r'))"
  shows "digests_match h (is_codec I) (mso_digest_algorithm (pm_mso p)) (pm_namespaces p)
    (mso_value_digests (pm_mso p))"
proof -
  have run: "prepare_with_validated_inputs I execute doc namespaces vinfo alg dki sa decoys r = Some (Inr (p, r'))"
    using assms(5) by (auto simp: prepare_with_digest_executor_def result_simps)
  obtain ins vd where "finish_preparation I doc ins vinfo alg dki sa vd = Inr p"
    using run by (auto simp: prepare_with_validated_inputs_def result_simps)
  then have "mso_digest_algorithm (pm_mso p) = alg" by (rule finish_preparation_fields)
  then show ?thesis
    using digest_executor.prepare_digests_match [OF assms(1-4) run] by simp
qed

text \<open>Executor independence: preparing a document with any executor that keeps the contract and
  does not fail gives exactly the outcome of the serial oracle, the same document or the same
  error, and leaves the random generator in the same state.\<close>
lemma prepare_executor_independent:
  assumes "digest_executor h execute" "\<forall>jobs. \<exists>results. execute jobs = Inr results"
    and "sha2_lengths h" "rng_ranges (is_rng I)" "bt_wf namespaces"
  shows "prepare_with_digest_executor I execute doc namespaces vinfo alg dki sa decoys r
    = prepare_with_digest_executor I (SerialDigestExecutor_execute h) doc namespaces vinfo alg dki sa decoys r"
  using digest_executor.prepare_eq_serial [OF assms(1,3-5)] assms(2)
  by (simp add: prepare_with_digest_executor_def)

lemma reversed_executor: "digest_executor h (\<lambda>jobs. Inr (rev (map (execute_digest_job h) jobs)))"
  by unfold_locales auto

lemma prepare_executor_independent_witness:
  "prepare_with_digest_executor sample_issuer (\<lambda>jobs. Inr (rev (map (execute_digest_job zero_sha2) jobs)))
      ''doc'' [(''ns'', [(''age'', 7)])] 0 SHA256 sample_dki ES256 True 0
   = prepare_with_digest_executor sample_issuer (SerialDigestExecutor_execute zero_sha2)
      ''doc'' [(''ns'', [(''age'', 7)])] 0 SHA256 sample_dki ES256 True 0"
  by (rule prepare_executor_independent [OF reversed_executor _ zero_sha2_ok])
    (simp_all add: sample_issuer_def sample_rng_ok bt_wf_def)

definition sample_ins :: "nat IssuerNamespaces" where
  "sample_ins = [(''ns'', [\<lparr> tag24_inner = \<lparr> item_digest_id = 0, item_random = replicate 16 0,
     item_element_identifier = ''age'', item_element_value = 7 \<rparr>, tag24_inner_bytes = [0, 7] \<rparr>])]"

lemma sample_to_issuer:
  "to_issuer_namespaces sample_codec sample_rng [(''ns'', [(''age'', 7)])] 0 = Some (Inr (sample_ins, 2))"
proof -
  have "DigestId_new 0 = 0" by (simp add: DigestId_new_def)
  then have "generate_digest_id sample_rng {} 0 = Some (0, {0}, 1)"
    by (subst generate_digest_id.simps) (simp add: sample_rng_def)
  then show ?thesis
    by (simp add: to_issuer_namespaces_def Tag24_new_def sample_codec_def sample_rng_def sample_ins_def
        NonEmptyVec_try_from_def NonEmptyMap_try_from_def bt_of_list_def)
qed

lemma sample_planned:
  "\<exists>plan. plan_digest_namespaces sample_codec sample_rng sample_ins SHA256 False 2 = Some (Inr (plan, 2))"
  by (simp add: plan_digest_namespaces_def plan_digest_namespaces_for_credential_def plan_digest_namespace_def
      sample_ins_def sample_codec_def encode_item_bytes_def Tag24_into_def push_planned_digest_def checked_add_u64_def)

lemma sample_codec_tag: "encode_value sample_codec (VTag t (VBytes b)) = Inr (0xd8 # 24 # b)"
  by (simp add: sample_codec_def)

lemma sample_prepared:
  "\<exists>p. prepare_with_digest_executor sample_issuer (SerialDigestExecutor_execute zero_sha2)
      ''doc'' [(''ns'', [(''age'', 7)])] 0 SHA256 sample_dki ES256 False 0 = Some (Inr (p, 2))"
proof -
  obtain plan where plan: "plan_digest_namespaces sample_codec sample_rng sample_ins SHA256 False 2 = Some (Inr (plan, 2))"
    using sample_planned by blast
  have "bt_wf [(''ns'', [(''age'', 7 :: nat)])]" by (simp add: bt_wf_def)
  from planned_credential(1) [of sample_issuer, unfolded sample_issuer_def issuer.simps,
      OF sample_to_issuer plan [unfolded plan_digest_namespaces_def] sample_rng_ok this]
  have "assemble_digest_namespaces plan (map (execute_digest_job zero_sha2) (plan_jobs plan))
      = Inr (oracle_value_digests zero_sha2 (plan_jobs plan) plan)"
    using serial.assembled [OF zero_sha2_ok] by (simp add: SerialDigestExecutor_execute_def)
  then show ?thesis
    by (simp add: prepare_with_digest_executor_def validate_authorizations_def sample_dki_def
        validate_namespace_shape_def prepare_with_validated_inputs_def sample_issuer_def sample_to_issuer plan
        SerialDigestExecutor_execute_def finish_preparation_def Let_def Tag24_new_def Tag24_into_def
        sample_codec_tag PreparedCoseSign1_new_def)
qed

theorem prepared_digests_match_witness:
  "\<exists>p r. prepare_with_digest_executor sample_issuer (SerialDigestExecutor_execute zero_sha2)
      ''doc'' [(''ns'', [(''age'', 7)])] 0 SHA256 sample_dki ES256 False 0 = Some (Inr (p, r)) \<and>
    digests_match zero_sha2 sample_codec (mso_digest_algorithm (pm_mso p)) (pm_namespaces p)
      (mso_value_digests (pm_mso p))"
proof -
  obtain p r where run: "prepare_with_digest_executor sample_issuer (SerialDigestExecutor_execute zero_sha2)
      ''doc'' [(''ns'', [(''age'', 7)])] 0 SHA256 sample_dki ES256 False 0 = Some (Inr (p, r))"
    using sample_prepared by blast
  have "bt_wf [(''ns'', [(''age'', 7 :: nat)])]" "rng_ranges (is_rng sample_issuer)"
    by (simp_all add: bt_wf_def sample_issuer_def sample_rng_ok)
  from prepared_digests_match [OF serial.digest_executor_axioms zero_sha2_ok this(2,1) run] run
  show ?thesis by (auto simp: sample_issuer_def)
qed

text \<open>A document is what its parts are, down to the headers of its signature.\<close>

lemma Mdoc_eq_iff:
  "m = m' \<longleftrightarrow> md_doc_type m = md_doc_type m' \<and> md_mso m = md_mso m' \<and> md_namespaces m = md_namespaces m' \<and>
     mt_tagged (md_issuer_auth m) = mt_tagged (md_issuer_auth m') \<and>
     s1_protected (mt_inner (md_issuer_auth m)) = s1_protected (mt_inner (md_issuer_auth m')) \<and>
     header_alg (s1_unprotected (mt_inner (md_issuer_auth m))) = header_alg (s1_unprotected (mt_inner (md_issuer_auth m'))) \<and>
     header_rest (s1_unprotected (mt_inner (md_issuer_auth m))) = header_rest (s1_unprotected (mt_inner (md_issuer_auth m'))) \<and>
     s1_payload (mt_inner (md_issuer_auth m)) = s1_payload (mt_inner (md_issuer_auth m')) \<and>
     s1_signature (mt_inner (md_issuer_auth m)) = s1_signature (mt_inner (md_issuer_auth m'))"
  for m m' :: "('v, 'vi) Mdoc"
  by (auto intro!: Mdoc.equality MaybeTagged.equality CoseSign1.equality Header.equality)

text \<open>C25. Completion is fail-closed and changes nothing. A document is issued exactly when the remote
  signature is authentic for the prepared payload under the key of the chain, with the hash the
  protected algorithm (ES256, ES384 or ES512) prescribes. The issued document has the prepared type,
  mobile security object and namespaces; its issuer authentication has the prepared tag, protected
  header, payload and unprotected header, with that signature, and with the chain under label 33
  added after the entries that were there.\<close>
theorem completion_fail_closed:
  "PreparedMdoc_complete ops h self chain signature = Inr m \<longleftrightarrow>
    (\<exists>alg sig key. PreparedCoseSign1_algorithm (pm_prepared_sig self) = Some alg \<and>
      alg \<in> {ES256, ES384, ES512} \<and> rs_parse ops alg signature = Some sig \<and> rs_key ops alg chain = Some key \<and>
      rs_verify ops alg key
        ((if alg = ES256 then sha2_256 h else if alg = ES384 then sha2_384 h else sha2_512 h)
           (ps_signature_payload (pm_prepared_sig self))) sig) \<and>
    (let prepared = ps_cose_sign1 (pm_prepared_sig self); issued = md_issuer_auth m in
      md_doc_type m = pm_doc_type self \<and> md_mso m = pm_mso self \<and> md_namespaces m = pm_namespaces self \<and>
      mt_tagged issued = mt_tagged prepared \<and>
      s1_protected (mt_inner issued) = s1_protected (mt_inner prepared) \<and>
      s1_payload (mt_inner issued) = s1_payload (mt_inner prepared) \<and>
      s1_signature (mt_inner issued) = signature \<and>
      header_alg (s1_unprotected (mt_inner issued)) = header_alg (s1_unprotected (mt_inner prepared)) \<and>
      header_rest (s1_unprotected (mt_inner issued)) =
        header_rest (s1_unprotected (mt_inner prepared)) @ [(LabelInt 33, rs_chain_into_cbor ops chain)])"
proof -
  have curve: "verify_remote_signature ops h alg chain payload signature = Inr () \<longleftrightarrow>
      alg \<in> {ES256, ES384, ES512} \<and> (\<exists>sig key. rs_parse ops alg signature = Some sig \<and> rs_key ops alg chain = Some key \<and>
        rs_verify ops alg key ((if alg = ES256 then sha2_256 h else if alg = ES384 then sha2_384 h else sha2_512 h) payload) sig)"
    for alg payload
    by (cases alg) (auto simp: verify_remote_signature_def verify_curve_def result_simps split: if_splits)
  have "PreparedMdoc_complete ops h self chain signature = Inr m \<longleftrightarrow>
      (\<exists>alg. PreparedCoseSign1_algorithm (pm_prepared_sig self) = Some alg \<and>
        verify_remote_signature ops h alg chain (ps_signature_payload (pm_prepared_sig self)) signature = Inr ()) \<and>
      m = \<lparr> md_doc_type = pm_doc_type self, md_mso = pm_mso self, md_namespaces = pm_namespaces self,
        md_issuer_auth = (let issuer_auth = PreparedCoseSign1_finalize (pm_prepared_sig self) signature; inner = mt_inner issuer_auth in
          issuer_auth \<lparr> mt_inner := inner \<lparr> s1_unprotected := (s1_unprotected inner)
            \<lparr> header_rest := header_rest (s1_unprotected inner) @ [(LabelInt 33, rs_chain_into_cbor ops chain)] \<rparr> \<rparr> \<rparr>) \<rparr>"
    by (auto simp: PreparedMdoc_complete_def result_simps Let_def X5CHAIN_COSE_HEADER_LABEL_def)
  then show ?thesis
    unfolding curve Mdoc_eq_iff by (auto simp: Let_def PreparedCoseSign1_finalize_def)
qed

definition accepting_ops :: "(nat, nat, nat) remote_ops" where
  "accepting_ops = \<lparr> rs_parse = (\<lambda>_ b. Some (length b)), rs_key = (\<lambda>_ x. Some x),
                     rs_verify = (\<lambda>_ k d s. k = s), rs_chain_into_cbor = (\<lambda>x. VInteger (int x)) \<rparr>"

definition sample_prepared_mdoc :: "(nat, nat) PreparedMdoc" where
  "sample_prepared_mdoc =
     \<lparr> pm_doc_type = ''doc'',
       pm_mso = \<lparr> mso_version = ''1.0'', mso_digest_algorithm = SHA256, mso_value_digests = [],
                  mso_device_key_info = sample_dki, mso_doc_type = ''doc'', mso_validity_info = 0 \<rparr>,
       pm_namespaces = [],
       pm_prepared_sig = \<lparr> ps_cose_sign1 = MaybeTagged_new False
           \<lparr> s1_protected = empty_header \<lparr> header_alg := Some (Assigned ES384) \<rparr>,
             s1_unprotected = empty_header, s1_payload = Some [1], s1_signature = [] \<rparr>,
         ps_signature_payload = [2] \<rparr> \<rparr>"

lemma sample_completed: "\<exists>m. PreparedMdoc_complete accepting_ops zero_sha2 sample_prepared_mdoc 3 [7, 8, 9] = Inr m"
  by (simp add: PreparedMdoc_complete_def PreparedCoseSign1_algorithm_def sample_prepared_mdoc_def
      MaybeTagged_new_def verify_remote_signature_def verify_curve_def accepting_ops_def Let_def)

theorem completion_fail_closed_witness:
  "\<exists>m. PreparedMdoc_complete accepting_ops zero_sha2 sample_prepared_mdoc 3 [7, 8, 9] = Inr m \<and>
    s1_signature (mt_inner (md_issuer_auth m)) = [7, 8, 9] \<and> md_doc_type m = ''doc''"
proof -
  obtain m where m: "PreparedMdoc_complete accepting_ops zero_sha2 sample_prepared_mdoc 3 [7, 8, 9] = Inr m"
    using sample_completed by blast
  from completion_fail_closed [THEN iffD1, OF m] have "s1_signature (mt_inner (md_issuer_auth m)) = [7, 8, 9]"
    "md_doc_type m = ''doc''"
    unfolding Let_def by (simp_all add: sample_prepared_mdoc_def)
  with m show ?thesis by blast
qed

end
