(* ===== verification/Mdoc_Batch.thy ===== *)
theory Mdoc_Batch
  imports Mdoc
begin

text \<open>
  A batch prepares the same documents as preparing its items one after the other, although it
  plans all items first and hands all digest jobs to the executor in one call. The single path
  numbers its jobs under the credential identity 0 and the batch under the caller's identities,
  so the first part shows that a plan does not otherwise depend on the identity.
\<close>

section \<open>Plans under another credential identity\<close>

definition relabel_job :: "u64 \<Rightarrow> DigestJob \<Rightarrow> DigestJob" where
  "relabel_job c job = job \<lparr> job_credential_id := c \<rparr>"

definition relabel_digest :: "u64 \<Rightarrow> PlannedMdocDigest \<Rightarrow> PlannedMdocDigest" where
  "relabel_digest c p = p \<lparr> pd_credential_id := c \<rparr>"

definition relabel_namespace :: "u64 \<Rightarrow> PlannedMdocNamespace \<Rightarrow> PlannedMdocNamespace" where
  "relabel_namespace c ns = ns \<lparr> pn_digests := map (relabel_digest c) (pn_digests ns) \<rparr>"

definition relabel_plan :: "u64 \<Rightarrow> MdocDigestPlan \<Rightarrow> MdocDigestPlan" where
  "relabel_plan c plan =
     \<lparr> plan_credential_id = c, plan_namespaces = map (relabel_namespace c) (plan_namespaces plan),
       plan_jobs = map (relabel_job c) (plan_jobs plan) \<rparr>"

fun relabel_acc :: "u64 \<Rightarrow> plan_acc \<Rightarrow> plan_acc" where
  "relabel_acc c (n, jobs) = (n, map (relabel_job c) jobs)"

fun relabel_state :: "u64 \<Rightarrow> plan_acc \<times> PlannedMdocDigest list \<Rightarrow> plan_acc \<times> PlannedMdocDigest list" where
  "relabel_state c (acc, ps) = (relabel_acc c acc, map (relabel_digest c) ps)"

lemma push_relabel:
  "push_planned_digest c d k alg input (relabel_state c acc)
     = map_ok (relabel_state c) (push_planned_digest c0 d k alg input acc)"
proof -
  obtain n jobs ps where "acc = ((n, jobs), ps)" by (metis prod.collapse)
  then show ?thesis
    by (cases "checked_add_u64 n 1")
      (simp_all add: push_planned_digest_def relabel_job_def relabel_digest_def)
qed

lemma plan_elements_relabel:
  "plan_elements cd c alg k items (relabel_state c acc)
     = map_ok (relabel_state c) (plan_elements cd c0 alg k items acc)"
proof (induction items arbitrary: k acc)
  case Nil
  then show ?case by simp
next
  case (Cons item items)
  show ?case
  proof (cases "encode_item_bytes cd item")
    case (Inl e)
    then show ?thesis by simp
  next
    case (Inr b)
    then show ?thesis
      using push_relabel [of c "item_id item" k alg b acc c0] Cons.IH
      by (cases "push_planned_digest c0 (item_id item) k alg b acc") simp_all
  qed
qed

lemma plan_decoys_relabel:
  "plan_decoys g c alg k n used (relabel_state c acc) r
     = map_option (map_ok (\<lambda>(a, r). (relabel_state c a, r))) (plan_decoys g c0 alg k n used acc r)"
proof (induction n arbitrary: k used acc r)
  case 0
  then show ?case by simp
next
  case (Suc n)
  show ?case
  proof (cases "generate_digest_id g used r")
    case None
    then show ?thesis by simp
  next
    case (Some x)
    obtain d used1 r1 where x: "x = (d, used1, r1)" by (metis prod.collapse)
    obtain b r2 where b: "rng_fill g DECOY_BYTES_LENGTH r1 = (b, r2)" by fastforce
    show ?thesis
      using push_relabel [of c d k alg b acc c0] Suc.IH Some x b
      by (cases "push_planned_digest c0 d k alg b acc") simp_all
  qed
qed

lemma plan_digest_namespace_relabel:
  "plan_digest_namespace cd g c items alg decoys (relabel_acc c acc) r
     = map_option (map_ok (\<lambda>(a, r). (relabel_state c a, r)))
         (plan_digest_namespace cd g c0 items alg decoys acc r)"
proof -
  have start: "(relabel_acc c acc, []) = relabel_state c (acc, [])" by simp
  show ?thesis
    unfolding plan_digest_namespace_def Let_def start plan_elements_relabel [of cd c alg 0 items "(acc, [])" c0]
    by (cases "plan_elements cd c0 alg 0 items (acc, [])")
      (simp_all add: case_prod_beta plan_decoys_relabel [of g c alg _ _ _ _ _ c0])
qed

lemma plan_namespace_list_relabel:
  "plan_namespace_list cd g c alg decoys namespaces (relabel_acc c acc) r
     = map_option (map_ok (\<lambda>((a, nss), r). ((relabel_acc c a, map (relabel_namespace c) nss), r)))
         (plan_namespace_list cd g c0 alg decoys namespaces acc r)"
proof (induction namespaces arbitrary: acc r)
  case Nil
  then show ?case by simp
next
  case (Cons ns namespaces)
  obtain name items where ns: "ns = (name, items)" by fastforce
  let ?one = "plan_digest_namespace cd g c0 items alg decoys acc r"
  consider "?one = None" | e where "?one = Some (Inl e)" | a ps r1 where "?one = Some (Inr ((a, ps), r1))"
    by (metis not_None_eq old.sum.exhaust prod.collapse)
  then show ?case
  proof cases
    case (3 a ps r1)
    let ?rest = "plan_namespace_list cd g c0 alg decoys namespaces a r1"
    consider "?rest = None" | e where "?rest = Some (Inl e)" | a' nss r2 where "?rest = Some (Inr ((a', nss), r2))"
      by (metis not_None_eq old.sum.exhaust prod.collapse)
    then show ?thesis
      using 3 ns Cons.IH [of a r1] plan_digest_namespace_relabel [of cd g c items alg decoys acc r c0]
      by cases (simp_all add: relabel_namespace_def)
  qed (simp_all add: ns plan_digest_namespace_relabel [of cd g c items alg decoys acc r c0])
qed

lemma plan_for_credential_relabel:
  "plan_digest_namespaces_for_credential cd g c namespaces alg decoys r
     = map_option (map_ok (\<lambda>(plan, r). (relabel_plan c plan, r)))
         (plan_digest_namespaces_for_credential cd g c0 namespaces alg decoys r)"
proof -
  let ?run = "plan_namespace_list cd g c0 alg decoys namespaces (0, []) r"
  have start: "plan_namespace_list cd g c alg decoys namespaces (0, []) r
      = map_option (map_ok (\<lambda>((a, nss), r). ((relabel_acc c a, map (relabel_namespace c) nss), r))) ?run"
    using plan_namespace_list_relabel [of cd g c alg decoys namespaces "(0, [])" r c0] by simp
  consider "?run = None" | e where "?run = Some (Inl e)" | n jobs nss r1 where "?run = Some (Inr (((n, jobs), nss), r1))"
    by (metis not_None_eq old.sum.exhaust prod.collapse)
  then show ?thesis
    by cases (simp_all add: plan_digest_namespaces_for_credential_def start relabel_plan_def)
qed

lemma identity_relabel:
  "job_identity (relabel_job c job) = (c, job_job_id job)"
  "planned_identity (relabel_digest c p) = (c, pd_job_id p)"
  by (simp_all add: identity_defs relabel_job_def relabel_digest_def)

lemma oracle_relabel:
  assumes "plan_ok plan" "plan_ok (relabel_plan c plan)"
  shows "oracle_value_digests h (plan_jobs (relabel_plan c plan)) (relabel_plan c plan)
    = oracle_value_digests h (plan_jobs plan) plan"
proof -
  let ?D = "digest_of (map (execute_digest_job h) (plan_jobs plan))"
  let ?E = "digest_of (map (execute_digest_job h) (plan_jobs (relabel_plan c plan)))"
  have at: "?E (planned_identity (relabel_digest c p)) = ?D (planned_identity p)"
    if p: "p \<in> set (concat (map pn_digests (plan_namespaces plan)))" for p
  proof -
    obtain job where job: "job \<in> set (plan_jobs plan)" "planned_identity p = job_identity job"
      using plan_ok_facts(3) [OF assms(1)] p by auto
    then have "planned_identity (relabel_digest c p) = job_identity (relabel_job c job)"
      by (simp add: identity_relabel) (simp add: identity_defs)
    moreover have "relabel_job c job \<in> set (plan_jobs (relabel_plan c plan))"
      using job(1) by (simp add: relabel_plan_def)
    ultimately have "?E (planned_identity (relabel_digest c p))
        = digest h (job_algorithm (relabel_job c job)) (job_input (relabel_job c job))"
      using oracle_digest_job [OF plan_ok_facts(2) [OF assms(2)]] by metis
    also have "\<dots> = ?D (planned_identity p)"
      using oracle_digest_job [OF plan_ok_facts(2) [OF assms(1)] job(1)] job(2) by (simp add: relabel_job_def)
    finally show ?thesis .
  qed
  have ns: "namespace_digest_ids ?E (relabel_namespace c ns) = namespace_digest_ids ?D ns"
    if "ns \<in> set (plan_namespaces plan)" for ns
  proof -
    have "map (\<lambda>p. (pd_digest_id p, ?E (planned_identity p))) (map (relabel_digest c) (pn_digests ns))
        = map (\<lambda>p. (pd_digest_id p, ?D (planned_identity p))) (pn_digests ns)"
      using at that by (auto simp: relabel_digest_def)
    moreover have "pn_name (relabel_namespace c ns) = pn_name ns"
        "pn_digests (relabel_namespace c ns) = map (relabel_digest c) (pn_digests ns)"
      by (simp_all add: relabel_namespace_def)
    ultimately show ?thesis by (simp only: namespace_digest_ids_def)
  qed
  then have "map (namespace_digest_ids ?E) (map (relabel_namespace c) (plan_namespaces plan))
      = map (namespace_digest_ids ?D) (plan_namespaces plan)"
    by simp
  moreover have "plan_namespaces (relabel_plan c plan) = map (relabel_namespace c) (plan_namespaces plan)"
    by (simp add: relabel_plan_def)
  ultimately show ?thesis by (simp only: oracle_value_digests_def plan_value_digests_def)
qed

section \<open>The sequential reference\<close>

fun prepare_each :: "('v, 'vi, 'r) issuer \<Rightarrow> executor \<Rightarrow> ('v, 'vi) ValidatedMdocBatchItem list \<Rightarrow> 'r
    \<Rightarrow> (mdoc_error + (u64 \<times> ('v, 'vi) PreparedMdoc) list \<times> 'r) option" where
  "prepare_each I execute [] r = Some (Inr ([], r))"
| "prepare_each I execute (v # vs) r =
     run_then (prepare_with_validated_inputs I execute (vi_doc_type v) (vi_namespaces v) (vi_validity_info v)
                 (vi_digest_algorithm v) (vi_device_key_info v) (vi_signature_algorithm v) (vi_enable_decoy_digests v) r)
       (\<lambda>(p, r1). run_then (prepare_each I execute vs r1)
          (\<lambda>(ps, r2). Some (Inr ((vi_credential_id v, p) # ps, r2))))"

text \<open>One planned item with the value digests the oracle gives its plan.\<close>

definition oracle_item :: "sha2_ops \<Rightarrow> ('v, 'vi) PlannedMdocBatchItem \<times> MdocDigestPlan
    \<Rightarrow> ('v, 'vi) PlannedMdocBatchItem \<times> value_digests" where
  "oracle_item h = (\<lambda>(p, plan). (p, oracle_value_digests h (plan_jobs plan) plan))"

lemma prepare_one_iff:
  assumes "sha2_lengths h" "rng_ranges (is_rng I)" "bt_wf (vi_namespaces v)"
  shows "prepare_with_validated_inputs I (SerialDigestExecutor_execute h) (vi_doc_type v) (vi_namespaces v)
      (vi_validity_info v) (vi_digest_algorithm v) (vi_device_key_info v) (vi_signature_algorithm v)
      (vi_enable_decoy_digests v) r = Some (Inr (p, r2)) \<longleftrightarrow>
    (\<exists>ins r1 plan. to_issuer_namespaces (is_codec I) (is_rng I) (vi_namespaces v) r = Some (Inr (ins, r1)) \<and>
       plan_digest_namespaces_for_credential (is_codec I) (is_rng I) (vi_credential_id v) ins
         (vi_digest_algorithm v) (vi_enable_decoy_digests v) r1 = Some (Inr (plan, r2)) \<and>
       finish_item I (oracle_item h (\<lparr> pi_item = v, pi_issuer_namespaces = ins \<rparr>, plan))
         = Inr (vi_credential_id v, p))" (is "?L \<longleftrightarrow> ?R")
proof -
  let ?plan_for = "\<lambda>c ins r1. plan_digest_namespaces_for_credential (is_codec I) (is_rng I) c ins
         (vi_digest_algorithm v) (vi_enable_decoy_digests v) r1"
  let ?finish = "\<lambda>ins vd. finish_preparation I (vi_doc_type v) ins (vi_validity_info v)
         (vi_digest_algorithm v) (vi_device_key_info v) (vi_signature_algorithm v) vd"
  have relabel: "?plan_for c ins r1 = map_option (map_ok (\<lambda>(plan, r). (relabel_plan c plan, r))) (?plan_for c0 ins r1)"
    for c c0 ins r1 by (rule plan_for_credential_relabel)
  have by_oracle: "oracle_value_digests h (plan_jobs (relabel_plan c plan)) (relabel_plan c plan)
      = oracle_value_digests h (plan_jobs plan) plan"
    if "to_issuer_namespaces (is_codec I) (is_rng I) (vi_namespaces v) r = Some (Inr (ins, r1))"
      "?plan_for MDOC_CREDENTIAL_ID ins r1 = Some (Inr (plan, r2))" for c ins r1 plan r2
  proof (rule oracle_relabel)
    show "plan_ok plan" by (rule planned_credential(1) [OF that assms(2,3)])
    have "?plan_for c ins r1 = Some (Inr (relabel_plan c plan, r2))"
      using that(2) by (simp add: relabel [of c ins r1 MDOC_CREDENTIAL_ID])
    then show "plan_ok (relabel_plan c plan)" by (rule planned_credential(1) [OF that(1) _ assms(2,3)])
  qed
  have fin: "finish_item I (oracle_item h (\<lparr> pi_item = v, pi_issuer_namespaces = ins \<rparr>, plan)) = Inr (vi_credential_id v, p)
      \<longleftrightarrow> ?finish ins (oracle_value_digests h (plan_jobs plan) plan) = Inr p" for ins plan
    by (auto simp: finish_item_def oracle_item_def Let_def result_simps)
  have "?L \<longleftrightarrow> (\<exists>ins r1 plan. to_issuer_namespaces (is_codec I) (is_rng I) (vi_namespaces v) r = Some (Inr (ins, r1)) \<and>
      ?plan_for MDOC_CREDENTIAL_ID ins r1 = Some (Inr (plan, r2)) \<and>
      ?finish ins (oracle_value_digests h (plan_jobs plan) plan) = Inr p)" (is "_ \<longleftrightarrow> ?M")
  proof
    assume ?L
    then show ?M using serial.prepare_uses_oracle [OF assms] by (fastforce simp: plan_digest_namespaces_def)
  next
    assume ?M
    then obtain ins r1 plan where m: "to_issuer_namespaces (is_codec I) (is_rng I) (vi_namespaces v) r = Some (Inr (ins, r1))"
        "?plan_for MDOC_CREDENTIAL_ID ins r1 = Some (Inr (plan, r2))"
        "?finish ins (oracle_value_digests h (plan_jobs plan) plan) = Inr p" by blast
    have "assemble_digest_namespaces plan (map (execute_digest_job h) (plan_jobs plan))
        = Inr (oracle_value_digests h (plan_jobs plan) plan)"
      using serial.assembled [OF assms(1) planned_credential(1) [OF m(1,2) assms(2,3)]]
      by (simp add: SerialDigestExecutor_execute_def)
    then show ?L
      using m by (simp add: prepare_with_validated_inputs_def plan_digest_namespaces_def SerialDigestExecutor_execute_def)
  qed
  also have "\<dots> \<longleftrightarrow> ?R"
  proof
    assume ?M
    then obtain ins r1 plan where m: "to_issuer_namespaces (is_codec I) (is_rng I) (vi_namespaces v) r = Some (Inr (ins, r1))"
        "?plan_for MDOC_CREDENTIAL_ID ins r1 = Some (Inr (plan, r2))"
        "?finish ins (oracle_value_digests h (plan_jobs plan) plan) = Inr p" by blast
    have "?plan_for (vi_credential_id v) ins r1 = Some (Inr (relabel_plan (vi_credential_id v) plan, r2))"
      unfolding relabel [of "vi_credential_id v" ins r1 MDOC_CREDENTIAL_ID] m(2) by simp
    moreover have "finish_item I (oracle_item h (\<lparr> pi_item = v, pi_issuer_namespaces = ins \<rparr>,
        relabel_plan (vi_credential_id v) plan)) = Inr (vi_credential_id v, p)"
      using m(3) unfolding fin by_oracle [OF m(1,2)] .
    ultimately show ?R using m(1) by blast
  next
    assume ?R
    then obtain ins r1 plan where m: "to_issuer_namespaces (is_codec I) (is_rng I) (vi_namespaces v) r = Some (Inr (ins, r1))"
        "?plan_for (vi_credential_id v) ins r1 = Some (Inr (plan, r2))"
        "?finish ins (oracle_value_digests h (plan_jobs plan) plan) = Inr p" using fin by blast
    obtain plan0 where p0: "?plan_for MDOC_CREDENTIAL_ID ins r1 = Some (Inr (plan0, r2))"
        "plan = relabel_plan (vi_credential_id v) plan0"
      using m(2) relabel [of "vi_credential_id v" ins r1 MDOC_CREDENTIAL_ID]
      by (auto simp: result_simps)
    then show ?M using m(1,3) by_oracle [OF m(1) p0(1)] by auto
  qed
  finally show ?thesis .
qed

lemma prepare_each_iff:
  assumes "sha2_lengths h" "rng_ranges (is_rng I)" "\<forall>v \<in> set vs. bt_wf (vi_namespaces v)"
  shows "prepare_each I (SerialDigestExecutor_execute h) vs r = Some (Inr (out, r')) \<longleftrightarrow>
    (\<exists>planned. plan_batch I vs r = Some (Inr (planned, r')) \<and>
       try_collect (finish_item I) (map (oracle_item h) planned) = Inr out)"
  using assms(3)
proof (induction vs arbitrary: r out)
  case Nil
  then show ?case by auto
next
  case (Cons v vs)
  let ?S = "SerialDigestExecutor_execute h"
  have wf: "bt_wf (vi_namespaces v)" using Cons.prems by simp
  have cred: "fst y = vi_credential_id v"
    if "finish_item I (oracle_item h (\<lparr> pi_item = v, pi_issuer_namespaces = ins \<rparr>, plan)) = Inr y" for ins plan y
    using that by (auto simp: finish_item_def oracle_item_def Let_def result_simps)
  have "prepare_each I ?S (v # vs) r = Some (Inr (out, r')) \<longleftrightarrow>
      (\<exists>p r1 ps. prepare_with_validated_inputs I ?S (vi_doc_type v) (vi_namespaces v) (vi_validity_info v)
          (vi_digest_algorithm v) (vi_device_key_info v) (vi_signature_algorithm v) (vi_enable_decoy_digests v) r
          = Some (Inr (p, r1)) \<and> prepare_each I ?S vs r1 = Some (Inr (ps, r')) \<and>
        out = (vi_credential_id v, p) # ps)"
    by (auto simp: run_then_Inr)
  also have "\<dots> \<longleftrightarrow> (\<exists>p r1 ps planned ins r0 plan.
      to_issuer_namespaces (is_codec I) (is_rng I) (vi_namespaces v) r = Some (Inr (ins, r0)) \<and>
      plan_digest_namespaces_for_credential (is_codec I) (is_rng I) (vi_credential_id v) ins
         (vi_digest_algorithm v) (vi_enable_decoy_digests v) r0 = Some (Inr (plan, r1)) \<and>
      finish_item I (oracle_item h (\<lparr> pi_item = v, pi_issuer_namespaces = ins \<rparr>, plan)) = Inr (vi_credential_id v, p) \<and>
      plan_batch I vs r1 = Some (Inr (planned, r')) \<and>
      try_collect (finish_item I) (map (oracle_item h) planned) = Inr ps \<and>
      out = (vi_credential_id v, p) # ps)"
    using Cons.IH Cons.prems unfolding prepare_one_iff [OF assms(1,2) wf] by fastforce
  also have "\<dots> \<longleftrightarrow> (\<exists>planned. plan_batch I (v # vs) r = Some (Inr (planned, r')) \<and>
       try_collect (finish_item I) (map (oracle_item h) planned) = Inr out)" (is "?A \<longleftrightarrow> ?B")
  proof
    assume ?A
    then show ?B by (fastforce simp: run_then_Inr and_then_Inr)
  next
    assume ?B
    then obtain ins r0 plan r1 planned y ps where b:
        "to_issuer_namespaces (is_codec I) (is_rng I) (vi_namespaces v) r = Some (Inr (ins, r0))"
        "plan_digest_namespaces_for_credential (is_codec I) (is_rng I) (vi_credential_id v) ins
         (vi_digest_algorithm v) (vi_enable_decoy_digests v) r0 = Some (Inr (plan, r1))"
        "plan_batch I vs r1 = Some (Inr (planned, r'))"
        "finish_item I (oracle_item h (\<lparr> pi_item = v, pi_issuer_namespaces = ins \<rparr>, plan)) = Inr y"
        "try_collect (finish_item I) (map (oracle_item h) planned) = Inr ps" "out = y # ps"
      by (auto simp: run_then_Inr and_then_Inr)
    obtain p where "y = (vi_credential_id v, p)" using cred [OF b(4)] by (cases y) simp
    with b show ?A by blast
  qed
  finally show ?case .
qed

lemma plan_batch_plans:
  assumes "plan_batch I vs r = Some (Inr (planned, r'))" "rng_ranges (is_rng I)"
    "\<forall>v \<in> set vs. bt_wf (vi_namespaces v)"
  shows "(\<forall>plan \<in> set (map snd planned). plan_ok plan) \<and>
    map plan_credential_id (map snd planned) = map vi_credential_id vs \<and> length planned = length vs"
  using assms(1,3)
proof (induction vs arbitrary: r planned)
  case Nil
  then show ?case by simp
next
  case (Cons v vs)
  then obtain ins r0 plan r1 rest where b:
      "to_issuer_namespaces (is_codec I) (is_rng I) (vi_namespaces v) r = Some (Inr (ins, r0))"
      "plan_digest_namespaces_for_credential (is_codec I) (is_rng I) (vi_credential_id v) ins
       (vi_digest_algorithm v) (vi_enable_decoy_digests v) r0 = Some (Inr (plan, r1))"
      "plan_batch I vs r1 = Some (Inr (rest, r'))"
      "planned = (\<lparr> pi_item = v, pi_issuer_namespaces = ins \<rparr>, plan) # rest"
    by (auto simp: run_then_Inr)
  have wf: "bt_wf (vi_namespaces v)" "\<forall>v \<in> set vs. bt_wf (vi_namespaces v)" using Cons.prems(2) by auto
  show ?case
    using Cons.IH [OF b(3) wf(2)] planned_credential(1,2) [OF b(1,2) assms(2) wf(1)] b(4) by simp
qed

lemma checked_job_count_total:
  "n + length (concat (map plan_jobs plans)) < 2 ^ 64 \<Longrightarrow>
     checked_job_count n plans = Inr (n + length (concat (map plan_jobs plans)))"
  by (induction plans arbitrary: n) (auto simp: add.assoc)

context digest_executor
begin

lemma batch_eq_sequential:
  assumes "sha2_lengths hash" "rng_ranges (is_rng I)" "\<forall>v \<in> set vs. bt_wf (vi_namespaces v)"
    and "distinct (map vi_credential_id vs)" "\<And>jobs. \<exists>results. execute jobs = Inr results"
    and "\<And>planned r'. plan_batch I vs r = Some (Inr (planned, r')) \<Longrightarrow>
           length (concat (map plan_jobs (map snd planned))) < 2 ^ 64"
  shows "prepare_validated_batch I execute vs r = Some (Inr out) \<longleftrightarrow>
    prepare_each I (SerialDigestExecutor_execute hash) vs r = Some (Inr out)"
proof -
  obtain ps r' where out: "out = (ps, r')" by fastforce
  have step: "prepare_validated_batch I execute vs r = Some (Inr (ps, r')) \<longleftrightarrow>
      try_collect (finish_item I) (map (oracle_item hash) planned) = Inr ps \<and> r'' = r'"
    if run: "plan_batch I vs r = Some (Inr (planned, r''))" for planned r''
  proof -
    let ?plans = "map snd planned" and ?jobs = "concat (map plan_jobs (map snd planned))"
    have ok: "\<forall>plan \<in> set ?plans. plan_ok plan" "distinct (map plan_credential_id ?plans)"
      using plan_batch_plans [OF run assms(2,3)] assms(4) by auto
    have dist: "distinct (map job_identity ?jobs)" by (rule batch_identities_distinct [OF ok])
    obtain results where ex: "execute ?jobs = Inr results" using assms(5) by blast
    have asm: "assemble_reordered_digest_batches ?plans results = Inr (map (oracle_value_digests hash ?jobs) ?plans)"
      by (rule batch_assembled [OF assms(1) ok ex dist])
    have local: "oracle_value_digests hash ?jobs plan = oracle_value_digests hash (plan_jobs plan) plan"
      if "plan \<in> set ?plans" for plan
      using that ok(1) dist by (intro oracle_value_digests_local) auto
    have "zip (map fst planned) (map (oracle_value_digests hash ?jobs) ?plans)
        = map (\<lambda>x. (fst x, oracle_value_digests hash ?jobs (snd x))) planned"
      by (simp add: zip_map_map zip_same_conv_map comp_def)
    also have "\<dots> = map (oracle_item hash) planned"
      using local by (auto simp: oracle_item_def case_prod_beta)
    finally have zip: "zip (map fst planned) (map (oracle_value_digests hash ?jobs) ?plans) = map (oracle_item hash) planned" .
    show ?thesis
      using checked_job_count_total [of 0 ?plans] assms(6) [OF run] ex asm zip
      by (auto simp: prepare_validated_batch_def run Let_def result_simps simp del: map_map)
  qed
  have "prepare_validated_batch I execute vs r = Some (Inr (ps, r')) \<longleftrightarrow>
      (\<exists>planned. plan_batch I vs r = Some (Inr (planned, r')) \<and>
         try_collect (finish_item I) (map (oracle_item hash) planned) = Inr ps)"
  proof
    assume l: "prepare_validated_batch I execute vs r = Some (Inr (ps, r'))"
    then obtain planned r'' where run: "plan_batch I vs r = Some (Inr (planned, r''))"
      by (auto simp: prepare_validated_batch_def run_then_Inr)
    then show "\<exists>planned. plan_batch I vs r = Some (Inr (planned, r')) \<and>
         try_collect (finish_item I) (map (oracle_item hash) planned) = Inr ps"
      using step [OF run] l by blast
  qed (use step in blast)
  then show ?thesis using prepare_each_iff [OF assms(1-3)] out by simp
qed

end

section \<open>Validation\<close>

lemma validate_batch_items_ok:
  "validate_batch_items used batch = Inr vs \<Longrightarrow>
     map vi_credential_id vs = map bi_credential_id batch \<and> distinct (map bi_credential_id batch) \<and>
     bi_credential_id ` set batch \<inter> used = {} \<and>
     (\<forall>v \<in> set vs. validate_namespace_shape (vi_namespaces v) = Inr () \<and>
        validate_authorizations (vi_device_key_info v) = Inr ())"
proof (induction batch arbitrary: used vs)
  case Nil
  then show ?case by simp
next
  case (Cons item batch)
  then obtain v ws where v: "bi_credential_id item \<notin> used"
      "validated_item (bi_credential_id item) (bi_builder item) (bi_signature_algorithm item) = Inr v"
      "validate_authorizations (vi_device_key_info v) = Inr ()"
      "validate_namespace_shape (vi_namespaces v) = Inr ()"
      "validate_batch_items (insert (bi_credential_id item) used) batch = Inr ws" "vs = v # ws"
    by (auto simp: and_then_Inr split: if_splits)
  have "vi_credential_id v = bi_credential_id item"
    using v(2) by (auto simp: validated_item_def and_then_Inr)
  then show ?case using Cons.IH [OF v(5)] v by auto
qed

lemma validate_shape_iff:
  "validate_namespace_shape namespaces = Inr () \<longleftrightarrow>
     namespaces \<noteq> [] \<and> (\<forall>(name, elements) \<in> set namespaces. elements \<noteq> [])"
  by (auto simp: validate_namespace_shape_def list_ex_iff)

lemma validate_authorizations_ok:
  "validate_authorizations info = Inr () \<Longrightarrow> dki_key_authorizations info = Some a \<Longrightarrow>
     KeyAuthorizations_validate a = Inr ()"
  by (simp add: validate_authorizations_def map_err_Inr)

section \<open>Properties\<close>

text \<open>C7. Batch equals sequence: preparing a validated batch with one call of any contract-keeping
  executor that does not fail gives exactly the documents, in the caller's order and under the
  caller's identities, that preparing the items one after the other with the serial oracle gives,
  and consumes the same randomness (for fewer than 2^64 digest jobs in total).\<close>
theorem batch_equals_sequence:
  assumes "digest_executor h execute" "\<forall>jobs. \<exists>results. execute jobs = Inr results"
    and "sha2_lengths h" "rng_ranges (is_rng I)" "\<forall>v \<in> set vs. bt_wf (vi_namespaces v)"
    and "distinct (map vi_credential_id vs)"
    and "\<forall>planned r'. plan_batch I vs r = Some (Inr (planned, r')) \<longrightarrow>
           length (concat (map plan_jobs (map snd planned))) < 2 ^ 64"
  shows "prepare_validated_batch I execute vs r = Some (Inr out) \<longleftrightarrow>
    prepare_each I (SerialDigestExecutor_execute h) vs r = Some (Inr out)"
  using assms(2,7) by (intro digest_executor.batch_eq_sequential [OF assms(1,3,4,5,6)]) auto

definition sample_validated :: "u64 \<Rightarrow> (nat, nat) ValidatedMdocBatchItem" where
  "sample_validated c = \<lparr> vi_credential_id = c, vi_doc_type = ''doc'', vi_namespaces = [(''ns'', [(''age'', 7)])],
     vi_validity_info = 0, vi_digest_algorithm = SHA256, vi_device_key_info = sample_dki,
     vi_signature_algorithm = ES256, vi_enable_decoy_digests = False \<rparr>"

lemma sample_plan_batch_small:
  "\<forall>planned r'. plan_batch sample_issuer [sample_validated 5] 0 = Some (Inr (planned, r')) \<longrightarrow>
     length (concat (map plan_jobs (map snd planned))) < 2 ^ 64"
proof (intro allI impI)
  fix planned :: "((nat, nat) PlannedMdocBatchItem \<times> MdocDigestPlan) list" and r'
  assume run: "plan_batch sample_issuer [sample_validated 5] 0 = Some (Inr (planned, r'))"
  have "\<forall>v \<in> set [sample_validated 5]. bt_wf (vi_namespaces v)"
    by (simp add: sample_validated_def bt_wf_def)
  from plan_batch_plans [OF run _ this] have "\<forall>plan \<in> set (map snd planned). plan_ok plan" "length planned = 1"
    by (auto simp: sample_issuer_def sample_rng_ok)
  then obtain p plan where "planned = [(p, plan)]" "plan_ok plan"
    by (cases planned) auto
  then show "length (concat (map plan_jobs (map snd planned))) < 2 ^ 64"
    by (simp add: plan_ok_def jobs_numbered_def)
qed

theorem batch_equals_sequence_witness:
  "\<forall>out. prepare_validated_batch sample_issuer (\<lambda>jobs. Inr (rev (map (execute_digest_job zero_sha2) jobs)))
       [sample_validated 5] 0 = Some (Inr out) \<longleftrightarrow>
     prepare_each sample_issuer (SerialDigestExecutor_execute zero_sha2) [sample_validated 5] 0 = Some (Inr out)"
  by (intro allI batch_equals_sequence reversed_executor zero_sha2_ok sample_plan_batch_small)
    (simp_all add: sample_issuer_def sample_rng_ok sample_validated_def bt_wf_def)

text \<open>C28. A batch passes validation only with pairwise distinct credential identities, at least one
  namespace and one element per namespace in every item, and consistent key authorizations, and
  validation keeps the items' order and identities.\<close>
theorem batch_validation:
  assumes "validate_mdoc_batch batch = Inr vs"
  shows "map vi_credential_id vs = map bi_credential_id batch \<and> distinct (map vi_credential_id vs) \<and>
    (\<forall>v \<in> set vs. vi_namespaces v \<noteq> [] \<and> (\<forall>(name, elements) \<in> set (vi_namespaces v). elements \<noteq> []) \<and>
       (\<forall>a. dki_key_authorizations (vi_device_key_info v) = Some a \<longrightarrow> KeyAuthorizations_validate a = Inr ()))"
proof -
  have *: "map vi_credential_id vs = map bi_credential_id batch" "distinct (map bi_credential_id batch)"
      "\<forall>v \<in> set vs. validate_namespace_shape (vi_namespaces v) = Inr () \<and>
        validate_authorizations (vi_device_key_info v) = Inr ()"
    using validate_batch_items_ok [OF assms [unfolded validate_mdoc_batch_def]] by auto
  moreover have "vi_namespaces v \<noteq> [] \<and> (\<forall>(name, elements) \<in> set (vi_namespaces v). elements \<noteq> []) \<and>
      (\<forall>a. dki_key_authorizations (vi_device_key_info v) = Some a \<longrightarrow> KeyAuthorizations_validate a = Inr ())"
    if "v \<in> set vs" for v
    using *(3) that validate_shape_iff [of "vi_namespaces v"]
      validate_authorizations_ok [of "vi_device_key_info v"] by blast
  ultimately show ?thesis by simp
qed

definition sample_batch_item :: "u64 \<Rightarrow> (nat, nat) MdocBatchItem" where
  "sample_batch_item c = \<lparr> bi_credential_id = c,
     bi_builder = \<lparr> b_doc_type = Some ''doc'', b_namespaces = Some [(''ns'', [(''age'', 7)])],
       b_validity_info = Some 0, b_digest_algorithm = Some SHA256, b_device_key_info = Some sample_dki,
       b_enable_decoy_digests = Some False \<rparr>, bi_signature_algorithm = ES256 \<rparr>"

lemma sample_batch_valid:
  "validate_mdoc_batch [sample_batch_item 5, sample_batch_item 6] = Inr [sample_validated 5, sample_validated 6]"
  by (simp add: validate_mdoc_batch_def sample_batch_item_def sample_validated_def validated_item_def required_def
      validate_authorizations_def sample_dki_def validate_namespace_shape_def decoy_default_def)

theorem batch_validation_witness:
  "distinct (map vi_credential_id [sample_validated 5, sample_validated 6])"
  using batch_validation [OF sample_batch_valid] by blast

end
