(* ===== verification/Mdoc_Default.thy ===== *)
theory Mdoc_Default
  imports Mdoc_Batch
begin

text \<open>
  The entry points of issuance that choose the executor themselves: \<^verbatim>\<open>Mdoc::prepare\<close>,
  \<^verbatim>\<open>Mdoc::prepare_batch\<close> and \<^verbatim>\<open>Builder::prepare\<close> (\<^verbatim>\<open>src/issuance/mdoc.rs\<close>) run the digest jobs on the
  default executor, which may use the shared pool of native threads. The build, the host and the
  state of the pool are its parameters; what the pool becomes is no part of the result.
\<close>

type_synonym pool_state = "NativeDigestPool option \<times> NativeDigestPool option"

definition default_executor :: "bool \<Rightarrow> digest_host \<Rightarrow> sha2_ops \<Rightarrow> pool_state \<Rightarrow> executor" where
  "default_executor parallel host h pool jobs =
     fst (DefaultDigestExecutor_execute parallel host h (fst pool) (snd pool) jobs)"

definition Mdoc_prepare :: "bool \<Rightarrow> digest_host \<Rightarrow> sha2_ops \<Rightarrow> pool_state \<Rightarrow> ('v, 'vi, 'r) issuer \<Rightarrow> string
    \<Rightarrow> 'v Namespaces \<Rightarrow> 'vi \<Rightarrow> DigestAlgorithm \<Rightarrow> DeviceKeyInfo \<Rightarrow> Algorithm \<Rightarrow> bool \<Rightarrow> 'r
    \<Rightarrow> (mdoc_error + ('v, 'vi) PreparedMdoc \<times> 'r) option" where
  "Mdoc_prepare parallel host h pool I doc_type namespaces validity_info digest_algorithm
     device_key_info sig_alg enable_decoy_digests r =
     prepare_with_digest_executor I (default_executor parallel host h pool) doc_type namespaces
       validity_info digest_algorithm device_key_info sig_alg enable_decoy_digests r"

definition Builder_prepare :: "bool \<Rightarrow> digest_host \<Rightarrow> sha2_ops \<Rightarrow> pool_state \<Rightarrow> ('v, 'vi, 'r) issuer
    \<Rightarrow> ('v, 'vi) Builder \<Rightarrow> Algorithm \<Rightarrow> 'r \<Rightarrow> (mdoc_error + ('v, 'vi) PreparedMdoc \<times> 'r) option" where
  "Builder_prepare parallel host h pool I b sig_alg r =
     Builder_prepare_with_digest_executor I (default_executor parallel host h pool) b sig_alg r"

definition Mdoc_prepare_batch :: "bool \<Rightarrow> digest_host \<Rightarrow> sha2_ops \<Rightarrow> pool_state \<Rightarrow> ('v, 'vi, 'r) issuer
    \<Rightarrow> ('v, 'vi) MdocBatchItem list \<Rightarrow> 'r
    \<Rightarrow> (mdoc_error + (u64 \<times> ('v, 'vi) PreparedMdoc) list \<times> 'r) option" where
  "Mdoc_prepare_batch parallel host h pool I batch r =
     prepare_batch_with_digest_executor I (default_executor parallel host h pool) batch r"

definition PreparedMdoc_signature_payload :: "('v, 'vi) PreparedMdoc \<Rightarrow> bytes" where
  "PreparedMdoc_signature_payload self = ps_signature_payload (pm_prepared_sig self)"

section \<open>Executors that fail or give the serial results\<close>

text \<open>
  Preparation calls its executor once. So with an executor that on every list of jobs either fails
  or gives what the serial oracle gives, the outcome is that failure or the outcome of the oracle.
\<close>

definition fails_or_serial :: "sha2_ops \<Rightarrow> executor \<Rightarrow> bool" where
  "fails_or_serial h execute \<longleftrightarrow>
     (\<forall>jobs. execute jobs = SerialDigestExecutor_execute h jobs \<or> (\<exists>e. execute jobs = Inl e))"

lemma run_then_fails_or:
  assumes "\<And>x. f x = Some (Inl e) \<or> f x = g x"
  shows "run_then m f = Some (Inl e) \<or> run_then m f = run_then m g"
  using assms by (cases m; cases "the m") auto

lemma prepare_fails_or_serial:
  assumes "fails_or_serial h execute"
  shows "prepare_with_digest_executor I execute doc ns vi alg dki sa decoys r = Some (Inl DigestExecutionFailed) \<or>
    prepare_with_digest_executor I execute doc ns vi alg dki sa decoys r
      = prepare_with_digest_executor I (SerialDigestExecutor_execute h) doc ns vi alg dki sa decoys r"
proof -
  have step: "Some (and_then (map_err (\<lambda>_. DigestExecutionFailed) (execute jobs)) f) = Some (Inl DigestExecutionFailed) \<or>
      Some (and_then (map_err (\<lambda>_. DigestExecutionFailed) (execute jobs)) f)
        = Some (and_then (map_err (\<lambda>_. DigestExecutionFailed) (SerialDigestExecutor_execute h jobs)) f)"
    for jobs and f :: "DigestResult list \<Rightarrow> mdoc_error + 'x"
    using assms unfolding fails_or_serial_def by (metis and_then.simps(1) map_err.simps(1))
  show ?thesis
    unfolding prepare_with_digest_executor_def prepare_with_validated_inputs_def
    by (intro run_then_fails_or) (auto intro!: run_then_fails_or step simp: case_prod_unfold)
qed

lemma prepare_batch_fails_or_serial:
  assumes "fails_or_serial h execute"
  shows "prepare_batch_with_digest_executor I execute batch r = Some (Inl DigestExecutionFailed) \<or>
    prepare_batch_with_digest_executor I execute batch r
      = prepare_batch_with_digest_executor I (SerialDigestExecutor_execute h) batch r"
proof -
  have step: "Some (and_then (checked_job_count 0 plans) (\<lambda>_. and_then (map_err (\<lambda>_. DigestExecutionFailed) (execute jobs)) f))
        = Some (Inl DigestExecutionFailed) \<or>
      Some (and_then (checked_job_count 0 plans) (\<lambda>_. and_then (map_err (\<lambda>_. DigestExecutionFailed) (execute jobs)) f))
        = Some (and_then (checked_job_count 0 plans) (\<lambda>_.
            and_then (map_err (\<lambda>_. DigestExecutionFailed) (SerialDigestExecutor_execute h jobs)) f))"
    for jobs plans and f :: "DigestResult list \<Rightarrow> mdoc_error + 'x"
    using assms unfolding fails_or_serial_def
    by (cases "checked_job_count 0 plans") (auto, metis map_err.simps(1) and_then.simps(1))
  show ?thesis
    unfolding prepare_batch_with_digest_executor_def prepare_validated_batch_def Let_def
    by (intro run_then_fails_or) (auto intro!: run_then_fails_or step simp: case_prod_unfold)
qed

lemma default_executor_fails_or_serial:
  assumes "par_chunks_ordered host"
  shows "fails_or_serial h (default_executor parallel host h pool)"
proof -
  have "execute jobs = SerialDigestExecutor_execute h jobs \<or> (\<exists>e. execute jobs = Inl e)"
    if "ordered_digest_executor h execute" for execute jobs
    using ordered_digest_executor.results_in_order [OF that, of jobs]
    by (cases "execute jobs") (auto simp: SerialDigestExecutor_execute_def)
  then show ?thesis
    using default_executor_ordered [OF assms, of h parallel "fst pool" "snd pool"]
    unfolding fails_or_serial_def default_executor_def by blast
qed

lemma default_executor_scalar: "default_executor False host h pool = SerialDigestExecutor_execute h"
  by (simp add: default_executor_def DefaultDigestExecutor_execute_def fun_eq_iff)

section \<open>Properties\<close>

text \<open>C26. The ordinary preparation calls, of one document, of a builder and of a batch, on every host and
  in every state of the shared pool, either report that the digests could not be computed, which
  only a parallel build does, or have exactly the outcome of the scalar oracle: the same documents
  or the same error, and the same randomness used.
\<close>

theorem default_preparation:
  assumes "par_chunks_ordered host"
  shows "(parallel \<and> Mdoc_prepare parallel host h pool I doc ns vi alg dki sa decoys r = Some (Inl DigestExecutionFailed) \<or>
      Mdoc_prepare parallel host h pool I doc ns vi alg dki sa decoys r
        = prepare_with_digest_executor I (SerialDigestExecutor_execute h) doc ns vi alg dki sa decoys r) \<and>
    (parallel \<and> Builder_prepare parallel host h pool I b sa r = Some (Inl DigestExecutionFailed) \<or>
      Builder_prepare parallel host h pool I b sa r
        = Builder_prepare_with_digest_executor I (SerialDigestExecutor_execute h) b sa r) \<and>
    (parallel \<and> Mdoc_prepare_batch parallel host h pool I batch r = Some (Inl DigestExecutionFailed) \<or>
      Mdoc_prepare_batch parallel host h pool I batch r
        = prepare_batch_with_digest_executor I (SerialDigestExecutor_execute h) batch r)"
proof (cases parallel)
  case False
  then show ?thesis
    by (simp add: Mdoc_prepare_def Builder_prepare_def Mdoc_prepare_batch_def default_executor_scalar)
next
  case True
  note * = default_executor_fails_or_serial [OF assms, of h parallel pool]
  have "Builder_prepare parallel host h pool I b sa r = Some (Inl DigestExecutionFailed) \<or>
      Builder_prepare parallel host h pool I b sa r
        = Builder_prepare_with_digest_executor I (SerialDigestExecutor_execute h) b sa r"
    unfolding Builder_prepare_def Builder_prepare_with_digest_executor_def
    by (intro run_then_fails_or prepare_fails_or_serial *)
  with True show ?thesis
    using prepare_fails_or_serial [OF *, of I doc ns vi alg dki sa decoys r]
      prepare_batch_fails_or_serial [OF *, of I batch r]
    by (simp add: Mdoc_prepare_def Mdoc_prepare_batch_def)
qed

theorem default_preparation_witness:
  "Mdoc_prepare False sample_host zero_sha2 (None, None) sample_issuer ''doc'' [(''ns'', [(''age'', 7)])] 0 SHA256
      sample_dki ES256 True 0
     = prepare_with_digest_executor sample_issuer (SerialDigestExecutor_execute zero_sha2)
         ''doc'' [(''ns'', [(''age'', 7)])] 0 SHA256 sample_dki ES256 True 0"
  using default_preparation [OF sample_host_ok, of False zero_sha2 "(None, None)" sample_issuer "''doc''"
      "[(''ns'', [(''age'', 7)])]" 0 SHA256 sample_dki ES256 True 0]
  by simp

end
