(* ===== verification/Nfc_Options.thy ===== *)
theory Nfc_Options
  imports Cbor_Value
begin

text \<open>
  \<^verbatim>\<open>src/definitions/device_engagement/nfc_options.rs\<close> and the error type of
  \<^verbatim>\<open>device_engagement/error.rs\<close>: the two bounded lengths of an NFC engagement, their
  constructors and conversions, and the conversion of \<^verbatim>\<open>NfcOptions\<close> from and to CBOR. The
  constructors enforce both bounds; the CBOR conversions check the lower one only, which for the
  32-bit response length admits values the type's documentation excludes.
\<close>

datatype engagement_error =
    UnsupportedVersion | UnsupportedDRM | Unimplemented | InvalidDeviceEngagement
  | InvalidWifiOptions | InvalidNfcOptions | Malformed | EngagementCoseKeyError
  | EngagementTag24Error | EngagementCborError
  | InvalidNfcCommandDataLengthError | InvalidNfcResponseDataLengthError

section \<open>Integers of bounded width\<close>

text \<open>\<^verbatim>\<open>u16::try_from\<close> and its siblings: an integer fits or it does not.\<close>

definition try_word :: "int \<Rightarrow> 'a::len word option" where
  "try_word n = (if 0 \<le> n \<and> n < 2 ^ LENGTH('a) then Some (word_of_int n) else None)"

lemma try_word_Some: "try_word n = Some (w :: 'a::len word) \<longleftrightarrow> n = uint w"
  by (auto simp: try_word_def uint_word_of_int take_bit_int_eq_self)

section \<open>Lengths\<close>

datatype CommandDataLength = CommandDataLength u16
datatype ResponseDataLength = ResponseDataLength u32

fun CommandDataLength_get :: "CommandDataLength \<Rightarrow> u16" where
  "CommandDataLength_get (CommandDataLength v) = v"

fun ResponseDataLength_get :: "ResponseDataLength \<Rightarrow> u32" where
  "ResponseDataLength_get (ResponseDataLength v) = v"

definition CommandDataLength_MIN :: CommandDataLength where
  "CommandDataLength_MIN = CommandDataLength 255"

definition CommandDataLength_MAX :: CommandDataLength where
  "CommandDataLength_MAX = CommandDataLength 65535"

definition ResponseDataLength_MIN :: ResponseDataLength where
  "ResponseDataLength_MIN = ResponseDataLength 256"

definition ResponseDataLength_MAX :: ResponseDataLength where
  "ResponseDataLength_MAX = ResponseDataLength 65536"

definition CommandDataLength_new :: "u16 \<Rightarrow> CommandDataLength option" where
  "CommandDataLength_new v =
     (if CommandDataLength_get CommandDataLength_MIN \<le> v \<and> v \<le> CommandDataLength_get CommandDataLength_MAX
      then Some (CommandDataLength v) else None)"

definition ResponseDataLength_new :: "u32 \<Rightarrow> ResponseDataLength option" where
  "ResponseDataLength_new v =
     (if ResponseDataLength_get ResponseDataLength_MIN \<le> v \<and> v \<le> ResponseDataLength_get ResponseDataLength_MAX
      then Some (ResponseDataLength v) else None)"

text \<open>The conversions that the macros generate for every integer type.\<close>

definition CommandDataLength_try_from :: "int \<Rightarrow> engagement_error + CommandDataLength" where
  "CommandDataLength_try_from v =
     ok_or (Option.bind (try_word v) CommandDataLength_new) InvalidNfcCommandDataLengthError"

definition ResponseDataLength_try_from :: "int \<Rightarrow> engagement_error + ResponseDataLength" where
  "ResponseDataLength_try_from v =
     ok_or (Option.bind (try_word v) ResponseDataLength_new) InvalidNfcResponseDataLengthError"

text \<open>The hand-written deserializers; the argument is what the integer deserializer returned.\<close>

datatype 'e length_error = IntegerError 'e | MustBeGreaterThan nat

definition CommandDataLength_deserialize :: "'e + u16 \<Rightarrow> 'e length_error + CommandDataLength" where
  "CommandDataLength_deserialize r =
     and_then (map_err IntegerError r) (\<lambda>value.
       if CommandDataLength_get CommandDataLength_MIN \<le> value then Inr (CommandDataLength value)
       else Inl (MustBeGreaterThan (unat (CommandDataLength_get CommandDataLength_MIN))))"

definition ResponseDataLength_deserialize :: "'e + u32 \<Rightarrow> 'e length_error + ResponseDataLength" where
  "ResponseDataLength_deserialize r =
     and_then (map_err IntegerError r) (\<lambda>value.
       if ResponseDataLength_get ResponseDataLength_MIN \<le> value then Inr (ResponseDataLength value)
       else Inl (MustBeGreaterThan (unat (ResponseDataLength_get ResponseDataLength_MIN))))"

definition CommandDataLength_into :: "CommandDataLength \<Rightarrow> Value" where
  "CommandDataLength_into cdl = VInteger (uint (CommandDataLength_get cdl))"

definition ResponseDataLength_into :: "ResponseDataLength \<Rightarrow> Value" where
  "ResponseDataLength_into rdl = VInteger (uint (ResponseDataLength_get rdl))"

section \<open>Options\<close>

record NfcOptions =
  max_len_command_data_field :: CommandDataLength
  max_len_response_data_field :: ResponseDataLength

definition NfcOptions_default :: NfcOptions where
  "NfcOptions_default =
     \<lparr> max_len_command_data_field = CommandDataLength_MIN, max_len_response_data_field = ResponseDataLength_MIN \<rparr>"

text \<open>
  A CBOR map with integer keys becomes a \<^verbatim>\<open>BTreeMap<i128, Value>\<close>; a key of another kind is an
  error, and of two equal keys the later entry stays.
\<close>

fun integer_entry :: "Value \<times> Value \<Rightarrow> engagement_error + int \<times> Value" where
  "integer_entry (VInteger k, v) = Inr (k, v)"
| "integer_entry (_, v) = Inl EngagementCborError"

definition integer_map :: "(Value \<times> Value) list \<Rightarrow> engagement_error + (int, Value) btree_map" where
  "integer_map entries = map_ok bt_of_list (try_collect integer_entry entries)"

fun into_integer :: "Value \<Rightarrow> engagement_error + int" where
  "into_integer (VInteger n) = Inr n"
| "into_integer v = Inl EngagementCborError"

definition nfc_command_length :: "Value \<Rightarrow> engagement_error + CommandDataLength" where
  "nfc_command_length value =
     and_then (into_integer value) (\<lambda>n.
     and_then (ok_or (try_word n) EngagementCborError) (\<lambda>v.
       if v < CommandDataLength_get CommandDataLength_MIN then Inl InvalidNfcCommandDataLengthError
       else Inr (CommandDataLength v)))"

definition nfc_response_length :: "Value \<Rightarrow> engagement_error + ResponseDataLength" where
  "nfc_response_length value =
     and_then (into_integer value) (\<lambda>n.
     and_then (ok_or (try_word n) EngagementCborError) (\<lambda>v.
       if v < ResponseDataLength_get ResponseDataLength_MIN then Inl InvalidNfcResponseDataLengthError
       else Inr (ResponseDataLength v)))"

definition NfcOptions_try_from :: "Value \<Rightarrow> engagement_error + NfcOptions" where
  "NfcOptions_try_from v =
     and_then (case v of VMap entries \<Rightarrow> integer_map entries | _ \<Rightarrow> Inl InvalidNfcOptions) (\<lambda>m.
     and_then (map_ok (\<lambda>len. NfcOptions_default \<lparr> max_len_command_data_field := len \<rparr>)
       (and_then (ok_or (bt_get m 0) InvalidNfcOptions) nfc_command_length)) (\<lambda>nfc_opts.
     map_ok (\<lambda>len. nfc_opts \<lparr> max_len_response_data_field := len \<rparr>)
       (and_then (ok_or (bt_get (bt_remove 0 m) 1) InvalidNfcOptions) nfc_response_length)))"

definition NfcOptions_into :: "NfcOptions \<Rightarrow> Value" where
  "NfcOptions_into opts =
     VMap [(VInteger 0, VInteger (uint (CommandDataLength_get (max_len_command_data_field opts)))),
           (VInteger 1, VInteger (uint (ResponseDataLength_get (max_len_response_data_field opts))))]"

section \<open>What the bounds give\<close>

lemma integer_map_Inr:
  "integer_map entries = Inr m \<longleftrightarrow>
     (\<exists>kvs. entries = map (\<lambda>(k, v). (VInteger k, v)) kvs \<and> m = bt_of_list kvs)"
proof -
  have entry: "integer_entry e = Inr kv \<longleftrightarrow> e = (case kv of (k, v) \<Rightarrow> (VInteger k, v))" for e kv
    by (cases e; cases "fst e"; cases kv) auto
  have "try_collect integer_entry entries = Inr kvs \<longleftrightarrow> entries = map (\<lambda>(k, v). (VInteger k, v)) kvs" for kvs
    unfolding try_collect_Inr entry
    by (induction kvs arbitrary: entries) (auto simp: list_all2_Cons2)
  then show ?thesis by (auto simp: integer_map_def result_simps)
qed

lemma integer_map_of: "integer_map (map (\<lambda>(k, v). (VInteger k, v)) kvs) = Inr (bt_of_list kvs)"
  by (auto simp: integer_map_Inr)

lemma integer_map_wf: "integer_map entries = Inr m \<Longrightarrow> bt_wf m"
  by (auto simp: integer_map_Inr bt_wf_of_list)

lemma integer_map_remove: "integer_map entries = Inr m \<Longrightarrow> j \<noteq> k \<Longrightarrow> bt_get (bt_remove j m) k = bt_get m k"
  by (simp add: bt_get_remove integer_map_wf)

lemma into_integer_Inr [result_simps]: "into_integer v = Inr n \<longleftrightarrow> v = VInteger n"
  by (cases v) auto

lemma CommandDataLength_into_inject [simp]: "CommandDataLength_into a = CommandDataLength_into b \<longleftrightarrow> a = b"
  by (cases a; cases b) (auto simp: CommandDataLength_into_def word_uint_eq_iff)

lemma ResponseDataLength_into_inject [simp]: "ResponseDataLength_into a = ResponseDataLength_into b \<longleftrightarrow> a = b"
  by (cases a; cases b) (auto simp: ResponseDataLength_into_def word_uint_eq_iff)

lemma nfc_command_length_Inr:
  "nfc_command_length value = Inr len \<longleftrightarrow>
     value = CommandDataLength_into len \<and> 255 \<le> CommandDataLength_get len"
  by (cases len)
    (auto simp: nfc_command_length_def result_simps try_word_Some CommandDataLength_into_def
      CommandDataLength_MIN_def not_less split: if_splits)

lemma nfc_response_length_Inr:
  "nfc_response_length value = Inr len \<longleftrightarrow>
     value = ResponseDataLength_into len \<and> 256 \<le> ResponseDataLength_get len"
  by (cases len)
    (auto simp: nfc_response_length_def result_simps try_word_Some ResponseDataLength_into_def
      ResponseDataLength_MIN_def not_less split: if_splits)

lemma NfcOptions_try_from_Inr:
  "NfcOptions_try_from v = Inr opts \<longleftrightarrow>
     (\<exists>entries m. v = VMap entries \<and> integer_map entries = Inr m \<and>
        bt_get m 0 = Some (CommandDataLength_into (max_len_command_data_field opts)) \<and>
        bt_get m 1 = Some (ResponseDataLength_into (max_len_response_data_field opts)) \<and>
        255 \<le> CommandDataLength_get (max_len_command_data_field opts) \<and>
        256 \<le> ResponseDataLength_get (max_len_response_data_field opts))"
  by (cases v; cases opts)
    (auto simp: NfcOptions_try_from_def NfcOptions_default_def result_simps nfc_command_length_Inr
      nfc_response_length_Inr integer_map_remove)

lemma NfcOptions_round_trip:
  assumes "255 \<le> CommandDataLength_get (max_len_command_data_field opts)"
    and "256 \<le> ResponseDataLength_get (max_len_response_data_field opts)"
  shows "NfcOptions_try_from (NfcOptions_into opts) = Inr opts"
proof -
  let ?kvs = "[(0 :: int, CommandDataLength_into (max_len_command_data_field opts)),
       (1, ResponseDataLength_into (max_len_response_data_field opts))]"
  have "NfcOptions_into opts = VMap (map (\<lambda>(k, v). (VInteger k, v)) ?kvs)"
    by (simp add: NfcOptions_into_def CommandDataLength_into_def ResponseDataLength_into_def)
  moreover have "integer_map (map (\<lambda>(k, v). (VInteger k, v)) ?kvs) = Inr (bt_of_list ?kvs)"
    by (rule integer_map_of)
  moreover have "bt_get (bt_of_list ?kvs) 0 = Some (CommandDataLength_into (max_len_command_data_field opts))"
    "bt_get (bt_of_list ?kvs) 1 = Some (ResponseDataLength_into (max_len_response_data_field opts))"
    by (simp_all add: bt_get_of_list)
  ultimately show ?thesis using assms unfolding NfcOptions_try_from_Inr by blast
qed

lemma CommandDataLength_bounds:
  "CommandDataLength_try_from v = Inr len \<longleftrightarrow> 255 \<le> v \<and> v \<le> 65535 \<and> v = uint (CommandDataLength_get len)"
proof (cases len)
  case (CommandDataLength w)
  have "255 \<le> w \<longleftrightarrow> 255 \<le> uint w" "w \<le> 65535 \<longleftrightarrow> uint w \<le> 65535"
    by (simp_all add: word_le_def)
  then show ?thesis
    by (auto simp: CommandDataLength CommandDataLength_try_from_def result_simps bind_eq_Some_conv
      try_word_Some CommandDataLength_new_def CommandDataLength_MIN_def CommandDataLength_MAX_def
      split: if_splits)
qed

lemma ResponseDataLength_bounds:
  "ResponseDataLength_try_from v = Inr len \<longleftrightarrow> 256 \<le> v \<and> v \<le> 65536 \<and> v = uint (ResponseDataLength_get len)"
proof (cases len)
  case (ResponseDataLength w)
  have "256 \<le> w \<longleftrightarrow> 256 \<le> uint w" "w \<le> 65536 \<longleftrightarrow> uint w \<le> 65536"
    by (simp_all add: word_le_def)
  then show ?thesis
    by (auto simp: ResponseDataLength ResponseDataLength_try_from_def result_simps bind_eq_Some_conv
      try_word_Some ResponseDataLength_new_def ResponseDataLength_MIN_def ResponseDataLength_MAX_def
      split: if_splits)
qed

lemma nfc_accepted_entries:
  assumes "NfcOptions_try_from (VMap (map (\<lambda>(k, v). (VInteger k, v)) kvs)) = Inr opts"
  shows "\<exists>c r. map_of (rev kvs) 0 = Some (VInteger c) \<and> 255 \<le> c \<and> c < 2 ^ 16 \<and>
    map_of (rev kvs) 1 = Some (VInteger r) \<and> 256 \<le> r \<and> r < 2 ^ 32"
proof -
  obtain c r where cr: "opts = \<lparr> max_len_command_data_field = CommandDataLength c,
      max_len_response_data_field = ResponseDataLength r \<rparr>"
    by (metis NfcOptions.surjective old.unit.exhaust CommandDataLength.exhaust ResponseDataLength.exhaust)
  from assms have "map_of (rev kvs) 0 = Some (VInteger (uint c))" "map_of (rev kvs) 1 = Some (VInteger (uint r))"
    "255 \<le> c" "256 \<le> r"
    by (simp_all add: NfcOptions_try_from_Inr integer_map_of bt_get_of_list cr
      CommandDataLength_into_def ResponseDataLength_into_def)
  moreover from this have "255 \<le> uint c" "256 \<le> uint r" by (simp_all add: word_le_def)
  moreover have "uint c < 2 ^ 16" "uint r < 2 ^ 32"
    using uint_bounded [of c] uint_bounded [of r] by simp_all
  ultimately show ?thesis by blast
qed

lemma nfc_entries_accepted:
  assumes "map_of (rev kvs) 0 = Some (VInteger c)" "255 \<le> c" "c < 2 ^ 16"
    and "map_of (rev kvs) 1 = Some (VInteger r)" "256 \<le> r" "r < 2 ^ 32"
  shows "NfcOptions_try_from (VMap (map (\<lambda>(k, v). (VInteger k, v)) kvs))
    = Inr \<lparr> max_len_command_data_field = CommandDataLength (word_of_int c),
            max_len_response_data_field = ResponseDataLength (word_of_int r) \<rparr>"
  using assms by (simp add: NfcOptions_try_from_Inr integer_map_of bt_get_of_list word_le_def
    CommandDataLength_into_def ResponseDataLength_into_def uint_word_of_int take_bit_int_eq_self)

text \<open>NFC options are accepted from a CBOR map with integer keys exactly when it carries a
  command length of at least 255 under 0 and a response length of at least 256 under 1, both in the
  width of their type; an entry repeated later in the map wins.\<close>

lemma nfc_options_bounds:
  "(\<exists>opts. NfcOptions_try_from (VMap (map (\<lambda>(k, v). (VInteger k, v)) kvs)) = Inr opts) \<longleftrightarrow>
     (\<exists>c r. map_of (rev kvs) 0 = Some (VInteger c) \<and> 255 \<le> c \<and> c < 2 ^ 16 \<and>
            map_of (rev kvs) 1 = Some (VInteger r) \<and> 256 \<le> r \<and> r < 2 ^ 32)"
  using nfc_accepted_entries nfc_entries_accepted by blast

text \<open>The upper bound that the documentation of the response length gives, and that its
  constructor enforces, is not enforced when options are read from CBOR: 65537 is refused by the
  one and accepted by the other.\<close>

lemma nfc_response_length_unbounded:
  "ResponseDataLength_try_from 65537 = Inl InvalidNfcResponseDataLengthError \<and>
   NfcOptions_try_from (VMap [(VInteger 0, VInteger 255), (VInteger 1, VInteger 65537)])
     = Inr \<lparr> max_len_command_data_field = CommandDataLength 255,
             max_len_response_data_field = ResponseDataLength 65537 \<rparr>"
  by (intro conjI; code_simp)

end
