(* ===== verification/Rust_String.thy ===== *)
theory Rust_String
  imports Prelude
begin

text \<open>
  The part of Rust's \<^verbatim>\<open>str\<close>, \<^verbatim>\<open>char\<close> and \<^verbatim>\<open>std::fmt\<close> the data elements use. A Rust string is its
  UTF-8 bytes, so it is a list of 8-bit characters here and \<^verbatim>\<open>len()\<close> is the length of that
  list; \<^verbatim>\<open>chars()\<close> decodes the scalar values. Case mapping is given for the characters that matter
  when the result is compared with an ASCII string.
\<close>

section \<open>Scalar values and UTF-8\<close>

text \<open>One scalar value as its UTF-8 bytes.\<close>

definition encode_char :: "nat \<Rightarrow> string" where
  "encode_char c =
     (if c < 128 then [char_of c]
      else if c < 2048 then [char_of (192 + c div 64), char_of (128 + c mod 64)]
      else if c < 65536 then
        [char_of (224 + c div 4096), char_of (128 + c div 64 mod 64), char_of (128 + c mod 64)]
      else
        [char_of (240 + c div 262144), char_of (128 + c div 4096 mod 64),
         char_of (128 + c div 64 mod 64), char_of (128 + c mod 64)])"

definition str_of_chars :: "nat list \<Rightarrow> string" where
  "str_of_chars cs = concat (map encode_char cs)"

text \<open>The payload of the continuation byte at an index.\<close>

definition continuation :: "string \<Rightarrow> nat \<Rightarrow> nat" where
  "continuation bs i = (if i < length bs then of_char (bs ! i) mod 64 else 0)"

text \<open>\<^verbatim>\<open>str::chars\<close>: the first byte of each character gives the number of bytes that follow.\<close>

function str_chars :: "string \<Rightarrow> nat list" where
  "str_chars [] = []"
| "str_chars (b # bs) =
     (let x = of_char b in
      if x < 128 then x # str_chars bs
      else if x < 224 then (x mod 32 * 64 + continuation bs 0) # str_chars (drop 1 bs)
      else if x < 240 then
        (x mod 16 * 4096 + continuation bs 0 * 64 + continuation bs 1) # str_chars (drop 2 bs)
      else
        (x mod 8 * 262144 + continuation bs 0 * 4096 + continuation bs 1 * 64 + continuation bs 2)
          # str_chars (drop 3 bs))"
  by pat_completeness auto
termination
  by (relation "measure length") auto

section \<open>Prefixes and case\<close>

definition starts_with :: "string \<Rightarrow> string \<Rightarrow> bool" where
  "starts_with s p \<longleftrightarrow> take (length p) s = p"

definition strip_prefix :: "string \<Rightarrow> string \<Rightarrow> string option" where
  "strip_prefix pre s = (if take (length pre) s = pre then Some (drop (length pre) s) else None)"

definition char_lower :: "char \<Rightarrow> char" where
  "char_lower c = (if 65 \<le> (of_char c :: nat) \<and> of_char c \<le> (90 :: nat) then char_of (of_char c + 32 :: nat) else c)"

definition char_upper :: "char \<Rightarrow> char" where
  "char_upper c = (if 97 \<le> (of_char c :: nat) \<and> of_char c \<le> (122 :: nat) then char_of (of_char c - 32 :: nat) else c)"

text \<open>
  \<^verbatim>\<open>str::to_lowercase\<close>, up to the lower case of the characters outside ASCII: the only such
  character whose lower case is an ASCII string is the Kelvin sign (U+212A, the bytes 226, 132,
  170), which becomes \<open>k\<close>. The sources compare the result with ASCII strings only.
\<close>

fun to_lowercase :: "string \<Rightarrow> string" where
  "to_lowercase [] = []"
| "to_lowercase (c # s) =
     (if of_char c = (226 :: nat) \<and> take 2 s = [char_of (132 :: nat), char_of (170 :: nat)]
      then CHR ''k'' # to_lowercase (drop 2 s)
      else char_lower c # to_lowercase s)"

text \<open>
  \<^verbatim>\<open>str::to_uppercase\<close> in the same way. Characters outside ASCII with an ASCII upper case are the
  dotless i (I), the long s (S), the sharp s (SS) and the Latin ligatures; none of them
  gives a letter of the vehicle category codes, the only strings the result is compared with.
\<close>

definition to_uppercase :: "string \<Rightarrow> string" where
  "to_uppercase s = map char_upper s"

section \<open>Decimal numbers\<close>

fun show_nat :: "nat \<Rightarrow> string" where
  "show_nat n = (if n < 10 then [char_of (48 + n)] else show_nat (n div 10) @ [char_of (48 + n mod 10)])"

declare show_nat.simps [simp del]

definition show_int :: "int \<Rightarrow> string" where
  "show_int i = (if i < 0 then CHR ''-'' # show_nat (nat (- i)) else show_nat (nat i))"

text \<open>The format specification \<^verbatim>\<open>{:0>k}\<close>: right-aligned in \<open>k\<close> columns, filled with zeros.\<close>

definition pad_zero :: "nat \<Rightarrow> string \<Rightarrow> string" where
  "pad_zero k s = replicate (k - length s) (CHR ''0'') @ s"

section \<open>Lemmas\<close>

lemma of_char_char_of [simp]: "n < 256 \<Longrightarrow> of_char (char_of (n :: nat)) = n"
  by simp

lemma encode_char_not_Nil [simp]: "encode_char c \<noteq> []"
  by (simp add: encode_char_def)

lemma cont_mod [simp]: "m < 64 \<Longrightarrow> (128 + m) mod 64 = (m :: nat)"
  using mod_mult_self2 [of m 64 2] by (simp add: add.commute)

lemma continuation_Cons [simp]:
  "continuation (c # s) 0 = of_char c mod 64"
  "continuation (c # s) 1 = continuation s 0"
  "continuation (c # s) (Suc (Suc 0)) = continuation s 1"
  by (simp_all add: continuation_def)

lemma lead_byte:
  "k < 32 \<Longrightarrow> (192 + k) mod 32 = (k :: nat)" "k < 16 \<Longrightarrow> (224 + k) mod 16 = (k :: nat)"
  "k < 8 \<Longrightarrow> (240 + k) mod 8 = (k :: nat)"
  using mod_mult_self2 [of k 32 6] mod_mult_self2 [of k 16 14] mod_mult_self2 [of k 8 30]
  by (simp_all add: add.commute)

lemma base64_digits:
  "c div 4096 * 4096 + c div 64 mod 64 * 64 + c mod 64 = (c :: nat)"
  "c div 262144 * 262144 + c div 4096 mod 64 * 4096 + c div 64 mod 64 * 64 + c mod 64 = c"
proof -
  have "c div 4096 = c div 64 div 64" "c div 262144 = c div 4096 div 64"
    by (simp_all add: div_mult2_eq [symmetric])
  moreover have "c div 64 * 64 + c mod 64 = c" "c div 64 div 64 * 64 + c div 64 mod 64 = c div 64"
    "c div 4096 div 64 * 64 + c div 4096 mod 64 = c div 4096"
    by simp_all
  ultimately show "c div 4096 * 4096 + c div 64 mod 64 * 64 + c mod 64 = c"
    "c div 262144 * 262144 + c div 4096 mod 64 * 4096 + c div 64 mod 64 * 64 + c mod 64 = c"
    by linarith+
qed

text \<open>The four shapes of an encoded character, read back.\<close>

lemma str_chars_1: "x < 128 \<Longrightarrow> str_chars (char_of x # s) = x # str_chars s"
  by simp

lemma str_chars_2:
  "x < 32 \<Longrightarrow> m < 64 \<Longrightarrow>
     str_chars (char_of (192 + x) # char_of (128 + m) # s) = (x * 64 + m) # str_chars s"
  using lead_byte(1) [of x] by (simp add: Let_def del: mod_mod_cancel)

lemma str_chars_3:
  "x < 16 \<Longrightarrow> m < 64 \<Longrightarrow> n < 64 \<Longrightarrow>
     str_chars (char_of (224 + x) # char_of (128 + m) # char_of (128 + n) # s)
       = (x * 4096 + m * 64 + n) # str_chars s"
  using lead_byte(2) [of x] by (simp add: Let_def numeral_2_eq_2 del: One_nat_def)

lemma str_chars_4:
  "x < 8 \<Longrightarrow> l < 64 \<Longrightarrow> m < 64 \<Longrightarrow> n < 64 \<Longrightarrow>
     str_chars (char_of (240 + x) # char_of (128 + l) # char_of (128 + m) # char_of (128 + n) # s)
       = (x * 262144 + l * 4096 + m * 64 + n) # str_chars s"
  using lead_byte(3) [of x] by (simp add: Let_def numeral_2_eq_2 numeral_3_eq_3 del: One_nat_def)

lemma str_chars_encode_char:
  assumes "c < 1114112"
  shows "str_chars (encode_char c @ s) = c # str_chars s"
proof -
  consider "c < 128" | "128 \<le> c" "c < 2048" | "2048 \<le> c" "c < 65536" | "65536 \<le> c"
    by linarith
  then show ?thesis
  proof cases
    case 1
    then show ?thesis by (simp add: encode_char_def)
  next
    case 2
    then have "c div 64 < 32" by auto
    with 2 show ?thesis by (simp add: encode_char_def str_chars_2 del: str_chars.simps)
  next
    case 3
    then have "c div 4096 < 16" by auto
    with 3 show ?thesis
      by (simp add: encode_char_def str_chars_3 base64_digits(1) del: str_chars.simps)
  next
    case 4
    with assms have "c div 262144 < 8" by auto
    with 4 show ?thesis
      by (simp add: encode_char_def str_chars_4 base64_digits(2) del: str_chars.simps)
  qed
qed

lemma str_chars_of_chars: "\<forall>c \<in> set cs. c < 1114112 \<Longrightarrow> str_chars (str_of_chars cs) = cs"
  by (induction cs) (simp_all add: str_of_chars_def str_chars_encode_char)

lemma starts_with_append: "starts_with s p \<longleftrightarrow> (\<exists>t. s = p @ t)"
  by (metis append_eq_conv_conj append_take_drop_id starts_with_def)

lemma strip_prefix_Some [result_simps]: "strip_prefix p s = Some t \<longleftrightarrow> s = p @ t"
  by (metis append_eq_conv_conj append_take_drop_id option.discI option.inject strip_prefix_def)

lemma strip_prefix_append [simp]: "strip_prefix p (p @ t) = Some t"
  by (simp add: strip_prefix_Some)

lemma show_nat_digit [simp]: "n < 10 \<Longrightarrow> show_nat n = [char_of (48 + n)]"
  by (simp add: show_nat.simps)

lemma length_show_nat_mono: "0 < length (show_nat n)"
  by (subst show_nat.simps) simp

text \<open>A number has at most \<open>k\<close> digits exactly when it is below the \<open>k\<close>th power of ten.\<close>

lemma length_show_nat: "0 < k \<Longrightarrow> length (show_nat n) \<le> k \<longleftrightarrow> n < 10 ^ k"
proof (induction n arbitrary: k rule: show_nat.induct)
  case (1 n)
  show ?case
  proof (cases "n < 10")
    case True
    moreover have "(10 :: nat) \<le> 10 ^ k" using 1(2) by (cases k) auto
    ultimately show ?thesis using 1(2) by simp
  next
    case False
    then have len: "length (show_nat n) = Suc (length (show_nat (n div 10)))"
      by (subst show_nat.simps) simp
    show ?thesis
    proof (cases "k = 1")
      case True
      then show ?thesis using False len length_show_nat_mono [of "n div 10"] by simp
    next
      case neq: False
      then obtain j where j: "k = Suc j" "0 < j" using 1(2) by (cases k) auto
      have "length (show_nat (n div 10)) \<le> j \<longleftrightarrow> n div 10 < 10 ^ j"
        using 1(1) False j(2) by simp
      also have "\<dots> \<longleftrightarrow> n < 10 ^ Suc j" by (simp add: div_less_iff_less_mult mult.commute)
      finally show ?thesis using len j(1) by simp
    qed
  qed
qed

lemma pad_zero_length: "length (pad_zero k s) = max k (length s)"
  by (simp add: pad_zero_def)

lemma pad_zero_id: "k \<le> length s \<Longrightarrow> pad_zero k s = s"
  by (simp add: pad_zero_def)

text \<open>The value of a string of decimal digits, left to right, and that it inverts \<open>show_nat\<close>.\<close>

definition digits_value :: "string \<Rightarrow> nat" where
  "digits_value s = foldl (\<lambda>a c. a * 10 + (of_char c - 48)) 0 s"

lemma digits_value_show_nat: "digits_value (show_nat n) = n"
proof (induction n rule: show_nat.induct)
  case (1 n)
  show ?case
  proof (cases "n < 10")
    case True
    then show ?thesis by (simp add: digits_value_def)
  next
    case False
    then have "show_nat n = show_nat (n div 10) @ [char_of (48 + n mod 10)]"
      by (subst show_nat.simps) simp
    with 1 False show ?thesis by (simp add: digits_value_def)
  qed
qed

lemma digits_value_pad_zero: "digits_value (pad_zero k s) = digits_value s"
proof -
  have "foldl (\<lambda>a c. a * 10 + (of_char c - 48)) (0 :: nat) (replicate n (CHR ''0'')) = 0" for n
    by (induction n) (simp_all add: replicate_append_same [symmetric])
  then show ?thesis by (simp add: digits_value_def pad_zero_def)
qed

lemma length_pad_zero_show_nat: "0 < k \<Longrightarrow> n < 10 ^ k \<Longrightarrow> length (pad_zero k (show_nat n)) = k"
  using length_show_nat [of k n] by (simp add: pad_zero_length)

end
