(* ===== verification/Device_Engagement.thy ===== *)
theory Device_Engagement
  imports Nfc_Options Device_Key Rust_String
begin

text \<open>
  \<^verbatim>\<open>src/definitions/device_engagement.rs\<close>: the engagement a device offers to a reader, its
  retrieval methods (NFC, BLE, Wi-Fi) and their conversions from and to CBOR values, and the QR
  code form. The conversions that the source derives with the serialization package (of the
  security pair, of the list of retrieval methods and of the server retrieval methods) are the
  decoders of a record; what is used of them, that they invert the encodings, is the locale
  \<open>derived_decoders\<close>.
\<close>

type_synonym EDeviceKeyBytes = "CoseKey Tag24"
type_synonym EReaderKeyBytes = "CoseKey Tag24"

section \<open>Data\<close>

record PeripheralServerMode =
  psm_uuid :: bytes
  ble_device_address :: "bytes option"

record CentralClientMode =
  ccm_uuid :: bytes

record BleOptions =
  peripheral_server_mode :: "PeripheralServerMode option"
  central_client_mode :: "CentralClientMode option"

record WifiOptions =
  pass_phrase :: "string option"
  channel_info_operating_class :: "u64 option"
  channel_info_channel_number :: "u64 option"
  band_info :: "bytes option"

datatype DeviceRetrievalMethod = WIFI WifiOptions | BLE BleOptions | NFC NfcOptions

type_synonym Security = "u64 \<times> EDeviceKeyBytes"

record ServerRetrievalMethods =
  web_api :: "(u64 \<times> string \<times> string) option"
  oidc :: "(u64 \<times> string \<times> string) option"

record DeviceEngagement =
  de_version :: string
  de_security :: Security
  device_retrieval_methods :: "DeviceRetrievalMethod list option"
  server_retrieval_methods :: "ServerRetrievalMethods option"
  protocol_info :: "Value option"

section \<open>Bluetooth\<close>

text \<open>\<^verbatim>\<open>uuid.try_into::<[u8; 16]>()\<close>.\<close>

definition uuid_bytes :: "bytes \<Rightarrow> engagement_error + bytes" where
  "uuid_bytes b = (if length b = 16 then Inr b else Inl Malformed)"

definition ble_central :: "(int, Value) btree_map \<Rightarrow> engagement_error + CentralClientMode option" where
  "ble_central m =
     (case (bt_get m 1, bt_get (bt_remove 1 m) 11) of
        (Some (VBool True), Some (VBytes uuid)) \<Rightarrow>
          map_ok (\<lambda>b. Some \<lparr> ccm_uuid = b \<rparr>) (uuid_bytes uuid)
      | (Some (VBool False), _) \<Rightarrow> Inr None
      | _ \<Rightarrow> Inl Malformed)"

definition ble_peripheral :: "(int, Value) btree_map \<Rightarrow> engagement_error + PeripheralServerMode option" where
  "ble_peripheral m =
     (case (bt_get m 0, bt_get (bt_remove 0 m) 10) of
        (Some (VBool True), Some (VBytes uuid)) \<Rightarrow>
          and_then (uuid_bytes uuid) (\<lambda>b.
          and_then (case bt_get (bt_remove 10 (bt_remove 0 m)) 20 of
              Some value \<Rightarrow> map_ok Some (map_err (\<lambda>_. Malformed) (ByteStr_try_from value))
            | None \<Rightarrow> Inr None) (\<lambda>address.
          Inr (Some \<lparr> psm_uuid = b, ble_device_address = address \<rparr>)))
      | (Some (VBool False), _) \<Rightarrow> Inr None
      | _ \<Rightarrow> Inl Malformed)"

definition BleOptions_try_from :: "Value \<Rightarrow> engagement_error + BleOptions" where
  "BleOptions_try_from v =
     (case v of
        VMap entries \<Rightarrow>
          and_then (integer_map entries) (\<lambda>m.
          and_then (ble_central m) (\<lambda>central.
          and_then (ble_peripheral (bt_remove 11 (bt_remove 1 m))) (\<lambda>peripheral.
          Inr \<lparr> peripheral_server_mode = peripheral, central_client_mode = central \<rparr>)))
      | _ \<Rightarrow> Inl Malformed)"

fun ble_central_entries :: "CentralClientMode option \<Rightarrow> (Value \<times> Value) list" where
  "ble_central_entries (Some mode) =
     [(VInteger 1, VBool True), (VInteger 11, VBytes (ccm_uuid mode))]"
| "ble_central_entries None = [(VInteger 1, VBool False)]"

fun ble_peripheral_entries :: "PeripheralServerMode option \<Rightarrow> (Value \<times> Value) list" where
  "ble_peripheral_entries (Some mode) =
     [(VInteger 0, VBool True), (VInteger 10, VBytes (psm_uuid mode))]
     @ (case ble_device_address mode of Some address \<Rightarrow> [(VInteger 20, ByteStr_into address)] | None \<Rightarrow> [])"
| "ble_peripheral_entries None = [(VInteger 0, VBool False)]"

definition BleOptions_into :: "BleOptions \<Rightarrow> Value" where
  "BleOptions_into opts =
     VMap (ble_central_entries (central_client_mode opts) @ ble_peripheral_entries (peripheral_server_mode opts))"

section \<open>Wi-Fi\<close>

definition lookup_opt_string :: "(int, Value) btree_map \<Rightarrow> int \<Rightarrow> engagement_error + string option" where
  "lookup_opt_string m idx =
     (case bt_get m idx of
        None \<Rightarrow> Inr None
      | Some (VText text) \<Rightarrow> Inr (Some text)
      | _ \<Rightarrow> Inl InvalidWifiOptions)"

definition lookup_opt_u64 :: "(int, Value) btree_map \<Rightarrow> int \<Rightarrow> engagement_error + u64 option" where
  "lookup_opt_u64 m idx =
     (case bt_get m idx of
        None \<Rightarrow> Inr None
      | Some (VInteger n) \<Rightarrow> map_ok Some (ok_or (try_word n) InvalidWifiOptions)
      | _ \<Rightarrow> Inl InvalidWifiOptions)"

definition lookup_opt_bytestr :: "(int, Value) btree_map \<Rightarrow> int \<Rightarrow> engagement_error + bytes option" where
  "lookup_opt_bytestr m idx =
     (case bt_get m idx of
        None \<Rightarrow> Inr None
      | Some v \<Rightarrow> map_ok Some (map_err (\<lambda>_. InvalidWifiOptions) (ByteStr_try_from v)))"

definition WifiOptions_default :: WifiOptions where
  "WifiOptions_default =
     \<lparr> pass_phrase = None, channel_info_operating_class = None,
       channel_info_channel_number = None, band_info = None \<rparr>"

definition WifiOptions_try_from :: "Value \<Rightarrow> engagement_error + WifiOptions" where
  "WifiOptions_try_from v =
     and_then (case v of VMap entries \<Rightarrow> integer_map entries | _ \<Rightarrow> Inl InvalidWifiOptions) (\<lambda>m.
     and_then (map_ok (\<lambda>x. WifiOptions_default \<lparr> pass_phrase := x \<rparr>) (lookup_opt_string m 0)) (\<lambda>opts.
     and_then (map_ok (\<lambda>x. opts \<lparr> channel_info_operating_class := x \<rparr>) (lookup_opt_u64 m 1)) (\<lambda>opts.
     and_then (map_ok (\<lambda>x. opts \<lparr> channel_info_channel_number := x \<rparr>) (lookup_opt_u64 m 2)) (\<lambda>opts.
     map_ok (\<lambda>x. opts \<lparr> band_info := x \<rparr>) (lookup_opt_bytestr m 3)))))"

text \<open>\<^verbatim>\<open>if let Some(v) = o { map.push((key, v.into())) }\<close>.\<close>

definition push_some :: "Value \<Rightarrow> ('a \<Rightarrow> Value) \<Rightarrow> 'a option \<Rightarrow> (Value \<times> Value) list" where
  "push_some key into field = (case field of Some v \<Rightarrow> [(key, into v)] | None \<Rightarrow> [])"

definition WifiOptions_into :: "WifiOptions \<Rightarrow> Value" where
  "WifiOptions_into opts =
     VMap (push_some (VInteger 0) VText (pass_phrase opts)
       @ push_some (VInteger 1) (VInteger \<circ> uint) (channel_info_operating_class opts)
       @ push_some (VInteger 2) (VInteger \<circ> uint) (channel_info_channel_number opts)
       @ push_some (VInteger 3) ByteStr_into (band_info opts))"

section \<open>Retrieval methods\<close>

definition drm_version :: "DeviceRetrievalMethod \<Rightarrow> u64" where
  "drm_version drm = 1"

fun drm_transport_type :: "DeviceRetrievalMethod \<Rightarrow> u64" where
  "drm_transport_type (NFC opts) = 1"
| "drm_transport_type (BLE opts) = 2"
| "drm_transport_type (WIFI opts) = 3"

fun DeviceRetrievalMethod_try_from :: "Value \<Rightarrow> engagement_error + DeviceRetrievalMethod" where
  "DeviceRetrievalMethod_try_from (VArray [VInteger ty, VInteger version, methods]) =
     (if ty = 1 \<and> version = 1 then map_ok NFC (NfcOptions_try_from methods)
      else if version = 1 \<and> ty = 2 then map_ok BLE (map_err (\<lambda>_. Malformed) (BleOptions_try_from methods))
      else if version = 1 \<and> ty = 3 then map_ok WIFI (map_err (\<lambda>_. Malformed) (WifiOptions_try_from methods))
      else Inl UnsupportedDRM)"
| "DeviceRetrievalMethod_try_from (VArray [VInteger ty, _, _]) = Inl UnsupportedDRM"
| "DeviceRetrievalMethod_try_from _ = Inl Malformed"

definition DeviceRetrievalMethod_into :: "DeviceRetrievalMethod \<Rightarrow> Value" where
  "DeviceRetrievalMethod_into drm =
     VArray [VInteger (uint (drm_transport_type drm)), VInteger (uint (drm_version drm)),
       (case drm of NFC opts \<Rightarrow> NfcOptions_into opts | BLE opts \<Rightarrow> BleOptions_into opts
          | WIFI opts \<Rightarrow> WifiOptions_into opts)]"

fun triple_into :: "u64 \<times> string \<times> string \<Rightarrow> Value" where
  "triple_into (x, y, z) = VArray [VInteger (uint x), VText y, VText z]"

definition ServerRetrievalMethods_into :: "ServerRetrievalMethods \<Rightarrow> Value" where
  "ServerRetrievalMethods_into m =
     VMap (push_some (VText ''webApi'') triple_into (web_api m) @ push_some (VText ''oidc'') triple_into (oidc m))"

section \<open>Engagement\<close>

text \<open>The decoders that the source derives, as \<^verbatim>\<open>cbor::from_value\<close> at three types.\<close>

record decoders =
  security_from_value :: "Value \<Rightarrow> unit + Security"
  methods_from_value :: "Value \<Rightarrow> unit + DeviceRetrievalMethod list"
  server_from_value :: "Value \<Rightarrow> unit + ServerRetrievalMethods"

definition Security_into :: "Security \<Rightarrow> Value" where
  "Security_into s = VArray [VInteger (uint (fst s)), Tag24_into (snd s)]"

definition DeviceEngagement_into :: "DeviceEngagement \<Rightarrow> Value" where
  "DeviceEngagement_into de =
     VMap ([(VInteger 0, VText (de_version de)), (VInteger 1, Security_into (de_security de))]
       @ push_some (VInteger 2) (\<lambda>methods. VArray (map DeviceRetrievalMethod_into methods)) (device_retrieval_methods de)
       @ push_some (VInteger 3) ServerRetrievalMethods_into (server_retrieval_methods de))"

definition DeviceEngagement_from_map :: "decoders \<Rightarrow> (int, Value) btree_map \<Rightarrow> engagement_error + DeviceEngagement" where
  "DeviceEngagement_from_map dec m0 =
     (let m1 = bt_remove 0 m0; m2 = bt_remove 1 m1; m3 = bt_remove 2 m2; m4 = bt_remove 3 m3 in
      and_then (case bt_get m0 0 of
          Some (VText v) \<Rightarrow> if v \<noteq> ''1.0'' then Inl UnsupportedVersion else Inr ()
        | _ \<Rightarrow> Inl Malformed) (\<lambda>_.
      and_then (ok_or (bt_get m1 1) Malformed) (\<lambda>security_value.
      and_then (map_err (\<lambda>_. Malformed) (security_from_value dec security_value)) (\<lambda>security.
      and_then (map_err (\<lambda>_. Malformed) (transpose (map_option (methods_from_value dec) (bt_get m2 2)))) (\<lambda>methods.
      and_then (map_err (\<lambda>_. Malformed) (transpose (map_option (server_from_value dec) (bt_get m3 3)))) (\<lambda>servers.
      Inr \<lparr> de_version = ''1.0'', de_security = security, device_retrieval_methods = methods,
            server_retrieval_methods = servers, protocol_info = bt_get m4 4 \<rparr>))))))"

definition DeviceEngagement_try_from :: "decoders \<Rightarrow> Value \<Rightarrow> engagement_error + DeviceEngagement" where
  "DeviceEngagement_try_from dec v =
     (case v of
        VMap entries \<Rightarrow> and_then (integer_map entries) (DeviceEngagement_from_map dec)
      | _ \<Rightarrow> Inl InvalidDeviceEngagement)"

text \<open>The QR code form; \<open>encode\<close> and \<open>decode\<close> are the URL-safe base64 of the package.\<close>

datatype 'e qr_error = InvalidPrefix | Base64Error | QrTag24Error "'e tag24_error"

definition to_qr_code_uri :: "(bytes \<Rightarrow> string) \<Rightarrow> DeviceEngagement Tag24 \<Rightarrow> string" where
  "to_qr_code_uri encode t = ''mdoc:'' @ encode (tag24_inner_bytes t)"

definition from_qr_code_uri :: "(string \<Rightarrow> bytes option) \<Rightarrow> (bytes \<Rightarrow> 'e + DeviceEngagement) \<Rightarrow> string
    \<Rightarrow> 'e qr_error + DeviceEngagement Tag24" where
  "from_qr_code_uri decode from_slice uri =
     and_then (ok_or (strip_prefix ''mdoc:'' uri) InvalidPrefix) (\<lambda>encoded.
     and_then (ok_or (decode encoded) Base64Error) (\<lambda>decoded.
     map_err QrTag24Error (Tag24_from_bytes from_slice decoded)))"

section \<open>Round trips of the retrieval methods\<close>

definition ble_wf :: "BleOptions \<Rightarrow> bool" where
  "ble_wf opts \<longleftrightarrow>
     (case central_client_mode opts of Some m \<Rightarrow> length (ccm_uuid m) = 16 | None \<Rightarrow> True) \<and>
     (case peripheral_server_mode opts of Some m \<Rightarrow> length (psm_uuid m) = 16 | None \<Rightarrow> True)"

definition nfc_wf :: "NfcOptions \<Rightarrow> bool" where
  "nfc_wf opts \<longleftrightarrow> 255 \<le> CommandDataLength_get (max_len_command_data_field opts) \<and>
     256 \<le> ResponseDataLength_get (max_len_response_data_field opts)"

fun drm_wf :: "DeviceRetrievalMethod \<Rightarrow> bool" where
  "drm_wf (NFC opts) = nfc_wf opts"
| "drm_wf (BLE opts) = ble_wf opts"
| "drm_wf (WIFI opts) = True"

lemma uuid_bytes_Inr [result_simps]: "uuid_bytes b = Inr c \<longleftrightarrow> b = c \<and> length b = 16"
  by (auto simp: uuid_bytes_def)

lemma uuid_bytes_ok: "length b = 16 \<Longrightarrow> uuid_bytes b = Inr b"
  by (simp add: uuid_bytes_def)

lemmas ble_lookups = bt_get_of_list bt_get_remove bt_wf_of_list bt_wf_remove ble_central_def
  ble_peripheral_def uuid_bytes_ok ByteStr_into_def

lemma BleOptions_round_trip:
  assumes "ble_wf opts"
  shows "BleOptions_try_from (BleOptions_into opts) = Inr opts"
proof -
  let ?central = "case central_client_mode opts of Some m \<Rightarrow> [(1 :: int, VBool True), (11, VBytes (ccm_uuid m))]
    | None \<Rightarrow> [(1, VBool False)]"
  let ?peripheral = "case peripheral_server_mode opts of
      Some m \<Rightarrow> [(0 :: int, VBool True), (10, VBytes (psm_uuid m))]
        @ (case ble_device_address m of Some a \<Rightarrow> [(20, VBytes a)] | None \<Rightarrow> [])
    | None \<Rightarrow> [(0, VBool False)]"
  have into: "BleOptions_into opts = VMap (map (\<lambda>(k, v). (VInteger k, v)) (?central @ ?peripheral))"
    by (simp add: BleOptions_into_def ByteStr_into_def split: option.splits)
  have "ble_central (bt_of_list (?central @ ?peripheral)) = Inr (central_client_mode opts)"
    using assms by (auto simp: ble_lookups ble_wf_def split: option.splits)
  moreover have "ble_peripheral (bt_remove 11 (bt_remove 1 (bt_of_list (?central @ ?peripheral))))
      = Inr (peripheral_server_mode opts)"
    using assms by (auto simp: ble_lookups ble_wf_def split: option.splits)
  ultimately show ?thesis
    unfolding into BleOptions_try_from_def by (simp only: Value.case integer_map_of and_then.simps) simp
qed

lemma try_word_uint [simp]: "try_word (uint w) = Some (w :: 'a::len word)"
  by (simp add: try_word_Some)

lemma WifiOptions_round_trip: "WifiOptions_try_from (WifiOptions_into opts) = Inr opts"
proof -
  let ?kvs = "(case pass_phrase opts of Some v \<Rightarrow> [(0 :: int, VText v)] | None \<Rightarrow> [])
    @ (case channel_info_operating_class opts of Some v \<Rightarrow> [(1, VInteger (uint v))] | None \<Rightarrow> [])
    @ (case channel_info_channel_number opts of Some v \<Rightarrow> [(2, VInteger (uint v))] | None \<Rightarrow> [])
    @ (case band_info opts of Some v \<Rightarrow> [(3, VBytes v)] | None \<Rightarrow> [])"
  have into: "WifiOptions_into opts = VMap (map (\<lambda>(k, v). (VInteger k, v)) ?kvs)"
    by (simp add: WifiOptions_into_def push_some_def ByteStr_into_def split: option.splits)
  have "lookup_opt_string (bt_of_list ?kvs) 0 = Inr (pass_phrase opts)"
    "lookup_opt_u64 (bt_of_list ?kvs) 1 = Inr (channel_info_operating_class opts)"
    "lookup_opt_u64 (bt_of_list ?kvs) 2 = Inr (channel_info_channel_number opts)"
    "lookup_opt_bytestr (bt_of_list ?kvs) 3 = Inr (band_info opts)"
    by (auto simp: lookup_opt_string_def lookup_opt_u64_def lookup_opt_bytestr_def bt_get_of_list
      split: option.splits)
  then show ?thesis
    unfolding into WifiOptions_try_from_def
    by (simp only: Value.case integer_map_of and_then.simps map_ok.simps)
      (simp add: WifiOptions_default_def)
qed

lemma drm_round_trip: "drm_wf drm \<Longrightarrow> DeviceRetrievalMethod_try_from (DeviceRetrievalMethod_into drm) = Inr drm"
  by (cases drm) (auto simp: DeviceRetrievalMethod_into_def drm_version_def NfcOptions_round_trip
    BleOptions_round_trip WifiOptions_round_trip nfc_wf_def)

section \<open>The derived decoders\<close>

text \<open>
  What the engagement relies on of the derived decoders: each inverts the encoding of its type. The
  key bytes decode with \<open>from_slice\<close>.
\<close>

locale derived_decoders =
  fixes dec :: decoders
    and from_slice :: "bytes \<Rightarrow> 'e + CoseKey"
  assumes security_inverts:
    "from_slice (tag24_inner_bytes k) = Inr (tag24_inner k) \<Longrightarrow>
       security_from_value dec (Security_into (n, k)) = Inr (n, k)"
    and methods_invert:
    "ms \<noteq> [] \<Longrightarrow> (\<And>m. m \<in> set ms \<Longrightarrow> DeviceRetrievalMethod_try_from (DeviceRetrievalMethod_into m) = Inr m) \<Longrightarrow>
       methods_from_value dec (VArray (map DeviceRetrievalMethod_into ms)) = Inr ms"
    and server_inverts:
    "server_from_value dec (ServerRetrievalMethods_into srv) = Inr srv"
begin

definition engagement_wf :: "DeviceEngagement \<Rightarrow> bool" where
  "engagement_wf de \<longleftrightarrow>
     from_slice (tag24_inner_bytes (snd (de_security de))) = Inr (tag24_inner (snd (de_security de))) \<and>
     (case device_retrieval_methods de of Some ms \<Rightarrow> ms \<noteq> [] \<and> list_all drm_wf ms | None \<Rightarrow> True)"

lemma from_map_round_trip:
  assumes "engagement_wf de"
    and "bt_wf m" "bt_get m 0 = Some (VText (de_version de))" "bt_get m 1 = Some (Security_into (de_security de))"
    and "bt_get m 2 = map_option (\<lambda>ms. VArray (map DeviceRetrievalMethod_into ms)) (device_retrieval_methods de)"
    and "bt_get m 3 = map_option ServerRetrievalMethods_into (server_retrieval_methods de)"
    and "bt_get m 4 = None"
  shows "DeviceEngagement_from_map dec m =
    (if de_version de = ''1.0'' then Inr (de \<lparr> protocol_info := None \<rparr>) else Inl UnsupportedVersion)"
proof -
  have security: "security_from_value dec (Security_into (de_security de)) = Inr (de_security de)"
    using security_inverts [of "snd (de_security de)" "fst (de_security de)"] assms(1)
    by (simp add: engagement_wf_def)
  have methods: "transpose (map_option (methods_from_value dec)
      (map_option (\<lambda>ms. VArray (map DeviceRetrievalMethod_into ms)) (device_retrieval_methods de)))
      = Inr (device_retrieval_methods de)"
    using assms(1) by (auto simp: engagement_wf_def list_all_iff methods_invert drm_round_trip split: option.splits)
  have servers: "transpose (map_option (server_from_value dec)
      (map_option ServerRetrievalMethods_into (server_retrieval_methods de))) = Inr (server_retrieval_methods de)"
    by (cases "server_retrieval_methods de") (simp_all add: server_inverts)
  show ?thesis
    using assms(2-) by (auto simp: DeviceEngagement_from_map_def Let_def bt_get_remove bt_wf_remove
      security methods servers)
qed

lemma round_trip:
  assumes "engagement_wf de"
  shows "DeviceEngagement_try_from dec (DeviceEngagement_into de) =
    (if de_version de = ''1.0'' then Inr (de \<lparr> protocol_info := None \<rparr>) else Inl UnsupportedVersion)"
proof -
  let ?kvs = "[(0 :: int, VText (de_version de)), (1, Security_into (de_security de))]
    @ (case device_retrieval_methods de of Some ms \<Rightarrow> [(2, VArray (map DeviceRetrievalMethod_into ms))] | None \<Rightarrow> [])
    @ (case server_retrieval_methods de of Some srv \<Rightarrow> [(3, ServerRetrievalMethods_into srv)] | None \<Rightarrow> [])"
  have into: "DeviceEngagement_into de = VMap (map (\<lambda>(k, v). (VInteger k, v)) ?kvs)"
    by (simp add: DeviceEngagement_into_def push_some_def split: option.splits)
  have "bt_get (bt_of_list ?kvs) 0 = Some (VText (de_version de))"
    "bt_get (bt_of_list ?kvs) 1 = Some (Security_into (de_security de))"
    "bt_get (bt_of_list ?kvs) 2
       = map_option (\<lambda>ms. VArray (map DeviceRetrievalMethod_into ms)) (device_retrieval_methods de)"
    "bt_get (bt_of_list ?kvs) 3 = map_option ServerRetrievalMethods_into (server_retrieval_methods de)"
    "bt_get (bt_of_list ?kvs) 4 = None"
    by (auto simp: bt_get_of_list split: option.splits)
  from from_map_round_trip [OF assms bt_wf_of_list this] show ?thesis
    unfolding into DeviceEngagement_try_from_def by (simp only: Value.case integer_map_of and_then.simps)
qed

end

text \<open>
  The decoders as the attributes of the types describe them: a tuple is an array of its fields, the
  list of methods is an array converted element by element and then required to be non-empty, and
  the server methods are a map with the two optional text keys.
\<close>

fun security_of_value :: "(bytes \<Rightarrow> 'e + CoseKey) \<Rightarrow> Value \<Rightarrow> unit + Security" where
  "security_of_value from_slice (VArray [VInteger n, key]) =
     and_then (ok_or (try_word n) ()) (\<lambda>w.
     and_then (map_err (\<lambda>_. ()) (Tag24_try_from from_slice key)) (\<lambda>k. Inr (w, k)))"
| "security_of_value from_slice _ = Inl ()"

fun methods_of_value :: "Value \<Rightarrow> unit + DeviceRetrievalMethod list" where
  "methods_of_value (VArray vs) =
     and_then (map_err (\<lambda>_. ()) (try_collect DeviceRetrievalMethod_try_from vs))
       (\<lambda>ms. map_err (\<lambda>_. ()) (NonEmptyVec_try_from ms))"
| "methods_of_value _ = Inl ()"

fun triple_of_value :: "Value \<Rightarrow> unit + u64 \<times> string \<times> string" where
  "triple_of_value (VArray [VInteger n, VText y, VText z]) = map_ok (\<lambda>w. (w, y, z)) (ok_or (try_word n) ())"
| "triple_of_value _ = Inl ()"

fun server_of_value :: "Value \<Rightarrow> unit + ServerRetrievalMethods" where
  "server_of_value (VMap entries) =
     and_then (transpose (map_option triple_of_value (map_of entries (VText ''webApi'')))) (\<lambda>web.
     and_then (transpose (map_option triple_of_value (map_of entries (VText ''oidc'')))) (\<lambda>oid.
     Inr \<lparr> web_api = web, oidc = oid \<rparr>))"
| "server_of_value _ = Inl ()"

definition attribute_decoders :: "(bytes \<Rightarrow> 'e + CoseKey) \<Rightarrow> decoders" where
  "attribute_decoders from_slice =
     \<lparr> security_from_value = security_of_value from_slice, methods_from_value = methods_of_value,
       server_from_value = server_of_value \<rparr>"

lemma triple_round_trip: "triple_of_value (triple_into t) = Inr t"
  by (cases t) simp

lemma transpose_triple: "transpose (map_option triple_of_value (map_option triple_into x)) = Inr x"
  by (cases x) (simp_all add: triple_round_trip)

interpretation attributes: derived_decoders "attribute_decoders from_slice" from_slice
  for from_slice :: "bytes \<Rightarrow> 'e + CoseKey"
proof
  fix k :: "CoseKey Tag24" and n
  assume "from_slice (tag24_inner_bytes k) = Inr (tag24_inner k)"
  then have "Tag24_try_from from_slice (Tag24_into k) = Inr k" by (simp add: Tag24_try_from_Inr)
  then show "security_from_value (attribute_decoders from_slice) (Security_into (n, k)) = Inr (n, k)"
    by (simp add: attribute_decoders_def Security_into_def)
next
  fix ms :: "DeviceRetrievalMethod list"
  assume "ms \<noteq> []" "\<And>m. m \<in> set ms \<Longrightarrow> DeviceRetrievalMethod_try_from (DeviceRetrievalMethod_into m) = Inr m"
  then have "try_collect DeviceRetrievalMethod_try_from (map DeviceRetrievalMethod_into ms) = Inr ms"
    by (simp add: try_collect_Inr list_all2_conv_all_nth)
  with \<open>ms \<noteq> []\<close> show "methods_from_value (attribute_decoders from_slice) (VArray (map DeviceRetrievalMethod_into ms)) = Inr ms"
    by (simp add: attribute_decoders_def NonEmptyVec_try_from_def)
next
  fix srv :: ServerRetrievalMethods
  have "map_of (push_some (VText ''webApi'') triple_into (web_api srv) @ push_some (VText ''oidc'') triple_into (oidc srv))
      (VText ''webApi'') = map_option triple_into (web_api srv)"
    "map_of (push_some (VText ''webApi'') triple_into (web_api srv) @ push_some (VText ''oidc'') triple_into (oidc srv))
      (VText ''oidc'') = map_option triple_into (oidc srv)"
    by (auto simp: push_some_def split: option.splits)
  then show "server_from_value (attribute_decoders from_slice) (ServerRetrievalMethods_into srv) = Inr srv"
    by (simp add: attribute_decoders_def ServerRetrievalMethods_into_def transpose_triple)
qed

section \<open>Properties\<close>

text \<open>C31. A device engagement with a decodable key and well-formed retrieval methods survives the
  round trip through CBOR, less its protocol information, which is never written; an engagement of
  any version but 1.0 is written and then refused. This holds of every family of derived decoders
  that inverts the encodings.\<close>

theorem engagement_round_trip:
  assumes "derived_decoders dec from_slice"
    and "from_slice (tag24_inner_bytes (snd (de_security de))) = Inr (tag24_inner (snd (de_security de)))"
    and "case device_retrieval_methods de of Some ms \<Rightarrow> ms \<noteq> [] \<and> list_all drm_wf ms | None \<Rightarrow> True"
  shows "DeviceEngagement_try_from dec (DeviceEngagement_into de) =
    (if de_version de = ''1.0'' then Inr (de \<lparr> protocol_info := None \<rparr>) else Inl UnsupportedVersion)"
  using derived_decoders.round_trip [OF assms(1)] assms(2,3)
  by (simp add: derived_decoders.engagement_wf_def [OF assms(1)])

definition sample_key :: CoseKey where
  "sample_key = EC2 P256 [1, 2] (EC2Y_SignBit True)"

definition sample_engagement :: DeviceEngagement where
  "sample_engagement =
     \<lparr> de_version = ''1.0'', de_security = (1, \<lparr> tag24_inner = sample_key, tag24_inner_bytes = [7] \<rparr>),
       device_retrieval_methods = Some [NFC NfcOptions_default,
         BLE \<lparr> peripheral_server_mode = Some \<lparr> psm_uuid = replicate 16 5, ble_device_address = Some [9] \<rparr>,
               central_client_mode = None \<rparr>,
         WIFI (WifiOptions_default \<lparr> band_info := Some [1] \<rparr>)],
       server_retrieval_methods = Some \<lparr> web_api = None, oidc = Some (1, ''a'', ''b'') \<rparr>,
       protocol_info = Some VNull \<rparr>"

theorem engagement_round_trip_witness:
  "DeviceEngagement_try_from (attribute_decoders (\<lambda>b. Inr sample_key :: unit + CoseKey)) (DeviceEngagement_into sample_engagement)
     = Inr (sample_engagement \<lparr> protocol_info := None \<rparr>)"
proof -
  let ?from_slice = "\<lambda>b. Inr sample_key :: unit + CoseKey"
  have "derived_decoders (attribute_decoders ?from_slice) ?from_slice"
    by (rule attributes.derived_decoders_axioms)
  from engagement_round_trip [OF this, of sample_engagement] show ?thesis
    by (simp add: sample_engagement_def nfc_wf_def ble_wf_def NfcOptions_default_def
      CommandDataLength_MIN_def ResponseDataLength_MIN_def)
qed

text \<open>What an accepted engagement promises: the map has integer keys, the version under 0 is
  the text 1.0, and the security pair, the retrieval methods and the server methods are what the
  decoders make of the entries under 1, 2 and 3.\<close>

lemma engagement_accepts:
  "DeviceEngagement_try_from dec v = Inr de \<longleftrightarrow>
     (\<exists>entries m. v = VMap entries \<and> integer_map entries = Inr m \<and>
        bt_get m 0 = Some (VText ''1.0'') \<and> de_version de = ''1.0'' \<and>
        (\<exists>s. bt_get m 1 = Some s \<and> security_from_value dec s = Inr (de_security de)) \<and>
        transpose (map_option (methods_from_value dec) (bt_get m 2)) = Inr (device_retrieval_methods de) \<and>
        transpose (map_option (server_from_value dec) (bt_get m 3)) = Inr (server_retrieval_methods de) \<and>
        protocol_info de = bt_get m 4)"
proof -
  have accept: "DeviceEngagement_from_map dec m = Inr de \<longleftrightarrow>
      bt_get m 0 = Some (VText ''1.0'') \<and> de_version de = ''1.0'' \<and>
      (\<exists>s. bt_get m 1 = Some s \<and> security_from_value dec s = Inr (de_security de)) \<and>
      transpose (map_option (methods_from_value dec) (bt_get m 2)) = Inr (device_retrieval_methods de) \<and>
      transpose (map_option (server_from_value dec) (bt_get m 3)) = Inr (server_retrieval_methods de) \<and>
      protocol_info de = bt_get m 4" if wf: "bt_wf m" for m
  proof -
    have version: "(case bt_get m 0 of Some (VText v) \<Rightarrow> if v \<noteq> ''1.0'' then Inl UnsupportedVersion else Inr ()
        | _ \<Rightarrow> Inl Malformed) = Inr u \<longleftrightarrow> bt_get m 0 = Some (VText ''1.0'')" for u
      by (cases "bt_get m 0") (auto split: Value.splits)
    show ?thesis
      using wf by (cases de) (auto simp: DeviceEngagement_from_map_def Let_def bt_get_remove bt_wf_remove
        result_simps version)
  qed
  have "DeviceEngagement_try_from dec v = Inr de \<longleftrightarrow>
      (\<exists>entries m. v = VMap entries \<and> integer_map entries = Inr m \<and> DeviceEngagement_from_map dec m = Inr de)"
    by (cases v) (auto simp: DeviceEngagement_try_from_def result_simps)
  then show ?thesis
    by (simp only:) (intro iff_exI conj_cong refl accept, erule integer_map_wf)
qed

text \<open>The QR code of an engagement reads back as the engagement, with its original bytes; a
  text without the prefix is refused before anything is decoded.\<close>

lemma qr_code_round_trip:
  assumes "\<forall>b. decode (encode b) = Some b"
    and "from_slice (tag24_inner_bytes t) = Inr (tag24_inner t)"
  shows "from_qr_code_uri decode from_slice (to_qr_code_uri encode t) = Inr t \<and>
    (take 5 uri \<noteq> ''mdoc:'' \<longrightarrow> from_qr_code_uri decode from_slice uri = Inl InvalidPrefix)"
  using assms by (cases t)
    (auto simp: from_qr_code_uri_def to_qr_code_uri_def strip_prefix_def Tag24_from_bytes_def eval_nat_numeral)

definition sample_encode :: "bytes \<Rightarrow> string" where
  "sample_encode b = map (\<lambda>w. char_of (unat w)) b"

definition sample_decode :: "string \<Rightarrow> bytes option" where
  "sample_decode s = Some (map (\<lambda>c. of_nat (of_char c)) s)"

lemma sample_decode_encode: "sample_decode (sample_encode b) = Some b"
proof -
  have "of_nat (of_char (char_of (unat w) :: char)) = w" for w :: u8
    using unsigned_less [of w, where ?'a = nat] by simp
  then show ?thesis by (simp add: sample_decode_def sample_encode_def comp_def)
qed

lemma qr_code_round_trip_witness:
  "from_qr_code_uri sample_decode (\<lambda>b. Inr sample_engagement :: unit + DeviceEngagement)
     (to_qr_code_uri sample_encode \<lparr> tag24_inner = sample_engagement, tag24_inner_bytes = [1, 2] \<rparr>)
     = Inr \<lparr> tag24_inner = sample_engagement, tag24_inner_bytes = [1, 2] \<rparr> \<and>
   from_qr_code_uri sample_decode (\<lambda>b. Inr sample_engagement :: unit + DeviceEngagement) ''http:''
     = Inl InvalidPrefix"
proof -
  have "\<forall>b. sample_decode (sample_encode b) = Some b" by (simp add: sample_decode_encode)
  from qr_code_round_trip [OF this, of "\<lambda>b. Inr sample_engagement :: unit + DeviceEngagement"
      "\<lparr> tag24_inner = sample_engagement, tag24_inner_bytes = [1, 2] \<rparr>" "''http:''"]
  show ?thesis by simp
qed

end
