(* ===== verification/Session.thy ===== *)
theory Session
  imports Device_Engagement Session_Crypto
begin

text \<open>
  \<^verbatim>\<open>src/definitions/session.rs\<close>: the session messages and status codes, the shared secret and the
  session keys, and the encrypted channel with its message counter. The authenticated encryption
  of the two backends, the curve arithmetic and the CBOR encoder are parameters. The locale
  \<open>session_channel\<close> is the interface the two ends of a session rely on; both backends provide it.
\<close>

section \<open>Messages\<close>

record SessionEstablishment =
  se_e_reader_key :: EReaderKeyBytes
  se_data :: bytes

datatype Status = SessionEncryptionError | CborDecodingError | SessionTermination

record SessionData =
  sd_data :: "bytes option"
  sd_status :: "Status option"

fun Status_into :: "Status \<Rightarrow> u64" where
  "Status_into SessionEncryptionError = 10"
| "Status_into CborDecodingError = 11"
| "Status_into SessionTermination = 20"

definition Status_try_from :: "u64 \<Rightarrow> u64 + Status" where
  "Status_try_from n =
     (if n = 10 then Inr SessionEncryptionError
      else if n = 11 then Inr CborDecodingError
      else if n = 20 then Inr SessionTermination
      else Inl n)"

datatype Handover = QR | HandoverNFC bytes "bytes option" | OID4VP string string

datatype SessionTranscript180135 =
  SessionTranscript180135 "DeviceEngagement Tag24" "CoseKey Tag24" Handover

section \<open>Keys\<close>

datatype session_error = UnsupportedDHCurve | SharedSecretError | SessionKeyError | EphemeralKeyError

text \<open>
  A fresh secret comes from \<open>generate\<close>; \<open>point_x\<close> and \<open>point_y\<close> are the coordinates of the encoded
  public point, absent for a compressed or identity point.
\<close>

definition create_p256_ephemeral_keys ::
    "'sk \<Rightarrow> ('sk \<Rightarrow> 'p) \<Rightarrow> ('p \<Rightarrow> bytes option) \<Rightarrow> ('p \<Rightarrow> bytes option) \<Rightarrow> session_error + 'sk \<times> CoseKey" where
  "create_p256_ephemeral_keys private_key encoded_point point_x point_y =
     and_then (ok_or (point_x (encoded_point private_key)) EphemeralKeyError) (\<lambda>x.
     and_then (ok_or (point_y (encoded_point private_key)) EphemeralKeyError) (\<lambda>y.
     and_then (map_err (\<lambda>_. EphemeralKeyError) (EC2Curve_try_from 1)) (\<lambda>crv.
     Inr (private_key, EC2 crv x (EC2Y_Value y)))))"

datatype shared_secret_error = PointError cose_key_error | PublicKeyNotConstructed

definition get_shared_secret ::
    "(bytes \<Rightarrow> unit + 'p) \<Rightarrow> ('p \<Rightarrow> 'pk option) \<Rightarrow> ('sk \<Rightarrow> 'pk \<Rightarrow> bytes) \<Rightarrow> CoseKey \<Rightarrow> 'sk
      \<Rightarrow> shared_secret_error + bytes" where
  "get_shared_secret from_bytes from_sec1_point diffie_hellman cose_key e_device_key_priv =
     and_then (map_err PointError (EncodedPoint_try_from from_bytes cose_key)) (\<lambda>point.
     and_then (ok_or (from_sec1_point point) PublicKeyNotConstructed) (\<lambda>public_key.
     Inr (diffie_hellman e_device_key_priv public_key)))"

datatype 'e derive_error = SerializeTranscript 'e | ExpandSessionKey

definition text_bytes :: "string \<Rightarrow> bytes" where
  "text_bytes s = map (\<lambda>c. of_nat (of_char c)) s"

text \<open>\<open>None\<close> is the panic of the streaming hash on an input beyond its length limit.\<close>

definition derive_session_key :: "compress256 \<Rightarrow> ('t Tag24 \<Rightarrow> 'e + bytes) \<Rightarrow> bytes \<Rightarrow> 't Tag24 \<Rightarrow> bool
    \<Rightarrow> ('e derive_error + bytes) option" where
  "derive_session_key cmpr to_vec shared_secret session_transcript reader =
     (case to_vec session_transcript of
        Inl e \<Rightarrow> Some (Inl (SerializeTranscript e))
      | Inr transcript \<Rightarrow>
          Option.bind (SecureSha256_update cmpr transcript SecureSha256_new) (\<lambda>salt_hash.
          Option.bind (SecureSha256_finish cmpr salt_hash) (\<lambda>salt.
          let info = text_bytes (if reader then ''SKReader'' else ''SKDevice'') in
          Option.bind (hkdf_sha256_32_with_scratch cmpr shared_secret salt info (Inr ()))
            (\<lambda>(r, okm, scratch). Some (case r of Inl _ \<Rightarrow> Inl ExpandSessionKey | Inr _ \<Rightarrow> Inr okm)))))"

section \<open>Encryption backends\<close>

text \<open>
  A buffer owns its bytes and the spare capacity behind them; the backend may write to both.
  Dropping it overwrites all of it, and handing its bytes out leaves nothing behind.
\<close>

record SensitiveAeadBuffer =
  aead_bytes :: bytes
  aead_spare :: bytes

definition copied_from :: "bytes \<Rightarrow> SensitiveAeadBuffer" where
  "copied_from b = \<lparr> aead_bytes = b, aead_spare = [] \<rparr>"

definition into_vec :: "SensitiveAeadBuffer \<Rightarrow> bytes \<times> SensitiveAeadBuffer" where
  "into_vec buf = (aead_bytes buf, \<lparr> aead_bytes = [], aead_spare = [] \<rparr>)"

definition drop_buffer :: "SensitiveAeadBuffer \<Rightarrow> bytes" where
  "drop_buffer buf = replicate (length (aead_bytes buf) + length (aead_spare buf)) 0"

text \<open>
  The packages: building a key, sealing and opening in place. Opening returns the length of the
  plaintext at the start of the buffer on the native backend; on WebAssembly it truncates itself.
\<close>

record 'k aead =
  aead_key :: "bytes \<Rightarrow> 'k option"
  seal_in_place :: "'k \<Rightarrow> bytes \<Rightarrow> SensitiveAeadBuffer \<Rightarrow> bool \<times> SensitiveAeadBuffer"
  open_in_place :: "'k \<Rightarrow> bytes \<Rightarrow> SensitiveAeadBuffer \<Rightarrow> nat option \<times> SensitiveAeadBuffer"

text \<open>
  A call returns its result together with what its buffer holds when it is released. \<open>post_copy\<close> is
  the callback of \<^verbatim>\<open>seal_with_post_copy\<close>, which \<^verbatim>\<open>seal\<close> calls with the identity.
\<close>

definition seal_with_post_copy :: "'k aead \<Rightarrow> 'k \<Rightarrow> bytes \<Rightarrow> bytes \<Rightarrow> (bytes \<Rightarrow> bool \<times> bytes)
    \<Rightarrow> (unit + bytes) \<times> bytes" where
  "seal_with_post_copy be key nonce plaintext post_copy =
     (let output = copied_from plaintext;
          (copied, changed) = post_copy (aead_bytes output);
          output = output \<lparr> aead_bytes := changed \<rparr> in
      if \<not> copied then (Inl (), drop_buffer output)
      else
        (let (sealed, output) = seal_in_place be key nonce output in
         if \<not> sealed then (Inl (), drop_buffer output)
         else (let (ciphertext, output) = into_vec output in (Inr ciphertext, drop_buffer output))))"

definition native_seal :: "'k aead \<Rightarrow> 'k \<Rightarrow> bytes \<Rightarrow> bytes \<Rightarrow> (unit + bytes) \<times> bytes" where
  "native_seal be key nonce plaintext = seal_with_post_copy be key nonce plaintext (\<lambda>b. (True, b))"

definition native_open :: "'k aead \<Rightarrow> 'k \<Rightarrow> bytes \<Rightarrow> bytes \<Rightarrow> (unit + bytes) \<times> bytes" where
  "native_open be key nonce ciphertext =
     (let output = copied_from ciphertext;
          (opened, output) = open_in_place be key nonce output in
      case opened of
        None \<Rightarrow> (Inl (), drop_buffer output)
      | Some plaintext_len \<Rightarrow>
          (let output = output \<lparr> aead_bytes := take plaintext_len (aead_bytes output),
                                 aead_spare := drop plaintext_len (aead_bytes output) @ aead_spare output \<rparr>;
               (plaintext, output) = into_vec output in
           (Inr plaintext, drop_buffer output)))"

definition wasm_open :: "'k aead \<Rightarrow> 'k \<Rightarrow> bytes \<Rightarrow> bytes \<Rightarrow> (unit + bytes) \<times> bytes" where
  "wasm_open be key nonce ciphertext =
     (let output = copied_from ciphertext;
          (opened, output) = open_in_place be key nonce output in
      case opened of
        None \<Rightarrow> (Inl (), drop_buffer output)
      | Some _ \<Rightarrow>
          (let (plaintext, output) = into_vec output in (Inr plaintext, drop_buffer output)))"

definition native_encrypt_with_backend :: "'k aead \<Rightarrow> bytes \<Rightarrow> bytes \<Rightarrow> bytes \<Rightarrow> unit + bytes" where
  "native_encrypt_with_backend be session_key nonce plaintext =
     (case aead_key be session_key of
        None \<Rightarrow> Inl ()
      | Some key \<Rightarrow> fst (native_seal be key nonce plaintext))"

definition native_decrypt_with_backend :: "'k aead \<Rightarrow> bytes \<Rightarrow> bytes \<Rightarrow> bytes \<Rightarrow> unit + bytes" where
  "native_decrypt_with_backend be session_key nonce ciphertext =
     (case aead_key be session_key of
        None \<Rightarrow> Inl ()
      | Some key \<Rightarrow> fst (native_open be key nonce ciphertext))"

text \<open>On WebAssembly the key constructor \<open>new_key\<close> takes 32 bytes by type and cannot fail.\<close>

definition wasm_encrypt_with_backend :: "(bytes \<Rightarrow> 'k) \<Rightarrow> 'k aead \<Rightarrow> bytes \<Rightarrow> bytes \<Rightarrow> bytes \<Rightarrow> unit + bytes" where
  "wasm_encrypt_with_backend new_key be session_key nonce plaintext =
     fst (seal_with_post_copy be (new_key session_key) nonce plaintext (\<lambda>b. (True, b)))"

definition wasm_decrypt_with_backend :: "(bytes \<Rightarrow> 'k) \<Rightarrow> 'k aead \<Rightarrow> bytes \<Rightarrow> bytes \<Rightarrow> bytes \<Rightarrow> unit + bytes" where
  "wasm_decrypt_with_backend new_key be session_key nonce ciphertext =
     fst (wasm_open be (new_key session_key) nonce ciphertext)"

section \<open>The channel\<close>

text \<open>
  \<^verbatim>\<open>get_initialization_vector\<close> advances the counter first and fails without touching it at the end
  of its range. The result is paired with the counter after the call.
\<close>

definition get_initialization_vector :: "u32 \<Rightarrow> bool \<Rightarrow> (unit + bytes) \<times> u32" where
  "get_initialization_vector message_count reader =
     (if message_count = - 1 then (Inl (), message_count)
      else
        (let message_count = message_count + 1;
             counter = be_bytes32 message_count;
             identifier = (if reader then [0, 0, 0, 0, 0, 0, 0, 0] else [0, 0, 0, 0, 0, 0, 0, 1]) in
         (Inr (identifier @ counter), message_count)))"

definition encrypt :: "(bytes \<Rightarrow> bytes \<Rightarrow> bytes \<Rightarrow> unit + bytes) \<Rightarrow> bytes \<Rightarrow> bytes \<Rightarrow> u32 \<Rightarrow> bool
    \<Rightarrow> (unit + bytes) \<times> u32" where
  "encrypt encrypt_with_backend session_key plaintext message_count reader =
     (let previous_message_count = message_count;
          (iv, message_count) = get_initialization_vector message_count reader in
      case iv of
        Inl e \<Rightarrow> (Inl e, message_count)
      | Inr initialization_vector \<Rightarrow>
          (case encrypt_with_backend session_key initialization_vector plaintext of
             Inr ciphertext \<Rightarrow> (Inr ciphertext, message_count)
           | Inl error \<Rightarrow> (Inl error, previous_message_count)))"

definition decrypt :: "(bytes \<Rightarrow> bytes \<Rightarrow> bytes \<Rightarrow> unit + bytes) \<Rightarrow> bytes \<Rightarrow> bytes \<Rightarrow> u32 \<Rightarrow> bool
    \<Rightarrow> (unit + bytes) \<times> u32" where
  "decrypt decrypt_with_backend session_key ciphertext message_count reader =
     (let previous_message_count = message_count;
          (iv, message_count) = get_initialization_vector message_count reader in
      case iv of
        Inl e \<Rightarrow> (Inl e, message_count)
      | Inr initialization_vector \<Rightarrow>
          (case decrypt_with_backend session_key initialization_vector ciphertext of
             Inr plaintext \<Rightarrow> (Inr plaintext, message_count)
           | Inl error \<Rightarrow> (Inl error, previous_message_count)))"

definition encrypt_device_data where
  "encrypt_device_data be sk_device plaintext message_count = encrypt be sk_device plaintext message_count False"

definition encrypt_reader_data where
  "encrypt_reader_data be sk_reader plaintext message_count = encrypt be sk_reader plaintext message_count True"

definition decrypt_device_data where
  "decrypt_device_data be sk_device ciphertext message_count = decrypt be sk_device ciphertext message_count False"

definition decrypt_reader_data where
  "decrypt_reader_data be sk_reader ciphertext message_count = decrypt be sk_reader ciphertext message_count True"

section \<open>Initialization vectors\<close>

lemma iv_Inr:
  "get_initialization_vector c reader = (Inr iv, c') \<longleftrightarrow>
     c \<noteq> - 1 \<and> c' = c + 1 \<and>
     iv = (if reader then [0, 0, 0, 0, 0, 0, 0, 0] else [0, 0, 0, 0, 0, 0, 0, 1]) @ be_bytes32 (c + 1)"
  by (auto simp: get_initialization_vector_def Let_def)

lemma iv_Inl: "get_initialization_vector c reader = (Inl e, c') \<longleftrightarrow> c = - 1 \<and> c' = c"
  by (auto simp: get_initialization_vector_def Let_def)

text \<open>A vector names the direction and the counter: neither two directions nor two counters share one.\<close>

lemma iv_unique:
  assumes "get_initialization_vector c1 r1 = (Inr iv, d1)" "get_initialization_vector c2 r2 = (Inr iv, d2)"
  shows "c1 = c2 \<and> r1 = r2"
proof -
  have "be_bytes32 (c1 + 1) = be_bytes32 (c2 + 1)" "r1 = r2"
    using assms by (auto simp: iv_Inr split: if_splits)
  then show ?thesis using be_bytes32_inj by fastforce
qed

lemma iv_distinct:
  assumes "c1 \<noteq> c2" "c1 \<noteq> - 1" "c2 \<noteq> - 1"
  shows "fst (get_initialization_vector c1 r) \<noteq> fst (get_initialization_vector c2 r)"
proof
  assume "fst (get_initialization_vector c1 r) = fst (get_initialization_vector c2 r)"
  then obtain iv where "get_initialization_vector c1 r = (Inr iv, c1 + 1)" "get_initialization_vector c2 r = (Inr iv, c2 + 1)"
    using assms by (auto simp: get_initialization_vector_def Let_def split: if_splits)
  then show False using iv_unique assms(1) by blast
qed

lemma length_iv: "get_initialization_vector c r = (Inr iv, d) \<Longrightarrow> length iv = 12"
  by (auto simp: iv_Inr)

lemma counter_step: "c \<noteq> - 1 \<Longrightarrow> unat (c + 1 :: u32) = unat c + 1"
  by (metis Suc_eq_plus1 add.commute unatSuc add_eq_0_iff)

section \<open>Counters of the two ends\<close>

text \<open>
  A failed call leaves the counter where it was; a successful one advances it by one, without
  wrapping. So the counter is the number of messages that went through.
\<close>

lemma encrypt_counter:
  "encrypt be key m c reader = (r, c') \<Longrightarrow>
     (case r of Inl _ \<Rightarrow> c' = c | Inr _ \<Rightarrow> c \<noteq> - 1 \<and> c' = c + 1)"
  by (auto simp: encrypt_def get_initialization_vector_def Let_def split: if_splits sum.splits)

lemma decrypt_counter:
  "decrypt be key m c reader = (r, c') \<Longrightarrow>
     (case r of Inl _ \<Rightarrow> c' = c | Inr _ \<Rightarrow> c \<noteq> - 1 \<and> c' = c + 1)"
  by (auto simp: decrypt_def get_initialization_vector_def Let_def split: if_splits sum.splits)

lemma encrypt_Inr:
  "encrypt be key m c reader = (Inr ct, c') \<longleftrightarrow>
     (\<exists>iv. get_initialization_vector c reader = (Inr iv, c') \<and> be key iv m = Inr ct)"
  by (auto simp: encrypt_def get_initialization_vector_def Let_def split: if_splits sum.splits)

lemma decrypt_Inr:
  "decrypt be key ct c reader = (Inr m, c') \<longleftrightarrow>
     (\<exists>iv. get_initialization_vector c reader = (Inr iv, c') \<and> be key iv ct = Inr m)"
  by (auto simp: decrypt_def get_initialization_vector_def Let_def split: if_splits sum.splits)

section \<open>A channel\<close>

text \<open>
  One direction of a session: the sender tries its messages in order and keeps what went out, with
  the counter each was sent under; the receiver tries what arrives in order.
\<close>

fun send_all :: "(bytes \<Rightarrow> bytes \<Rightarrow> bytes \<Rightarrow> unit + bytes) \<Rightarrow> bytes \<Rightarrow> bool \<Rightarrow> bytes list \<Rightarrow> u32
    \<Rightarrow> (u32 \<times> bytes \<times> bytes) list \<times> u32" where
  "send_all enc key reader [] c = ([], c)"
| "send_all enc key reader (m # ms) c =
     (case encrypt enc key m c reader of
        (Inl _, c') \<Rightarrow> send_all enc key reader ms c'
      | (Inr ct, c') \<Rightarrow> map_prod ((#) (c, m, ct)) id (send_all enc key reader ms c'))"

fun receive_all :: "(bytes \<Rightarrow> bytes \<Rightarrow> bytes \<Rightarrow> unit + bytes) \<Rightarrow> bytes \<Rightarrow> bool \<Rightarrow> bytes list \<Rightarrow> u32
    \<Rightarrow> bytes list \<times> u32" where
  "receive_all dec key reader [] c = ([], c)"
| "receive_all dec key reader (ct # cts) c =
     (case decrypt dec key ct c reader of
        (Inl _, c') \<Rightarrow> receive_all dec key reader cts c'
      | (Inr m, c') \<Rightarrow> map_prod ((#) m) id (receive_all dec key reader cts c'))"

lemma send_all_counter:
  "send_all enc key reader ms c = (sent, c') \<Longrightarrow>
     unat c' = unat c + length sent \<and> (\<forall>i < length sent. unat (fst (sent ! i)) = unat c + i)"
proof (induction ms arbitrary: c sent c')
  case (Cons m ms)
  obtain r d where r: "encrypt enc key m c reader = (r, d)" by fastforce
  show ?case
  proof (cases r)
    case (Inl e)
    then show ?thesis using Cons.prems Cons.IH [of d] encrypt_counter [OF r] by (simp add: r)
  next
    case (Inr ct)
    with Cons.prems obtain rest where rest: "send_all enc key reader ms d = (rest, c')" "sent = (c, m, ct) # rest"
      by (auto simp: r map_prod_def split: prod.splits)
    have "unat d = unat c + 1" using encrypt_counter [OF r] Inr by (simp add: counter_step)
    then show ?thesis using Cons.IH [OF rest(1)] by (auto simp: rest(2) nth_Cons split: nat.splits)
  qed
qed simp

text \<open>What the ends of a session use of the encryption: opening inverts sealing under the same key and vector.\<close>

locale session_channel =
  fixes enc dec :: "bytes \<Rightarrow> bytes \<Rightarrow> bytes \<Rightarrow> unit + bytes"
  assumes opens: "enc key iv m = Inr ct \<Longrightarrow> dec key iv ct = Inr m"
begin

lemma decrypt_encrypt:
  "encrypt enc key m c reader = (Inr ct, c') \<Longrightarrow> decrypt dec key ct c reader = (Inr m, c')"
  by (auto simp: encrypt_Inr decrypt_Inr dest: opens)

text \<open>Arrivals that no vector opens are rejected without moving the counter, wherever they appear.\<close>

definition opens_somewhere :: "bytes \<Rightarrow> bytes \<Rightarrow> bool" where
  "opens_somewhere key ct \<longleftrightarrow> (\<exists>iv m. dec key iv ct = Inr m)"

lemma decrypt_rejects: "\<not> opens_somewhere key ct \<Longrightarrow> decrypt dec key ct c reader = (Inl (), c)"
proof -
  assume "\<not> opens_somewhere key ct"
  then have "fst (decrypt dec key ct c reader) \<noteq> Inr m" for m
    by (metis decrypt_Inr opens_somewhere_def prod.collapse)
  then show ?thesis using decrypt_counter [of dec key ct c reader]
    by (cases "decrypt dec key ct c reader"; cases "fst (decrypt dec key ct c reader)") auto
qed

lemma receive_filter:
  "receive_all dec key reader arrivals c = receive_all dec key reader (filter (opens_somewhere key) arrivals) c"
proof (induction arrivals arbitrary: c)
  case (Cons ct cts)
  show ?case
  proof (cases "opens_somewhere key ct")
    case True
    then show ?thesis using Cons by (auto split: prod.splits sum.splits)
  next
    case False
    then show ?thesis using Cons by (simp add: decrypt_rejects)
  qed
qed simp

lemma delivers:
  "send_all enc key reader ms c = (sent, c') \<Longrightarrow>
     receive_all dec key reader (map (snd \<circ> snd) sent) c = (map (fst \<circ> snd) sent, c')"
proof (induction ms arbitrary: c sent)
  case (Cons m ms)
  obtain r d where r: "encrypt enc key m c reader = (r, d)" by fastforce
  show ?case
  proof (cases r)
    case (Inl e)
    then show ?thesis using Cons.prems Cons.IH [of d] encrypt_counter [OF r] by (simp add: r)
  next
    case (Inr ct)
    with Cons.prems obtain rest where rest: "send_all enc key reader ms d = (rest, c')" "sent = (c, m, ct) # rest"
      by (auto simp: r map_prod_def split: prod.splits)
    show ?thesis using Cons.IH [OF rest(1)] decrypt_encrypt [OF r [unfolded Inr]] by (simp add: rest(2))
  qed
qed simp

lemma delivers_among_rejected:
  assumes "send_all enc key reader ms c = (sent, c')"
    and "filter (opens_somewhere key) arrivals = map (snd \<circ> snd) sent"
  shows "receive_all dec key reader arrivals c = (map (fst \<circ> snd) sent, c')"
  using delivers [OF assms(1)] by (subst receive_filter) (simp add: assms(2))

end

section \<open>The backends provide the channel\<close>

text \<open>The documented behaviour of the encryption packages: opening a sealed buffer restores the plaintext.\<close>

locale aead_package =
  fixes be :: "'k aead"
  assumes reopens: "seal_in_place be k nonce (copied_from m) = (True, sealed) \<Longrightarrow>
    \<exists>opened. open_in_place be k nonce (copied_from (aead_bytes sealed)) = (Some (length m), opened) \<and>
      take (length m) (aead_bytes opened) = m"

locale truncating_aead_package = aead_package +
  assumes truncates: "open_in_place be k nonce buf = (Some n, opened) \<Longrightarrow> length (aead_bytes opened) = n"

lemma seal_with_identity:
  "fst (seal_with_post_copy be k nonce m (\<lambda>b. (True, b))) = Inr ct \<longleftrightarrow>
     (\<exists>sealed. seal_in_place be k nonce (copied_from m) = (True, sealed) \<and> aead_bytes sealed = ct)"
  by (auto simp: seal_with_post_copy_def copied_from_def into_vec_def Let_def split: prod.splits if_splits)

sublocale aead_package \<subseteq> native: session_channel "native_encrypt_with_backend be" "native_decrypt_with_backend be"
proof
  fix key iv m ct
  assume "native_encrypt_with_backend be key iv m = Inr ct"
  then obtain k sealed where k: "aead_key be key = Some k"
    and "seal_in_place be k iv (copied_from m) = (True, sealed)" "aead_bytes sealed = ct"
    by (auto simp: native_encrypt_with_backend_def native_seal_def seal_with_identity split: option.splits)
  with reopens obtain opened where "open_in_place be k iv (copied_from ct) = (Some (length m), opened)"
    "take (length m) (aead_bytes opened) = m" by blast
  with k show "native_decrypt_with_backend be key iv ct = Inr m"
    by (simp add: native_decrypt_with_backend_def native_open_def into_vec_def Let_def)
qed

sublocale truncating_aead_package \<subseteq> wasm: session_channel
  "wasm_encrypt_with_backend new_key be" "wasm_decrypt_with_backend new_key be"
proof
  fix key iv m ct
  assume "wasm_encrypt_with_backend new_key be key iv m = Inr ct"
  then obtain sealed where "seal_in_place be (new_key key) iv (copied_from m) = (True, sealed)" "aead_bytes sealed = ct"
    by (auto simp: wasm_encrypt_with_backend_def seal_with_identity)
  with reopens obtain opened where "open_in_place be (new_key key) iv (copied_from ct) = (Some (length m), opened)"
    "take (length m) (aead_bytes opened) = m" by blast
  with truncates show "wasm_decrypt_with_backend new_key be key iv ct = Inr m"
    by (auto simp: wasm_decrypt_with_backend_def wasm_open_def into_vec_def Let_def)
qed

context aead_package
begin

lemma native_channel: "session_channel (native_encrypt_with_backend be) (native_decrypt_with_backend be)"
  by (rule native.session_channel_axioms)

end

context truncating_aead_package
begin

lemma wasm_channel: "session_channel (wasm_encrypt_with_backend new_key be) (wasm_decrypt_with_backend new_key be)"
  by (rule wasm.session_channel_axioms)

end

text \<open>An instance of the package contract: messages in the clear, authenticated with a 16-byte HMAC tag.\<close>

definition hmac_tag :: "bytes \<Rightarrow> bytes \<Rightarrow> bytes \<Rightarrow> bytes" where
  "hmac_tag k nonce m = take 16 (hmac_sha256 k (nonce @ m))"

definition hmac_aead :: "bytes aead" where
  "hmac_aead =
     \<lparr> aead_key = (\<lambda>k. if length k = 32 then Some k else None),
       seal_in_place = (\<lambda>k nonce buf.
         (True, buf \<lparr> aead_bytes := aead_bytes buf @ hmac_tag k nonce (aead_bytes buf) \<rparr>)),
       open_in_place = (\<lambda>k nonce buf.
         let n = length (aead_bytes buf) - 16; m = take n (aead_bytes buf) in
         if aead_bytes buf = m @ hmac_tag k nonce m then (Some n, buf \<lparr> aead_bytes := m \<rparr>) else (None, buf)) \<rparr>"

lemma length_hmac_tag: "length (hmac_tag k nonce m) = 16"
  by (simp add: hmac_tag_def length_simps)

interpretation hmac_aead: truncating_aead_package hmac_aead
  by standard (auto simp: hmac_aead_def copied_from_def length_hmac_tag Let_def split: if_splits)

section \<open>Properties\<close>

lemma derive_session_key_spec:
  assumes "compress_standard cmpr" "to_vec t = Inr transcript" "length transcript < 2 ^ 61" "length secret < 2 ^ 61 - 64"
  shows "derive_session_key cmpr to_vec secret t reader = Some (Inr (hkdf_sha256_32 secret (sha256 transcript)
    (text_bytes (if reader then ''SKReader'' else ''SKDevice''))))"
proof -
  have "Option.bind (SecureSha256_update cmpr transcript SecureSha256_new) (SecureSha256_finish cmpr)
      = Some (sha256 transcript)"
    using hash_all_parts [OF assms(1), of "[transcript]"] assms(3) by (auto split: option.splits)
  then obtain s where s: "SecureSha256_update cmpr transcript SecureSha256_new = Some s"
      "SecureSha256_finish cmpr s = Some (sha256 transcript)"
    by (auto simp: bind_eq_Some_conv)
  have "length (sha256 transcript) < 2 ^ 61" "length (text_bytes (if reader then ''SKReader'' else ''SKDevice'')) < 2 ^ 61 - 65"
    by (simp_all add: length_simps text_bytes_def)
  from hkdf_with_scratch_spec [OF assms(1) this(1) assms(4) this(2)]
  show ?thesis by (simp add: derive_session_key_def assms(2) s Let_def)
qed

text \<open>C14. Over one direction of a session, from any counter, the receiver recovers exactly the
  messages whose encryption succeeded, in order, whatever messages the sender failed to encrypt and
  whatever ciphertexts that no vector opens arrive in between, and both ends finish with the same
  counter. This is for the native backend over a package whose opening inverts its sealing.\<close>

theorem native_channel_delivers:
  assumes "aead_package be"
    and "send_all (native_encrypt_with_backend be) key reader ms c = (sent, c')"
    and "filter (\<lambda>ct. \<exists>iv m. native_decrypt_with_backend be key iv ct = Inr m) arrivals = map (snd \<circ> snd) sent"
  shows "receive_all (native_decrypt_with_backend be) key reader arrivals c = (map (fst \<circ> snd) sent, c')"
proof -
  have channel: "session_channel (native_encrypt_with_backend be) (native_decrypt_with_backend be)"
    using assms(1) by (rule aead_package.native_channel)
  have "session_channel.opens_somewhere (native_decrypt_with_backend be) key
      = (\<lambda>ct. \<exists>iv m. native_decrypt_with_backend be key iv ct = Inr m)"
    by (rule ext) (rule session_channel.opens_somewhere_def [OF channel])
  then show ?thesis
    using session_channel.delivers_among_rejected [OF channel assms(2)] assms(3) by simp
qed

text \<open>The key is kept as a constant so that the simplifier does not compute with it.\<close>

definition sample_session_key :: bytes where "sample_session_key = replicate 32 7"

theorem native_channel_delivers_witness:
  "fst (receive_all (native_decrypt_with_backend hmac_aead) sample_session_key True
     [[], [1] @ hmac_tag sample_session_key [0, 0, 0, 0, 0, 0, 0, 0, 0, 0, 0, 1] [1], [5]] 0) = [[1]]"
proof -
  let ?ct = "[1] @ hmac_tag sample_session_key [0, 0, 0, 0, 0, 0, 0, 0, 0, 0, 0, 1] [1]"
  have size: "length sample_session_key = 32" by (simp add: sample_session_key_def)
  then have key: "aead_key hmac_aead sample_session_key = Some sample_session_key"
    by (simp add: hmac_aead_def)
  have enc: "native_encrypt_with_backend hmac_aead sample_session_key iv m
      = Inr (m @ hmac_tag sample_session_key iv m)" for iv m
    by (simp add: native_encrypt_with_backend_def size native_seal_def seal_with_post_copy_def
      hmac_aead_def copied_from_def into_vec_def)
  have "be_bytes32 1 = [0, 0, 0, 1]" by code_simp
  then have sent: "send_all (native_encrypt_with_backend hmac_aead) sample_session_key True [[1]] 0
      = ([(0, [1], ?ct)], 1)"
    by (simp add: encrypt_def get_initialization_vector_def enc)
  have "native_decrypt_with_backend hmac_aead sample_session_key iv ?ct = Inr m" if "iv = [0, 0, 0, 0, 0, 0, 0, 0, 0, 0, 0, 1]" "m = [1]" for iv m
    unfolding that by (rule session_channel.opens [OF hmac_aead.native_channel]) (simp add: enc)
  moreover have "native_decrypt_with_backend hmac_aead sample_session_key iv ct \<noteq> Inr m" if "length ct < 16" for iv ct m
  proof -
    have "ct \<noteq> u @ hmac_tag sample_session_key iv v" for u v
      using that length_hmac_tag [of sample_session_key iv v] by auto
    then show ?thesis
      by (simp add: native_decrypt_with_backend_def key native_open_def hmac_aead_def copied_from_def Let_def)
  qed
  ultimately have "filter (\<lambda>ct. \<exists>iv m. native_decrypt_with_backend hmac_aead sample_session_key iv ct = Inr m)
      [[], ?ct, [5]] = map (snd \<circ> snd) [(0 :: u32, [1 :: u8], ?ct)]" by auto
  from native_channel_delivers [OF hmac_aead.aead_package_axioms sent this] show ?thesis by simp
qed

text \<open>C15. No initialization vector is used twice: over any sequence of encryptions that starts from
  any counter, the vectors of the messages that went out are pairwise distinct, the counter has
  advanced by exactly their number without wrapping, and no vector of the one direction is ever a
  vector of the other.\<close>

theorem initialization_vectors_unique:
  assumes "send_all enc key reader ms c = (sent, c')"
  shows "distinct (map (\<lambda>(d, _). fst (get_initialization_vector d reader)) sent) \<and>
    unat c' = unat c + length sent \<and>
    (\<forall>d e. fst (get_initialization_vector d True) = fst (get_initialization_vector e False) \<longrightarrow>
       fst (get_initialization_vector d True) = Inl ())"
proof (intro conjI allI impI)
  note counters = send_all_counter [OF assms]
  show "unat c' = unat c + length sent" using counters by simp
  show "distinct (map (\<lambda>(d, _). fst (get_initialization_vector d reader)) sent)"
  proof (simp only: distinct_conv_nth length_map, intro allI impI)
    fix i j assume ij: "i < length sent" "j < length sent" "i \<noteq> j"
    let ?iv = "\<lambda>i. get_initialization_vector (fst (sent ! i)) reader"
    have "unat (fst (sent ! i)) \<noteq> unat (fst (sent ! j))" using counters ij by simp
    then have "fst (sent ! i) \<noteq> fst (sent ! j)" by auto
    moreover have "fst (sent ! k) \<noteq> - 1" if "k < length sent" for k
    proof -
      have "unat (fst (sent ! k)) < unat c'" using counters that by auto
      moreover have "unat (- 1 :: u32) = 4294967295" by (simp add: unsigned_minus_1_eq_mask mask_eq_exp_minus_1)
      ultimately show ?thesis using unsigned_less [of c', where ?'a = nat] by auto
    qed
    ultimately show "map (\<lambda>(d, _). fst (get_initialization_vector d reader)) sent ! i
        \<noteq> map (\<lambda>(d, _). fst (get_initialization_vector d reader)) sent ! j"
      using ij by (simp add: case_prod_beta iv_distinct)
  qed
  fix d e :: u32
  assume "fst (get_initialization_vector d True) = fst (get_initialization_vector e False)"
  then show "fst (get_initialization_vector d True) = Inl ()"
    by (auto simp: get_initialization_vector_def Let_def split: if_splits)
qed

theorem initialization_vectors_unique_witness:
  "distinct (map (\<lambda>(d, _). fst (get_initialization_vector d True)) [(0 :: u32, [1 :: u8], [1 :: u8]), (1, [2], [2])])"
proof -
  have "send_all (\<lambda>_ _ m. Inr m) [] True [[1], [2]] 0 = ([(0, [1], [1]), (1, [2], [2])], 2)" by code_simp
  from initialization_vectors_unique [OF this] show ?thesis by blast
qed

text \<open>C30. The channel fails closed: a call that fails, because the counter is at the end of its
  range or because the backend refuses, leaves the counter unchanged, and a call that succeeds
  advances it by one; at the end of the range every call fails.\<close>

theorem channel_fails_closed:
  "snd (encrypt enc key m c reader) = (case fst (encrypt enc key m c reader) of Inl _ \<Rightarrow> c | Inr _ \<Rightarrow> c + 1) \<and>
   snd (decrypt dec key ct c reader) = (case fst (decrypt dec key ct c reader) of Inl _ \<Rightarrow> c | Inr _ \<Rightarrow> c + 1) \<and>
   encrypt enc key m (- 1) reader = (Inl (), - 1) \<and> decrypt dec key ct (- 1) reader = (Inl (), - 1)"
  by (auto simp: encrypt_def decrypt_def get_initialization_vector_def Let_def split: sum.splits)

text \<open>A session key is RFC 5869 HKDF over SHA-256, with the hash of the encoded transcript as
  salt and the role as info, and nothing else; so the two ends, which agree on secret and
  transcript, derive the same pair of keys.\<close>

lemma session_key_derivation:
  assumes "compress_standard cmpr" "to_vec t = Inr transcript" "length transcript < 2 ^ 61" "length secret < 2 ^ 61 - 64"
  shows "derive_session_key cmpr to_vec secret t True
      = Some (Inr (hkdf_sha256_32 secret (sha256 transcript) (text_bytes ''SKReader''))) \<and>
    derive_session_key cmpr to_vec secret t False
      = Some (Inr (hkdf_sha256_32 secret (sha256 transcript) (text_bytes ''SKDevice'')))"
  using derive_session_key_spec [where to_vec = to_vec and t = t and reader = True, OF assms]
    derive_session_key_spec [where to_vec = to_vec and t = t and reader = False, OF assms] by simp

lemma session_key_derivation_witness:
  "derive_session_key sha_compress (\<lambda>t :: nat Tag24. Inr (tag24_inner_bytes t) :: unit + bytes) [1]
     \<lparr> tag24_inner = 0, tag24_inner_bytes = [2] \<rparr> True
     = Some (Inr (hkdf_sha256_32 [1] (sha256 [2]) (text_bytes ''SKReader'')))"
  using session_key_derivation [OF sha_compress_standard,
    of "\<lambda>t. Inr (tag24_inner_bytes t) :: unit + bytes" "\<lparr> tag24_inner = 0 :: nat, tag24_inner_bytes = [2] \<rparr>" "[2]" "[1]"]
  by simp

text \<open>Whatever a backend wrote to its buffer, and whether a call succeeds or fails, the memory
  that the call releases holds only zeros; the bytes handed out are moved, not copied.\<close>

lemma aead_buffers_wiped:
  "set (snd (seal_with_post_copy be k nonce plaintext post_copy)) \<union> set (snd (native_open be k nonce ciphertext))
     \<union> set (snd (wasm_open be k nonce ciphertext)) \<subseteq> {0}"
  by (auto simp: seal_with_post_copy_def native_open_def wasm_open_def into_vec_def drop_buffer_def Let_def
    split: prod.splits option.splits if_splits)

text \<open>A status code is accepted exactly when it is the code of a status.\<close>

lemma status_codes: "Status_try_from n = Inr s \<longleftrightarrow> n = Status_into s"
  by (cases s) (auto simp: Status_try_from_def)

end
