(* ===== verification/Age_Attestation.thy ===== *)
theory Age_Attestation
  imports Device_Engagement Mdoc_Plan
begin

text \<open>
  The choice of an age attestation in \<^verbatim>\<open>src/presentation/device.rs\<close>: \<^verbatim>\<open>nearest_age_attestation\<close>,
  \<^verbatim>\<open>parse_age_from_element_identifier\<close> and \<^verbatim>\<open>AgeOver\<close>, with the standard library's integer parser,
  substring test and selection by key.
\<close>

section \<open>Library functions\<close>

text \<open>\<^verbatim>\<open>str::parse::<u8>\<close>: decimal digits after an optional plus sign, checked against the width.\<close>

definition digit_value :: "char \<Rightarrow> nat option" where
  "digit_value c = (let n = of_char c in if 48 \<le> n \<and> n \<le> (57 :: nat) then Some (n - 48) else None)"

fun parse_digits :: "nat \<Rightarrow> string \<Rightarrow> nat option" where
  "parse_digits acc [] = Some acc"
| "parse_digits acc (c # cs) =
     (case digit_value c of
        None \<Rightarrow> None
      | Some d \<Rightarrow> if acc * 10 + d \<le> 255 then parse_digits (acc * 10 + d) cs else None)"

definition parse_u8 :: "string \<Rightarrow> nat option" where
  "parse_u8 s =
     (case s of
        [] \<Rightarrow> None
      | c # cs \<Rightarrow> if c = CHR ''+'' then (if cs = [] then None else parse_digits 0 cs) else parse_digits 0 s)"

fun str_contains :: "string \<Rightarrow> string \<Rightarrow> bool" where
  "str_contains needle [] = (needle = [])"
| "str_contains needle (c # s) = (take (length needle) (c # s) = needle \<or> str_contains needle s)"

text \<open>\<^verbatim>\<open>min_by_key\<close> returns the first least element and \<^verbatim>\<open>max_by_key\<close> the last greatest one.\<close>

fun min_by_key :: "('a \<Rightarrow> nat) \<Rightarrow> 'a list \<Rightarrow> 'a option" where
  "min_by_key f [] = None"
| "min_by_key f (x # xs) =
     (case min_by_key f xs of None \<Rightarrow> Some x | Some y \<Rightarrow> if f x \<le> f y then Some x else Some y)"

fun max_by_key :: "('a \<Rightarrow> nat) \<Rightarrow> 'a list \<Rightarrow> 'a option" where
  "max_by_key f [] = None"
| "max_by_key f (x # xs) =
     (case max_by_key f xs of None \<Rightarrow> Some x | Some y \<Rightarrow> if f y < f x then Some x else Some y)"

section \<open>Attestations\<close>

datatype age_error = AgeParsingError | AgePrefixError

type_synonym age_claim = "nat \<times> Value IssuerSignedItemBytes"

definition AgeOver_try_from :: "string \<Rightarrow> age_error + nat" where
  "AgeOver_try_from element_identifier =
     (case strip_prefix ''age_over_'' element_identifier of
        Some x \<Rightarrow> ok_or (parse_u8 x) AgeParsingError
      | None \<Rightarrow> Inl AgePrefixError)"

definition parse_age_from_element_identifier :: "string \<Rightarrow> age_error + nat" where
  "parse_age_from_element_identifier element_identifier = AgeOver_try_from element_identifier"

definition numerical_claim :: "string \<times> Value IssuerSignedItemBytes \<Rightarrow> age_error + age_claim" where
  "numerical_claim f = map_ok (\<lambda>age. (age, snd f)) (parse_age_from_element_identifier (fst f))"

definition claims_true :: "age_claim \<Rightarrow> bool" where
  "claims_true x \<longleftrightarrow> item_element_value (tag24_inner (snd x)) = VBool True"

definition choose_claim :: "nat \<Rightarrow> age_claim list \<Rightarrow> Value IssuerSignedItemBytes option" where
  "choose_claim requested_age claims =
     (case min_by_key fst (filter (\<lambda>f. requested_age \<le> fst f) (filter claims_true claims)) of
        Some age_attestation \<Rightarrow> Some (snd age_attestation)
      | None \<Rightarrow>
          (case max_by_key fst (filter (\<lambda>f. fst f \<le> requested_age) (filter (\<lambda>x. \<not> claims_true x) claims)) of
             Some age_attestation \<Rightarrow> Some (snd age_attestation)
           | None \<Rightarrow> None))"

definition nearest_age_attestation :: "string \<Rightarrow> (string, Value IssuerSignedItemBytes) btree_map
    \<Rightarrow> age_error + Value IssuerSignedItemBytes option" where
  "nearest_age_attestation element_identifier issuer_items =
     and_then (parse_age_from_element_identifier element_identifier) (\<lambda>requested_age.
     and_then (try_collect numerical_claim (filter (\<lambda>element. str_contains ''age_over'' (fst element)) issuer_items))
       (\<lambda>claims. Inr (choose_claim requested_age claims)))"

section \<open>What is chosen\<close>

lemma min_by_key_Some:
  "min_by_key f xs = Some x \<Longrightarrow> x \<in> set xs \<and> (\<forall>y \<in> set xs. f x \<le> f y)"
proof (induction xs arbitrary: x)
  case (Cons a xs)
  show ?case
  proof (cases "min_by_key f xs")
    case None
    then have "xs = []" by (cases xs) (auto split: option.splits if_splits)
    with Cons.prems show ?thesis by simp
  next
    case (Some z)
    note z = Cons.IH [OF Some]
    from Cons.prems Some z show ?thesis by (auto split: if_splits intro: order.trans)
  qed
qed simp

lemma max_by_key_Some:
  "max_by_key f xs = Some x \<Longrightarrow> x \<in> set xs \<and> (\<forall>y \<in> set xs. f y \<le> f x)"
proof (induction xs arbitrary: x)
  case (Cons a xs)
  show ?case
  proof (cases "max_by_key f xs")
    case None
    then have "xs = []" by (cases xs) (auto split: option.splits if_splits)
    with Cons.prems show ?thesis by simp
  next
    case (Some z)
    note z = Cons.IH [OF Some]
    from Cons.prems Some z show ?thesis by (auto split: if_splits intro: order.trans)
  qed
qed simp

lemma min_by_key_None [simp]: "min_by_key f xs = None \<longleftrightarrow> xs = []"
  by (cases xs) (auto split: option.splits)

lemma max_by_key_None [simp]: "max_by_key f xs = None \<longleftrightarrow> xs = []"
  by (cases xs) (auto split: option.splits)

lemma parse_digits_le: "parse_digits acc s = Some n \<Longrightarrow> acc \<le> 255 \<Longrightarrow> n \<le> 255"
  by (induction acc s rule: parse_digits.induct) (auto split: option.splits if_splits)

lemma parse_u8_bound: "parse_u8 s = Some n \<Longrightarrow> n \<le> 255"
  by (auto simp: parse_u8_def simp del: parse_digits.simps dest!: parse_digits_le split: list.splits if_splits)

text \<open>
  A claim that answers the question whether the holder is at least \<open>n\<close> years old: the smallest
  true claim at or above, or if there is none the largest other claim at or below.
\<close>

definition answers :: "nat \<Rightarrow> age_claim list \<Rightarrow> age_claim \<Rightarrow> bool" where
  "answers n claims c \<longleftrightarrow> c \<in> set claims \<and>
     (claims_true c \<and> n \<le> fst c \<and> (\<forall>d \<in> set claims. claims_true d \<and> n \<le> fst d \<longrightarrow> fst c \<le> fst d) \<or>
      \<not> claims_true c \<and> fst c \<le> n \<and> (\<forall>d \<in> set claims. \<not> (claims_true d \<and> n \<le> fst d)) \<and>
        (\<forall>d \<in> set claims. \<not> claims_true d \<and> fst d \<le> n \<longrightarrow> fst d \<le> fst c))"

lemma choose_claim_spec:
  "(case choose_claim n claims of
      Some item \<Rightarrow> \<exists>age. answers n claims (age, item)
    | None \<Rightarrow> \<forall>c. \<not> answers n claims c)"
proof (cases "min_by_key fst (filter (\<lambda>f. n \<le> fst f) (filter claims_true claims))")
  case (Some c)
  from min_by_key_Some [OF this] have "answers n claims c"
    unfolding answers_def set_filter mem_Collect_eq by blast
  then show ?thesis using Some by (cases c) (auto simp: choose_claim_def)
next
  case None
  then have none: "\<forall>d \<in> set claims. \<not> (claims_true d \<and> n \<le> fst d)" by (auto simp: filter_empty_conv)
  show ?thesis
  proof (cases "max_by_key fst (filter (\<lambda>f. fst f \<le> n) (filter (\<lambda>x. \<not> claims_true x) claims))")
    case (Some c)
    from max_by_key_Some [OF this] none have "answers n claims c"
      unfolding answers_def set_filter mem_Collect_eq by blast
    then show ?thesis using Some None by (cases c) (auto simp: choose_claim_def)
  next
    case None2: None
    then have "\<not> answers n claims c" for c using none by (auto simp: answers_def filter_empty_conv)
    then show ?thesis using None None2 by (simp add: choose_claim_def)
  qed
qed

text \<open>C32. When the requested identifier and every held identifier that mentions an age parse, the
  attestation returned is the smallest true one at or above the requested age, or else the largest
  false one at or below it, and nothing is returned exactly when neither exists.\<close>

theorem nearest_age_attestation_spec:
  assumes "nearest_age_attestation element issuer_items = Inr r"
  shows "\<exists>n claims. parse_age_from_element_identifier element = Inr n \<and> n \<le> 255 \<and>
    list_all2 (\<lambda>(e, item) (age, item'). item' = item \<and> parse_age_from_element_identifier e = Inr age)
      (filter (\<lambda>element. str_contains ''age_over'' (fst element)) issuer_items) claims \<and>
    (case r of Some item \<Rightarrow> (\<exists>age. answers n claims (age, item)) | None \<Rightarrow> (\<forall>c. \<not> answers n claims c))"
proof -
  obtain n claims where n: "parse_age_from_element_identifier element = Inr n"
    and claims: "try_collect numerical_claim (filter (\<lambda>element. str_contains ''age_over'' (fst element)) issuer_items) = Inr claims"
    and r: "r = choose_claim n claims"
    using assms by (auto simp: nearest_age_attestation_def result_simps)
  have "n \<le> 255"
    using n by (auto simp: parse_age_from_element_identifier_def AgeOver_try_from_def result_simps
      dest: parse_u8_bound split: option.splits)
  moreover have "list_all2 (\<lambda>(e, item) (age, item'). item' = item \<and> parse_age_from_element_identifier e = Inr age)
      (filter (\<lambda>element. str_contains ''age_over'' (fst element)) issuer_items) claims"
    using claims unfolding try_collect_Inr
    by (rule list_all2_mono) (auto simp: numerical_claim_def result_simps)
  moreover have "case r of Some item \<Rightarrow> (\<exists>age. answers n claims (age, item)) | None \<Rightarrow> (\<forall>c. \<not> answers n claims c)"
    using choose_claim_spec [where n = n and claims = claims] by (simp add: r)
  ultimately show ?thesis using n by blast
qed

definition sample_age_item :: "string \<Rightarrow> bool \<Rightarrow> Value IssuerSignedItemBytes" where
  "sample_age_item e b = \<lparr> tag24_inner = \<lparr> item_digest_id = 1, item_random = [], item_element_identifier = e,
     item_element_value = VBool b \<rparr>, tag24_inner_bytes = [] \<rparr>"

definition sample_age_items :: "(string, Value IssuerSignedItemBytes) btree_map" where
  "sample_age_items = [(''age_over_18'', sample_age_item ''age_over_18'' True),
     (''age_over_21'', sample_age_item ''age_over_21'' False), (''age_over_22'', sample_age_item ''age_over_22'' False)]"

theorem nearest_age_attestation_spec_witness:
  "nearest_age_attestation ''age_over_23'' sample_age_items = Inr (Some (sample_age_item ''age_over_22'' False)) \<and>
   (\<exists>n claims. parse_age_from_element_identifier ''age_over_23'' = Inr n \<and>
      (\<exists>age. answers n claims (age, sample_age_item ''age_over_22'' False)))"
proof -
  have run: "nearest_age_attestation ''age_over_23'' sample_age_items = Inr (Some (sample_age_item ''age_over_22'' False))"
    by code_simp
  from nearest_age_attestation_spec [OF this] run show ?thesis by auto
qed

end
