(* ===== verification/Device_Response.thy ===== *)
theory Device_Response
  imports Mdoc Session
begin

text \<open>
  The messages of a presentation: \<^verbatim>\<open>src/definitions/device_request.rs\<close>, \<^verbatim>\<open>device_response.rs\<close>,
  \<^verbatim>\<open>device_signed.rs\<close> and \<^verbatim>\<open>issuer_signed.rs\<close>, with the conversions these files write by hand: the
  response status, the document error code, and the reading of optional issuer namespaces.
\<close>

section \<open>Requests\<close>

record ItemsRequest =
  ir_doc_type :: string
  ir_namespaces :: "(string, (string, bool) btree_map) btree_map"
  ir_request_info :: "(string, Value) btree_map option"

record DocRequest =
  dq_items_request :: "ItemsRequest Tag24"
  dq_reader_auth :: "CoseSign1 MaybeTagged option"

record UseCase =
  uc_mandatory :: bool
  uc_document_sets :: "u64 list list"
  uc_purpose_hints :: "(string, int) btree_map option"

record DeviceRequestInfo =
  dri_use_cases :: "UseCase list"

record DeviceRequest =
  dreq_version :: string
  dreq_doc_requests :: "DocRequest list"
  dreq_reader_auth_all :: "CoseSign1 MaybeTagged list option"
  dreq_device_request_info :: "DeviceRequestInfo Tag24 option"

definition DeviceRequest_VERSION :: string where "DeviceRequest_VERSION = ''1.0''"

section \<open>Signed structures\<close>

record IssuerSigned =
  isg_namespaces :: "Value IssuerNamespaces option"
  isg_issuer_auth :: "CoseSign1 MaybeTagged"

text \<open>An absent map and an empty one mean the same; a namespace with no item is refused.\<close>

datatype 'e namespaces_error = NamespacesDecode 'e | NamespacesEmpty non_empty_error

definition non_empty_entry :: "string \<times> 'i list \<Rightarrow> 'e namespaces_error + string \<times> 'i list" where
  "non_empty_entry = (\<lambda>(name, items).
     map_err NamespacesEmpty (map_ok (\<lambda>items. (name, items)) (NonEmptyVec_try_from items)))"

definition deserialize_optional_issuer_namespaces ::
    "'e + (string, 'i list) btree_map option \<Rightarrow> 'e namespaces_error + (string, 'i list) btree_map option" where
  "deserialize_optional_issuer_namespaces decoded =
     and_then (map_err NamespacesDecode decoded) (\<lambda>r.
       case r of
         None \<Rightarrow> Inr None
       | Some namespaces \<Rightarrow>
           if namespaces = [] then Inr None
           else
             and_then (map_ok bt_of_list (try_collect non_empty_entry namespaces))
               (\<lambda>namespaces. map_err NamespacesEmpty (map_ok Some (NonEmptyMap_try_from namespaces))))"

type_synonym DeviceNamespaces = "(string, (string, Value) btree_map) btree_map"

datatype DeviceAuth = DeviceSignature "CoseSign1 MaybeTagged" | DeviceMac "CoseMac0 MaybeTagged"

datatype DeviceAuthType = Sign1 | Mac0

record DeviceSigned =
  ds_namespaces :: "DeviceNamespaces Tag24"
  ds_device_auth :: DeviceAuth

datatype 't DeviceAuthentication = DeviceAuthentication string 't string "DeviceNamespaces Tag24"

definition DeviceAuthentication_new :: "'t \<Rightarrow> string \<Rightarrow> DeviceNamespaces Tag24 \<Rightarrow> 't DeviceAuthentication" where
  "DeviceAuthentication_new transcript doc_type namespaces_bytes =
     DeviceAuthentication ''DeviceAuthentication'' transcript doc_type namespaces_bytes"

section \<open>Responses\<close>

datatype DocumentErrorCode = DataNotReturned | ApplicationSpecific int

fun DocumentErrorCode_into :: "DocumentErrorCode \<Rightarrow> int" where
  "DocumentErrorCode_into DataNotReturned = 0"
| "DocumentErrorCode_into (ApplicationSpecific i) = i"

definition DocumentErrorCode_try_from :: "int \<Rightarrow> int + DocumentErrorCode" where
  "DocumentErrorCode_try_from n =
     (if n = 0 then Inr DataNotReturned else if n < 0 then Inr (ApplicationSpecific n) else Inl n)"

datatype response_status = StatusOK | StatusGeneralError | StatusCborDecodingError | StatusCborValidationError

fun response_status_into :: "response_status \<Rightarrow> u64" where
  "response_status_into StatusOK = 0"
| "response_status_into StatusGeneralError = 10"
| "response_status_into StatusCborDecodingError = 11"
| "response_status_into StatusCborValidationError = 12"

definition response_status_try_from :: "u64 \<Rightarrow> u64 + response_status" where
  "response_status_try_from n =
     (if n = 0 then Inr StatusOK else if n = 10 then Inr StatusGeneralError
      else if n = 11 then Inr StatusCborDecodingError else if n = 12 then Inr StatusCborValidationError
      else Inl n)"

type_synonym document_errors = "(string, DocumentErrorCode) btree_map"
type_synonym namespace_errors = "(string, (string, DocumentErrorCode) btree_map) btree_map"

record ResponseDocument =
  rd_doc_type :: string
  rd_issuer_signed :: IssuerSigned
  rd_device_signed :: DeviceSigned
  rd_errors :: "namespace_errors option"

record DeviceResponse =
  dr_version :: string
  dr_documents :: "ResponseDocument list option"
  dr_document_errors :: "document_errors list option"
  dr_status :: response_status

definition DeviceResponse_VERSION :: string where "DeviceResponse_VERSION = ''1.0''"

section \<open>Conversions\<close>

lemma response_status_codes: "response_status_try_from n = Inr s \<longleftrightarrow> n = response_status_into s"
  by (cases s) (auto simp: response_status_try_from_def)

text \<open>
  Reading back an error code: an application code must be negative, so a positive one that was
  written is refused and the code 0 reads back as the reserved one.
\<close>

lemma document_error_codes:
  "DocumentErrorCode_try_from (DocumentErrorCode_into c) = Inr c \<longleftrightarrow>
     (case c of ApplicationSpecific i \<Rightarrow> i < 0 | DataNotReturned \<Rightarrow> True)"
  by (cases c) (auto simp: DocumentErrorCode_try_from_def)

lemma non_empty_entry_Inr [result_simps]: "non_empty_entry e = Inr e' \<longleftrightarrow> e' = e \<and> snd e \<noteq> []"
  by (cases e; cases e') (auto simp: non_empty_entry_def result_simps)

lemma collect_non_empty: "try_collect non_empty_entry m = Inr m' \<longleftrightarrow> m' = m \<and> (\<forall>e \<in> set m. snd e \<noteq> [])"
  by (induction m arbitrary: m') (auto simp: result_simps)

lemma optional_namespaces_Inr:
  assumes "case decoded of Inr (Some m) \<Rightarrow> bt_wf m | _ \<Rightarrow> True"
  shows "deserialize_optional_issuer_namespaces decoded = Inr r \<longleftrightarrow>
    (decoded = Inr r \<and> (case r of Some m \<Rightarrow> m \<noteq> [] \<and> (\<forall>e \<in> set m. snd e \<noteq> []) | None \<Rightarrow> True))
    \<or> decoded = Inr (Some []) \<and> r = None"
proof (cases decoded)
  case (Inr opt)
  show ?thesis
  proof (cases opt)
    case (Some m)
    have "bt_of_list m = m" using assms Inr Some by (simp add: bt_of_list_wf)
    then show ?thesis
      by (cases r) (auto simp: deserialize_optional_issuer_namespaces_def Inr Some result_simps collect_non_empty)
  qed (auto simp: deserialize_optional_issuer_namespaces_def Inr)
qed (simp add: deserialize_optional_issuer_namespaces_def)

end
