(* ===== verification/Disclosure.thy ===== *)
theory Disclosure
  imports Device_Response
begin

text \<open>
  What a device returns, from \<^verbatim>\<open>src/presentation/device.rs\<close>: the documents it holds, the filter that
  keeps of the permitted elements the requested ones, the preparation of a response
  (\<^verbatim>\<open>DeviceSession::prepare_response\<close>) and the choice of an age attestation. The encoder and the COSE
  structures are parameters.
\<close>

section \<open>Documents\<close>

type_synonym uuid = bytes
type_synonym item_bytes = "Value IssuerSignedItemBytes"

record 'vi Document =
  doc_id :: uuid
  doc_issuer_auth :: "CoseSign1 MaybeTagged"
  doc_mso :: "'vi Mso"
  doc_namespaces :: "(string, (string, item_bytes) btree_map) btree_map"

type_synonym 'vi Documents = "(string, 'vi Document) btree_map"
type_synonym PermittedItems = "(string, (string, string list) btree_map) btree_map"

datatype PreparedCose = PreparedSign1 PreparedCoseSign1 | PreparedMac0 PreparedCoseMac0

record PreparedDocument =
  pdoc_id :: uuid
  pdoc_doc_type :: string
  pdoc_issuer_signed :: IssuerSigned
  pdoc_device_namespaces :: "DeviceNamespaces Tag24"
  pdoc_prepared_cose :: PreparedCose
  pdoc_errors :: "namespace_errors option"

record PreparedDeviceResponse =
  prepared_documents :: "PreparedDocument list"
  signed_documents :: "ResponseDocument list"
  pdr_document_errors :: "document_errors list option"
  pdr_status :: response_status

text \<open>\<^verbatim>\<open>From<Mdoc> for Document\<close>; the identifier is fresh and given by the caller of the model.\<close>

definition extract_items :: "item_bytes list \<Rightarrow> (string, item_bytes) btree_map" where
  "extract_items v = bt_of_list (map (\<lambda>i. (item_element_identifier (tag24_inner i), i)) v)"

definition Document_from_mdoc :: "uuid \<Rightarrow> (Value, 'vi) Mdoc \<Rightarrow> 'vi Document" where
  "Document_from_mdoc ident mdoc =
     \<lparr> doc_id = ident, doc_issuer_auth = md_issuer_auth mdoc, doc_mso = md_mso mdoc,
       doc_namespaces = bt_of_list (map (\<lambda>(ns, v). (ns, extract_items v)) (md_namespaces mdoc)) \<rparr>"

section \<open>Permitted and requested\<close>

definition filter_namespaces :: "ItemsRequest \<Rightarrow> (string, string list) btree_map \<Rightarrow> (string, string list) btree_map" where
  "filter_namespaces item namespaces =
     bt_of_list (List.map_filter (\<lambda>(ns, elems).
       map_option (\<lambda>e. (ns, e))
         (map_option (\<lambda>req_elems. filter (\<lambda>elem. bt_contains_key req_elems elem) elems)
           (bt_get (ir_namespaces item) ns))) namespaces)"

definition filter_permitted :: "ItemsRequest list \<Rightarrow> PermittedItems \<Rightarrow> PermittedItems" where
  "filter_permitted request permitted =
     bt_of_list (List.map_filter (\<lambda>(doc_type, namespaces).
       map_option (\<lambda>ns. (doc_type, ns))
         (map_option (\<lambda>item. filter_namespaces item namespaces)
           (find (\<lambda>item. ir_doc_type item = doc_type) request))) permitted)"

section \<open>Preparing a response\<close>

type_synonym collected = "(string, item_bytes list) btree_map \<times> namespace_errors"

definition return_item :: "string \<Rightarrow> item_bytes \<Rightarrow> collected \<Rightarrow> collected" where
  "return_item namespace item = (\<lambda>(issuer_namespaces, errors).
     (case bt_get issuer_namespaces namespace of
        Some returned_items \<Rightarrow> bt_insert namespace (NonEmptyVec_push returned_items item) issuer_namespaces
      | None \<Rightarrow> bt_insert namespace (NonEmptyVec_new item) issuer_namespaces, errors))"

definition return_error :: "string \<Rightarrow> string \<Rightarrow> collected \<Rightarrow> collected" where
  "return_error namespace element_identifier = (\<lambda>(issuer_namespaces, errors).
     (issuer_namespaces,
      case bt_get errors namespace of
        Some returned_errors \<Rightarrow>
          bt_insert namespace (snd (NonEmptyMap_insert returned_errors element_identifier DataNotReturned)) errors
      | None \<Rightarrow> bt_insert namespace (NonEmptyMap_new element_identifier DataNotReturned) errors))"

fun collect_elements :: "(string, item_bytes) btree_map option \<Rightarrow> string \<Rightarrow> string list \<Rightarrow> collected \<Rightarrow> collected" where
  "collect_elements issuer_items namespace [] acc = acc"
| "collect_elements issuer_items namespace (element_identifier # elements) acc =
     collect_elements issuer_items namespace elements
       (case issuer_items of
          Some items \<Rightarrow>
            (case bt_get items element_identifier of
               Some item \<Rightarrow> return_item namespace item acc
             | None \<Rightarrow> return_error namespace element_identifier acc)
        | None \<Rightarrow> return_error namespace element_identifier acc)"

fun collect_namespaces :: "(string, (string, item_bytes) btree_map) btree_map \<Rightarrow> (string, string list) btree_map
    \<Rightarrow> collected \<Rightarrow> collected" where
  "collect_namespaces doc_nss [] acc = acc"
| "collect_namespaces doc_nss ((namespace, elements) # namespaces) acc =
     collect_namespaces doc_nss namespaces
       (collect_elements (bt_get doc_nss namespace) namespace elements acc)"

text \<open>The encoder at the types the device serialises, and the two COSE structures.\<close>

record 't device_codec =
  dc_encode_namespaces :: "DeviceNamespaces \<Rightarrow> unit + bytes"
  dc_encode_authentication :: "'t DeviceAuthentication \<Rightarrow> unit + bytes"
  dc_encode_value :: "Value \<Rightarrow> unit + bytes"
  dc_sig_structure :: structure_data
  dc_mac_structure :: structure_data

definition algorithm_header :: "Algorithm \<Rightarrow> Header" where
  "algorithm_header alg = empty_header \<lparr> header_alg := Some (Assigned alg) \<rparr>"

definition prepare_cose :: "'t device_codec \<Rightarrow> DeviceAuthType \<Rightarrow> Algorithm \<Rightarrow> bytes \<Rightarrow> unit + PreparedCose" where
  "prepare_cose codec auth_type alg device_auth_bytes =
     (case auth_type of
        Sign1 \<Rightarrow>
          map_err (\<lambda>_. ()) (map_ok PreparedSign1 (PreparedCoseSign1_new (dc_sig_structure codec)
            \<lparr> s1_protected = algorithm_header alg, s1_unprotected = empty_header, s1_payload = None, s1_signature = [] \<rparr>
            (Some device_auth_bytes) None False))
      | Mac0 \<Rightarrow>
          map_err (\<lambda>_. ()) (map_ok PreparedMac0 (PreparedCoseMac0_new (dc_mac_structure codec)
            \<lparr> m0_protected = algorithm_header alg, m0_unprotected = empty_header, m0_payload = None, m0_tag = [] \<rparr>
            (Some device_auth_bytes) None False)))"

text \<open>The bytes a device authenticates: the embedded encoding of transcript, document type and device namespaces.\<close>

definition device_authentication_bytes :: "'t device_codec \<Rightarrow> 't \<Rightarrow> string \<Rightarrow> DeviceNamespaces Tag24 \<Rightarrow> unit + bytes" where
  "device_authentication_bytes codec transcript doc_type device_namespaces =
     and_then (map_err (\<lambda>_. ()) (Tag24_new (dc_encode_authentication codec)
        (DeviceAuthentication_new transcript doc_type device_namespaces))) (\<lambda>device_auth.
     dc_encode_value codec (Tag24_into device_auth))"

text \<open>\<open>Inl\<close> stands for each of the branches that report the document type as not returned.\<close>

definition prepare_document :: "'t device_codec \<Rightarrow> 't \<Rightarrow> DeviceAuthType \<Rightarrow> 'vi Document \<Rightarrow> string
    \<Rightarrow> (string, string list) btree_map \<Rightarrow> unit + PreparedDocument" where
  "prepare_document codec transcript auth_type document doc_type namespaces =
     and_then (ok_or (signature_algorithm (dki_device_key (mso_device_key_info (doc_mso document)))) ()) (\<lambda>alg.
     let (issuer_namespaces, errors) = collect_namespaces (doc_namespaces document) namespaces ([], []) in
     and_then (map_err (\<lambda>_. ()) (Tag24_new (dc_encode_namespaces codec) [])) (\<lambda>device_namespaces.
     and_then (device_authentication_bytes codec transcript doc_type device_namespaces) (\<lambda>device_auth_bytes.
     and_then (prepare_cose codec auth_type alg device_auth_bytes) (\<lambda>prepared_cose.
     Inr \<lparr> pdoc_id = doc_id document, pdoc_doc_type = doc_type,
           pdoc_issuer_signed =
             \<lparr> isg_namespaces = result_ok (NonEmptyMap_try_from issuer_namespaces),
               isg_issuer_auth = doc_issuer_auth document \<rparr>,
           pdoc_device_namespaces = device_namespaces, pdoc_prepared_cose = prepared_cose,
           pdoc_errors = result_ok (NonEmptyMap_try_from errors) \<rparr>))))"

fun prepare_documents :: "'t device_codec \<Rightarrow> 't \<Rightarrow> DeviceAuthType \<Rightarrow> 'vi Documents
    \<Rightarrow> (string \<times> (string, string list) btree_map) list \<Rightarrow> PreparedDocument list \<times> document_errors list" where
  "prepare_documents codec transcript auth_type documents [] = ([], [])"
| "prepare_documents codec transcript auth_type documents ((doc_type, namespaces) # rest) =
     (let (prepared, errors) = prepare_documents codec transcript auth_type documents rest;
          failed = (prepared, bt_of_list [(doc_type, DataNotReturned)] # errors) in
      case bt_get documents doc_type of
        None \<Rightarrow> failed
      | Some document \<Rightarrow>
          (case prepare_document codec transcript auth_type document doc_type namespaces of
             Inl _ \<Rightarrow> failed
           | Inr pd \<Rightarrow> (pd # prepared, errors)))"

definition prepare_response :: "'t device_codec \<Rightarrow> 't \<Rightarrow> DeviceAuthType \<Rightarrow> 'vi Documents \<Rightarrow> ItemsRequest list
    \<Rightarrow> PermittedItems \<Rightarrow> PreparedDeviceResponse" where
  "prepare_response codec transcript auth_type documents requests permitted =
     (let (prepared, errors) =
        prepare_documents codec transcript auth_type documents (filter_permitted requests permitted) in
      \<lparr> prepared_documents = prepared, signed_documents = [],
        pdr_document_errors = result_ok (NonEmptyVec_try_from errors), pdr_status = StatusOK \<rparr>)"

section \<open>The filter\<close>

lemma map_of_map_filter:
  "distinct (map fst m) \<Longrightarrow>
     map_of (List.map_filter (\<lambda>(k, v). map_option (Pair k) (f k v)) m) k = Option.bind (map_of m k) (f k)"
proof (induction m)
  case (Cons e m)
  obtain j v where e: "e = (j, v)" by fastforce
  have "map_of m j = None" using Cons.prems by (simp add: e map_of_eq_None_iff)
  with Cons show ?case by (auto simp: e map_filter_simps split: option.splits)
qed (simp add: map_filter_simps)

lemma fst_map_filter: "fst ` set (List.map_filter (\<lambda>(k, v). map_option (Pair k) (f k v)) m) \<subseteq> fst ` set m"
  by (induction m) (auto simp: map_filter_simps split: option.splits)

lemma distinct_map_filter:
  "distinct (map fst m) \<Longrightarrow> distinct (map fst (List.map_filter (\<lambda>(k, v). map_option (Pair k) (f k v)) m))"
proof (induction m)
  case (Cons e m)
  then show ?case using fst_map_filter [of f m] by (cases e) (auto simp: map_filter_simps split: option.splits)
qed (simp add: map_filter_simps)

lemma bt_wf_distinct: "bt_wf m \<Longrightarrow> distinct (map fst m)"
  by (rule btm.items_distinct)

lemma bt_get_map_filter:
  assumes "bt_wf m"
  shows "bt_get (bt_of_list (List.map_filter (\<lambda>(k, v). map_option (Pair k) (f k v)) m)) k = Option.bind (bt_get m k) (f k)"
  using bt_wf_distinct [OF assms]
  by (simp add: bt_get_of_list_distinct [OF distinct_map_filter] map_of_map_filter) (simp add: bt_get_def)

text \<open>What is permitted, requested and held.\<close>

definition permits :: "PermittedItems \<Rightarrow> string \<Rightarrow> string \<Rightarrow> string \<Rightarrow> bool" where
  "permits permitted d ns e \<longleftrightarrow>
     (\<exists>nss es. bt_get permitted d = Some nss \<and> bt_get nss ns = Some es \<and> e \<in> set es)"

definition asks_for :: "ItemsRequest list \<Rightarrow> string \<Rightarrow> string \<Rightarrow> string \<Rightarrow> bool" where
  "asks_for requests d ns e \<longleftrightarrow>
     (\<exists>item es. find (\<lambda>item. ir_doc_type item = d) requests = Some item \<and>
        bt_get (ir_namespaces item) ns = Some es \<and> bt_contains_key es e)"

text \<open>The filter hears the first document request of a type; a reader may have made several.\<close>

definition requested :: "ItemsRequest list \<Rightarrow> string \<Rightarrow> string \<Rightarrow> string \<Rightarrow> bool" where
  "requested requests d ns e \<longleftrightarrow>
     (\<exists>item \<in> set requests. ir_doc_type item = d \<and>
        (\<exists>es. bt_get (ir_namespaces item) ns = Some es \<and> bt_contains_key es e))"

definition held :: "'vi Documents \<Rightarrow> string \<Rightarrow> string \<Rightarrow> string \<Rightarrow> item_bytes option" where
  "held documents d ns e =
     Option.bind (bt_get documents d) (\<lambda>document.
     Option.bind (bt_get (doc_namespaces document) ns) (\<lambda>items. bt_get items e))"

definition permitted_wf :: "PermittedItems \<Rightarrow> bool" where
  "permitted_wf permitted \<longleftrightarrow> bt_wf permitted \<and> (\<forall>d nss. bt_get permitted d = Some nss \<longrightarrow> bt_wf nss)"

lemma asks_for_requested: "asks_for requests d ns e \<Longrightarrow> requested requests d ns e"
  by (auto simp: asks_for_def requested_def find_Some_iff)

lemma requested_asks_for:
  assumes "distinct (map ir_doc_type requests)"
  shows "requested requests d ns e \<longleftrightarrow> asks_for requests d ns e"
proof -
  have "find (\<lambda>item. ir_doc_type item = d) requests = Some item \<longleftrightarrow> item \<in> set requests \<and> ir_doc_type item = d" for item
    using assms by (induction requests) auto
  then show ?thesis unfolding requested_def asks_for_def by blast
qed

lemma filter_namespaces_get:
  "bt_wf nss \<Longrightarrow> bt_get (filter_namespaces item nss) ns =
     Option.bind (bt_get nss ns) (\<lambda>es. map_option (\<lambda>req. filter (bt_contains_key req) es) (bt_get (ir_namespaces item) ns))"
  unfolding filter_namespaces_def by (subst bt_get_map_filter) simp_all

lemma filter_permitted_get:
  "bt_wf permitted \<Longrightarrow> bt_get (filter_permitted requests permitted) d =
     Option.bind (bt_get permitted d) (\<lambda>nss.
       map_option (\<lambda>item. filter_namespaces item nss) (find (\<lambda>item. ir_doc_type item = d) requests))"
  unfolding filter_permitted_def by (subst bt_get_map_filter) simp_all

lemma filter_permitted_wf: "permitted_wf (filter_permitted requests permitted)" if "permitted_wf permitted"
  using that filter_permitted_get [of permitted requests]
  by (auto simp: permitted_wf_def filter_permitted_def filter_namespaces_def bt_wf_of_list bind_eq_Some_conv)

lemma filter_permitted_permits:
  assumes "permitted_wf permitted"
  shows "permits (filter_permitted requests permitted) d ns e \<longleftrightarrow> permits permitted d ns e \<and> asks_for requests d ns e"
proof -
  have "bt_wf permitted" "\<And>nss. bt_get permitted d = Some nss \<Longrightarrow> bt_wf nss"
    using assms by (auto simp: permitted_wf_def)
  then show ?thesis
    by (auto simp: permits_def asks_for_def filter_permitted_get filter_namespaces_get bind_eq_Some_conv)
qed

section \<open>Collecting\<close>

definition returned :: "(string, item_bytes) btree_map option \<Rightarrow> string list \<Rightarrow> item_bytes list" where
  "returned issuer_items elements = List.map_filter (\<lambda>e. Option.bind issuer_items (\<lambda>m. bt_get m e)) elements"

definition or_empty :: "'a list option \<Rightarrow> 'a list" where
  "or_empty x = (case x of Some xs \<Rightarrow> xs | None \<Rightarrow> [])"

definition reported :: "namespace_errors \<Rightarrow> string \<Rightarrow> string \<Rightarrow> bool" where
  "reported errors ns e \<longleftrightarrow> (\<exists>m. bt_get errors ns = Some m \<and> bt_get m e = Some DataNotReturned)"

lemma returned_simps [simp]:
  "returned items [] = []"
  "returned items (e # es) = (case Option.bind items (\<lambda>m. bt_get m e) of Some i \<Rightarrow> i # returned items es | None \<Rightarrow> returned items es)"
  by (simp_all add: returned_def map_filter_simps split: option.split)

lemma returned_mem: "i \<in> set (returned items es) \<longleftrightarrow> (\<exists>e \<in> set es. Option.bind items (\<lambda>m. bt_get m e) = Some i)"
  by (induction es) (auto split: option.splits)

lemma return_item_get:
  "bt_get (fst (return_item ns i acc)) k =
     (if k = ns then Some (or_empty (bt_get (fst acc) ns) @ [i]) else bt_get (fst acc) k)"
  "snd (return_item ns i acc) = snd acc"
  by (cases acc; auto simp: return_item_def or_empty_def NonEmptyVec_push_def NonEmptyVec_new_def bt_get_insert
    split: option.splits)+

lemma bt_get_new: "bt_get (NonEmptyMap_new k v) x = (if x = k then Some v else None)"
  by (simp add: NonEmptyMap_new_def bt_get_def)

lemma return_error_items: "fst (return_error ns e acc) = fst acc"
  by (cases acc) (simp add: return_error_def)

lemma return_error_reported:
  "reported (snd (return_error ns e acc)) k x \<longleftrightarrow> k = ns \<and> x = e \<or> reported (snd acc) k x"
proof (cases "bt_get (snd acc) ns")
  case None
  then have "snd (return_error ns e acc) = bt_insert ns (NonEmptyMap_new e DataNotReturned) (snd acc)"
    by (cases acc) (simp add: return_error_def)
  with None show ?thesis by (auto simp: reported_def bt_get_insert bt_get_new)
next
  case (Some m)
  then have "snd (return_error ns e acc) = bt_insert ns (bt_insert e DataNotReturned m) (snd acc)"
    by (cases acc) (simp add: return_error_def NonEmptyMap_insert_def)
  with Some show ?thesis by (auto simp: reported_def bt_get_insert)
qed

lemmas return_error_get = return_error_items return_error_reported

lemma collect_elements_step:
  "collect_elements items ns (e # es) acc =
     collect_elements items ns es
       (case Option.bind items (\<lambda>m. bt_get m e) of Some i \<Rightarrow> return_item ns i acc | None \<Rightarrow> return_error ns e acc)"
  by (cases items) simp_all

lemma collect_elements_get:
  "bt_get (fst (collect_elements items ns es acc)) k =
     (if k = ns \<and> returned items es \<noteq> [] then Some (or_empty (bt_get (fst acc) ns) @ returned items es)
      else bt_get (fst acc) k)"
proof (induction es arbitrary: acc)
  case (Cons e es)
  show ?case
    by (cases "Option.bind items (\<lambda>m. bt_get m e)")
      (auto simp: collect_elements_step Cons.IH return_item_get return_error_get or_empty_def simp del: collect_elements.simps)
qed simp

lemma collect_elements_reported:
  "reported (snd (collect_elements items ns es acc)) k x \<longleftrightarrow>
     reported (snd acc) k x \<or> k = ns \<and> x \<in> set es \<and> Option.bind items (\<lambda>m. bt_get m x) = None"
proof (induction es arbitrary: acc)
  case (Cons e es)
  show ?case
    by (cases "Option.bind items (\<lambda>m. bt_get m e)")
      (auto simp: collect_elements_step Cons.IH return_item_get return_error_get simp del: collect_elements.simps)
qed simp

lemma collect_namespaces_get:
  "distinct (map fst nss) \<Longrightarrow>
     or_empty (bt_get (fst (collect_namespaces D nss acc)) k) =
       or_empty (bt_get (fst acc) k) @ (case map_of nss k of Some es \<Rightarrow> returned (bt_get D k) es | None \<Rightarrow> [])"
proof (induction nss arbitrary: acc)
  case (Cons entry nss)
  obtain ns es where entry: "entry = (ns, es)" by fastforce
  then have "map_of nss ns = None" using Cons.prems by (simp add: map_of_eq_None_iff)
  with Cons show ?case by (auto simp: entry collect_elements_get or_empty_def split: option.splits)
qed simp

lemma collect_namespaces_reported:
  "distinct (map fst nss) \<Longrightarrow>
     reported (snd (collect_namespaces D nss acc)) k x \<longleftrightarrow>
       reported (snd acc) k x \<or>
       (\<exists>es. map_of nss k = Some es \<and> x \<in> set es \<and> Option.bind (bt_get D k) (\<lambda>m. bt_get m x) = None)"
proof (induction nss arbitrary: acc)
  case (Cons entry nss)
  obtain ns es where entry: "entry = (ns, es)" by fastforce
  then have "map_of nss ns = None" using Cons.prems by (simp add: map_of_eq_None_iff)
  with Cons show ?case by (auto simp: entry collect_elements_reported)
qed simp

section \<open>Prepared documents\<close>

definition disclosed :: "PreparedDocument \<Rightarrow> string \<Rightarrow> item_bytes list" where
  "disclosed pd ns = or_empty (Option.bind (isg_namespaces (pdoc_issuer_signed pd)) (\<lambda>m. bt_get m ns))"

definition reported_missing :: "PreparedDocument \<Rightarrow> string \<Rightarrow> string \<Rightarrow> bool" where
  "reported_missing pd ns e \<longleftrightarrow> (\<exists>errors. pdoc_errors pd = Some errors \<and> reported errors ns e)"

lemma or_empty_non_empty: "or_empty (Option.bind (result_ok (NonEmptyMap_try_from m)) (\<lambda>m. bt_get m k)) = or_empty (bt_get m k)"
  by (cases "m = []") (simp_all add: NonEmptyMap_try_from_def or_empty_def bt_get_def)

lemma reported_non_empty: "(\<exists>e. result_ok (NonEmptyMap_try_from m) = Some e \<and> reported e ns x) \<longleftrightarrow> reported m ns x"
  by (cases "m = []") (simp_all add: NonEmptyMap_try_from_def reported_def bt_get_def)

lemma reported_Nil [simp]: "\<not> reported [] ns e"
  by (simp add: reported_def bt_get_def)

lemma prepare_document_Inr:
  assumes "prepare_document codec transcript auth_type document d nss = Inr pd"
  shows "pdoc_doc_type pd = d" "pdoc_id pd = doc_id document"
    "isg_issuer_auth (pdoc_issuer_signed pd) = doc_issuer_auth document"
    "disclosed pd ns = or_empty (bt_get (fst (collect_namespaces (doc_namespaces document) nss ([], []))) ns)"
    "reported_missing pd ns e = reported (snd (collect_namespaces (doc_namespaces document) nss ([], []))) ns e"
    "\<exists>alg dn b. signature_algorithm (dki_device_key (mso_device_key_info (doc_mso document))) = Some alg \<and>
       Tag24_new (dc_encode_namespaces codec) [] = Inr dn \<and> pdoc_device_namespaces pd = dn \<and>
       device_authentication_bytes codec transcript d dn = Inr b \<and>
       prepare_cose codec auth_type alg b = Inr (pdoc_prepared_cose pd)"
  using assms
  by (auto simp: prepare_document_def result_simps disclosed_def reported_missing_def case_prod_beta Let_def
    or_empty_non_empty reported_non_empty)

text \<open>Each entry of the filtered request gives a document or an error.\<close>

definition document_outcome :: "'t device_codec \<Rightarrow> 't \<Rightarrow> DeviceAuthType \<Rightarrow> 'vi Documents
    \<Rightarrow> string \<times> (string, string list) btree_map \<Rightarrow> PreparedDocument option" where
  "document_outcome codec transcript auth_type documents = (\<lambda>(d, nss).
     Option.bind (bt_get documents d) (\<lambda>document.
       result_ok (prepare_document codec transcript auth_type document d nss)))"

lemma document_outcome_Some:
  "document_outcome codec transcript auth_type documents (d, nss) = Some pd \<longleftrightarrow>
     (\<exists>document. bt_get documents d = Some document \<and>
        prepare_document codec transcript auth_type document d nss = Inr pd)"
  by (simp add: document_outcome_def bind_eq_Some_conv result_simps)

lemma prepare_documents_eq:
  "prepare_documents codec transcript auth_type documents l =
     (List.map_filter (document_outcome codec transcript auth_type documents) l,
      map (\<lambda>(d, nss). bt_of_list [(d, DataNotReturned)])
        (filter (\<lambda>entry. document_outcome codec transcript auth_type documents entry = None) l))"
proof (induction l)
  case (Cons entry l)
  obtain d nss where entry: "entry = (d, nss)" by fastforce
  show ?case
  proof (cases "bt_get documents d")
    case None
    then show ?thesis by (simp add: entry Cons document_outcome_def map_filter_simps)
  next
    case (Some document)
    then show ?thesis
      by (cases "prepare_document codec transcript auth_type document d nss")
        (simp_all add: entry Cons document_outcome_def map_filter_simps)
  qed
qed (simp add: map_filter_simps)

lemma set_map_filter_option: "y \<in> set (List.map_filter f xs) \<longleftrightarrow> (\<exists>x \<in> set xs. f x = Some y)"
  by (induction xs) (auto simp: map_filter_simps split: option.splits)

lemma prepare_documents_spec:
  "pd \<in> set (fst (prepare_documents codec transcript auth_type documents l)) \<longleftrightarrow>
     (\<exists>d nss document. (d, nss) \<in> set l \<and> bt_get documents d = Some document \<and>
        prepare_document codec transcript auth_type document d nss = Inr pd)"
  by (simp add: prepare_documents_eq set_map_filter_option Bex_def split_paired_Ex document_outcome_Some)

lemma document_outcome_type: "document_outcome codec transcript auth_type documents (d, nss) = Some pd \<Longrightarrow> pdoc_doc_type pd = d"
  by (auto simp: document_outcome_Some dest: prepare_document_Inr(1))

lemma prepare_response_fields:
  "prepared_documents (prepare_response codec transcript auth_type documents requests permitted)
     = fst (prepare_documents codec transcript auth_type documents (filter_permitted requests permitted))"
  "or_empty (pdr_document_errors (prepare_response codec transcript auth_type documents requests permitted))
     = snd (prepare_documents codec transcript auth_type documents (filter_permitted requests permitted))"
  by (simp_all add: prepare_response_def case_prod_beta Let_def NonEmptyVec_try_from_def or_empty_def)

lemma prepared_document_exact:
  assumes "permitted_wf permitted"
    and "pd \<in> set (prepared_documents (prepare_response codec transcript auth_type documents requests permitted))"
  shows "(\<forall>ns item. item \<in> set (disclosed pd ns) \<longleftrightarrow>
      (\<exists>e. permits permitted (pdoc_doc_type pd) ns e \<and> asks_for requests (pdoc_doc_type pd) ns e \<and>
           held documents (pdoc_doc_type pd) ns e = Some item)) \<and>
    (\<forall>ns e. reported_missing pd ns e \<longleftrightarrow>
      permits permitted (pdoc_doc_type pd) ns e \<and> asks_for requests (pdoc_doc_type pd) ns e \<and>
      held documents (pdoc_doc_type pd) ns e = None)"
proof -
  let ?filtered = "filter_permitted requests permitted"
  obtain d nss document where mem: "(d, nss) \<in> set ?filtered" and doc: "bt_get documents d = Some document"
    and pd: "prepare_document codec transcript auth_type document d nss = Inr pd"
    using assms(2) unfolding prepare_response_fields prepare_documents_spec by blast
  note fields = prepare_document_Inr [OF pd]
  have wf: "permitted_wf ?filtered" using assms(1) by (rule filter_permitted_wf)
  with mem have nss: "bt_get ?filtered d = Some nss" "bt_wf nss" by (auto simp: permitted_wf_def bt_mem_iff)
  then have distinct: "distinct (map fst nss)" by (simp add: bt_wf_distinct)
  have lookup: "map_of nss ns = bt_get nss ns" for ns by (simp add: bt_get_def)
  have both: "permits permitted d ns e \<and> asks_for requests d ns e \<longleftrightarrow> (\<exists>es. bt_get nss ns = Some es \<and> e \<in> set es)" for ns e
    using filter_permitted_permits [OF assms(1), of requests d ns e] nss(1) by (auto simp: permits_def)
  have held: "held documents d ns e = Option.bind (bt_get (doc_namespaces document) ns) (\<lambda>m. bt_get m e)" for ns e
    by (simp add: held_def doc)
  have Nil: "or_empty (bt_get [] k) = []" for k by (simp add: bt_get_def or_empty_def)
  have disclosed: "disclosed pd ns = (case bt_get nss ns of Some es \<Rightarrow> returned (bt_get (doc_namespaces document) ns) es | None \<Rightarrow> [])" for ns
    by (simp add: fields(4) collect_namespaces_get [OF distinct] lookup Nil)
  have missing: "reported_missing pd ns e \<longleftrightarrow> (\<exists>es. bt_get nss ns = Some es \<and> e \<in> set es \<and>
      Option.bind (bt_get (doc_namespaces document) ns) (\<lambda>m. bt_get m e) = None)" for ns e
    by (simp add: fields(5) collect_namespaces_reported [OF distinct] lookup)
  have "item \<in> set (disclosed pd ns) \<longleftrightarrow> (\<exists>e. (permits permitted d ns e \<and> asks_for requests d ns e) \<and> held documents d ns e = Some item)" for ns item
    unfolding both held disclosed by (cases "bt_get nss ns") (auto simp: returned_mem)
  moreover have "reported_missing pd ns e \<longleftrightarrow> (permits permitted d ns e \<and> asks_for requests d ns e) \<and> held documents d ns e = None" for ns e
    unfolding both held missing by blast
  ultimately show ?thesis by (simp add: fields(1))
qed

lemma prepared_items:
  assumes "permitted_wf permitted"
    and "pd \<in> set (prepared_documents (prepare_response codec transcript auth_type documents requests permitted))"
  shows "item \<in> set (disclosed pd ns) \<longleftrightarrow>
      (\<exists>e. permits permitted (pdoc_doc_type pd) ns e \<and> asks_for requests (pdoc_doc_type pd) ns e \<and>
           held documents (pdoc_doc_type pd) ns e = Some item)"
  using prepared_document_exact [OF assms] by blast

text \<open>C6. A prepared document discloses exactly the items that the holder permitted, the first
  document request of its type asks for and the holder's document has, each under its own namespace,
  and reports exactly the permitted elements that request asks for and the document does not have as
  not returned. Every element that request asks for was requested; when no two document requests are
  for the same type, every requested element is one that it asks for, so that the disclosure is
  exactly of what was requested.\<close>

theorem disclosure_exact:
  assumes "permitted_wf permitted"
    and "pd \<in> set (prepared_documents (prepare_response codec transcript auth_type documents requests permitted))"
  shows "(\<forall>ns item. item \<in> set (disclosed pd ns) \<longleftrightarrow>
      (\<exists>e. permits permitted (pdoc_doc_type pd) ns e \<and> asks_for requests (pdoc_doc_type pd) ns e \<and>
           held documents (pdoc_doc_type pd) ns e = Some item)) \<and>
    (\<forall>ns e. reported_missing pd ns e \<longleftrightarrow>
      permits permitted (pdoc_doc_type pd) ns e \<and> asks_for requests (pdoc_doc_type pd) ns e \<and>
      held documents (pdoc_doc_type pd) ns e = None) \<and>
    (\<forall>ns e. asks_for requests (pdoc_doc_type pd) ns e \<longrightarrow> requested requests (pdoc_doc_type pd) ns e) \<and>
    (distinct (map ir_doc_type requests) \<longrightarrow>
      (\<forall>ns e. requested requests (pdoc_doc_type pd) ns e \<longrightarrow> asks_for requests (pdoc_doc_type pd) ns e))"
  using prepared_document_exact [OF assms] asks_for_requested requested_asks_for by blast

text \<open>C40. A further document request for a type already asked for changes nothing: the response is
  the one without it. An element asked for there alone is neither disclosed, though it be permitted
  and held, nor reported as not returned.\<close>

theorem repeated_request_ignored:
  assumes "ir_doc_type r \<in> ir_doc_type ` set requests"
  shows "prepare_response codec transcript auth_type documents (requests @ [r]) permitted =
    prepare_response codec transcript auth_type documents requests permitted"
proof -
  have "find (\<lambda>item. ir_doc_type item = d) (requests @ [r]) = find (\<lambda>item. ir_doc_type item = d) requests" for d
  proof -
    have "find P (xs @ [r]) = (if find P xs = None \<and> P r then Some r else find P xs)" for P and xs :: "ItemsRequest list"
      by (induction xs) auto
    then show ?thesis using assms by (auto simp: find_None_iff)
  qed
  then have "filter_permitted (requests @ [r]) permitted = filter_permitted requests permitted"
    by (simp only: filter_permitted_def)
  then show ?thesis by (simp only: prepare_response_def)
qed

definition sample_held_item :: item_bytes where
  "sample_held_item = \<lparr> tag24_inner = \<lparr> item_digest_id = 1, item_random = [], item_element_identifier = ''a'',
     item_element_value = VBool True \<rparr>, tag24_inner_bytes = [1] \<rparr>"

definition sample_sign1 :: "CoseSign1 MaybeTagged" where
  "sample_sign1 = MaybeTagged_new False
     \<lparr> s1_protected = empty_header, s1_unprotected = empty_header, s1_payload = None, s1_signature = [] \<rparr>"

definition sample_document :: "unit Document" where
  "sample_document =
     \<lparr> doc_id = [], doc_issuer_auth = sample_sign1,
       doc_mso = \<lparr> mso_version = ''1.0'', mso_digest_algorithm = SHA256, mso_value_digests = [],
         mso_device_key_info = \<lparr> dki_device_key = sample_key, dki_key_authorizations = None, dki_key_info = None \<rparr>,
         mso_doc_type = ''d'', mso_validity_info = () \<rparr>,
       doc_namespaces = [(''n'', [(''a'', sample_held_item)])] \<rparr>"

definition sample_device_codec :: "'t device_codec" where
  "sample_device_codec =
     \<lparr> dc_encode_namespaces = (\<lambda>_. Inr []), dc_encode_authentication = (\<lambda>_. Inr []),
       dc_encode_value = (\<lambda>_. Inr []), dc_sig_structure = (\<lambda>_ _ p. p), dc_mac_structure = (\<lambda>_ _ p. p) \<rparr>"

definition sample_request :: ItemsRequest where
  "sample_request = \<lparr> ir_doc_type = ''d'', ir_namespaces = [(''n'', [(''a'', True), (''c'', True)])], ir_request_info = None \<rparr>"

definition sample_permitted :: PermittedItems where
  "sample_permitted = [(''d'', [(''n'', [''a'', ''b'', ''c''])]), (''e'', [])]"

definition sample_response :: PreparedDeviceResponse where
  "sample_response =
     prepare_response sample_device_codec (0 :: nat) Sign1 [(''d'', sample_document)] [sample_request] sample_permitted"

lemma sample_permitted_wf: "permitted_wf sample_permitted"
  by (auto simp: permitted_wf_def sample_permitted_def bt_wf_def bt_get_def split: if_splits)

theorem disclosure_exact_witness:
  "sample_held_item \<in> set (disclosed (hd (prepared_documents sample_response)) ''n'') \<and>
   reported_missing (hd (prepared_documents sample_response)) ''n'' ''c''"
proof -
  have one: "length (prepared_documents sample_response) = 1" by code_simp
  then have "hd (prepared_documents sample_response) \<in> set (prepared_documents sample_response)" by (cases "prepared_documents sample_response") auto
  note exact = disclosure_exact [OF sample_permitted_wf this [unfolded sample_response_def], folded sample_response_def]
  have d: "pdoc_doc_type (hd (prepared_documents sample_response)) = ''d''" by code_simp
  have "permits sample_permitted ''d'' ''n'' e \<and> asks_for [sample_request] ''d'' ''n'' e" if "e \<in> {''a'', ''c''}" for e
    using that by (auto simp: permits_def asks_for_def sample_permitted_def sample_request_def bt_get_def bt_contains_key_def)
  moreover have "held [(''d'', sample_document)] ''d'' ''n'' ''a'' = Some sample_held_item"
    "held [(''d'', sample_document)] ''d'' ''n'' ''c'' = None"
    by (simp_all add: held_def sample_document_def bt_get_def)
  ultimately show ?thesis using exact unfolding d by blast
qed

text \<open>The element that the sample request does not ask for is held and asked for in a second request.\<close>

definition sample_later_request :: ItemsRequest where
  "sample_later_request = \<lparr> ir_doc_type = ''d'', ir_namespaces = [(''n'', [(''a'', True)])], ir_request_info = None \<rparr>"

theorem repeated_request_ignored_witness:
  "let first = \<lparr> ir_doc_type = ''d'', ir_namespaces = [(''n'', [(''c'', True)])], ir_request_info = None \<rparr>;
     response = prepare_response sample_device_codec (0 :: nat) Sign1 [(''d'', sample_document)]
       ([first] @ [sample_later_request]) sample_permitted in
   requested [first, sample_later_request] ''d'' ''n'' ''a'' \<and> permits sample_permitted ''d'' ''n'' ''a'' \<and>
   held [(''d'', sample_document)] ''d'' ''n'' ''a'' = Some sample_held_item \<and>
   map (\<lambda>pd. disclosed pd ''n'') (prepared_documents response) = [[]] \<and>
   \<not> list_ex (\<lambda>pd. reported_missing pd ''n'' ''a'') (prepared_documents response)"
proof -
  let ?first = "\<lparr> ir_doc_type = ''d'', ir_namespaces = [(''n'', [(''c'', True)])], ir_request_info = None \<rparr>"
  let ?response = "prepare_response sample_device_codec (0 :: nat) Sign1 [(''d'', sample_document)] [?first] sample_permitted"
  have same: "prepare_response sample_device_codec (0 :: nat) Sign1 [(''d'', sample_document)]
      ([?first] @ [sample_later_request]) sample_permitted = ?response"
    by (rule repeated_request_ignored) (simp add: sample_later_request_def)
  have given: "requested [?first, sample_later_request] ''d'' ''n'' ''a''" "permits sample_permitted ''d'' ''n'' ''a''"
    "held [(''d'', sample_document)] ''d'' ''n'' ''a'' = Some sample_held_item"
    by (auto simp: requested_def permits_def held_def sample_later_request_def sample_permitted_def sample_document_def
      bt_get_def bt_contains_key_def)
  have none: "map (\<lambda>pd. disclosed pd ''n'') (prepared_documents ?response) = [[]]" by code_simp
  have "\<not> reported_missing pd ''n'' ''a''" if "pd \<in> set (prepared_documents ?response)" for pd
    using prepared_document_exact [OF sample_permitted_wf that] given(3) that
    by (auto simp: asks_for_def bt_contains_key_def bt_get_def split: if_splits)
  then show ?thesis using given none unfolding Let_def same by (auto simp: list_ex_iff)
qed

text \<open>Every document type that is both permitted and requested is answered, by a prepared
  document or by an error that says it is not returned, and nothing else is.\<close>

lemma every_document_answered:
  assumes "permitted_wf permitted"
  shows "{pdoc_doc_type pd |pd. pd \<in> set (prepared_documents (prepare_response codec transcript auth_type documents requests permitted))}
      \<union> {d. [(d, DataNotReturned)] \<in> set (or_empty (pdr_document_errors (prepare_response codec transcript auth_type documents requests permitted)))}
    = {d. bt_get permitted d \<noteq> None \<and> (\<exists>item. find (\<lambda>item. ir_doc_type item = d) requests = Some item)}"
proof -
  let ?filtered = "filter_permitted requests permitted"
  let ?outcome = "document_outcome codec transcript auth_type documents"
  let ?response = "prepare_response codec transcript auth_type documents requests permitted"
  have wf: "bt_wf ?filtered" "bt_wf permitted"
    using assms filter_permitted_wf [OF assms, of requests] by (simp_all add: permitted_wf_def)
  have asked: "(\<exists>nss. (d, nss) \<in> set ?filtered) \<longleftrightarrow>
      bt_get permitted d \<noteq> None \<and> (\<exists>item. find (\<lambda>item. ir_doc_type item = d) requests = Some item)" for d
    by (auto simp: bt_mem_iff [OF wf(1)] filter_permitted_get [OF wf(2)] bind_eq_Some_conv)
  have "[(d, DataNotReturned)] = bt_of_list [(d', DataNotReturned)] \<longleftrightarrow> d = d'" for d d' :: string
    by (auto simp: bt_of_list_def)
  then have errors: "[(d, DataNotReturned)] \<in> set (or_empty (pdr_document_errors ?response)) \<longleftrightarrow>
      (\<exists>nss. (d, nss) \<in> set ?filtered \<and> ?outcome (d, nss) = None)" for d
    by (auto simp: prepare_response_fields prepare_documents_eq image_iff)
  have prepared: "(\<exists>pd. d = pdoc_doc_type pd \<and> pd \<in> set (prepared_documents ?response)) \<longleftrightarrow>
      (\<exists>nss. (d, nss) \<in> set ?filtered \<and> ?outcome (d, nss) \<noteq> None)" for d
    by (auto simp: prepare_response_fields prepare_documents_eq set_map_filter_option dest: document_outcome_type)
  show ?thesis
    by (rule set_eqI) (simp only: Un_iff mem_Collect_eq errors prepared asked [symmetric], blast)
qed

lemma every_document_answered_witness:
  "{pdoc_doc_type pd |pd. pd \<in> set (prepared_documents sample_response)}
     \<union> {d. [(d, DataNotReturned)] \<in> set (or_empty (pdr_document_errors sample_response))} = {''d''}"
  unfolding sample_response_def every_document_answered [OF sample_permitted_wf]
  by (auto simp: sample_permitted_def sample_request_def bt_get_def split: if_splits)

end
