(* ===== verification/X509.thy ===== *)
theory X509
  imports Cbor_Value
begin

text \<open>
  Certificates as \<^verbatim>\<open>src/definitions/x509\<close> reads them, the utilities of \<^verbatim>\<open>util.rs\<close>, the certificate
  chain of \<^verbatim>\<open>x5chain.rs\<close>, the trust anchors of \<^verbatim>\<open>trust_anchor.rs\<close> and the checks of \<^verbatim>\<open>names.rs\<close>,
  \<^verbatim>\<open>validity.rs\<close> and \<^verbatim>\<open>signature.rs\<close>. The certificate record has the fields these files read. The
  DER and PEM codecs, the string types of DER, the hash and the curve arithmetic are the packages'
  and are gathered in the record \<open>x509_ops\<close>. Error texts are kept as constructors with the data
  the format strings print.
\<close>

type_synonym oid = string

datatype der_tag = PrintableStringTag | Utf8StringTag | Ia5StringTag | TeletexStringTag | OtherTag nat

record AttributeValue =
  av_tag :: der_tag
  av_bytes :: bytes

record AttributeTypeAndValue =
  attr_oid :: oid
  attr_value :: AttributeValue

type_synonym Name = "AttributeTypeAndValue list list"

record Extension =
  extn_id :: oid
  extn_critical :: bool
  extn_value :: bytes

record SubjectPublicKeyInfo =
  spki_algorithm :: oid
  spki_parameters :: "bytes option"
  spki_unused_bits :: nat
  spki_raw_bytes :: bytes

record Certificate =
  cert_subject :: Name
  cert_issuer :: Name
  cert_not_before :: u64
  cert_not_after :: u64
  cert_spki :: SubjectPublicKeyInfo
  cert_extensions :: "Extension list option"
  cert_signature :: bytes

section \<open>Packages\<close>

datatype KeyUsages =
    DigitalSignature | NonRepudiation | KeyEncipherment | DataEncipherment | KeyAgreement
  | KeyCertSign | CRLSign | EncipherOnly | DecipherOnly

record BasicConstraints =
  bc_ca :: bool
  bc_path_len_constraint :: "nat option"

datatype GeneralName = UniformResourceIdentifier string | Rfc822Name string | OtherGeneralName nat bytes

datatype DistributionPointName = FullName "GeneralName list" | NameRelativeToCRLIssuer bytes

record DistributionPoint =
  dp_distribution_point :: "DistributionPointName option"
  dp_reasons :: "nat option"
  dp_crl_issuer :: "GeneralName list option"

record ('k, 's) x509_ops =
  x_decode_oid :: "bytes \<Rightarrow> oid option"
  x_from_sec1 :: "oid \<Rightarrow> bytes \<Rightarrow> 'k option"
  x_decode_str :: "der_tag \<Rightarrow> bytes \<Rightarrow> string option"
  x_oid_name :: "oid \<Rightarrow> string option"
  x_signature_from_der :: "bytes \<Rightarrow> 's option"
  x_tbs_to_der :: "Certificate \<Rightarrow> bytes option"
  x_sha256 :: "bytes \<Rightarrow> bytes"
  x_sha1 :: "bytes \<Rightarrow> bytes"
  x_verify_prehashed :: "'k \<Rightarrow> bytes \<Rightarrow> 's \<Rightarrow> bool"
  x_ski_from_der :: "bytes \<Rightarrow> bytes option"
  x_aki_from_der :: "bytes \<Rightarrow> bytes option option"
  x_key_usage_from_der :: "bytes \<Rightarrow> KeyUsages set option"
  x_eku_from_der :: "bytes \<Rightarrow> oid list option"
  x_basic_constraints_from_der :: "bytes \<Rightarrow> BasicConstraints option"
  x_crl_points_from_der :: "bytes \<Rightarrow> DistributionPoint list option"
  x_issuer_alt_name_from_der :: "bytes \<Rightarrow> GeneralName list option"

text \<open>The registered object identifiers the sources take from the packages.\<close>

definition COMMON_NAME :: oid where "COMMON_NAME = ''2.5.4.3''"
definition COUNTRY_NAME :: oid where "COUNTRY_NAME = ''2.5.4.6''"
definition STATE_OR_PROVINCE_NAME :: oid where "STATE_OR_PROVINCE_NAME = ''2.5.4.8''"
definition ID_EC_PUBLIC_KEY :: oid where "ID_EC_PUBLIC_KEY = ''1.2.840.10045.2.1''"
definition SECP_256_R_1 :: oid where "SECP_256_R_1 = ''1.2.840.10045.3.1.7''"
definition SECP_384_R_1 :: oid where "SECP_384_R_1 = ''1.3.132.0.34''"
definition SECP_521_R_1 :: oid where "SECP_521_R_1 = ''1.3.132.0.35''"

section \<open>Utilities\<close>

datatype public_key_error =
    NotEcPublicKey | MissingNamedCurve | NotANamedCurve | UnexpectedNamedCurve | UnusedBits | Sec1Parse

definition public_key_with_oid :: "('k, 's) x509_ops \<Rightarrow> Certificate \<Rightarrow> oid \<Rightarrow> public_key_error + 'k" where
  "public_key_with_oid ops certificate expected_curve_oid =
     (let spki = cert_spki certificate in
      if spki_algorithm spki \<noteq> ID_EC_PUBLIC_KEY then Inl NotEcPublicKey
      else
        and_then (ok_or (spki_parameters spki) MissingNamedCurve) (\<lambda>parameters.
        and_then (ok_or (x_decode_oid ops parameters) NotANamedCurve) (\<lambda>curve_oid.
        if curve_oid \<noteq> expected_curve_oid then Inl UnexpectedNamedCurve
        else if spki_unused_bits spki \<noteq> 0 then Inl UnusedBits
        else ok_or (x_from_sec1 ops expected_curve_oid (spki_raw_bytes spki)) Sec1Parse)))"

text \<open>The curves a key can be asked for.\<close>

datatype NamedCurve = NistP256 | NistP384 | NistP521

fun CURVE_OID :: "NamedCurve \<Rightarrow> oid" where
  "CURVE_OID NistP256 = SECP_256_R_1"
| "CURVE_OID NistP384 = SECP_384_R_1"
| "CURVE_OID NistP521 = SECP_521_R_1"

definition certificate_public_key :: "('k, 's) x509_ops \<Rightarrow> NamedCurve \<Rightarrow> Certificate \<Rightarrow> public_key_error + 'k" where
  "certificate_public_key ops curve certificate = public_key_with_oid ops certificate (CURVE_OID curve)"

definition attribute_value_to_str :: "('k, 's) x509_ops \<Rightarrow> AttributeValue \<Rightarrow> string option" where
  "attribute_value_to_str ops av =
     (case av_tag av of
        OtherTag _ \<Rightarrow> None
      | tag \<Rightarrow> x_decode_str ops tag (av_bytes av))"

definition common_name :: "('k, 's) x509_ops \<Rightarrow> Certificate \<Rightarrow> string option" where
  "common_name ops certificate =
     (case List.map_filter (\<lambda>attribute.
              if attr_oid attribute = COMMON_NAME then attribute_value_to_str ops (attr_value attribute) else None)
            (concat (cert_subject certificate)) of
        [] \<Rightarrow> None
      | name # _ \<Rightarrow> Some name)"

definition common_name_or_unknown :: "('k, 's) x509_ops \<Rightarrow> Certificate \<Rightarrow> string" where
  "common_name_or_unknown ops certificate =
     (case common_name ops certificate of Some name \<Rightarrow> name | None \<Rightarrow> ''Unknown'')"

section \<open>Names\<close>

datatype name_error =
    MissingName string string
  | MultipleName string string
  | MismatchName string string string

definition get_rdns :: "Certificate \<Rightarrow> oid \<Rightarrow> AttributeValue list" where
  "get_rdns certificate name_oid =
     map attr_value (filter (\<lambda>attribute. attr_oid attribute = name_oid) (concat (cert_subject certificate)))"

definition has_rdn :: "Certificate \<Rightarrow> oid \<Rightarrow> bool" where
  "has_rdn certificate name_oid = (get_rdns certificate name_oid \<noteq> [])"

definition str_or :: "('k, 's) x509_ops \<Rightarrow> string \<Rightarrow> AttributeValue \<Rightarrow> string" where
  "str_or ops fallback v = (case attribute_value_to_str ops v of Some s \<Rightarrow> s | None \<Rightarrow> fallback)"

definition country_name_is :: "('k, 's) x509_ops \<Rightarrow> Certificate \<Rightarrow> string \<Rightarrow> name_error option" where
  "country_name_is ops certificate expected_country_name =
     (case get_rdns certificate COUNTRY_NAME of
        [] \<Rightarrow> Some (MissingName (common_name_or_unknown ops certificate) ''countryName'')
      | c # cs \<Rightarrow>
          if cs \<noteq> [] then Some (MultipleName (common_name_or_unknown ops certificate) ''countryName'')
          else if str_or ops ''unknown'' c \<noteq> expected_country_name
          then Some (MismatchName ''countryName'' (str_or ops ''unknown'' c) expected_country_name)
          else None)"

text \<open>The two certificates are reported the other way round when one has several names.\<close>

definition name_matches :: "('k, 's) x509_ops \<Rightarrow> oid \<Rightarrow> Certificate \<Rightarrow> Certificate \<Rightarrow> name_error option" where
  "name_matches ops name_oid this that =
     (let name = (case x_oid_name ops name_oid of Some n \<Rightarrow> n | None \<Rightarrow> ''unknown'') in
      case get_rdns this name_oid of
        [] \<Rightarrow> Some (MissingName (common_name_or_unknown ops this) name)
      | this_c # this_cs \<Rightarrow>
        (case get_rdns that name_oid of
           [] \<Rightarrow> Some (MissingName (common_name_or_unknown ops that) name)
         | that_c # that_cs \<Rightarrow>
             if this_cs \<noteq> [] then Some (MultipleName (common_name_or_unknown ops that) name)
             else if that_cs \<noteq> [] then Some (MultipleName (common_name_or_unknown ops this) name)
             else if this_c \<noteq> that_c
             then Some (MismatchName name (str_or ops ''Unknown'' this_c) (str_or ops ''Unknown'' that_c))
             else None))"

definition country_name_matches :: "('k, 's) x509_ops \<Rightarrow> Certificate \<Rightarrow> Certificate \<Rightarrow> name_error option" where
  "country_name_matches ops this that = name_matches ops COUNTRY_NAME this that"

definition state_or_province_name_matches :: "('k, 's) x509_ops \<Rightarrow> Certificate \<Rightarrow> Certificate \<Rightarrow> name_error option" where
  "state_or_province_name_matches ops this that = name_matches ops STATE_OR_PROVINCE_NAME this that"

section \<open>Validity and signature\<close>

datatype validity_error = Expired | NotYetValid

text \<open>\<open>now\<close> is the Unix time that the calls to the clock return.\<close>

definition check_validity_period :: "u64 \<Rightarrow> Certificate \<Rightarrow> validity_error list" where
  "check_validity_period now certificate =
     (if cert_not_after certificate < now then [Expired] else [])
     @ (if now < cert_not_before certificate then [NotYetValid] else [])"

definition issuer_signed_subject :: "('k, 's) x509_ops \<Rightarrow> Certificate \<Rightarrow> Certificate \<Rightarrow> bool" where
  "issuer_signed_subject ops subject issuer =
     (case public_key_with_oid ops issuer SECP_256_R_1 of
        Inl _ \<Rightarrow> False
      | Inr issuer_public_key \<Rightarrow>
        (case x_signature_from_der ops (cert_signature subject) of
           None \<Rightarrow> False
         | Some sig \<Rightarrow>
           (case x_tbs_to_der ops subject of
              None \<Rightarrow> False
            | Some tbs \<Rightarrow> x_verify_prehashed ops issuer_public_key (x_sha256 ops tbs) sig)))"

section \<open>Chains\<close>

record CertificateWithDer =
  cwd_inner :: Certificate
  cwd_der :: bytes

type_synonym X5Chain = "CertificateWithDer list"

datatype x5chain_error = CertificateDer | CertificatePem | CertificateEncode | ExpectedByteString Value
  | ExpectedBytesOrArray Value | NoCertificates

definition CertificateWithDer_from_der :: "(bytes \<Rightarrow> Certificate option) \<Rightarrow> bytes \<Rightarrow> x5chain_error + CertificateWithDer" where
  "CertificateWithDer_from_der from_der b =
     map_ok (\<lambda>inner. \<lparr> cwd_inner = inner, cwd_der = b \<rparr>) (ok_or (from_der b) CertificateDer)"

definition CertificateWithDer_from_pem :: "(bytes \<Rightarrow> bytes option) \<Rightarrow> (bytes \<Rightarrow> Certificate option) \<Rightarrow> bytes
    \<Rightarrow> x5chain_error + CertificateWithDer" where
  "CertificateWithDer_from_pem decode_pem from_der b =
     and_then (ok_or (decode_pem b) CertificatePem) (CertificateWithDer_from_der from_der)"

definition CertificateWithDer_from_cert :: "(Certificate \<Rightarrow> bytes option) \<Rightarrow> Certificate \<Rightarrow> x5chain_error + CertificateWithDer" where
  "CertificateWithDer_from_cert to_der certificate =
     map_ok (\<lambda>der. \<lparr> cwd_inner = certificate, cwd_der = der \<rparr>) (ok_or (to_der certificate) CertificateEncode)"

definition with_der_certificate :: "(bytes \<Rightarrow> Certificate option) \<Rightarrow> CertificateWithDer list \<Rightarrow> bytes
    \<Rightarrow> x5chain_error + CertificateWithDer list" where
  "with_der_certificate from_der certs data =
     map_ok (\<lambda>x509. certs @ [x509]) (CertificateWithDer_from_der from_der data)"

definition with_pem_certificate :: "(bytes \<Rightarrow> bytes option) \<Rightarrow> (bytes \<Rightarrow> Certificate option)
    \<Rightarrow> CertificateWithDer list \<Rightarrow> bytes \<Rightarrow> x5chain_error + CertificateWithDer list" where
  "with_pem_certificate decode_pem from_der certs data =
     map_ok (\<lambda>x509. certs @ [x509]) (CertificateWithDer_from_pem decode_pem from_der data)"

definition with_certificate :: "(Certificate \<Rightarrow> bytes option) \<Rightarrow> CertificateWithDer list \<Rightarrow> Certificate
    \<Rightarrow> x5chain_error + CertificateWithDer list" where
  "with_certificate to_der certs cert =
     map_ok (\<lambda>x509. certs @ [x509]) (CertificateWithDer_from_cert to_der cert)"

definition with_certificate_and_der :: "CertificateWithDer list \<Rightarrow> CertificateWithDer \<Rightarrow> CertificateWithDer list" where
  "with_certificate_and_der certs x509 = certs @ [x509]"

definition build_chain :: "CertificateWithDer list \<Rightarrow> x5chain_error + X5Chain" where
  "build_chain certs = map_err (\<lambda>_. NoCertificates) (NonEmptyVec_try_from certs)"

definition X5Chain_into_cbor :: "X5Chain \<Rightarrow> Value" where
  "X5Chain_into_cbor chain =
     (case chain of
        [cert] \<Rightarrow> VBytes (cwd_der cert)
      | certs \<Rightarrow> VArray (map (VBytes \<circ> cwd_der) certs))"

fun add_certificates :: "(bytes \<Rightarrow> Certificate option) \<Rightarrow> CertificateWithDer list \<Rightarrow> Value list
    \<Rightarrow> x5chain_error + CertificateWithDer list" where
  "add_certificates from_der builder [] = Inr builder"
| "add_certificates from_der builder (x509 # x509s) =
     and_then (case x509 of
         VBytes b \<Rightarrow> with_der_certificate from_der builder b
       | _ \<Rightarrow> Inl (ExpectedByteString x509)) (\<lambda>builder. add_certificates from_der builder x509s)"

definition X5Chain_from_cbor :: "(bytes \<Rightarrow> Certificate option) \<Rightarrow> Value \<Rightarrow> x5chain_error + X5Chain" where
  "X5Chain_from_cbor from_der cbor =
     (case cbor of
        VBytes b \<Rightarrow> and_then (with_der_certificate from_der [] b) build_chain
      | VArray x509s \<Rightarrow> and_then (add_certificates from_der [] x509s) build_chain
      | _ \<Rightarrow> Inl (ExpectedBytesOrArray cbor))"

text \<open>A chain has at least one certificate by its type; the model's head on an empty list is never reached.\<close>

definition end_entity_certificate :: "X5Chain \<Rightarrow> Certificate" where
  "end_entity_certificate chain = cwd_inner (hd chain)"

definition end_entity_common_name :: "('k, 's) x509_ops \<Rightarrow> X5Chain \<Rightarrow> string" where
  "end_entity_common_name ops chain = common_name_or_unknown ops (end_entity_certificate chain)"

definition end_entity_public_key_with_oid :: "('k, 's) x509_ops \<Rightarrow> X5Chain \<Rightarrow> oid \<Rightarrow> public_key_error + 'k" where
  "end_entity_public_key_with_oid ops chain expected_curve_oid =
     public_key_with_oid ops (end_entity_certificate chain) expected_curve_oid"

definition end_entity_public_key :: "('k, 's) x509_ops \<Rightarrow> NamedCurve \<Rightarrow> X5Chain \<Rightarrow> public_key_error + 'k" where
  "end_entity_public_key ops curve chain = certificate_public_key ops curve (end_entity_certificate chain)"

section \<open>Trust anchors\<close>

datatype TrustPurpose = Iaca | ReaderCa

record TrustAnchor =
  ta_certificate :: Certificate
  ta_purpose :: TrustPurpose

record TrustAnchorRegistry =
  anchors :: "TrustAnchor list"

record PemTrustAnchor =
  pta_certificate_pem :: string
  pta_purpose :: TrustPurpose

definition PemTrustAnchor_try_from :: "(Certificate \<Rightarrow> unit + string) \<Rightarrow> TrustAnchor \<Rightarrow> unit + PemTrustAnchor" where
  "PemTrustAnchor_try_from to_pem value =
     map_ok (\<lambda>pem. \<lparr> pta_certificate_pem = pem, pta_purpose = ta_purpose value \<rparr>) (to_pem (ta_certificate value))"

definition TrustAnchor_try_from :: "(string \<Rightarrow> unit + Certificate) \<Rightarrow> PemTrustAnchor \<Rightarrow> unit + TrustAnchor" where
  "TrustAnchor_try_from from_pem value =
     map_ok (\<lambda>c. \<lparr> ta_certificate = c, ta_purpose = pta_purpose value \<rparr>) (from_pem (pta_certificate_pem value))"

text \<open>The error names the position of the first certificate that cannot be read.\<close>

definition from_pem_certificates :: "(string \<Rightarrow> unit + Certificate) \<Rightarrow> PemTrustAnchor list \<Rightarrow> nat + TrustAnchorRegistry" where
  "from_pem_certificates from_pem certs =
     map_ok (\<lambda>a. \<lparr> anchors = a \<rparr>)
       (try_collect (\<lambda>(index, t). map_err (\<lambda>_. index) (TrustAnchor_try_from from_pem t)) (enumerate 0 certs))"

section \<open>What the checks establish\<close>

lemma public_key_with_oid_Inr:
  "public_key_with_oid ops c curve = Inr k \<longleftrightarrow>
     spki_algorithm (cert_spki c) = ID_EC_PUBLIC_KEY \<and> spki_unused_bits (cert_spki c) = 0 \<and>
     (\<exists>p. spki_parameters (cert_spki c) = Some p \<and> x_decode_oid ops p = Some curve) \<and>
     x_from_sec1 ops curve (spki_raw_bytes (cert_spki c)) = Some k"
  by (auto simp: public_key_with_oid_def Let_def result_simps split: if_splits)

text \<open>A certificate has a key for at most one curve.\<close>

lemma certificate_key_curve:
  assumes "certificate_public_key ops a c = Inr k" "certificate_public_key ops b c = Inr k'"
  shows "a = b" "k = k'"
proof -
  show "a = b"
    using assms
    by (cases a; cases b)
      (auto simp: certificate_public_key_def public_key_with_oid_Inr SECP_256_R_1_def SECP_384_R_1_def SECP_521_R_1_def)
  with assms show "k = k'" by simp
qed

lemma name_matches_None:
  "name_matches ops n this that = None \<longleftrightarrow> (\<exists>v. get_rdns this n = [v] \<and> get_rdns that n = [v])"
  by (auto simp: name_matches_def Let_def split: list.splits)

lemma country_name_is_None:
  "country_name_is ops c expected = None \<longleftrightarrow>
     (\<exists>v. get_rdns c COUNTRY_NAME = [v] \<and> str_or ops ''unknown'' v = expected)"
  by (auto simp: country_name_is_def split: list.splits)

lemma check_validity_period_Nil:
  "check_validity_period now c = [] \<longleftrightarrow> cert_not_before c \<le> now \<and> now \<le> cert_not_after c"
  by (auto simp: check_validity_period_def)

lemma issuer_signed_subject_iff:
  "issuer_signed_subject ops subject issuer \<longleftrightarrow>
     (\<exists>k sig tbs. public_key_with_oid ops issuer SECP_256_R_1 = Inr k \<and>
        x_signature_from_der ops (cert_signature subject) = Some sig \<and> x_tbs_to_der ops subject = Some tbs \<and>
        x_verify_prehashed ops k (x_sha256 ops tbs) sig)"
  by (auto simp: issuer_signed_subject_def split: sum.splits option.splits)

lemma from_der_Inr [result_simps]:
  "CertificateWithDer_from_der from_der b = Inr c \<longleftrightarrow> cwd_der c = b \<and> from_der b = Some (cwd_inner c)"
  by (cases c) (auto simp: CertificateWithDer_from_der_def result_simps)

lemma add_certificates_der:
  assumes "list_all (\<lambda>c. from_der (cwd_der c) = Some (cwd_inner c)) certs"
  shows "add_certificates from_der builder (map (VBytes \<circ> cwd_der) certs) = Inr (builder @ certs)"
  using assms
proof (induction certs arbitrary: builder)
  case (Cons c certs)
  then have "with_der_certificate from_der builder (cwd_der c) = Inr (builder @ [c])"
    by (simp add: with_der_certificate_def result_simps)
  with Cons show ?case by simp
qed simp

lemma add_certificates_Inr:
  "add_certificates from_der builder vs = Inr certs \<Longrightarrow>
     \<exists>new. certs = builder @ new \<and> vs = map (VBytes \<circ> cwd_der) new \<and>
       list_all (\<lambda>c. from_der (cwd_der c) = Some (cwd_inner c)) new"
proof (induction vs arbitrary: builder)
  case (Cons v vs)
  then obtain c where c: "v = VBytes (cwd_der c)" "from_der (cwd_der c) = Some (cwd_inner c)"
    "add_certificates from_der (builder @ [c]) vs = Inr certs"
    by (cases v) (auto simp: result_simps with_der_certificate_def)
  from Cons.IH [OF c(3)] obtain new where "certs = (builder @ [c]) @ new" "vs = map (VBytes \<circ> cwd_der) new"
    "list_all (\<lambda>c. from_der (cwd_der c) = Some (cwd_inner c)) new" by blast
  with c show ?case by (intro exI [of _ "c # new"]) simp
qed simp

text \<open>A chain is read from CBOR exactly when it is the encoding of a non-empty list of
  certificates that the decoder accepts, or the one-element array form of such a certificate; the
  original bytes are kept, so writing it again gives the encoding back.\<close>

lemma x5chain_round_trip:
  "X5Chain_from_cbor from_der v = Inr chain \<longleftrightarrow>
     chain \<noteq> [] \<and> list_all (\<lambda>c. from_der (cwd_der c) = Some (cwd_inner c)) chain \<and>
     (v = X5Chain_into_cbor chain \<or> v = VArray (map (VBytes \<circ> cwd_der) chain))"
proof -
  have single: "and_then (with_der_certificate from_der [] b) build_chain = Inr chain \<longleftrightarrow>
      (\<exists>c. chain = [c] \<and> cwd_der c = b \<and> from_der b = Some (cwd_inner c))" for b
    by (auto simp: with_der_certificate_def build_chain_def result_simps)
  have several: "and_then (add_certificates from_der [] vs) build_chain = Inr chain \<longleftrightarrow>
      chain \<noteq> [] \<and> list_all (\<lambda>c. from_der (cwd_der c) = Some (cwd_inner c)) chain \<and>
      vs = map (VBytes \<circ> cwd_der) chain" for vs
    by (auto simp: build_chain_def result_simps add_certificates_der dest: add_certificates_Inr)
  show ?thesis
    by (cases v) (auto simp: X5Chain_from_cbor_def single several X5Chain_into_cbor_def split: list.splits)
qed

end
