(* ===== verification/X509_Validation.thy ===== *)
theory X509_Validation
  imports X509
begin

text \<open>
  \<^verbatim>\<open>src/definitions/x509/validation\<close>: the validators of certificate extensions, the loop that applies
  them, the search for a trust anchor and the three rule sets. The trait objects of the source are
  the constructors of \<open>validator\<close>. Acceptance by a rule set is characterized by what it implies of
  the end-entity certificate and the anchor.
\<close>

section \<open>Validators\<close>

definition SubjectKeyIdentifier_OID :: oid where "SubjectKeyIdentifier_OID = ''2.5.29.14''"
definition KeyUsage_OID :: oid where "KeyUsage_OID = ''2.5.29.15''"
definition IssuerAltName_OID :: oid where "IssuerAltName_OID = ''2.5.29.18''"
definition BasicConstraints_OID :: oid where "BasicConstraints_OID = ''2.5.29.19''"
definition NameConstraints_OID :: oid where "NameConstraints_OID = ''2.5.29.30''"
definition CrlDistributionPoints_OID :: oid where "CrlDistributionPoints_OID = ''2.5.29.31''"
definition PolicyMappings_OID :: oid where "PolicyMappings_OID = ''2.5.29.33''"
definition AuthorityKeyIdentifier_OID :: oid where "AuthorityKeyIdentifier_OID = ''2.5.29.35''"
definition PolicyConstraints_OID :: oid where "PolicyConstraints_OID = ''2.5.29.36''"
definition ExtendedKeyUsage_OID :: oid where "ExtendedKeyUsage_OID = ''2.5.29.37''"
definition FreshestCrl_OID :: oid where "FreshestCrl_OID = ''2.5.29.46''"
definition InhibitAnyPolicy_OID :: oid where "InhibitAnyPolicy_OID = ''2.5.29.54''"

lemmas extension_oids = SubjectKeyIdentifier_OID_def KeyUsage_OID_def IssuerAltName_OID_def
  BasicConstraints_OID_def NameConstraints_OID_def CrlDistributionPoints_OID_def PolicyMappings_OID_def
  AuthorityKeyIdentifier_OID_def PolicyConstraints_OID_def ExtendedKeyUsage_OID_def FreshestCrl_OID_def
  InhibitAnyPolicy_OID_def

datatype validator =
    SubjectKeyIdentifierValidator bytes
  | KeyUsageValidator "KeyUsages set"
  | BasicConstraintsValidator
  | CrlDistributionPointsValidator
  | IssuerAlternativeNameValidator
  | ExtendedKeyUsageValidator oid

datatype extension_error =
    FailedToDecode
  | DigestDidNotMatch
  | UnexpectedUsage "KeyUsages set"
  | ExpectedCaPathLenZero BasicConstraints
  | ExpectedDistributionPoints
  | CrlIssuerSet DistributionPoint
  | ReasonsSet DistributionPoint
  | PointInvalid DistributionPoint
  | InvalidGeneralNames "GeneralName list"
  | ExpectedExtendedUsage oid "oid list"

definition ski_check :: "('k, 's) x509_ops \<Rightarrow> bytes \<Rightarrow> bytes \<Rightarrow> extension_error option" where
  "ski_check ops raw_bytes ski = (if x_sha1 ops raw_bytes \<noteq> ski then Some DigestDidNotMatch else None)"

definition key_usage_check :: "KeyUsages set \<Rightarrow> KeyUsages set \<Rightarrow> extension_error option" where
  "key_usage_check expected_flagset ku = (if ku \<noteq> expected_flagset then Some (UnexpectedUsage ku) else None)"

definition document_signer_key_usage :: validator where
  "document_signer_key_usage = KeyUsageValidator {DigitalSignature}"

definition mdoc_reader_key_usage :: validator where
  "mdoc_reader_key_usage = KeyUsageValidator {DigitalSignature}"

definition iaca_key_usage :: validator where
  "iaca_key_usage = KeyUsageValidator {CRLSign, KeyCertSign}"

definition basic_constraints_check :: "BasicConstraints \<Rightarrow> extension_error option" where
  "basic_constraints_check constraints =
     (if (case bc_path_len_constraint constraints of None \<Rightarrow> True | Some path_len \<Rightarrow> path_len \<noteq> 0)
         \<or> \<not> bc_ca constraints
      then Some (ExpectedCaPathLenZero constraints) else None)"

fun is_uri :: "GeneralName \<Rightarrow> bool" where
  "is_uri (UniformResourceIdentifier _) = True"
| "is_uri _ = False"

fun names_uri :: "DistributionPointName option \<Rightarrow> bool" where
  "names_uri (Some (FullName names)) = list_ex is_uri names"
| "names_uri _ = False"

definition crl_point_errors :: "DistributionPoint \<Rightarrow> extension_error list" where
  "crl_point_errors point =
     (if dp_crl_issuer point \<noteq> None then [CrlIssuerSet point] else [])
     @ (if dp_reasons point \<noteq> None then [ReasonsSet point] else [])
     @ (if \<not> names_uri (dp_distribution_point point) then [PointInvalid point] else [])"

definition crl_distribution_points_check :: "DistributionPoint list \<Rightarrow> extension_error list" where
  "crl_distribution_points_check points =
     (if points = [] then [ExpectedDistributionPoints] else concat (map crl_point_errors points))"

fun rfc822_or_uri :: "GeneralName \<Rightarrow> bool" where
  "rfc822_or_uri (Rfc822Name _) = True"
| "rfc822_or_uri (UniformResourceIdentifier _) = True"
| "rfc822_or_uri _ = False"

definition issuer_alt_name_check :: "GeneralName list \<Rightarrow> extension_error option" where
  "issuer_alt_name_check ian = (if \<not> list_all rfc822_or_uri ian then Some (InvalidGeneralNames ian) else None)"

definition extended_key_usage_check :: "oid \<Rightarrow> oid list \<Rightarrow> extension_error option" where
  "extended_key_usage_check expected_oid eku =
     (if \<not> list_all (\<lambda>x. x = expected_oid) eku then Some (ExpectedExtendedUsage expected_oid eku)
      else if eku = [] then Some (ExpectedExtendedUsage expected_oid [])
      else None)"

definition document_signer_extended_key_usage_oid :: oid where
  "document_signer_extended_key_usage_oid = ''1.0.18013.5.1.2''"

definition mdoc_reader_extended_key_usage_oid :: oid where
  "mdoc_reader_extended_key_usage_oid = ''1.0.18013.5.1.6''"

fun validator_oid :: "validator \<Rightarrow> oid" where
  "validator_oid (SubjectKeyIdentifierValidator _) = SubjectKeyIdentifier_OID"
| "validator_oid (KeyUsageValidator _) = KeyUsage_OID"
| "validator_oid BasicConstraintsValidator = BasicConstraints_OID"
| "validator_oid CrlDistributionPointsValidator = CrlDistributionPoints_OID"
| "validator_oid IssuerAlternativeNameValidator = IssuerAltName_OID"
| "validator_oid (ExtendedKeyUsageValidator _) = ExtendedKeyUsage_OID"

fun validator_ext_name :: "validator \<Rightarrow> string" where
  "validator_ext_name (SubjectKeyIdentifierValidator _) = ''SubjectKeyIdentifier''"
| "validator_ext_name (KeyUsageValidator _) = ''KeyUsage''"
| "validator_ext_name BasicConstraintsValidator = ''BasicConstraints''"
| "validator_ext_name CrlDistributionPointsValidator = ''CrlDistributionPoints''"
| "validator_ext_name IssuerAlternativeNameValidator = ''IssuerAlternativeName''"
| "validator_ext_name (ExtendedKeyUsageValidator _) = ''ExtendedKeyUsage''"

text \<open>Decode the value of an extension and check it; a value that does not decode is one error.\<close>

definition decode_and_check :: "'a option \<Rightarrow> ('a \<Rightarrow> extension_error list) \<Rightarrow> extension_error list" where
  "decode_and_check decoded check = (case decoded of Some x \<Rightarrow> check x | None \<Rightarrow> [FailedToDecode])"

definition to_vec :: "'a option \<Rightarrow> 'a list" where
  "to_vec x = (case x of Some e \<Rightarrow> [e] | None \<Rightarrow> [])"

definition ski_validate :: "('k, 's) x509_ops \<Rightarrow> bytes \<Rightarrow> Extension \<Rightarrow> extension_error list" where
  "ski_validate ops raw_bytes ext =
     decode_and_check (x_ski_from_der ops (extn_value ext)) (\<lambda>ski. to_vec (ski_check ops raw_bytes ski))"

definition key_usage_validate :: "('k, 's) x509_ops \<Rightarrow> KeyUsages set \<Rightarrow> Extension \<Rightarrow> extension_error list" where
  "key_usage_validate ops expected ext =
     decode_and_check (x_key_usage_from_der ops (extn_value ext)) (\<lambda>ku. to_vec (key_usage_check expected ku))"

definition basic_constraints_validate :: "('k, 's) x509_ops \<Rightarrow> Extension \<Rightarrow> extension_error list" where
  "basic_constraints_validate ops ext =
     decode_and_check (x_basic_constraints_from_der ops (extn_value ext)) (\<lambda>bc. to_vec (basic_constraints_check bc))"

definition crl_distribution_points_validate :: "('k, 's) x509_ops \<Rightarrow> Extension \<Rightarrow> extension_error list" where
  "crl_distribution_points_validate ops ext =
     decode_and_check (x_crl_points_from_der ops (extn_value ext)) crl_distribution_points_check"

definition issuer_alt_name_validate :: "('k, 's) x509_ops \<Rightarrow> Extension \<Rightarrow> extension_error list" where
  "issuer_alt_name_validate ops ext =
     decode_and_check (x_issuer_alt_name_from_der ops (extn_value ext)) (\<lambda>ian. to_vec (issuer_alt_name_check ian))"

definition extended_key_usage_validate :: "('k, 's) x509_ops \<Rightarrow> oid \<Rightarrow> Extension \<Rightarrow> extension_error list" where
  "extended_key_usage_validate ops expected ext =
     decode_and_check (x_eku_from_der ops (extn_value ext)) (\<lambda>eku. to_vec (extended_key_usage_check expected eku))"

fun validator_validate :: "('k, 's) x509_ops \<Rightarrow> validator \<Rightarrow> Extension \<Rightarrow> extension_error list" where
  "validator_validate ops (SubjectKeyIdentifierValidator raw_bytes) ext = ski_validate ops raw_bytes ext"
| "validator_validate ops (KeyUsageValidator expected) ext = key_usage_validate ops expected ext"
| "validator_validate ops BasicConstraintsValidator ext = basic_constraints_validate ops ext"
| "validator_validate ops CrlDistributionPointsValidator ext = crl_distribution_points_validate ops ext"
| "validator_validate ops IssuerAlternativeNameValidator ext = issuer_alt_name_validate ops ext"
| "validator_validate ops (ExtendedKeyUsageValidator expected) ext = extended_key_usage_validate ops expected ext"

lemmas validate_defs = ski_validate_def key_usage_validate_def basic_constraints_validate_def
  crl_distribution_points_validate_def issuer_alt_name_validate_def extended_key_usage_validate_def

section \<open>The loop over the extensions\<close>

datatype certificate_error =
    ExtensionError string extension_error
  | UnknownCritical oid
  | RequiredNotFound string
  | NotAllowed oid

record RequiredExtension =
  re_found :: bool
  re_validator :: validator

definition RequiredExtension_new :: "validator \<Rightarrow> RequiredExtension" where
  "RequiredExtension_new v = \<lparr> re_found = False, re_validator = v \<rparr>"

text \<open>
  \<^verbatim>\<open>validators.iter_mut().find(..)\<close>: the first validator with the identifier of the extension, with
  the list in which it is marked as found.
\<close>

fun mark_found :: "oid \<Rightarrow> RequiredExtension list \<Rightarrow> (validator \<times> RequiredExtension list) option" where
  "mark_found ident [] = None"
| "mark_found ident (r # rs) =
     (if validator_oid (re_validator r) = ident then Some (re_validator r, r \<lparr> re_found := True \<rparr> # rs)
      else map_option (map_prod (\<lambda>v. v) ((#) r)) (mark_found ident rs))"

fun validate_loop :: "('k, 's) x509_ops \<Rightarrow> RequiredExtension list \<Rightarrow> Extension list
    \<Rightarrow> certificate_error list \<times> RequiredExtension list" where
  "validate_loop ops validators [] = ([], validators)"
| "validate_loop ops validators (ext # exts) =
     (case mark_found (extn_id ext) validators of
        Some (v, validators) \<Rightarrow>
          map_prod ((@) (map (ExtensionError (validator_ext_name v)) (validator_validate ops v ext))) (\<lambda>rs. rs)
            (validate_loop ops validators exts)
      | None \<Rightarrow>
          if extn_critical ext
          then map_prod ((#) (UnknownCritical (extn_id ext))) (\<lambda>rs. rs) (validate_loop ops validators exts)
          else validate_loop ops validators exts)"

definition validate_extensions :: "('k, 's) x509_ops \<Rightarrow> validator list \<Rightarrow> Extension list \<Rightarrow> certificate_error list" where
  "validate_extensions ops vs extensions =
     (let (validation_errors, validators) = validate_loop ops (map RequiredExtension_new vs) extensions in
      validation_errors
      @ map (\<lambda>r. RequiredNotFound (validator_ext_name (re_validator r))) (filter (\<lambda>r. \<not> re_found r) validators))"

definition disallowed_extensions :: "oid list" where
  "disallowed_extensions =
     [PolicyMappings_OID, NameConstraints_OID, PolicyConstraints_OID, InhibitAnyPolicy_OID, FreshestCrl_OID]"

definition check_for_disallowed_x509_extensions :: "Extension list \<Rightarrow> certificate_error list" where
  "check_for_disallowed_x509_extensions extensions =
     List.map_filter (\<lambda>ident. if ident \<in> set disallowed_extensions then Some (NotAllowed ident) else None)
       (map extn_id extensions)"

text \<open>\<^verbatim>\<open>extensions.iter().flatten()\<close>.\<close>

definition extension_list :: "Certificate \<Rightarrow> Extension list" where
  "extension_list certificate = (case cert_extensions certificate of Some exts \<Rightarrow> exts | None \<Rightarrow> [])"

definition ski_validator :: "Certificate \<Rightarrow> validator" where
  "ski_validator certificate = SubjectKeyIdentifierValidator (spki_raw_bytes (cert_spki certificate))"

definition validate_iaca_extensions :: "('k, 's) x509_ops \<Rightarrow> Certificate \<Rightarrow> certificate_error list" where
  "validate_iaca_extensions ops certificate =
     check_for_disallowed_x509_extensions (extension_list certificate)
     @ validate_extensions ops
         [ski_validator certificate, iaca_key_usage, BasicConstraintsValidator,
          CrlDistributionPointsValidator, IssuerAlternativeNameValidator]
         (extension_list certificate)"

definition validate_document_signer_certificate_extensions ::
    "('k, 's) x509_ops \<Rightarrow> Certificate \<Rightarrow> certificate_error list" where
  "validate_document_signer_certificate_extensions ops certificate =
     check_for_disallowed_x509_extensions (extension_list certificate)
     @ validate_extensions ops
         [ski_validator certificate, ExtendedKeyUsageValidator document_signer_extended_key_usage_oid,
          document_signer_key_usage, CrlDistributionPointsValidator, IssuerAlternativeNameValidator]
         (extension_list certificate)"

definition validate_mdoc_reader_certificate_extensions ::
    "('k, 's) x509_ops \<Rightarrow> Certificate \<Rightarrow> certificate_error list" where
  "validate_mdoc_reader_certificate_extensions ops certificate =
     check_for_disallowed_x509_extensions (extension_list certificate)
     @ validate_extensions ops
         [ski_validator certificate, ExtendedKeyUsageValidator mdoc_reader_extended_key_usage_oid,
          mdoc_reader_key_usage, CrlDistributionPointsValidator, IssuerAlternativeNameValidator]
         (extension_list certificate)"

definition key_identifier_check :: "('k, 's) x509_ops \<Rightarrow> Extension list \<Rightarrow> Extension list \<Rightarrow> bool" where
  "key_identifier_check ops issuer_extensions subject_extensions =
     (let issuer_skis = List.map_filter (\<lambda>ext.
            if extn_id ext = SubjectKeyIdentifier_OID then x_ski_from_der ops (extn_value ext) else None)
            issuer_extensions;
          subject_akis = List.map_filter (\<lambda>ext.
            if extn_id ext = AuthorityKeyIdentifier_OID then x_aki_from_der ops (extn_value ext) else None)
            subject_extensions
      in list_ex (\<lambda>ki. list_ex (\<lambda>ski. ki = ski) issuer_skis) (List.map_filter (\<lambda>aki. aki) subject_akis))"

section \<open>Rule sets\<close>

datatype ErrorContext = Comparison | DocumentSigner | IacaContext | ReaderContext | ReaderCaContext

datatype context_error =
    ValidityError ErrorContext validity_error
  | CertificateError ErrorContext certificate_error
  | NameError ErrorContext name_error
  | NoValidTrustAnchor ErrorContext

datatype ValidationRuleset = Mdl | AamvaMdl | MdlReaderOneStep

definition find_trust_anchor_candidates :: "('k, 's) x509_ops \<Rightarrow> u64 \<Rightarrow> Certificate \<Rightarrow> TrustAnchorRegistry
    \<Rightarrow> TrustPurpose \<Rightarrow> Certificate list" where
  "find_trust_anchor_candidates ops now subject trust_anchors trust_purpose =
     filter (\<lambda>candidate. check_validity_period now candidate = [])
       (filter (\<lambda>candidate. issuer_signed_subject ops subject candidate)
         (filter (\<lambda>candidate. key_identifier_check ops (extension_list candidate) (extension_list subject))
           (filter (\<lambda>candidate. cert_subject candidate = cert_issuer subject)
             (List.map_filter (\<lambda>anchor. if trust_purpose = ta_purpose anchor then Some (ta_certificate anchor) else None)
               (anchors trust_anchors)))))"

definition mdl_validate_inner :: "('k, 's) x509_ops \<Rightarrow> u64 \<Rightarrow> X5Chain \<Rightarrow> TrustAnchorRegistry
    \<Rightarrow> context_error list + context_error list \<times> Certificate \<times> Certificate" where
  "mdl_validate_inner ops now x5chain trust_anchors =
     (let document_signer = end_entity_certificate x5chain;
          errors = map (ValidityError DocumentSigner) (check_validity_period now document_signer)
            @ map (CertificateError DocumentSigner)
                (validate_document_signer_certificate_extensions ops document_signer) in
      case find_trust_anchor_candidates ops now document_signer trust_anchors Iaca of
        [] \<Rightarrow> Inl (errors @ [NoValidTrustAnchor IacaContext])
      | iaca # _ \<Rightarrow>
          Inr (errors
            @ map (NameError Comparison) (to_vec (country_name_matches ops document_signer iaca))
            @ map (CertificateError IacaContext) (validate_iaca_extensions ops iaca),
            document_signer, iaca))"

definition mdl_validate :: "('k, 's) x509_ops \<Rightarrow> u64 \<Rightarrow> X5Chain \<Rightarrow> TrustAnchorRegistry \<Rightarrow> context_error list" where
  "mdl_validate ops now x5chain trust_anchors =
     (case mdl_validate_inner ops now x5chain trust_anchors of
        Inr (outcome, ds, iaca) \<Rightarrow>
          if has_rdn ds STATE_OR_PROVINCE_NAME \<or> has_rdn iaca STATE_OR_PROVINCE_NAME
          then outcome @ map (NameError Comparison) (to_vec (state_or_province_name_matches ops ds iaca))
          else outcome
      | Inl outcome \<Rightarrow> outcome)"

definition aamva_mdl_validate :: "('k, 's) x509_ops \<Rightarrow> u64 \<Rightarrow> X5Chain \<Rightarrow> TrustAnchorRegistry \<Rightarrow> context_error list" where
  "aamva_mdl_validate ops now x5chain trust_anchors =
     (case mdl_validate_inner ops now x5chain trust_anchors of
        Inr (outcome, ds, iaca) \<Rightarrow>
          outcome @ map (NameError Comparison) (to_vec (state_or_province_name_matches ops ds iaca))
      | Inl outcome \<Rightarrow> outcome)"

definition mdl_reader_one_step_validate :: "('k, 's) x509_ops \<Rightarrow> u64 \<Rightarrow> X5Chain \<Rightarrow> TrustAnchorRegistry
    \<Rightarrow> context_error list" where
  "mdl_reader_one_step_validate ops now x5chain trust_anchors =
     (let reader = end_entity_certificate x5chain;
          errors = map (ValidityError ReaderContext) (check_validity_period now reader)
            @ map (CertificateError ReaderContext) (validate_mdoc_reader_certificate_extensions ops reader) in
      case find_trust_anchor_candidates ops now reader trust_anchors ReaderCa of
        [] \<Rightarrow> errors @ [NoValidTrustAnchor ReaderCaContext]
      | _ # _ \<Rightarrow> errors)"

fun ValidationRuleset_validate :: "('k, 's) x509_ops \<Rightarrow> u64 \<Rightarrow> ValidationRuleset \<Rightarrow> X5Chain \<Rightarrow> TrustAnchorRegistry
    \<Rightarrow> context_error list" where
  "ValidationRuleset_validate ops now Mdl x5chain trust_anchors = mdl_validate ops now x5chain trust_anchors"
| "ValidationRuleset_validate ops now AamvaMdl x5chain trust_anchors = aamva_mdl_validate ops now x5chain trust_anchors"
| "ValidationRuleset_validate ops now MdlReaderOneStep x5chain trust_anchors =
     mdl_reader_one_step_validate ops now x5chain trust_anchors"

section \<open>What the extension loop accepts\<close>

text \<open>What each validator demands of the extension it is for.\<close>

fun validator_accepts :: "('k, 's) x509_ops \<Rightarrow> validator \<Rightarrow> Extension \<Rightarrow> bool" where
  "validator_accepts ops (SubjectKeyIdentifierValidator raw_bytes) ext \<longleftrightarrow>
     x_ski_from_der ops (extn_value ext) = Some (x_sha1 ops raw_bytes)"
| "validator_accepts ops (KeyUsageValidator expected) ext \<longleftrightarrow>
     x_key_usage_from_der ops (extn_value ext) = Some expected"
| "validator_accepts ops BasicConstraintsValidator ext \<longleftrightarrow>
     x_basic_constraints_from_der ops (extn_value ext) = Some \<lparr> bc_ca = True, bc_path_len_constraint = Some 0 \<rparr>"
| "validator_accepts ops CrlDistributionPointsValidator ext \<longleftrightarrow>
     (\<exists>points. x_crl_points_from_der ops (extn_value ext) = Some points \<and> points \<noteq> [] \<and>
        (\<forall>p \<in> set points. dp_crl_issuer p = None \<and> dp_reasons p = None \<and> names_uri (dp_distribution_point p)))"
| "validator_accepts ops IssuerAlternativeNameValidator ext \<longleftrightarrow>
     (\<exists>ian. x_issuer_alt_name_from_der ops (extn_value ext) = Some ian \<and> list_all rfc822_or_uri ian)"
| "validator_accepts ops (ExtendedKeyUsageValidator expected) ext \<longleftrightarrow>
     (\<exists>eku. x_eku_from_der ops (extn_value ext) = Some eku \<and> set eku = {expected})"

lemma to_vec_Nil [simp]: "to_vec x = [] \<longleftrightarrow> x = None"
  by (simp add: to_vec_def split: option.splits)

lemma decode_and_check_Nil: "decode_and_check d check = [] \<longleftrightarrow> (\<exists>x. d = Some x \<and> check x = [])"
  by (simp add: decode_and_check_def split: option.splits)

lemma validator_validate_Nil: "validator_validate ops v ext = [] \<longleftrightarrow> validator_accepts ops v ext"
proof (cases v)
  case BasicConstraintsValidator
  have "basic_constraints_check bc = None \<longleftrightarrow> bc = \<lparr> bc_ca = True, bc_path_len_constraint = Some 0 \<rparr>" for bc
    by (cases bc) (auto simp: basic_constraints_check_def split: option.splits)
  then show ?thesis by (simp add: BasicConstraintsValidator validate_defs decode_and_check_Nil)
next
  case CrlDistributionPointsValidator
  have "crl_distribution_points_check ps = [] \<longleftrightarrow> ps \<noteq> [] \<and>
      (\<forall>p \<in> set ps. dp_crl_issuer p = None \<and> dp_reasons p = None \<and> names_uri (dp_distribution_point p))" for ps
    by (auto simp: crl_distribution_points_check_def crl_point_errors_def)
  then show ?thesis by (simp add: CrlDistributionPointsValidator validate_defs decode_and_check_Nil)
next
  case (ExtendedKeyUsageValidator expected)
  have "extended_key_usage_check expected eku = None \<longleftrightarrow> set eku = {expected}" for eku
    by (cases eku) (auto simp: extended_key_usage_check_def list_all_iff)
  then show ?thesis by (simp add: ExtendedKeyUsageValidator validate_defs decode_and_check_Nil)
qed (auto simp: validate_defs decode_and_check_Nil ski_check_def key_usage_check_def issuer_alt_name_check_def split: if_splits)

text \<open>
  With at most one validator per identifier, the loop keeps the validators, marks those whose
  identifier occurs, and reports what the matching validators and the unknown critical extensions
  give.
\<close>

definition mark_with :: "oid set \<Rightarrow> RequiredExtension \<Rightarrow> RequiredExtension" where
  "mark_with ids r = r \<lparr> re_found := re_found r \<or> validator_oid (re_validator r) \<in> ids \<rparr>"

definition required_oids :: "RequiredExtension list \<Rightarrow> oid list" where
  "required_oids rs = map (validator_oid \<circ> re_validator) rs"

definition lookup_validator :: "oid \<Rightarrow> validator list \<Rightarrow> validator option" where
  "lookup_validator ident vs = find (\<lambda>v. validator_oid v = ident) vs"

lemma mark_with_simps [simp]:
  "re_validator (mark_with ids r) = re_validator r" "mark_with {} r = r"
  "mark_with a (mark_with b r) = mark_with (a \<union> b) r"
  by (cases r; auto simp: mark_with_def)+

lemma mark_with_miss: "validator_oid (re_validator r) \<notin> ids \<Longrightarrow> mark_with ids r = r"
  by (simp add: mark_with_def)

lemma mark_found_eq:
  assumes "distinct (required_oids rs)"
  shows "mark_found ident rs =
    map_option (\<lambda>v. (v, map (mark_with {ident}) rs)) (lookup_validator ident (map re_validator rs))"
  using assms
proof (induction rs)
  case (Cons r rs)
  show ?case
  proof (cases "validator_oid (re_validator r) = ident")
    case True
    then have "map (mark_with {ident}) rs = rs"
      using Cons.prems by (intro map_idI mark_with_miss) (auto simp: required_oids_def image_iff)
    moreover have "mark_with {ident} r = r \<lparr> re_found := True \<rparr>" using True by (simp add: mark_with_def)
    ultimately show ?thesis using True by (simp add: lookup_validator_def)
  next
    case False
    with Cons show ?thesis
      by (simp add: lookup_validator_def mark_with_miss required_oids_def option.map_comp comp_def)
  qed
qed (simp add: lookup_validator_def)

lemma required_oids_mark [simp]: "required_oids (map (mark_with ids) rs) = required_oids rs"
  by (simp add: required_oids_def)

definition extension_ok :: "('k, 's) x509_ops \<Rightarrow> validator list \<Rightarrow> Extension \<Rightarrow> bool" where
  "extension_ok ops vs ext \<longleftrightarrow>
     (case lookup_validator (extn_id ext) vs of
        Some v \<Rightarrow> validator_accepts ops v ext | None \<Rightarrow> \<not> extn_critical ext)"

lemma mark_unlisted:
  "lookup_validator ident (map re_validator rs) = None \<Longrightarrow> map (mark_with (insert ident ids)) rs = map (mark_with ids) rs"
  by (auto simp: lookup_validator_def find_None_iff mark_with_def)

lemma validate_loop_spec:
  assumes "distinct (required_oids rs)"
  shows "(fst (validate_loop ops rs exts) = [] \<longleftrightarrow> (\<forall>ext \<in> set exts. extension_ok ops (map re_validator rs) ext)) \<and>
    snd (validate_loop ops rs exts) = map (mark_with (extn_id ` set exts)) rs"
  using assms
proof (induction exts arbitrary: rs)
  case (Cons ext exts)
  note IH = Cons.IH [of "map (mark_with {extn_id ext}) rs"] and IH' = Cons.IH [OF Cons.prems]
  show ?case
  proof (cases "lookup_validator (extn_id ext) (map re_validator rs)")
    case None
    with IH' show ?thesis by (simp add: mark_found_eq [OF Cons.prems] extension_ok_def mark_unlisted)
  next
    case (Some v)
    with IH Cons.prems show ?thesis
      by (simp add: mark_found_eq [OF Cons.prems] extension_ok_def validator_validate_Nil comp_def)
  qed
qed (simp add: list_eq_iff_nth_eq)

lemma validate_extensions_Nil:
  assumes "distinct (map validator_oid vs)"
  shows "validate_extensions ops vs exts = [] \<longleftrightarrow>
    (\<forall>ext \<in> set exts. extension_ok ops vs ext) \<and> (\<forall>v \<in> set vs. \<exists>ext \<in> set exts. extn_id ext = validator_oid v)"
proof -
  let ?rs = "map RequiredExtension_new vs"
  have rs: "map re_validator ?rs = vs" "required_oids ?rs = map validator_oid vs"
    by (simp_all add: RequiredExtension_new_def required_oids_def comp_def)
  have "distinct (required_oids ?rs)" using assms rs(2) by simp
  note loop = validate_loop_spec [OF this, of ops exts, unfolded rs(1)]
  have "filter (\<lambda>r. \<not> re_found r) (map (mark_with ids) ?rs) = [] \<longleftrightarrow> (\<forall>v \<in> set vs. validator_oid v \<in> ids)" for ids
    by (auto simp: filter_empty_conv mark_with_def RequiredExtension_new_def)
  moreover have "(\<forall>v \<in> set vs. \<exists>ext \<in> set exts. extn_id ext = validator_oid v)
      \<longleftrightarrow> (\<forall>v \<in> set vs. validator_oid v \<in> extn_id ` set exts)" by force
  ultimately show ?thesis
    using loop by (simp add: validate_extensions_def case_prod_beta)
qed

section \<open>What a rule set accepts\<close>

text \<open>
  A certificate satisfies a profile when no extension is disallowed, every extension that a
  validator is for is accepted by it, every other extension is not critical, and every validator
  has an extension.
\<close>

definition profile_ok :: "('k, 's) x509_ops \<Rightarrow> validator list \<Rightarrow> Certificate \<Rightarrow> bool" where
  "profile_ok ops vs certificate \<longleftrightarrow>
     (\<forall>ext \<in> set (extension_list certificate). extn_id ext \<notin> set disallowed_extensions \<and> extension_ok ops vs ext) \<and>
     (\<forall>v \<in> set vs. \<exists>ext \<in> set (extension_list certificate). extn_id ext = validator_oid v \<and> validator_accepts ops v ext)"

lemma disallowed_Nil:
  "check_for_disallowed_x509_extensions exts = [] \<longleftrightarrow> (\<forall>ext \<in> set exts. extn_id ext \<notin> set disallowed_extensions)"
  by (induction exts) (simp_all add: check_for_disallowed_x509_extensions_def map_filter_simps)

lemma lookup_validator_distinct:
  "distinct (map validator_oid vs) \<Longrightarrow> v \<in> set vs \<Longrightarrow> lookup_validator (validator_oid v) vs = Some v"
  by (induction vs) (auto simp: lookup_validator_def)

lemma profile_ok_iff:
  assumes "distinct (map validator_oid vs)"
  shows "check_for_disallowed_x509_extensions (extension_list c) @ validate_extensions ops vs (extension_list c) = []
    \<longleftrightarrow> profile_ok ops vs c"
proof -
  have "validator_accepts ops v ext" if "extension_ok ops vs ext" "extn_id ext = validator_oid v" "v \<in> set vs" for v ext
    using that lookup_validator_distinct [OF assms that(3)] by (simp add: extension_ok_def)
  then show ?thesis
    by (auto simp: disallowed_Nil validate_extensions_Nil [OF assms] profile_ok_def) blast+
qed

definition iaca_profile :: "Certificate \<Rightarrow> validator list" where
  "iaca_profile c = [ski_validator c, KeyUsageValidator {CRLSign, KeyCertSign}, BasicConstraintsValidator,
     CrlDistributionPointsValidator, IssuerAlternativeNameValidator]"

definition signer_profile :: "oid \<Rightarrow> Certificate \<Rightarrow> validator list" where
  "signer_profile usage c = [ski_validator c, ExtendedKeyUsageValidator usage,
     KeyUsageValidator {DigitalSignature}, CrlDistributionPointsValidator, IssuerAlternativeNameValidator]"

lemma extension_profiles:
  "validate_iaca_extensions ops c = [] \<longleftrightarrow> profile_ok ops (iaca_profile c) c"
  "validate_document_signer_certificate_extensions ops c = [] \<longleftrightarrow> profile_ok ops (signer_profile ''1.0.18013.5.1.2'' c) c"
  "validate_mdoc_reader_certificate_extensions ops c = [] \<longleftrightarrow> profile_ok ops (signer_profile ''1.0.18013.5.1.6'' c) c"
proof -
  have "distinct (map validator_oid (iaca_profile c))" "distinct (map validator_oid (signer_profile u c))" for u
    by (simp_all add: iaca_profile_def signer_profile_def ski_validator_def extension_oids)
  note profiles = this [THEN profile_ok_iff]
  have "validate_iaca_extensions ops c = check_for_disallowed_x509_extensions (extension_list c)
      @ validate_extensions ops (iaca_profile c) (extension_list c)"
    "validate_document_signer_certificate_extensions ops c = check_for_disallowed_x509_extensions (extension_list c)
      @ validate_extensions ops (signer_profile ''1.0.18013.5.1.2'' c) (extension_list c)"
    "validate_mdoc_reader_certificate_extensions ops c = check_for_disallowed_x509_extensions (extension_list c)
      @ validate_extensions ops (signer_profile ''1.0.18013.5.1.6'' c) (extension_list c)"
    by (simp_all only: validate_iaca_extensions_def
      validate_document_signer_certificate_extensions_def validate_mdoc_reader_certificate_extensions_def
      iaca_profile_def signer_profile_def iaca_key_usage_def document_signer_key_usage_def mdoc_reader_key_usage_def
      document_signer_extended_key_usage_oid_def mdoc_reader_extended_key_usage_oid_def)
  then show "validate_iaca_extensions ops c = [] \<longleftrightarrow> profile_ok ops (iaca_profile c) c"
    "validate_document_signer_certificate_extensions ops c = [] \<longleftrightarrow> profile_ok ops (signer_profile ''1.0.18013.5.1.2'' c) c"
    "validate_mdoc_reader_certificate_extensions ops c = [] \<longleftrightarrow> profile_ok ops (signer_profile ''1.0.18013.5.1.6'' c) c"
    by (simp_all only: profiles)
qed

text \<open>A certificate that may anchor another.\<close>

definition anchors_subject :: "('k, 's) x509_ops \<Rightarrow> u64 \<Rightarrow> Certificate \<Rightarrow> Certificate \<Rightarrow> bool" where
  "anchors_subject ops now issuer subject \<longleftrightarrow>
     cert_subject issuer = cert_issuer subject \<and>
     (\<exists>i \<in> set (extension_list issuer). \<exists>s \<in> set (extension_list subject). \<exists>ki.
        extn_id i = SubjectKeyIdentifier_OID \<and> extn_id s = AuthorityKeyIdentifier_OID \<and>
        x_ski_from_der ops (extn_value i) = Some ki \<and> x_aki_from_der ops (extn_value s) = Some (Some ki)) \<and>
     (\<exists>k sig tbs. public_key_with_oid ops issuer SECP_256_R_1 = Inr k \<and>
        x_signature_from_der ops (cert_signature subject) = Some sig \<and> x_tbs_to_der ops subject = Some tbs \<and>
        x_verify_prehashed ops k (x_sha256 ops tbs) sig) \<and>
     cert_not_before issuer \<le> now \<and> now \<le> cert_not_after issuer"

lemma set_map_filter: "y \<in> set (List.map_filter f xs) \<longleftrightarrow> (\<exists>x \<in> set xs. f x = Some y)"
  by (induction xs) (auto simp: map_filter_simps split: option.splits)

lemma key_identifier_check_iff:
  "key_identifier_check ops issuer_exts subject_exts \<longleftrightarrow>
     (\<exists>i \<in> set issuer_exts. \<exists>s \<in> set subject_exts. \<exists>ki.
        extn_id i = SubjectKeyIdentifier_OID \<and> extn_id s = AuthorityKeyIdentifier_OID \<and>
        x_ski_from_der ops (extn_value i) = Some ki \<and> x_aki_from_der ops (extn_value s) = Some (Some ki))"
  by (auto simp: key_identifier_check_def Let_def list_ex_iff set_map_filter Bex_def split: if_splits)

lemma candidates_mem:
  "c \<in> set (find_trust_anchor_candidates ops now subject reg purpose) \<longleftrightarrow>
     \<lparr> ta_certificate = c, ta_purpose = purpose \<rparr> \<in> set (anchors reg) \<and> anchors_subject ops now c subject"
proof -
  have anchor: "(\<exists>a \<in> set xs. (if purpose = ta_purpose a then Some (ta_certificate a) else None) = Some c)
      \<longleftrightarrow> \<lparr> ta_certificate = c, ta_purpose = purpose \<rparr> \<in> set xs" (is "?l \<longleftrightarrow> ?r") for xs
  proof
    assume ?l
    then obtain a where "a \<in> set xs" "ta_purpose a = purpose" "ta_certificate a = c" by (auto split: if_splits)
    moreover from this(2,3) have "a = \<lparr> ta_certificate = c, ta_purpose = purpose \<rparr>" by (cases a) simp
    ultimately show ?r by simp
  qed (erule rev_bexI, simp)
  have "anchors_subject ops now c subject \<longleftrightarrow> cert_subject c = cert_issuer subject \<and>
      key_identifier_check ops (extension_list c) (extension_list subject) \<and>
      issuer_signed_subject ops subject c \<and> check_validity_period now c = []"
    by (simp only: anchors_subject_def key_identifier_check_iff issuer_signed_subject_iff check_validity_period_Nil)
  then show ?thesis
    unfolding find_trust_anchor_candidates_def set_filter mem_Collect_eq set_map_filter anchor by blast
qed


text \<open>A reader chain is accepted exactly when its first certificate is inside its validity
  period, satisfies the reader profile and is anchored by some reader authority of the registry.
  Of the authority itself nothing is required beyond name, key identifier, signature and validity.\<close>

lemma reader_acceptance:
  "ValidationRuleset_validate ops now MdlReaderOneStep chain reg = [] \<longleftrightarrow>
     (let reader = end_entity_certificate chain in
      cert_not_before reader \<le> now \<and> now \<le> cert_not_after reader \<and>
      profile_ok ops (signer_profile ''1.0.18013.5.1.6'' reader) reader \<and>
      (\<exists>ca. \<lparr> ta_certificate = ca, ta_purpose = ReaderCa \<rparr> \<in> set (anchors reg) \<and> anchors_subject ops now ca reader))"
proof -
  have "(\<exists>ca. \<lparr> ta_certificate = ca, ta_purpose = ReaderCa \<rparr> \<in> set (anchors reg) \<and>
      anchors_subject ops now ca (end_entity_certificate chain))
    \<longleftrightarrow> find_trust_anchor_candidates ops now (end_entity_certificate chain) reg ReaderCa \<noteq> []"
    using candidates_mem [where ops = ops and now = now and subject = "end_entity_certificate chain" and reg = reg
      and purpose = ReaderCa] by (metis list.set_intros(1) list.set(1) empty_iff neq_Nil_conv)
  then show ?thesis
    by (auto simp: mdl_reader_one_step_validate_def Let_def check_validity_period_Nil extension_profiles
      split: list.splits)
qed

text \<open>The AAMVA rules are the mDL rules with the state or province made mandatory.\<close>

lemma aamva_is_stricter:
  "ValidationRuleset_validate ops now AamvaMdl chain reg = [] \<longleftrightarrow>
     ValidationRuleset_validate ops now Mdl chain reg = [] \<and>
     get_rdns (end_entity_certificate chain) STATE_OR_PROVINCE_NAME \<noteq> []"
  by (auto simp: mdl_validate_def aamva_mdl_validate_def mdl_validate_inner_def Let_def has_rdn_def
    state_or_province_name_matches_def name_matches_None split: list.splits)

text \<open>When one certificate names several countries, the error names the other certificate.\<close>

lemma multiple_names_swapped:
  assumes "get_rdns this n = v # w # ws" "get_rdns that n = [u]"
  shows "\<exists>name. name_matches ops n this that = Some (MultipleName (common_name_or_unknown ops that) name)"
  using assms by (simp add: name_matches_def Let_def)

end
