(* ===== verification/Device_Session.thy ===== *)
theory Device_Session
  imports Disclosure X509_Validation
begin

text \<open>
  The device's side of a presentation, \<^verbatim>\<open>src/presentation/device.rs\<close>: initialisation, engagement,
  session establishment, the handling of requests with the authentication of the reader, and the
  states \<^verbatim>\<open>AwaitingRequest\<close>, \<^verbatim>\<open>Signing\<close> and \<^verbatim>\<open>ReadyToRespond\<close> with the operations that move
  between them. The encoder at each type, the cipher, the curve and the certificate package are the
  fields of \<open>device_env\<close>. Error texts are constructors.
\<close>

section \<open>States\<close>

datatype State = AwaitingRequest | Signing PreparedDeviceResponse | ReadyToRespond bytes

record ('vi, 'sk) SessionManagerInit =
  smi_documents :: "'vi Documents"
  smi_e_device_key :: 'sk
  smi_device_engagement :: "DeviceEngagement Tag24"

record ('vi, 'sk) SessionManagerEngaged =
  sme_documents :: "'vi Documents"
  sme_e_device_key :: 'sk
  sme_device_engagement :: "DeviceEngagement Tag24"
  sme_handover :: Handover

record 'vi SessionManager =
  sm_documents :: "'vi Documents"
  sm_session_transcript :: SessionTranscript180135
  sm_sk_device :: bytes
  sm_device_message_counter :: u32
  sm_sk_reader :: bytes
  sm_reader_message_counter :: u32
  sm_state :: State
  sm_trusted_verifiers :: TrustAnchorRegistry
  sm_device_auth_type :: DeviceAuthType

datatype AuthenticationStatus = Unchecked | Invalid | Valid

datatype reader_auth_error =
    NoReaderAuth | NoX5Chain | X5ChainDecode x5chain_error | ChainInvalid context_error
  | ReaderKeyDecode public_key_error | PayloadConstruct | PayloadEncode | ReaderSignature sign1_verification

record ReaderAuthOutcome =
  rao_common_name :: "string option"
  rao_errors :: "reader_auth_error list"

datatype request_error = UnsupportedRequestVersion | NoMdocRequest | DecryptionFailed | SessionDataDecode

record RequestAuthenticationOutcome =
  ro_items_request :: "ItemsRequest list"
  ro_common_name :: "string option"
  ro_reader_authentication :: AuthenticationStatus
  ro_errors :: "(string, request_error list) btree_map"

definition RequestAuthenticationOutcome_default :: RequestAuthenticationOutcome where
  "RequestAuthenticationOutcome_default =
     \<lparr> ro_items_request = [], ro_common_name = None, ro_reader_authentication = Unchecked, ro_errors = [] \<rparr>"

section \<open>Environment\<close>

text \<open>\<^verbatim>\<open>ReaderAuthentication\<close> of \<^verbatim>\<open>reader.rs\<close>.\<close>

datatype ReaderAuthentication = ReaderAuthentication string SessionTranscript180135 "ItemsRequest Tag24"

record ('sk, 'p, 'pk, 'k, 's) device_env =
  de_compress :: compress256
  de_codec :: "SessionTranscript180135 device_codec"
  de_encode_key :: "CoseKey \<Rightarrow> unit + bytes"
  de_encode_engagement :: "DeviceEngagement \<Rightarrow> unit + bytes"
  de_encode_transcript :: "SessionTranscript180135 \<Rightarrow> unit + bytes"
  de_encode_reader_authentication :: "ReaderAuthentication \<Rightarrow> unit + bytes"
  de_encode_response :: "DeviceResponse \<Rightarrow> unit + bytes"
  de_decode_response :: "bytes \<Rightarrow> unit + DeviceResponse"
  de_encode_session_data :: "SessionData \<Rightarrow> unit + bytes"
  de_decode_session_data :: "bytes \<Rightarrow> unit + SessionData"
  de_decode_value :: "bytes \<Rightarrow> unit + Value"
  de_request_from_value :: "Value \<Rightarrow> unit + DeviceRequest"
  de_base64 :: "bytes \<Rightarrow> string"
  de_encoded_point :: "'sk \<Rightarrow> 'p"
  de_point_x :: "'p \<Rightarrow> bytes option"
  de_point_y :: "'p \<Rightarrow> bytes option"
  de_point_from_bytes :: "bytes \<Rightarrow> unit + 'p"
  de_public_key :: "'p \<Rightarrow> 'pk option"
  de_diffie_hellman :: "'sk \<Rightarrow> 'pk \<Rightarrow> bytes"
  de_encrypt :: "bytes \<Rightarrow> bytes \<Rightarrow> bytes \<Rightarrow> unit + bytes"
  de_decrypt :: "bytes \<Rightarrow> bytes \<Rightarrow> bytes \<Rightarrow> unit + bytes"
  de_x509 :: "('k, 's) x509_ops"
  de_certificate_from_der :: "bytes \<Rightarrow> Certificate option"
  de_signature_from_bytes :: "bytes \<Rightarrow> 's option"

text \<open>An embedded item is written as its tagged bytes.\<close>

definition encode_embedded :: "('sk, 'p, 'pk, 'k, 's) device_env \<Rightarrow> 'a Tag24 \<Rightarrow> unit + bytes" where
  "encode_embedded env t = dc_encode_value (de_codec env) (Tag24_into t)"

section \<open>Initialisation and engagement\<close>

datatype device_error =
    EKeyGeneration session_error | Tag24CborEncoding | SharedSecretGeneration shared_secret_error
  | SessionKeyDerivation "unit derive_error"

definition initialise :: "('sk, 'p, 'pk, 'k, 's) device_env \<Rightarrow> 'sk \<Rightarrow> 'vi Documents
    \<Rightarrow> DeviceRetrievalMethod list option \<Rightarrow> ServerRetrievalMethods option
    \<Rightarrow> device_error + ('vi, 'sk) SessionManagerInit" where
  "initialise env fresh documents methods servers =
     and_then (map_err EKeyGeneration
       (create_p256_ephemeral_keys fresh (de_encoded_point env) (de_point_x env) (de_point_y env)))
       (\<lambda>(e_device_key, e_device_key_pub).
     and_then (map_err (\<lambda>_. Tag24CborEncoding) (Tag24_new (de_encode_key env) e_device_key_pub)) (\<lambda>e_device_key_bytes.
     and_then (map_err (\<lambda>_. Tag24CborEncoding) (Tag24_new (de_encode_engagement env)
        \<lparr> de_version = ''1.0'', de_security = (1, e_device_key_bytes), device_retrieval_methods = methods,
          server_retrieval_methods = servers, protocol_info = None \<rparr>)) (\<lambda>device_engagement.
     Inr \<lparr> smi_documents = documents, smi_e_device_key = e_device_key, smi_device_engagement = device_engagement \<rparr>)))"

definition qr_engagement :: "('sk, 'p, 'pk, 'k, 's) device_env \<Rightarrow> ('vi, 'sk) SessionManagerInit
    \<Rightarrow> ('vi, 'sk) SessionManagerEngaged \<times> string" where
  "qr_engagement env self =
     (\<lparr> sme_documents = smi_documents self, sme_e_device_key = smi_e_device_key self,
        sme_device_engagement = smi_device_engagement self, sme_handover = QR \<rparr>,
      to_qr_code_uri (de_base64 env) (smi_device_engagement self))"

section \<open>Requests\<close>

definition PreparedDeviceResponse_empty :: "response_status \<Rightarrow> PreparedDeviceResponse" where
  "PreparedDeviceResponse_empty status =
     \<lparr> prepared_documents = [], signed_documents = [], pdr_document_errors = None, pdr_status = status \<rparr>"

definition parse_request :: "('sk, 'p, 'pk, 'k, 's) device_env \<Rightarrow> bytes \<Rightarrow> PreparedDeviceResponse + DeviceRequest" where
  "parse_request env request =
     and_then (map_err (\<lambda>_. PreparedDeviceResponse_empty StatusCborDecodingError) (de_decode_value env request))
       (\<lambda>value. map_err (\<lambda>_. PreparedDeviceResponse_empty StatusCborValidationError) (de_request_from_value env value))"

definition find_x5chain :: "Header \<Rightarrow> Value option" where
  "find_x5chain header =
     map_option snd (find (\<lambda>(label, _). label = LabelInt X5CHAIN_COSE_HEADER_LABEL) (header_rest header))"

definition p256_verifier :: "('sk, 'p, 'pk, 'k, 's) device_env \<Rightarrow> 'k \<Rightarrow> 's verifier" where
  "p256_verifier env key =
     P256Verifier (x_sha256 (de_x509 env)) (de_signature_from_bytes env) (x_verify_prehashed (de_x509 env)) key"

definition verify_reader_signature :: "('sk, 'p, 'pk, 'k, 's) device_env \<Rightarrow> SessionTranscript180135
    \<Rightarrow> ItemsRequest Tag24 \<Rightarrow> CoseSign1 MaybeTagged \<Rightarrow> 'k \<Rightarrow> reader_auth_error list" where
  "verify_reader_signature env transcript items_request reader_auth key =
     (case Tag24_new (de_encode_reader_authentication env)
             (ReaderAuthentication ''ReaderAuthentication'' transcript items_request) of
        Inl _ \<Rightarrow> [PayloadConstruct]
      | Inr payload \<Rightarrow>
        (case encode_embedded env payload of
           Inl _ \<Rightarrow> [PayloadEncode]
         | Inr detached_payload \<Rightarrow>
           (case CoseSign1_verify (dc_sig_structure (de_codec env)) (p256_verifier env key) reader_auth
                   (Some detached_payload) None of
              S1_Success \<Rightarrow> []
            | failure \<Rightarrow> [ReaderSignature failure])))"

definition reader_authentication :: "('sk, 'p, 'pk, 'k, 's) device_env \<Rightarrow> u64 \<Rightarrow> 'vi SessionManager \<Rightarrow> DocRequest
    \<Rightarrow> ReaderAuthOutcome" where
  "reader_authentication env now self doc_request =
     (case dq_reader_auth doc_request of
        None \<Rightarrow> \<lparr> rao_common_name = None, rao_errors = [NoReaderAuth] \<rparr>
      | Some reader_auth \<Rightarrow>
        (case find_x5chain (s1_unprotected (mt_inner reader_auth)) of
           None \<Rightarrow> \<lparr> rao_common_name = None, rao_errors = [NoX5Chain] \<rparr>
         | Some x5chain_cbor \<Rightarrow>
           (case X5Chain_from_cbor (de_certificate_from_der env) x5chain_cbor of
              Inl e \<Rightarrow> \<lparr> rao_common_name = None, rao_errors = [X5ChainDecode e] \<rparr>
            | Inr x5chain \<Rightarrow>
                \<lparr> rao_common_name = Some (end_entity_common_name (de_x509 env) x5chain),
                  rao_errors =
                    map ChainInvalid (ValidationRuleset_validate (de_x509 env) now MdlReaderOneStep x5chain
                      (sm_trusted_verifiers self))
                    @ (case end_entity_public_key_with_oid (de_x509 env) x5chain SECP_256_R_1 of
                         Inl e \<Rightarrow> [ReaderKeyDecode e]
                       | Inr key \<Rightarrow> verify_reader_signature env (sm_session_transcript self)
                           (dq_items_request doc_request) reader_auth key) \<rparr>)))"

text \<open>A document request list is non-empty by its type; the empty case leaves the reader unchecked.\<close>

definition validate_request :: "('sk, 'p, 'pk, 'k, 's) device_env \<Rightarrow> u64 \<Rightarrow> 'vi SessionManager \<Rightarrow> DeviceRequest
    \<Rightarrow> RequestAuthenticationOutcome" where
  "validate_request env now self request =
     (let validated = RequestAuthenticationOutcome_default
            \<lparr> ro_items_request := map (\<lambda>d. tag24_inner (dq_items_request d)) (dreq_doc_requests request) \<rparr>;
          validated = (if dreq_version request \<noteq> DeviceRequest_VERSION
            then validated \<lparr> ro_errors := bt_insert ''parsing_errors'' [UnsupportedRequestVersion] (ro_errors validated) \<rparr>
            else validated) in
      case dreq_doc_requests request of
        [] \<Rightarrow> validated
      | doc_request # _ \<Rightarrow>
          (let outcome = reader_authentication env now self doc_request in
           validated \<lparr> ro_reader_authentication := (if rao_errors outcome = [] then Valid else Invalid),
                       ro_common_name := rao_common_name outcome \<rparr>))"

definition handle_decoded_request :: "('sk, 'p, 'pk, 'k, 's) device_env \<Rightarrow> u64 \<Rightarrow> 'vi SessionManager \<Rightarrow> SessionData
    \<Rightarrow> RequestAuthenticationOutcome \<times> 'vi SessionManager" where
  "handle_decoded_request env now self request =
     (case sd_data request of
        None \<Rightarrow> (RequestAuthenticationOutcome_default \<lparr> ro_errors := [(''parsing_errors'', [NoMdocRequest])] \<rparr>, self)
      | Some data \<Rightarrow>
          (let (decrypted, counter) =
             decrypt_reader_data (de_decrypt env) (sm_sk_reader self) data (sm_reader_message_counter self);
               self = self \<lparr> sm_reader_message_counter := counter \<rparr> in
           case decrypted of
             Inl _ \<Rightarrow> (RequestAuthenticationOutcome_default \<lparr> ro_errors := [(''decryption_errors'', [DecryptionFailed])] \<rparr>, self)
           | Inr decrypted_request \<Rightarrow>
               (case parse_request env decrypted_request of
                  Inl e \<Rightarrow> (RequestAuthenticationOutcome_default, self \<lparr> sm_state := Signing e \<rparr>)
                | Inr request \<Rightarrow> (validate_request env now self request, self))))"

definition handle_request :: "('sk, 'p, 'pk, 'k, 's) device_env \<Rightarrow> u64 \<Rightarrow> 'vi SessionManager \<Rightarrow> bytes
    \<Rightarrow> RequestAuthenticationOutcome \<times> 'vi SessionManager" where
  "handle_request env now self request =
     (case de_decode_session_data env request of
        Inl _ \<Rightarrow> (RequestAuthenticationOutcome_default \<lparr> ro_errors := [(''parsing_errors'', [SessionDataDecode])] \<rparr>, self)
      | Inr session_data \<Rightarrow> handle_decoded_request env now self session_data)"

text \<open>\<open>None\<close> is the panic of the hash inside the key derivation.\<close>

definition process_session_establishment :: "('sk, 'p, 'pk, 'k, 's) device_env \<Rightarrow> u64 \<Rightarrow> ('vi, 'sk) SessionManagerEngaged
    \<Rightarrow> SessionEstablishment \<Rightarrow> TrustAnchorRegistry
    \<Rightarrow> (device_error + 'vi SessionManager \<times> RequestAuthenticationOutcome) option" where
  "process_session_establishment env now self establishment trusted_verifiers =
     (let e_reader_key = se_e_reader_key establishment;
          transcript = SessionTranscript180135 (sme_device_engagement self) e_reader_key (sme_handover self) in
      case Tag24_new (de_encode_transcript env) transcript of
        Inl _ \<Rightarrow> Some (Inl Tag24CborEncoding)
      | Inr transcript_bytes \<Rightarrow>
        (case get_shared_secret (de_point_from_bytes env) (de_public_key env) (de_diffie_hellman env)
                (tag24_inner e_reader_key) (sme_e_device_key self) of
           Inl e \<Rightarrow> Some (Inl (SharedSecretGeneration e))
         | Inr shared_secret \<Rightarrow>
             Option.bind (derive_session_key (de_compress env) (encode_embedded env) shared_secret transcript_bytes True)
               (\<lambda>sk_reader. case sk_reader of Inl e \<Rightarrow> Some (Inl (SessionKeyDerivation e)) | Inr sk_reader \<Rightarrow>
             Option.bind (derive_session_key (de_compress env) (encode_embedded env) shared_secret transcript_bytes False)
               (\<lambda>sk_device. case sk_device of Inl e \<Rightarrow> Some (Inl (SessionKeyDerivation e)) | Inr sk_device \<Rightarrow>
             let sm = \<lparr> sm_documents = sme_documents self, sm_session_transcript = transcript,
                   sm_sk_device = sk_device, sm_device_message_counter = 0, sm_sk_reader = sk_reader,
                   sm_reader_message_counter = 0, sm_state = AwaitingRequest,
                   sm_trusted_verifiers = trusted_verifiers, sm_device_auth_type = Sign1 \<rparr>;
                 (validated, sm) = handle_decoded_request env now sm
                   \<lparr> sd_data = Some (se_data establishment), sd_status = None \<rparr>
             in Some (Inr (sm, validated))))))"

section \<open>Responses\<close>

fun cose_signature_payload :: "PreparedCose \<Rightarrow> bytes" where
  "cose_signature_payload (PreparedSign1 inner) = ps_signature_payload inner"
| "cose_signature_payload (PreparedMac0 inner) = pm_tag_payload inner"

definition PreparedDocument_finalize :: "PreparedDocument \<Rightarrow> bytes \<Rightarrow> ResponseDocument" where
  "PreparedDocument_finalize self signature =
     \<lparr> rd_doc_type = pdoc_doc_type self, rd_issuer_signed = pdoc_issuer_signed self,
       rd_device_signed =
         \<lparr> ds_namespaces = pdoc_device_namespaces self,
           ds_device_auth = (case pdoc_prepared_cose self of
              PreparedSign1 inner \<Rightarrow> DeviceSignature (PreparedCoseSign1_finalize inner signature)
            | PreparedMac0 inner \<Rightarrow> DeviceMac (PreparedCoseMac0_finalize inner signature)) \<rparr>,
       rd_errors = pdoc_errors self \<rparr>"

definition is_complete :: "PreparedDeviceResponse \<Rightarrow> bool" where
  "is_complete self = (prepared_documents self = [])"

definition response_next_payload :: "PreparedDeviceResponse \<Rightarrow> (uuid \<times> bytes) option" where
  "response_next_payload self =
     (if prepared_documents self = [] then None
      else Some (let doc = last (prepared_documents self) in
        (pdoc_id doc, cose_signature_payload (pdoc_prepared_cose doc))))"

definition response_submit :: "PreparedDeviceResponse \<Rightarrow> bytes \<Rightarrow> PreparedDeviceResponse" where
  "response_submit self signature =
     (if prepared_documents self = [] then self
      else self \<lparr> prepared_documents := butlast (prepared_documents self),
                  signed_documents := signed_documents self
                    @ [PreparedDocument_finalize (last (prepared_documents self)) signature] \<rparr>)"

definition complete_response :: "PreparedDeviceResponse \<Rightarrow> DeviceResponse" where
  "complete_response self =
     \<lparr> dr_version = DeviceResponse_VERSION, dr_documents = result_ok (NonEmptyVec_try_from (signed_documents self)),
       dr_document_errors = pdr_document_errors self, dr_status = pdr_status self \<rparr>"

definition finalize_response :: "PreparedDeviceResponse \<Rightarrow> DeviceResponse" where
  "finalize_response self =
     (if \<not> is_complete self then complete_response (PreparedDeviceResponse_empty StatusGeneralError)
      else complete_response self)"

definition sm_prepare_response :: "('sk, 'p, 'pk, 'k, 's) device_env \<Rightarrow> 'vi SessionManager \<Rightarrow> ItemsRequest list
    \<Rightarrow> PermittedItems \<Rightarrow> 'vi SessionManager" where
  "sm_prepare_response env self requests permitted =
     self \<lparr> sm_state := Signing (prepare_response (de_codec env) (sm_session_transcript self)
       (sm_device_auth_type self) (sm_documents self) requests permitted) \<rparr>"

definition get_next_signature_payload :: "'vi SessionManager \<Rightarrow> (uuid \<times> bytes) option" where
  "get_next_signature_payload self =
     (case sm_state self of Signing p \<Rightarrow> response_next_payload p | _ \<Rightarrow> None)"

text \<open>
  Submitting a signature. The state is taken out first, so a failure to encode leaves the manager
  awaiting a request. \<open>None\<close> is the panic of the two consistency checks on the encoding.
\<close>

definition encrypt_response :: "('sk, 'p, 'pk, 'k, 's) device_env \<Rightarrow> 'vi SessionManager \<Rightarrow> bytes
    \<Rightarrow> (unit + unit) \<times> 'vi SessionManager" where
  "encrypt_response env self response_bytes =
     (let (encrypted, counter) = encrypt_device_data (de_encrypt env) (sm_sk_device self) response_bytes
            (sm_device_message_counter self);
          self = self \<lparr> sm_device_message_counter := counter \<rparr>;
          session_data = (case encrypted of
              Inr ciphertext \<Rightarrow> \<lparr> sd_data = Some ciphertext, sd_status = None \<rparr>
            | Inl _ \<Rightarrow> \<lparr> sd_data = None, sd_status = Some SessionEncryptionError \<rparr>) in
      case de_encode_session_data env session_data of
        Inl e \<Rightarrow> (Inl e, self)
      | Inr encoded_response \<Rightarrow> (Inr (), self \<lparr> sm_state := ReadyToRespond encoded_response \<rparr>))"

definition submit_next_signature :: "('sk, 'p, 'pk, 'k, 's) device_env \<Rightarrow> 'vi SessionManager \<Rightarrow> bytes
    \<Rightarrow> ((unit + unit) \<times> 'vi SessionManager) option" where
  "submit_next_signature env self signature =
     (case sm_state self of
        Signing p0 \<Rightarrow>
          (let self = self \<lparr> sm_state := AwaitingRequest \<rparr>;
               p = response_submit p0 signature in
           if is_complete p then
             (let response = finalize_response p in
              case de_encode_response env response of
                Inl e \<Rightarrow> Some (Inl e, self)
              | Inr b \<Rightarrow>
                (case de_decode_response env b of
                   Inl _ \<Rightarrow> None
                 | Inr response2 \<Rightarrow>
                   (case de_encode_response env response2 of
                      Inl e \<Rightarrow> Some (Inl e, self)
                    | Inr bytes2 \<Rightarrow>
                        if b \<noteq> bytes2 then None else Some (encrypt_response env self b))))
           else Some (Inr (), self \<lparr> sm_state := Signing p \<rparr>))
      | _ \<Rightarrow> Some (Inr (), self))"

definition response_ready :: "'vi SessionManager \<Rightarrow> bool" where
  "response_ready self = (case sm_state self of ReadyToRespond _ \<Rightarrow> True | _ \<Rightarrow> False)"

definition retrieve_response :: "'vi SessionManager \<Rightarrow> bytes option \<times> 'vi SessionManager" where
  "retrieve_response self =
     (case sm_state self of
        ReadyToRespond r \<Rightarrow> (Some r, self \<lparr> sm_state := AwaitingRequest \<rparr>)
      | _ \<Rightarrow> (None, self))"

section \<open>Runs of a session\<close>

text \<open>
  A run is a sequence of calls to the public operations. The trace keeps the arguments of the calls
  that prepare a response: what was requested and what the holder permitted.
\<close>

inductive device_run :: "('sk, 'p, 'pk, 'k, 's) device_env \<Rightarrow> 'vi SessionManager
    \<Rightarrow> (ItemsRequest list \<times> PermittedItems) list \<Rightarrow> 'vi SessionManager \<Rightarrow> bool"
  for env and sm0 where
  start: "device_run env sm0 [] sm0"
| handle: "device_run env sm0 tr sm \<Longrightarrow> device_run env sm0 tr (snd (handle_request env now sm request))"
| prepare: "device_run env sm0 tr sm \<Longrightarrow>
    device_run env sm0 ((requests, permitted) # tr) (sm_prepare_response env sm requests permitted)"
| submit: "device_run env sm0 tr sm \<Longrightarrow> submit_next_signature env sm signature = Some (r, sm') \<Longrightarrow>
    device_run env sm0 tr sm'"
| retrieve: "device_run env sm0 tr sm \<Longrightarrow> device_run env sm0 tr (snd (retrieve_response sm))"

text \<open>What no call changes.\<close>

definition same_session :: "'vi SessionManager \<Rightarrow> 'vi SessionManager \<Rightarrow> bool" where
  "same_session a b \<longleftrightarrow> sm_documents a = sm_documents b \<and> sm_session_transcript a = sm_session_transcript b \<and>
     sm_sk_device a = sm_sk_device b \<and> sm_sk_reader a = sm_sk_reader b \<and>
     sm_trusted_verifiers a = sm_trusted_verifiers b \<and> sm_device_auth_type a = sm_device_auth_type b"

lemma handle_request_frame:
  "same_session (snd (handle_request env now sm request)) sm"
  "sm_device_message_counter (snd (handle_request env now sm request)) = sm_device_message_counter sm"
  "sm_state (snd (handle_request env now sm request)) = sm_state sm \<or>
   (\<exists>status. sm_state (snd (handle_request env now sm request)) = Signing (PreparedDeviceResponse_empty status))"
  by (auto simp: handle_request_def handle_decoded_request_def parse_request_def same_session_def Let_def
    result_simps case_prod_beta split: sum.splits option.splits)

lemma encrypt_response_frame:
  "same_session (snd (encrypt_response env sm b)) sm"
  "sm_reader_message_counter (snd (encrypt_response env sm b)) = sm_reader_message_counter sm"
  by (auto simp: encrypt_response_def same_session_def Let_def case_prod_beta split: sum.splits)

lemma same_session_trans: "same_session a b \<Longrightarrow> same_session b c \<Longrightarrow> same_session a c"
  by (simp add: same_session_def)

lemma same_session_state [simp]: "same_session (sm \<lparr> sm_state := s \<rparr>) sm" "same_session sm sm"
  by (simp_all add: same_session_def)

lemma submit_frame:
  assumes "submit_next_signature env sm signature = Some (r, sm')"
  shows "same_session sm' sm"
proof -
  have "same_session (snd (encrypt_response env (sm \<lparr> sm_state := AwaitingRequest \<rparr>) b)) sm" for b
    using encrypt_response_frame(1) same_session_state(1) by (rule same_session_trans)
  with assms show ?thesis
    by (auto simp: submit_next_signature_def Let_def split: State.splits if_splits sum.splits) (metis snd_conv)+
qed

text \<open>
  Where the documents of a response come from. A response carries a document when its encryption
  is the data of the encoded message.
\<close>

definition from_call :: "('sk, 'p, 'pk, 'k, 's) device_env \<Rightarrow> 'vi SessionManager
    \<Rightarrow> (ItemsRequest list \<times> PermittedItems) list \<Rightarrow> PreparedDocument \<Rightarrow> bool" where
  "from_call env sm tr pd \<longleftrightarrow>
     (\<exists>(requests, permitted) \<in> set tr. pd \<in> set (prepared_documents (prepare_response (de_codec env)
        (sm_session_transcript sm) (sm_device_auth_type sm) (sm_documents sm) requests permitted)))"

definition signed_from_call :: "('sk, 'p, 'pk, 'k, 's) device_env \<Rightarrow> 'vi SessionManager
    \<Rightarrow> (ItemsRequest list \<times> PermittedItems) list \<Rightarrow> ResponseDocument \<Rightarrow> bool" where
  "signed_from_call env sm tr rd \<longleftrightarrow> (\<exists>pd signature. from_call env sm tr pd \<and> rd = PreparedDocument_finalize pd signature)"

definition response_from_calls :: "('sk, 'p, 'pk, 'k, 's) device_env \<Rightarrow> 'vi SessionManager
    \<Rightarrow> (ItemsRequest list \<times> PermittedItems) list \<Rightarrow> PreparedDeviceResponse \<Rightarrow> bool" where
  "response_from_calls env sm tr p \<longleftrightarrow>
     (\<forall>pd \<in> set (prepared_documents p). from_call env sm tr pd) \<and>
     (\<forall>rd \<in> set (signed_documents p). signed_from_call env sm tr rd)"

definition encodes_response :: "('sk, 'p, 'pk, 'k, 's) device_env \<Rightarrow> bytes \<Rightarrow> bytes \<Rightarrow> DeviceResponse \<Rightarrow> bool" where
  "encodes_response env key message response \<longleftrightarrow>
     (\<exists>plaintext iv ciphertext. de_encode_response env response = Inr plaintext \<and>
        de_encrypt env key iv plaintext = Inr ciphertext \<and>
        de_encode_session_data env \<lparr> sd_data = Some ciphertext, sd_status = None \<rparr> = Inr message)"

definition state_from_calls :: "('sk, 'p, 'pk, 'k, 's) device_env \<Rightarrow> 'vi SessionManager
    \<Rightarrow> (ItemsRequest list \<times> PermittedItems) list \<Rightarrow> State \<Rightarrow> bool" where
  "state_from_calls env sm tr st \<longleftrightarrow>
     (case st of
        AwaitingRequest \<Rightarrow> True
      | Signing p \<Rightarrow> response_from_calls env sm tr p
      | ReadyToRespond message \<Rightarrow>
          de_encode_session_data env \<lparr> sd_data = None, sd_status = Some SessionEncryptionError \<rparr> = Inr message \<or>
          (\<exists>response. encodes_response env (sm_sk_device sm) message response \<and>
             (\<forall>rd \<in> set (or_empty (dr_documents response)). signed_from_call env sm tr rd)))"

lemma from_call_mono: "from_call env sm tr pd \<Longrightarrow> from_call env sm (call # tr) pd"
  by (auto simp: from_call_def)

lemma response_submit_from_calls:
  assumes "response_from_calls env sm tr p"
  shows "response_from_calls env sm tr (response_submit p signature)"
proof (cases "prepared_documents p = []")
  case False
  then have "from_call env sm tr (last (prepared_documents p))" using assms by (simp add: response_from_calls_def)
  then have signed: "signed_from_call env sm tr (PreparedDocument_finalize (last (prepared_documents p)) signature)"
    unfolding signed_from_call_def by blast
  with assms False show ?thesis
    by (auto simp: response_from_calls_def response_submit_def signed dest: in_set_butlastD)
qed (use assms in \<open>simp add: response_submit_def\<close>)

lemma complete_documents: "or_empty (dr_documents (complete_response p)) = signed_documents p"
  by (simp add: complete_response_def or_empty_def NonEmptyVec_try_from_def)

lemma encrypt_response_state:
  assumes "de_encode_response env response = Inr b" "encrypt_response env sm b = (r, sm')"
  shows "sm_state sm' = sm_state sm \<or> (\<exists>message. sm_state sm' = ReadyToRespond message \<and>
    (de_encode_session_data env \<lparr> sd_data = None, sd_status = Some SessionEncryptionError \<rparr> = Inr message \<or>
     encodes_response env (sm_sk_device sm) message response))"
proof -
  obtain e c where e: "encrypt_device_data (de_encrypt env) (sm_sk_device sm) b (sm_device_message_counter sm) = (e, c)"
    by fastforce
  then have "\<exists>iv. de_encrypt env (sm_sk_device sm) iv b = Inr ct" if "e = Inr ct" for ct
    using that by (auto simp: encrypt_device_data_def encrypt_Inr)
  with e assms show ?thesis
    by (cases e) (auto simp: encrypt_response_def encodes_response_def Let_def split: sum.splits)
qed

lemma submit_from_calls:
  assumes "state_from_calls env sm0 tr (sm_state sm)" "same_session sm sm0"
    and "submit_next_signature env sm signature = Some (r, sm')"
  shows "state_from_calls env sm0 tr (sm_state sm')"
proof (cases "sm_state sm")
  case (Signing p0)
  let ?p = "response_submit p0 signature" and ?awaiting = "sm \<lparr> sm_state := AwaitingRequest \<rparr>"
  have p: "response_from_calls env sm0 tr ?p"
    using assms(1) response_submit_from_calls by (auto simp: Signing state_from_calls_def)
  show ?thesis
  proof (cases "is_complete ?p \<and> sm_state sm' \<noteq> AwaitingRequest")
    case True
    let ?response = "complete_response ?p"
    from True assms(3) Signing obtain b where b: "de_encode_response env ?response = Inr b"
      "encrypt_response env ?awaiting b = (r, sm')"
      by (auto simp: submit_next_signature_def finalize_response_def Let_def split: sum.splits if_splits)
    have documents: "\<forall>rd \<in> set (or_empty (dr_documents ?response)). signed_from_call env sm0 tr rd"
      using p by (simp add: complete_documents response_from_calls_def)
    have "sm_sk_device ?awaiting = sm_sk_device sm0" using assms(2) by (simp add: same_session_def)
    with encrypt_response_state [OF b] True obtain message where "sm_state sm' = ReadyToRespond message"
      "de_encode_session_data env \<lparr> sd_data = None, sd_status = Some SessionEncryptionError \<rparr> = Inr message \<or>
       encodes_response env (sm_sk_device sm0) message ?response" by auto
    with documents show ?thesis unfolding state_from_calls_def by auto
  next
    case False
    with assms(3) Signing p show ?thesis
      by (auto simp: submit_next_signature_def state_from_calls_def Let_def split: sum.splits if_splits)
  qed
qed (use assms in \<open>auto simp: submit_next_signature_def\<close>)

lemma state_from_calls_mono:
  assumes "state_from_calls env sm tr st" shows "state_from_calls env sm (call # tr) st"
proof -
  have "signed_from_call env sm (call # tr) rd" if "signed_from_call env sm tr rd" for rd
    using that from_call_mono [of env sm tr _ call] unfolding signed_from_call_def by blast
  with assms from_call_mono [of env sm tr _ call] show ?thesis
    by (cases st) (auto simp: state_from_calls_def response_from_calls_def)
qed

lemma device_run_invariant:
  assumes "device_run env sm0 tr sm" "sm_state sm0 = AwaitingRequest"
  shows "same_session sm sm0 \<and> state_from_calls env sm0 tr (sm_state sm)"
  using assms
proof (induction rule: device_run.induct)
  case start
  then show ?case by (simp add: state_from_calls_def)
next
  case (handle tr sm now request)
  then show ?case
    using handle_request_frame [of env now sm request] same_session_trans
    by (auto simp: state_from_calls_def response_from_calls_def PreparedDeviceResponse_empty_def)
next
  case (prepare tr sm requests permitted)
  then show ?case
    by (auto simp: sm_prepare_response_def same_session_def state_from_calls_def response_from_calls_def
      from_call_def prepare_response_def case_prod_beta)
next
  case (submit tr sm signature r sm')
  then show ?case using submit_from_calls submit_frame same_session_trans by blast
next
  case (retrieve tr sm)
  then show ?case
    by (auto simp: retrieve_response_def same_session_def state_from_calls_def split: State.splits)
qed

section \<open>What leaves the device\<close>

definition document_disclosed :: "ResponseDocument \<Rightarrow> string \<Rightarrow> item_bytes list" where
  "document_disclosed rd ns = or_empty (Option.bind (isg_namespaces (rd_issuer_signed rd)) (\<lambda>m. bt_get m ns))"

lemma finalized_disclosed:
  "document_disclosed (PreparedDocument_finalize pd signature) ns = disclosed pd ns"
  "rd_doc_type (PreparedDocument_finalize pd signature) = pdoc_doc_type pd"
  by (simp_all add: document_disclosed_def disclosed_def PreparedDocument_finalize_def)

definition only_permitted :: "(ItemsRequest list \<times> PermittedItems) list \<Rightarrow> 'vi Documents \<Rightarrow> ResponseDocument \<Rightarrow> bool" where
  "only_permitted tr documents rd \<longleftrightarrow>
     (\<forall>ns. \<forall>item \<in> set (document_disclosed rd ns). \<exists>requests permitted e. (requests, permitted) \<in> set tr \<and>
        permits permitted (rd_doc_type rd) ns e \<and> asks_for requests (rd_doc_type rd) ns e \<and>
        held documents (rd_doc_type rd) ns e = Some item)"

lemma signed_only_permitted:
  assumes "signed_from_call env sm tr rd" "list_all (\<lambda>(requests, permitted). permitted_wf permitted) tr"
  shows "only_permitted tr (sm_documents sm) rd"
proof -
  obtain pd signature requests permitted where call: "(requests, permitted) \<in> set tr"
    "pd \<in> set (prepared_documents (prepare_response (de_codec env) (sm_session_transcript sm)
      (sm_device_auth_type sm) (sm_documents sm) requests permitted))"
    and rd: "rd = PreparedDocument_finalize pd signature"
    using assms(1) unfolding signed_from_call_def from_call_def by blast
  have "permitted_wf permitted" using assms(2) call(1) by (auto simp: list_all_iff)
  from prepared_items [OF this call(2)] call(1) show ?thesis
    unfolding only_permitted_def rd finalized_disclosed by blast
qed

text \<open>C2. Whatever sequence of calls is made on a session that starts out awaiting a request, a
  message that is ready to be sent is either the report of an encryption failure or the encryption,
  under the device's key, of a response. Every item in such a response was permitted by the holder
  and requested, in one and the same call that prepared a response, and is the item the holder's
  document has under that element.\<close>

theorem nothing_unpermitted_leaves:
  assumes "device_run env sm0 tr sm" "sm_state sm0 = AwaitingRequest"
    and "list_all (\<lambda>(requests, permitted). permitted_wf permitted) tr"
    and "sm_state sm = ReadyToRespond message"
  shows "de_encode_session_data env \<lparr> sd_data = None, sd_status = Some SessionEncryptionError \<rparr> = Inr message \<or>
    (\<exists>response. encodes_response env (sm_sk_device sm0) message response \<and>
      list_all (only_permitted tr (sm_documents sm0)) (or_empty (dr_documents response)))"
proof -
  have "state_from_calls env sm0 tr (ReadyToRespond message)"
    using device_run_invariant [OF assms(1,2)] assms(4) by simp
  with signed_only_permitted [OF _ assms(3)] show ?thesis
    unfolding state_from_calls_def State.case list_all_iff by blast
qed

section \<open>Signing\<close>

text \<open>Submitting several signatures, stopping at the first error.\<close>

fun submit_signatures :: "('sk, 'p, 'pk, 'k, 's) device_env \<Rightarrow> 'vi SessionManager \<Rightarrow> bytes list
    \<Rightarrow> ((unit + unit) \<times> 'vi SessionManager) option" where
  "submit_signatures env sm [] = Some (Inr (), sm)"
| "submit_signatures env sm (signature # rest) =
     (case submit_next_signature env sm signature of
        Some (Inr _, sm') \<Rightarrow> submit_signatures env sm' rest
      | failure \<Rightarrow> failure)"

definition signed_response :: "PreparedDeviceResponse \<Rightarrow> bytes list \<Rightarrow> PreparedDeviceResponse" where
  "signed_response p signatures = p \<lparr> prepared_documents := [],
     signed_documents := signed_documents p @ map2 PreparedDocument_finalize (rev (prepared_documents p)) signatures \<rparr>"

lemma response_submit_snoc:
  "prepared_documents p = ds @ [d] \<Longrightarrow> response_submit p signature =
     p \<lparr> prepared_documents := ds, signed_documents := signed_documents p @ [PreparedDocument_finalize d signature] \<rparr>"
  by (simp add: response_submit_def)

lemma signed_response_step:
  assumes "prepared_documents p = ds @ [d]"
  shows "signed_response (response_submit p signature) rest = signed_response p (signature # rest)"
  using assms by (simp add: signed_response_def response_submit_snoc)

text \<open>The encoding of a response can be read back and written again to the same bytes, which is what
  the two consistency checks of the code ask of it.\<close>

definition re_encodes :: "('sk, 'p, 'pk, 'k, 's) device_env \<Rightarrow> DeviceResponse \<Rightarrow> bool" where
  "re_encodes env response \<longleftrightarrow>
     (case de_encode_response env response of
        Inl _ \<Rightarrow> False
      | Inr b \<Rightarrow> (case de_decode_response env b of
          Inl _ \<Rightarrow> False | Inr response2 \<Rightarrow> de_encode_response env response2 = Inr b))"

definition message_of :: "('sk, 'p, 'pk, 'k, 's) device_env \<Rightarrow> bytes \<Rightarrow> bytes \<Rightarrow> DeviceResponse \<Rightarrow> bool" where
  "message_of env key message response \<longleftrightarrow>
     de_encode_session_data env \<lparr> sd_data = None, sd_status = Some SessionEncryptionError \<rparr> = Inr message \<or>
     encodes_response env key message response"

lemma encrypt_response_total:
  assumes "\<And>sd. \<exists>b. de_encode_session_data env sd = Inr b" "de_encode_response env response = Inr b"
    and "sm_state sm = AwaitingRequest"
  shows "\<exists>message sm'. encrypt_response env sm b = (Inr (), sm') \<and> sm_state sm' = ReadyToRespond message \<and>
    message_of env (sm_sk_device sm) message response"
proof -
  obtain e c where e: "encrypt_device_data (de_encrypt env) (sm_sk_device sm) b (sm_device_message_counter sm) = (e, c)"
    by fastforce
  obtain encoded where "de_encode_session_data env
      (case e of Inr ct \<Rightarrow> \<lparr> sd_data = Some ct, sd_status = None \<rparr>
        | Inl _ \<Rightarrow> \<lparr> sd_data = None, sd_status = Some SessionEncryptionError \<rparr>) = Inr encoded"
    using assms(1) by blast
  with e have "\<exists>sm'. encrypt_response env sm b = (Inr (), sm') \<and> sm_state sm' = ReadyToRespond encoded"
    by (simp add: encrypt_response_def Let_def)
  then obtain sm' where sm': "encrypt_response env sm b = (Inr (), sm')" "sm_state sm' = ReadyToRespond encoded" by blast
  with encrypt_response_state [OF assms(2) sm'(1)] assms(3) show ?thesis unfolding message_of_def by auto
qed

lemma submit_last:
  assumes "\<And>sd. \<exists>b. de_encode_session_data env sd = Inr b" "re_encodes env (complete_response (response_submit p signature))"
    and "sm_state sm = Signing p" "is_complete (response_submit p signature)"
  shows "\<exists>message sm'. submit_next_signature env sm signature = Some (Inr (), sm') \<and> sm_state sm' = ReadyToRespond message \<and>
    message_of env (sm_sk_device sm) message (complete_response (response_submit p signature))"
proof -
  obtain b response2 where b: "de_encode_response env (complete_response (response_submit p signature)) = Inr b"
    "de_decode_response env b = Inr response2" "de_encode_response env response2 = Inr b"
    using assms(2) by (auto simp: re_encodes_def split: sum.splits)
  then have "submit_next_signature env sm signature = Some (encrypt_response env (sm \<lparr> sm_state := AwaitingRequest \<rparr>) b)"
    using assms(3,4) by (simp add: submit_next_signature_def finalize_response_def)
  with encrypt_response_total [OF assms(1) b(1), of "sm \<lparr> sm_state := AwaitingRequest \<rparr>"] show ?thesis by auto
qed

lemma signatures_reach_response:
  assumes "\<And>sd. \<exists>b. de_encode_session_data env sd = Inr b"
    and "sm_state sm = Signing p" "prepared_documents p \<noteq> []" "length signatures = length (prepared_documents p)"
    and "re_encodes env (complete_response (signed_response p signatures))"
  shows "\<exists>message sm'. submit_signatures env sm signatures = Some (Inr (), sm') \<and> sm_state sm' = ReadyToRespond message \<and>
    message_of env (sm_sk_device sm) message (complete_response (signed_response p signatures))"
  using assms(2-)
proof (induction signatures arbitrary: sm p)
  case (Cons signature rest)
  then obtain ds d where snoc: "prepared_documents p = ds @ [d]" by (metis rev_exhaust)
  note step = signed_response_step [OF snoc, of signature rest]
  let ?p = "response_submit p signature"
  have ds: "prepared_documents ?p = ds" by (simp add: response_submit_snoc [OF snoc])
  show ?case
  proof (cases ds)
    case Nil
    with Cons.prems(3) snoc have "rest = []" by simp
    with Nil snoc have same: "signed_response p (signature # rest) = ?p"
      by (simp add: signed_response_def response_submit_snoc)
    from submit_last [OF assms(1) _ Cons.prems(1), of signature] Cons.prems(4) Nil ds show ?thesis
      unfolding same by (auto simp: is_complete_def \<open>rest = []\<close>)
  next
    case (Cons x xs)
    with ds have pending: "submit_next_signature env sm signature = Some (Inr (), sm \<lparr> sm_state := Signing ?p \<rparr>)"
      using Cons.prems(1) by (simp add: submit_next_signature_def is_complete_def)
    have "re_encodes env (complete_response (signed_response ?p rest))" using Cons.prems(4) step by simp
    from Cons.IH [of "sm \<lparr> sm_state := Signing ?p \<rparr>" ?p, OF _ _ _ this] ds Cons Cons.prems(3) snoc show ?thesis
      by (simp add: pending step)
  qed
qed simp

text \<open>C17. Once a response with at least one document has been prepared, submitting one signature per
  prepared document makes a message ready: the last document offered is finalised with the first
  signature and so on, the message is the report of an encryption failure or the encryption of the
  response with exactly these documents, and retrieving it returns it and awaits the next request.
  This asks that session data can be encoded and that the response's encoding reads back.\<close>

theorem signing_completes:
  assumes "\<And>sd. \<exists>b. de_encode_session_data env sd = Inr b"
    and "sm_state sm = Signing p" "prepared_documents p \<noteq> []" "length signatures = length (prepared_documents p)"
    and "re_encodes env (complete_response (signed_response p signatures))"
  shows "\<exists>message sm'. submit_signatures env sm signatures = Some (Inr (), sm') \<and> response_ready sm' \<and>
    message_of env (sm_sk_device sm) message (complete_response (signed_response p signatures)) \<and>
    retrieve_response sm' = (Some message, sm' \<lparr> sm_state := AwaitingRequest \<rparr>)"
proof -
  obtain message sm' where "submit_signatures env sm signatures = Some (Inr (), sm')" "sm_state sm' = ReadyToRespond message"
    "message_of env (sm_sk_device sm) message (complete_response (signed_response p signatures))"
    using signatures_reach_response [OF assms] by blast
  then show ?thesis by (auto simp: response_ready_def retrieve_response_def)
qed

text \<open>C18. A request that decrypts but cannot be decoded leaves the device in a signing state that
  offers nothing to sign and is not ready to respond, while the outcome returned to the caller has
  no request, no error and an unchecked reader: a caller that signs while there is a payload to sign
  never sees the error response, which only a signature that nothing asked for brings about.\<close>

theorem undecodable_request_silent:
  assumes "de_decode_session_data env request = Inr \<lparr> sd_data = Some data, sd_status = status \<rparr>"
    and "decrypt_reader_data (de_decrypt env) (sm_sk_reader sm) data (sm_reader_message_counter sm) = (Inr plaintext, n)"
    and "parse_request env plaintext = Inl p"
  shows "fst (handle_request env now sm request) = RequestAuthenticationOutcome_default \<and>
    get_next_signature_payload (snd (handle_request env now sm request)) = None \<and>
    \<not> response_ready (snd (handle_request env now sm request)) \<and>
    ((\<forall>sd. \<exists>b. de_encode_session_data env sd = Inr b) \<and> re_encodes env (complete_response p) \<longrightarrow>
     (\<exists>sm'. submit_next_signature env (snd (handle_request env now sm request)) [] = Some (Inr (), sm') \<and> response_ready sm'))"
proof -
  let ?sm = "sm \<lparr> sm_reader_message_counter := n, sm_state := Signing p \<rparr>"
  have handled: "handle_request env now sm request = (RequestAuthenticationOutcome_default, ?sm)"
    using assms by (simp add: handle_request_def handle_decoded_request_def)
  have p: "prepared_documents p = []"
    using assms(3) by (auto simp: parse_request_def PreparedDeviceResponse_empty_def result_simps)
  then have same: "response_submit p [] = p" by (simp add: response_submit_def)
  have "\<exists>sm'. submit_next_signature env ?sm [] = Some (Inr (), sm') \<and> response_ready sm'"
    if "\<forall>sd. \<exists>b. de_encode_session_data env sd = Inr b" "re_encodes env (complete_response p)"
    using submit_last [of env p "[]" ?sm] that p same by (auto simp: is_complete_def response_ready_def)
  with p show ?thesis
    by (simp add: handled get_next_signature_payload_def response_next_payload_def response_ready_def)
qed

text \<open>The reader's authentication covers the first document request only.\<close>

lemma later_requests_unauthenticated:
  "ro_items_request (validate_request env now sm (request \<lparr> dreq_doc_requests := d # ds \<rparr>)) =
     map (\<lambda>d. tag24_inner (dq_items_request d)) (d # ds)"
  "ro_reader_authentication (validate_request env now sm (request \<lparr> dreq_doc_requests := d # ds \<rparr>)) =
     (if rao_errors (reader_authentication env now sm d) = [] then Valid else Invalid)"
  by (simp_all add: validate_request_def Let_def RequestAuthenticationOutcome_default_def)

section \<open>A concrete session\<close>

text \<open>A package in which every codec is a small concrete function and the cipher prepends its nonce.\<close>

definition sample_x509 :: "(nat, nat) x509_ops" where
  "sample_x509 =
     \<lparr> x_decode_oid = (\<lambda>_. None), x_from_sec1 = (\<lambda>_ b. Some (length b)), x_decode_str = (\<lambda>_ _. None),
       x_oid_name = (\<lambda>_. None), x_signature_from_der = (\<lambda>b. Some (length b)), x_tbs_to_der = (\<lambda>_. None),
       x_sha256 = (\<lambda>b. b), x_sha1 = (\<lambda>b. b), x_verify_prehashed = (\<lambda>k b s. length b = s),
       x_ski_from_der = Some, x_aki_from_der = (\<lambda>b. Some (Some b)), x_key_usage_from_der = (\<lambda>_. None),
       x_eku_from_der = (\<lambda>_. None), x_basic_constraints_from_der = (\<lambda>_. None),
       x_crl_points_from_der = (\<lambda>_. None), x_issuer_alt_name_from_der = (\<lambda>_. None) \<rparr>"

definition sample_empty_response :: DeviceResponse where
  "sample_empty_response = complete_response (PreparedDeviceResponse_empty StatusOK)"

definition sample_env :: "(nat, bytes, bytes, nat, nat) device_env" where
  "sample_env =
     \<lparr> de_compress = (\<lambda>state _. state), de_codec = sample_device_codec,
       de_encode_key = (\<lambda>_. Inr []), de_encode_engagement = (\<lambda>_. Inr []), de_encode_transcript = (\<lambda>_. Inr []),
       de_encode_reader_authentication = (\<lambda>_. Inr []),
       de_encode_response = (\<lambda>r. Inr [of_nat (length (or_empty (dr_documents r)))]),
       de_decode_response = (\<lambda>b. Inr (sample_empty_response \<lparr> dr_documents := Some (replicate (unat (hd b))
          (PreparedDocument_finalize (hd (prepared_documents sample_response)) [])) \<rparr>)),
       de_encode_session_data = (\<lambda>sd. Inr (case sd_data sd of Some d \<Rightarrow> 0 # d | None \<Rightarrow> [1])),
       de_decode_session_data = (\<lambda>b. Inr \<lparr> sd_data = Some b, sd_status = None \<rparr>),
       de_decode_value = (\<lambda>b. if b = [] then Inl () else Inr (VBytes b)), de_request_from_value = (\<lambda>_. Inl ()),
       de_base64 = (\<lambda>_. []), de_encoded_point = (\<lambda>_. []), de_point_x = Some, de_point_y = Some,
       de_point_from_bytes = Inr, de_public_key = Some, de_diffie_hellman = (\<lambda>_ b. b),
       de_encrypt = (\<lambda>_ iv pt. Inr (iv @ pt)), de_decrypt = (\<lambda>_ iv ct. if take 12 ct = iv then Inr (drop 12 ct) else Inl ()),
       de_x509 = sample_x509, de_certificate_from_der = (\<lambda>_. None), de_signature_from_bytes = (\<lambda>b. Some (length b)) \<rparr>"

definition sample_awaiting :: "unit SessionManager" where
  "sample_awaiting =
     \<lparr> sm_documents = [(''d'', sample_document)],
       sm_session_transcript = SessionTranscript180135 \<lparr> tag24_inner = sample_engagement, tag24_inner_bytes = [] \<rparr>
         \<lparr> tag24_inner = sample_key, tag24_inner_bytes = [] \<rparr> QR,
       sm_sk_device = sample_session_key, sm_device_message_counter = 0, sm_sk_reader = sample_session_key,
       sm_reader_message_counter = 0, sm_state = AwaitingRequest, sm_trusted_verifiers = \<lparr> anchors = [] \<rparr>,
       sm_device_auth_type = Sign1 \<rparr>"

definition sample_signing :: "unit SessionManager" where
  "sample_signing = sm_prepare_response sample_env sample_awaiting [sample_request] sample_permitted"

definition sample_ready :: "unit SessionManager" where
  "sample_ready = snd (the (submit_next_signature sample_env sample_signing [9]))"

definition sample_message :: bytes where
  "sample_message = (case sm_state sample_ready of ReadyToRespond message \<Rightarrow> message | _ \<Rightarrow> [])"

lemma sample_message_value: "sample_message = [0, 0,0,0,0,0,0,0,1, 0,0,0,1, 1]" by code_simp

lemma sample_run: "device_run sample_env sample_awaiting [([sample_request], sample_permitted)] sample_ready"
proof -
  have "submit_next_signature sample_env sample_signing [9] \<noteq> None" by code_simp
  then obtain r where "submit_next_signature sample_env sample_signing [9] = Some (r, sample_ready)"
    unfolding sample_ready_def by fastforce
  with device_run.prepare [OF device_run.start] show ?thesis
    unfolding sample_signing_def by (rule device_run.submit)
qed

theorem nothing_unpermitted_leaves_witness:
  "\<exists>response. encodes_response sample_env sample_session_key sample_message response \<and>
     list_all (only_permitted [([sample_request], sample_permitted)] [(''d'', sample_document)])
       (or_empty (dr_documents response))"
proof -
  have "sm_state sample_ready = ReadyToRespond sample_message" by code_simp
  from nothing_unpermitted_leaves [OF sample_run _ _ this] show ?thesis
    by (simp add: sample_awaiting_def sample_permitted_wf sample_message_value sample_env_def)
qed

theorem signing_completes_witness:
  "\<exists>message sm'. submit_signatures sample_env sample_signing [[9]] = Some (Inr (), sm') \<and> response_ready sm' \<and>
     retrieve_response sm' = (Some message, sm' \<lparr> sm_state := AwaitingRequest \<rparr>)"
proof -
  let ?p = "case sm_state sample_signing of Signing p \<Rightarrow> p | _ \<Rightarrow> PreparedDeviceResponse_empty StatusOK"
  have "sm_state sample_signing = Signing ?p" by code_simp
  moreover have "prepared_documents ?p \<noteq> []" by code_simp
  moreover have "length [[9 :: u8]] = length (prepared_documents ?p)" by code_simp
  moreover have "re_encodes sample_env (complete_response (signed_response ?p [[9]]))" by code_simp
  moreover have "\<exists>b. de_encode_session_data sample_env sd = Inr b" for sd by (simp add: sample_env_def)
  ultimately show ?thesis using signing_completes [of sample_env sample_signing ?p "[[9]]"] by blast
qed

theorem undecodable_request_silent_witness:
  "fst (handle_request sample_env 0 sample_awaiting [0,0,0,0,0,0,0,0, 0,0,0,1]) = RequestAuthenticationOutcome_default \<and>
   \<not> response_ready (snd (handle_request sample_env 0 sample_awaiting [0,0,0,0,0,0,0,0, 0,0,0,1]))"
proof -
  let ?data = "[0,0,0,0,0,0,0,0, 0,0,0,1]"
  have "de_decode_session_data sample_env ?data = Inr \<lparr> sd_data = Some ?data, sd_status = None \<rparr>"
    by (simp add: sample_env_def)
  moreover have "decrypt_reader_data (de_decrypt sample_env) (sm_sk_reader sample_awaiting) ?data
      (sm_reader_message_counter sample_awaiting) = (Inr [], 1)" by code_simp
  moreover have "parse_request sample_env [] = Inl (PreparedDeviceResponse_empty StatusCborDecodingError)" by code_simp
  ultimately show ?thesis using undecodable_request_silent by blast
qed

end
