(* ===== verification/Cbor_Encoding.thy ===== *)
theory Cbor_Encoding
  imports Cbor_Value
begin

text \<open>
  The encoding of CBOR values in bytes as RFC 8949 specifies it, written from the standard and not
  from the crate: deterministic heads of shortest length, definite lengths, doubles in eight bytes.
  It is what the promises about the CBOR package are stated with, and its encoder and decoder are
  the packages the contracts of a presentation are instantiated with. Texts are their UTF-8 bytes.
\<close>

section \<open>Heads\<close>

text \<open>The \<open>k\<close> bytes of a number, most significant first, and the number of such bytes.\<close>

definition be_nat :: "nat \<Rightarrow> nat \<Rightarrow> bytes" where
  "be_nat k n = map (\<lambda>i. of_nat (n div 256 ^ (k - 1 - i) mod 256)) [0..<k]"

definition nat_be :: "bytes \<Rightarrow> nat" where
  "nat_be b = foldl (\<lambda>n w. 256 * n + unat w) 0 b"

definition cbor_head :: "nat \<Rightarrow> nat \<Rightarrow> bytes" where
  "cbor_head major n =
     (if n < 24 then [of_nat (32 * major + n)]
      else if n < 2 ^ 8 then of_nat (32 * major + 24) # be_nat 1 n
      else if n < 2 ^ 16 then of_nat (32 * major + 25) # be_nat 2 n
      else if n < 2 ^ 32 then of_nat (32 * major + 26) # be_nat 4 n
      else of_nat (32 * major + 27) # be_nat 8 n)"

definition take_exactly :: "nat \<Rightarrow> bytes \<Rightarrow> (bytes \<times> bytes) option" where
  "take_exactly n b = (if length b < n then None else Some (take n b, drop n b))"

text \<open>The major type, the additional information, the argument and what follows.\<close>

fun read_head :: "bytes \<Rightarrow> (nat \<times> nat \<times> nat \<times> bytes) option" where
  "read_head [] = None"
| "read_head (b # rest) =
     (let major = unat b div 32; info = unat b mod 32;
          argument = (\<lambda>k. map_option (\<lambda>(x, rest). (major, info, nat_be x, rest)) (take_exactly k rest)) in
      if info < 24 then Some (major, info, info, rest)
      else if info = 24 then argument 1 else if info = 25 then argument 2
      else if info = 26 then argument 4 else if info = 27 then argument 8 else None)"

lemma be_nat_simps:
  "be_nat (Suc 0) n = [of_nat (n mod 256)]"
  "be_nat 2 n = [of_nat (n div 256 mod 256), of_nat (n mod 256)]"
  "be_nat 4 n = [of_nat (n div 256 ^ 3 mod 256), of_nat (n div 256 ^ 2 mod 256), of_nat (n div 256 mod 256), of_nat (n mod 256)]"
  "be_nat 8 n = [of_nat (n div 256 ^ 7 mod 256), of_nat (n div 256 ^ 6 mod 256), of_nat (n div 256 ^ 5 mod 256),
     of_nat (n div 256 ^ 4 mod 256), of_nat (n div 256 ^ 3 mod 256), of_nat (n div 256 ^ 2 mod 256),
     of_nat (n div 256 mod 256), of_nat (n mod 256)]"
  by (simp_all add: be_nat_def upt_rec)

lemma length_be_nat [simp]: "length (be_nat k n) = k"
  by (simp add: be_nat_def)

lemma be_nat_Suc: "be_nat (Suc k) n = be_nat k (n div 256) @ [of_nat (n mod 256)]"
proof -
  have "n div 256 ^ (Suc k - 1 - i) = n div 256 div 256 ^ (k - 1 - i)" if "i < k" for i
  proof -
    have "Suc k - 1 - i = Suc (k - 1 - i)" using that by simp
    then show ?thesis by (simp add: div_mult2_eq)
  qed
  then show ?thesis by (simp add: be_nat_def)
qed

lemma nat_be_snoc: "nat_be (b @ [w]) = 256 * nat_be b + unat w"
  by (simp add: nat_be_def)

lemma nat_be_be_nat: "n < 256 ^ k \<Longrightarrow> nat_be (be_nat k n) = n"
proof (induction k arbitrary: n)
  case 0
  then show ?case by (simp add: be_nat_def nat_be_def)
next
  case (Suc k)
  have byte: "unat (of_nat (n mod 256) :: u8) = n mod 256"
    by (simp add: unsigned_of_nat take_bit_eq_mod)
  have "n div 256 < 256 ^ k" using Suc.prems by (simp add: less_mult_imp_div_less mult.commute)
  then have "nat_be (be_nat k (n div 256)) = n div 256" by (rule Suc.IH)
  then show ?case unfolding be_nat_Suc nat_be_snoc byte by simp
qed

lemma take_exactly_append: "length b = n \<Longrightarrow> take_exactly n (b @ rest) = Some (b, rest)"
  by (simp add: take_exactly_def)

lemma read_head_head:
  assumes "major < 8" "n < 2 ^ 64"
  shows "\<exists>info. read_head (cbor_head major n @ rest) = Some (major, info, n, rest)"
proof -
  have byte: "unat (of_nat (32 * major + k) :: u8) = 32 * major + k" if "k < 32" for k
    using that assms(1) by (simp add: unsigned_of_nat take_bit_eq_mod del: of_nat_add of_nat_mult)
  have parts: "(32 * major + k) div 32 = major" "(32 * major + k) mod 32 = k" if "k < 32" for k
    using that by simp_all
  note step = byte parts nat_be_be_nat take_exactly_append
  consider "n < 24" | "24 \<le> n" "n < 2 ^ 8" | "2 ^ 8 \<le> n" "n < 2 ^ 16" | "2 ^ 16 \<le> n" "n < 2 ^ 32" | "2 ^ 32 \<le> n"
    by linarith
  then show ?thesis
  proof cases
    case 1
    then show ?thesis using step by (simp add: cbor_head_def Let_def del: of_nat_add of_nat_mult)
  next
    case 2
    then show ?thesis using step by (simp add: cbor_head_def Let_def del: of_nat_add of_nat_mult)
  next
    case 3
    then show ?thesis using step by (simp add: cbor_head_def Let_def del: of_nat_add of_nat_mult)
  next
    case 4
    then show ?thesis using step by (simp add: cbor_head_def Let_def del: of_nat_add of_nat_mult)
  next
    case 5
    then show ?thesis using step assms(2) by (simp add: cbor_head_def Let_def del: of_nat_add of_nat_mult)
  qed
qed

section \<open>Values\<close>

fun cbor_write :: "Value \<Rightarrow> bytes" where
  "cbor_write (VInteger i) = (if 0 \<le> i then cbor_head 0 (nat i) else cbor_head 1 (nat (- 1 - i)))"
| "cbor_write (VBytes b) = cbor_head 2 (length b) @ b"
| "cbor_write (VText s) = cbor_head 3 (length s) @ map of_char s"
| "cbor_write (VArray vs) = cbor_head 4 (length vs) @ concat (map cbor_write vs)"
| "cbor_write (VMap m) = cbor_head 5 (length m) @ concat (map (\<lambda>(k, v). cbor_write k @ cbor_write v) m)"
| "cbor_write (VTag t v) = cbor_head 6 (unat t) @ cbor_write v"
| "cbor_write (VBool b) = [if b then 0xf5 else 0xf4]"
| "cbor_write VNull = [0xf6]"
| "cbor_write (VFloat f) = 0xfb # be_nat 8 (unat f)"

text \<open>The values that have an encoding: integers of 65 bits with sign and lengths of 64 bits.\<close>

fun cbor_ok :: "Value \<Rightarrow> bool" where
  "cbor_ok (VInteger i) = (- (2 ^ 64) \<le> i \<and> i < 2 ^ 64)"
| "cbor_ok (VBytes b) = (length b < 2 ^ 64)"
| "cbor_ok (VText s) = (length s < 2 ^ 64)"
| "cbor_ok (VArray vs) = (length vs < 2 ^ 64 \<and> list_all cbor_ok vs)"
| "cbor_ok (VMap m) = (length m < 2 ^ 64 \<and> list_all (\<lambda>(k, v). cbor_ok k \<and> cbor_ok v) m)"
| "cbor_ok (VTag t v) = cbor_ok v"
| "cbor_ok _ = True"

definition cbor_encode :: "Value \<Rightarrow> unit + bytes" where
  "cbor_encode v = (if cbor_ok v then Inr (cbor_write v) else Inl ())"

fun read_many :: "(bytes \<Rightarrow> ('a \<times> bytes) option) \<Rightarrow> nat \<Rightarrow> bytes \<Rightarrow> ('a list \<times> bytes) option" where
  "read_many read 0 b = Some ([], b)"
| "read_many read (Suc n) b =
     Option.bind (read b) (\<lambda>(x, b). map_option (\<lambda>(xs, b). (x # xs, b)) (read_many read n b))"

definition read_pair :: "(bytes \<Rightarrow> ('a \<times> bytes) option) \<Rightarrow> bytes \<Rightarrow> (('a \<times> 'a) \<times> bytes) option" where
  "read_pair read b = Option.bind (read b) (\<lambda>(k, b). map_option (\<lambda>(v, b). ((k, v), b)) (read b))"

text \<open>The first argument bounds the nesting.\<close>

fun cbor_read :: "nat \<Rightarrow> bytes \<Rightarrow> (Value \<times> bytes) option" where
  "cbor_read 0 b = None"
| "cbor_read (Suc depth) b =
     Option.bind (read_head b) (\<lambda>(major, info, n, rest).
       if major = 0 then Some (VInteger (int n), rest)
       else if major = 1 then Some (VInteger (- 1 - int n), rest)
       else if major = 2 then map_option (\<lambda>(x, rest). (VBytes x, rest)) (take_exactly n rest)
       else if major = 3 then map_option (\<lambda>(x, rest). (VText (map (\<lambda>w. char_of (unat w)) x), rest)) (take_exactly n rest)
       else if major = 4 then map_option (\<lambda>(vs, rest). (VArray vs, rest)) (read_many (cbor_read depth) n rest)
       else if major = 5 then map_option (\<lambda>(m, rest). (VMap m, rest)) (read_many (read_pair (cbor_read depth)) n rest)
       else if major = 6 then map_option (\<lambda>(v, rest). (VTag (of_nat n) v, rest)) (cbor_read depth rest)
       else if info = 20 then Some (VBool False, rest) else if info = 21 then Some (VBool True, rest)
       else if info = 22 then Some (VNull, rest) else if info = 27 then Some (VFloat (of_nat n), rest) else None)"

definition cbor_decode :: "bytes \<Rightarrow> unit + Value" where
  "cbor_decode b = (case cbor_read (length b) b of Some (v, []) \<Rightarrow> Inr v | _ \<Rightarrow> Inl ())"

section \<open>What is written is read back\<close>

fun cbor_depth :: "Value \<Rightarrow> nat" where
  "cbor_depth (VArray vs) = Suc (foldr max (map cbor_depth vs) 0)"
| "cbor_depth (VMap m) = Suc (foldr max (map (\<lambda>(k, v). max (cbor_depth k) (cbor_depth v)) m) 0)"
| "cbor_depth (VTag t v) = Suc (cbor_depth v)"
| "cbor_depth _ = 1"

lemma foldr_max_le: "foldr max ns (0 :: nat) \<le> d \<longleftrightarrow> (\<forall>n \<in> set ns. n \<le> d)"
  by (induction ns) auto

lemma read_many_written:
  assumes "\<And>x rest. x \<in> set xs \<Longrightarrow> read (wr x @ rest) = Some (x, rest)"
  shows "read_many read (length xs) (concat (map wr xs) @ rest) = Some (xs, rest)"
  using assms by (induction xs) simp_all

lemma unat_of_char: "unat (of_char c :: u8) = of_char c"
proof -
  have "(of_char c :: u8) = of_nat (of_char c)" by (simp only: of_nat_of_char)
  moreover have "(of_char c :: nat) < 256" by (rule nat_of_char_less_256)
  ultimately show ?thesis by (simp add: unsigned_of_nat take_bit_eq_mod del: of_nat_of_char)
qed

lemma text_read_back: "map (\<lambda>w. char_of (unat w)) (map of_char s :: bytes) = s"
  by (simp add: comp_def unat_of_char)

lemma head_7: "read_head (0xf4 # rest) = Some (7, 20, 20, rest)" "read_head (0xf5 # rest) = Some (7, 21, 21, rest)"
  "read_head (0xf6 # rest) = Some (7, 22, 22, rest)"
  by simp_all

lemma float_head: "read_head (0xfb # be_nat 8 (unat f) @ rest) = Some (7, 27, unat f, rest)" for f :: u64
  using nat_be_be_nat [of "unat f" 8] unsigned_less [of f, where ?'a = nat]
  by (simp add: Let_def take_exactly_append)

lemma cbor_read_written:
  "cbor_ok v \<Longrightarrow> cbor_depth v \<le> depth \<Longrightarrow> cbor_read depth (cbor_write v @ rest) = Some (v, rest)"
proof (induction v arbitrary: depth rest rule: cbor_write.induct)
  case (1 i)
  then obtain d where d: "depth = Suc d" by (cases depth) auto
  show ?case
  proof (cases "0 \<le> i")
    case True
    with 1 have "nat i < 2 ^ 64" by simp
    with True read_head_head [of 0 "nat i" rest] show ?thesis by (auto simp: d)
  next
    case False
    with 1 have "nat (- 1 - i) < 2 ^ 64" by simp
    with False read_head_head [of 1 "nat (- 1 - i)" rest] show ?thesis by (auto simp: d)
  qed
next
  case (2 b)
  then obtain d where d: "depth = Suc d" by (cases depth) auto
  from 2 read_head_head [of 2 "length b" "b @ rest"] show ?case by (auto simp: d take_exactly_append)
next
  case (3 s)
  then obtain d where d: "depth = Suc d" by (cases depth) auto
  from 3 read_head_head [of 3 "length s" "map of_char s @ rest"] show ?case
    by (auto simp: d take_exactly_append text_read_back simp del: map_map)
next
  case (4 vs)
  then obtain d where d: "depth = Suc d" by (cases depth) auto
  have "read_many (cbor_read d) (length vs) (concat (map cbor_write vs) @ rest) = Some (vs, rest)"
    using 4 by (intro read_many_written 4) (auto simp: d foldr_max_le list_all_iff)
  with 4 read_head_head [of 4 "length vs" "concat (map cbor_write vs) @ rest"] show ?case by (auto simp: d)
next
  case (5 m)
  then obtain d where d: "depth = Suc d" by (cases depth) auto
  let ?wr = "\<lambda>(k, v). cbor_write k @ cbor_write v"
  have "read_pair (cbor_read d) (?wr p @ rest') = Some (p, rest')" if "p \<in> set m" for p rest'
  proof -
    obtain k v where p: "p = (k, v)" by (cases p)
    with that 5(3,4) have "cbor_ok k" "cbor_ok v" "cbor_depth k \<le> d" "cbor_depth v \<le> d"
      by (auto simp: d foldr_max_le list_all_iff)
    with 5(1,2) [OF that p [symmetric]] show ?thesis by (simp add: p read_pair_def)
  qed
  then have "read_many (read_pair (cbor_read d)) (length m) (concat (map ?wr m) @ rest) = Some (m, rest)"
    by (intro read_many_written)
  with 5(3) read_head_head [of 5 "length m" "concat (map ?wr m) @ rest"] show ?case by (auto simp: d)
next
  case (6 t v)
  then obtain d where d: "depth = Suc d" by (cases depth) auto
  from 6 read_head_head [of 6 "unat t" "cbor_write v @ rest"] unsigned_less [of t, where ?'a = nat]
  show ?case by (auto simp: d)
next
  case (7 b)
  then show ?case by (cases depth) (simp_all add: head_7)
next
  case 8
  then show ?case by (cases depth) (simp_all add: head_7)
next
  case (9 f)
  then show ?case by (cases depth) (simp_all add: float_head del: read_head.simps)
qed

text \<open>Every level of nesting takes a byte.\<close>

lemma cbor_head_not_Nil: "0 < length (cbor_head major n)" "cbor_head major n \<noteq> []"
  by (simp_all add: cbor_head_def)

lemma length_concat_le: "x \<in> set xs \<Longrightarrow> length (f x) \<le> length (concat (map f xs))"
  by (induction xs) auto

lemma cbor_depth_le: "cbor_depth v \<le> length (cbor_write v)"
proof (induction v rule: cbor_write.induct)
  case (4 vs)
  have "cbor_depth x \<le> length (concat (map cbor_write vs))" if "x \<in> set vs" for x
    using 4 [OF that] length_concat_le [OF that, of cbor_write] by linarith
  then have "foldr max (map cbor_depth vs) 0 \<le> length (concat (map cbor_write vs))" by (simp add: foldr_max_le)
  then show ?case using cbor_head_not_Nil(1) [of 4 "length vs"] by (simp del: length_greater_0_conv)
next
  case (5 m)
  let ?wr = "\<lambda>(k, v). cbor_write k @ cbor_write v"
  have "max (cbor_depth k) (cbor_depth v) \<le> length (concat (map ?wr m))" if "(k, v) \<in> set m" for k v
    using 5 [OF that refl] length_concat_le [OF that, of ?wr] by simp
  then have "foldr max (map (\<lambda>(k, v). max (cbor_depth k) (cbor_depth v)) m) 0 \<le> length (concat (map ?wr m))"
    by (auto simp: foldr_max_le)
  then show ?case using cbor_head_not_Nil(1) [of 5 "length m"] by (simp del: length_greater_0_conv)
next
  case (6 t v)
  then show ?case using cbor_head_not_Nil(1) [of 6 "unat t"] by (simp del: length_greater_0_conv)
qed (auto simp: Suc_le_eq cbor_head_not_Nil)

text \<open>The decoder inverts the encoder.\<close>

lemma cbor_round_trip: "cbor_encode v = Inr b \<Longrightarrow> cbor_decode b = Inr v"
  using cbor_read_written [OF _ cbor_depth_le, of v "[]"]
  by (auto simp: cbor_encode_def cbor_decode_def split: if_splits)

end
