(* ===== verification/Mdoc_Authentication.thy ===== *)
theory Mdoc_Authentication
  imports Device_Session Cbor_Encoding
begin

text \<open>
  The authentication of a presented document, \<^verbatim>\<open>src/presentation/authentication/mdoc.rs\<close> and
  \<^verbatim>\<open>src/presentation/reader_utils.rs\<close>: the issuer's signature over the mobile security object, the
  device's signature over the session transcript, in its two forms, and the outcome reported to the
  reader. The decoder of the mobile security object, the encoder of a text and the key packages are
  the fields of \<open>auth_env\<close>.
\<close>

section \<open>Environment\<close>

record ('t, 'vi, 'p, 'k, 's) auth_env =
  ae_codec :: "'t device_codec"
  ae_decode_mso :: "bytes \<Rightarrow> unit + 'vi Mso Tag24"
  ae_decode_value :: "bytes \<Rightarrow> unit + Value"
  ae_encode_text :: "string \<Rightarrow> unit + bytes"
  ae_point_from_bytes :: "bytes \<Rightarrow> unit + 'p"
  ae_verifying_key :: "'p \<Rightarrow> 'k option"
  ae_signature_from_bytes :: "bytes \<Rightarrow> 's option"
  ae_x509 :: "('k, 's) x509_ops"

definition ae_verifier :: "('t, 'vi, 'p, 'k, 's) auth_env \<Rightarrow> 'k \<Rightarrow> 's verifier" where
  "ae_verifier env key =
     P256Verifier (x_sha256 (ae_x509 env)) (ae_signature_from_bytes env) (x_verify_prehashed (ae_x509 env)) key"

datatype mdoc_auth_failure =
    DevicePoint cose_key_error | DeviceKeyParse | FailedVerifying string | ErrorVerifying sign1_error
  | UnsupportedDeviceKey

datatype authentication_error =
    DetachedIssuerAuth | MSOParsing | AuthCborDecodingError | MdocAuth mdoc_auth_failure | AuthUnsupported
  | IssuerAuthentication sign1_verification | IssuerPublicKey public_key_error

section \<open>The issuer's signature\<close>

definition issuer_authentication :: "('t, 'vi, 'p, 'k, 's) auth_env \<Rightarrow> X5Chain \<Rightarrow> IssuerSigned
    \<Rightarrow> authentication_error + unit" where
  "issuer_authentication env x5chain issuer_signed =
     and_then (map_err IssuerPublicKey (end_entity_public_key_with_oid (ae_x509 env) x5chain SECP_256_R_1)) (\<lambda>signer_key.
     case CoseSign1_verify (dc_sig_structure (ae_codec env)) (ae_verifier env signer_key)
            (isg_issuer_auth issuer_signed) None None of
       S1_Success \<Rightarrow> Inr ()
     | failure \<Rightarrow> Inl (IssuerAuthentication failure))"

section \<open>The device's signature\<close>

definition verify_device_authentication_payload :: "('t, 'vi, 'p, 'k, 's) auth_env \<Rightarrow> ResponseDocument \<Rightarrow> bytes
    \<Rightarrow> authentication_error + unit" where
  "verify_device_authentication_payload env document cbor_payload =
     and_then (ok_or (s1_payload (mt_inner (isg_issuer_auth (rd_issuer_signed document)))) DetachedIssuerAuth) (\<lambda>mso_bytes.
     and_then (map_err (\<lambda>_. MSOParsing) (ae_decode_mso env mso_bytes)) (\<lambda>mso.
     case dki_device_key (mso_device_key_info (tag24_inner mso)) of
       EC2 crv x y \<Rightarrow>
         and_then (map_err (\<lambda>e. MdocAuth (DevicePoint e))
           (EncodedPoint_try_from (ae_point_from_bytes env) (EC2 crv x y))) (\<lambda>encoded_point.
         and_then (ok_or (ae_verifying_key env encoded_point) (MdocAuth DeviceKeyParse)) (\<lambda>verifying_key.
         case ds_device_auth (rd_device_signed document) of
           DeviceSignature device_signature \<Rightarrow>
             (case CoseSign1_verify (dc_sig_structure (ae_codec env)) (ae_verifier env verifying_key)
                     device_signature (Some cbor_payload) None of
                S1_Success \<Rightarrow> Inr ()
              | S1_Failure e \<Rightarrow> Inl (MdocAuth (FailedVerifying e))
              | S1_Error e \<Rightarrow> Inl (MdocAuth (ErrorVerifying e)))
         | DeviceMac _ \<Rightarrow> Inl AuthUnsupported))
     | _ \<Rightarrow> Inl (MdocAuth UnsupportedDeviceKey)))"

text \<open>Both failures of the encoding are the same error.\<close>

definition device_authentication :: "('t, 'vi, 'p, 'k, 's) auth_env \<Rightarrow> ResponseDocument \<Rightarrow> 't
    \<Rightarrow> authentication_error + unit" where
  "device_authentication env document session_transcript =
     and_then (map_err (\<lambda>_. AuthCborDecodingError) (Tag24_new (dc_encode_authentication (ae_codec env))
        (DeviceAuthentication_new session_transcript (rd_doc_type document)
          (ds_namespaces (rd_device_signed document))))) (\<lambda>detached_payload.
     and_then (map_err (\<lambda>_. AuthCborDecodingError) (dc_encode_value (ae_codec env) (Tag24_into detached_payload)))
       (verify_device_authentication_payload env document))"

text \<open>The length is the address-sized \<^verbatim>\<open>usize\<close>; the narrower casts follow the range checks.\<close>

definition append_byte_string_header :: "bytes \<Rightarrow> u64 \<Rightarrow> bytes" where
  "append_byte_string_header output len =
     (if len \<le> 23 then output @ [0x40 OR ucast len]
      else if len \<le> 0xff then output @ [0x58, ucast len]
      else if len \<le> 0xffff then output @ [0x59] @ be_bytes16 (ucast len)
      else if len \<le> 0xffffffff then output @ [0x5a] @ be_bytes32 (ucast len)
      else output @ [0x5b] @ be_bytes64 len)"

definition raw_device_authentication_payload :: "('t, 'vi, 'p, 'k, 's) auth_env \<Rightarrow> bytes \<Rightarrow> string
    \<Rightarrow> DeviceNamespaces Tag24 \<Rightarrow> authentication_error + bytes" where
  "raw_device_authentication_payload env session_transcript_cbor doc_type namespaces =
     and_then (map_err (\<lambda>_. AuthCborDecodingError) (ae_encode_text env ''DeviceAuthentication'')) (\<lambda>ctx.
     and_then (map_err (\<lambda>_. AuthCborDecodingError) (ae_encode_text env doc_type)) (\<lambda>doc_type_bytes.
     and_then (map_err (\<lambda>_. AuthCborDecodingError) (dc_encode_value (ae_codec env) (Tag24_into namespaces))) (\<lambda>namespace_bytes.
     let device_auth = [0x84] @ ctx @ session_transcript_cbor @ doc_type_bytes @ namespace_bytes;
         tagged = append_byte_string_header [0xd8, 0x18] (of_nat (length device_auth)) in
     Inr (tagged @ device_auth))))"

definition device_authentication_with_raw_session_transcript :: "('t, 'vi, 'p, 'k, 's) auth_env
    \<Rightarrow> ResponseDocument \<Rightarrow> bytes \<Rightarrow> authentication_error + unit" where
  "device_authentication_with_raw_session_transcript env document session_transcript_cbor =
     and_then (map_err (\<lambda>_. AuthCborDecodingError) (ae_decode_value env session_transcript_cbor)) (\<lambda>_.
     and_then (raw_device_authentication_payload env session_transcript_cbor (rd_doc_type document)
        (ds_namespaces (rd_device_signed document)))
       (verify_device_authentication_payload env document))"

section \<open>The outcome\<close>

text \<open>The errors of \<^verbatim>\<open>reader.rs\<close>, which the outcome reports before any authentication.\<close>

datatype reader_error =
    DeviceTransmissionError | DocumentTypeError | NoMdlDataTransmission | IncorrectNamespace | HolderError
  | DecryptionError | ReaderCborDecodingError | ExpectedText Value | ExpectedPlain Value | InvalidRequest
  | X5ChainMissing | X5ChainParsing x5chain_error

datatype response_error =
    ResponseNotDecrypted reader_error | ResponseNotParsed reader_error
  | DeviceAuthenticationError authentication_error | IssuerAuthenticationError authentication_error
  | CertificateError context_error

record 'j ResponseAuthenticationOutcome =
  rso_response :: "(string, 'j) btree_map"
  rso_issuer_authentication :: AuthenticationStatus
  rso_device_authentication :: AuthenticationStatus
  rso_errors :: "(string, response_error list) btree_map"

definition ResponseAuthenticationOutcome_default :: "'j ResponseAuthenticationOutcome" where
  "ResponseAuthenticationOutcome_default =
     \<lparr> rso_response = [], rso_issuer_authentication = Unchecked, rso_device_authentication = Unchecked, rso_errors = [] \<rparr>"

definition validate_response :: "('t, 'vi, 'p, 'k, 's) auth_env \<Rightarrow> u64 \<Rightarrow> 't \<Rightarrow> TrustAnchorRegistry \<Rightarrow> X5Chain
    \<Rightarrow> ResponseDocument \<Rightarrow> (string, 'j) btree_map \<Rightarrow> 'j ResponseAuthenticationOutcome" where
  "validate_response env now session_transcript trust_anchor_registry x5chain document namespaces =
     (let validated = ResponseAuthenticationOutcome_default \<lparr> rso_response := namespaces \<rparr>;
          validated = (case device_authentication env document session_transcript of
              Inr _ \<Rightarrow> validated \<lparr> rso_device_authentication := Valid \<rparr>
            | Inl e \<Rightarrow> validated \<lparr> rso_device_authentication := Invalid,
                rso_errors := bt_insert ''device_authentication_errors'' [DeviceAuthenticationError e] (rso_errors validated) \<rparr>);
          validation_errors = ValidationRuleset_validate (ae_x509 env) now Mdl x5chain trust_anchor_registry in
      if validation_errors = [] then
        (case issuer_authentication env x5chain (rd_issuer_signed document) of
           Inr _ \<Rightarrow> validated \<lparr> rso_issuer_authentication := Valid \<rparr>
         | Inl e \<Rightarrow> validated \<lparr> rso_issuer_authentication := Invalid,
             rso_errors := bt_insert ''issuer_authentication_errors'' [IssuerAuthenticationError e] (rso_errors validated) \<rparr>)
      else validated \<lparr> rso_errors := bt_insert ''certificate_errors'' (map CertificateError validation_errors) (rso_errors validated),
             rso_issuer_authentication := Invalid \<rparr>)"

section \<open>The header written by hand is the standard's\<close>

lemma unat_byte: "unat (ucast w :: u8) = unat w mod 256" for w :: "'a::len word"
  by (simp add: unsigned_ucast_eq take_bit_eq_mod)

lemma unat_drop_bit: "unat (drop_bit n w) = unat w div 2 ^ n" for w :: "'a::len word"
  by (simp add: unsigned_drop_bit_eq drop_bit_eq_div [where ?'a = nat] take_bit_eq_mod)

lemma byte_of_word: "(ucast w :: u8) = of_nat (unat w mod 256)" for w :: "'a::len word"
  by (simp add: word_unat_eq_iff unat_byte unsigned_of_nat take_bit_eq_mod)

lemma be_bytes_be_nat:
  "be_bytes16 w16 = be_nat 2 (unat w16)" "be_bytes32 w32 = be_nat 4 (unat w32)" "be_bytes64 w64 = be_nat 8 (unat w64)"
  by (simp_all add: be_bytes16_def be_bytes32_def be_bytes64_def be_nat_simps byte_of_word unat_drop_bit)

lemma short_header: "n < 24 \<Longrightarrow> 0x40 OR of_nat n = (of_nat (64 + n) :: u8)"
proof -
  have "list_all (\<lambda>n. 0x40 OR of_nat n = (of_nat (64 + n) :: u8)) [0..<24]" by code_simp
  then show "n < 24 \<Longrightarrow> ?thesis" by (simp add: list_all_iff)
qed

lemma append_byte_string_header_standard:
  assumes "n < 2 ^ 64"
  shows "append_byte_string_header output (of_nat n) = output @ cbor_head 2 n"
proof -
  have n: "unat (of_nat n :: u64) = n" using assms by (simp add: unsigned_of_nat take_bit_eq_mod)
  note spec = append_byte_string_header_def cbor_head_def word_le_nat_alt
  consider "n < 24" | "24 \<le> n" "n < 2 ^ 8" | "2 ^ 8 \<le> n" "n < 2 ^ 16" | "2 ^ 16 \<le> n" "n < 2 ^ 32" | "2 ^ 32 \<le> n"
    by linarith
  then show ?thesis
  proof cases
    case 1
    then show ?thesis using n short_header [of n] by (simp add: spec byte_of_word)
  next
    case 2
    then show ?thesis using n by (simp add: spec byte_of_word be_nat_simps)
  next
    case 3
    then show ?thesis using n by (simp add: spec be_bytes_be_nat unsigned_ucast_eq take_bit_eq_mod)
  next
    case 4
    then show ?thesis using n by (simp add: spec be_bytes_be_nat unsigned_ucast_eq take_bit_eq_mod)
  next
    case 5
    then show ?thesis using n assms by (simp add: spec be_bytes_be_nat)
  qed
qed

lemma standard_heads: "cbor_head 6 24 = [0xd8, 0x18]" "cbor_head 4 4 = [0x84]"
  by (simp_all add: cbor_head_def be_nat_simps)

text \<open>The raw payload is the standard encoding of an embedded item, whose bytes are the four-element
  array of the context text, the transcript bytes as they were received, the document type and the
  device's namespaces.\<close>

lemma raw_payload_embeds:
  assumes "raw_device_authentication_payload env transcript doc_type namespaces = Inr payload" "length payload < 2 ^ 64"
  shows "\<exists>ctx doc_type_bytes namespace_bytes.
    ae_encode_text env ''DeviceAuthentication'' = Inr ctx \<and> ae_encode_text env doc_type = Inr doc_type_bytes \<and>
    dc_encode_value (ae_codec env) (Tag24_into namespaces) = Inr namespace_bytes \<and>
    payload = cbor_write (VTag 24 (VBytes (cbor_head 4 4 @ ctx @ transcript @ doc_type_bytes @ namespace_bytes)))"
proof -
  obtain ctx doc_type_bytes namespace_bytes where parts:
    "ae_encode_text env ''DeviceAuthentication'' = Inr ctx" "ae_encode_text env doc_type = Inr doc_type_bytes"
    "dc_encode_value (ae_codec env) (Tag24_into namespaces) = Inr namespace_bytes"
    and payload: "payload = append_byte_string_header [0xd8, 0x18]
      (of_nat (length (0x84 # ctx @ transcript @ doc_type_bytes @ namespace_bytes)))
      @ (0x84 # ctx @ transcript @ doc_type_bytes @ namespace_bytes)"
    using assms(1) by (auto simp: raw_device_authentication_payload_def Let_def result_simps)
  from assms(2) have len: "length (0x84 # ctx @ transcript @ doc_type_bytes @ namespace_bytes) < 2 ^ 64"
    unfolding payload by simp
  show ?thesis
    using parts unfolding payload append_byte_string_header_standard [OF len] by (simp add: standard_heads)
qed

section \<open>Properties\<close>

definition sample_auth_env :: "(nat, unit, bytes, bytes, bytes) auth_env" where
  "sample_auth_env =
     \<lparr> ae_codec = sample_device_codec,
       ae_decode_mso = (\<lambda>_. Inr \<lparr> tag24_inner = doc_mso sample_document \<lparr> mso_device_key_info :=
           \<lparr> dki_device_key = EC2 P256 (replicate 32 1) (EC2Y_Value (replicate 32 2)),
             dki_key_authorizations = None, dki_key_info = None \<rparr> \<rparr>, tag24_inner_bytes = [] \<rparr>),
       ae_decode_value = (\<lambda>b. if b = [] then Inl () else Inr VNull),
       ae_encode_text = (\<lambda>s. Inr (of_nat (0x60 + length s) # text_bytes s)),
       ae_point_from_bytes = Inr, ae_verifying_key = Some, ae_signature_from_bytes = Some,
       ae_x509 =
         \<lparr> x_decode_oid = (\<lambda>_. None), x_from_sec1 = (\<lambda>_. Some), x_decode_str = (\<lambda>_ _. None),
           x_oid_name = (\<lambda>_. None), x_signature_from_der = Some, x_tbs_to_der = (\<lambda>_. None),
           x_sha256 = (\<lambda>b. b), x_sha1 = (\<lambda>b. b), x_verify_prehashed = (\<lambda>k b s. k @ b = s),
           x_ski_from_der = Some, x_aki_from_der = (\<lambda>b. Some (Some b)), x_key_usage_from_der = (\<lambda>_. None),
           x_eku_from_der = (\<lambda>_. None), x_basic_constraints_from_der = (\<lambda>_. None),
           x_crl_points_from_der = (\<lambda>_. None), x_issuer_alt_name_from_der = (\<lambda>_. None) \<rparr> \<rparr>"

text \<open>The verdict on a document that was read: each authentication is valid exactly when it succeeds,
  and there are errors exactly when one of the two is invalid. The values are passed on.\<close>

lemma validate_response_verdict:
  "rso_device_authentication (validate_response env now transcript registry chain document values) =
     (if device_authentication env document transcript = Inr () then Valid else Invalid) \<and>
   rso_issuer_authentication (validate_response env now transcript registry chain document values) =
     (if ValidationRuleset_validate (ae_x509 env) now Mdl chain registry = [] \<and>
         issuer_authentication env chain (rd_issuer_signed document) = Inr () then Valid else Invalid) \<and>
   (rso_errors (validate_response env now transcript registry chain document values) = [] \<longleftrightarrow>
     rso_device_authentication (validate_response env now transcript registry chain document values) = Valid \<and>
     rso_issuer_authentication (validate_response env now transcript registry chain document values) = Valid) \<and>
   rso_response (validate_response env now transcript registry chain document values) = values"
  by (auto simp: validate_response_def Let_def ResponseAuthenticationOutcome_default_def split: sum.splits)

text \<open>When a COSE_Sign1 is signed by a P-256 key: the protected algorithm, if it is a registered one, is
  ES256, the payload is either attached or given, and the signature verifies over the structure.\<close>

definition signed_by :: "('t, 'vi, 'p, 'k, 's) auth_env \<Rightarrow> 'k \<Rightarrow> CoseSign1 MaybeTagged \<Rightarrow> bytes \<Rightarrow> bool" where
  "signed_by env key cose payload \<longleftrightarrow>
     (\<forall>alg. header_alg (s1_protected (mt_inner cose)) = Some (Assigned alg) \<longrightarrow> alg = ES256) \<and>
     (\<exists>sig. ae_signature_from_bytes env (s1_signature (mt_inner cose)) = Some sig \<and>
        x_verify_prehashed (ae_x509 env) key (x_sha256 (ae_x509 env)
          (dc_sig_structure (ae_codec env) (s1_protected (mt_inner cose)) [] payload)) sig)"

lemma verify_signed_by:
  "CoseSign1_verify (dc_sig_structure (ae_codec env)) (ae_verifier env key) cose detached None = S1_Success \<longleftrightarrow>
     (\<exists>payload. (s1_payload (mt_inner cose) = Some payload \<and> detached = None \<or>
        s1_payload (mt_inner cose) = None \<and> detached = Some payload) \<and> signed_by env key cose payload)"
  unfolding CoseSign1_verify_Success exclusive_payload_Inr signed_by_def
  by (auto simp: ae_verifier_def P256Verifier_def aad_or_default_def)

text \<open>The issuer's signature: over the mobile security object it carries, under the P-256 key of the
  first certificate of the chain.\<close>

definition carries_issuer_signature :: "('t, 'vi, 'p, 'k, 's) auth_env \<Rightarrow> X5Chain \<Rightarrow> IssuerSigned \<Rightarrow> bool" where
  "carries_issuer_signature env chain issuer_signed \<longleftrightarrow>
     (\<exists>key payload. end_entity_public_key_with_oid (ae_x509 env) chain SECP_256_R_1 = Inr key \<and>
        s1_payload (mt_inner (isg_issuer_auth issuer_signed)) = Some payload \<and>
        signed_by env key (isg_issuer_auth issuer_signed) payload)"

lemma issuer_authentication_iff:
  "issuer_authentication env chain issuer_signed = Inr () \<longleftrightarrow> carries_issuer_signature env chain issuer_signed"
proof (cases "end_entity_public_key_with_oid (ae_x509 env) chain SECP_256_R_1")
  case (Inr key)
  then show ?thesis
    using verify_signed_by [of env key "isg_issuer_auth issuer_signed" None]
    by (auto simp: issuer_authentication_def carries_issuer_signature_def split: sign1_verification.splits)
qed (simp add: issuer_authentication_def carries_issuer_signature_def)

text \<open>The device's signature: a detached one over the transcript, the type of the document and its own
  namespaces, under the device key of the mobile security object the issuer signed.\<close>

definition carries_device_signature :: "('t, 'vi, 'p, 'k, 's) auth_env \<Rightarrow> 't \<Rightarrow> ResponseDocument \<Rightarrow> bool" where
  "carries_device_signature env transcript document \<longleftrightarrow>
     (\<exists>mso_bytes mso point key cose authentication payload.
        s1_payload (mt_inner (isg_issuer_auth (rd_issuer_signed document))) = Some mso_bytes \<and>
        ae_decode_mso env mso_bytes = Inr mso \<and>
        EncodedPoint_try_from (ae_point_from_bytes env) (dki_device_key (mso_device_key_info (tag24_inner mso))) = Inr point \<and>
        ae_verifying_key env point = Some key \<and>
        ds_device_auth (rd_device_signed document) = DeviceSignature cose \<and> s1_payload (mt_inner cose) = None \<and>
        dc_encode_authentication (ae_codec env) (DeviceAuthentication_new transcript (rd_doc_type document)
          (ds_namespaces (rd_device_signed document))) = Inr authentication \<and>
        dc_encode_value (ae_codec env) (VTag 24 (VBytes authentication)) = Inr payload \<and>
        signed_by env key cose payload)"

lemma device_authentication_iff:
  "device_authentication env document transcript = Inr () \<longleftrightarrow> carries_device_signature env transcript document"
proof -
  have payload: "verify_device_authentication_payload env document payload = Inr () \<longleftrightarrow>
      (\<exists>mso_bytes mso point key cose. s1_payload (mt_inner (isg_issuer_auth (rd_issuer_signed document))) = Some mso_bytes \<and>
        ae_decode_mso env mso_bytes = Inr mso \<and>
        EncodedPoint_try_from (ae_point_from_bytes env) (dki_device_key (mso_device_key_info (tag24_inner mso))) = Inr point \<and>
        ae_verifying_key env point = Some key \<and>
        ds_device_auth (rd_device_signed document) = DeviceSignature cose \<and> s1_payload (mt_inner cose) = None \<and>
        signed_by env key cose payload)" (is "_ \<longleftrightarrow> ?signed payload") for payload
  proof -
    have verify: "(case CoseSign1_verify (dc_sig_structure (ae_codec env)) (ae_verifier env key) cose (Some payload) None of
          S1_Success \<Rightarrow> Inr () | S1_Failure e \<Rightarrow> Inl (MdocAuth (FailedVerifying e)) | S1_Error e \<Rightarrow> Inl (MdocAuth (ErrorVerifying e)))
        = Inr () \<longleftrightarrow> s1_payload (mt_inner cose) = None \<and> signed_by env key cose payload" for key cose
      using verify_signed_by [of env key cose "Some payload"] by (auto split: sign1_verification.splits)
    have auth: "(case ds_device_auth (rd_device_signed document) of DeviceSignature cose \<Rightarrow> g cose | DeviceMac _ \<Rightarrow> Inl AuthUnsupported)
        = Inr () \<longleftrightarrow> (\<exists>cose. ds_device_auth (rd_device_signed document) = DeviceSignature cose \<and> g cose = Inr ())" for g
      by (cases "ds_device_auth (rd_device_signed document)") simp_all
    have curve: "(case k of EC2 crv x y \<Rightarrow> and_then (map_err f (EncodedPoint_try_from fb (EC2 crv x y))) g | OKP crv x \<Rightarrow> Inl e)
        = Inr () \<longleftrightarrow> (\<exists>point. EncodedPoint_try_from fb k = Inr point \<and> g point = Inr ())" for k f fb g and e :: authentication_error
      by (cases k) (auto simp: result_simps)
    show ?thesis
      unfolding verify_device_authentication_payload_def and_then_Inr map_err_Inr ok_or_Inr curve auth verify by blast
  qed
  show ?thesis
    unfolding carries_device_signature_def
    by (auto simp: device_authentication_def result_simps payload Tag24_new_Inr Tag24_into_def) (metis Tag24.select_convs)+
qed

lemma authentication_ignores_namespaces:
  fixes document :: ResponseDocument
  assumes "forged = document \<lparr> rd_issuer_signed := (rd_issuer_signed document) \<lparr> isg_namespaces := namespaces \<rparr> \<rparr>"
  shows "device_authentication env forged transcript = device_authentication env document transcript"
    and "issuer_authentication env chain (rd_issuer_signed forged) = issuer_authentication env chain (rd_issuer_signed document)"
proof -
  have same: "isg_issuer_auth (rd_issuer_signed forged) = isg_issuer_auth (rd_issuer_signed document)"
    "rd_device_signed forged = rd_device_signed document" by (simp_all add: assms)
  have "verify_device_authentication_payload env forged payload = verify_device_authentication_payload env document payload" for payload
    unfolding verify_device_authentication_payload_def same ..
  then have "verify_device_authentication_payload env forged = verify_device_authentication_payload env document" by (rule ext)
  then show "device_authentication env forged transcript = device_authentication env document transcript"
    by (simp add: device_authentication_def) (simp add: assms)
qed (simp add: assms issuer_authentication_def)

text \<open>C13. The verdict says nothing of the items a document discloses: replacing its issuer-signed
  namespaces by any others changes neither authentication nor the errors. The digests of the mobile
  security object are not compared with the items.\<close>

theorem items_not_authenticated:
  "validate_response env now transcript registry chain
     (document \<lparr> rd_issuer_signed := (rd_issuer_signed document) \<lparr> isg_namespaces := namespaces \<rparr> \<rparr>) values =
   validate_response env now transcript registry chain document values"
  by (simp only: validate_response_def authentication_ignores_namespaces [OF refl])

section \<open>The device's signature at the reader\<close>

lemma prepared_sign1:
  assumes "prepare_document codec transcript Sign1 document doc_type nss = Inr pd"
  obtains alg payload inner where "signature_algorithm (dki_device_key (mso_device_key_info (doc_mso document))) = Some alg"
    and "device_authentication_bytes codec transcript doc_type (pdoc_device_namespaces pd) = Inr payload"
    and "PreparedCoseSign1_new (dc_sig_structure codec) \<lparr> s1_protected = algorithm_header alg,
      s1_unprotected = empty_header, s1_payload = None, s1_signature = [] \<rparr> (Some payload) None False = Inr inner"
    and "pdoc_prepared_cose pd = PreparedSign1 inner" "pdoc_doc_type pd = doc_type"
    and "isg_issuer_auth (pdoc_issuer_signed pd) = doc_issuer_auth document"
  using assms by (auto simp: prepare_document_def prepare_cose_def result_simps Let_def case_prod_beta)

lemma finalized_sign1_verify:
  assumes "PreparedCoseSign1_new sd c (Some payload) None tagged = Inr p"
    and "header_alg (s1_protected c) = Some (Assigned alg)"
  shows "CoseSign1_verify sd v (PreparedCoseSign1_finalize p sigb) (Some payload) None = S1_Success \<longleftrightarrow>
    alg = verifier_algorithm v \<and> (\<exists>sig. verifier_parse v sigb = Some sig \<and> verifier_verify v (ps_signature_payload p) sig)"
  using assms unfolding CoseSign1_verify_Success
  by (auto simp: PreparedCoseSign1_new_def PreparedCoseSign1_finalize_def MaybeTagged_new_def result_simps exclusive_payload_Inr)

lemma device_authentication_bytes_eq:
  "device_authentication env document transcript =
     and_then (map_err (\<lambda>_. AuthCborDecodingError) (device_authentication_bytes (ae_codec env) transcript
       (rd_doc_type document) (ds_namespaces (rd_device_signed document))))
       (verify_device_authentication_payload env document)"
  by (cases "Tag24_new (dc_encode_authentication (ae_codec env)) (DeviceAuthentication_new transcript
      (rd_doc_type document) (ds_namespaces (rd_device_signed document)))")
    (simp_all add: device_authentication_def device_authentication_bytes_def)

text \<open>C11. A document the device prepared for a signature authenticates at a reader with the same
  transcript exactly when the signature submitted for it is a valid one, under the device key of the
  mobile security object, over the payload the device offered for signing.\<close>

theorem device_signature_accepted:
  assumes "prepare_document (ae_codec env) transcript Sign1 document doc_type nss = Inr pd"
    and "s1_payload (mt_inner (doc_issuer_auth document)) = Some mso_bytes"
    and "ae_decode_mso env mso_bytes = Inr mso"
    and "dki_device_key (mso_device_key_info (tag24_inner mso)) = dki_device_key (mso_device_key_info (doc_mso document))"
    and "EncodedPoint_try_from (ae_point_from_bytes env) (dki_device_key (mso_device_key_info (doc_mso document))) = Inr point"
    and "ae_verifying_key env point = Some key"
  shows "device_authentication env (PreparedDocument_finalize pd signature) transcript = Inr () \<longleftrightarrow>
    (\<exists>sig. ae_signature_from_bytes env signature = Some sig \<and>
       x_verify_prehashed (ae_x509 env) key (x_sha256 (ae_x509 env) (cose_signature_payload (pdoc_prepared_cose pd))) sig)"
proof -
  obtain alg payload inner where pd: "signature_algorithm (dki_device_key (mso_device_key_info (doc_mso document))) = Some alg"
    "device_authentication_bytes (ae_codec env) transcript doc_type (pdoc_device_namespaces pd) = Inr payload"
    "PreparedCoseSign1_new (dc_sig_structure (ae_codec env)) \<lparr> s1_protected = algorithm_header alg,
      s1_unprotected = empty_header, s1_payload = None, s1_signature = [] \<rparr> (Some payload) None False = Inr inner"
    "pdoc_prepared_cose pd = PreparedSign1 inner" "pdoc_doc_type pd = doc_type"
    "isg_issuer_auth (pdoc_issuer_signed pd) = doc_issuer_auth document"
    using assms(1) by (rule prepared_sign1)
  obtain x y where key: "dki_device_key (mso_device_key_info (doc_mso document)) = EC2 P256 x y"
    using EncodedPoint_shape [OF assms(5)] by blast
  with pd(1) have "alg = ES256" by simp
  with finalized_sign1_verify [OF pd(3), of ES256 "ae_verifier env key" signature]
  have verdict: "CoseSign1_verify (dc_sig_structure (ae_codec env)) (ae_verifier env key)
      (PreparedCoseSign1_finalize inner signature) (Some payload) None = S1_Success \<longleftrightarrow>
    (\<exists>sig. ae_signature_from_bytes env signature = Some sig \<and>
       x_verify_prehashed (ae_x509 env) key (x_sha256 (ae_x509 env) (ps_signature_payload inner)) sig)"
    by (simp add: algorithm_header_def ae_verifier_def P256Verifier_def)
  show ?thesis
    using pd(2,4,5,6) assms(2-6) key
    by (simp add: device_authentication_bytes_eq verify_device_authentication_payload_def PreparedDocument_finalize_def
      flip: verdict split: sign1_verification.split)
qed


definition sample_presented :: "unit Document" where
  "sample_presented = sample_document
     \<lparr> doc_issuer_auth := sample_sign1 \<lparr> mt_inner := (mt_inner sample_sign1) \<lparr> s1_payload := Some [] \<rparr> \<rparr>,
       doc_mso := (doc_mso sample_document) \<lparr> mso_device_key_info :=
           \<lparr> dki_device_key = EC2 P256 (replicate 32 1) (EC2Y_Value (replicate 32 2)),
             dki_key_authorizations = None, dki_key_info = None \<rparr> \<rparr> \<rparr>"

theorem device_signature_accepted_witness:
  "\<exists>pd. prepare_document sample_device_codec (0 :: nat) Sign1 sample_presented ''d'' [(''n'', [''a''])] = Inr pd \<and>
     device_authentication sample_auth_env (PreparedDocument_finalize pd (4 # replicate 32 1 @ replicate 32 2)) 0 = Inr () \<and>
     device_authentication sample_auth_env (PreparedDocument_finalize pd [7]) 0 \<noteq> Inr ()"
proof -
  obtain pd where pd: "prepare_document sample_device_codec (0 :: nat) Sign1 sample_presented ''d'' [(''n'', [''a''])] = Inr pd"
    and payload: "cose_signature_payload (pdoc_prepared_cose pd) = []"
    by (simp add: prepare_document_def prepare_cose_def sample_presented_def sample_document_def sample_device_codec_def
      device_authentication_bytes_def Tag24_new_def PreparedCoseSign1_new_def Let_def case_prod_beta)
  have "device_authentication sample_auth_env (PreparedDocument_finalize pd signature) 0 = Inr () \<longleftrightarrow>
      signature = 4 # replicate 32 1 @ replicate 32 2" for signature
    using device_signature_accepted [of sample_auth_env 0 sample_presented "''d''" "[(''n'', [''a''])]" pd "[]"] pd payload
    by (auto simp: sample_auth_env_def sample_presented_def sample_sign1_def MaybeTagged_new_def)
  with pd show ?thesis by auto
qed

section \<open>The two forms of device authentication\<close>

text \<open>
  What the CBOR package documents of the two encodings, in the terms of RFC 8949: an embedded item is
  the tag 24 on a byte string, a tuple of four is the head of an array and its parts in order.
\<close>

definition encodes_tuples :: "('t, 'vi, 'p, 'k, 's) auth_env \<Rightarrow> ('t \<Rightarrow> unit + bytes) \<Rightarrow> bool" where
  "encodes_tuples env encode_transcript \<longleftrightarrow>
     (\<forall>b. length b < 2 ^ 64 \<longrightarrow>
        dc_encode_value (ae_codec env) (VTag 24 (VBytes b)) = Inr (cbor_write (VTag 24 (VBytes b)))) \<and>
     (\<forall>name transcript doc_type namespaces.
        dc_encode_authentication (ae_codec env) (DeviceAuthentication name transcript doc_type namespaces) =
        and_then (ae_encode_text env name) (\<lambda>name_bytes.
        and_then (encode_transcript transcript) (\<lambda>transcript_bytes.
        and_then (ae_encode_text env doc_type) (\<lambda>doc_type_bytes.
        and_then (dc_encode_value (ae_codec env) (Tag24_into namespaces)) (\<lambda>namespace_bytes.
        Inr (cbor_head 4 4 @ name_bytes @ transcript_bytes @ doc_type_bytes @ namespace_bytes))))))"

text \<open>C20. Verifying with the raw bytes of a transcript is verifying with the transcript: over an
  encoder that writes tuples and embedded items as RFC 8949 specifies, the two forms of device
  authentication give the same result, errors included, whenever the raw bytes are the transcript's
  encoding and can be decoded, and the payload has a length of 64 bits. So the array and byte string
  heads written by hand are the standard's, for payloads of every length.\<close>

theorem raw_transcript_agrees:
  assumes "encodes_tuples env encode_transcript" "encode_transcript transcript = Inr raw"
    and "ae_decode_value env raw = Inr v"
    and "\<And>b. dc_encode_authentication (ae_codec env) (DeviceAuthentication_new transcript (rd_doc_type document)
      (ds_namespaces (rd_device_signed document))) = Inr b \<Longrightarrow> length b < 2 ^ 64"
  shows "device_authentication_with_raw_session_transcript env document raw = device_authentication env document transcript"
proof -
  let ?doc_type = "rd_doc_type document" and ?namespaces = "ds_namespaces (rd_device_signed document)"
  have tuple: "dc_encode_authentication (ae_codec env) (DeviceAuthentication_new transcript ?doc_type ?namespaces) =
      and_then (ae_encode_text env ''DeviceAuthentication'') (\<lambda>name_bytes. and_then (ae_encode_text env ?doc_type)
        (\<lambda>doc_type_bytes. and_then (dc_encode_value (ae_codec env) (Tag24_into ?namespaces)) (\<lambda>namespace_bytes.
          Inr (0x84 # name_bytes @ raw @ doc_type_bytes @ namespace_bytes))))"
    using assms(1,2) by (simp add: encodes_tuples_def DeviceAuthentication_new_def standard_heads)
  show ?thesis
  proof (cases "dc_encode_authentication (ae_codec env) (DeviceAuthentication_new transcript ?doc_type ?namespaces)")
    case (Inl e)
    then show ?thesis
      unfolding tuple
      by (cases "ae_encode_text env ''DeviceAuthentication''"; cases "ae_encode_text env ?doc_type";
          cases "dc_encode_value (ae_codec env) (Tag24_into ?namespaces)")
        (simp_all add: device_authentication_with_raw_session_transcript_def raw_device_authentication_payload_def
          device_authentication_def assms(3) tuple Tag24_new_def)
  next
    case (Inr b)
    have len: "length b < 2 ^ 64" by (rule assms(4) [OF Inr])
    then have "dc_encode_value (ae_codec env) (VTag 24 (VBytes b)) = Inr ([0xd8, 0x18] @ cbor_head 2 (length b) @ b)"
      using assms(1) by (simp add: encodes_tuples_def standard_heads)
    then have embedded: "dc_encode_value (ae_codec env) (VTag 24 (VBytes b)) =
        Inr (append_byte_string_header [0xd8, 0x18] (of_nat (length b)) @ b)"
      by (simp add: append_byte_string_header_standard [OF len])
    have "raw_device_authentication_payload env raw ?doc_type ?namespaces =
        Inr (append_byte_string_header [0xd8, 0x18] (of_nat (length b)) @ b)"
      using Inr unfolding tuple by (auto simp: raw_device_authentication_payload_def Let_def result_simps)
    then show ?thesis
      by (simp add: device_authentication_with_raw_session_transcript_def device_authentication_def assms(3)
        Inr Tag24_new_def Tag24_into_def embedded [unfolded Tag24_into_def])
  qed
qed

definition sample_encode_transcript :: "nat \<Rightarrow> unit + bytes" where
  "sample_encode_transcript n = cbor_encode (VInteger (int n))"

definition sample_raw_env :: "(nat, unit, bytes, bytes, bytes) auth_env" where
  "sample_raw_env = sample_auth_env
     \<lparr> ae_encode_text := (\<lambda>s. cbor_encode (VText s)),
       ae_codec := sample_device_codec
         \<lparr> dc_encode_value := cbor_encode,
           dc_encode_authentication := (\<lambda>d. case d of DeviceAuthentication name transcript doc_type namespaces \<Rightarrow>
             and_then (cbor_encode (VText name)) (\<lambda>name_bytes. and_then (sample_encode_transcript transcript) (\<lambda>transcript_bytes.
             and_then (cbor_encode (VText doc_type)) (\<lambda>doc_type_bytes.
             and_then (cbor_encode (Tag24_into namespaces)) (\<lambda>namespace_bytes.
             Inr (cbor_head 4 4 @ name_bytes @ transcript_bytes @ doc_type_bytes @ namespace_bytes)))))) \<rparr> \<rparr>"

theorem raw_transcript_agrees_witness:
  "device_authentication_with_raw_session_transcript sample_raw_env (PreparedDocument_finalize
     (hd (prepared_documents sample_response)) [9]) [3] =
   device_authentication sample_raw_env (PreparedDocument_finalize (hd (prepared_documents sample_response)) [9]) 3"
proof (rule raw_transcript_agrees)
  show "encodes_tuples sample_raw_env sample_encode_transcript"
    by (simp add: encodes_tuples_def sample_raw_env_def sample_auth_env_def cbor_encode_def)
  show "sample_encode_transcript 3 = Inr [3]" by code_simp
  show "ae_decode_value sample_raw_env [3] = Inr VNull" by (simp add: sample_raw_env_def sample_auth_env_def)
next
  fix b
  let ?document = "PreparedDocument_finalize (hd (prepared_documents sample_response)) [9]"
  assume "dc_encode_authentication (ae_codec sample_raw_env) (DeviceAuthentication_new 3 (rd_doc_type ?document)
    (ds_namespaces (rd_device_signed ?document))) = Inr b"
  moreover have "rd_doc_type ?document = ''d''" "tag24_inner_bytes (ds_namespaces (rd_device_signed ?document)) = []"
    by code_simp+
  ultimately show "length b < 2 ^ 64"
    by (auto simp: sample_raw_env_def DeviceAuthentication_new_def sample_encode_transcript_def cbor_encode_def
      Tag24_into_def cbor_head_def be_nat_simps)
qed

end
