(* ===== verification/Presentation_Codec.thy ===== *)
theory Presentation_Codec
  imports Device_Response Cbor_Encoding
begin

text \<open>
  Codecs for the messages of a presentation over the encoding of RFC 8949: session data, session
  establishment and device requests, in the shape the derived serialization gives the structs of
  \<^verbatim>\<open>src/definitions/session.rs\<close> and \<^verbatim>\<open>device_request.rs\<close> (maps keyed by the field names, absent
  options left out). The crate takes these codecs from its packages; these instances show that the
  contracts stated of the packages hold of the encoding the standard prescribes.
\<close>

definition field :: "Value \<Rightarrow> string \<Rightarrow> Value option" where
  "field v name = (case v of VMap m \<Rightarrow> map_of m (VText name) | _ \<Rightarrow> None)"

text \<open>An optional field: absent, or read.\<close>

definition opt_field :: "Value \<Rightarrow> string \<Rightarrow> (Value \<Rightarrow> unit + 'a) \<Rightarrow> unit + 'a option" where
  "opt_field v name read = (case field v name of None \<Rightarrow> Inr None | Some w \<Rightarrow> map_ok Some (read w))"

fun as_text :: "Value \<Rightarrow> unit + string" where
  "as_text (VText s) = Inr s" | "as_text _ = Inl ()"

fun as_array :: "Value \<Rightarrow> unit + Value list" where
  "as_array (VArray vs) = Inr vs" | "as_array _ = Inl ()"

fun as_bool :: "Value \<Rightarrow> unit + bool" where
  "as_bool (VBool b) = Inr b" | "as_bool _ = Inl ()"

text \<open>A map with text keys that must not be empty.\<close>

fun as_map :: "(Value \<Rightarrow> unit + 'a) \<Rightarrow> Value \<Rightarrow> unit + (string, 'a) btree_map" where
  "as_map read (VMap m) =
     and_then (try_collect (\<lambda>(k, v). and_then (as_text k) (\<lambda>k. map_ok (Pair k) (read v))) m) (\<lambda>m.
     map_err (\<lambda>_. ()) (NonEmptyMap_try_from (bt_of_list m)))"
| "as_map read _ = Inl ()"

definition map_value :: "('a \<Rightarrow> Value) \<Rightarrow> (string, 'a) btree_map \<Rightarrow> Value" where
  "map_value to_value m = VMap (map (\<lambda>(k, x). (VText k, to_value x)) m)"

lemma try_collect_inverse: "(\<And>x. x \<in> set xs \<Longrightarrow> f (g x) = Inr x) \<Longrightarrow> try_collect f (map g xs) = Inr xs"
  by (induction xs) simp_all

lemma as_map_value:
  assumes "m \<noteq> []" "bt_wf m" "\<And>k x. (k, x) \<in> set m \<Longrightarrow> read (to_value x) = Inr x"
  shows "as_map read (map_value to_value m) = Inr m"
proof -
  have "try_collect (\<lambda>(k, v). and_then (as_text k) (\<lambda>k. map_ok (Pair k) (read v))) (map (\<lambda>(k, x). (VText k, to_value x)) m) = Inr m"
    using assms(3) by (intro try_collect_inverse) auto
  then show ?thesis using assms(1,2) by (simp add: map_value_def bt_of_list_wf NonEmptyMap_try_from_def)
qed

section \<open>Session data\<close>

definition session_data_value :: "SessionData \<Rightarrow> Value" where
  "session_data_value sd = VMap
     ((case sd_data sd of None \<Rightarrow> [] | Some b \<Rightarrow> [(VText ''data'', ByteStr_into b)])
      @ (case sd_status sd of None \<Rightarrow> [] | Some s \<Rightarrow> [(VText ''status'', VInteger (uint (Status_into s)))]))"

definition status_from_value :: "Value \<Rightarrow> unit + Status" where
  "status_from_value v = (case v of VInteger i \<Rightarrow> map_err (\<lambda>_. ()) (Status_try_from (of_int i)) | _ \<Rightarrow> Inl ())"

definition session_data_from_value :: "Value \<Rightarrow> unit + SessionData" where
  "session_data_from_value v =
     and_then (opt_field v ''data'' (\<lambda>w. map_err (\<lambda>_. ()) (ByteStr_try_from w))) (\<lambda>d.
     and_then (opt_field v ''status'' status_from_value) (\<lambda>s. Inr \<lparr> sd_data = d, sd_status = s \<rparr>))"

definition encode_session_data :: "SessionData \<Rightarrow> unit + bytes" where
  "encode_session_data sd = cbor_encode (session_data_value sd)"

definition decode_session_data :: "bytes \<Rightarrow> unit + SessionData" where
  "decode_session_data b = and_then (cbor_decode b) session_data_from_value"

lemma status_value: "status_from_value (VInteger (uint (Status_into s))) = Inr s"
  by (cases s) (simp_all add: status_from_value_def Status_try_from_def)

lemma session_data_round_trip: "encode_session_data sd = Inr b \<Longrightarrow> decode_session_data b = Inr sd"
proof -
  have "session_data_from_value (session_data_value sd) = Inr sd"
    by (cases sd) (auto simp: session_data_from_value_def session_data_value_def opt_field_def field_def ByteStr_into_def
      status_value split: option.splits)
  then show "encode_session_data sd = Inr b \<Longrightarrow> ?thesis"
    by (simp add: encode_session_data_def decode_session_data_def cbor_round_trip)
qed

text \<open>Session data has an encoding when the ciphertext has a length of 64 bits.\<close>

lemma session_data_encodes:
  assumes "case sd_data sd of None \<Rightarrow> True | Some d \<Rightarrow> length d < 2 ^ 64"
  shows "\<exists>b. encode_session_data sd = Inr b"
proof -
  have "uint (Status_into s) < 2 ^ 64" "- (2 ^ 64) \<le> uint (Status_into s)" for s by (cases s; simp)+
  then show ?thesis
    using assms by (auto simp: encode_session_data_def cbor_encode_def session_data_value_def ByteStr_into_def split: option.splits)
qed

definition encode_establishment :: "SessionEstablishment \<Rightarrow> unit + bytes" where
  "encode_establishment e = cbor_encode
     (VMap [(VText ''eReaderKey'', Tag24_into (se_e_reader_key e)), (VText ''data'', ByteStr_into (se_data e))])"

section \<open>Requests\<close>

definition namespaces_value :: "(string, (string, bool) btree_map) btree_map \<Rightarrow> Value" where
  "namespaces_value = map_value (map_value VBool)"

text \<open>Requests with further information or a signature are left to the packages.\<close>

definition items_request_value :: "ItemsRequest \<Rightarrow> Value" where
  "items_request_value r = VMap [(VText ''docType'', VText (ir_doc_type r)), (VText ''nameSpaces'', namespaces_value (ir_namespaces r))]"

definition encode_items_request :: "ItemsRequest \<Rightarrow> unit + bytes" where
  "encode_items_request r = (if ir_request_info r = None then cbor_encode (items_request_value r) else Inl ())"

definition items_request_from_value :: "Value \<Rightarrow> unit + ItemsRequest" where
  "items_request_from_value v =
     and_then (and_then (ok_or (field v ''docType'') ()) as_text) (\<lambda>d.
     and_then (and_then (ok_or (field v ''nameSpaces'') ()) (as_map (as_map as_bool))) (\<lambda>ns.
     if field v ''requestInfo'' = None then Inr \<lparr> ir_doc_type = d, ir_namespaces = ns, ir_request_info = None \<rparr> else Inl ()))"

definition decode_items_request :: "bytes \<Rightarrow> unit + ItemsRequest" where
  "decode_items_request b = and_then (cbor_decode b) items_request_from_value"

definition encode_request :: "DeviceRequest \<Rightarrow> unit + bytes" where
  "encode_request r =
     (if list_all (\<lambda>d. dq_reader_auth d = None) (dreq_doc_requests r) \<and> dreq_reader_auth_all r = None \<and>
        dreq_device_request_info r = None
      then cbor_encode (VMap [(VText ''version'', VText (dreq_version r)),
        (VText ''docRequests'', VArray (map (\<lambda>d. VMap [(VText ''itemsRequest'', Tag24_into (dq_items_request d))]) (dreq_doc_requests r)))])
      else Inl ())"

definition doc_request_from_value :: "Value \<Rightarrow> unit + DocRequest" where
  "doc_request_from_value v =
     and_then (and_then (ok_or (field v ''itemsRequest'') ()) (\<lambda>w. map_err (\<lambda>_. ()) (Tag24_try_from decode_items_request w))) (\<lambda>items.
     if field v ''readerAuth'' = None then Inr \<lparr> dq_items_request = items, dq_reader_auth = None \<rparr> else Inl ())"

definition request_from_value :: "Value \<Rightarrow> unit + DeviceRequest" where
  "request_from_value v =
     and_then (and_then (ok_or (field v ''version'') ()) as_text) (\<lambda>version.
     and_then (and_then (and_then (ok_or (field v ''docRequests'') ()) as_array) (try_collect doc_request_from_value)) (\<lambda>ds.
     and_then (map_err (\<lambda>_. ()) (NonEmptyVec_try_from ds)) (\<lambda>ds.
     if field v ''readerAuthAll'' = None \<and> field v ''deviceRequestInfo'' = None
     then Inr \<lparr> dreq_version = version, dreq_doc_requests = ds, dreq_reader_auth_all = None, dreq_device_request_info = None \<rparr>
     else Inl ())))"

text \<open>The namespaces of a request as their type has them: maps, neither they nor a namespace empty.\<close>

definition request_namespaces :: "(string, (string, bool) btree_map) btree_map \<Rightarrow> bool" where
  "request_namespaces namespaces \<longleftrightarrow> namespaces \<noteq> [] \<and> bt_wf namespaces \<and>
     list_all (\<lambda>(name, elements). elements \<noteq> [] \<and> bt_wf elements) namespaces"

lemma namespaces_value_read:
  assumes "request_namespaces namespaces"
  shows "as_map (as_map as_bool) (namespaces_value namespaces) = Inr namespaces"
  unfolding namespaces_value_def
  using assms by (intro as_map_value) (auto simp: request_namespaces_def list_all_iff intro!: as_map_value)

lemma items_request_round_trip:
  assumes "request_namespaces (ir_namespaces r)" "encode_items_request r = Inr b"
  shows "decode_items_request b = Inr r"
proof -
  have info: "ir_request_info r = None" and b: "cbor_encode (items_request_value r) = Inr b"
    using assms(2) by (auto simp: encode_items_request_def split: if_splits)
  have "items_request_from_value (items_request_value r) = Inr r"
    by (simp add: items_request_from_value_def items_request_value_def field_def namespaces_value_read [OF assms(1)] info)
  then show ?thesis by (simp add: decode_items_request_def cbor_round_trip [OF b])
qed

text \<open>A request is read back when its items are read back from their embedded bytes.\<close>

lemma request_round_trip:
  assumes "encode_request r = Inr b" "dreq_doc_requests r \<noteq> []"
    and "\<And>d. d \<in> set (dreq_doc_requests r) \<Longrightarrow>
      decode_items_request (tag24_inner_bytes (dq_items_request d)) = Inr (tag24_inner (dq_items_request d))"
  shows "\<exists>v. cbor_decode b = Inr v \<and> request_from_value v = Inr r"
proof -
  let ?doc = "\<lambda>d. VMap [(VText ''itemsRequest'', Tag24_into (dq_items_request d))]"
  let ?v = "VMap [(VText ''version'', VText (dreq_version r)), (VText ''docRequests'', VArray (map ?doc (dreq_doc_requests r)))]"
  have b: "cbor_encode ?v = Inr b"
    and none: "\<And>d. d \<in> set (dreq_doc_requests r) \<Longrightarrow> dq_reader_auth d = None" "dreq_reader_auth_all r = None"
      "dreq_device_request_info r = None"
    using assms(1) by (auto simp: encode_request_def list_all_iff split: if_splits)
  have doc: "doc_request_from_value (?doc d) = Inr d" if "d \<in> set (dreq_doc_requests r)" for d
  proof -
    have "Tag24_try_from decode_items_request (Tag24_into (dq_items_request d)) = Inr (dq_items_request d)"
      using assms(3) [OF that] by (simp add: Tag24_try_from_Inr)
    then show ?thesis using none(1) [OF that] by (simp add: doc_request_from_value_def field_def)
  qed
  have "try_collect doc_request_from_value (map ?doc (dreq_doc_requests r)) = Inr (dreq_doc_requests r)"
    using doc by (rule try_collect_inverse)
  then have "request_from_value ?v = Inr r"
    using assms(2) none(2,3) by (simp add: request_from_value_def field_def NonEmptyVec_try_from_def)
  then show ?thesis using cbor_round_trip [OF b] by blast
qed

end
