(* ===== verification/From_Json.thy ===== *)
theory From_Json
  imports Cbor_Value Rust_String
begin

text \<open>
  The conversion traits of \<^verbatim>\<open>src/definitions/traits\<close> and the two derive macros of
  \<^verbatim>\<open>macros/src\<close> that implement them for structs: reading a value from JSON with the errors of
  every field collected in declaration order, and writing a struct as a namespace map. JSON
  values are those of \<^verbatim>\<open>serde_json\<close>; its object is a \<^verbatim>\<open>BTreeMap\<close>. The base64 decoder is a
  parameter.
\<close>

datatype Json =
    JNull
  | JBool bool
  | JNumber int
  | JFloat u64
  | JString string
  | JArray "Json list"
  | JObject "(string \<times> Json) list"

section \<open>Errors\<close>

text \<open>The error types of the data elements, which \<^verbatim>\<open>anyhow::Error\<close> carries.\<close>

datatype latin1_error = NonLatin1 "nat list" | TooLong nat
datatype county_error = County_InvalidCharacter nat | County_TooShort | County_TooLong
datatype jurisdiction_error = CountryMismatch
datatype age_range_error = TooLarge u8

datatype anyhow_error =
    Any_Empty non_empty_error
  | Any_Base64
  | Any_Latin1 latin1_error
  | Any_County county_error
  | Any_Jurisdiction jurisdiction_error
  | Any_Unrecognized string
  | Any_UnrecognizedNumber u32
  | Any_VariantNotFound
  | Any_Date
  | Any_NotRfc3339
  | Any_NeitherDate

datatype FromJsonError =
    ExpectedPositiveInteger
  | IntegerTooLarge
  | Multiple "FromJsonError list"
  | Missing
  | Parsing anyhow_error
  | UnexpectedType string string
  | WithContext string FromJsonError

section \<open>Basic types\<close>

fun bool_from_json :: "Json \<Rightarrow> FromJsonError + bool" where
  "bool_from_json (JBool b) = Inr b"
| "bool_from_json JNull = Inl (UnexpectedType ''null'' ''boolean'')"
| "bool_from_json (JNumber _) = Inl (UnexpectedType ''number'' ''boolean'')"
| "bool_from_json (JFloat _) = Inl (UnexpectedType ''number'' ''boolean'')"
| "bool_from_json (JString _) = Inl (UnexpectedType ''string'' ''boolean'')"
| "bool_from_json (JArray _) = Inl (UnexpectedType ''array'' ''boolean'')"
| "bool_from_json (JObject _) = Inl (UnexpectedType ''object'' ''boolean'')"

text \<open>\<^verbatim>\<open>Number::as_u64\<close>: the integers from 0 up to the largest of 64 bits.\<close>

fun as_u64 :: "Json \<Rightarrow> u64 option" where
  "as_u64 (JNumber i) = (if 0 \<le> i \<and> i < 2 ^ 64 then Some (of_int i) else None)"
| "as_u64 _ = None"

definition u32_try_from :: "u64 \<Rightarrow> u32 option" where
  "u32_try_from n = (if n < 2 ^ 32 then Some (ucast n) else None)"

fun u32_from_json :: "Json \<Rightarrow> FromJsonError + u32" where
  "u32_from_json (JNumber i) =
     and_then (ok_or (as_u64 (JNumber i)) ExpectedPositiveInteger)
       (\<lambda>n. ok_or (u32_try_from n) IntegerTooLarge)"
| "u32_from_json (JFloat f) =
     and_then (ok_or (as_u64 (JFloat f)) ExpectedPositiveInteger)
       (\<lambda>n. ok_or (u32_try_from n) IntegerTooLarge)"
| "u32_from_json JNull = Inl (UnexpectedType ''null'' ''number'')"
| "u32_from_json (JBool _) = Inl (UnexpectedType ''boolean'' ''number'')"
| "u32_from_json (JString _) = Inl (UnexpectedType ''string'' ''number'')"
| "u32_from_json (JArray _) = Inl (UnexpectedType ''array'' ''number'')"
| "u32_from_json (JObject _) = Inl (UnexpectedType ''object'' ''number'')"

fun String_from_json :: "Json \<Rightarrow> FromJsonError + string" where
  "String_from_json (JString s) = Inr s"
| "String_from_json JNull = Inl (UnexpectedType ''null'' ''string'')"
| "String_from_json (JBool _) = Inl (UnexpectedType ''boolean'' ''string'')"
| "String_from_json (JNumber _) = Inl (UnexpectedType ''number'' ''string'')"
| "String_from_json (JFloat _) = Inl (UnexpectedType ''number'' ''string'')"
| "String_from_json (JArray _) = Inl (UnexpectedType ''array'' ''string'')"
| "String_from_json (JObject _) = Inl (UnexpectedType ''object'' ''string'')"

section \<open>Containers\<close>

fun Vec_from_json :: "(Json \<Rightarrow> FromJsonError + 'a) \<Rightarrow> Json \<Rightarrow> FromJsonError + 'a list" where
  "Vec_from_json f (JArray v) = try_collect f v"
| "Vec_from_json f JNull = Inl (UnexpectedType ''null'' ''array'')"
| "Vec_from_json f (JBool _) = Inl (UnexpectedType ''boolean'' ''array'')"
| "Vec_from_json f (JNumber _) = Inl (UnexpectedType ''number'' ''array'')"
| "Vec_from_json f (JFloat _) = Inl (UnexpectedType ''number'' ''array'')"
| "Vec_from_json f (JString _) = Inl (UnexpectedType ''string'' ''array'')"
| "Vec_from_json f (JObject _) = Inl (UnexpectedType ''object'' ''array'')"

definition NonEmptyVec_from_json :: "(Json \<Rightarrow> FromJsonError + 'a) \<Rightarrow> Json \<Rightarrow> FromJsonError + 'a list" where
  "NonEmptyVec_from_json f v =
     and_then (Vec_from_json f v) (\<lambda>v. map_err (Parsing \<circ> Any_Empty) (NonEmptyVec_try_from v))"

definition ByteStr_from_json :: "(string \<Rightarrow> bytes option) \<Rightarrow> Json \<Rightarrow> FromJsonError + bytes" where
  "ByteStr_from_json base64_decode v =
     and_then (String_from_json v) (\<lambda>encoded. ok_or (base64_decode encoded) (Parsing Any_Base64))"

definition Map_from_map ::
    "(Json \<Rightarrow> FromJsonError + 'a) \<Rightarrow> (string, Json) btree_map \<Rightarrow> FromJsonError + (string, 'a) btree_map" where
  "Map_from_map f m = map_ok bt_of_list (try_collect (\<lambda>(k, v). map_ok (Pair k) (f v)) m)"

fun Map_from_json :: "(Json \<Rightarrow> FromJsonError + 'a) \<Rightarrow> Json \<Rightarrow> FromJsonError + (string, 'a) btree_map" where
  "Map_from_json f (JObject m) = Map_from_map f m"
| "Map_from_json f JNull = Inl (UnexpectedType ''null'' ''object'')"
| "Map_from_json f (JBool _) = Inl (UnexpectedType ''boolean'' ''object'')"
| "Map_from_json f (JNumber _) = Inl (UnexpectedType ''number'' ''object'')"
| "Map_from_json f (JFloat _) = Inl (UnexpectedType ''number'' ''object'')"
| "Map_from_json f (JString _) = Inl (UnexpectedType ''string'' ''object'')"
| "Map_from_json f (JArray _) = Inl (UnexpectedType ''array'' ''object'')"

text \<open>
  The form \<^verbatim>\<open>from_map\<close> has for the elements that are a family of keys: \<^verbatim>\<open>filter_map\<close> keeps the
  entries whose key is recognised, their values are converted and the result is collected.
\<close>

definition keyed_entries :: "(string \<Rightarrow> 'k option) \<Rightarrow> (string, Json) btree_map \<Rightarrow> ('k \<times> Json) list" where
  "keyed_entries key m = List.map_filter (\<lambda>(k, v). map_option (\<lambda>k. (k, v)) (key k)) m"

definition keyed_from_map ::
    "(string \<Rightarrow> 'k::linorder option) \<Rightarrow> (Json \<Rightarrow> FromJsonError + 'a) \<Rightarrow> (string, Json) btree_map
      \<Rightarrow> FromJsonError + ('k, 'a) btree_map" where
  "keyed_from_map key f m =
     map_ok bt_of_list (try_collect (\<lambda>(k, v). map_ok (Pair k) (f v)) (keyed_entries key m))"

text \<open>\<^verbatim>\<open>from_json_opt\<close> of the trait, and the two methods \<^verbatim>\<open>Option<T>\<close> replaces.\<close>

definition from_json_opt :: "(Json \<Rightarrow> FromJsonError + 'a) \<Rightarrow> Json option \<Rightarrow> FromJsonError + 'a" where
  "from_json_opt f v = and_then (ok_or v Missing) f"

definition Option_from_json :: "(Json \<Rightarrow> FromJsonError + 'a) \<Rightarrow> Json \<Rightarrow> FromJsonError + 'a option" where
  "Option_from_json f v = (if v = JNull then Inr None else map_ok Some (f v))"

definition Option_from_json_opt ::
    "(Json \<Rightarrow> FromJsonError + 'a) \<Rightarrow> Json option \<Rightarrow> FromJsonError + 'a option" where
  "Option_from_json_opt f v = (if v = Some JNull then Inr None else transpose (map_option f v))"

text \<open>\<^verbatim>\<open>FromJsonMap\<close> of an \<^verbatim>\<open>Option<T>\<close>.\<close>

definition Option_from_map ::
    "((string, Json) btree_map \<Rightarrow> FromJsonError + 'a) \<Rightarrow> (string, Json) btree_map \<Rightarrow> FromJsonError + 'a option" where
  "Option_from_map f m =
     (case f m of
        Inr t \<Rightarrow> Inr (Some t)
      | Inl e \<Rightarrow> (if e = Missing then Inr None else Inl e))"

section \<open>The derived implementations\<close>

text \<open>
  \<^verbatim>\<open>#[derive(FromJson)]\<close> on a struct with named fields: the object is required, then every field is
  converted and its error, in the context of its name, pushed to the list; the struct is built
  when the list is empty.
\<close>

fun as_object :: "Json \<Rightarrow> FromJsonError + (string, Json) btree_map" where
  "as_object (JObject m) = Inr m"
| "as_object JNull = Inl (UnexpectedType ''null'' ''object'')"
| "as_object (JBool _) = Inl (UnexpectedType ''boolean'' ''object'')"
| "as_object (JNumber _) = Inl (UnexpectedType ''number'' ''object'')"
| "as_object (JFloat _) = Inl (UnexpectedType ''number'' ''object'')"
| "as_object (JString _) = Inl (UnexpectedType ''string'' ''object'')"
| "as_object (JArray _) = Inl (UnexpectedType ''array'' ''object'')"

fun field_error :: "string \<Rightarrow> FromJsonError + 'a \<Rightarrow> FromJsonError list" where
  "field_error name (Inr f) = []"
| "field_error name (Inl e) = [WithContext name e]"

definition struct_result :: "FromJsonError list \<Rightarrow> 'a \<Rightarrow> FromJsonError + 'a" where
  "struct_result errors value =
     (case errors of
        [] \<Rightarrow> Inr value
      | [e] \<Rightarrow> Inl e
      | _ \<Rightarrow> Inl (Multiple errors))"

text \<open>
  \<^verbatim>\<open>#[derive(ToCbor)]\<close>: the entries the fields contribute, in declaration order, are inserted
  into one map; a field marked \<^verbatim>\<open>many\<close> contributes a whole map.
\<close>

definition ns_field :: "string \<Rightarrow> Value \<Rightarrow> (string \<times> Value) list" where
  "ns_field name v = [(name, v)]"

definition ns_opt_field :: "string \<Rightarrow> ('a \<Rightarrow> Value) \<Rightarrow> 'a option \<Rightarrow> (string \<times> Value) list" where
  "ns_opt_field name to_cbor f = (case f of None \<Rightarrow> [] | Some i \<Rightarrow> [(name, to_cbor i)])"

definition ns_many :: "(string, Value) btree_map \<Rightarrow> (string \<times> Value) list" where
  "ns_many fs = fs"

definition ns_map :: "(string \<times> Value) list list \<Rightarrow> (string, Value) btree_map" where
  "ns_map entries = foldl (\<lambda>m (k, v). bt_insert k v m) [] (concat entries)"

definition ns_map_to_cbor :: "(string, Value) btree_map \<Rightarrow> Value" where
  "ns_map_to_cbor m = VMap (map (\<lambda>(k, v). (VText k, v)) m)"

text \<open>The conversions of numbers and strings to CBOR.\<close>

definition u32_to_cbor :: "u32 \<Rightarrow> Value" where
  "u32_to_cbor n = VInteger (uint n)"

definition u8_to_cbor :: "u8 \<Rightarrow> Value" where
  "u8_to_cbor n = VInteger (uint n)"

section \<open>What the conversions accept\<close>

lemma bool_from_json_Inr [result_simps]: "bool_from_json v = Inr b \<longleftrightarrow> v = JBool b"
  by (cases v) auto

lemma String_from_json_Inr [result_simps]: "String_from_json v = Inr s \<longleftrightarrow> v = JString s"
  by (cases v) auto

lemma u32_from_json_Inr [result_simps]: "u32_from_json v = Inr n \<longleftrightarrow> v = JNumber (uint n)"
proof (cases v)
  case (JNumber i)
  show ?thesis
  proof (cases "0 \<le> i \<and> i < 2 ^ 64")
    case True
    then have u64: "uint (of_int i :: u64) = i"
      by (simp add: uint_word_of_int)
    then have less: "(of_int i :: u64) < 2 ^ 32 \<longleftrightarrow> i < 2 ^ 32"
      by (simp add: word_less_def)
    have cast: "ucast (of_int i :: u64) = (of_int i :: u32)"
      using True by (simp add: word_uint_eq_iff unsigned_ucast_eq u64 uint_word_of_int take_bit_eq_mod)
    have "i < 2 ^ 32 \<and> of_int i = n \<longleftrightarrow> i = uint n"
      using True uint_lt2p [of n] by (auto simp: uint_word_of_int)
    moreover have "u32_from_json v = (if i < 2 ^ 32 then Inr (of_int i) else Inl IntegerTooLarge)"
      unfolding JNumber u32_from_json.simps as_u64.simps u32_try_from_def
      by (simp only: True less cast if_True and_then.simps ok_or.simps split: if_split) simp
    ultimately show ?thesis using JNumber by auto
  next
    case False
    then have "i \<noteq> uint n" using uint_lt2p [of n] by auto
    with False JNumber show ?thesis by auto
  qed
qed auto

text \<open>The struct is accepted when no field fails; otherwise the errors are reported as collected.\<close>

lemma field_error_Nil [result_simps]: "field_error name r = [] \<longleftrightarrow> (\<exists>x. r = Inr x)"
  by (cases r) auto

lemma field_error_length: "length (field_error name r) \<le> 1"
  by (cases r) auto

lemma struct_result_Inr [result_simps]: "struct_result es x = Inr y \<longleftrightarrow> es = [] \<and> y = x"
  by (auto simp: struct_result_def split: list.splits)

lemma struct_result_Inl:
  "struct_result es x = Inl e \<longleftrightarrow> es = [e] \<or> 2 \<le> length es \<and> e = Multiple es"
  by (auto simp: struct_result_def split: list.splits)

lemma as_object_Inr [result_simps]: "as_object v = Inr m \<longleftrightarrow> v = JObject m"
  by (cases v) auto

lemma from_json_opt_Inr [result_simps]: "from_json_opt f v = Inr x \<longleftrightarrow> (\<exists>j. v = Some j \<and> f j = Inr x)"
  by (auto simp: from_json_opt_def result_simps)

lemma transpose_Inr_None [result_simps]: "transpose r = Inr None \<longleftrightarrow> r = None"
  by (cases r rule: transpose.cases) auto

lemma transpose_Inr_Some [result_simps]: "transpose r = Inr (Some x) \<longleftrightarrow> r = Some (Inr x)"
  by (cases r rule: transpose.cases) auto

text \<open>An optional field is absent when the key is missing or null.\<close>

lemma Option_from_json_opt_None:
  "Option_from_json_opt f v = Inr None \<longleftrightarrow> v = None \<or> v = Some JNull"
  by (auto simp: Option_from_json_opt_def result_simps)

lemma Option_from_json_opt_Some:
  "Option_from_json_opt f v = Inr (Some x) \<longleftrightarrow> (\<exists>j. v = Some j \<and> j \<noteq> JNull \<and> f j = Inr x)"
  by (auto simp: Option_from_json_opt_def result_simps)

section \<open>Families of keys\<close>

lemma keyed_entries_Cons:
  "keyed_entries key ((s, v) # m) =
     (case key s of None \<Rightarrow> keyed_entries key m | Some k \<Rightarrow> (k, v) # keyed_entries key m)"
  by (simp add: keyed_entries_def List.map_filter_def split: option.split)

lemma keyed_entries_mem: "(k, v) \<in> set (keyed_entries key m) \<longleftrightarrow> (\<exists>s. (s, v) \<in> set m \<and> key s = Some k)"
  by (induction m) (auto simp: keyed_entries_Cons keyed_entries_def List.map_filter_def split: option.splits)

lemma keyed_entries_distinct:
  assumes "distinct (map fst m)" "\<And>s t k. key s = Some k \<Longrightarrow> key t = Some k \<Longrightarrow> s = t"
  shows "distinct (map fst (keyed_entries key m))"
  using assms(1)
proof (induction m)
  case Nil
  then show ?case by (simp add: keyed_entries_def List.map_filter_def)
next
  case (Cons e m)
  obtain s v where e: "e = (s, v)" by (cases e)
  show ?case
  proof (cases "key s")
    case None
    with Cons e show ?thesis by (simp add: keyed_entries_Cons)
  next
    case (Some k)
    have "k \<notin> fst ` set (keyed_entries key m)"
    proof
      assume "k \<in> fst ` set (keyed_entries key m)"
      then obtain w t where "(t, w) \<in> set m" "key t = Some k" by (auto simp: keyed_entries_mem)
      with assms(2) [OF Some] have "(s, w) \<in> set m" by blast
      with Cons.prems e show False by force
    qed
    with Cons e Some show ?thesis by (simp add: keyed_entries_Cons)
  qed
qed

lemma try_collect_ok: "(\<exists>ys. try_collect g xs = Inr ys) \<longleftrightarrow> (\<forall>x \<in> set xs. \<exists>y. g x = Inr y)"
  by (induction xs) (auto simp: result_simps)

lemma list_all2_entry:
  "list_all2 (\<lambda>p q. fst q = fst p \<and> f (snd p) = Inr (snd q)) ps qs \<Longrightarrow>
     (k, x) \<in> set qs \<longleftrightarrow> (\<exists>j. (k, j) \<in> set ps \<and> f j = Inr x)"
  by (induction rule: list_all2_induct) auto

lemma keyed_from_map_ok:
  "(\<exists>a. keyed_from_map key f m = Inr a) \<longleftrightarrow> (\<forall>p \<in> set (keyed_entries key m). \<exists>x. f (snd p) = Inr x)"
proof -
  have pair: "(\<exists>q. (case p of (k, v) \<Rightarrow> map_ok (Pair k) (f v)) = Inr q) \<longleftrightarrow> (\<exists>x. f (snd p) = Inr x)"
    for p :: "'k::linorder \<times> Json"
    by (cases p) (auto simp: map_ok_Inr)
  have "(\<exists>a. keyed_from_map key f m = Inr a) \<longleftrightarrow>
      (\<exists>ys. try_collect (\<lambda>(k, v). map_ok (Pair k) (f v)) (keyed_entries key m) = Inr ys)"
    unfolding keyed_from_map_def map_ok_Inr by blast
  then show ?thesis unfolding try_collect_ok pair .
qed

text \<open>
  An accepted object has exactly the recognised entries, with their values converted; it is
  refused only when one of these values is.
\<close>

lemma keyed_from_map_get:
  assumes "bt_wf m" "\<And>s t k. key s = Some k \<Longrightarrow> key t = Some k \<Longrightarrow> s = t"
    and a: "keyed_from_map key f m = Inr a"
  shows "bt_get a k = Some x \<longleftrightarrow> (\<exists>s j. key s = Some k \<and> bt_get m s = Some j \<and> f j = Inr x)"
proof -
  have pair: "(case p of (k, v) \<Rightarrow> map_ok (Pair k) (f v)) = Inr q \<longleftrightarrow>
      fst q = fst p \<and> f (snd p) = Inr (snd q)" for p :: "'k \<times> Json" and q
    by (cases p; cases q) (auto simp: result_simps)
  obtain ys where ys: "list_all2 (\<lambda>p q. fst q = fst p \<and> f (snd p) = Inr (snd q)) (keyed_entries key m) ys"
    and a: "a = bt_of_list ys"
    using a by (auto simp: keyed_from_map_def map_ok_Inr try_collect_Inr pair)
  have "map fst ys = map fst (keyed_entries key m)"
    using ys by (induction rule: list_all2_induct) auto
  moreover have "distinct (map fst (keyed_entries key m))"
    using btm.items_distinct [OF assms(1)] by (rule keyed_entries_distinct) (rule assms(2))
  ultimately have dist: "distinct (map fst ys)" by simp
  then have "bt_get a k = Some x \<longleftrightarrow> (k, x) \<in> set ys"
    by (simp add: a bt_get_of_list_distinct)
  also have "\<dots> \<longleftrightarrow> (\<exists>j. (k, j) \<in> set (keyed_entries key m) \<and> f j = Inr x)"
    using ys by (rule list_all2_entry)
  also have "\<dots> \<longleftrightarrow> (\<exists>s j. key s = Some k \<and> bt_get m s = Some j \<and> f j = Inr x)"
    using bt_mem_iff [OF assms(1)] by (auto simp: keyed_entries_mem)
  finally show ?thesis .
qed

lemma keyed_from_map_wf: "keyed_from_map key f m = Inr a \<Longrightarrow> bt_wf a"
  by (auto simp: keyed_from_map_def result_simps bt_wf_of_list)

lemma keyed_from_map_accepts:
  assumes "bt_wf m"
  shows "(\<exists>a. keyed_from_map key f m = Inr a) \<longleftrightarrow>
    (\<forall>s j. key s \<noteq> None \<and> bt_get m s = Some j \<longrightarrow> (\<exists>x. f j = Inr x))"
proof -
  have "(\<forall>p \<in> set (keyed_entries key m). \<exists>x. f (snd p) = Inr x) \<longleftrightarrow>
      (\<forall>k j. (k, j) \<in> set (keyed_entries key m) \<longrightarrow> (\<exists>x. f j = Inr x))"
    by (metis prod.collapse snd_conv)
  also have "\<dots> \<longleftrightarrow> (\<forall>s j. key s \<noteq> None \<and> (s, j) \<in> set m \<longrightarrow> (\<exists>x. f j = Inr x))"
    unfolding keyed_entries_mem by blast
  finally show ?thesis unfolding keyed_from_map_ok bt_mem_iff [OF assms] .
qed

section \<open>The maps structs are written as\<close>

lemma ns_map_of_list: "ns_map entries = bt_of_list (concat entries)"
  by (simp add: ns_map_def bt_of_list_def)

lemma ns_map_wf: "bt_wf (ns_map entries)"
  by (simp add: ns_map_of_list bt_wf_of_list)

lemma ns_map_keys: "fst ` set (ns_map entries) = fst ` set (concat entries)"
proof -
  have "dom (bt_get (ns_map entries)) = dom (map_of (rev (concat entries)))"
    unfolding ns_map_of_list bt_get_of_list ..
  then show ?thesis
    by (simp add: bt_get_def [abs_def] dom_map_of_conv_image_fst del: set_concat)
qed

text \<open>With distinct names nothing is overwritten: the map holds exactly the entries.\<close>

lemma ns_map_entries:
  assumes "distinct (map fst (concat entries))"
  shows "set (ns_map entries) = set (concat entries)"
proof -
  have "map_of (ns_map entries) = map_of (concat entries)"
    using bt_get_of_list_distinct [OF assms] by (simp add: ns_map_of_list bt_get_def [abs_def])
  moreover have "distinct (map fst (ns_map entries))"
    using ns_map_wf btm.items_distinct by blast
  ultimately show ?thesis using assms by (metis map_of_inject_set)
qed

section \<open>Which elements a namespace map has\<close>

text \<open>A key with a value other than null.\<close>

definition present :: "(string, Json) btree_map \<Rightarrow> string \<Rightarrow> bool" where
  "present m k \<longleftrightarrow> (case bt_get m k of None \<Rightarrow> False | Some j \<Rightarrow> j \<noteq> JNull)"

lemma present_iff: "present m k \<longleftrightarrow> (\<exists>j. bt_get m k = Some j \<and> j \<noteq> JNull)"
  by (auto simp: present_def split: option.splits)

lemma ns_keys: "k \<in> fst ` set (ns_map entries) \<longleftrightarrow> (\<exists>e \<in> set entries. k \<in> fst ` set e)"
  unfolding ns_map_keys by auto

text \<open>
  The keys a field contributes, given how it was read: a field that was accepted is written
  exactly when its key is present.
\<close>

lemma field_keys:
  assumes "from_json_opt f (bt_get m n) = Inr x" "\<And>y. f JNull \<noteq> Inr y"
  shows "k \<in> fst ` set (ns_field n v) \<longleftrightarrow> k = n \<and> present m k"
  using assms by (auto simp: ns_field_def present_iff from_json_opt_Inr)

lemma opt_field_keys:
  assumes "Option_from_json_opt f (bt_get m n) = Inr x"
  shows "k \<in> fst ` set (ns_opt_field n g x) \<longleftrightarrow> k = n \<and> present m k"
proof (cases x)
  case None
  with assms show ?thesis
    by (auto simp: ns_opt_field_def present_iff Option_from_json_opt_None)
next
  case (Some y)
  with assms show ?thesis
    by (auto simp: ns_opt_field_def present_iff Option_from_json_opt_Some)
qed

end
