(* ===== verification/Reader_Session.thy ===== *)
theory Reader_Session
  imports Mdoc_Authentication Presentation_Codec From_Json
begin

text \<open>
  The reader's side of a presentation, \<^verbatim>\<open>src/presentation/reader.rs\<close>: establishing a session from a
  QR code, requests, and the decryption, parsing and validation of responses; with the identifier
  advertised over Bluetooth of \<^verbatim>\<open>src/presentation/mod.rs\<close>. The packages both ends call are those of
  \<open>device_env\<close>; the others are further fields of \<open>reader_env\<close>.
\<close>

section \<open>State and environment\<close>

record ReaderSessionManager =
  rsm_session_transcript :: SessionTranscript180135
  rsm_sk_device :: bytes
  rsm_device_message_counter :: u32
  rsm_sk_reader :: bytes
  rsm_reader_message_counter :: u32
  rsm_trust_anchor_registry :: TrustAnchorRegistry

text \<open>\<open>re_json_integer\<close> is the conversion of an integer to a JSON number, \<open>None\<close> its panic.\<close>

record ('sk, 'p, 'pk, 'k, 's, 'vi) reader_env =
  re_base :: "('sk, 'p, 'pk, 'k, 's) device_env"
  re_auth :: "(SessionTranscript180135, 'vi, 'p, 'k, 's) auth_env"
  re_base64_decode :: "string \<Rightarrow> bytes option"
  re_decode_engagement :: "bytes \<Rightarrow> unit + DeviceEngagement"
  re_hkdf_expand :: "bytes \<Rightarrow> bytes \<Rightarrow> unit + bytes"
  re_encode_items_request :: "ItemsRequest \<Rightarrow> unit + bytes"
  re_encode_request :: "DeviceRequest \<Rightarrow> unit + bytes"
  re_encode_establishment :: "SessionEstablishment \<Rightarrow> unit + bytes"
  re_json_integer :: "int \<Rightarrow> Json option"

datatype establish_error =
    ConstructQrCode "unit qr_error" | GenerateEphemeralKey session_error | EncodePublicKey | CalculateBleIdent
  | DeriveSharedSecret shared_secret_error | EncodeTranscript | DeriveReaderKey "unit derive_error"
  | DeriveDeviceKey "unit derive_error" | BuildRequest | EncodeEstablishment

section \<open>Requests\<close>

definition MDL_DOC_TYPE :: string where "MDL_DOC_TYPE = ''org.iso.18013.5.1.mDL''"

definition calculate_ble_ident :: "('sk, 'p, 'pk, 'k, 's, 'vi) reader_env \<Rightarrow> CoseKey Tag24 \<Rightarrow> unit + bytes" where
  "calculate_ble_ident env e_device_key =
     and_then (encode_embedded (re_base env) e_device_key) (\<lambda>e_device_key_bytes.
     re_hkdf_expand env e_device_key_bytes (text_bytes ''BLEIdent''))"

text \<open>The device computes the same identifier from its own engagement.\<close>

definition ble_ident :: "('sk, 'p, 'pk, 'k, 's, 'vi) reader_env \<Rightarrow> ('doc, 'sk) SessionManagerInit \<Rightarrow> unit + bytes" where
  "ble_ident env self = calculate_ble_ident env (snd (de_security (tag24_inner (smi_device_engagement self))))"

definition build_device_request :: "('sk, 'p, 'pk, 'k, 's, 'vi) reader_env
    \<Rightarrow> (string, (string, bool) btree_map) btree_map \<Rightarrow> unit + DeviceRequest" where
  "build_device_request env namespaces =
     and_then (map_err (\<lambda>_. ()) (Tag24_new (re_encode_items_request env)
        \<lparr> ir_doc_type = MDL_DOC_TYPE, ir_namespaces = namespaces, ir_request_info = None \<rparr>)) (\<lambda>items_request.
     Inr \<lparr> dreq_version = DeviceRequest_VERSION,
           dreq_doc_requests = [\<lparr> dq_items_request = items_request, dq_reader_auth = None \<rparr>],
           dreq_reader_auth_all = None, dreq_device_request_info = None \<rparr>)"

definition build_request :: "('sk, 'p, 'pk, 'k, 's, 'vi) reader_env \<Rightarrow> ReaderSessionManager
    \<Rightarrow> (string, (string, bool) btree_map) btree_map \<Rightarrow> (unit + bytes) \<times> ReaderSessionManager" where
  "build_request env self namespaces =
     (case and_then (build_device_request env namespaces) (re_encode_request env) of
        Inl e \<Rightarrow> (Inl e, self)
      | Inr device_request_bytes \<Rightarrow>
          (let (encrypted, counter) = encrypt_reader_data (de_encrypt (re_base env)) (rsm_sk_reader self)
                 device_request_bytes (rsm_reader_message_counter self) in
           (encrypted, self \<lparr> rsm_reader_message_counter := counter \<rparr>)))"

definition new_request :: "('sk, 'p, 'pk, 'k, 's, 'vi) reader_env \<Rightarrow> ReaderSessionManager
    \<Rightarrow> (string, (string, bool) btree_map) btree_map \<Rightarrow> (unit + bytes) \<times> ReaderSessionManager" where
  "new_request env self namespaces =
     (case build_request env self namespaces of
        (Inl e, self) \<Rightarrow> (Inl e, self)
      | (Inr request, self) \<Rightarrow>
          (de_encode_session_data (re_base env) \<lparr> sd_data = Some request, sd_status = None \<rparr>, self))"

text \<open>The fresh private key is an argument; \<open>None\<close> is the panic of the hash in the key derivation.\<close>

definition establish_session :: "('sk, 'p, 'pk, 'k, 's, 'vi) reader_env \<Rightarrow> 'sk \<Rightarrow> string
    \<Rightarrow> (string, (string, bool) btree_map) btree_map \<Rightarrow> TrustAnchorRegistry
    \<Rightarrow> (establish_error + ReaderSessionManager \<times> bytes \<times> bytes) option" where
  "establish_session env fresh qr_code namespaces registry =
     (let base = re_base env in
      case from_qr_code_uri (re_base64_decode env) (re_decode_engagement env) qr_code of
        Inl e \<Rightarrow> Some (Inl (ConstructQrCode e))
      | Inr device_engagement_bytes \<Rightarrow>
      (case create_p256_ephemeral_keys fresh (de_encoded_point base) (de_point_x base) (de_point_y base) of
        Inl e \<Rightarrow> Some (Inl (GenerateEphemeralKey e))
      | Inr (e_reader_key_private, public_key) \<Rightarrow>
      (case Tag24_new (de_encode_key base) public_key of
        Inl _ \<Rightarrow> Some (Inl EncodePublicKey)
      | Inr e_reader_key_public \<Rightarrow>
      let e_device_key = snd (de_security (tag24_inner device_engagement_bytes)) in
      (case calculate_ble_ident env e_device_key of
        Inl _ \<Rightarrow> Some (Inl CalculateBleIdent)
      | Inr ident \<Rightarrow>
      (case get_shared_secret (de_point_from_bytes base) (de_public_key base) (de_diffie_hellman base)
              (tag24_inner e_device_key) e_reader_key_private of
        Inl e \<Rightarrow> Some (Inl (DeriveSharedSecret e))
      | Inr shared_secret \<Rightarrow>
      let session_transcript = SessionTranscript180135 device_engagement_bytes e_reader_key_public QR in
      (case Tag24_new (de_encode_transcript base) session_transcript of
        Inl _ \<Rightarrow> Some (Inl EncodeTranscript)
      | Inr session_transcript_bytes \<Rightarrow>
      Option.bind (derive_session_key (de_compress base) (encode_embedded base) shared_secret session_transcript_bytes True)
        (\<lambda>sk_reader. case sk_reader of Inl e \<Rightarrow> Some (Inl (DeriveReaderKey e)) | Inr sk_reader \<Rightarrow>
      Option.bind (derive_session_key (de_compress base) (encode_embedded base) shared_secret session_transcript_bytes False)
        (\<lambda>sk_device. case sk_device of Inl e \<Rightarrow> Some (Inl (DeriveDeviceKey e)) | Inr sk_device \<Rightarrow>
      let session_manager = \<lparr> rsm_session_transcript = session_transcript, rsm_sk_device = sk_device,
            rsm_device_message_counter = 0, rsm_sk_reader = sk_reader, rsm_reader_message_counter = 0,
            rsm_trust_anchor_registry = registry \<rparr> in
      case build_request env session_manager namespaces of
        (Inl _, _) \<Rightarrow> Some (Inl BuildRequest)
      | (Inr request, session_manager) \<Rightarrow>
      (case re_encode_establishment env \<lparr> se_e_reader_key = e_reader_key_public, se_data = request \<rparr> of
        Inl _ \<Rightarrow> Some (Inl EncodeEstablishment)
      | Inr session_request \<Rightarrow> Some (Inr (session_manager, session_request, ident)))))))))))"

definition first_central_client_uuid :: "ReaderSessionManager \<Rightarrow> bytes option" where
  "first_central_client_uuid self =
     (case rsm_session_transcript self of SessionTranscript180135 engagement _ _ \<Rightarrow>
        Option.bind (device_retrieval_methods (tag24_inner engagement)) (\<lambda>ms.
          case List.map_filter (\<lambda>m. case m of
                 BLE opt \<Rightarrow> map_option ccm_uuid (central_client_mode opt)
               | _ \<Rightarrow> None) ms of
            [] \<Rightarrow> None
          | uuid # _ \<Rightarrow> Some uuid))"

text \<open>Text search; the look-up of the mandatory namespace panics when it is absent.\<close>

definition contains_str :: "string \<Rightarrow> string \<Rightarrow> bool" where
  "contains_str s pat = list_ex (\<lambda>i. take (length pat) (drop i s) = pat) [0..<Suc (length s)]"

definition reader_validate_request :: "(string, (string, bool) btree_map) btree_map \<Rightarrow> (reader_error + bool) option" where
  "reader_validate_request namespaces =
     map_option (\<lambda>elements.
        if length (filter (\<lambda>x. contains_str (fst x) ''age_over'') elements) > 2 then Inl InvalidRequest else Inr True)
       (bt_get namespaces ''org.iso.18013.5.1'')"

section \<open>Responses\<close>

definition decrypt_response :: "('sk, 'p, 'pk, 'k, 's, 'vi) reader_env \<Rightarrow> ReaderSessionManager \<Rightarrow> bytes
    \<Rightarrow> (reader_error + DeviceResponse) \<times> ReaderSessionManager" where
  "decrypt_response env self response =
     (case de_decode_session_data (re_base env) response of
        Inl _ \<Rightarrow> (Inl ReaderCborDecodingError, self)
      | Inr session_data \<Rightarrow>
        (case sd_data session_data of
           None \<Rightarrow> (Inl HolderError, self)
         | Some encrypted_response \<Rightarrow>
           (let (decrypted, counter) = decrypt_device_data (de_decrypt (re_base env)) (rsm_sk_device self)
                  encrypted_response (rsm_device_message_counter self);
                self = self \<lparr> rsm_device_message_counter := counter \<rparr> in
            case decrypted of
              Inl _ \<Rightarrow> (Inl DecryptionError, self)
            | Inr decrypted_response \<Rightarrow>
                (map_err (\<lambda>_. ReaderCborDecodingError) (de_decode_response (re_base env) decrypted_response), self))))"

text \<open>Values as JSON; \<open>None\<close> is the panic of the number conversion.\<close>

fun parse_response :: "(int \<Rightarrow> Json option) \<Rightarrow> Value \<Rightarrow> (reader_error + Json) option"
  and parse_array :: "(int \<Rightarrow> Json option) \<Rightarrow> Value list \<Rightarrow> (reader_error + Json list) option"
  and parse_map :: "(int \<Rightarrow> Json option) \<Rightarrow> (Value \<times> Value) list \<Rightarrow> (string, Json) btree_map
    \<Rightarrow> (reader_error + (string, Json) btree_map) option" where
  "parse_response integer (VText s) = Some (Inr (JString s))"
| "parse_response integer (VTag _ v) =
     Some (case v of VText d \<Rightarrow> Inr (JString d) | a \<Rightarrow> Inl (ExpectedText a))"
| "parse_response integer (VArray v) = map_option (map_ok JArray) (parse_array integer v)"
| "parse_response integer (VMap m) = map_option (map_ok JObject) (parse_map integer m [])"
| "parse_response integer (VBytes b) = Some (Inr (JArray (map (\<lambda>w. JNumber (uint w)) b)))"
| "parse_response integer (VBool b) = Some (Inr (JBool b))"
| "parse_response integer (VInteger i) = map_option Inr (integer i)"
| "parse_response integer VNull = Some (Inl (ExpectedPlain VNull))"
| "parse_response integer (VFloat f) = Some (Inl (ExpectedPlain (VFloat f)))"
| "parse_array integer [] = Some (Inr [])"
| "parse_array integer (a # v) =
     (case parse_response integer a of
        None \<Rightarrow> None
      | Some (Inl e) \<Rightarrow> Some (Inl e)
      | Some (Inr r) \<Rightarrow> map_option (map_ok (Cons r)) (parse_array integer v))"
| "parse_map integer [] map_response = Some (Inr map_response)"
| "parse_map integer ((key, value) # m) map_response =
     (case key of
        VText k \<Rightarrow>
          (case parse_response integer value of
             None \<Rightarrow> None
           | Some (Inl e) \<Rightarrow> Some (Inl e)
           | Some (Inr parsed) \<Rightarrow> parse_map integer m (bt_insert k parsed map_response))
      | _ \<Rightarrow> parse_map integer m map_response)"

definition get_document :: "DeviceResponse \<Rightarrow> reader_error + ResponseDocument" where
  "get_document device_response =
     and_then (ok_or (dr_documents device_response) DeviceTransmissionError) (\<lambda>documents.
     ok_or (find (\<lambda>doc. rd_doc_type doc = MDL_DOC_TYPE) documents) DocumentTypeError)"

fun collect_values :: "(int \<Rightarrow> Json option) \<Rightarrow> item_bytes list \<Rightarrow> (string, Json) btree_map
    \<Rightarrow> (string, Json) btree_map option" where
  "collect_values integer [] acc = Some acc"
| "collect_values integer (item # items) acc =
     (case parse_response integer (item_element_value (tag24_inner item)) of
        None \<Rightarrow> None
      | Some (Inr val) \<Rightarrow> collect_values integer items (bt_insert (item_element_identifier (tag24_inner item)) val acc)
      | Some (Inl _) \<Rightarrow> collect_values integer items acc)"

definition parse_namespaces :: "(int \<Rightarrow> Json option) \<Rightarrow> DeviceResponse \<Rightarrow> (reader_error + (string, Json) btree_map) option" where
  "parse_namespaces integer device_response =
     (case and_then (get_document device_response) (\<lambda>document.
             ok_or (isg_namespaces (rd_issuer_signed document)) NoMdlDataTransmission) of
        Inl e \<Rightarrow> Some (Inl e)
      | Inr namespaces \<Rightarrow>
        (case bt_get namespaces ''org.iso.18013.5.1'' of
           None \<Rightarrow> Some (Inl IncorrectNamespace)
         | Some core \<Rightarrow>
           Option.bind (collect_values integer core []) (\<lambda>core_namespace.
           let parsed_response = bt_insert ''org.iso.18013.5.1'' (JObject core_namespace) [] in
           case bt_get (bt_remove ''org.iso.18013.5.1'' namespaces) ''org.iso.18013.5.1.aamva'' of
             None \<Rightarrow> Some (Inr parsed_response)
           | Some aamva_response \<Rightarrow>
             Option.bind (collect_values integer aamva_response []) (\<lambda>aamva_namespace.
             Some (Inr (bt_insert ''org.iso.18013.5.1.aamva'' (JObject aamva_namespace) parsed_response))))))"

definition reader_parse :: "('sk, 'p, 'pk, 'k, 's, 'vi) reader_env \<Rightarrow> DeviceResponse
    \<Rightarrow> (reader_error + ResponseDocument \<times> X5Chain \<times> (string, Json) btree_map) option" where
  "reader_parse env device_response =
     (case and_then (get_document device_response) (\<lambda>document.
           and_then (ok_or (find_x5chain (s1_unprotected (mt_inner (isg_issuer_auth (rd_issuer_signed document)))))
             X5ChainMissing) (\<lambda>value.
           and_then (map_err X5ChainParsing (X5Chain_from_cbor (de_certificate_from_der (re_base env)) value)) (\<lambda>x5chain.
           Inr (document, x5chain)))) of
        Inl e \<Rightarrow> Some (Inl e)
      | Inr (document, x5chain) \<Rightarrow>
          map_option (map_ok (\<lambda>parsed_response. (document, x5chain, parsed_response)))
            (parse_namespaces (re_json_integer env) device_response))"

text \<open>\<open>None\<close> is a panic of the conversion of values, after the state has been updated.\<close>

definition handle_response :: "('sk, 'p, 'pk, 'k, 's, 'vi) reader_env \<Rightarrow> u64 \<Rightarrow> ReaderSessionManager \<Rightarrow> bytes
    \<Rightarrow> Json ResponseAuthenticationOutcome option \<times> ReaderSessionManager" where
  "handle_response env now self response =
     (case decrypt_response env self response of
        (Inl e, self) \<Rightarrow>
          (Some (ResponseAuthenticationOutcome_default \<lparr> rso_errors := [(''decryption_errors'', [ResponseNotDecrypted e])] \<rparr>), self)
      | (Inr device_response, self) \<Rightarrow>
          (map_option (\<lambda>parsed. case parsed of
               Inr (document, x5chain, namespaces) \<Rightarrow>
                 validate_response (re_auth env) now (rsm_session_transcript self)
                   (rsm_trust_anchor_registry self) x5chain document namespaces
             | Inl e \<Rightarrow>
                 ResponseAuthenticationOutcome_default \<lparr> rso_errors := [(''parsing_errors'', [ResponseNotParsed e])] \<rparr>)
             (reader_parse env device_response), self))"

section \<open>The two ends of a session\<close>

text \<open>
  What the packages promise when both ends use them. A request is promised to be read back when it is
  one the reader builds, from namespaces of the type they have; nothing is promised of responses,
  whose error codes and embedded items the conversions of the crate do not all read back.
\<close>

locale presentation_packages =
  session_channel "de_encrypt (re_base env)" "de_decrypt (re_base env)"
    for env :: "('sk, 'p, 'pk, 'k, 's, 'vi) reader_env" +
  fixes public :: "'sk \<Rightarrow> 'pk"
  assumes point: "de_point_x (re_base env) (de_encoded_point (re_base env) sk) = Some x \<Longrightarrow>
      de_point_y (re_base env) (de_encoded_point (re_base env) sk) = Some y \<Longrightarrow>
      length x = 32 \<and> length y = 32 \<and> de_point_from_bytes (re_base env) (4 # x @ y) = Inr (de_encoded_point (re_base env) sk)"
    and public_key: "de_public_key (re_base env) (de_encoded_point (re_base env) sk) = Some (public sk)"
    and commutes: "de_diffie_hellman (re_base env) sk (public sk2) = de_diffie_hellman (re_base env) sk2 (public sk)"
    and base64: "re_base64_decode env (de_base64 (re_base env) b) = Some b"
    and request_decodes: "request_namespaces namespaces \<Longrightarrow> build_device_request env namespaces = Inr request \<Longrightarrow>
      re_encode_request env request = Inr b \<Longrightarrow>
      \<exists>v. de_decode_value (re_base env) b = Inr v \<and> de_request_from_value (re_base env) v = Inr request"
    and session_data_decodes: "de_encode_session_data (re_base env) sd = Inr b \<Longrightarrow> de_decode_session_data (re_base env) b = Inr sd"

definition synchronised :: "ReaderSessionManager \<Rightarrow> 'vi SessionManager \<Rightarrow> bool" where
  "synchronised rsm sm \<longleftrightarrow>
     rsm_session_transcript rsm = sm_session_transcript sm \<and>
     rsm_sk_device rsm = sm_sk_device sm \<and> rsm_sk_reader rsm = sm_sk_reader sm \<and>
     rsm_device_message_counter rsm = sm_device_message_counter sm \<and>
     rsm_reader_message_counter rsm = sm_reader_message_counter sm"

definition mdl_request :: "(string, (string, bool) btree_map) btree_map \<Rightarrow> ItemsRequest" where
  "mdl_request namespaces = \<lparr> ir_doc_type = MDL_DOC_TYPE, ir_namespaces = namespaces, ir_request_info = None \<rparr>"

lemma ephemeral_key:
  "create_p256_ephemeral_keys fresh encoded_point px py = Inr (sk, key) \<longleftrightarrow>
     sk = fresh \<and> (\<exists>x y. px (encoded_point fresh) = Some x \<and> py (encoded_point fresh) = Some y \<and> key = EC2 P256 x (EC2Y_Value y))"
  by (auto simp: create_p256_ephemeral_keys_def EC2Curve_try_from_def result_simps)

lemma built_request:
  assumes "build_device_request env namespaces = Inr request"
  shows "map (\<lambda>d. tag24_inner (dq_items_request d)) (dreq_doc_requests request) = [mdl_request namespaces]"
    and "dreq_version request = DeviceRequest_VERSION"
    and "map dq_reader_auth (dreq_doc_requests request) = [None]"
  using assms by (auto simp: build_device_request_def mdl_request_def result_simps Tag24_new_Inr)

lemma validate_built_request:
  assumes "build_device_request env namespaces = Inr request"
  shows "validate_request base now sm request = RequestAuthenticationOutcome_default
    \<lparr> ro_items_request := [mdl_request namespaces], ro_reader_authentication := Invalid \<rparr>"
proof -
  obtain d where d: "dreq_doc_requests request = [d]" "dq_reader_auth d = None"
    using built_request(3) [OF assms] by auto
  with built_request(1,2) [OF assms] show ?thesis
    by (simp add: validate_request_def reader_authentication_def RequestAuthenticationOutcome_default_def)
qed

lemma new_request_counter:
  assumes "new_request env rsm namespaces = (result, rsm')"
  shows "rsm_device_message_counter rsm' = rsm_device_message_counter rsm"
proof -
  have "rsm_device_message_counter (snd (build_request env rsm namespaces)) = rsm_device_message_counter rsm"
    by (simp add: build_request_def split_beta split: sum.split)
  moreover have "rsm' = snd (build_request env rsm namespaces)"
    using assms by (cases "build_request env rsm namespaces") (auto simp: new_request_def split: sum.splits)
  ultimately show ?thesis by simp
qed

lemma encrypt_Inl: "encrypt be key m c reader = (Inl u, c') \<Longrightarrow> c' = c"
  by (auto simp: encrypt_def get_initialization_vector_def Let_def split: if_splits sum.splits)

context presentation_packages
begin

abbreviation base where "base \<equiv> re_base env"

lemma shared_secret:
  assumes "create_p256_ephemeral_keys fresh (de_encoded_point base) (de_point_x base) (de_point_y base) = Inr (sk, key)"
  shows "get_shared_secret (de_point_from_bytes base) (de_public_key base) (de_diffie_hellman base) key other =
    Inr (de_diffie_hellman base other (public fresh))"
  using assms by (auto simp: ephemeral_key get_shared_secret_def public_key dest: point)

text \<open>A request the reader builds in step with the device is delivered, and the two stay in step.\<close>

lemma request_delivered:
  assumes "synchronised rsm sm" "request_namespaces namespaces" "build_request env rsm namespaces = (Inr data, rsm')"
  shows "\<exists>sm'. handle_decoded_request base now sm \<lparr> sd_data = Some data, sd_status = status \<rparr> =
      (RequestAuthenticationOutcome_default \<lparr> ro_items_request := [mdl_request namespaces], ro_reader_authentication := Invalid \<rparr>, sm') \<and>
    synchronised rsm' sm' \<and> same_session sm' sm \<and> sm_state sm' = sm_state sm"
proof -
  obtain request b c where build: "build_device_request env namespaces = Inr request" "re_encode_request env request = Inr b"
    and enc: "encrypt_reader_data (de_encrypt base) (rsm_sk_reader rsm) b (rsm_reader_message_counter rsm) = (Inr data, c)"
    and rsm': "rsm' = rsm \<lparr> rsm_reader_message_counter := c \<rparr>"
    using assms(3) by (auto simp: build_request_def result_simps split: sum.splits prod.splits)
  have "decrypt_reader_data (de_decrypt base) (sm_sk_reader sm) data (sm_reader_message_counter sm) = (Inr b, c)"
    using enc assms(1) by (simp add: encrypt_reader_data_def decrypt_reader_data_def decrypt_encrypt synchronised_def)
  moreover have "parse_request base b = Inr request"
    using request_decodes [OF assms(2) build] by (auto simp: parse_request_def)
  ultimately show ?thesis
    using validate_built_request [OF build(1)] assms(1)
    by (simp add: handle_decoded_request_def rsm' synchronised_def same_session_def Let_def)
qed

lemma new_request_delivered:
  assumes "synchronised rsm sm" "request_namespaces namespaces" "new_request env rsm namespaces = (Inr message, rsm')"
  shows "\<exists>sm'. handle_request base now sm message =
      (RequestAuthenticationOutcome_default \<lparr> ro_items_request := [mdl_request namespaces], ro_reader_authentication := Invalid \<rparr>, sm') \<and>
    synchronised rsm' sm' \<and> same_session sm' sm \<and> sm_state sm' = sm_state sm"
proof -
  obtain data where "build_request env rsm namespaces = (Inr data, rsm')"
    "de_encode_session_data base \<lparr> sd_data = Some data, sd_status = None \<rparr> = Inr message"
    using assms(3) by (auto simp: new_request_def split: prod.splits sum.splits)
  with request_delivered [OF assms(1,2)] session_data_decodes show ?thesis by (simp add: handle_request_def)
qed

text \<open>
  What the device encrypted in step with the reader arrives: the reader decodes exactly the bytes that
  were encrypted, or, when they could not be, reports the holder's error. The two stay in step.
\<close>

lemma response_delivered:
  assumes "synchronised rsm sm" "encrypt_response base sm b = (Inr (), sm')" "sm_state sm' = ReadyToRespond message"
  shows "\<exists>rsm'. decrypt_response env rsm message =
      (if isl (fst (encrypt_device_data (de_encrypt base) (sm_sk_device sm) b (sm_device_message_counter sm)))
       then Inl HolderError else map_err (\<lambda>_. ReaderCborDecodingError) (de_decode_response base b), rsm') \<and>
    synchronised rsm' sm' \<and> rsm_session_transcript rsm' = rsm_session_transcript rsm"
proof (cases "encrypt_device_data (de_encrypt base) (sm_sk_device sm) b (sm_device_message_counter sm)")
  case (Pair e c)
  show ?thesis
  proof (cases e)
    case (Inl u)
    with Pair have "c = sm_device_message_counter sm" by (simp add: encrypt_device_data_def encrypt_Inl)
    with Pair Inl assms(2,3) have "de_encode_session_data base \<lparr> sd_data = None, sd_status = Some SessionEncryptionError \<rparr> = Inr message"
      "sm' = sm \<lparr> sm_state := ReadyToRespond message \<rparr>" by (auto simp: encrypt_response_def Let_def split: sum.splits)
    with assms(1) session_data_decodes Pair Inl show ?thesis by (simp add: decrypt_response_def synchronised_def)
  next
    case (Inr ct)
    with Pair assms(2,3) have sent: "de_encode_session_data base \<lparr> sd_data = Some ct, sd_status = None \<rparr> = Inr message"
      "sm' = sm \<lparr> sm_device_message_counter := c, sm_state := ReadyToRespond message \<rparr>"
      by (auto simp: encrypt_response_def Let_def split: sum.splits)
    have "decrypt_device_data (de_decrypt base) (rsm_sk_device rsm) ct (rsm_device_message_counter rsm) = (Inr b, c)"
      using Pair Inr assms(1) by (simp add: encrypt_device_data_def decrypt_device_data_def decrypt_encrypt synchronised_def)
    with sent session_data_decodes assms(1) Pair Inr show ?thesis
      by (simp add: decrypt_response_def Let_def synchronised_def)
  qed
qed

end

lemma initialised:
  assumes "initialise base fresh documents methods servers = Inr init"
  shows "\<exists>key. create_p256_ephemeral_keys fresh (de_encoded_point base) (de_point_x base) (de_point_y base) = Inr (fresh, key) \<and>
    tag24_inner (snd (de_security (tag24_inner (smi_device_engagement init)))) = key \<and>
    smi_e_device_key init = fresh \<and> smi_documents init = documents"
  using assms by (auto simp: initialise_def result_simps Tag24_new_Inr ephemeral_key)

lemma established:
  assumes "establish_session env fresh uri namespaces registry = Some (Inr (rsm, message, ident))"
    and "from_qr_code_uri (re_base64_decode env) (re_decode_engagement env) uri = Inr engagement"
  shows "\<exists>key reader_key secret transcript_bytes sk_reader sk_device data.
    create_p256_ephemeral_keys fresh (de_encoded_point (re_base env)) (de_point_x (re_base env)) (de_point_y (re_base env)) = Inr (fresh, key) \<and>
    Tag24_new (de_encode_key (re_base env)) key = Inr reader_key \<and>
    get_shared_secret (de_point_from_bytes (re_base env)) (de_public_key (re_base env)) (de_diffie_hellman (re_base env))
      (tag24_inner (snd (de_security (tag24_inner engagement)))) fresh = Inr secret \<and>
    Tag24_new (de_encode_transcript (re_base env)) (SessionTranscript180135 engagement reader_key QR) = Inr transcript_bytes \<and>
    derive_session_key (de_compress (re_base env)) (encode_embedded (re_base env)) secret transcript_bytes True = Some (Inr sk_reader) \<and>
    derive_session_key (de_compress (re_base env)) (encode_embedded (re_base env)) secret transcript_bytes False = Some (Inr sk_device) \<and>
    build_request env \<lparr> rsm_session_transcript = SessionTranscript180135 engagement reader_key QR, rsm_sk_device = sk_device,
      rsm_device_message_counter = 0, rsm_sk_reader = sk_reader, rsm_reader_message_counter = 0,
      rsm_trust_anchor_registry = registry \<rparr> namespaces = (Inr data, rsm) \<and>
    re_encode_establishment env \<lparr> se_e_reader_key = reader_key, se_data = data \<rparr> = Inr message \<and>
    calculate_ble_ident env (snd (de_security (tag24_inner engagement))) = Inr ident"
proof -
  have keys: "create_p256_ephemeral_keys fresh ep px py = Inr (sk, key) \<Longrightarrow> sk = fresh" for ep px py sk key
    by (simp add: ephemeral_key)
  from assms show ?thesis
    by (auto simp: establish_session_def Let_def dest: keys split: sum.splits bind_splits prod.splits)
qed

lemma qr_read_back:
  assumes "\<And>b. decode (encode b) = Some b" "from_slice (tag24_inner_bytes t) = Inr (tag24_inner t)"
  shows "from_qr_code_uri decode from_slice (to_qr_code_uri encode t) = Inr t"
  using assms by (cases t) (simp add: from_qr_code_uri_def to_qr_code_uri_def strip_prefix_def Tag24_from_bytes_def eval_nat_numeral)

context presentation_packages
begin

lemma handshake:
  assumes "request_namespaces namespaces" "initialise base device_fresh documents methods servers = Inr init"
    and "re_decode_engagement env (tag24_inner_bytes (smi_device_engagement init)) = Inr (tag24_inner (smi_device_engagement init))"
    and "establish_session env reader_fresh (snd (qr_engagement base init)) namespaces registry = Some (Inr (rsm, message, ident))"
  shows "\<exists>establishment sm. re_encode_establishment env establishment = Inr message \<and>
    process_session_establishment base now (fst (qr_engagement base init)) establishment trusted = Some (Inr (sm,
      RequestAuthenticationOutcome_default \<lparr> ro_items_request := [mdl_request namespaces], ro_reader_authentication := Invalid \<rparr>)) \<and>
    synchronised rsm sm \<and> sm_documents sm = documents \<and> sm_state sm = AwaitingRequest \<and> sm_trusted_verifiers sm = trusted \<and>
    ble_ident env init = Inr ident"
proof -
  let ?engagement = "smi_device_engagement init"
  obtain device_key where device: "create_p256_ephemeral_keys device_fresh (de_encoded_point base) (de_point_x base)
      (de_point_y base) = Inr (device_fresh, device_key)"
    "tag24_inner (snd (de_security (tag24_inner ?engagement))) = device_key"
    "smi_e_device_key init = device_fresh" "smi_documents init = documents"
    using initialised [OF assms(2)] by blast
  have "from_qr_code_uri (re_base64_decode env) (re_decode_engagement env) (snd (qr_engagement base init)) = Inr ?engagement"
    using assms(3) base64 by (simp add: qr_engagement_def qr_read_back)
  from established [OF assms(4) this] obtain key reader_key secret transcript_bytes sk_reader sk_device data where reader:
    "create_p256_ephemeral_keys reader_fresh (de_encoded_point base) (de_point_x base) (de_point_y base) = Inr (reader_fresh, key)"
    "Tag24_new (de_encode_key base) key = Inr reader_key"
    "get_shared_secret (de_point_from_bytes base) (de_public_key base) (de_diffie_hellman base) device_key reader_fresh = Inr secret"
    and keys: "Tag24_new (de_encode_transcript base) (SessionTranscript180135 ?engagement reader_key QR) = Inr transcript_bytes"
    "derive_session_key (de_compress base) (encode_embedded base) secret transcript_bytes True = Some (Inr sk_reader)"
    "derive_session_key (de_compress base) (encode_embedded base) secret transcript_bytes False = Some (Inr sk_device)"
    and built: "build_request env \<lparr> rsm_session_transcript = SessionTranscript180135 ?engagement reader_key QR,
      rsm_sk_device = sk_device, rsm_device_message_counter = 0, rsm_sk_reader = sk_reader, rsm_reader_message_counter = 0,
      rsm_trust_anchor_registry = registry \<rparr> namespaces = (Inr data, rsm)"
    and sent: "re_encode_establishment env \<lparr> se_e_reader_key = reader_key, se_data = data \<rparr> = Inr message"
    "ble_ident env init = Inr ident"
    unfolding device(2) ble_ident_def by blast
  have secret: "get_shared_secret (de_point_from_bytes base) (de_public_key base) (de_diffie_hellman base)
      (tag24_inner reader_key) device_fresh = Inr secret"
    using shared_secret [OF device(1), of reader_fresh] shared_secret [OF reader(1), of device_fresh] reader(2,3) commutes
    by (simp add: Tag24_new_Inr)
  let ?sm = "\<lparr> sm_documents = documents, sm_session_transcript = SessionTranscript180135 ?engagement reader_key QR,
    sm_sk_device = sk_device, sm_device_message_counter = 0, sm_sk_reader = sk_reader, sm_reader_message_counter = 0,
    sm_state = AwaitingRequest, sm_trusted_verifiers = trusted, sm_device_auth_type = Sign1 \<rparr>"
  from built have "\<exists>sm'. handle_decoded_request base now ?sm \<lparr> sd_data = Some data, sd_status = None \<rparr> =
      (RequestAuthenticationOutcome_default \<lparr> ro_items_request := [mdl_request namespaces], ro_reader_authentication := Invalid \<rparr>, sm') \<and>
      synchronised rsm sm' \<and> same_session sm' ?sm \<and> sm_state sm' = sm_state ?sm"
    by (intro request_delivered [OF _ assms(1)]) (simp_all add: synchronised_def)
  with keys secret device(3,4) sent show ?thesis
    by (intro exI [of _ "\<lparr> se_e_reader_key = reader_key, se_data = data \<rparr>"])
      (auto simp: process_session_establishment_def qr_engagement_def same_session_def)
qed

end

text \<open>
  A response that is sent has passed the device's own check: its bytes are read back, as a response
  whose encoding they are.
\<close>

lemma submitted_last:
  assumes "submit_next_signature env sm signature = Some (Inr (), sm')" "sm_state sm = Signing p"
    and "is_complete (response_submit p signature)"
  shows "\<exists>b response. de_encode_response env (complete_response (response_submit p signature)) = Inr b \<and>
    de_decode_response env b = Inr response \<and> de_encode_response env response = Inr b \<and>
    encrypt_response env (sm \<lparr> sm_state := AwaitingRequest \<rparr>) b = (Inr (), sm')"
  using assms by (auto simp: submit_next_signature_def finalize_response_def Let_def split: sum.splits if_splits)

lemma submitted_all:
  assumes "submit_signatures env sm signatures = Some (Inr (), sm')" "sm_state sm = Signing p"
    and "prepared_documents p \<noteq> []" "length signatures = length (prepared_documents p)"
  shows "\<exists>b response. de_encode_response env (complete_response (signed_response p signatures)) = Inr b \<and>
    de_decode_response env b = Inr response \<and> de_encode_response env response = Inr b \<and>
    encrypt_response env (sm \<lparr> sm_state := AwaitingRequest \<rparr>) b = (Inr (), sm')"
  using assms
proof (induction signatures arbitrary: sm p)
  case (Cons signature rest)
  then obtain ds d where snoc: "prepared_documents p = ds @ [d]" by (metis rev_exhaust)
  let ?p = "response_submit p signature"
  have ds: "prepared_documents ?p = ds" by (simp add: response_submit_snoc [OF snoc])
  show ?case
  proof (cases ds)
    case Nil
    with Cons.prems(4) snoc have rest: "rest = []" by simp
    have "signed_response p [signature] = ?p" using Nil snoc by (simp add: signed_response_def response_submit_snoc)
    moreover have "submit_next_signature env sm signature = Some (Inr (), sm')"
      using Cons.prems(1) rest by (auto split: option.splits sum.splits prod.splits)
    ultimately show ?thesis
      using submitted_last [OF _ Cons.prems(2)] Nil ds rest by (simp add: is_complete_def)
  next
    case (Cons x xs)
    with ds have "submit_next_signature env sm signature = Some (Inr (), sm \<lparr> sm_state := Signing ?p \<rparr>)"
      using Cons.prems(2) by (simp add: submit_next_signature_def is_complete_def)
    with Cons.IH [of "sm \<lparr> sm_state := Signing ?p \<rparr>" ?p] Cons.prems(1,4) Cons ds snoc show ?thesis
      by (simp add: signed_response_step [OF snoc])
  qed
qed simp

context presentation_packages
begin

lemma exchange:
  assumes "synchronised rsm sm" "request_namespaces namespaces" "new_request env rsm namespaces = (Inr message, rsm1)"
    and "handle_request base now sm message = (outcome, sm1)"
    and "p = prepare_response (de_codec base) (sm_session_transcript sm) (sm_device_auth_type sm) (sm_documents sm)
      [mdl_request namespaces] permitted"
    and "prepared_documents p \<noteq> []" "length signatures = length (prepared_documents p)"
    and "submit_signatures base (sm_prepare_response base sm1 (ro_items_request outcome) permitted) signatures = Some (Inr (), sm2)"
    and "retrieve_response sm2 = (Some reply, sm3)"
  shows "\<exists>b response rsm2. de_encode_response base (complete_response (signed_response p signatures)) = Inr b \<and>
    de_encode_response base response = Inr b \<and>
    decrypt_response env rsm1 reply =
      (if isl (fst (encrypt_device_data (de_encrypt base) (sm_sk_device sm) b (sm_device_message_counter sm)))
       then Inl HolderError else Inr response, rsm2) \<and>
    synchronised rsm2 sm3 \<and> same_session sm3 sm \<and> sm_state sm3 = AwaitingRequest"
proof -
  let ?sm = "sm_prepare_response base sm1 (ro_items_request outcome) permitted"
  have request: "ro_items_request outcome = [mdl_request namespaces]" "synchronised rsm1 sm1" "same_session sm1 sm"
    using new_request_delivered [OF assms(1-3), of now] assms(4) by auto
  have counter: "sm_device_message_counter sm1 = sm_device_message_counter sm"
    using request(2) assms(1) new_request_counter [OF assms(3)] by (simp add: synchronised_def)
  have signing: "sm_state ?sm = Signing p"
    using request(1,3) by (simp add: sm_prepare_response_def assms(5) same_session_def)
  obtain b response where b: "de_encode_response base (complete_response (signed_response p signatures)) = Inr b"
    "de_decode_response base b = Inr response" "de_encode_response base response = Inr b"
    "encrypt_response base (?sm \<lparr> sm_state := AwaitingRequest \<rparr>) b = (Inr (), sm2)"
    using submitted_all [OF assms(8) signing assms(6,7)] by blast
  have ready: "sm_state sm2 = ReadyToRespond reply" "sm3 = sm2 \<lparr> sm_state := AwaitingRequest \<rparr>"
    using assms(9) by (auto simp: retrieve_response_def split: State.splits)
  have "synchronised rsm1 (?sm \<lparr> sm_state := AwaitingRequest \<rparr>)"
    using request(2) by (simp add: synchronised_def sm_prepare_response_def)
  from response_delivered [OF this b(4) ready(1)] obtain rsm2 where
    rsm2: "decrypt_response env rsm1 reply =
      (if isl (fst (encrypt_device_data (de_encrypt base) (sm_sk_device sm) b (sm_device_message_counter sm)))
       then Inl HolderError else Inr response, rsm2)" "synchronised rsm2 sm2"
    using request(3) counter b(2) by (auto simp: sm_prepare_response_def same_session_def)
  have "same_session sm2 (?sm \<lparr> sm_state := AwaitingRequest \<rparr>)" using encrypt_response_frame(1) [of base _ b] b(4) by (metis snd_conv)
  then have "same_session sm3 sm"
    using request(3) by (simp add: ready(2) same_session_def sm_prepare_response_def)
  with rsm2 b(1,3) show ?thesis
    by (intro exI [of _ b] exI [of _ response] exI [of _ rsm2]) (simp add: ready(2) synchronised_def)
qed

end

section \<open>Packages for both ends\<close>

text \<open>
  Instances of the packages: the native cipher interface over the HMAC package, the standard's
  compression function, a commutative exchange on bytes, and for session data, session establishment
  and requests the codecs of \<^verbatim>\<open>Presentation_Codec\<close>. Nothing is promised of the codec of responses; here
  it has one response.
\<close>

definition pkg_namespaces :: "(string, (string, bool) btree_map) btree_map" where
  "pkg_namespaces = [(''n'', [(''a'', True)])]"

definition pkg_permitted :: PermittedItems where
  "pkg_permitted = [(MDL_DOC_TYPE, [(''n'', [''a''])])]"

definition pkg_prepared :: PreparedDeviceResponse where
  "pkg_prepared = prepare_response sample_device_codec (0 :: nat) Sign1 [(MDL_DOC_TYPE, sample_document)]
     [mdl_request pkg_namespaces] pkg_permitted"

definition pkg_reply :: DeviceResponse where
  "pkg_reply = complete_response (signed_response pkg_prepared [[9]])"

definition pkg_base :: "(u8, bytes, u8, nat, nat) device_env" where
  "pkg_base =
     \<lparr> de_compress = sha_compress, de_codec = sample_device_codec,
       de_encode_key = (\<lambda>_. Inr []), de_encode_engagement = (\<lambda>_. Inr [0]), de_encode_transcript = (\<lambda>_. Inr []),
       de_encode_reader_authentication = (\<lambda>_. Inr []),
       de_encode_response = (\<lambda>r. if r = pkg_reply then Inr [2] else Inl ()),
       de_decode_response = (\<lambda>b. if b = [2] then Inr pkg_reply else Inl ()),
       de_encode_session_data = encode_session_data, de_decode_session_data = decode_session_data,
       de_decode_value = cbor_decode, de_request_from_value = request_from_value,
       de_base64 = sample_encode, de_encoded_point = (\<lambda>sk. 4 # replicate 31 0 @ sk # replicate 32 0),
       de_point_x = (\<lambda>p. Some (take 32 (drop 1 p))), de_point_y = (\<lambda>p. Some (drop 33 p)),
       de_point_from_bytes = Inr, de_public_key = (\<lambda>p. Some (p ! 32)), de_diffie_hellman = (\<lambda>sk pk. [sk * pk]),
       de_encrypt = native_encrypt_with_backend hmac_aead, de_decrypt = native_decrypt_with_backend hmac_aead,
       de_x509 = sample_x509, de_certificate_from_der = (\<lambda>_. None), de_signature_from_bytes = (\<lambda>b. Some (length b)) \<rparr>"

definition pkg_engagement :: DeviceEngagement where
  "pkg_engagement = \<lparr> de_version = ''1.0'',
     de_security = (1, \<lparr> tag24_inner = EC2 P256 (replicate 31 0 @ [3]) (EC2Y_Value (replicate 32 0)), tag24_inner_bytes = [] \<rparr>),
     device_retrieval_methods = None, server_retrieval_methods = None, protocol_info = None \<rparr>"

definition pkg_env :: "(u8, bytes, u8, nat, nat, unit) reader_env" where
  "pkg_env =
     \<lparr> re_base = pkg_base,
       re_auth = \<lparr> ae_codec = sample_device_codec,
         ae_decode_mso = (\<lambda>_. Inr \<lparr> tag24_inner = doc_mso sample_document, tag24_inner_bytes = [] \<rparr>),
         ae_decode_value = (\<lambda>_. Inr VNull), ae_encode_text = (\<lambda>s. Inr (text_bytes s)), ae_point_from_bytes = Inr,
         ae_verifying_key = (\<lambda>p. Some (length p)), ae_signature_from_bytes = (\<lambda>b. Some (length b)), ae_x509 = sample_x509 \<rparr>,
       re_base64_decode = sample_decode, re_decode_engagement = (\<lambda>_. Inr pkg_engagement),
       re_hkdf_expand = (\<lambda>_ _. Inr (replicate 16 0)),
       re_encode_items_request = encode_items_request, re_encode_request = encode_request,
       re_encode_establishment = encode_establishment,
       re_json_integer = (\<lambda>i. if - (2 ^ 63) \<le> i \<and> i < 2 ^ 64 then Some (JNumber i) else None) \<rparr>"

lemma pkg_base_simps:
  "re_base pkg_env = pkg_base" "de_encrypt pkg_base = native_encrypt_with_backend hmac_aead"
  "de_decrypt pkg_base = native_decrypt_with_backend hmac_aead"
  "de_encode_session_data pkg_base = encode_session_data" "de_decode_session_data pkg_base = decode_session_data"
  "de_decode_value pkg_base = cbor_decode" "de_request_from_value pkg_base = request_from_value"
  "re_encode_items_request pkg_env = encode_items_request" "re_encode_request pkg_env = encode_request"
  by (simp_all add: pkg_env_def pkg_base_def)

lemma pkg_encrypt:
  assumes "length k = 32"
  shows "native_encrypt_with_backend hmac_aead k iv m = Inr (m @ hmac_tag k iv m)"
  using assms by (simp add: native_encrypt_with_backend_def native_seal_def seal_with_post_copy_def hmac_aead_def
    copied_from_def into_vec_def)

text \<open>The requests the reader builds are read back by the standard's encoding.\<close>

lemma built_request_decodes:
  assumes "request_namespaces namespaces" "re_encode_items_request env = encode_items_request"
    and "build_device_request env namespaces = Inr request" "encode_request request = Inr b"
  shows "\<exists>v. cbor_decode b = Inr v \<and> request_from_value v = Inr request"
proof -
  obtain t where t: "Tag24_new encode_items_request (mdl_request namespaces) = Inr t"
    "dreq_doc_requests request = [\<lparr> dq_items_request = t, dq_reader_auth = None \<rparr>]"
    using assms(2,3) by (auto simp: build_device_request_def mdl_request_def result_simps)
  then have "encode_items_request (tag24_inner t) = Inr (tag24_inner_bytes t)" "ir_namespaces (tag24_inner t) = namespaces"
    by (auto simp: Tag24_new_Inr mdl_request_def)
  then have "decode_items_request (tag24_inner_bytes t) = Inr (tag24_inner t)"
    using assms(1) by (simp add: items_request_round_trip)
  with t(2) show ?thesis by (intro request_round_trip [OF assms(4)]) auto
qed

interpretation pkg: presentation_packages pkg_env "\<lambda>sk. sk"
proof
  show "de_decrypt (re_base pkg_env) key iv ct = Inr m" if "de_encrypt (re_base pkg_env) key iv m = Inr ct" for key iv m ct
    using that session_channel.opens [OF hmac_aead.native_channel] by (simp add: pkg_base_simps)
  show "\<exists>v. de_decode_value (re_base pkg_env) b = Inr v \<and> de_request_from_value (re_base pkg_env) v = Inr request"
    if "request_namespaces namespaces" "build_device_request pkg_env namespaces = Inr request" "re_encode_request pkg_env request = Inr b"
    for namespaces request b
    using built_request_decodes [OF that(1) _ that(2), of b] that(3) by (simp add: pkg_base_simps)
  show "de_decode_session_data (re_base pkg_env) b = Inr sd" if "de_encode_session_data (re_base pkg_env) sd = Inr b" for sd b
    using that by (simp add: pkg_base_simps session_data_round_trip)
qed (auto simp: pkg_env_def pkg_base_def nth_append sample_decode_encode mult.commute split: if_splits)

section \<open>Values as JSON\<close>

text \<open>The values the reader can report: no float or null outside of a map entry without a text key,
  and only texts under a tag.\<close>

fun readable :: "Value \<Rightarrow> bool" and readable_array :: "Value list \<Rightarrow> bool"
  and readable_map :: "(Value \<times> Value) list \<Rightarrow> bool" where
  "readable (VTag _ v) = (case v of VText _ \<Rightarrow> True | _ \<Rightarrow> False)"
| "readable (VArray v) = readable_array v"
| "readable (VMap m) = readable_map m"
| "readable VNull = False"
| "readable (VFloat _) = False"
| "readable _ = True"
| "readable_array [] = True"
| "readable_array (a # v) = (readable a \<and> readable_array v)"
| "readable_map [] = True"
| "readable_map ((key, value) # m) = ((case key of VText _ \<Rightarrow> readable value | _ \<Rightarrow> True) \<and> readable_map m)"

lemma isl_map_ok [simp]: "isl (map_ok f r) = isl r"
  by (cases r) simp_all

text \<open>
  The package of the JSON values has numbers of 64 bits, signed or unsigned, and its conversion panics
  for the others. A value stops the reader when such an integer is reached: the elements of an array
  and the entries of a map are converted in their order, up to the first that cannot be read.
\<close>

definition json_integers :: "(int \<Rightarrow> Json option) \<Rightarrow> bool" where
  "json_integers integer \<longleftrightarrow> (\<forall>i. integer i = (if - (2 ^ 63) \<le> i \<and> i < 2 ^ 64 then Some (JNumber i) else None))"

fun panics :: "Value \<Rightarrow> bool" and panics_array :: "Value list \<Rightarrow> bool"
  and panics_map :: "(Value \<times> Value) list \<Rightarrow> bool" where
  "panics (VInteger i) = (i < - (2 ^ 63) \<or> 2 ^ 64 \<le> i)"
| "panics (VArray v) = panics_array v"
| "panics (VMap m) = panics_map m"
| "panics _ = False"
| "panics_array [] = False"
| "panics_array (a # v) = (panics a \<or> readable a \<and> panics_array v)"
| "panics_map [] = False"
| "panics_map ((key, value) # m) = (case key of
     VText _ \<Rightarrow> panics value \<or> readable value \<and> panics_map m | _ \<Rightarrow> panics_map m)"

lemma parse_response_cases:
  "json_integers integer \<Longrightarrow> if panics v then parse_response integer v = None
     else \<exists>r. parse_response integer v = Some r \<and> (isl r \<longleftrightarrow> \<not> readable v)"
  "json_integers integer \<Longrightarrow> if panics_array vs then parse_array integer vs = None
     else \<exists>r. parse_array integer vs = Some r \<and> (isl r \<longleftrightarrow> \<not> readable_array vs)"
  "json_integers integer \<Longrightarrow> if panics_map m then parse_map integer m acc = None
     else \<exists>r. parse_map integer m acc = Some r \<and> (isl r \<longleftrightarrow> \<not> readable_map m)"
proof (induction integer v and integer vs and integer m acc rule: parse_response_parse_array_parse_map.induct)
  case (11 integer a v)
  then show ?case by (cases "parse_response integer a") (auto split: sum.splits if_splits)
next
  case (13 integer key "value" m acc)
  show ?case
  proof (cases key)
    case (VText k)
    show ?thesis
    proof (cases "parse_response integer value")
      case None
      then show ?thesis using 13(4) [OF VText "13.prems"] by (simp add: VText split: if_splits)
    next
      case (Some r)
      with 13(4) [OF VText "13.prems"] have r: "\<not> panics value" "isl r \<longleftrightarrow> \<not> readable value" by (auto split: if_splits)
      show ?thesis
      proof (cases r)
        case (Inr val)
        with 13(5) [OF VText Some _ "13.prems"] r Some VText show ?thesis by simp
      qed (use r Some VText in simp)
    qed
  qed (use 13 in auto)
next
  case (7 integer i)
  then show ?case by (simp add: json_integers_def)
qed (auto split: Value.splits)

text \<open>The value of an element is that of the last item that names it and can be read.\<close>

definition readable_values :: "(int \<Rightarrow> Json option) \<Rightarrow> item_bytes list \<Rightarrow> string \<Rightarrow> Json list" where
  "readable_values integer items e = List.map_filter (\<lambda>item. case parse_response integer (item_element_value (tag24_inner item)) of
     Some (Inr val) \<Rightarrow> if item_element_identifier (tag24_inner item) = e then Some val else None | _ \<Rightarrow> None) items"

definition last_option :: "'a list \<Rightarrow> 'a option" where
  "last_option xs = (if xs = [] then None else Some (last xs))"

lemma last_option_append: "last_option (xs @ ys) = (case last_option ys of Some y \<Rightarrow> Some y | None \<Rightarrow> last_option xs)"
  by (simp add: last_option_def)

lemma readable_values_Cons:
  "parse_response integer (item_element_value (tag24_inner item)) = Some (Inl err) \<Longrightarrow>
     readable_values integer (item # items) e = readable_values integer items e"
  "parse_response integer (item_element_value (tag24_inner item)) = Some (Inr val) \<Longrightarrow>
     readable_values integer (item # items) e =
       (if item_element_identifier (tag24_inner item) = e then [val] else []) @ readable_values integer items e"
  by (simp_all add: readable_values_def map_filter_simps)

lemma collect_values_get:
  assumes "json_integers integer"
  shows "if list_ex (\<lambda>item. panics (item_element_value (tag24_inner item))) items then collect_values integer items acc = None
    else \<exists>m. collect_values integer items acc = Some m \<and>
      (\<forall>e. bt_get m e = (case last_option (readable_values integer items e) of Some val \<Rightarrow> Some val | None \<Rightarrow> bt_get acc e))"
proof (induction items arbitrary: acc)
  case (Cons item items)
  show ?case
  proof (cases "parse_response integer (item_element_value (tag24_inner item))")
    case None
    with parse_response_cases(1) [OF assms, of "item_element_value (tag24_inner item)"] show ?thesis by (simp split: if_splits)
  next
    case (Some r)
    with parse_response_cases(1) [OF assms, of "item_element_value (tag24_inner item)"]
    have calm: "\<not> panics (item_element_value (tag24_inner item))" by (simp split: if_splits)
    show ?thesis
    proof (cases r)
      case (Inl err)
      with Some calm Cons.IH [of acc] show ?thesis by (simp add: readable_values_Cons)
    next
      case (Inr val)
      have step: "(case last_option (readable_values integer (item # items) e) of Some v \<Rightarrow> Some v | None \<Rightarrow> bt_get acc e) =
          (case last_option (readable_values integer items e) of Some v \<Rightarrow> Some v
           | None \<Rightarrow> bt_get (bt_insert (item_element_identifier (tag24_inner item)) val acc) e)" for e
        using Some Inr by (simp add: readable_values_Cons last_option_append bt_get_insert last_option_def [of "[_]"] last_option_def [of "[]"]
          split: option.split)
      show ?thesis unfolding step using Some Inr calm Cons.IH by simp
    qed
  qed
qed (simp add: readable_values_def map_filter_simps last_option_def)

lemma bt_get_remove_other: "k \<noteq> k' \<Longrightarrow> bt_get (bt_remove k m) k' = bt_get m k'"
  by (induction k m rule: bt_remove.induct) (auto simp: bt_get_def)

definition stops_reader :: "item_bytes list \<Rightarrow> bool" where
  "stops_reader items = list_ex (\<lambda>item. panics (item_element_value (tag24_inner item))) items"

lemma collected_values:
  assumes "json_integers integer"
  shows "collect_values integer items [] = None \<longleftrightarrow> stops_reader items"
    and "collect_values integer items [] = Some m \<Longrightarrow> bt_get m e = last_option (readable_values integer items e)"
proof -
  have "(case x of Some val \<Rightarrow> Some val | None \<Rightarrow> bt_get [] e) = x" for x :: "Json option" and e :: string
    by (simp add: bt_get_def split: option.split)
  with collect_values_get [OF assms, of items "[]"]
  have all: "if stops_reader items then collect_values integer items [] = None
    else \<exists>m. collect_values integer items [] = Some m \<and> (\<forall>e. bt_get m e = last_option (readable_values integer items e))"
    by (simp only: stops_reader_def)
  then show "collect_values integer items [] = None \<longleftrightarrow> stops_reader items" by (auto split: if_splits)
  show "collect_values integer items [] = Some m \<Longrightarrow> bt_get m e = last_option (readable_values integer items e)"
    using all by (auto split: if_splits)
qed

text \<open>The namespaces are the mDL namespace and, if present, the AAMVA namespace.\<close>

lemma parse_namespaces_found:
  assumes integer: "json_integers integer"
    and docs: "dr_documents response = Some documents" "find (\<lambda>doc. rd_doc_type doc = MDL_DOC_TYPE) documents = Some document"
      "isg_namespaces (rd_issuer_signed document) = Some namespaces" "bt_get namespaces ''org.iso.18013.5.1'' = Some core"
  shows "case parse_namespaces integer response of
      None \<Rightarrow> \<exists>ns items. ns \<in> {''org.iso.18013.5.1'', ''org.iso.18013.5.1.aamva''} \<and> bt_get namespaces ns = Some items \<and> stops_reader items
    | Some result \<Rightarrow> (\<exists>parsed. result = Inr parsed \<and>
        (\<forall>ns. bt_get parsed ns = None \<longleftrightarrow> ns \<notin> {''org.iso.18013.5.1'', ''org.iso.18013.5.1.aamva''} \<or> bt_get namespaces ns = None) \<and>
        (\<forall>ns items. bt_get namespaces ns = Some items \<and> bt_get parsed ns \<noteq> None \<longrightarrow> \<not> stops_reader items \<and>
          (\<exists>m. bt_get parsed ns = Some (JObject m) \<and> (\<forall>e. bt_get m e = last_option (readable_values integer items e)))))"
proof -
  let ?core = "''org.iso.18013.5.1''" and ?aamva = "''org.iso.18013.5.1.aamva''"
  have other: "bt_get (bt_remove ?core namespaces) ?aamva = bt_get namespaces ?aamva" by (rule bt_get_remove_other) simp
  have start: "parse_namespaces integer response = Option.bind (collect_values integer core []) (\<lambda>m.
      case bt_get namespaces ?aamva of None \<Rightarrow> Some (Inr (bt_insert ?core (JObject m) []))
      | Some items \<Rightarrow> Option.bind (collect_values integer items []) (\<lambda>m'.
          Some (Inr (bt_insert ?aamva (JObject m') (bt_insert ?core (JObject m) [])))))"
    using docs other by (cases "bt_get namespaces ?aamva") (simp_all add: parse_namespaces_def get_document_def Let_def)
  note collected = collected_values [OF integer]
  show ?thesis
  proof (cases "collect_values integer core []")
    case None
    with start docs(4) collected(1) show ?thesis by auto
  next
    case core_values: (Some m)
    then have core_calm: "\<not> stops_reader core" using collected(1) [of core] by simp
    show ?thesis
    proof (cases "bt_get namespaces ?aamva")
      case None
      with start core_values core_calm docs(4) collected(2) [OF core_values] show ?thesis
        by (auto simp: bt_get_def [of "[_]"] split: if_splits)
    next
      case (Some items)
      show ?thesis
      proof (cases "collect_values integer items []")
        case None
        with start core_values Some collected(1) show ?thesis by auto
      next
        case aamva_values: (Some m')
        then have "\<not> stops_reader items" using collected(1) [of items] by simp
        with start core_values aamva_values core_calm Some docs(4) collected(2) [OF core_values] collected(2) [OF aamva_values]
        show ?thesis by (auto simp: bt_get_def [of "_ # _"] split: if_splits)
      qed
    qed
  qed
qed

text \<open>C19. What the reader reports of a response. The first document of the mDL type is read; without
  documents, without such a document, without issuer-signed namespaces or without the mDL namespace
  there is the respective error. Otherwise the reader panics exactly when an item of the mDL namespace
  or of the AAMVA namespace has a value in which an integer without a JSON number is reached; else the
  mDL namespace and, if present, the AAMVA namespace are reported and no other, and in each an element
  has the value of the last item that names it and can be read, if there is one.\<close>

theorem parse_namespaces_exact:
  assumes "json_integers integer"
  shows "case dr_documents response of
      None \<Rightarrow> parse_namespaces integer response = Some (Inl DeviceTransmissionError)
    | Some documents \<Rightarrow> (case find (\<lambda>doc. rd_doc_type doc = MDL_DOC_TYPE) documents of
        None \<Rightarrow> parse_namespaces integer response = Some (Inl DocumentTypeError)
      | Some document \<Rightarrow> (case isg_namespaces (rd_issuer_signed document) of
          None \<Rightarrow> parse_namespaces integer response = Some (Inl NoMdlDataTransmission)
        | Some namespaces \<Rightarrow> (case bt_get namespaces ''org.iso.18013.5.1'' of
            None \<Rightarrow> parse_namespaces integer response = Some (Inl IncorrectNamespace)
          | Some core \<Rightarrow> (case parse_namespaces integer response of
              None \<Rightarrow> \<exists>ns items. ns \<in> {''org.iso.18013.5.1'', ''org.iso.18013.5.1.aamva''} \<and>
                bt_get namespaces ns = Some items \<and> stops_reader items
            | Some result \<Rightarrow> (\<exists>parsed. result = Inr parsed \<and>
                (\<forall>ns. bt_get parsed ns = None \<longleftrightarrow>
                  ns \<notin> {''org.iso.18013.5.1'', ''org.iso.18013.5.1.aamva''} \<or> bt_get namespaces ns = None) \<and>
                (\<forall>ns items. bt_get namespaces ns = Some items \<and> bt_get parsed ns \<noteq> None \<longrightarrow> \<not> stops_reader items \<and>
                  (\<exists>m. bt_get parsed ns = Some (JObject m) \<and>
                    (\<forall>e. bt_get m e = last_option (readable_values integer items e)))))))))"
  using parse_namespaces_found [OF assms]
  by (simp add: parse_namespaces_def get_document_def split: option.split)

definition reported_response :: DeviceResponse where
  "reported_response = complete_response (PreparedDeviceResponse_empty StatusOK) \<lparr> dr_documents := Some
     [(PreparedDocument_finalize (hd (prepared_documents sample_response)) [])
        \<lparr> rd_doc_type := MDL_DOC_TYPE, rd_issuer_signed := \<lparr> isg_namespaces = Some [(''org.iso.18013.5.1'', [sample_held_item])],
          isg_issuer_auth = sample_sign1 \<rparr> \<rparr>] \<rparr>"

theorem parse_namespaces_exact_witness:
  "\<exists>parsed m. parse_namespaces (re_json_integer pkg_env) reported_response = Some (Inr parsed) \<and>
     bt_get parsed ''org.iso.18013.5.1'' = Some (JObject m) \<and> bt_get m ''a'' = Some (JBool True)"
proof -
  let ?ns = "''org.iso.18013.5.1''" and ?integer = "re_json_integer pkg_env"
  have integer: "json_integers ?integer" by (simp add: json_integers_def pkg_env_def)
  have "last_option (readable_values (\<lambda>i. Some (JNumber i)) [sample_held_item] ''a'') = Some (JBool True)" by code_simp
  moreover have "readable_values ?integer [sample_held_item] ''a'' = readable_values (\<lambda>i. Some (JNumber i)) [sample_held_item] ''a''"
    by (simp add: readable_values_def map_filter_simps sample_held_item_def sample_item_def)
  moreover have calm: "\<not> stops_reader [sample_held_item]" by code_simp
  ultimately have last_value: "last_option (readable_values ?integer [sample_held_item] ''a'') = Some (JBool True)" by simp
  obtain document where document: "dr_documents reported_response = Some [document]" "rd_doc_type document = MDL_DOC_TYPE"
    "isg_namespaces (rd_issuer_signed document) = Some [(?ns, [sample_held_item])]"
    by (simp add: reported_response_def)
  have found: "find (\<lambda>doc. rd_doc_type doc = MDL_DOC_TYPE) [document] = Some document" using document(2) by simp
  have core: "bt_get [(?ns, [sample_held_item])] ?ns = Some [sample_held_item]" by (simp add: bt_get_def)
  have aamva: "bt_get [(?ns, [sample_held_item])] ''org.iso.18013.5.1.aamva'' = None" by (simp add: bt_get_def)
  note result = parse_namespaces_exact [OF integer, of reported_response, unfolded document(1) option.case found document(3) core]
  show ?thesis
  proof (cases "parse_namespaces ?integer reported_response")
    case None
    with result core aamva calm show ?thesis by auto
  next
    case (Some r)
    with result obtain parsed where parsed: "r = Inr parsed"
      "\<forall>ns. bt_get parsed ns = None \<longleftrightarrow> ns \<notin> {?ns, ''org.iso.18013.5.1.aamva''} \<or> bt_get [(?ns, [sample_held_item])] ns = None"
      "\<forall>ns items. bt_get [(?ns, [sample_held_item])] ns = Some items \<and> bt_get parsed ns \<noteq> None \<longrightarrow> \<not> stops_reader items \<and>
        (\<exists>m. bt_get parsed ns = Some (JObject m) \<and> (\<forall>e. bt_get m e = last_option (readable_values ?integer items e)))"
      unfolding Some option.case by blast
    have "bt_get parsed ?ns \<noteq> None" using parsed(2) [rule_format, of ?ns] core by simp
    with parsed(3) core last_value Some parsed(1) show ?thesis by metis
  qed
qed

text \<open>An integer in the mDL namespace that has no JSON form stops the reader.\<close>

lemma collect_values_panics:
  assumes "item \<in> set items" "item_element_value (tag24_inner item) = VInteger i" "integer i = None"
  shows "collect_values integer items acc = None"
  using assms by (induction items arbitrary: acc) (auto split: option.splits sum.splits)

lemma unrepresentable_integer_panics:
  assumes "get_document response = Inr document" "isg_namespaces (rd_issuer_signed document) = Some namespaces"
    and "bt_get namespaces ''org.iso.18013.5.1'' = Some items" "item \<in> set items"
    and "item_element_value (tag24_inner item) = VInteger i" "integer i = None"
  shows "parse_namespaces integer response = None"
proof -
  have "collect_values integer items [] = None" by (rule collect_values_panics) (fact assms)+
  with assms(1-3) show ?thesis by (simp add: parse_namespaces_def)
qed


section \<open>The verdict on a response\<close>

text \<open>
  What it means that the reader could read a response: its session data carries a ciphertext that opens
  under the device's key and the next counter, to a response whose first document of the mDL type
  carries a certificate chain, and whose namespaces could be reported.
\<close>

definition response_read :: "('sk, 'p, 'pk, 'k, 's, 'vi) reader_env \<Rightarrow> ReaderSessionManager \<Rightarrow> bytes
    \<Rightarrow> ResponseDocument \<Rightarrow> X5Chain \<Rightarrow> (string, Json) btree_map \<Rightarrow> bool" where
  "response_read env self message document chain namespaces \<longleftrightarrow>
     (\<exists>session_data ciphertext plaintext response documents header.
        de_decode_session_data (re_base env) message = Inr session_data \<and> sd_data session_data = Some ciphertext \<and>
        rsm_device_message_counter self \<noteq> -1 \<and>
        de_decrypt (re_base env) (rsm_sk_device self)
          ([0, 0, 0, 0, 0, 0, 0, 1] @ be_bytes32 (rsm_device_message_counter self + 1)) ciphertext = Inr plaintext \<and>
        de_decode_response (re_base env) plaintext = Inr response \<and>
        dr_documents response = Some documents \<and> find (\<lambda>doc. rd_doc_type doc = MDL_DOC_TYPE) documents = Some document \<and>
        find_x5chain (s1_unprotected (mt_inner (isg_issuer_auth (rd_issuer_signed document)))) = Some header \<and>
        X5Chain_from_cbor (de_certificate_from_der (re_base env)) header = Inr chain \<and>
        parse_namespaces (re_json_integer env) response = Some (Inr namespaces))"

lemma decrypted_iff:
  "fst (decrypt_response env self message) = Inr response \<longleftrightarrow>
     (\<exists>session_data ciphertext plaintext.
        de_decode_session_data (re_base env) message = Inr session_data \<and> sd_data session_data = Some ciphertext \<and>
        rsm_device_message_counter self \<noteq> -1 \<and>
        de_decrypt (re_base env) (rsm_sk_device self)
          ([0, 0, 0, 0, 0, 0, 0, 1] @ be_bytes32 (rsm_device_message_counter self + 1)) ciphertext = Inr plaintext \<and>
        de_decode_response (re_base env) plaintext = Inr response)"
  by (auto simp: decrypt_response_def decrypt_device_data_def decrypt_def get_initialization_vector_def Let_def result_simps
    split: sum.splits option.splits prod.splits)

lemma parsed_iff:
  "reader_parse env response = Some (Inr (document, chain, namespaces)) \<longleftrightarrow>
     (\<exists>documents header. dr_documents response = Some documents \<and>
        find (\<lambda>doc. rd_doc_type doc = MDL_DOC_TYPE) documents = Some document \<and>
        find_x5chain (s1_unprotected (mt_inner (isg_issuer_auth (rd_issuer_signed document)))) = Some header \<and>
        X5Chain_from_cbor (de_certificate_from_der (re_base env)) header = Inr chain \<and>
        parse_namespaces (re_json_integer env) response = Some (Inr namespaces))"
  by (auto simp: reader_parse_def get_document_def result_simps split: sum.splits)

lemma response_read_iff:
  "response_read env self message document chain namespaces \<longleftrightarrow>
     (\<exists>response. fst (decrypt_response env self message) = Inr response \<and>
        reader_parse env response = Some (Inr (document, chain, namespaces)))"
  unfolding response_read_def decrypted_iff parsed_iff by blast

lemma decrypt_response_frame:
  "rsm_session_transcript (snd (decrypt_response env self message)) = rsm_session_transcript self"
  "rsm_trust_anchor_registry (snd (decrypt_response env self message)) = rsm_trust_anchor_registry self"
  by (simp_all add: decrypt_response_def split_beta Let_def split: sum.split option.split)

text \<open>A response that is read is validated; of one that is not, the outcome says so and nothing else.\<close>

lemma handle_response_read:
  assumes "response_read env self message document chain namespaces"
  shows "fst (handle_response env now self message) = Some (validate_response (re_auth env) now (rsm_session_transcript self)
    (rsm_trust_anchor_registry self) chain document namespaces)"
  using assms decrypt_response_frame [of env self message]
  by (auto simp: response_read_iff handle_response_def split: prod.splits)

lemma handle_response_unread:
  assumes "fst (handle_response env now self message) = Some outcome" "\<nexists>document chain namespaces. response_read env self message document chain namespaces"
  shows "\<exists>name errors. errors \<noteq> [] \<and> outcome = ResponseAuthenticationOutcome_default \<lparr> rso_errors := [(name, errors)] \<rparr>"
proof (cases "fst (decrypt_response env self message)")
  case (Inl e)
  then have "fst (handle_response env now self message) =
      Some (ResponseAuthenticationOutcome_default \<lparr> rso_errors := [(''decryption_errors'', [ResponseNotDecrypted e])] \<rparr>)"
    by (simp add: handle_response_def split_beta)
  with assms(1) show ?thesis by (intro exI [of _ "''decryption_errors''"] exI [of _ "[ResponseNotDecrypted e]"]) simp
next
  case (Inr response)
  with assms(2) have unread: "reader_parse env response \<noteq> Some (Inr parsed)" for parsed
    by (cases parsed) (auto simp: response_read_iff)
  have handled: "fst (handle_response env now self message) = map_option (\<lambda>parsed. case parsed of
      Inr (document, x5chain, namespaces) \<Rightarrow> validate_response (re_auth env) now
        (rsm_session_transcript (snd (decrypt_response env self message)))
        (rsm_trust_anchor_registry (snd (decrypt_response env self message))) x5chain document namespaces
    | Inl e \<Rightarrow> ResponseAuthenticationOutcome_default \<lparr> rso_errors := [(''parsing_errors'', [ResponseNotParsed e])] \<rparr>)
      (reader_parse env response)"
    using Inr by (simp add: handle_response_def split_beta)
  obtain e where "reader_parse env response = Some (Inl e)"
    using assms(1) unread unfolding handled by (cases "reader_parse env response") (auto split: sum.splits)
  then have "fst (handle_response env now self message) =
      Some (ResponseAuthenticationOutcome_default \<lparr> rso_errors := [(''parsing_errors'', [ResponseNotParsed e])] \<rparr>)"
    by (simp add: handled)
  with assms(1) show ?thesis by (intro exI [of _ "''parsing_errors''"] exI [of _ "[ResponseNotParsed e]"]) simp
qed

text \<open>C12. The verdict of the reader on any message it receives, when the conversion of values does not
  panic. Both authentications stay unchecked exactly when the message could not be read: then no value
  is reported and there is an error. Otherwise the values of the response are reported; the device is
  authenticated exactly when the document carries its detached signature over the session's transcript
  under the device key of the issuer's security object, and the issuer exactly when the chain has no
  error against the reader's trust anchors and the security object carries a signature under the key of
  its first certificate; otherwise either is invalid. There are no errors exactly when both are valid.\<close>

theorem response_verdict:
  assumes "handle_response env now self message = (Some outcome, self')"
  shows "(rso_device_authentication outcome = Unchecked \<longleftrightarrow>
        (\<nexists>document chain namespaces. response_read env self message document chain namespaces)) \<and>
      (rso_issuer_authentication outcome = Unchecked \<longleftrightarrow>
        (\<nexists>document chain namespaces. response_read env self message document chain namespaces)) \<and>
      (rso_device_authentication outcome = Valid \<longleftrightarrow>
        (\<exists>document chain namespaces. response_read env self message document chain namespaces \<and>
          carries_device_signature (re_auth env) (rsm_session_transcript self) document)) \<and>
      (rso_issuer_authentication outcome = Valid \<longleftrightarrow>
        (\<exists>document chain namespaces. response_read env self message document chain namespaces \<and>
          ValidationRuleset_validate (ae_x509 (re_auth env)) now Mdl chain (rsm_trust_anchor_registry self) = [] \<and>
          carries_issuer_signature (re_auth env) chain (rd_issuer_signed document))) \<and>
      (rso_errors outcome = [] \<longleftrightarrow> rso_device_authentication outcome = Valid \<and> rso_issuer_authentication outcome = Valid) \<and>
      (if rso_device_authentication outcome = Unchecked then rso_response outcome = []
       else \<exists>document chain. response_read env self message document chain (rso_response outcome))"
proof (cases "\<exists>document chain namespaces. response_read env self message document chain namespaces")
  case True
  then obtain document chain namespaces where read: "response_read env self message document chain namespaces" by blast
  then have only: "response_read env self message d c n \<longleftrightarrow> d = document \<and> c = chain \<and> n = namespaces" for d c n
    by (auto simp: response_read_iff)
  have "outcome = validate_response (re_auth env) now (rsm_session_transcript self)
      (rsm_trust_anchor_registry self) chain document namespaces"
    using handle_response_read [OF read, of now] assms by simp
  with validate_response_verdict [of "re_auth env" now "rsm_session_transcript self" "rsm_trust_anchor_registry self" chain document namespaces]
  have verdict: "rso_device_authentication outcome =
      (if carries_device_signature (re_auth env) (rsm_session_transcript self) document then Valid else Invalid)"
    "rso_issuer_authentication outcome =
      (if ValidationRuleset_validate (ae_x509 (re_auth env)) now Mdl chain (rsm_trust_anchor_registry self) = [] \<and>
          carries_issuer_signature (re_auth env) chain (rd_issuer_signed document) then Valid else Invalid)"
    "rso_errors outcome = [] \<longleftrightarrow> rso_device_authentication outcome = Valid \<and> rso_issuer_authentication outcome = Valid"
    "rso_response outcome = namespaces"
    by (simp_all only: device_authentication_iff issuer_authentication_iff)
  show ?thesis unfolding only by (simp add: verdict(1,2,4)) (simp add: verdict(3) verdict(1,2))
next
  case False
  with handle_response_unread [of env now self message outcome] assms obtain name errors where
    "errors \<noteq> []" "outcome = ResponseAuthenticationOutcome_default \<lparr> rso_errors := [(name, errors)] \<rparr>" by auto
  with False show ?thesis by (simp add: ResponseAuthenticationOutcome_default_def)
qed

text \<open>A response whose device signature verifies and whose chain has no anchor.\<close>

definition reading_document :: ResponseDocument where
  "reading_document =
     \<lparr> rd_doc_type = MDL_DOC_TYPE,
       rd_issuer_signed = \<lparr> isg_namespaces = Some [(''org.iso.18013.5.1'', [sample_held_item])],
         isg_issuer_auth = MaybeTagged_new False \<lparr> s1_protected = empty_header,
           s1_unprotected = \<lparr> header_alg = None, header_rest = [(LabelInt X5CHAIN_COSE_HEADER_LABEL, VBytes [1])] \<rparr>,
           s1_payload = Some [], s1_signature = [] \<rparr> \<rparr>,
       rd_device_signed = \<lparr> ds_namespaces = \<lparr> tag24_inner = [], tag24_inner_bytes = [] \<rparr>,
         ds_device_auth = DeviceSignature (MaybeTagged_new False \<lparr> s1_protected = empty_header, s1_unprotected = empty_header,
           s1_payload = None, s1_signature = [] \<rparr>) \<rparr>,
       rd_errors = None \<rparr>"

definition reading_certificate :: Certificate where
  "reading_certificate = \<lparr> cert_subject = [], cert_issuer = [], cert_not_before = 0, cert_not_after = 9,
     cert_spki = \<lparr> spki_algorithm = [], spki_parameters = None, spki_unused_bits = 0, spki_raw_bytes = [] \<rparr>,
     cert_extensions = None, cert_signature = [] \<rparr>"

definition reading_env :: "(u8, bytes, u8, nat, nat, unit) reader_env" where
  "reading_env = pkg_env
     \<lparr> re_base := pkg_base
         \<lparr> de_decode_response := (\<lambda>_. Inr (sample_empty_response \<lparr> dr_documents := Some [reading_document] \<rparr>)),
           de_certificate_from_der := (\<lambda>_. Some reading_certificate) \<rparr>,
       re_auth := (re_auth pkg_env)
         \<lparr> ae_decode_mso := (\<lambda>_. Inr \<lparr> tag24_inner = doc_mso sample_document \<lparr> mso_device_key_info :=
             \<lparr> dki_device_key = EC2 P256 (replicate 32 1) (EC2Y_Value (replicate 32 2)),
               dki_key_authorizations = None, dki_key_info = None \<rparr> \<rparr>, tag24_inner_bytes = [] \<rparr>) \<rparr> \<rparr>"

definition reading_manager :: ReaderSessionManager where
  "reading_manager =
     \<lparr> rsm_session_transcript = SessionTranscript180135 \<lparr> tag24_inner = pkg_engagement, tag24_inner_bytes = [] \<rparr>
         \<lparr> tag24_inner = sample_key, tag24_inner_bytes = [] \<rparr> QR,
       rsm_sk_device = sample_session_key, rsm_device_message_counter = 0,
       rsm_sk_reader = sample_session_key, rsm_reader_message_counter = 0, rsm_trust_anchor_registry = \<lparr> anchors = [] \<rparr> \<rparr>"

theorem response_verdict_witness:
  "(\<exists>message outcome self'. handle_response reading_env 0 reading_manager message = (Some outcome, self') \<and>
      rso_device_authentication outcome = Valid \<and> rso_issuer_authentication outcome = Invalid \<and> rso_errors outcome \<noteq> []) \<and>
   (\<exists>outcome self'. handle_response reading_env 0 reading_manager [] = (Some outcome, self') \<and>
      rso_device_authentication outcome = Unchecked \<and> rso_response outcome = [] \<and> rso_errors outcome \<noteq> [])"
proof (rule conjI)
  let ?registry = "\<lparr> anchors = [] \<rparr>" and ?chain = "[\<lparr> cwd_inner = reading_certificate, cwd_der = [1] \<rparr>]"
  let ?iv = "[0, 0, 0, 0, 0, 0, 0, 1] @ be_bytes32 1"
  have "length sample_session_key = 32" by (simp add: sample_session_key_def)
  then obtain ciphertext where "native_encrypt_with_backend hmac_aead sample_session_key ?iv [] = Inr ciphertext" "length ciphertext = 16"
    using pkg_encrypt [of sample_session_key ?iv "[]"] by (simp add: length_hmac_tag)
  moreover from this obtain message where "encode_session_data \<lparr> sd_data = Some ciphertext, sd_status = None \<rparr> = Inr message"
    using session_data_encodes [of "\<lparr> sd_data = Some ciphertext, sd_status = None \<rparr>"] by auto
  ultimately have opened: "decode_session_data message = Inr \<lparr> sd_data = Some ciphertext, sd_status = None \<rparr>"
    "native_decrypt_with_backend hmac_aead sample_session_key ?iv ciphertext = Inr []"
    using session_channel.opens [OF hmac_aead.native_channel] by (simp_all add: session_data_round_trip)
  have values_read: "\<exists>namespaces. parse_namespaces (re_json_integer reading_env)
      (sample_empty_response \<lparr> dr_documents := Some [reading_document] \<rparr>) = Some (Inr namespaces)"
    by (simp add: parse_namespaces_def get_document_def reading_document_def bt_get_def sample_held_item_def Let_def
      bt_remove.simps)
  moreover have document: "rd_doc_type reading_document = MDL_DOC_TYPE"
    "find_x5chain (s1_unprotected (mt_inner (isg_issuer_auth (rd_issuer_signed reading_document)))) = Some (VBytes [1])"
    "X5Chain_from_cbor (\<lambda>_. Some reading_certificate) (VBytes [1]) = Inr ?chain"
    by (simp_all add: reading_document_def find_x5chain_def X5Chain_from_cbor_def with_der_certificate_def
      CertificateWithDer_from_der_def with_certificate_and_der_def build_chain_def NonEmptyVec_try_from_def MaybeTagged_new_def)
  ultimately obtain namespaces where read: "response_read reading_env reading_manager message reading_document ?chain namespaces"
    using opened document unfolding response_read_def
    by (auto simp: reading_env_def pkg_base_simps reading_manager_def)
  show "\<exists>message outcome self'. handle_response reading_env 0 reading_manager message = (Some outcome, self') \<and>
      rso_device_authentication outcome = Valid \<and> rso_issuer_authentication outcome = Invalid \<and> rso_errors outcome \<noteq> []"
  proof -
    obtain outcome self' where handled: "handle_response reading_env 0 reading_manager message = (Some outcome, self')"
      using handle_response_read [OF read, of 0] by (cases "handle_response reading_env 0 reading_manager message") simp
    have "ValidationRuleset_validate (ae_x509 (re_auth reading_env)) 0 Mdl chain ?registry \<noteq> []" for chain
      by (simp add: mdl_validate_def mdl_validate_inner_def find_trust_anchor_candidates_def Let_def)
    moreover have "carries_device_signature (re_auth reading_env) (rsm_session_transcript reading_manager) reading_document"
      by (simp add: carries_device_signature_def signed_by_def reading_env_def pkg_env_def reading_document_def
        MaybeTagged_new_def sample_device_codec_def sample_x509_def empty_header_def)
    moreover have "rsm_trust_anchor_registry reading_manager = ?registry" by (simp add: reading_manager_def)
    ultimately have "rso_device_authentication outcome = Valid" "rso_issuer_authentication outcome \<noteq> Unchecked"
        "rso_issuer_authentication outcome \<noteq> Valid" "rso_errors outcome \<noteq> []"
      using response_verdict [OF handled] read by auto
    then show ?thesis using handled by (cases "rso_issuer_authentication outcome") auto
  qed
next
  show "\<exists>outcome self'. handle_response reading_env 0 reading_manager [] = (Some outcome, self') \<and>
      rso_device_authentication outcome = Unchecked \<and> rso_response outcome = [] \<and> rso_errors outcome \<noteq> []"
  proof -
    have closed: "decode_session_data [] = Inl ()" by code_simp
    then obtain outcome where handled: "handle_response reading_env 0 reading_manager [] = (Some outcome, reading_manager)"
      by (simp add: handle_response_def decrypt_response_def reading_env_def pkg_base_simps)
    have "\<nexists>document chain namespaces. response_read reading_env reading_manager [] document chain namespaces"
      using closed by (simp add: response_read_def reading_env_def pkg_base_simps)
    then have "rso_device_authentication outcome = Unchecked" "rso_response outcome = []" "rso_errors outcome \<noteq> []"
      using response_verdict [OF handled] by auto
    then show ?thesis using handled by blast
  qed
qed

end
