(* ===== verification/Code_Table.thy ===== *)
theory Code_Table
  imports From_Json
begin

text \<open>
  Enumerations with a table of strings: \<^verbatim>\<open>as_str\<close> writes a code, the arms of \<^verbatim>\<open>from_str\<close> read it.
  The locale states what makes the two agree; every table of the data elements
  interprets it.
\<close>

locale code_table =
  fixes as_str :: "'c \<Rightarrow> string"
    and arms :: "(string \<times> 'c) list"
  assumes arms_sound: "(s, c) \<in> set arms \<Longrightarrow> as_str c = s"
    and arms_complete: "(as_str c, c) \<in> set arms"
    and arms_distinct: "distinct (map fst arms)"
begin

lemma lookup_as_str: "map_of arms (as_str c) = Some c"
  using arms_distinct arms_complete by simp

lemma lookup_Some: "map_of arms s = Some c \<longleftrightarrow> s = as_str c"
  using lookup_as_str arms_sound map_of_SomeD by metis

lemma lookup_None: "map_of arms s = None \<longleftrightarrow> s \<notin> range as_str"
  using lookup_Some by (metis not_None_eq rangeI rangeE)

lemma as_str_inj: "as_str c = as_str d \<longleftrightarrow> c = d"
  using lookup_as_str by (metis option.inject)

end

text \<open>
  A match on a string: the first arm with that string decides, and \<open>Any_Unrecognized\<close> is the
  error of the catch-all arm.
\<close>

definition match_str :: "(string \<times> 'c) list \<Rightarrow> string \<Rightarrow> anyhow_error + 'c" where
  "match_str arms s = ok_or (map_of arms s) (Any_Unrecognized s)"

text \<open>\<^verbatim>\<open>String::from_json(v)?.parse().map_err(Into::into).map_err(FromJsonError::Parsing)\<close>.\<close>

definition parse_from_json :: "(string \<Rightarrow> anyhow_error + 'c) \<Rightarrow> Json \<Rightarrow> FromJsonError + 'c" where
  "parse_from_json from_str v = and_then (String_from_json v) (\<lambda>s. map_err Parsing (from_str s))"

lemma parse_from_json_Inr [result_simps]:
  "parse_from_json f v = Inr c \<longleftrightarrow> (\<exists>s. v = JString s \<and> f s = Inr c)"
  by (auto simp: parse_from_json_def result_simps)

text \<open>A list that increases from each element to the next has no duplicates.\<close>

lemma increasing_distinct: "successively (<) (xs :: string list) \<Longrightarrow> distinct xs"
  using successively_conv_sorted_wrt [of "(<)" xs] strict_sorted_iff [of xs] by simp

text \<open>The arms of one group of codes, inside a table of several groups.\<close>

lemma group_arm: "(s, c) \<in> S \<Longrightarrow> (s, f c) \<in> map_prod id f ` S"
  by force

lemma group_arm_iff: "(s, d) \<in> map_prod id f ` S \<longleftrightarrow> (\<exists>c. (s, c) \<in> S \<and> d = f c)"
  by force

end
