(* ===== verification/Date_Text.thy ===== *)
theory Date_Text
  imports Code_Table
begin

text \<open>
  The text and date elements shared by the two namespaces: \<^verbatim>\<open>namespaces/latin1.rs\<close>,
  \<^verbatim>\<open>namespaces/fulldate.rs\<close> and \<^verbatim>\<open>org_iso_18013_5_1/tdate.rs\<close>. Parsing and formatting of dates are
  calls into the package \<^verbatim>\<open>time\<close>; they are the fields of \<open>date_ops\<close>, with \<open>None\<close> for an error
  or, in \<open>to_utc\<close>, for the panic its documentation states (a year out of range).
\<close>

section \<open>Latin 1\<close>

definition is_lower_latin :: "nat \<Rightarrow> bool" where
  "is_lower_latin c \<longleftrightarrow> 0x20 \<le> c \<and> c < 0x7F"

definition is_upper_latin :: "nat \<Rightarrow> bool" where
  "is_upper_latin c \<longleftrightarrow> 0xA0 \<le> c \<and> c < 0x100"

definition is_latin :: "nat \<Rightarrow> bool" where
  "is_latin c \<longleftrightarrow> is_lower_latin c \<or> is_upper_latin c"

definition Latin1_from_str :: "string \<Rightarrow> latin1_error + string" where
  "Latin1_from_str s =
     (let len = length s in
      if 150 < len then Inl (TooLong len)
      else
        let non_latin = filter (\<lambda>c. \<not> is_latin c) (str_chars s) in
        if non_latin \<noteq> [] then Inl (NonLatin1 non_latin) else Inr s)"

definition Latin1_from_json :: "Json \<Rightarrow> FromJsonError + string" where
  "Latin1_from_json v = parse_from_json (\<lambda>s. map_err Any_Latin1 (Latin1_from_str s)) v"

definition Latin1_into :: "string \<Rightarrow> Value" where
  "Latin1_into l = VText l"

section \<open>Full dates\<close>

text \<open>A calendar date as \<^verbatim>\<open>time::Date\<close> gives it: year, month from 1 to 12, day of the month.\<close>

record Date =
  year :: int
  month :: nat
  day :: nat

record 'dt date_ops =
  date_parse :: "string \<Rightarrow> Date option"
  rfc3339_parse :: "string \<Rightarrow> 'dt option"
  rfc3339_format :: "'dt \<Rightarrow> string option"
  to_utc :: "'dt \<Rightarrow> 'dt option"
  clear_millisecond :: "'dt \<Rightarrow> 'dt option"

definition FullDate_to_string :: "Date \<Rightarrow> string" where
  "FullDate_to_string d =
     show_int (year d) @ ''-'' @ pad_zero 2 (show_nat (month d)) @ ''-'' @ pad_zero 2 (show_nat (day d))"

definition FullDate_from_str :: "'dt date_ops \<Rightarrow> string \<Rightarrow> anyhow_error + Date" where
  "FullDate_from_str T s = ok_or (date_parse T s) Any_Date"

definition FullDate_from_json :: "'dt date_ops \<Rightarrow> Json \<Rightarrow> FromJsonError + Date" where
  "FullDate_from_json T v = parse_from_json (FullDate_from_str T) v"

definition FullDate_into :: "Date \<Rightarrow> Value" where
  "FullDate_into d = VTag 1004 (VText (FullDate_to_string d))"

section \<open>Date-times\<close>

text \<open>
  \<^verbatim>\<open>TDate::from_json\<close>. The outer option is \<open>None\<close> when the conversion panics: in \<^verbatim>\<open>to_offset\<close>, or in
  one of the two \<^verbatim>\<open>unwrap\<close>s that follow it.
\<close>

definition TDate_from_json :: "'dt date_ops \<Rightarrow> Json \<Rightarrow> (FromJsonError + string) option" where
  "TDate_from_json T v =
     (case String_from_json v of
        Inl e \<Rightarrow> Some (Inl e)
      | Inr date_str \<Rightarrow>
          (case rfc3339_parse T date_str of
             None \<Rightarrow> Some (Inl (Parsing Any_NotRfc3339))
           | Some t \<Rightarrow>
               Option.bind (to_utc T t) (\<lambda>t. Option.bind (clear_millisecond T t) (\<lambda>t.
                 map_option Inr (rfc3339_format T t)))))"

definition TDate_into :: "string \<Rightarrow> Value" where
  "TDate_into t = VTag 0 (VText t)"

datatype TDateOrFullDate = TDate string | FullDate Date

definition TDateOrFullDate_from_json ::
    "'dt date_ops \<Rightarrow> Json \<Rightarrow> (FromJsonError + TDateOrFullDate) option" where
  "TDateOrFullDate_from_json T v =
     Option.bind (TDate_from_json T v) (\<lambda>r.
       case r of
         Inr td \<Rightarrow> Some (Inr (TDate td))
       | Inl _ \<Rightarrow>
           (case FullDate_from_json T v of
              Inr fd \<Rightarrow> Some (Inr (FullDate fd))
            | Inl _ \<Rightarrow> Some (Inl (Parsing Any_NeitherDate))))"

fun TDateOrFullDate_into :: "TDateOrFullDate \<Rightarrow> Value" where
  "TDateOrFullDate_into (TDate t) = TDate_into t"
| "TDateOrFullDate_into (FullDate f) = FullDate_into f"

section \<open>Latin 1: what is accepted\<close>

lemma Latin1_from_str_Inr [result_simps]:
  "Latin1_from_str s = Inr l \<longleftrightarrow> l = s \<and> length s \<le> 150 \<and> list_all is_latin (str_chars s)"
  by (auto simp: Latin1_from_str_def Let_def filter_empty_conv list_all_iff)

lemma Latin1_from_json_Inr [result_simps]:
  "Latin1_from_json v = Inr l \<longleftrightarrow> v = JString l \<and> length l \<le> 150 \<and> list_all is_latin (str_chars l)"
  by (auto simp: Latin1_from_json_def result_simps)

lemma Latin1_into_inj: "Latin1_into l = Latin1_into l' \<longleftrightarrow> l = l'"
  by (simp add: Latin1_into_def)

text \<open>A character of the upper half takes two bytes.\<close>

lemma upper_latin_length: "is_upper_latin c \<Longrightarrow> length (encode_char c) = 2"
  by (simp add: is_upper_latin_def encode_char_def)

lemma length_upper_latin:
  "\<forall>c \<in> set cs. is_upper_latin c \<Longrightarrow> length (str_of_chars cs) = 2 * length cs"
  by (induction cs) (simp_all add: str_of_chars_def upper_latin_length)

lemma is_latin_scalar: "is_latin c \<Longrightarrow> c < 1114112"
  by (auto simp: is_latin_def is_lower_latin_def is_upper_latin_def)

text \<open>The bound counts bytes: text of the upper half is refused from 76 characters on.\<close>

lemma Latin1_upper_half:
  assumes "\<forall>c \<in> set cs. is_upper_latin c"
  shows "Latin1_from_str (str_of_chars cs) =
    (if length cs \<le> 75 then Inr (str_of_chars cs) else Inl (TooLong (2 * length cs)))"
proof -
  have len: "length (str_of_chars cs) = 2 * length cs" using assms by (rule length_upper_latin)
  have "list_all is_latin cs" using assms by (auto simp: list_all_iff is_latin_def)
  moreover from this have "str_chars (str_of_chars cs) = cs"
    by (intro str_chars_of_chars) (auto simp: list_all_iff is_latin_scalar)
  ultimately show ?thesis
    using len by (auto simp: Latin1_from_str_def Let_def filter_empty_conv list_all_iff)
qed

section \<open>Full dates: what is written\<close>

lemma pad_zero_2: "n < 100 \<Longrightarrow> length (pad_zero 2 (show_nat n)) = 2"
  using length_show_nat [of 2 n] by (simp add: pad_zero_length)

text \<open>The text has the ten characters of an RFC 3339 full-date from the year 1000 to 9999 only.\<close>

lemma FullDate_to_string_length:
  assumes "0 \<le> year d" "month d < 100" "day d < 100"
  shows "length (FullDate_to_string d) = length (show_nat (nat (year d))) + 6"
  using assms by (simp add: FullDate_to_string_def show_int_def pad_zero_2)

lemma FullDate_ten_characters:
  assumes "0 \<le> year d" "month d < 100" "day d < 100"
  shows "length (FullDate_to_string d) = 10 \<longleftrightarrow> 1000 \<le> year d \<and> year d \<le> 9999"
proof -
  have "length (show_nat (nat (year d))) \<le> 4 \<longleftrightarrow> nat (year d) < 10000"
    "length (show_nat (nat (year d))) \<le> 3 \<longleftrightarrow> nat (year d) < 1000"
    using length_show_nat [of 4] length_show_nat [of 3] by simp_all
  then show ?thesis
    using assms by (simp add: FullDate_to_string_length) linarith
qed

section \<open>Date-times: when the conversion panics\<close>

lemma TDate_from_json_Inr:
  "TDate_from_json T v = Some (Inr s) \<longleftrightarrow>
     (\<exists>str t u w. v = JString str \<and> rfc3339_parse T str = Some t \<and> to_utc T t = Some u \<and>
        clear_millisecond T u = Some w \<and> rfc3339_format T w = Some s)"
  by (auto simp: TDate_from_json_def result_simps bind_eq_Some_conv split: sum.splits option.splits)

lemma TDate_from_json_panic:
  "TDate_from_json T v = None \<longleftrightarrow>
     (\<exists>str t. v = JString str \<and> rfc3339_parse T str = Some t \<and>
        Option.bind (to_utc T t) (\<lambda>u. Option.bind (clear_millisecond T u) (rfc3339_format T)) = None)"
  by (cases v) (auto simp: TDate_from_json_def bind_eq_None_conv split: option.splits)

lemma TDateOrFullDate_panic:
  "TDateOrFullDate_from_json T v = None \<longleftrightarrow> TDate_from_json T v = None"
  by (auto simp: TDateOrFullDate_from_json_def bind_eq_None_conv split: sum.splits)

section \<open>Calendar dates\<close>

definition leap_year :: "int \<Rightarrow> bool" where
  "leap_year y \<longleftrightarrow> y mod 4 = 0 \<and> (y mod 100 \<noteq> 0 \<or> y mod 400 = 0)"

definition days_in_month :: "int \<Rightarrow> nat \<Rightarrow> nat" where
  "days_in_month y m =
     (if m = 2 then (if leap_year y then 29 else 28) else if m \<in> {4, 6, 9, 11} then 30 else 31)"

definition valid_date :: "Date \<Rightarrow> bool" where
  "valid_date d \<longleftrightarrow> 1 \<le> month d \<and> month d \<le> 12 \<and> 1 \<le> day d \<and> day d \<le> days_in_month (year d) (month d)"

text \<open>The \<^verbatim>\<open>full-date\<close> of RFC 3339: four digits, two digits, two digits.\<close>

definition rfc3339_date :: "Date \<Rightarrow> string" where
  "rfc3339_date d =
     pad_zero 4 (show_nat (nat (year d))) @ ''-'' @ pad_zero 2 (show_nat (month d)) @ ''-'' @
     pad_zero 2 (show_nat (day d))"

lemma valid_date_bounds: "valid_date d \<Longrightarrow> month d < 100 \<and> day d < 100"
  by (auto simp: valid_date_def days_in_month_def split: if_splits)

lemma length_rfc3339_date:
  "valid_date d \<Longrightarrow> 0 \<le> year d \<Longrightarrow> year d \<le> 9999 \<Longrightarrow> length (rfc3339_date d) = 10"
  using valid_date_bounds [of d] by (simp add: rfc3339_date_def length_pad_zero_show_nat)

lemma FullDate_to_string_rfc3339:
  assumes "valid_date d" "0 \<le> year d" "year d \<le> 9999"
  shows "FullDate_to_string d = rfc3339_date d \<longleftrightarrow> 1000 \<le> year d"
proof
  assume "FullDate_to_string d = rfc3339_date d"
  then have "length (FullDate_to_string d) = 10" using length_rfc3339_date assms by simp
  then show "1000 \<le> year d" using FullDate_ten_characters assms valid_date_bounds by blast
next
  assume "1000 \<le> year d"
  then have "\<not> length (show_nat (nat (year d))) \<le> 3"
    using length_show_nat [of 3 "nat (year d)"] by simp
  then show "FullDate_to_string d = rfc3339_date d"
    using assms(2) by (simp add: FullDate_to_string_def rfc3339_date_def show_int_def pad_zero_id)
qed

section \<open>Sample operations\<close>

text \<open>
  A parser of full dates, and date-times that are numbers of milliseconds below a bound, written
  in decimal.
\<close>

definition sample_date_parse :: "string \<Rightarrow> Date option" where
  "sample_date_parse s =
     (if length s = 10 \<and> s ! 4 = CHR ''-'' \<and> s ! 7 = CHR ''-''
      then Some \<lparr> year = int (digits_value (take 4 s)), month = digits_value (take 2 (drop 5 s)),
        day = digits_value (drop 8 s) \<rparr>
      else None)"

definition sample_date_ops :: "nat date_ops" where
  "sample_date_ops = \<lparr> date_parse = sample_date_parse,
     rfc3339_parse = (\<lambda>s. if list_all (\<lambda>c. CHR ''0'' \<le> c \<and> c \<le> CHR ''9'') s then Some (digits_value s) else None),
     rfc3339_format = (\<lambda>t. Some (show_nat t)),
     to_utc = (\<lambda>t. if t < 10 ^ 15 then Some t else None),
     clear_millisecond = (\<lambda>t. Some (t - t mod 1000)) \<rparr>"

lemma sample_date_parse_rfc3339:
  assumes "valid_date d" "0 \<le> year d" "year d \<le> 9999"
  shows "sample_date_parse (rfc3339_date d) = Some d"
proof -
  let ?y = "pad_zero 4 (show_nat (nat (year d)))" and ?m = "pad_zero 2 (show_nat (month d))"
    and ?d = "pad_zero 2 (show_nat (day d))"
  have len: "length ?y = 4" "length ?m = 2" "length ?d = 2"
    using assms valid_date_bounds [of d] by (simp_all add: length_pad_zero_show_nat)
  have eq: "rfc3339_date d = ?y @ CHR ''-'' # ?m @ CHR ''-'' # ?d"
    by (simp add: rfc3339_date_def)
  have "take 4 (rfc3339_date d) = ?y" "take 2 (drop 5 (rfc3339_date d)) = ?m" "drop 8 (rfc3339_date d) = ?d"
    "rfc3339_date d ! 4 = CHR ''-''" "rfc3339_date d ! 7 = CHR ''-''" "length (rfc3339_date d) = 10"
    unfolding eq using len by (simp_all add: nth_append)
  then show ?thesis
    using assms(2) by (simp add: sample_date_parse_def digits_value_pad_zero digits_value_show_nat)
qed

lemma show_nat_digits: "list_all (\<lambda>c. CHR ''0'' \<le> c \<and> c \<le> CHR ''9'') (show_nat n)"
proof (induction n rule: show_nat.induct)
  case (1 n)
  then show ?case
    by (subst show_nat.simps) (auto simp: less_eq_char_def)
qed

lemma sample_rfc3339_round_trip:
  "rfc3339_format sample_date_ops t = Some s \<Longrightarrow> rfc3339_parse sample_date_ops s = Some t"
  using show_nat_digits digits_value_show_nat by (auto simp: sample_date_ops_def)

section \<open>Properties\<close>

lemma length_encode_latin:
  "is_latin c \<Longrightarrow> length (encode_char c) = (if is_upper_latin c then 2 else 1)"
  by (auto simp: is_latin_def is_lower_latin_def is_upper_latin_def encode_char_def)

lemma length_str_of_latin:
  "list_all is_latin cs \<Longrightarrow> length (str_of_chars cs) = length cs + length (filter is_upper_latin cs)"
  by (induction cs) (simp_all add: str_of_chars_def length_encode_latin)

text \<open>C38. A string of Unicode scalar values is accepted as Latin 1 text exactly when all its characters
  are in the two halves of the alphabet and its number of characters plus its number of
  characters of the upper half is at most 150: the limit the error message and the documentation
  state in characters is applied to the UTF-8 bytes.
\<close>

theorem latin1_bound:
  assumes "\<forall>c \<in> set cs. c < 1114112"
  shows "Latin1_from_str (str_of_chars cs) = Inr l \<longleftrightarrow>
    l = str_of_chars cs \<and> list_all is_latin cs \<and> length cs + length (filter is_upper_latin cs) \<le> 150"
proof -
  have "str_chars (str_of_chars cs) = cs" using assms by (rule str_chars_of_chars)
  then show ?thesis
    using length_str_of_latin [of cs] by (auto simp: Latin1_from_str_Inr)
qed

text \<open>A text of 76 characters is refused, one of 75 is accepted.\<close>

theorem latin1_bound_witness:
  "Latin1_from_str (str_of_chars (replicate 76 233)) \<noteq> Inr (str_of_chars (replicate 76 233)) \<and>
   Latin1_from_str (str_of_chars (replicate 75 233)) = Inr (str_of_chars (replicate 75 233))"
  using latin1_bound [of "replicate 76 233" "str_of_chars (replicate 76 233)"]
    latin1_bound [of "replicate 75 233" "str_of_chars (replicate 75 233)"]
  by (simp add: is_latin_def is_upper_latin_def list_all_iff)

text \<open>C39. For a calendar date of the years 0 to 9999 the text written is the RFC 3339 full-date exactly
  from the year 1000 on, and then a parser that accepts full-dates reads the date back. Earlier
  years are written without their leading zeros.
\<close>

theorem full_date_round_trip:
  assumes parse: "\<And>e. valid_date e \<Longrightarrow> 0 \<le> year e \<Longrightarrow> year e \<le> 9999 \<Longrightarrow> date_parse T (rfc3339_date e) = Some e"
    and d: "valid_date d" "0 \<le> year d" "year d \<le> 9999"
  shows "(FullDate_to_string d = rfc3339_date d \<longleftrightarrow> 1000 \<le> year d) \<and>
    (if 1000 \<le> year d then FullDate_from_str T (FullDate_to_string d) = Inr d
     else length (FullDate_to_string d) < 10)"
proof (cases "1000 \<le> year d")
  case True
  then show ?thesis
    using FullDate_to_string_rfc3339 [OF d] parse [OF d] by (simp add: FullDate_from_str_def)
next
  case False
  have "length (show_nat (nat (year d))) \<le> 3" using False length_show_nat [of 3 "nat (year d)"] by simp
  then have "length (FullDate_to_string d) < 10"
    using d valid_date_bounds [OF d(1)] by (simp add: FullDate_to_string_length)
  with False show ?thesis using FullDate_to_string_rfc3339 [OF d] by simp
qed

theorem full_date_round_trip_witness:
  "FullDate_from_str sample_date_ops (FullDate_to_string \<lparr> year = 2000, month = 2, day = 29 \<rparr>)
     = Inr \<lparr> year = 2000, month = 2, day = 29 \<rparr> \<and>
   length (FullDate_to_string \<lparr> year = 812, month = 2, day = 29 \<rparr>) < 10"
proof -
  have parse: "date_parse sample_date_ops (rfc3339_date e) = Some e"
    if "valid_date e" "0 \<le> year e" "year e \<le> 9999" for e
    using sample_date_parse_rfc3339 [OF that] by (simp add: sample_date_ops_def)
  show ?thesis
    using full_date_round_trip [of sample_date_ops "\<lparr> year = 2000, month = 2, day = 29 \<rparr>", OF parse]
      full_date_round_trip [of sample_date_ops "\<lparr> year = 812, month = 2, day = 29 \<rparr>", OF parse]
    by (auto simp: valid_date_def days_in_month_def leap_year_def)
qed

end
