(* ===== verification/Validity_Info.thy ===== *)
theory Validity_Info
  imports Date_Text
begin

text \<open>
  The validity information of a mobile security object (\<^verbatim>\<open>src/definitions/validity_info.rs\<close>):
  its conversion to a CBOR map of tagged date strings and back. Dates are those of the
  package \<^verbatim>\<open>time\<close>, so a date-time is a type variable and its operations are those of
  \<open>date_ops\<close>.
\<close>

record 'dt ValidityInfo =
  signed_at :: 'dt
  valid_from :: 'dt
  valid_until :: 'dt
  expected_update :: "'dt option"

datatype validity_info_error =
    Validity_MissingField Value
  | Validity_NotAMap Value
  | Validity_NotATextString Value
  | Validity_NotATag u64 Value
  | Validity_OutOfRange
  | Validity_UnableToFormatDate
  | Validity_UnableToParseDate
  | Validity_CborError

section \<open>To CBOR\<close>

text \<open>Sequencing of results whose computation may panic: \<open>None\<close> is the panic.\<close>

definition try_then :: "('e + 'a) option \<Rightarrow> ('a \<Rightarrow> ('e + 'b) option) \<Rightarrow> ('e + 'b) option" where
  "try_then r f = Option.bind r (\<lambda>x. case x of Inl e \<Rightarrow> Some (Inl e) | Inr y \<Rightarrow> f y)"

text \<open>
  The macro \<^verbatim>\<open>insert_date\<close>: the milliseconds are cleared (an error if that is out of range), the
  date moved to UTC (a panic if that is) and formatted, and the entry appended.
\<close>

definition insert_date ::
    "'dt date_ops \<Rightarrow> (Value \<times> Value) list \<Rightarrow> string \<Rightarrow> 'dt \<Rightarrow> (validity_info_error + (Value \<times> Value) list) option" where
  "insert_date T m name date =
     (case clear_millisecond T date of
        None \<Rightarrow> Some (Inl Validity_OutOfRange)
      | Some t \<Rightarrow>
          Option.bind (to_utc T t) (\<lambda>u.
            case rfc3339_format T u of
              None \<Rightarrow> Some (Inl Validity_UnableToFormatDate)
            | Some s \<Rightarrow> Some (Inr (m @ [(VText name, VTag 0 (VText s))]))))"

definition ValidityInfo_into_value ::
    "'dt date_ops \<Rightarrow> 'dt ValidityInfo \<Rightarrow> (validity_info_error + Value) option" where
  "ValidityInfo_into_value T v =
     try_then (insert_date T [] ''signed'' (signed_at v)) (\<lambda>m.
     try_then (insert_date T m ''validFrom'' (valid_from v)) (\<lambda>m.
     try_then (insert_date T m ''validUntil'' (valid_until v)) (\<lambda>m.
     try_then (case expected_update v of
                 None \<Rightarrow> Some (Inr m)
               | Some d \<Rightarrow> insert_date T m ''expectedUpdate'' d) (\<lambda>m.
       Some (Inr (VMap m))))))"

section \<open>From CBOR\<close>

definition cbor_to_datetime :: "'dt date_ops \<Rightarrow> Value \<Rightarrow> validity_info_error + 'dt" where
  "cbor_to_datetime T v =
     (case v of
        VTag t inner \<Rightarrow>
          if t = 0 then
            (case inner of
               VText date_str \<Rightarrow> ok_or (rfc3339_parse T date_str) Validity_UnableToParseDate
             | _ \<Rightarrow> Inl (Validity_NotATextString inner))
          else Inl (Validity_NotATag 0 v)
      | _ \<Rightarrow> Inl (Validity_NotATag 0 v))"

fun into_text :: "Value \<Rightarrow> validity_info_error + string" where
  "into_text (VText s) = Inr s"
| "into_text _ = Inl Validity_CborError"

text \<open>The macro \<^verbatim>\<open>extract_date\<close>: a required key is removed from the map and its value converted.\<close>

definition extract_date ::
    "'dt date_ops \<Rightarrow> (string, Value) btree_map \<Rightarrow> string \<Rightarrow> validity_info_error + 'dt \<times> (string, Value) btree_map" where
  "extract_date T m name =
     and_then (ok_or (bt_get m name) (Validity_MissingField (VText name))) (\<lambda>v.
     and_then (cbor_to_datetime T v) (\<lambda>d. Inr (d, bt_remove name m)))"

definition ValidityInfo_from_value :: "'dt date_ops \<Rightarrow> Value \<Rightarrow> validity_info_error + 'dt ValidityInfo" where
  "ValidityInfo_from_value T v =
     (case v of
        VMap entries \<Rightarrow>
          and_then (map_ok bt_of_list (try_collect (\<lambda>(k, v). map_ok (\<lambda>k. (k, v)) (into_text k)) entries)) (\<lambda>m.
          and_then (extract_date T m ''signed'') (\<lambda>(s, m).
          and_then (extract_date T m ''validFrom'') (\<lambda>(f, m).
          and_then (extract_date T m ''validUntil'') (\<lambda>(u, m).
          and_then (transpose (map_option (cbor_to_datetime T) (bt_get m ''expectedUpdate''))) (\<lambda>e.
            Inr \<lparr> signed_at = s, valid_from = f, valid_until = u, expected_update = e \<rparr>)))))
      | _ \<Rightarrow> Inl (Validity_NotAMap v))"

section \<open>The entries written\<close>

text \<open>A date as it is written: without milliseconds, at UTC.\<close>

definition written_date :: "'dt date_ops \<Rightarrow> 'dt \<Rightarrow> 'dt option" where
  "written_date T d = Option.bind (clear_millisecond T d) (to_utc T)"

lemma try_then_Inr [result_simps]: "try_then r f = Some (Inr y) \<longleftrightarrow> (\<exists>x. r = Some (Inr x) \<and> f x = Some (Inr y))"
  by (cases r; cases "the r") (auto simp: try_then_def)

lemma try_then_Some [simp]: "try_then (Some (Inr x)) f = f x"
  by (simp add: try_then_def)

lemma insert_date_Inr [result_simps]:
  "insert_date T m n d = Some (Inr m') \<longleftrightarrow>
     (\<exists>u s. written_date T d = Some u \<and> rfc3339_format T u = Some s \<and>
        m' = m @ [(VText n, VTag 0 (VText s))])"
  by (auto simp: insert_date_def written_date_def bind_eq_Some_conv split: option.splits)

definition date_entry :: "string \<Rightarrow> string \<Rightarrow> Value \<times> Value" where
  "date_entry n s = (VText n, VTag 0 (VText s))"

lemma ValidityInfo_into_value_Inr:
  "ValidityInfo_into_value T v = Some (Inr c) \<longleftrightarrow>
     (\<exists>a f u sa sf su. written_date T (signed_at v) = Some a \<and> rfc3339_format T a = Some sa \<and>
        written_date T (valid_from v) = Some f \<and> rfc3339_format T f = Some sf \<and>
        written_date T (valid_until v) = Some u \<and> rfc3339_format T u = Some su \<and>
        (case expected_update v of
           None \<Rightarrow> c = VMap [date_entry ''signed'' sa, date_entry ''validFrom'' sf, date_entry ''validUntil'' su]
         | Some d \<Rightarrow> \<exists>e se. written_date T d = Some e \<and> rfc3339_format T e = Some se \<and>
             c = VMap [date_entry ''signed'' sa, date_entry ''validFrom'' sf, date_entry ''validUntil'' su,
                       date_entry ''expectedUpdate'' se]))"
  by (cases "expected_update v")
    (auto simp: ValidityInfo_into_value_def try_then_Inr insert_date_Inr date_entry_def)

section \<open>Reading what was written\<close>

lemma cbor_to_datetime_written: "cbor_to_datetime T (VTag 0 (VText s)) = ok_or (rfc3339_parse T s) Validity_UnableToParseDate"
  by (simp add: cbor_to_datetime_def)

lemma ValidityInfo_from_three:
  assumes "rfc3339_parse T sa = Some a" "rfc3339_parse T sf = Some f" "rfc3339_parse T su = Some u"
  shows "ValidityInfo_from_value T
      (VMap [date_entry ''signed'' sa, date_entry ''validFrom'' sf, date_entry ''validUntil'' su])
    = Inr \<lparr> signed_at = a, valid_from = f, valid_until = u, expected_update = None \<rparr>"
  using assms
  by (simp add: ValidityInfo_from_value_def date_entry_def bt_of_list_def bt_get_def extract_date_def
      cbor_to_datetime_written less_char_def)

lemma ValidityInfo_from_four:
  assumes "rfc3339_parse T sa = Some a" "rfc3339_parse T sf = Some f" "rfc3339_parse T su = Some u"
    "rfc3339_parse T se = Some e"
  shows "ValidityInfo_from_value T
      (VMap [date_entry ''signed'' sa, date_entry ''validFrom'' sf, date_entry ''validUntil'' su,
             date_entry ''expectedUpdate'' se])
    = Inr \<lparr> signed_at = a, valid_from = f, valid_until = u, expected_update = Some e \<rparr>"
  using assms
  by (simp add: ValidityInfo_from_value_def date_entry_def bt_of_list_def bt_get_def extract_date_def
      cbor_to_datetime_written less_char_def)

text \<open>
  What was written is read back with every date normalised, and writing the result again
  gives the same value: the encoding is canonical.
\<close>

lemma ValidityInfo_read_written:
  assumes parse: "\<And>t s. rfc3339_format T t = Some s \<Longrightarrow> rfc3339_parse T s = Some t"
    and canonical: "\<And>d t. written_date T d = Some t \<Longrightarrow> written_date T t = Some t"
    and c: "ValidityInfo_into_value T v = Some (Inr c)"
  shows "\<exists>w. ValidityInfo_from_value T c = Inr w \<and> ValidityInfo_into_value T w = Some (Inr c) \<and>
    written_date T (signed_at v) = Some (signed_at w) \<and> written_date T (valid_from v) = Some (valid_from w) \<and>
    written_date T (valid_until v) = Some (valid_until w) \<and>
    (expected_update w = Option.bind (expected_update v) (written_date T))"
proof (cases "expected_update v")
  case None
  with c obtain a f u sa sf su where w: "written_date T (signed_at v) = Some a" "rfc3339_format T a = Some sa"
    "written_date T (valid_from v) = Some f" "rfc3339_format T f = Some sf"
    "written_date T (valid_until v) = Some u" "rfc3339_format T u = Some su"
    and c: "c = VMap [date_entry ''signed'' sa, date_entry ''validFrom'' sf, date_entry ''validUntil'' su]"
    by (auto simp: ValidityInfo_into_value_Inr)
  let ?w = "\<lparr> signed_at = a, valid_from = f, valid_until = u, expected_update = None \<rparr>"
  have "ValidityInfo_from_value T c = Inr ?w" unfolding c
    by (rule ValidityInfo_from_three) (rule parse w)+
  moreover have "ValidityInfo_into_value T ?w = Some (Inr c)"
    unfolding ValidityInfo_into_value_Inr
    using canonical [OF w(1)] canonical [OF w(3)] canonical [OF w(5)] w c by simp
  ultimately show ?thesis using w None by (intro exI [of _ ?w]) simp
next
  case (Some d)
  with c obtain a f u e sa sf su se where w: "written_date T (signed_at v) = Some a" "rfc3339_format T a = Some sa"
    "written_date T (valid_from v) = Some f" "rfc3339_format T f = Some sf"
    "written_date T (valid_until v) = Some u" "rfc3339_format T u = Some su"
    "written_date T d = Some e" "rfc3339_format T e = Some se"
    and c: "c = VMap [date_entry ''signed'' sa, date_entry ''validFrom'' sf, date_entry ''validUntil'' su,
      date_entry ''expectedUpdate'' se]"
    by (auto simp: ValidityInfo_into_value_Inr)
  let ?w = "\<lparr> signed_at = a, valid_from = f, valid_until = u, expected_update = Some e \<rparr>"
  have "ValidityInfo_from_value T c = Inr ?w" unfolding c
    by (rule ValidityInfo_from_four) (rule parse w)+
  moreover have "ValidityInfo_into_value T ?w = Some (Inr c)"
    unfolding ValidityInfo_into_value_Inr
    using canonical [OF w(1)] canonical [OF w(3)] canonical [OF w(5)] canonical [OF w(7)] w c by simp
  ultimately show ?thesis using w Some by (intro exI [of _ ?w]) simp
qed

text \<open>A value that is not a map, a key that is no text and a missing date are refused.\<close>

lemma ValidityInfo_from_value_Inr:
  "ValidityInfo_from_value T v = Inr w \<Longrightarrow>
     \<exists>entries. v = VMap entries \<and> (\<forall>k \<in> fst ` set entries. \<exists>s. k = VText s)"
proof -
  assume w: "ValidityInfo_from_value T v = Inr w"
  then obtain entries ys where v: "v = VMap entries"
    and ys: "try_collect (\<lambda>(k, v). map_ok (\<lambda>k. (k, v)) (into_text k)) entries = Inr ys"
    by (cases v) (auto simp: ValidityInfo_from_value_def result_simps)
  have "\<forall>p \<in> set entries. \<exists>y. map_ok (\<lambda>k. (k, snd p)) (into_text (fst p)) = Inr y"
    using ys try_collect_ok [of "\<lambda>(k, v). map_ok (\<lambda>k. (k, v)) (into_text k)" entries]
    by (auto simp: case_prod_unfold)
  moreover have "\<exists>s. k = VText s" if "into_text k = Inr y" for k y
    using that by (cases k) auto
  ultimately show ?thesis using v by (fastforce simp: map_ok_Inr)
qed

section \<open>Properties\<close>

text \<open>C36. Validity information that can be written is read back, with each of its dates without
  milliseconds and at UTC and the expected update present exactly when it was; writing the result
  gives the same value again. Assumed of the package: parsing a formatted date gives that date,
  and a date that is already normalised is left as it is.
\<close>

theorem validity_info_round_trip:
  assumes parse: "\<And>t s. rfc3339_format T t = Some s \<Longrightarrow> rfc3339_parse T s = Some t"
    and canonical: "\<And>d t. written_date T d = Some t \<Longrightarrow> written_date T t = Some t"
    and c: "ValidityInfo_into_value T v = Some (Inr c)"
  shows "\<exists>w. ValidityInfo_from_value T c = Inr w \<and> ValidityInfo_into_value T w = Some (Inr c) \<and>
    written_date T (signed_at v) = Some (signed_at w) \<and> written_date T (valid_from v) = Some (valid_from w) \<and>
    written_date T (valid_until v) = Some (valid_until w) \<and>
    (expected_update w = Option.bind (expected_update v) (written_date T))"
  by (rule ValidityInfo_read_written [OF parse canonical c])

definition sample_validity :: "nat ValidityInfo" where
  "sample_validity = \<lparr> signed_at = 1700, valid_from = 2000, valid_until = 9999, expected_update = Some 5001 \<rparr>"

lemma sample_canonical: "written_date sample_date_ops d = Some t \<Longrightarrow> written_date sample_date_ops t = Some t"
  by (auto simp: written_date_def sample_date_ops_def split: if_splits)

theorem validity_info_round_trip_witness:
  "\<exists>c w. ValidityInfo_into_value sample_date_ops sample_validity = Some (Inr c) \<and>
     ValidityInfo_from_value sample_date_ops c = Inr w \<and> signed_at w = 1000 \<and> valid_until w = 9000 \<and>
     expected_update w = Some 5000"
proof -
  obtain c where c: "ValidityInfo_into_value sample_date_ops sample_validity = Some (Inr c)"
    by (simp add: ValidityInfo_into_value_def insert_date_def sample_date_ops_def sample_validity_def)
  from validity_info_round_trip [OF sample_rfc3339_round_trip sample_canonical c] c show ?thesis
    by (force simp: written_date_def sample_date_ops_def sample_validity_def)
qed

end
