(* ===== verification/Cbor_Interface.thy ===== *)
theory Cbor_Interface
  imports Cbor_Value
begin

text \<open>
  The wrappers around the CBOR package: \<^verbatim>\<open>src/cbor.rs\<close>, the byte form of
  \<^verbatim>\<open>src/definitions/traits/to_cbor.rs\<close>, \<^verbatim>\<open>src/cose/serialized_as_cbor_value.rs\<close> and the text form of
  stored objects, \<^verbatim>\<open>Stringify\<close> of \<^verbatim>\<open>src/presentation/mod.rs\<close>. The package's writer and reader,
  and the base64 encoding, are parameters; what the wrappers decide is which error a failure
  becomes.
\<close>

datatype CoseError = EncodeFailed | DecodeFailed string

datatype CborError = CborError CoseError

datatype ToCborError = ToCborError CborError

section \<open>cbor.rs\<close>

definition cbor_to_vec :: "('a \<Rightarrow> 'e + bytes) \<Rightarrow> 'a \<Rightarrow> CborError + bytes" where
  "cbor_to_vec into_writer v = map_err (\<lambda>_. CborError EncodeFailed) (into_writer v)"

text \<open>\<open>show\<close> is the text of the reader's error.\<close>

definition cbor_from_slice :: "('e \<Rightarrow> string) \<Rightarrow> (bytes \<Rightarrow> 'e + 'a) \<Rightarrow> bytes \<Rightarrow> CborError + 'a" where
  "cbor_from_slice show_error from_reader data =
     map_err (\<lambda>e. CborError (DecodeFailed (show_error e))) (from_reader data)"

definition cbor_from_value :: "(Value \<Rightarrow> 'e + 'a) \<Rightarrow> Value \<Rightarrow> CoseError + 'a" where
  "cbor_from_value deserialized v = map_err (\<lambda>_. DecodeFailed ''cannot deserialize'') (deserialized v)"

definition cbor_into_value :: "('a \<Rightarrow> 'e + Value) \<Rightarrow> 'a \<Rightarrow> CoseError + Value" where
  "cbor_into_value serialized v = map_err (\<lambda>_. EncodeFailed) (serialized v)"

definition to_cbor_bytes :: "('a \<Rightarrow> Value) \<Rightarrow> (Value \<Rightarrow> 'e + bytes) \<Rightarrow> 'a \<Rightarrow> ToCborError + bytes" where
  "to_cbor_bytes to_cbor into_writer v = map_err ToCborError (cbor_to_vec into_writer (to_cbor v))"

section \<open>serialized_as_cbor_value.rs\<close>

text \<open>
  A type with conversions to and from CBOR values only is serialized by converting and then
  serializing the value; any error of the conversion becomes one of the serializer
  (\<open>custom\<close>).
\<close>

definition AsCborValue_serialize ::
    "('e \<Rightarrow> 's) \<Rightarrow> ('a \<Rightarrow> 'e + Value) \<Rightarrow> (Value \<Rightarrow> 's + 'o) \<Rightarrow> 'a \<Rightarrow> 's + 'o" where
  "AsCborValue_serialize custom to_cbor_value serialize v =
     and_then (map_err custom (to_cbor_value v)) serialize"

definition AsCborValue_deserialize ::
    "('e \<Rightarrow> 's) \<Rightarrow> (Value \<Rightarrow> 'e + 'a) \<Rightarrow> ('i \<Rightarrow> 's + Value) \<Rightarrow> 'i \<Rightarrow> 's + 'a" where
  "AsCborValue_deserialize custom from_cbor_value deserialize i =
     and_then (deserialize i) (\<lambda>v. map_err custom (from_cbor_value v))"

section \<open>Stringify\<close>

datatype stringify_error = Stringify_Cbor CborError | Stringify_Base64

definition stringify :: "('a \<Rightarrow> 'e + bytes) \<Rightarrow> (bytes \<Rightarrow> string) \<Rightarrow> 'a \<Rightarrow> stringify_error + string" where
  "stringify into_writer encode v =
     and_then (map_err Stringify_Cbor (cbor_to_vec into_writer v)) (\<lambda>data. Inr (encode data))"

definition parse_stringified ::
    "('e \<Rightarrow> string) \<Rightarrow> (bytes \<Rightarrow> 'e + 'a) \<Rightarrow> (string \<Rightarrow> bytes option) \<Rightarrow> string \<Rightarrow> stringify_error + 'a" where
  "parse_stringified show_error from_reader decode encoded =
     and_then (ok_or (decode encoded) Stringify_Base64) (\<lambda>data.
       map_err Stringify_Cbor (cbor_from_slice show_error from_reader data))"

section \<open>Round trips\<close>

text \<open>
  What is stored as text is read back, and writing it again gives the same text, when the reader
  inverts the writer and the base64 decoder the encoder.
\<close>

lemma stringify_round_trip:
  assumes "\<And>b. decode (encode b) = Some b" "\<And>b. into_writer v = Inr b \<Longrightarrow> from_reader b = Inr v"
    and s: "stringify into_writer encode v = Inr s"
  shows "parse_stringified show_error from_reader decode s = Inr v"
  using s assms by (auto simp: stringify_def parse_stringified_def cbor_to_vec_def cbor_from_slice_def result_simps)

lemma AsCborValue_round_trip:
  assumes "\<And>w. to_cbor_value v = Inr w \<Longrightarrow> from_cbor_value w = Inr v"
    and "\<And>w i. serialize w = Inr i \<Longrightarrow> deserialize i = Inr w"
    and "AsCborValue_serialize custom to_cbor_value serialize v = Inr i"
  shows "AsCborValue_deserialize custom from_cbor_value deserialize i = Inr v"
  using assms by (auto simp: AsCborValue_serialize_def AsCborValue_deserialize_def result_simps)

text \<open>No error of the package reaches a caller as such: encoding fails with one error only.\<close>

lemma cbor_to_vec_error: "cbor_to_vec w v = Inl e \<Longrightarrow> e = CborError EncodeFailed"
  by (auto simp: cbor_to_vec_def result_simps)

end
