(* ===== verification/Country_Code.thy ===== *)
theory Country_Code
  imports Code_Table
begin

text \<open>
  ISO 3166-1 alpha-2 country codes (\<^verbatim>\<open>namespaces/org_iso_18013_5_1/alpha2.rs\<close>). The enumeration
  has 249 variants without payload; it is split by initial letter, \<open>Alpha2_of_A A2_AD\<close> being
  the variant \<^verbatim>\<open>AD\<close>, and so are the arms of \<^verbatim>\<open>as_str\<close> and \<^verbatim>\<open>from_str\<close>.
\<close>

section \<open>The codes\<close>

datatype Alpha2_A =
    A2_AD | A2_AE | A2_AF | A2_AG | A2_AI | A2_AL | A2_AM | A2_AO | A2_AQ | A2_AR | A2_AS |
    A2_AT | A2_AU | A2_AW | A2_AX | A2_AZ

datatype Alpha2_B =
    A2_BA | A2_BB | A2_BD | A2_BE | A2_BF | A2_BG | A2_BH | A2_BI | A2_BJ | A2_BL | A2_BM |
    A2_BN | A2_BO | A2_BQ | A2_BR | A2_BS | A2_BT | A2_BV | A2_BW | A2_BY | A2_BZ

datatype Alpha2_C =
    A2_CA | A2_CC | A2_CD | A2_CF | A2_CG | A2_CH | A2_CI | A2_CK | A2_CL | A2_CM | A2_CN |
    A2_CO | A2_CR | A2_CU | A2_CV | A2_CW | A2_CX | A2_CY | A2_CZ

datatype Alpha2_D =
    A2_DE | A2_DJ | A2_DK | A2_DM | A2_DO | A2_DZ

datatype Alpha2_E =
    A2_EC | A2_EE | A2_EG | A2_EH | A2_ER | A2_ES | A2_ET

datatype Alpha2_F =
    A2_FI | A2_FJ | A2_FK | A2_FM | A2_FO | A2_FR

datatype Alpha2_G =
    A2_GA | A2_GB | A2_GD | A2_GE | A2_GF | A2_GG | A2_GH | A2_GI | A2_GL | A2_GM | A2_GN |
    A2_GP | A2_GQ | A2_GR | A2_GS | A2_GT | A2_GU | A2_GW | A2_GY

datatype Alpha2_H =
    A2_HK | A2_HM | A2_HN | A2_HR | A2_HT | A2_HU

datatype Alpha2_I =
    A2_ID | A2_IE | A2_IL | A2_IM | A2_IN | A2_IO | A2_IQ | A2_IR | A2_IS | A2_IT

datatype Alpha2_J =
    A2_JE | A2_JM | A2_JO | A2_JP

datatype Alpha2_K =
    A2_KE | A2_KG | A2_KH | A2_KI | A2_KM | A2_KN | A2_KP | A2_KR | A2_KW | A2_KY | A2_KZ

datatype Alpha2_L =
    A2_LA | A2_LB | A2_LC | A2_LI | A2_LK | A2_LR | A2_LS | A2_LT | A2_LU | A2_LV | A2_LY

datatype Alpha2_M =
    A2_MA | A2_MC | A2_MD | A2_ME | A2_MF | A2_MG | A2_MH | A2_MK | A2_ML | A2_MM | A2_MN |
    A2_MO | A2_MP | A2_MQ | A2_MR | A2_MS | A2_MT | A2_MU | A2_MV | A2_MW | A2_MX | A2_MY |
    A2_MZ

datatype Alpha2_N =
    A2_NA | A2_NC | A2_NE | A2_NF | A2_NG | A2_NI | A2_NL | A2_NO | A2_NP | A2_NR | A2_NU |
    A2_NZ

datatype Alpha2_O =
    A2_OM

datatype Alpha2_P =
    A2_PA | A2_PE | A2_PF | A2_PG | A2_PH | A2_PK | A2_PL | A2_PM | A2_PN | A2_PR | A2_PS |
    A2_PT | A2_PW | A2_PY

datatype Alpha2_Q =
    A2_QA

datatype Alpha2_R =
    A2_RE | A2_RO | A2_RS | A2_RU | A2_RW

datatype Alpha2_S =
    A2_SA | A2_SB | A2_SC | A2_SD | A2_SE | A2_SG | A2_SH | A2_SI | A2_SJ | A2_SK | A2_SL |
    A2_SM | A2_SN | A2_SO | A2_SR | A2_SS | A2_ST | A2_SV | A2_SX | A2_SY | A2_SZ

datatype Alpha2_T =
    A2_TC | A2_TD | A2_TF | A2_TG | A2_TH | A2_TJ | A2_TK | A2_TL | A2_TM | A2_TN | A2_TO |
    A2_TR | A2_TT | A2_TV | A2_TW | A2_TZ

datatype Alpha2_U =
    A2_UA | A2_UG | A2_UM | A2_US | A2_UY | A2_UZ

datatype Alpha2_V =
    A2_VA | A2_VC | A2_VE | A2_VG | A2_VI | A2_VN | A2_VU

datatype Alpha2_W =
    A2_WF | A2_WS

datatype Alpha2_Y =
    A2_YE | A2_YT

datatype Alpha2_Z =
    A2_ZA | A2_ZM | A2_ZW

datatype Alpha2 =
    Alpha2_of_A Alpha2_A | Alpha2_of_B Alpha2_B | Alpha2_of_C Alpha2_C | Alpha2_of_D Alpha2_D |
    Alpha2_of_E Alpha2_E | Alpha2_of_F Alpha2_F | Alpha2_of_G Alpha2_G | Alpha2_of_H Alpha2_H |
    Alpha2_of_I Alpha2_I | Alpha2_of_J Alpha2_J | Alpha2_of_K Alpha2_K | Alpha2_of_L Alpha2_L |
    Alpha2_of_M Alpha2_M | Alpha2_of_N Alpha2_N | Alpha2_of_O Alpha2_O | Alpha2_of_P Alpha2_P |
    Alpha2_of_Q Alpha2_Q | Alpha2_of_R Alpha2_R | Alpha2_of_S Alpha2_S | Alpha2_of_T Alpha2_T |
    Alpha2_of_U Alpha2_U | Alpha2_of_V Alpha2_V | Alpha2_of_W Alpha2_W | Alpha2_of_Y Alpha2_Y |
    Alpha2_of_Z Alpha2_Z

section \<open>Writing a code\<close>

primrec Alpha2_as_str_A :: "Alpha2_A \<Rightarrow> string" where
  "Alpha2_as_str_A A2_AD = ''AD''"
| "Alpha2_as_str_A A2_AE = ''AE''"
| "Alpha2_as_str_A A2_AF = ''AF''"
| "Alpha2_as_str_A A2_AG = ''AG''"
| "Alpha2_as_str_A A2_AI = ''AI''"
| "Alpha2_as_str_A A2_AL = ''AL''"
| "Alpha2_as_str_A A2_AM = ''AM''"
| "Alpha2_as_str_A A2_AO = ''AO''"
| "Alpha2_as_str_A A2_AQ = ''AQ''"
| "Alpha2_as_str_A A2_AR = ''AR''"
| "Alpha2_as_str_A A2_AS = ''AS''"
| "Alpha2_as_str_A A2_AT = ''AT''"
| "Alpha2_as_str_A A2_AU = ''AU''"
| "Alpha2_as_str_A A2_AW = ''AW''"
| "Alpha2_as_str_A A2_AX = ''AX''"
| "Alpha2_as_str_A A2_AZ = ''AZ''"

primrec Alpha2_as_str_B :: "Alpha2_B \<Rightarrow> string" where
  "Alpha2_as_str_B A2_BA = ''BA''"
| "Alpha2_as_str_B A2_BB = ''BB''"
| "Alpha2_as_str_B A2_BD = ''BD''"
| "Alpha2_as_str_B A2_BE = ''BE''"
| "Alpha2_as_str_B A2_BF = ''BF''"
| "Alpha2_as_str_B A2_BG = ''BG''"
| "Alpha2_as_str_B A2_BH = ''BH''"
| "Alpha2_as_str_B A2_BI = ''BI''"
| "Alpha2_as_str_B A2_BJ = ''BJ''"
| "Alpha2_as_str_B A2_BL = ''BL''"
| "Alpha2_as_str_B A2_BM = ''BM''"
| "Alpha2_as_str_B A2_BN = ''BN''"
| "Alpha2_as_str_B A2_BO = ''BO''"
| "Alpha2_as_str_B A2_BQ = ''BQ''"
| "Alpha2_as_str_B A2_BR = ''BR''"
| "Alpha2_as_str_B A2_BS = ''BS''"
| "Alpha2_as_str_B A2_BT = ''BT''"
| "Alpha2_as_str_B A2_BV = ''BV''"
| "Alpha2_as_str_B A2_BW = ''BW''"
| "Alpha2_as_str_B A2_BY = ''BY''"
| "Alpha2_as_str_B A2_BZ = ''BZ''"

primrec Alpha2_as_str_C :: "Alpha2_C \<Rightarrow> string" where
  "Alpha2_as_str_C A2_CA = ''CA''"
| "Alpha2_as_str_C A2_CC = ''CC''"
| "Alpha2_as_str_C A2_CD = ''CD''"
| "Alpha2_as_str_C A2_CF = ''CF''"
| "Alpha2_as_str_C A2_CG = ''CG''"
| "Alpha2_as_str_C A2_CH = ''CH''"
| "Alpha2_as_str_C A2_CI = ''CI''"
| "Alpha2_as_str_C A2_CK = ''CK''"
| "Alpha2_as_str_C A2_CL = ''CL''"
| "Alpha2_as_str_C A2_CM = ''CM''"
| "Alpha2_as_str_C A2_CN = ''CN''"
| "Alpha2_as_str_C A2_CO = ''CO''"
| "Alpha2_as_str_C A2_CR = ''CR''"
| "Alpha2_as_str_C A2_CU = ''CU''"
| "Alpha2_as_str_C A2_CV = ''CV''"
| "Alpha2_as_str_C A2_CW = ''CW''"
| "Alpha2_as_str_C A2_CX = ''CX''"
| "Alpha2_as_str_C A2_CY = ''CY''"
| "Alpha2_as_str_C A2_CZ = ''CZ''"

primrec Alpha2_as_str_D :: "Alpha2_D \<Rightarrow> string" where
  "Alpha2_as_str_D A2_DE = ''DE''"
| "Alpha2_as_str_D A2_DJ = ''DJ''"
| "Alpha2_as_str_D A2_DK = ''DK''"
| "Alpha2_as_str_D A2_DM = ''DM''"
| "Alpha2_as_str_D A2_DO = ''DO''"
| "Alpha2_as_str_D A2_DZ = ''DZ''"

primrec Alpha2_as_str_E :: "Alpha2_E \<Rightarrow> string" where
  "Alpha2_as_str_E A2_EC = ''EC''"
| "Alpha2_as_str_E A2_EE = ''EE''"
| "Alpha2_as_str_E A2_EG = ''EG''"
| "Alpha2_as_str_E A2_EH = ''EH''"
| "Alpha2_as_str_E A2_ER = ''ER''"
| "Alpha2_as_str_E A2_ES = ''ES''"
| "Alpha2_as_str_E A2_ET = ''ET''"

primrec Alpha2_as_str_F :: "Alpha2_F \<Rightarrow> string" where
  "Alpha2_as_str_F A2_FI = ''FI''"
| "Alpha2_as_str_F A2_FJ = ''FJ''"
| "Alpha2_as_str_F A2_FK = ''FK''"
| "Alpha2_as_str_F A2_FM = ''FM''"
| "Alpha2_as_str_F A2_FO = ''FO''"
| "Alpha2_as_str_F A2_FR = ''FR''"

primrec Alpha2_as_str_G :: "Alpha2_G \<Rightarrow> string" where
  "Alpha2_as_str_G A2_GA = ''GA''"
| "Alpha2_as_str_G A2_GB = ''GB''"
| "Alpha2_as_str_G A2_GD = ''GD''"
| "Alpha2_as_str_G A2_GE = ''GE''"
| "Alpha2_as_str_G A2_GF = ''GF''"
| "Alpha2_as_str_G A2_GG = ''GG''"
| "Alpha2_as_str_G A2_GH = ''GH''"
| "Alpha2_as_str_G A2_GI = ''GI''"
| "Alpha2_as_str_G A2_GL = ''GL''"
| "Alpha2_as_str_G A2_GM = ''GM''"
| "Alpha2_as_str_G A2_GN = ''GN''"
| "Alpha2_as_str_G A2_GP = ''GP''"
| "Alpha2_as_str_G A2_GQ = ''GQ''"
| "Alpha2_as_str_G A2_GR = ''GR''"
| "Alpha2_as_str_G A2_GS = ''GS''"
| "Alpha2_as_str_G A2_GT = ''GT''"
| "Alpha2_as_str_G A2_GU = ''GU''"
| "Alpha2_as_str_G A2_GW = ''GW''"
| "Alpha2_as_str_G A2_GY = ''GY''"

primrec Alpha2_as_str_H :: "Alpha2_H \<Rightarrow> string" where
  "Alpha2_as_str_H A2_HK = ''HK''"
| "Alpha2_as_str_H A2_HM = ''HM''"
| "Alpha2_as_str_H A2_HN = ''HN''"
| "Alpha2_as_str_H A2_HR = ''HR''"
| "Alpha2_as_str_H A2_HT = ''HT''"
| "Alpha2_as_str_H A2_HU = ''HU''"

primrec Alpha2_as_str_I :: "Alpha2_I \<Rightarrow> string" where
  "Alpha2_as_str_I A2_ID = ''ID''"
| "Alpha2_as_str_I A2_IE = ''IE''"
| "Alpha2_as_str_I A2_IL = ''IL''"
| "Alpha2_as_str_I A2_IM = ''IM''"
| "Alpha2_as_str_I A2_IN = ''IN''"
| "Alpha2_as_str_I A2_IO = ''IO''"
| "Alpha2_as_str_I A2_IQ = ''IQ''"
| "Alpha2_as_str_I A2_IR = ''IR''"
| "Alpha2_as_str_I A2_IS = ''IS''"
| "Alpha2_as_str_I A2_IT = ''IT''"

primrec Alpha2_as_str_J :: "Alpha2_J \<Rightarrow> string" where
  "Alpha2_as_str_J A2_JE = ''JE''"
| "Alpha2_as_str_J A2_JM = ''JM''"
| "Alpha2_as_str_J A2_JO = ''JO''"
| "Alpha2_as_str_J A2_JP = ''JP''"

primrec Alpha2_as_str_K :: "Alpha2_K \<Rightarrow> string" where
  "Alpha2_as_str_K A2_KE = ''KE''"
| "Alpha2_as_str_K A2_KG = ''KG''"
| "Alpha2_as_str_K A2_KH = ''KH''"
| "Alpha2_as_str_K A2_KI = ''KI''"
| "Alpha2_as_str_K A2_KM = ''KM''"
| "Alpha2_as_str_K A2_KN = ''KN''"
| "Alpha2_as_str_K A2_KP = ''KP''"
| "Alpha2_as_str_K A2_KR = ''KR''"
| "Alpha2_as_str_K A2_KW = ''KW''"
| "Alpha2_as_str_K A2_KY = ''KY''"
| "Alpha2_as_str_K A2_KZ = ''KZ''"

primrec Alpha2_as_str_L :: "Alpha2_L \<Rightarrow> string" where
  "Alpha2_as_str_L A2_LA = ''LA''"
| "Alpha2_as_str_L A2_LB = ''LB''"
| "Alpha2_as_str_L A2_LC = ''LC''"
| "Alpha2_as_str_L A2_LI = ''LI''"
| "Alpha2_as_str_L A2_LK = ''LK''"
| "Alpha2_as_str_L A2_LR = ''LR''"
| "Alpha2_as_str_L A2_LS = ''LS''"
| "Alpha2_as_str_L A2_LT = ''LT''"
| "Alpha2_as_str_L A2_LU = ''LU''"
| "Alpha2_as_str_L A2_LV = ''LV''"
| "Alpha2_as_str_L A2_LY = ''LY''"

primrec Alpha2_as_str_M :: "Alpha2_M \<Rightarrow> string" where
  "Alpha2_as_str_M A2_MA = ''MA''"
| "Alpha2_as_str_M A2_MC = ''MC''"
| "Alpha2_as_str_M A2_MD = ''MD''"
| "Alpha2_as_str_M A2_ME = ''ME''"
| "Alpha2_as_str_M A2_MF = ''MF''"
| "Alpha2_as_str_M A2_MG = ''MG''"
| "Alpha2_as_str_M A2_MH = ''MH''"
| "Alpha2_as_str_M A2_MK = ''MK''"
| "Alpha2_as_str_M A2_ML = ''ML''"
| "Alpha2_as_str_M A2_MM = ''MM''"
| "Alpha2_as_str_M A2_MN = ''MN''"
| "Alpha2_as_str_M A2_MO = ''MO''"
| "Alpha2_as_str_M A2_MP = ''MP''"
| "Alpha2_as_str_M A2_MQ = ''MQ''"
| "Alpha2_as_str_M A2_MR = ''MR''"
| "Alpha2_as_str_M A2_MS = ''MS''"
| "Alpha2_as_str_M A2_MT = ''MT''"
| "Alpha2_as_str_M A2_MU = ''MU''"
| "Alpha2_as_str_M A2_MV = ''MV''"
| "Alpha2_as_str_M A2_MW = ''MW''"
| "Alpha2_as_str_M A2_MX = ''MX''"
| "Alpha2_as_str_M A2_MY = ''MY''"
| "Alpha2_as_str_M A2_MZ = ''MZ''"

primrec Alpha2_as_str_N :: "Alpha2_N \<Rightarrow> string" where
  "Alpha2_as_str_N A2_NA = ''NA''"
| "Alpha2_as_str_N A2_NC = ''NC''"
| "Alpha2_as_str_N A2_NE = ''NE''"
| "Alpha2_as_str_N A2_NF = ''NF''"
| "Alpha2_as_str_N A2_NG = ''NG''"
| "Alpha2_as_str_N A2_NI = ''NI''"
| "Alpha2_as_str_N A2_NL = ''NL''"
| "Alpha2_as_str_N A2_NO = ''NO''"
| "Alpha2_as_str_N A2_NP = ''NP''"
| "Alpha2_as_str_N A2_NR = ''NR''"
| "Alpha2_as_str_N A2_NU = ''NU''"
| "Alpha2_as_str_N A2_NZ = ''NZ''"

primrec Alpha2_as_str_O :: "Alpha2_O \<Rightarrow> string" where
  "Alpha2_as_str_O A2_OM = ''OM''"

primrec Alpha2_as_str_P :: "Alpha2_P \<Rightarrow> string" where
  "Alpha2_as_str_P A2_PA = ''PA''"
| "Alpha2_as_str_P A2_PE = ''PE''"
| "Alpha2_as_str_P A2_PF = ''PF''"
| "Alpha2_as_str_P A2_PG = ''PG''"
| "Alpha2_as_str_P A2_PH = ''PH''"
| "Alpha2_as_str_P A2_PK = ''PK''"
| "Alpha2_as_str_P A2_PL = ''PL''"
| "Alpha2_as_str_P A2_PM = ''PM''"
| "Alpha2_as_str_P A2_PN = ''PN''"
| "Alpha2_as_str_P A2_PR = ''PR''"
| "Alpha2_as_str_P A2_PS = ''PS''"
| "Alpha2_as_str_P A2_PT = ''PT''"
| "Alpha2_as_str_P A2_PW = ''PW''"
| "Alpha2_as_str_P A2_PY = ''PY''"

primrec Alpha2_as_str_Q :: "Alpha2_Q \<Rightarrow> string" where
  "Alpha2_as_str_Q A2_QA = ''QA''"

primrec Alpha2_as_str_R :: "Alpha2_R \<Rightarrow> string" where
  "Alpha2_as_str_R A2_RE = ''RE''"
| "Alpha2_as_str_R A2_RO = ''RO''"
| "Alpha2_as_str_R A2_RS = ''RS''"
| "Alpha2_as_str_R A2_RU = ''RU''"
| "Alpha2_as_str_R A2_RW = ''RW''"

primrec Alpha2_as_str_S :: "Alpha2_S \<Rightarrow> string" where
  "Alpha2_as_str_S A2_SA = ''SA''"
| "Alpha2_as_str_S A2_SB = ''SB''"
| "Alpha2_as_str_S A2_SC = ''SC''"
| "Alpha2_as_str_S A2_SD = ''SD''"
| "Alpha2_as_str_S A2_SE = ''SE''"
| "Alpha2_as_str_S A2_SG = ''SG''"
| "Alpha2_as_str_S A2_SH = ''SH''"
| "Alpha2_as_str_S A2_SI = ''SI''"
| "Alpha2_as_str_S A2_SJ = ''SJ''"
| "Alpha2_as_str_S A2_SK = ''SK''"
| "Alpha2_as_str_S A2_SL = ''SL''"
| "Alpha2_as_str_S A2_SM = ''SM''"
| "Alpha2_as_str_S A2_SN = ''SN''"
| "Alpha2_as_str_S A2_SO = ''SO''"
| "Alpha2_as_str_S A2_SR = ''SR''"
| "Alpha2_as_str_S A2_SS = ''SS''"
| "Alpha2_as_str_S A2_ST = ''ST''"
| "Alpha2_as_str_S A2_SV = ''SV''"
| "Alpha2_as_str_S A2_SX = ''SX''"
| "Alpha2_as_str_S A2_SY = ''SY''"
| "Alpha2_as_str_S A2_SZ = ''SZ''"

primrec Alpha2_as_str_T :: "Alpha2_T \<Rightarrow> string" where
  "Alpha2_as_str_T A2_TC = ''TC''"
| "Alpha2_as_str_T A2_TD = ''TD''"
| "Alpha2_as_str_T A2_TF = ''TF''"
| "Alpha2_as_str_T A2_TG = ''TG''"
| "Alpha2_as_str_T A2_TH = ''TH''"
| "Alpha2_as_str_T A2_TJ = ''TJ''"
| "Alpha2_as_str_T A2_TK = ''TK''"
| "Alpha2_as_str_T A2_TL = ''TL''"
| "Alpha2_as_str_T A2_TM = ''TM''"
| "Alpha2_as_str_T A2_TN = ''TN''"
| "Alpha2_as_str_T A2_TO = ''TO''"
| "Alpha2_as_str_T A2_TR = ''TR''"
| "Alpha2_as_str_T A2_TT = ''TT''"
| "Alpha2_as_str_T A2_TV = ''TV''"
| "Alpha2_as_str_T A2_TW = ''TW''"
| "Alpha2_as_str_T A2_TZ = ''TZ''"

primrec Alpha2_as_str_U :: "Alpha2_U \<Rightarrow> string" where
  "Alpha2_as_str_U A2_UA = ''UA''"
| "Alpha2_as_str_U A2_UG = ''UG''"
| "Alpha2_as_str_U A2_UM = ''UM''"
| "Alpha2_as_str_U A2_US = ''US''"
| "Alpha2_as_str_U A2_UY = ''UY''"
| "Alpha2_as_str_U A2_UZ = ''UZ''"

primrec Alpha2_as_str_V :: "Alpha2_V \<Rightarrow> string" where
  "Alpha2_as_str_V A2_VA = ''VA''"
| "Alpha2_as_str_V A2_VC = ''VC''"
| "Alpha2_as_str_V A2_VE = ''VE''"
| "Alpha2_as_str_V A2_VG = ''VG''"
| "Alpha2_as_str_V A2_VI = ''VI''"
| "Alpha2_as_str_V A2_VN = ''VN''"
| "Alpha2_as_str_V A2_VU = ''VU''"

primrec Alpha2_as_str_W :: "Alpha2_W \<Rightarrow> string" where
  "Alpha2_as_str_W A2_WF = ''WF''"
| "Alpha2_as_str_W A2_WS = ''WS''"

primrec Alpha2_as_str_Y :: "Alpha2_Y \<Rightarrow> string" where
  "Alpha2_as_str_Y A2_YE = ''YE''"
| "Alpha2_as_str_Y A2_YT = ''YT''"

primrec Alpha2_as_str_Z :: "Alpha2_Z \<Rightarrow> string" where
  "Alpha2_as_str_Z A2_ZA = ''ZA''"
| "Alpha2_as_str_Z A2_ZM = ''ZM''"
| "Alpha2_as_str_Z A2_ZW = ''ZW''"

primrec Alpha2_as_str :: "Alpha2 \<Rightarrow> string" where
  "Alpha2_as_str (Alpha2_of_A c) = Alpha2_as_str_A c"
| "Alpha2_as_str (Alpha2_of_B c) = Alpha2_as_str_B c"
| "Alpha2_as_str (Alpha2_of_C c) = Alpha2_as_str_C c"
| "Alpha2_as_str (Alpha2_of_D c) = Alpha2_as_str_D c"
| "Alpha2_as_str (Alpha2_of_E c) = Alpha2_as_str_E c"
| "Alpha2_as_str (Alpha2_of_F c) = Alpha2_as_str_F c"
| "Alpha2_as_str (Alpha2_of_G c) = Alpha2_as_str_G c"
| "Alpha2_as_str (Alpha2_of_H c) = Alpha2_as_str_H c"
| "Alpha2_as_str (Alpha2_of_I c) = Alpha2_as_str_I c"
| "Alpha2_as_str (Alpha2_of_J c) = Alpha2_as_str_J c"
| "Alpha2_as_str (Alpha2_of_K c) = Alpha2_as_str_K c"
| "Alpha2_as_str (Alpha2_of_L c) = Alpha2_as_str_L c"
| "Alpha2_as_str (Alpha2_of_M c) = Alpha2_as_str_M c"
| "Alpha2_as_str (Alpha2_of_N c) = Alpha2_as_str_N c"
| "Alpha2_as_str (Alpha2_of_O c) = Alpha2_as_str_O c"
| "Alpha2_as_str (Alpha2_of_P c) = Alpha2_as_str_P c"
| "Alpha2_as_str (Alpha2_of_Q c) = Alpha2_as_str_Q c"
| "Alpha2_as_str (Alpha2_of_R c) = Alpha2_as_str_R c"
| "Alpha2_as_str (Alpha2_of_S c) = Alpha2_as_str_S c"
| "Alpha2_as_str (Alpha2_of_T c) = Alpha2_as_str_T c"
| "Alpha2_as_str (Alpha2_of_U c) = Alpha2_as_str_U c"
| "Alpha2_as_str (Alpha2_of_V c) = Alpha2_as_str_V c"
| "Alpha2_as_str (Alpha2_of_W c) = Alpha2_as_str_W c"
| "Alpha2_as_str (Alpha2_of_Y c) = Alpha2_as_str_Y c"
| "Alpha2_as_str (Alpha2_of_Z c) = Alpha2_as_str_Z c"

section \<open>Reading a code\<close>

definition alpha2_arms_A :: "(string \<times> Alpha2_A) list" where
  "alpha2_arms_A =
    [(''AD'', A2_AD), (''AE'', A2_AE), (''AF'', A2_AF), (''AG'', A2_AG), (''AI'', A2_AI),
     (''AL'', A2_AL), (''AM'', A2_AM), (''AO'', A2_AO), (''AQ'', A2_AQ), (''AR'', A2_AR),
     (''AS'', A2_AS), (''AT'', A2_AT), (''AU'', A2_AU), (''AW'', A2_AW), (''AX'', A2_AX),
     (''AZ'', A2_AZ)]"

definition alpha2_arms_B :: "(string \<times> Alpha2_B) list" where
  "alpha2_arms_B =
    [(''BA'', A2_BA), (''BB'', A2_BB), (''BD'', A2_BD), (''BE'', A2_BE), (''BF'', A2_BF),
     (''BG'', A2_BG), (''BH'', A2_BH), (''BI'', A2_BI), (''BJ'', A2_BJ), (''BL'', A2_BL),
     (''BM'', A2_BM), (''BN'', A2_BN), (''BO'', A2_BO), (''BQ'', A2_BQ), (''BR'', A2_BR),
     (''BS'', A2_BS), (''BT'', A2_BT), (''BV'', A2_BV), (''BW'', A2_BW), (''BY'', A2_BY),
     (''BZ'', A2_BZ)]"

definition alpha2_arms_C :: "(string \<times> Alpha2_C) list" where
  "alpha2_arms_C =
    [(''CA'', A2_CA), (''CC'', A2_CC), (''CD'', A2_CD), (''CF'', A2_CF), (''CG'', A2_CG),
     (''CH'', A2_CH), (''CI'', A2_CI), (''CK'', A2_CK), (''CL'', A2_CL), (''CM'', A2_CM),
     (''CN'', A2_CN), (''CO'', A2_CO), (''CR'', A2_CR), (''CU'', A2_CU), (''CV'', A2_CV),
     (''CW'', A2_CW), (''CX'', A2_CX), (''CY'', A2_CY), (''CZ'', A2_CZ)]"

definition alpha2_arms_D :: "(string \<times> Alpha2_D) list" where
  "alpha2_arms_D =
    [(''DE'', A2_DE), (''DJ'', A2_DJ), (''DK'', A2_DK), (''DM'', A2_DM), (''DO'', A2_DO),
     (''DZ'', A2_DZ)]"

definition alpha2_arms_E :: "(string \<times> Alpha2_E) list" where
  "alpha2_arms_E =
    [(''EC'', A2_EC), (''EE'', A2_EE), (''EG'', A2_EG), (''EH'', A2_EH), (''ER'', A2_ER),
     (''ES'', A2_ES), (''ET'', A2_ET)]"

definition alpha2_arms_F :: "(string \<times> Alpha2_F) list" where
  "alpha2_arms_F =
    [(''FI'', A2_FI), (''FJ'', A2_FJ), (''FK'', A2_FK), (''FM'', A2_FM), (''FO'', A2_FO),
     (''FR'', A2_FR)]"

definition alpha2_arms_G :: "(string \<times> Alpha2_G) list" where
  "alpha2_arms_G =
    [(''GA'', A2_GA), (''GB'', A2_GB), (''GD'', A2_GD), (''GE'', A2_GE), (''GF'', A2_GF),
     (''GG'', A2_GG), (''GH'', A2_GH), (''GI'', A2_GI), (''GL'', A2_GL), (''GM'', A2_GM),
     (''GN'', A2_GN), (''GP'', A2_GP), (''GQ'', A2_GQ), (''GR'', A2_GR), (''GS'', A2_GS),
     (''GT'', A2_GT), (''GU'', A2_GU), (''GW'', A2_GW), (''GY'', A2_GY)]"

definition alpha2_arms_H :: "(string \<times> Alpha2_H) list" where
  "alpha2_arms_H =
    [(''HK'', A2_HK), (''HM'', A2_HM), (''HN'', A2_HN), (''HR'', A2_HR), (''HT'', A2_HT),
     (''HU'', A2_HU)]"

definition alpha2_arms_I :: "(string \<times> Alpha2_I) list" where
  "alpha2_arms_I =
    [(''ID'', A2_ID), (''IE'', A2_IE), (''IL'', A2_IL), (''IM'', A2_IM), (''IN'', A2_IN),
     (''IO'', A2_IO), (''IQ'', A2_IQ), (''IR'', A2_IR), (''IS'', A2_IS), (''IT'', A2_IT)]"

definition alpha2_arms_J :: "(string \<times> Alpha2_J) list" where
  "alpha2_arms_J =
    [(''JE'', A2_JE), (''JM'', A2_JM), (''JO'', A2_JO), (''JP'', A2_JP)]"

definition alpha2_arms_K :: "(string \<times> Alpha2_K) list" where
  "alpha2_arms_K =
    [(''KE'', A2_KE), (''KG'', A2_KG), (''KH'', A2_KH), (''KI'', A2_KI), (''KM'', A2_KM),
     (''KN'', A2_KN), (''KP'', A2_KP), (''KR'', A2_KR), (''KW'', A2_KW), (''KY'', A2_KY),
     (''KZ'', A2_KZ)]"

definition alpha2_arms_L :: "(string \<times> Alpha2_L) list" where
  "alpha2_arms_L =
    [(''LA'', A2_LA), (''LB'', A2_LB), (''LC'', A2_LC), (''LI'', A2_LI), (''LK'', A2_LK),
     (''LR'', A2_LR), (''LS'', A2_LS), (''LT'', A2_LT), (''LU'', A2_LU), (''LV'', A2_LV),
     (''LY'', A2_LY)]"

definition alpha2_arms_M :: "(string \<times> Alpha2_M) list" where
  "alpha2_arms_M =
    [(''MA'', A2_MA), (''MC'', A2_MC), (''MD'', A2_MD), (''ME'', A2_ME), (''MF'', A2_MF),
     (''MG'', A2_MG), (''MH'', A2_MH), (''MK'', A2_MK), (''ML'', A2_ML), (''MM'', A2_MM),
     (''MN'', A2_MN), (''MO'', A2_MO), (''MP'', A2_MP), (''MQ'', A2_MQ), (''MR'', A2_MR),
     (''MS'', A2_MS), (''MT'', A2_MT), (''MU'', A2_MU), (''MV'', A2_MV), (''MW'', A2_MW),
     (''MX'', A2_MX), (''MY'', A2_MY), (''MZ'', A2_MZ)]"

definition alpha2_arms_N :: "(string \<times> Alpha2_N) list" where
  "alpha2_arms_N =
    [(''NA'', A2_NA), (''NC'', A2_NC), (''NE'', A2_NE), (''NF'', A2_NF), (''NG'', A2_NG),
     (''NI'', A2_NI), (''NL'', A2_NL), (''NO'', A2_NO), (''NP'', A2_NP), (''NR'', A2_NR),
     (''NU'', A2_NU), (''NZ'', A2_NZ)]"

definition alpha2_arms_O :: "(string \<times> Alpha2_O) list" where
  "alpha2_arms_O =
    [(''OM'', A2_OM)]"

definition alpha2_arms_P :: "(string \<times> Alpha2_P) list" where
  "alpha2_arms_P =
    [(''PA'', A2_PA), (''PE'', A2_PE), (''PF'', A2_PF), (''PG'', A2_PG), (''PH'', A2_PH),
     (''PK'', A2_PK), (''PL'', A2_PL), (''PM'', A2_PM), (''PN'', A2_PN), (''PR'', A2_PR),
     (''PS'', A2_PS), (''PT'', A2_PT), (''PW'', A2_PW), (''PY'', A2_PY)]"

definition alpha2_arms_Q :: "(string \<times> Alpha2_Q) list" where
  "alpha2_arms_Q =
    [(''QA'', A2_QA)]"

definition alpha2_arms_R :: "(string \<times> Alpha2_R) list" where
  "alpha2_arms_R =
    [(''RE'', A2_RE), (''RO'', A2_RO), (''RS'', A2_RS), (''RU'', A2_RU), (''RW'', A2_RW)]"

definition alpha2_arms_S :: "(string \<times> Alpha2_S) list" where
  "alpha2_arms_S =
    [(''SA'', A2_SA), (''SB'', A2_SB), (''SC'', A2_SC), (''SD'', A2_SD), (''SE'', A2_SE),
     (''SG'', A2_SG), (''SH'', A2_SH), (''SI'', A2_SI), (''SJ'', A2_SJ), (''SK'', A2_SK),
     (''SL'', A2_SL), (''SM'', A2_SM), (''SN'', A2_SN), (''SO'', A2_SO), (''SR'', A2_SR),
     (''SS'', A2_SS), (''ST'', A2_ST), (''SV'', A2_SV), (''SX'', A2_SX), (''SY'', A2_SY),
     (''SZ'', A2_SZ)]"

definition alpha2_arms_T :: "(string \<times> Alpha2_T) list" where
  "alpha2_arms_T =
    [(''TC'', A2_TC), (''TD'', A2_TD), (''TF'', A2_TF), (''TG'', A2_TG), (''TH'', A2_TH),
     (''TJ'', A2_TJ), (''TK'', A2_TK), (''TL'', A2_TL), (''TM'', A2_TM), (''TN'', A2_TN),
     (''TO'', A2_TO), (''TR'', A2_TR), (''TT'', A2_TT), (''TV'', A2_TV), (''TW'', A2_TW),
     (''TZ'', A2_TZ)]"

definition alpha2_arms_U :: "(string \<times> Alpha2_U) list" where
  "alpha2_arms_U =
    [(''UA'', A2_UA), (''UG'', A2_UG), (''UM'', A2_UM), (''US'', A2_US), (''UY'', A2_UY),
     (''UZ'', A2_UZ)]"

definition alpha2_arms_V :: "(string \<times> Alpha2_V) list" where
  "alpha2_arms_V =
    [(''VA'', A2_VA), (''VC'', A2_VC), (''VE'', A2_VE), (''VG'', A2_VG), (''VI'', A2_VI),
     (''VN'', A2_VN), (''VU'', A2_VU)]"

definition alpha2_arms_W :: "(string \<times> Alpha2_W) list" where
  "alpha2_arms_W =
    [(''WF'', A2_WF), (''WS'', A2_WS)]"

definition alpha2_arms_Y :: "(string \<times> Alpha2_Y) list" where
  "alpha2_arms_Y =
    [(''YE'', A2_YE), (''YT'', A2_YT)]"

definition alpha2_arms_Z :: "(string \<times> Alpha2_Z) list" where
  "alpha2_arms_Z =
    [(''ZA'', A2_ZA), (''ZM'', A2_ZM), (''ZW'', A2_ZW)]"

definition alpha2_arms :: "(string \<times> Alpha2) list" where
  "alpha2_arms =
     map (map_prod id Alpha2_of_A) alpha2_arms_A @
     map (map_prod id Alpha2_of_B) alpha2_arms_B @
     map (map_prod id Alpha2_of_C) alpha2_arms_C @
     map (map_prod id Alpha2_of_D) alpha2_arms_D @
     map (map_prod id Alpha2_of_E) alpha2_arms_E @
     map (map_prod id Alpha2_of_F) alpha2_arms_F @
     map (map_prod id Alpha2_of_G) alpha2_arms_G @
     map (map_prod id Alpha2_of_H) alpha2_arms_H @
     map (map_prod id Alpha2_of_I) alpha2_arms_I @
     map (map_prod id Alpha2_of_J) alpha2_arms_J @
     map (map_prod id Alpha2_of_K) alpha2_arms_K @
     map (map_prod id Alpha2_of_L) alpha2_arms_L @
     map (map_prod id Alpha2_of_M) alpha2_arms_M @
     map (map_prod id Alpha2_of_N) alpha2_arms_N @
     map (map_prod id Alpha2_of_O) alpha2_arms_O @
     map (map_prod id Alpha2_of_P) alpha2_arms_P @
     map (map_prod id Alpha2_of_Q) alpha2_arms_Q @
     map (map_prod id Alpha2_of_R) alpha2_arms_R @
     map (map_prod id Alpha2_of_S) alpha2_arms_S @
     map (map_prod id Alpha2_of_T) alpha2_arms_T @
     map (map_prod id Alpha2_of_U) alpha2_arms_U @
     map (map_prod id Alpha2_of_V) alpha2_arms_V @
     map (map_prod id Alpha2_of_W) alpha2_arms_W @
     map (map_prod id Alpha2_of_Y) alpha2_arms_Y @
     map (map_prod id Alpha2_of_Z) alpha2_arms_Z"

definition Alpha2_from_str :: "string \<Rightarrow> anyhow_error + Alpha2" where
  "Alpha2_from_str s = match_str alpha2_arms s"

definition Alpha2_from_json :: "Json \<Rightarrow> FromJsonError + Alpha2" where
  "Alpha2_from_json v = parse_from_json Alpha2_from_str v"

definition Alpha2_into :: "Alpha2 \<Rightarrow> Value" where
  "Alpha2_into a = VText (Alpha2_as_str a)"

section \<open>The two tables agree\<close>

interpretation alpha2_A: code_table Alpha2_as_str_A alpha2_arms_A
proof
  show "(Alpha2_as_str_A c, c) \<in> set alpha2_arms_A" for c by (cases c) (simp_all add: alpha2_arms_A_def)
qed (auto simp: alpha2_arms_A_def)

interpretation alpha2_B: code_table Alpha2_as_str_B alpha2_arms_B
proof
  show "(Alpha2_as_str_B c, c) \<in> set alpha2_arms_B" for c by (cases c) (simp_all add: alpha2_arms_B_def)
qed (auto simp: alpha2_arms_B_def)

interpretation alpha2_C: code_table Alpha2_as_str_C alpha2_arms_C
proof
  show "(Alpha2_as_str_C c, c) \<in> set alpha2_arms_C" for c by (cases c) (simp_all add: alpha2_arms_C_def)
qed (auto simp: alpha2_arms_C_def)

interpretation alpha2_D: code_table Alpha2_as_str_D alpha2_arms_D
proof
  show "(Alpha2_as_str_D c, c) \<in> set alpha2_arms_D" for c by (cases c) (simp_all add: alpha2_arms_D_def)
qed (auto simp: alpha2_arms_D_def)

interpretation alpha2_E: code_table Alpha2_as_str_E alpha2_arms_E
proof
  show "(Alpha2_as_str_E c, c) \<in> set alpha2_arms_E" for c by (cases c) (simp_all add: alpha2_arms_E_def)
qed (auto simp: alpha2_arms_E_def)

interpretation alpha2_F: code_table Alpha2_as_str_F alpha2_arms_F
proof
  show "(Alpha2_as_str_F c, c) \<in> set alpha2_arms_F" for c by (cases c) (simp_all add: alpha2_arms_F_def)
qed (auto simp: alpha2_arms_F_def)

interpretation alpha2_G: code_table Alpha2_as_str_G alpha2_arms_G
proof
  show "(Alpha2_as_str_G c, c) \<in> set alpha2_arms_G" for c by (cases c) (simp_all add: alpha2_arms_G_def)
qed (auto simp: alpha2_arms_G_def)

interpretation alpha2_H: code_table Alpha2_as_str_H alpha2_arms_H
proof
  show "(Alpha2_as_str_H c, c) \<in> set alpha2_arms_H" for c by (cases c) (simp_all add: alpha2_arms_H_def)
qed (auto simp: alpha2_arms_H_def)

interpretation alpha2_I: code_table Alpha2_as_str_I alpha2_arms_I
proof
  show "(Alpha2_as_str_I c, c) \<in> set alpha2_arms_I" for c by (cases c) (simp_all add: alpha2_arms_I_def)
qed (auto simp: alpha2_arms_I_def)

interpretation alpha2_J: code_table Alpha2_as_str_J alpha2_arms_J
proof
  show "(Alpha2_as_str_J c, c) \<in> set alpha2_arms_J" for c by (cases c) (simp_all add: alpha2_arms_J_def)
qed (auto simp: alpha2_arms_J_def)

interpretation alpha2_K: code_table Alpha2_as_str_K alpha2_arms_K
proof
  show "(Alpha2_as_str_K c, c) \<in> set alpha2_arms_K" for c by (cases c) (simp_all add: alpha2_arms_K_def)
qed (auto simp: alpha2_arms_K_def)

interpretation alpha2_L: code_table Alpha2_as_str_L alpha2_arms_L
proof
  show "(Alpha2_as_str_L c, c) \<in> set alpha2_arms_L" for c by (cases c) (simp_all add: alpha2_arms_L_def)
qed (auto simp: alpha2_arms_L_def)

interpretation alpha2_M: code_table Alpha2_as_str_M alpha2_arms_M
proof
  show "(Alpha2_as_str_M c, c) \<in> set alpha2_arms_M" for c by (cases c) (simp_all add: alpha2_arms_M_def)
qed (auto simp: alpha2_arms_M_def)

interpretation alpha2_N: code_table Alpha2_as_str_N alpha2_arms_N
proof
  show "(Alpha2_as_str_N c, c) \<in> set alpha2_arms_N" for c by (cases c) (simp_all add: alpha2_arms_N_def)
qed (auto simp: alpha2_arms_N_def)

interpretation alpha2_O: code_table Alpha2_as_str_O alpha2_arms_O
proof
  show "(Alpha2_as_str_O c, c) \<in> set alpha2_arms_O" for c by (cases c) (simp_all add: alpha2_arms_O_def)
qed (auto simp: alpha2_arms_O_def)

interpretation alpha2_P: code_table Alpha2_as_str_P alpha2_arms_P
proof
  show "(Alpha2_as_str_P c, c) \<in> set alpha2_arms_P" for c by (cases c) (simp_all add: alpha2_arms_P_def)
qed (auto simp: alpha2_arms_P_def)

interpretation alpha2_Q: code_table Alpha2_as_str_Q alpha2_arms_Q
proof
  show "(Alpha2_as_str_Q c, c) \<in> set alpha2_arms_Q" for c by (cases c) (simp_all add: alpha2_arms_Q_def)
qed (auto simp: alpha2_arms_Q_def)

interpretation alpha2_R: code_table Alpha2_as_str_R alpha2_arms_R
proof
  show "(Alpha2_as_str_R c, c) \<in> set alpha2_arms_R" for c by (cases c) (simp_all add: alpha2_arms_R_def)
qed (auto simp: alpha2_arms_R_def)

interpretation alpha2_S: code_table Alpha2_as_str_S alpha2_arms_S
proof
  show "(Alpha2_as_str_S c, c) \<in> set alpha2_arms_S" for c by (cases c) (simp_all add: alpha2_arms_S_def)
qed (auto simp: alpha2_arms_S_def)

interpretation alpha2_T: code_table Alpha2_as_str_T alpha2_arms_T
proof
  show "(Alpha2_as_str_T c, c) \<in> set alpha2_arms_T" for c by (cases c) (simp_all add: alpha2_arms_T_def)
qed (auto simp: alpha2_arms_T_def)

interpretation alpha2_U: code_table Alpha2_as_str_U alpha2_arms_U
proof
  show "(Alpha2_as_str_U c, c) \<in> set alpha2_arms_U" for c by (cases c) (simp_all add: alpha2_arms_U_def)
qed (auto simp: alpha2_arms_U_def)

interpretation alpha2_V: code_table Alpha2_as_str_V alpha2_arms_V
proof
  show "(Alpha2_as_str_V c, c) \<in> set alpha2_arms_V" for c by (cases c) (simp_all add: alpha2_arms_V_def)
qed (auto simp: alpha2_arms_V_def)

interpretation alpha2_W: code_table Alpha2_as_str_W alpha2_arms_W
proof
  show "(Alpha2_as_str_W c, c) \<in> set alpha2_arms_W" for c by (cases c) (simp_all add: alpha2_arms_W_def)
qed (auto simp: alpha2_arms_W_def)

interpretation alpha2_Y: code_table Alpha2_as_str_Y alpha2_arms_Y
proof
  show "(Alpha2_as_str_Y c, c) \<in> set alpha2_arms_Y" for c by (cases c) (simp_all add: alpha2_arms_Y_def)
qed (auto simp: alpha2_arms_Y_def)

interpretation alpha2_Z: code_table Alpha2_as_str_Z alpha2_arms_Z
proof
  show "(Alpha2_as_str_Z c, c) \<in> set alpha2_arms_Z" for c by (cases c) (simp_all add: alpha2_arms_Z_def)
qed (auto simp: alpha2_arms_Z_def)

lemmas alpha2_arms_groups = alpha2_arms_A_def alpha2_arms_B_def alpha2_arms_C_def alpha2_arms_D_def alpha2_arms_E_def alpha2_arms_F_def alpha2_arms_G_def alpha2_arms_H_def alpha2_arms_I_def alpha2_arms_J_def alpha2_arms_K_def alpha2_arms_L_def alpha2_arms_M_def alpha2_arms_N_def alpha2_arms_O_def alpha2_arms_P_def alpha2_arms_Q_def alpha2_arms_R_def alpha2_arms_S_def alpha2_arms_T_def alpha2_arms_U_def alpha2_arms_V_def alpha2_arms_W_def alpha2_arms_Y_def alpha2_arms_Z_def

lemma alpha2_arms_distinct: "distinct (map fst alpha2_arms)"
proof (rule increasing_distinct)
  show "successively (<) (map fst alpha2_arms)"
    by (simp add: alpha2_arms_def alpha2_arms_groups less_char_def)
qed

lemmas alpha2_arms_sound = alpha2_A.arms_sound alpha2_B.arms_sound alpha2_C.arms_sound alpha2_D.arms_sound alpha2_E.arms_sound alpha2_F.arms_sound alpha2_G.arms_sound alpha2_H.arms_sound alpha2_I.arms_sound alpha2_J.arms_sound alpha2_K.arms_sound alpha2_L.arms_sound alpha2_M.arms_sound alpha2_N.arms_sound alpha2_O.arms_sound alpha2_P.arms_sound alpha2_Q.arms_sound alpha2_R.arms_sound alpha2_S.arms_sound alpha2_T.arms_sound alpha2_U.arms_sound alpha2_V.arms_sound alpha2_W.arms_sound alpha2_Y.arms_sound alpha2_Z.arms_sound

lemmas alpha2_arms_complete = alpha2_A.arms_complete alpha2_B.arms_complete alpha2_C.arms_complete alpha2_D.arms_complete alpha2_E.arms_complete alpha2_F.arms_complete alpha2_G.arms_complete alpha2_H.arms_complete alpha2_I.arms_complete alpha2_J.arms_complete alpha2_K.arms_complete alpha2_L.arms_complete alpha2_M.arms_complete alpha2_N.arms_complete alpha2_O.arms_complete alpha2_P.arms_complete alpha2_Q.arms_complete alpha2_R.arms_complete alpha2_S.arms_complete alpha2_T.arms_complete alpha2_U.arms_complete alpha2_V.arms_complete alpha2_W.arms_complete alpha2_Y.arms_complete alpha2_Z.arms_complete

interpretation alpha2: code_table Alpha2_as_str alpha2_arms
proof
  show "(Alpha2_as_str c, c) \<in> set alpha2_arms" for c
    by (cases c) (simp_all add: alpha2_arms_def group_arm alpha2_arms_complete)
  show "Alpha2_as_str c = s" if "(s, c) \<in> set alpha2_arms" for s c
    using that by (auto simp: alpha2_arms_def group_arm_iff dest: alpha2_arms_sound)
qed (rule alpha2_arms_distinct)

lemma Alpha2_from_str_Inr [result_simps]: "Alpha2_from_str s = Inr c \<longleftrightarrow> s = Alpha2_as_str c"
  by (simp add: Alpha2_from_str_def match_str_def result_simps alpha2.lookup_Some)

lemma Alpha2_from_json_Inr [result_simps]:
  "Alpha2_from_json v = Inr c \<longleftrightarrow> v = JString (Alpha2_as_str c)"
  by (auto simp: Alpha2_from_json_def result_simps)

text \<open>Every code has two characters, so a longer or shorter string is refused.\<close>

lemma Alpha2_as_str_length: "length (Alpha2_as_str c) = 2"
proof -
  have "\<forall>p \<in> set alpha2_arms. length (fst p) = 2"
    by (simp add: alpha2_arms_def alpha2_arms_groups)
  with alpha2.arms_complete [of c] show ?thesis by force
qed

section \<open>Properties\<close>

text \<open>A string is read as a country code exactly when it is the text of that code, so the 249 arms
  of \<^verbatim>\<open>from_str\<close> and those of \<^verbatim>\<open>as_str\<close> invert each other, no two codes share a text, and every
  other string is refused with an error that carries it.
\<close>

lemma alpha2_round_trip:
  "Alpha2_from_str s = (if s \<in> range Alpha2_as_str then Inr (inv Alpha2_as_str s) else Inl (Any_Unrecognized s)) \<and>
   (Alpha2_from_str s = Inr c \<longleftrightarrow> s = Alpha2_as_str c) \<and> inj Alpha2_as_str \<and>
   Alpha2_from_json (JString (Alpha2_as_str c)) = Inr c"
proof -
  have inj: "inj Alpha2_as_str" by (simp add: inj_def alpha2.as_str_inj)
  have "Alpha2_from_str s = Inl (Any_Unrecognized s)" if "s \<notin> range Alpha2_as_str"
    using that by (simp add: Alpha2_from_str_def match_str_def alpha2.lookup_None [symmetric])
  then show ?thesis
    using inj by (auto simp: Alpha2_from_str_Inr Alpha2_from_json_Inr)
qed

end
