(* ===== verification/Iso_Elements.thy ===== *)
theory Iso_Elements
  imports Country_Code Date_Text
begin

text \<open>
  The element types of the namespace \<^verbatim>\<open>org.iso.18013.5.1\<close>
  (\<^verbatim>\<open>src/definitions/namespaces/org_iso_18013_5_1\<close>), each with its conversions from JSON and to
  CBOR.
\<close>

section \<open>sex.rs\<close>

datatype Sex = NotKnown | Male | Female | NotApplicable

primrec u8_from_Sex :: "Sex \<Rightarrow> u8" where
  "u8_from_Sex NotKnown = 0"
| "u8_from_Sex Male = 1"
| "u8_from_Sex Female = 2"
| "u8_from_Sex NotApplicable = 9"

definition Sex_try_from :: "u32 \<Rightarrow> anyhow_error + Sex" where
  "Sex_try_from u =
     (if u = 0 then Inr NotKnown
      else if u = 1 then Inr Male
      else if u = 2 then Inr Female
      else if u = 9 then Inr NotApplicable
      else Inl (Any_UnrecognizedNumber u))"

definition Sex_from_json :: "Json \<Rightarrow> FromJsonError + Sex" where
  "Sex_from_json v = and_then (u32_from_json v) (\<lambda>u. map_err Parsing (Sex_try_from u))"

definition Sex_into :: "Sex \<Rightarrow> Value" where
  "Sex_into s = u8_to_cbor (u8_from_Sex s)"

section \<open>eye_colour.rs, hair_colour.rs\<close>

datatype EyeColour =
    Eye_Black | Eye_Blue | Eye_Brown | Eye_Dichromatic | Eye_Grey | Eye_Green | Eye_Hazel
  | Eye_Maroon | Eye_Pink | Eye_Unknown

primrec EyeColour_to_str :: "EyeColour \<Rightarrow> string" where
  "EyeColour_to_str Eye_Black = ''black''"
| "EyeColour_to_str Eye_Blue = ''blue''"
| "EyeColour_to_str Eye_Brown = ''brown''"
| "EyeColour_to_str Eye_Dichromatic = ''dichromatic''"
| "EyeColour_to_str Eye_Grey = ''grey''"
| "EyeColour_to_str Eye_Green = ''green''"
| "EyeColour_to_str Eye_Hazel = ''hazel''"
| "EyeColour_to_str Eye_Maroon = ''maroon''"
| "EyeColour_to_str Eye_Pink = ''pink''"
| "EyeColour_to_str Eye_Unknown = ''unknown''"

definition eye_colour_arms :: "(string \<times> EyeColour) list" where
  "eye_colour_arms =
    [(''black'', Eye_Black), (''blue'', Eye_Blue), (''brown'', Eye_Brown),
     (''dichromatic'', Eye_Dichromatic), (''grey'', Eye_Grey), (''green'', Eye_Green),
     (''hazel'', Eye_Hazel), (''maroon'', Eye_Maroon), (''pink'', Eye_Pink),
     (''unknown'', Eye_Unknown)]"

definition EyeColour_from_str :: "string \<Rightarrow> anyhow_error + EyeColour" where
  "EyeColour_from_str s = ok_or (map_of eye_colour_arms (to_lowercase s)) (Any_Unrecognized s)"

definition EyeColour_from_json :: "Json \<Rightarrow> FromJsonError + EyeColour" where
  "EyeColour_from_json v = parse_from_json EyeColour_from_str v"

definition EyeColour_into :: "EyeColour \<Rightarrow> Value" where
  "EyeColour_into h = VText (EyeColour_to_str h)"

datatype HairColour =
    Hair_Bald | Hair_Black | Hair_Blond | Hair_Brown | Hair_Grey | Hair_Red | Hair_Auburn
  | Hair_Sandy | Hair_White | Hair_Unknown

primrec HairColour_to_str :: "HairColour \<Rightarrow> string" where
  "HairColour_to_str Hair_Bald = ''bald''"
| "HairColour_to_str Hair_Black = ''black''"
| "HairColour_to_str Hair_Blond = ''blond''"
| "HairColour_to_str Hair_Brown = ''brown''"
| "HairColour_to_str Hair_Grey = ''grey''"
| "HairColour_to_str Hair_Red = ''red''"
| "HairColour_to_str Hair_Auburn = ''auburn''"
| "HairColour_to_str Hair_Sandy = ''sandy''"
| "HairColour_to_str Hair_White = ''white''"
| "HairColour_to_str Hair_Unknown = ''unknown''"

definition hair_colour_arms :: "(string \<times> HairColour) list" where
  "hair_colour_arms =
    [(''bald'', Hair_Bald), (''black'', Hair_Black), (''blond'', Hair_Blond),
     (''brown'', Hair_Brown), (''grey'', Hair_Grey), (''red'', Hair_Red),
     (''auburn'', Hair_Auburn), (''sandy'', Hair_Sandy), (''white'', Hair_White),
     (''unknown'', Hair_Unknown)]"

definition HairColour_from_str :: "string \<Rightarrow> anyhow_error + HairColour" where
  "HairColour_from_str s = ok_or (map_of hair_colour_arms (to_lowercase s)) (Any_Unrecognized s)"

definition HairColour_from_json :: "Json \<Rightarrow> FromJsonError + HairColour" where
  "HairColour_from_json v = parse_from_json HairColour_from_str v"

definition HairColour_into :: "HairColour \<Rightarrow> Value" where
  "HairColour_into h = VText (HairColour_to_str h)"

section \<open>age_over.rs\<close>

text \<open>The two digits of an age, ordered as the derived \<^verbatim>\<open>Ord\<close>: by the first, then the second.\<close>

datatype Age = Age char char

instantiation Age :: linorder
begin

definition less_eq_Age :: "Age \<Rightarrow> Age \<Rightarrow> bool" where
  "less_eq_Age a b = (case (a, b) of (Age x y, Age x' y') \<Rightarrow> (x, y) \<le> (x', y'))"

definition less_Age :: "Age \<Rightarrow> Age \<Rightarrow> bool" where
  "less_Age a b = (case (a, b) of (Age x y, Age x' y') \<Rightarrow> (x, y) < (x', y'))"

instance
  by standard (auto simp: less_eq_Age_def less_Age_def split: Age.splits)

end

type_synonym AgeOver = "(Age, bool) btree_map"

definition is_digit :: "char \<Rightarrow> bool" where
  "is_digit c \<longleftrightarrow> CHR ''0'' \<le> c \<and> c \<le> CHR ''9''"

text \<open>\<^verbatim>\<open>to_age\<close>: the match on the first, second and third \<^verbatim>\<open>chars.next()\<close>.\<close>

fun to_age :: "string \<Rightarrow> Age option" where
  "to_age [] = None"
| "to_age [c] = None"
| "to_age (c # d # s) =
     (if \<not> is_digit c then None
      else if \<not> is_digit d then None
      else if s \<noteq> [] then None
      else Some (Age c d))"

definition Age_try_from :: "u8 \<Rightarrow> age_range_error + Age" where
  "Age_try_from u = ok_or (to_age (pad_zero 2 (show_nat (unat u)))) (TooLarge u)"

text \<open>Keys that are not \<^verbatim>\<open>age_over_\<close> and two digits are skipped; the first value that is no boolean is
  the error.\<close>

definition AgeOver_from_map :: "(string, Json) btree_map \<Rightarrow> FromJsonError + AgeOver" where
  "AgeOver_from_map m =
     keyed_from_map (\<lambda>k. Option.bind (strip_prefix ''age_over_'' k) to_age) bool_from_json m"

definition AgeOver_to_ns_map :: "AgeOver \<Rightarrow> (string, Value) btree_map" where
  "AgeOver_to_ns_map a =
     bt_of_list (map (\<lambda>(k, v). case k of Age x y \<Rightarrow> (''age_over_'' @ [x, y], VBool v)) a)"

section \<open>biometric_template.rs\<close>

type_synonym BiometricTemplate = "(string, bytes) btree_map"

definition BiometricTemplate_from_map ::
    "(string \<Rightarrow> bytes option) \<Rightarrow> (string, Json) btree_map \<Rightarrow> FromJsonError + BiometricTemplate" where
  "BiometricTemplate_from_map base64_decode m =
     keyed_from_map (\<lambda>k. strip_prefix ''biometric_template_'' k) (ByteStr_from_json base64_decode) m"

definition BiometricTemplate_to_ns_map :: "BiometricTemplate \<Rightarrow> (string, Value) btree_map" where
  "BiometricTemplate_to_ns_map b =
     bt_of_list (map (\<lambda>(k, v). (''biometric_template_'' @ k, ByteStr_into v)) b)"

section \<open>driving_privileges.rs\<close>

datatype VehicleCategoryCode =
    Cat_A | Cat_B | Cat_C | Cat_D | Cat_BE | Cat_CE | Cat_DE | Cat_AM | Cat_A1 | Cat_A2 | Cat_B1
  | Cat_C1 | Cat_D1 | Cat_C1E | Cat_D1E

text \<open>\<^verbatim>\<open>AsRefStr\<close> and \<^verbatim>\<open>EnumString\<close> of the package \<^verbatim>\<open>strum\<close> are derived from the variant names.\<close>

primrec VehicleCategoryCode_as_ref :: "VehicleCategoryCode \<Rightarrow> string" where
  "VehicleCategoryCode_as_ref Cat_A = ''A''"
| "VehicleCategoryCode_as_ref Cat_B = ''B''"
| "VehicleCategoryCode_as_ref Cat_C = ''C''"
| "VehicleCategoryCode_as_ref Cat_D = ''D''"
| "VehicleCategoryCode_as_ref Cat_BE = ''BE''"
| "VehicleCategoryCode_as_ref Cat_CE = ''CE''"
| "VehicleCategoryCode_as_ref Cat_DE = ''DE''"
| "VehicleCategoryCode_as_ref Cat_AM = ''AM''"
| "VehicleCategoryCode_as_ref Cat_A1 = ''A1''"
| "VehicleCategoryCode_as_ref Cat_A2 = ''A2''"
| "VehicleCategoryCode_as_ref Cat_B1 = ''B1''"
| "VehicleCategoryCode_as_ref Cat_C1 = ''C1''"
| "VehicleCategoryCode_as_ref Cat_D1 = ''D1''"
| "VehicleCategoryCode_as_ref Cat_C1E = ''C1E''"
| "VehicleCategoryCode_as_ref Cat_D1E = ''D1E''"

definition vehicle_arms :: "(string \<times> VehicleCategoryCode) list" where
  "vehicle_arms = map (\<lambda>c. (VehicleCategoryCode_as_ref c, c))
     [Cat_A, Cat_B, Cat_C, Cat_D, Cat_BE, Cat_CE, Cat_DE, Cat_AM, Cat_A1, Cat_A2, Cat_B1, Cat_C1,
      Cat_D1, Cat_C1E, Cat_D1E]"

definition VehicleCategoryCode_from_json :: "Json \<Rightarrow> FromJsonError + VehicleCategoryCode" where
  "VehicleCategoryCode_from_json v =
     and_then (String_from_json v)
       (\<lambda>s. ok_or (map_of vehicle_arms (to_uppercase s)) (Parsing Any_VariantNotFound))"

record Code =
  code_code :: string
  code_sign :: "string option"
  code_value :: "string option"

definition Code_from_json :: "Json \<Rightarrow> FromJsonError + Code" where
  "Code_from_json v =
     and_then (as_object v) (\<lambda>m.
       let code = from_json_opt String_from_json (bt_get m ''code'');
           sign = Option_from_json_opt String_from_json (bt_get m ''sign'');
           val = Option_from_json_opt String_from_json (bt_get m ''value'')
       in struct_result
            (field_error ''code'' code @ field_error ''sign'' sign @ field_error ''value'' val)
            \<lparr> code_code = projr code, code_sign = projr sign, code_value = projr val \<rparr>)"

definition Code_to_cbor :: "Code \<Rightarrow> Value" where
  "Code_to_cbor c = ns_map_to_cbor (ns_map
     [ns_field ''code'' (VText (code_code c)), ns_opt_field ''sign'' VText (code_sign c),
      ns_opt_field ''value'' VText (code_value c)])"

type_synonym Codes = "Code list"

definition Codes_from_json :: "Json \<Rightarrow> FromJsonError + Codes" where
  "Codes_from_json v = NonEmptyVec_from_json Code_from_json v"

definition Codes_into :: "Codes \<Rightarrow> Value" where
  "Codes_into c = VArray (map Code_to_cbor c)"

record DrivingPrivilege =
  dp_vehicle_category_code :: VehicleCategoryCode
  dp_issue_date :: "Date option"
  dp_expiry_date :: "Date option"
  dp_codes :: "Codes option"

definition DrivingPrivilege_from_json :: "'dt date_ops \<Rightarrow> Json \<Rightarrow> FromJsonError + DrivingPrivilege" where
  "DrivingPrivilege_from_json T v =
     and_then (as_object v) (\<lambda>m.
       let category = from_json_opt VehicleCategoryCode_from_json (bt_get m ''vehicle_category_code'');
           issue = Option_from_json_opt (FullDate_from_json T) (bt_get m ''issue_date'');
           expiry = Option_from_json_opt (FullDate_from_json T) (bt_get m ''expiry_date'');
           codes = Option_from_json_opt Codes_from_json (bt_get m ''codes'')
       in struct_result
            (field_error ''vehicle_category_code'' category @ field_error ''issue_date'' issue @
             field_error ''expiry_date'' expiry @ field_error ''codes'' codes)
            \<lparr> dp_vehicle_category_code = projr category, dp_issue_date = projr issue,
              dp_expiry_date = projr expiry, dp_codes = projr codes \<rparr>)"

definition DrivingPrivilege_to_cbor :: "DrivingPrivilege \<Rightarrow> Value" where
  "DrivingPrivilege_to_cbor p = ns_map_to_cbor (ns_map
     [ns_field ''vehicle_category_code'' (VText (VehicleCategoryCode_as_ref (dp_vehicle_category_code p))),
      ns_opt_field ''issue_date'' FullDate_into (dp_issue_date p),
      ns_opt_field ''expiry_date'' FullDate_into (dp_expiry_date p),
      ns_opt_field ''codes'' Codes_into (dp_codes p)])"

type_synonym DrivingPrivileges = "DrivingPrivilege list"

definition DrivingPrivileges_from_json :: "'dt date_ops \<Rightarrow> Json \<Rightarrow> FromJsonError + DrivingPrivileges" where
  "DrivingPrivileges_from_json T v = Vec_from_json (DrivingPrivilege_from_json T) v"

definition DrivingPrivileges_into :: "DrivingPrivileges \<Rightarrow> Value" where
  "DrivingPrivileges_into d = VArray (map DrivingPrivilege_to_cbor d)"

section \<open>issuing_jurisdiction.rs\<close>

definition IssuingJurisdiction_new :: "string \<Rightarrow> Alpha2 \<Rightarrow> jurisdiction_error + string" where
  "IssuingJurisdiction_new issuing_jurisdiction issuing_country =
     (if \<not> starts_with issuing_jurisdiction (Alpha2_as_str issuing_country)
      then Inl CountryMismatch else Inr issuing_jurisdiction)"

definition IssuingJurisdiction_from_map :: "(string, Json) btree_map \<Rightarrow> FromJsonError + string" where
  "IssuingJurisdiction_from_map m =
     and_then (and_then (ok_or (bt_get m ''issuing_jurisdiction'') Missing) String_from_json) (\<lambda>jurisdiction.
     and_then (and_then (ok_or (bt_get m ''issuing_country'') Missing) Alpha2_from_json) (\<lambda>country.
       map_err (Parsing \<circ> Any_Jurisdiction) (IssuingJurisdiction_new jurisdiction country)))"

definition IssuingJurisdiction_into :: "string \<Rightarrow> Value" where
  "IssuingJurisdiction_into i = VText i"

section \<open>Tables\<close>

interpretation eye_colour: code_table EyeColour_to_str eye_colour_arms
proof
  show "(EyeColour_to_str c, c) \<in> set eye_colour_arms" for c
    by (cases c) (simp_all add: eye_colour_arms_def)
qed (auto simp: eye_colour_arms_def)

interpretation hair_colour: code_table HairColour_to_str hair_colour_arms
proof
  show "(HairColour_to_str c, c) \<in> set hair_colour_arms" for c
    by (cases c) (simp_all add: hair_colour_arms_def)
qed (auto simp: hair_colour_arms_def)

interpretation vehicle: code_table VehicleCategoryCode_as_ref vehicle_arms
proof
  show "(VehicleCategoryCode_as_ref c, c) \<in> set vehicle_arms" for c
    by (cases c) (simp_all add: vehicle_arms_def)
qed (auto simp: vehicle_arms_def)

text \<open>Colours are recognised whatever their case, and only the ten of each list.\<close>

lemma EyeColour_from_str_Inr [result_simps]:
  "EyeColour_from_str s = Inr c \<longleftrightarrow> to_lowercase s = EyeColour_to_str c"
  by (simp add: EyeColour_from_str_def result_simps eye_colour.lookup_Some)

lemma HairColour_from_str_Inr [result_simps]:
  "HairColour_from_str s = Inr c \<longleftrightarrow> to_lowercase s = HairColour_to_str c"
  by (simp add: HairColour_from_str_def result_simps hair_colour.lookup_Some)

lemma VehicleCategoryCode_from_json_Inr [result_simps]:
  "VehicleCategoryCode_from_json v = Inr c \<longleftrightarrow>
     (\<exists>s. v = JString s \<and> to_uppercase s = VehicleCategoryCode_as_ref c)"
  by (auto simp: VehicleCategoryCode_from_json_def result_simps vehicle.lookup_Some)

lemma Sex_try_from_Inr [result_simps]: "Sex_try_from u = Inr s \<longleftrightarrow> u = ucast (u8_from_Sex s)"
  by (cases s) (auto simp: Sex_try_from_def)

lemma Sex_from_json_Inr [result_simps]:
  "Sex_from_json v = Inr s \<longleftrightarrow> v = JNumber (uint (u8_from_Sex s))"
  by (cases s) (auto simp: Sex_from_json_def result_simps)

section \<open>Ages\<close>

lemma char_of_48: "char_of (48 :: nat) = CHR ''0''"
  by code_simp

lemma show_nat_two_digits:
  "n < 100 \<Longrightarrow> pad_zero 2 (show_nat n) = [char_of (48 + n div 10), char_of (48 + n mod 10)]"
  by (subst show_nat.simps) (auto simp: pad_zero_def numeral_2_eq_2 char_of_48)

lemma is_digit_char_of: "m < 10 \<Longrightarrow> is_digit (char_of (48 + m :: nat))"
  by (simp add: is_digit_def less_eq_char_def)

text \<open>Exactly the ages below 100 are represented.\<close>

lemma Age_try_from_eq:
  "Age_try_from u =
     (if unat u < 100 then Inr (Age (char_of (48 + unat u div 10)) (char_of (48 + unat u mod 10)))
      else Inl (TooLarge u))"
proof (cases "unat u < 100")
  case True
  then show ?thesis by (simp add: Age_try_from_def show_nat_two_digits is_digit_char_of)
next
  case False
  then have "\<not> length (show_nat (unat u)) \<le> 2" using length_show_nat [of 2 "unat u"] by simp
  then obtain c d e s where "pad_zero 2 (show_nat (unat u)) = c # d # e # s"
    by (cases "show_nat (unat u)" rule: to_age.cases; cases "drop 2 (show_nat (unat u))")
      (auto simp: pad_zero_id)
  then show ?thesis using False by (simp add: Age_try_from_def)
qed

text \<open>The derived order on the two digits is the order of the numbers.\<close>

lemma Age_try_from_less:
  assumes "Age_try_from u = Inr a" "Age_try_from v = Inr b"
  shows "a < b \<longleftrightarrow> u < v"
proof -
  let ?m = "unat u" and ?n = "unat v"
  have "?m < 100" "?n < 100" and
    a: "a = Age (char_of (48 + ?m div 10)) (char_of (48 + ?m mod 10))" and
    b: "b = Age (char_of (48 + ?n div 10)) (char_of (48 + ?n mod 10))"
    using assms by (auto simp: Age_try_from_eq split: if_splits)
  then have "a < b \<longleftrightarrow> ?m div 10 < ?n div 10 \<or> ?m div 10 = ?n div 10 \<and> ?m mod 10 < ?n mod 10"
    by (simp add: less_Age_def less_prod_def' less_char_def)
  also have "\<dots> \<longleftrightarrow> ?m < ?n"
    using div_mult_mod_eq [of ?m 10] div_mult_mod_eq [of ?n 10]
      mod_less_divisor [of 10 ?m] mod_less_divisor [of 10 ?n] by linarith
  finally show ?thesis by (simp add: word_less_nat_alt)
qed

lemma to_age_Some [result_simps]:
  "to_age s = Some a \<longleftrightarrow> (\<exists>x y. s = [x, y] \<and> is_digit x \<and> is_digit y \<and> a = Age x y)"
  by (cases s rule: to_age.cases) auto

definition age_key :: "Age \<Rightarrow> string" where
  "age_key a = (case a of Age x y \<Rightarrow> ''age_over_'' @ [x, y])"

lemma age_key_Age: "age_key (Age x y) = ''age_over_'' @ [x, y]"
  by (simp add: age_key_def)

lemma age_key_inj: "age_key a = age_key b \<longleftrightarrow> a = b"
  by (auto simp: age_key_def split: Age.splits)

text \<open>
  The family as a whole: the elements written are the \<^verbatim>\<open>age_over_NN\<close> entries of the object,
  under their own names and with their boolean values; every other key is ignored.
\<close>

lemma age_key_parse:
  "Option.bind (strip_prefix ''age_over_'' s) to_age = Some a \<longleftrightarrow>
     s = age_key a \<and> (\<exists>x y. a = Age x y \<and> is_digit x \<and> is_digit y)"
  by (auto simp: bind_eq_Some_conv result_simps age_key_def)

lemma AgeOver_from_map_get:
  assumes "bt_wf m" "AgeOver_from_map m = Inr a"
  shows "bt_get a k = Some b \<longleftrightarrow>
    (\<exists>x y. k = Age x y \<and> is_digit x \<and> is_digit y) \<and> bt_get m (age_key k) = Some (JBool b)"
proof -
  have "bt_get a k = Some b \<longleftrightarrow> (\<exists>s j. Option.bind (strip_prefix ''age_over_'' s) to_age = Some k \<and>
      bt_get m s = Some j \<and> bool_from_json j = Inr b)"
    using assms(2) unfolding AgeOver_from_map_def
    by (rule keyed_from_map_get [OF assms(1), rotated]) (simp add: age_key_parse)
  then show ?thesis by (auto simp: age_key_parse bool_from_json_Inr)
qed

lemma AgeOver_to_ns_map_entries:
  assumes "bt_wf a"
  shows "bt_get (AgeOver_to_ns_map a) s = Some v \<longleftrightarrow> (\<exists>k b. s = age_key k \<and> v = VBool b \<and> bt_get a k = Some b)"
proof -
  let ?xs = "map (\<lambda>(k, b). (age_key k, VBool b)) a"
  have eq: "AgeOver_to_ns_map a = bt_of_list ?xs"
    unfolding AgeOver_to_ns_map_def
    by (rule arg_cong [where f = bt_of_list]) (auto simp: age_key_def split: Age.split)
  have "map fst ?xs = map age_key (map fst a)" by (simp add: case_prod_unfold)
  moreover have "inj age_key" by (simp add: inj_def age_key_inj)
  ultimately have dist: "distinct (map fst ?xs)"
    using btm.items_distinct [OF assms] by (simp only: distinct_map) (auto intro: inj_on_subset)
  have "bt_get (AgeOver_to_ns_map a) s = Some v \<longleftrightarrow> (s, v) \<in> set ?xs"
    unfolding eq bt_get_of_list_distinct [OF dist] map_of_eq_Some_iff [OF dist] ..
  also have "\<dots> \<longleftrightarrow> (\<exists>k b. s = age_key k \<and> v = VBool b \<and> (k, b) \<in> set a)" by auto
  finally show ?thesis unfolding bt_mem_iff [OF assms] .
qed

lemma AgeOver_elements:
  assumes "bt_wf m" "AgeOver_from_map m = Inr a"
  shows "bt_get (AgeOver_to_ns_map a) s = Some v \<longleftrightarrow>
    (\<exists>x y b. s = ''age_over_'' @ [x, y] \<and> is_digit x \<and> is_digit y \<and> v = VBool b \<and>
       bt_get m s = Some (JBool b))"
proof -
  have "bt_wf a" using assms(2) keyed_from_map_wf by (auto simp: AgeOver_from_map_def)
  then show ?thesis
    unfolding AgeOver_to_ns_map_entries [OF \<open>bt_wf a\<close>] AgeOver_from_map_get [OF assms] age_key_Age [symmetric]
    by blast
qed

section \<open>Templates, codes and jurisdiction\<close>

lemma BiometricTemplate_from_map_get:
  assumes "bt_wf m" "BiometricTemplate_from_map dec m = Inr b"
  shows "bt_get b k = Some x \<longleftrightarrow>
    (\<exists>s. bt_get m (''biometric_template_'' @ k) = Some (JString s) \<and> dec s = Some x)"
proof -
  have "bt_get b k = Some x \<longleftrightarrow> (\<exists>s j. strip_prefix ''biometric_template_'' s = Some k \<and>
      bt_get m s = Some j \<and> ByteStr_from_json dec j = Inr x)"
    using assms(2) unfolding BiometricTemplate_from_map_def
    by (rule keyed_from_map_get [OF assms(1), rotated]) (simp add: strip_prefix_Some)
  then show ?thesis by (auto simp: strip_prefix_Some ByteStr_from_json_def result_simps)
qed

text \<open>The codes of a privilege are never an empty array.\<close>

lemma Codes_from_json_not_Nil: "Codes_from_json v = Inr c \<Longrightarrow> c \<noteq> []"
  by (auto simp: Codes_from_json_def NonEmptyVec_from_json_def result_simps)

text \<open>An accepted jurisdiction begins with the two characters of the issuing country.\<close>

lemma IssuingJurisdiction_from_map_Inr:
  "IssuingJurisdiction_from_map m = Inr i \<longleftrightarrow>
     (\<exists>c. bt_get m ''issuing_jurisdiction'' = Some (JString i) \<and>
        bt_get m ''issuing_country'' = Some (JString (Alpha2_as_str c)) \<and>
        starts_with i (Alpha2_as_str c))"
  by (auto simp: IssuingJurisdiction_from_map_def IssuingJurisdiction_new_def result_simps)

section \<open>Properties\<close>

text \<open>C37. From an accepted object the age elements issued are exactly the keys \<^verbatim>\<open>age_over_\<close> and two
  digits, each under its own name and with its boolean value; every other key is ignored. The object
  is refused exactly when the value of such a key is not a boolean, and the order the ages are
  kept in is that of the numbers.
\<close>

theorem age_elements_exact:
  assumes m: "bt_wf m"
  shows "(AgeOver_from_map m = Inr a \<longrightarrow>
      (bt_get (AgeOver_to_ns_map a) s = Some v \<longleftrightarrow>
        (\<exists>x y b. s = ''age_over_'' @ [x, y] \<and> is_digit x \<and> is_digit y \<and> v = VBool b \<and>
           bt_get m s = Some (JBool b)))) \<and>
    ((\<exists>e. AgeOver_from_map m = Inl e) \<longleftrightarrow>
      (\<exists>x y j. is_digit x \<and> is_digit y \<and> bt_get m (''age_over_'' @ [x, y]) = Some j \<and> (\<forall>b. j \<noteq> JBool b))) \<and>
    (Age_try_from i = Inr k \<and> Age_try_from j = Inr l \<longrightarrow> (k < l \<longleftrightarrow> i < j))"
proof (intro conjI impI)
  show "bt_get (AgeOver_to_ns_map a) s = Some v \<longleftrightarrow>
      (\<exists>x y b. s = ''age_over_'' @ [x, y] \<and> is_digit x \<and> is_digit y \<and> v = VBool b \<and> bt_get m s = Some (JBool b))"
    if "AgeOver_from_map m = Inr a" using AgeOver_elements [OF m that] .
  show "k < l \<longleftrightarrow> i < j" if "Age_try_from i = Inr k \<and> Age_try_from j = Inr l"
    using that Age_try_from_less by blast
  have "(\<exists>a. AgeOver_from_map m = Inr a) \<longleftrightarrow>
      (\<forall>x y j. is_digit x \<and> is_digit y \<and> bt_get m (''age_over_'' @ [x, y]) = Some j \<longrightarrow> (\<exists>b. j = JBool b))"
    unfolding AgeOver_from_map_def keyed_from_map_accepts [OF m] not_None_eq age_key_parse
      bool_from_json_Inr age_key_Age [symmetric] by blast
  moreover have "(\<exists>e. r = Inl e) \<longleftrightarrow> \<not> (\<exists>a. r = Inr a)" for r :: "FromJsonError + AgeOver"
    by (cases r) auto
  ultimately show "(\<exists>e. AgeOver_from_map m = Inl e) \<longleftrightarrow>
      (\<exists>x y j. is_digit x \<and> is_digit y \<and> bt_get m (''age_over_'' @ [x, y]) = Some j \<and> (\<forall>b. j \<noteq> JBool b))"
    by blast
qed

definition sample_ages :: "(string, Json) btree_map" where
  "sample_ages = [(''age_over_18'', JBool True), (''age_over_5'', JBool False), (''name'', JNull)]"

theorem age_elements_exact_witness:
  "\<exists>a. AgeOver_from_map sample_ages = Inr a \<and>
     bt_get (AgeOver_to_ns_map a) ''age_over_18'' = Some (VBool True) \<and>
     bt_get (AgeOver_to_ns_map a) ''age_over_5'' \<noteq> Some (VBool False)"
proof -
  have wf: "bt_wf sample_ages" by (simp add: bt_wf_def sample_ages_def less_char_def)
  obtain a where a: "AgeOver_from_map sample_ages = Inr a"
    by (simp add: AgeOver_from_map_def keyed_from_map_def keyed_entries_def List.map_filter_def
        sample_ages_def strip_prefix_def is_digit_def less_eq_char_def)
  have digits: "is_digit (CHR ''1'')" "is_digit (CHR ''8'')" by (simp_all add: is_digit_def less_eq_char_def)
  have get: "bt_get sample_ages ''age_over_18'' = Some (JBool True)" by (simp add: sample_ages_def bt_get_def)
  show ?thesis
    using age_elements_exact [OF wf, of a "''age_over_18''" "VBool True"]
      age_elements_exact [OF wf, of a "''age_over_5''" "VBool False"] a digits get
    by auto
qed

end
