(* ===== verification/Un_Sign.thy ===== *)
theory Un_Sign
  imports Code_Table
begin

text \<open>
  United Nations distinguishing signs
  (\<^verbatim>\<open>namespaces/org_iso_18013_5_1/un_distinguishing_sign.rs\<close>). The 181 variants without payload
  are the type \<open>UN_code\<close>, split by initial letter; the last variant carries any other string.
\<close>

section \<open>The signs\<close>

datatype UN_A =
    Sign_A | Sign_AFG | Sign_AL | Sign_AM | Sign_AND | Sign_AUS | Sign_AZ

datatype UN_B =
    Sign_B | Sign_BD | Sign_BDS | Sign_BF | Sign_BG | Sign_BH | Sign_BIH | Sign_BOL | Sign_BR |
    Sign_BRN | Sign_BRU | Sign_BS | Sign_BUR | Sign_BVI | Sign_BW | Sign_BY

datatype UN_C =
    Sign_CAM | Sign_CDN | Sign_CH | Sign_CI | Sign_CL | Sign_CO | Sign_CR | Sign_CU | Sign_CY |
    Sign_CZ

datatype UN_D =
    Sign_D | Sign_DK | Sign_DOM | Sign_DY | Sign_DZ

datatype UN_E =
    Sign_E | Sign_EAK | Sign_EAT | Sign_EAU | Sign_EAZ | Sign_EC | Sign_ER | Sign_ES |
    Sign_EST | Sign_ET | Sign_ETH

datatype UN_F =
    Sign_F | Sign_FIN | Sign_FJI | Sign_FL | Sign_FO

datatype UN_G =
    Sign_G | Sign_GB | Sign_GBA | Sign_GBG | Sign_GBJ | Sign_GBM | Sign_GBZ | Sign_GCA |
    Sign_GE | Sign_GH | Sign_GR | Sign_GUY

datatype UN_H =
    Sign_H | Sign_HKJ | Sign_HR

datatype UN_I =
    Sign_I | Sign_IL | Sign_IND | Sign_IR | Sign_IRL | Sign_IRQ | Sign_IS

datatype UN_J =
    Sign_J | Sign_JA

datatype UN_K =
    Sign_K | Sign_KG | Sign_KWT | Sign_KZ

datatype UN_L =
    Sign_L | Sign_LAO | Sign_LAR | Sign_LB | Sign_LS | Sign_LT | Sign_LV

datatype UN_M =
    Sign_M | Sign_MA | Sign_MAL | Sign_MC | Sign_MD | Sign_MEX | Sign_MGL | Sign_MK |
    Sign_MNE | Sign_MOC | Sign_MS | Sign_MW

datatype UN_N =
    Sign_N | Sign_NA | Sign_NAM | Sign_NAU | Sign_NEP | Sign_NIC | Sign_NL | Sign_NZ

datatype UN_P =
    Sign_P | Sign_PA | Sign_PE | Sign_PK | Sign_PL | Sign_PNG | Sign_PY

datatype UN_Q =
    Sign_Q

datatype UN_R =
    Sign_RA | Sign_RC | Sign_RCA | Sign_RCB | Sign_RCH | Sign_RG | Sign_RH | Sign_RI |
    Sign_RIM | Sign_RL | Sign_RM | Sign_RMM | Sign_RN | Sign_RNR | Sign_RO | Sign_ROK |
    Sign_ROU | Sign_RP | Sign_RSM | Sign_RU | Sign_RUS | Sign_RWA

datatype UN_S =
    Sign_S | Sign_SA | Sign_SD | Sign_SGP | Sign_SK | Sign_SLO | Sign_SME | Sign_SN | Sign_SO |
    Sign_SRB | Sign_SUD | Sign_SY | Sign_SYR

datatype UN_T =
    Sign_T | Sign_TCH | Sign_TD | Sign_TG | Sign_TJ | Sign_TM | Sign_TN | Sign_TR | Sign_TT |
    Sign_TZA

datatype UN_U =
    Sign_UA | Sign_UAE | Sign_USA | Sign_UZ

datatype UN_V =
    Sign_V | Sign_VN

datatype UN_W =
    Sign_WAG | Sign_WAL | Sign_WAN | Sign_WD | Sign_WG | Sign_WL | Sign_WS | Sign_WV

datatype UN_Y =
    Sign_YAR | Sign_YV

datatype UN_Z =
    Sign_ZA | Sign_ZRE | Sign_ZW

datatype UN_code =
    UN_of_A UN_A | UN_of_B UN_B | UN_of_C UN_C | UN_of_D UN_D | UN_of_E UN_E | UN_of_F UN_F |
    UN_of_G UN_G | UN_of_H UN_H | UN_of_I UN_I | UN_of_J UN_J | UN_of_K UN_K | UN_of_L UN_L |
    UN_of_M UN_M | UN_of_N UN_N | UN_of_P UN_P | UN_of_Q UN_Q | UN_of_R UN_R | UN_of_S UN_S |
    UN_of_T UN_T | UN_of_U UN_U | UN_of_V UN_V | UN_of_W UN_W | UN_of_Y UN_Y | UN_of_Z UN_Z

datatype UNDistinguishingSign = Sign UN_code | NoneApplicable string

section \<open>Writing a sign\<close>

primrec UN_as_str_A :: "UN_A \<Rightarrow> string" where
  "UN_as_str_A Sign_A = ''A''"
| "UN_as_str_A Sign_AFG = ''AFG''"
| "UN_as_str_A Sign_AL = ''AL''"
| "UN_as_str_A Sign_AM = ''AM''"
| "UN_as_str_A Sign_AND = ''AND''"
| "UN_as_str_A Sign_AUS = ''AUS''"
| "UN_as_str_A Sign_AZ = ''AZ''"

primrec UN_as_str_B :: "UN_B \<Rightarrow> string" where
  "UN_as_str_B Sign_B = ''B''"
| "UN_as_str_B Sign_BD = ''BD''"
| "UN_as_str_B Sign_BDS = ''BDS''"
| "UN_as_str_B Sign_BF = ''BF''"
| "UN_as_str_B Sign_BG = ''BG''"
| "UN_as_str_B Sign_BH = ''BH''"
| "UN_as_str_B Sign_BIH = ''BIH''"
| "UN_as_str_B Sign_BOL = ''BOL''"
| "UN_as_str_B Sign_BR = ''BR''"
| "UN_as_str_B Sign_BRN = ''BRN''"
| "UN_as_str_B Sign_BRU = ''BRU''"
| "UN_as_str_B Sign_BS = ''BS''"
| "UN_as_str_B Sign_BUR = ''BUR''"
| "UN_as_str_B Sign_BVI = ''BVI''"
| "UN_as_str_B Sign_BW = ''BW''"
| "UN_as_str_B Sign_BY = ''BY''"

primrec UN_as_str_C :: "UN_C \<Rightarrow> string" where
  "UN_as_str_C Sign_CAM = ''CAM''"
| "UN_as_str_C Sign_CDN = ''CDN''"
| "UN_as_str_C Sign_CH = ''CH''"
| "UN_as_str_C Sign_CI = ''CI''"
| "UN_as_str_C Sign_CL = ''CL''"
| "UN_as_str_C Sign_CO = ''CO''"
| "UN_as_str_C Sign_CR = ''CR''"
| "UN_as_str_C Sign_CU = ''CU''"
| "UN_as_str_C Sign_CY = ''CY''"
| "UN_as_str_C Sign_CZ = ''CZ''"

primrec UN_as_str_D :: "UN_D \<Rightarrow> string" where
  "UN_as_str_D Sign_D = ''D''"
| "UN_as_str_D Sign_DK = ''DK''"
| "UN_as_str_D Sign_DOM = ''DOM''"
| "UN_as_str_D Sign_DY = ''DY''"
| "UN_as_str_D Sign_DZ = ''DZ''"

primrec UN_as_str_E :: "UN_E \<Rightarrow> string" where
  "UN_as_str_E Sign_E = ''E''"
| "UN_as_str_E Sign_EAK = ''EAK''"
| "UN_as_str_E Sign_EAT = ''EAT''"
| "UN_as_str_E Sign_EAU = ''EAU''"
| "UN_as_str_E Sign_EAZ = ''EAZ''"
| "UN_as_str_E Sign_EC = ''EC''"
| "UN_as_str_E Sign_ER = ''ER''"
| "UN_as_str_E Sign_ES = ''ES''"
| "UN_as_str_E Sign_EST = ''EST''"
| "UN_as_str_E Sign_ET = ''ET''"
| "UN_as_str_E Sign_ETH = ''ETH''"

primrec UN_as_str_F :: "UN_F \<Rightarrow> string" where
  "UN_as_str_F Sign_F = ''F''"
| "UN_as_str_F Sign_FIN = ''FIN''"
| "UN_as_str_F Sign_FJI = ''FJI''"
| "UN_as_str_F Sign_FL = ''FL''"
| "UN_as_str_F Sign_FO = ''FO''"

primrec UN_as_str_G :: "UN_G \<Rightarrow> string" where
  "UN_as_str_G Sign_G = ''G''"
| "UN_as_str_G Sign_GB = ''GB''"
| "UN_as_str_G Sign_GBA = ''GBA''"
| "UN_as_str_G Sign_GBG = ''GBG''"
| "UN_as_str_G Sign_GBJ = ''GBJ''"
| "UN_as_str_G Sign_GBM = ''GBM''"
| "UN_as_str_G Sign_GBZ = ''GBZ''"
| "UN_as_str_G Sign_GCA = ''GCA''"
| "UN_as_str_G Sign_GE = ''GE''"
| "UN_as_str_G Sign_GH = ''GH''"
| "UN_as_str_G Sign_GR = ''GR''"
| "UN_as_str_G Sign_GUY = ''GUY''"

primrec UN_as_str_H :: "UN_H \<Rightarrow> string" where
  "UN_as_str_H Sign_H = ''H''"
| "UN_as_str_H Sign_HKJ = ''HKJ''"
| "UN_as_str_H Sign_HR = ''HR''"

primrec UN_as_str_I :: "UN_I \<Rightarrow> string" where
  "UN_as_str_I Sign_I = ''I''"
| "UN_as_str_I Sign_IL = ''IL''"
| "UN_as_str_I Sign_IND = ''IND''"
| "UN_as_str_I Sign_IR = ''IR''"
| "UN_as_str_I Sign_IRL = ''IRL''"
| "UN_as_str_I Sign_IRQ = ''IRQ''"
| "UN_as_str_I Sign_IS = ''IS''"

primrec UN_as_str_J :: "UN_J \<Rightarrow> string" where
  "UN_as_str_J Sign_J = ''J''"
| "UN_as_str_J Sign_JA = ''JA''"

primrec UN_as_str_K :: "UN_K \<Rightarrow> string" where
  "UN_as_str_K Sign_K = ''K''"
| "UN_as_str_K Sign_KG = ''KG''"
| "UN_as_str_K Sign_KWT = ''KWT''"
| "UN_as_str_K Sign_KZ = ''KZ''"

primrec UN_as_str_L :: "UN_L \<Rightarrow> string" where
  "UN_as_str_L Sign_L = ''L''"
| "UN_as_str_L Sign_LAO = ''LAO''"
| "UN_as_str_L Sign_LAR = ''LAR''"
| "UN_as_str_L Sign_LB = ''LB''"
| "UN_as_str_L Sign_LS = ''LS''"
| "UN_as_str_L Sign_LT = ''LT''"
| "UN_as_str_L Sign_LV = ''LV''"

primrec UN_as_str_M :: "UN_M \<Rightarrow> string" where
  "UN_as_str_M Sign_M = ''M''"
| "UN_as_str_M Sign_MA = ''MA''"
| "UN_as_str_M Sign_MAL = ''MAL''"
| "UN_as_str_M Sign_MC = ''MC''"
| "UN_as_str_M Sign_MD = ''MD''"
| "UN_as_str_M Sign_MEX = ''MEX''"
| "UN_as_str_M Sign_MGL = ''MGL''"
| "UN_as_str_M Sign_MK = ''MK''"
| "UN_as_str_M Sign_MNE = ''MNE''"
| "UN_as_str_M Sign_MOC = ''MOC''"
| "UN_as_str_M Sign_MS = ''MS''"
| "UN_as_str_M Sign_MW = ''MW''"

primrec UN_as_str_N :: "UN_N \<Rightarrow> string" where
  "UN_as_str_N Sign_N = ''N''"
| "UN_as_str_N Sign_NA = ''NA''"
| "UN_as_str_N Sign_NAM = ''NAM''"
| "UN_as_str_N Sign_NAU = ''NAU''"
| "UN_as_str_N Sign_NEP = ''NEP''"
| "UN_as_str_N Sign_NIC = ''NIC''"
| "UN_as_str_N Sign_NL = ''NL''"
| "UN_as_str_N Sign_NZ = ''NZ''"

primrec UN_as_str_P :: "UN_P \<Rightarrow> string" where
  "UN_as_str_P Sign_P = ''P''"
| "UN_as_str_P Sign_PA = ''PA''"
| "UN_as_str_P Sign_PE = ''PE''"
| "UN_as_str_P Sign_PK = ''PK''"
| "UN_as_str_P Sign_PL = ''PL''"
| "UN_as_str_P Sign_PNG = ''PNG''"
| "UN_as_str_P Sign_PY = ''PY''"

primrec UN_as_str_Q :: "UN_Q \<Rightarrow> string" where
  "UN_as_str_Q Sign_Q = ''Q''"

primrec UN_as_str_R :: "UN_R \<Rightarrow> string" where
  "UN_as_str_R Sign_RA = ''RA''"
| "UN_as_str_R Sign_RC = ''RC''"
| "UN_as_str_R Sign_RCA = ''RCA''"
| "UN_as_str_R Sign_RCB = ''RCB''"
| "UN_as_str_R Sign_RCH = ''RCH''"
| "UN_as_str_R Sign_RG = ''RG''"
| "UN_as_str_R Sign_RH = ''RH''"
| "UN_as_str_R Sign_RI = ''RI''"
| "UN_as_str_R Sign_RIM = ''RIM''"
| "UN_as_str_R Sign_RL = ''RL''"
| "UN_as_str_R Sign_RM = ''RM''"
| "UN_as_str_R Sign_RMM = ''RMM''"
| "UN_as_str_R Sign_RN = ''RN''"
| "UN_as_str_R Sign_RNR = ''RNR''"
| "UN_as_str_R Sign_RO = ''RO''"
| "UN_as_str_R Sign_ROK = ''ROK''"
| "UN_as_str_R Sign_ROU = ''ROU''"
| "UN_as_str_R Sign_RP = ''RP''"
| "UN_as_str_R Sign_RSM = ''RSM''"
| "UN_as_str_R Sign_RU = ''RU''"
| "UN_as_str_R Sign_RUS = ''RUS''"
| "UN_as_str_R Sign_RWA = ''RWA''"

primrec UN_as_str_S :: "UN_S \<Rightarrow> string" where
  "UN_as_str_S Sign_S = ''S''"
| "UN_as_str_S Sign_SA = ''SA''"
| "UN_as_str_S Sign_SD = ''SD''"
| "UN_as_str_S Sign_SGP = ''SGP''"
| "UN_as_str_S Sign_SK = ''SK''"
| "UN_as_str_S Sign_SLO = ''SLO''"
| "UN_as_str_S Sign_SME = ''SME''"
| "UN_as_str_S Sign_SN = ''SN''"
| "UN_as_str_S Sign_SO = ''SO''"
| "UN_as_str_S Sign_SRB = ''SRB''"
| "UN_as_str_S Sign_SUD = ''SUD''"
| "UN_as_str_S Sign_SY = ''SY''"
| "UN_as_str_S Sign_SYR = ''SYR''"

primrec UN_as_str_T :: "UN_T \<Rightarrow> string" where
  "UN_as_str_T Sign_T = ''T''"
| "UN_as_str_T Sign_TCH = ''TCH''"
| "UN_as_str_T Sign_TD = ''TD''"
| "UN_as_str_T Sign_TG = ''TG''"
| "UN_as_str_T Sign_TJ = ''TJ''"
| "UN_as_str_T Sign_TM = ''TM''"
| "UN_as_str_T Sign_TN = ''TN''"
| "UN_as_str_T Sign_TR = ''TR''"
| "UN_as_str_T Sign_TT = ''TT''"
| "UN_as_str_T Sign_TZA = ''TZA''"

primrec UN_as_str_U :: "UN_U \<Rightarrow> string" where
  "UN_as_str_U Sign_UA = ''UA''"
| "UN_as_str_U Sign_UAE = ''UAE''"
| "UN_as_str_U Sign_USA = ''USA''"
| "UN_as_str_U Sign_UZ = ''UZ''"

primrec UN_as_str_V :: "UN_V \<Rightarrow> string" where
  "UN_as_str_V Sign_V = ''V''"
| "UN_as_str_V Sign_VN = ''VN''"

primrec UN_as_str_W :: "UN_W \<Rightarrow> string" where
  "UN_as_str_W Sign_WAG = ''WAG''"
| "UN_as_str_W Sign_WAL = ''WAL''"
| "UN_as_str_W Sign_WAN = ''WAN''"
| "UN_as_str_W Sign_WD = ''WD''"
| "UN_as_str_W Sign_WG = ''WG''"
| "UN_as_str_W Sign_WL = ''WL''"
| "UN_as_str_W Sign_WS = ''WS''"
| "UN_as_str_W Sign_WV = ''WV''"

primrec UN_as_str_Y :: "UN_Y \<Rightarrow> string" where
  "UN_as_str_Y Sign_YAR = ''YAR''"
| "UN_as_str_Y Sign_YV = ''YV''"

primrec UN_as_str_Z :: "UN_Z \<Rightarrow> string" where
  "UN_as_str_Z Sign_ZA = ''ZA''"
| "UN_as_str_Z Sign_ZRE = ''ZRE''"
| "UN_as_str_Z Sign_ZW = ''ZW''"

primrec UN_as_str :: "UN_code \<Rightarrow> string" where
  "UN_as_str (UN_of_A c) = UN_as_str_A c"
| "UN_as_str (UN_of_B c) = UN_as_str_B c"
| "UN_as_str (UN_of_C c) = UN_as_str_C c"
| "UN_as_str (UN_of_D c) = UN_as_str_D c"
| "UN_as_str (UN_of_E c) = UN_as_str_E c"
| "UN_as_str (UN_of_F c) = UN_as_str_F c"
| "UN_as_str (UN_of_G c) = UN_as_str_G c"
| "UN_as_str (UN_of_H c) = UN_as_str_H c"
| "UN_as_str (UN_of_I c) = UN_as_str_I c"
| "UN_as_str (UN_of_J c) = UN_as_str_J c"
| "UN_as_str (UN_of_K c) = UN_as_str_K c"
| "UN_as_str (UN_of_L c) = UN_as_str_L c"
| "UN_as_str (UN_of_M c) = UN_as_str_M c"
| "UN_as_str (UN_of_N c) = UN_as_str_N c"
| "UN_as_str (UN_of_P c) = UN_as_str_P c"
| "UN_as_str (UN_of_Q c) = UN_as_str_Q c"
| "UN_as_str (UN_of_R c) = UN_as_str_R c"
| "UN_as_str (UN_of_S c) = UN_as_str_S c"
| "UN_as_str (UN_of_T c) = UN_as_str_T c"
| "UN_as_str (UN_of_U c) = UN_as_str_U c"
| "UN_as_str (UN_of_V c) = UN_as_str_V c"
| "UN_as_str (UN_of_W c) = UN_as_str_W c"
| "UN_as_str (UN_of_Y c) = UN_as_str_Y c"
| "UN_as_str (UN_of_Z c) = UN_as_str_Z c"

fun String_from_UN :: "UNDistinguishingSign \<Rightarrow> string" where
  "String_from_UN (Sign c) = UN_as_str c"
| "String_from_UN (NoneApplicable s) = s"

definition UN_into :: "UNDistinguishingSign \<Rightarrow> Value" where
  "UN_into s = VText (String_from_UN s)"

section \<open>Reading a sign\<close>

definition un_arms_A :: "(string \<times> UN_A) list" where
  "un_arms_A =
    [(''A'', Sign_A), (''AFG'', Sign_AFG), (''AL'', Sign_AL), (''AM'', Sign_AM),
     (''AND'', Sign_AND), (''AUS'', Sign_AUS), (''AZ'', Sign_AZ)]"

definition un_arms_B :: "(string \<times> UN_B) list" where
  "un_arms_B =
    [(''B'', Sign_B), (''BD'', Sign_BD), (''BDS'', Sign_BDS), (''BF'', Sign_BF),
     (''BG'', Sign_BG), (''BH'', Sign_BH), (''BIH'', Sign_BIH), (''BOL'', Sign_BOL),
     (''BR'', Sign_BR), (''BRN'', Sign_BRN), (''BRU'', Sign_BRU), (''BS'', Sign_BS),
     (''BUR'', Sign_BUR), (''BVI'', Sign_BVI), (''BW'', Sign_BW), (''BY'', Sign_BY)]"

definition un_arms_C :: "(string \<times> UN_C) list" where
  "un_arms_C =
    [(''CAM'', Sign_CAM), (''CDN'', Sign_CDN), (''CH'', Sign_CH), (''CI'', Sign_CI),
     (''CL'', Sign_CL), (''CO'', Sign_CO), (''CR'', Sign_CR), (''CU'', Sign_CU),
     (''CY'', Sign_CY), (''CZ'', Sign_CZ)]"

definition un_arms_D :: "(string \<times> UN_D) list" where
  "un_arms_D =
    [(''D'', Sign_D), (''DK'', Sign_DK), (''DOM'', Sign_DOM), (''DY'', Sign_DY),
     (''DZ'', Sign_DZ)]"

definition un_arms_E :: "(string \<times> UN_E) list" where
  "un_arms_E =
    [(''E'', Sign_E), (''EAK'', Sign_EAK), (''EAT'', Sign_EAT), (''EAU'', Sign_EAU),
     (''EAZ'', Sign_EAZ), (''EC'', Sign_EC), (''ER'', Sign_ER), (''ES'', Sign_ES),
     (''EST'', Sign_EST), (''ET'', Sign_ET), (''ETH'', Sign_ETH)]"

definition un_arms_F :: "(string \<times> UN_F) list" where
  "un_arms_F =
    [(''F'', Sign_F), (''FIN'', Sign_FIN), (''FJI'', Sign_FJI), (''FL'', Sign_FL),
     (''FO'', Sign_FO)]"

definition un_arms_G :: "(string \<times> UN_G) list" where
  "un_arms_G =
    [(''G'', Sign_G), (''GB'', Sign_GB), (''GBA'', Sign_GBA), (''GBG'', Sign_GBG),
     (''GBJ'', Sign_GBJ), (''GBM'', Sign_GBM), (''GBZ'', Sign_GBZ), (''GCA'', Sign_GCA),
     (''GE'', Sign_GE), (''GH'', Sign_GH), (''GR'', Sign_GR), (''GUY'', Sign_GUY)]"

definition un_arms_H :: "(string \<times> UN_H) list" where
  "un_arms_H =
    [(''H'', Sign_H), (''HKJ'', Sign_HKJ), (''HR'', Sign_HR)]"

definition un_arms_I :: "(string \<times> UN_I) list" where
  "un_arms_I =
    [(''I'', Sign_I), (''IL'', Sign_IL), (''IND'', Sign_IND), (''IR'', Sign_IR),
     (''IRL'', Sign_IRL), (''IRQ'', Sign_IRQ), (''IS'', Sign_IS)]"

definition un_arms_J :: "(string \<times> UN_J) list" where
  "un_arms_J =
    [(''J'', Sign_J), (''JA'', Sign_JA)]"

definition un_arms_K :: "(string \<times> UN_K) list" where
  "un_arms_K =
    [(''K'', Sign_K), (''KG'', Sign_KG), (''KWT'', Sign_KWT), (''KZ'', Sign_KZ)]"

definition un_arms_L :: "(string \<times> UN_L) list" where
  "un_arms_L =
    [(''L'', Sign_L), (''LAO'', Sign_LAO), (''LAR'', Sign_LAR), (''LB'', Sign_LB),
     (''LS'', Sign_LS), (''LT'', Sign_LT), (''LV'', Sign_LV)]"

definition un_arms_M :: "(string \<times> UN_M) list" where
  "un_arms_M =
    [(''M'', Sign_M), (''MA'', Sign_MA), (''MAL'', Sign_MAL), (''MC'', Sign_MC),
     (''MD'', Sign_MD), (''MEX'', Sign_MEX), (''MGL'', Sign_MGL), (''MK'', Sign_MK),
     (''MNE'', Sign_MNE), (''MOC'', Sign_MOC), (''MS'', Sign_MS), (''MW'', Sign_MW)]"

definition un_arms_N :: "(string \<times> UN_N) list" where
  "un_arms_N =
    [(''N'', Sign_N), (''NA'', Sign_NA), (''NAM'', Sign_NAM), (''NAU'', Sign_NAU),
     (''NEP'', Sign_NEP), (''NIC'', Sign_NIC), (''NL'', Sign_NL), (''NZ'', Sign_NZ)]"

definition un_arms_P :: "(string \<times> UN_P) list" where
  "un_arms_P =
    [(''P'', Sign_P), (''PA'', Sign_PA), (''PE'', Sign_PE), (''PK'', Sign_PK),
     (''PL'', Sign_PL), (''PNG'', Sign_PNG), (''PY'', Sign_PY)]"

definition un_arms_Q :: "(string \<times> UN_Q) list" where
  "un_arms_Q =
    [(''Q'', Sign_Q)]"

definition un_arms_R :: "(string \<times> UN_R) list" where
  "un_arms_R =
    [(''RA'', Sign_RA), (''RC'', Sign_RC), (''RCA'', Sign_RCA), (''RCB'', Sign_RCB),
     (''RCH'', Sign_RCH), (''RG'', Sign_RG), (''RH'', Sign_RH), (''RI'', Sign_RI),
     (''RIM'', Sign_RIM), (''RL'', Sign_RL), (''RM'', Sign_RM), (''RMM'', Sign_RMM),
     (''RN'', Sign_RN), (''RNR'', Sign_RNR), (''RO'', Sign_RO), (''ROK'', Sign_ROK),
     (''ROU'', Sign_ROU), (''RP'', Sign_RP), (''RSM'', Sign_RSM), (''RU'', Sign_RU),
     (''RUS'', Sign_RUS), (''RWA'', Sign_RWA)]"

definition un_arms_S :: "(string \<times> UN_S) list" where
  "un_arms_S =
    [(''S'', Sign_S), (''SA'', Sign_SA), (''SD'', Sign_SD), (''SGP'', Sign_SGP),
     (''SK'', Sign_SK), (''SLO'', Sign_SLO), (''SME'', Sign_SME), (''SN'', Sign_SN),
     (''SO'', Sign_SO), (''SRB'', Sign_SRB), (''SUD'', Sign_SUD), (''SY'', Sign_SY),
     (''SYR'', Sign_SYR)]"

definition un_arms_T :: "(string \<times> UN_T) list" where
  "un_arms_T =
    [(''T'', Sign_T), (''TCH'', Sign_TCH), (''TD'', Sign_TD), (''TG'', Sign_TG),
     (''TJ'', Sign_TJ), (''TM'', Sign_TM), (''TN'', Sign_TN), (''TR'', Sign_TR),
     (''TT'', Sign_TT), (''TZA'', Sign_TZA)]"

definition un_arms_U :: "(string \<times> UN_U) list" where
  "un_arms_U =
    [(''UA'', Sign_UA), (''UAE'', Sign_UAE), (''USA'', Sign_USA), (''UZ'', Sign_UZ)]"

definition un_arms_V :: "(string \<times> UN_V) list" where
  "un_arms_V =
    [(''V'', Sign_V), (''VN'', Sign_VN)]"

definition un_arms_W :: "(string \<times> UN_W) list" where
  "un_arms_W =
    [(''WAG'', Sign_WAG), (''WAL'', Sign_WAL), (''WAN'', Sign_WAN), (''WD'', Sign_WD),
     (''WG'', Sign_WG), (''WL'', Sign_WL), (''WS'', Sign_WS), (''WV'', Sign_WV)]"

definition un_arms_Y :: "(string \<times> UN_Y) list" where
  "un_arms_Y =
    [(''YAR'', Sign_YAR), (''YV'', Sign_YV)]"

definition un_arms_Z :: "(string \<times> UN_Z) list" where
  "un_arms_Z =
    [(''ZA'', Sign_ZA), (''ZRE'', Sign_ZRE), (''ZW'', Sign_ZW)]"

definition un_arms :: "(string \<times> UN_code) list" where
  "un_arms =
     map (map_prod id UN_of_A) un_arms_A @
     map (map_prod id UN_of_B) un_arms_B @
     map (map_prod id UN_of_C) un_arms_C @
     map (map_prod id UN_of_D) un_arms_D @
     map (map_prod id UN_of_E) un_arms_E @
     map (map_prod id UN_of_F) un_arms_F @
     map (map_prod id UN_of_G) un_arms_G @
     map (map_prod id UN_of_H) un_arms_H @
     map (map_prod id UN_of_I) un_arms_I @
     map (map_prod id UN_of_J) un_arms_J @
     map (map_prod id UN_of_K) un_arms_K @
     map (map_prod id UN_of_L) un_arms_L @
     map (map_prod id UN_of_M) un_arms_M @
     map (map_prod id UN_of_N) un_arms_N @
     map (map_prod id UN_of_P) un_arms_P @
     map (map_prod id UN_of_Q) un_arms_Q @
     map (map_prod id UN_of_R) un_arms_R @
     map (map_prod id UN_of_S) un_arms_S @
     map (map_prod id UN_of_T) un_arms_T @
     map (map_prod id UN_of_U) un_arms_U @
     map (map_prod id UN_of_V) un_arms_V @
     map (map_prod id UN_of_W) un_arms_W @
     map (map_prod id UN_of_Y) un_arms_Y @
     map (map_prod id UN_of_Z) un_arms_Z"

definition UN_from_String :: "string \<Rightarrow> UNDistinguishingSign" where
  "UN_from_String s = (case map_of un_arms s of Some c \<Rightarrow> Sign c | None \<Rightarrow> NoneApplicable s)"

definition UN_from_json :: "Json \<Rightarrow> FromJsonError + UNDistinguishingSign" where
  "UN_from_json v = map_ok UN_from_String (String_from_json v)"

section \<open>The two tables agree\<close>

interpretation un_A: code_table UN_as_str_A un_arms_A
proof
  show "(UN_as_str_A c, c) \<in> set un_arms_A" for c by (cases c) (simp_all add: un_arms_A_def)
qed (auto simp: un_arms_A_def)

interpretation un_B: code_table UN_as_str_B un_arms_B
proof
  show "(UN_as_str_B c, c) \<in> set un_arms_B" for c by (cases c) (simp_all add: un_arms_B_def)
qed (auto simp: un_arms_B_def)

interpretation un_C: code_table UN_as_str_C un_arms_C
proof
  show "(UN_as_str_C c, c) \<in> set un_arms_C" for c by (cases c) (simp_all add: un_arms_C_def)
qed (auto simp: un_arms_C_def)

interpretation un_D: code_table UN_as_str_D un_arms_D
proof
  show "(UN_as_str_D c, c) \<in> set un_arms_D" for c by (cases c) (simp_all add: un_arms_D_def)
qed (auto simp: un_arms_D_def)

interpretation un_E: code_table UN_as_str_E un_arms_E
proof
  show "(UN_as_str_E c, c) \<in> set un_arms_E" for c by (cases c) (simp_all add: un_arms_E_def)
qed (auto simp: un_arms_E_def)

interpretation un_F: code_table UN_as_str_F un_arms_F
proof
  show "(UN_as_str_F c, c) \<in> set un_arms_F" for c by (cases c) (simp_all add: un_arms_F_def)
qed (auto simp: un_arms_F_def)

interpretation un_G: code_table UN_as_str_G un_arms_G
proof
  show "(UN_as_str_G c, c) \<in> set un_arms_G" for c by (cases c) (simp_all add: un_arms_G_def)
qed (auto simp: un_arms_G_def)

interpretation un_H: code_table UN_as_str_H un_arms_H
proof
  show "(UN_as_str_H c, c) \<in> set un_arms_H" for c by (cases c) (simp_all add: un_arms_H_def)
qed (auto simp: un_arms_H_def)

interpretation un_I: code_table UN_as_str_I un_arms_I
proof
  show "(UN_as_str_I c, c) \<in> set un_arms_I" for c by (cases c) (simp_all add: un_arms_I_def)
qed (auto simp: un_arms_I_def)

interpretation un_J: code_table UN_as_str_J un_arms_J
proof
  show "(UN_as_str_J c, c) \<in> set un_arms_J" for c by (cases c) (simp_all add: un_arms_J_def)
qed (auto simp: un_arms_J_def)

interpretation un_K: code_table UN_as_str_K un_arms_K
proof
  show "(UN_as_str_K c, c) \<in> set un_arms_K" for c by (cases c) (simp_all add: un_arms_K_def)
qed (auto simp: un_arms_K_def)

interpretation un_L: code_table UN_as_str_L un_arms_L
proof
  show "(UN_as_str_L c, c) \<in> set un_arms_L" for c by (cases c) (simp_all add: un_arms_L_def)
qed (auto simp: un_arms_L_def)

interpretation un_M: code_table UN_as_str_M un_arms_M
proof
  show "(UN_as_str_M c, c) \<in> set un_arms_M" for c by (cases c) (simp_all add: un_arms_M_def)
qed (auto simp: un_arms_M_def)

interpretation un_N: code_table UN_as_str_N un_arms_N
proof
  show "(UN_as_str_N c, c) \<in> set un_arms_N" for c by (cases c) (simp_all add: un_arms_N_def)
qed (auto simp: un_arms_N_def)

interpretation un_P: code_table UN_as_str_P un_arms_P
proof
  show "(UN_as_str_P c, c) \<in> set un_arms_P" for c by (cases c) (simp_all add: un_arms_P_def)
qed (auto simp: un_arms_P_def)

interpretation un_Q: code_table UN_as_str_Q un_arms_Q
proof
  show "(UN_as_str_Q c, c) \<in> set un_arms_Q" for c by (cases c) (simp_all add: un_arms_Q_def)
qed (auto simp: un_arms_Q_def)

interpretation un_R: code_table UN_as_str_R un_arms_R
proof
  show "(UN_as_str_R c, c) \<in> set un_arms_R" for c by (cases c) (simp_all add: un_arms_R_def)
qed (auto simp: un_arms_R_def)

interpretation un_S: code_table UN_as_str_S un_arms_S
proof
  show "(UN_as_str_S c, c) \<in> set un_arms_S" for c by (cases c) (simp_all add: un_arms_S_def)
qed (auto simp: un_arms_S_def)

interpretation un_T: code_table UN_as_str_T un_arms_T
proof
  show "(UN_as_str_T c, c) \<in> set un_arms_T" for c by (cases c) (simp_all add: un_arms_T_def)
qed (auto simp: un_arms_T_def)

interpretation un_U: code_table UN_as_str_U un_arms_U
proof
  show "(UN_as_str_U c, c) \<in> set un_arms_U" for c by (cases c) (simp_all add: un_arms_U_def)
qed (auto simp: un_arms_U_def)

interpretation un_V: code_table UN_as_str_V un_arms_V
proof
  show "(UN_as_str_V c, c) \<in> set un_arms_V" for c by (cases c) (simp_all add: un_arms_V_def)
qed (auto simp: un_arms_V_def)

interpretation un_W: code_table UN_as_str_W un_arms_W
proof
  show "(UN_as_str_W c, c) \<in> set un_arms_W" for c by (cases c) (simp_all add: un_arms_W_def)
qed (auto simp: un_arms_W_def)

interpretation un_Y: code_table UN_as_str_Y un_arms_Y
proof
  show "(UN_as_str_Y c, c) \<in> set un_arms_Y" for c by (cases c) (simp_all add: un_arms_Y_def)
qed (auto simp: un_arms_Y_def)

interpretation un_Z: code_table UN_as_str_Z un_arms_Z
proof
  show "(UN_as_str_Z c, c) \<in> set un_arms_Z" for c by (cases c) (simp_all add: un_arms_Z_def)
qed (auto simp: un_arms_Z_def)

lemmas un_arms_groups = un_arms_A_def un_arms_B_def un_arms_C_def un_arms_D_def un_arms_E_def un_arms_F_def un_arms_G_def un_arms_H_def un_arms_I_def un_arms_J_def un_arms_K_def un_arms_L_def un_arms_M_def un_arms_N_def un_arms_P_def un_arms_Q_def un_arms_R_def un_arms_S_def un_arms_T_def un_arms_U_def un_arms_V_def un_arms_W_def un_arms_Y_def un_arms_Z_def

lemma un_arms_distinct: "distinct (map fst un_arms)"
proof (rule increasing_distinct)
  show "successively (<) (map fst un_arms)"
    by (simp add: un_arms_def un_arms_groups less_char_def)
qed

lemmas un_arms_sound = un_A.arms_sound un_B.arms_sound un_C.arms_sound un_D.arms_sound un_E.arms_sound un_F.arms_sound un_G.arms_sound un_H.arms_sound un_I.arms_sound un_J.arms_sound un_K.arms_sound un_L.arms_sound un_M.arms_sound un_N.arms_sound un_P.arms_sound un_Q.arms_sound un_R.arms_sound un_S.arms_sound un_T.arms_sound un_U.arms_sound un_V.arms_sound un_W.arms_sound un_Y.arms_sound un_Z.arms_sound

lemmas un_arms_complete = un_A.arms_complete un_B.arms_complete un_C.arms_complete un_D.arms_complete un_E.arms_complete un_F.arms_complete un_G.arms_complete un_H.arms_complete un_I.arms_complete un_J.arms_complete un_K.arms_complete un_L.arms_complete un_M.arms_complete un_N.arms_complete un_P.arms_complete un_Q.arms_complete un_R.arms_complete un_S.arms_complete un_T.arms_complete un_U.arms_complete un_V.arms_complete un_W.arms_complete un_Y.arms_complete un_Z.arms_complete

interpretation un: code_table UN_as_str un_arms
proof
  show "(UN_as_str c, c) \<in> set un_arms" for c
    by (cases c) (simp_all add: un_arms_def group_arm un_arms_complete)
  show "UN_as_str c = s" if "(s, c) \<in> set un_arms" for s c
    using that by (auto simp: un_arms_def group_arm_iff dest: un_arms_sound)
qed (rule un_arms_distinct)

lemma UN_from_String_as_str: "UN_from_String (UN_as_str c) = Sign c"
  by (simp add: UN_from_String_def un.lookup_as_str)

text \<open>Reading a string and writing it back loses nothing, whether or not it is a known sign.\<close>

lemma String_from_UN_from_String: "String_from_UN (UN_from_String s) = s"
  by (auto simp: UN_from_String_def un.lookup_Some split: option.splits)

end
