(* ===== verification/Iso_Namespace.thy ===== *)
theory Iso_Namespace
  imports Iso_Elements Un_Sign
begin

text \<open>
  The struct \<^verbatim>\<open>OrgIso1801351\<close> of \<^verbatim>\<open>org_iso_18013_5_1/mod.rs\<close> with the implementations the derive
  macros generate for it: \<^verbatim>\<open>from_json\<close> converts the fields in declaration order and collects
  their errors, \<^verbatim>\<open>to_ns_map\<close> writes the namespace that is issued. The conversion of a date-time
  may panic, so the result is an option; a panic of any field ends the conversion.
\<close>

text \<open>\<^verbatim>\<open>from_json_opt\<close> for a type whose \<^verbatim>\<open>from_json\<close> may panic, and for an option of it.\<close>

definition from_json_opt_panic ::
    "(Json \<Rightarrow> (FromJsonError + 'a) option) \<Rightarrow> Json option \<Rightarrow> (FromJsonError + 'a) option" where
  "from_json_opt_panic f v = (case v of None \<Rightarrow> Some (Inl Missing) | Some j \<Rightarrow> f j)"

definition Option_from_json_opt_panic ::
    "(Json \<Rightarrow> (FromJsonError + 'a) option) \<Rightarrow> Json option \<Rightarrow> (FromJsonError + 'a option) option" where
  "Option_from_json_opt_panic f v =
     (case v of
        None \<Rightarrow> Some (Inr None)
      | Some j \<Rightarrow> if j = JNull then Some (Inr None) else map_option (map_ok Some) (f j))"

section \<open>The struct\<close>

record OrgIso1801351 =
  iso_family_name :: "string"
  iso_given_name :: "string"
  iso_birth_date :: "Date"
  iso_issue_date :: "TDateOrFullDate"
  iso_expiry_date :: "TDateOrFullDate"
  iso_issuing_country :: "Alpha2"
  iso_issuing_authority :: "string"
  iso_document_number :: "string"
  iso_portrait :: "bytes"
  iso_driving_privileges :: "DrivingPrivileges"
  iso_un_distinguishing_sign :: "UNDistinguishingSign"
  iso_administrative_number :: "string option"
  iso_sex :: "Sex option"
  iso_height :: "u32 option"
  iso_weight :: "u32 option"
  iso_eye_colour :: "EyeColour option"
  iso_hair_colour :: "HairColour option"
  iso_birth_place :: "string option"
  iso_resident_address :: "string option"
  iso_portrait_capture_date :: "string option"
  iso_age_in_years :: "u32 option"
  iso_age_birth_year :: "u32 option"
  iso_age_over_xx :: "AgeOver"
  iso_issuing_jurisdiction :: "string option"
  iso_nationality :: "Alpha2 option"
  iso_resident_city :: "string option"
  iso_resident_state :: "string option"
  iso_resident_postal_code :: "string option"
  iso_resident_country :: "Alpha2 option"
  iso_biometric_template_xx :: "BiometricTemplate"
  iso_family_name_national_character :: "string option"
  iso_given_name_national_character :: "string option"
  iso_signature_usual_mark :: "bytes option"

section \<open>Reading and writing it\<close>

definition OrgIso1801351_from_map ::
    "'dt date_ops \<Rightarrow> (string \<Rightarrow> bytes option) \<Rightarrow> (string, Json) btree_map \<Rightarrow> (FromJsonError + OrgIso1801351) option" where
  "OrgIso1801351_from_map T dec m =
     Option.bind (from_json_opt_panic (TDateOrFullDate_from_json T) (bt_get m ''issue_date'')) (\<lambda>issue_date.
     Option.bind (from_json_opt_panic (TDateOrFullDate_from_json T) (bt_get m ''expiry_date'')) (\<lambda>expiry_date.
     Option.bind (Option_from_json_opt_panic (TDate_from_json T) (bt_get m ''portrait_capture_date'')) (\<lambda>portrait_capture_date.
     let family_name = from_json_opt Latin1_from_json (bt_get m ''family_name'');
         given_name = from_json_opt Latin1_from_json (bt_get m ''given_name'');
         birth_date = from_json_opt (FullDate_from_json T) (bt_get m ''birth_date'');
         issuing_country = from_json_opt Alpha2_from_json (bt_get m ''issuing_country'');
         issuing_authority = from_json_opt Latin1_from_json (bt_get m ''issuing_authority'');
         document_number = from_json_opt Latin1_from_json (bt_get m ''document_number'');
         portrait = from_json_opt (ByteStr_from_json dec) (bt_get m ''portrait'');
         driving_privileges = from_json_opt (DrivingPrivileges_from_json T) (bt_get m ''driving_privileges'');
         un_distinguishing_sign = from_json_opt UN_from_json (bt_get m ''un_distinguishing_sign'');
         administrative_number = Option_from_json_opt Latin1_from_json (bt_get m ''administrative_number'');
         sex = Option_from_json_opt Sex_from_json (bt_get m ''sex'');
         height = Option_from_json_opt u32_from_json (bt_get m ''height'');
         weight = Option_from_json_opt u32_from_json (bt_get m ''weight'');
         eye_colour = Option_from_json_opt EyeColour_from_json (bt_get m ''eye_colour'');
         hair_colour = Option_from_json_opt HairColour_from_json (bt_get m ''hair_colour'');
         birth_place = Option_from_json_opt Latin1_from_json (bt_get m ''birth_place'');
         resident_address = Option_from_json_opt Latin1_from_json (bt_get m ''resident_address'');
         age_in_years = Option_from_json_opt u32_from_json (bt_get m ''age_in_years'');
         age_birth_year = Option_from_json_opt u32_from_json (bt_get m ''age_birth_year'');
         age_over_xx = AgeOver_from_map m;
         issuing_jurisdiction = Option_from_map IssuingJurisdiction_from_map m;
         nationality = Option_from_json_opt Alpha2_from_json (bt_get m ''nationality'');
         resident_city = Option_from_json_opt Latin1_from_json (bt_get m ''resident_city'');
         resident_state = Option_from_json_opt Latin1_from_json (bt_get m ''resident_state'');
         resident_postal_code = Option_from_json_opt Latin1_from_json (bt_get m ''resident_postal_code'');
         resident_country = Option_from_json_opt Alpha2_from_json (bt_get m ''resident_country'');
         biometric_template_xx = BiometricTemplate_from_map dec m;
         family_name_national_character = Option_from_json_opt String_from_json (bt_get m ''family_name_national_character'');
         given_name_national_character = Option_from_json_opt String_from_json (bt_get m ''given_name_national_character'');
         signature_usual_mark = Option_from_json_opt (ByteStr_from_json dec) (bt_get m ''signature_usual_mark'')
     in Some (struct_result (concat
          [field_error ''family_name'' family_name,
           field_error ''given_name'' given_name,
           field_error ''birth_date'' birth_date,
           field_error ''issue_date'' issue_date,
           field_error ''expiry_date'' expiry_date,
           field_error ''issuing_country'' issuing_country,
           field_error ''issuing_authority'' issuing_authority,
           field_error ''document_number'' document_number,
           field_error ''portrait'' portrait,
           field_error ''driving_privileges'' driving_privileges,
           field_error ''un_distinguishing_sign'' un_distinguishing_sign,
           field_error ''administrative_number'' administrative_number,
           field_error ''sex'' sex,
           field_error ''height'' height,
           field_error ''weight'' weight,
           field_error ''eye_colour'' eye_colour,
           field_error ''hair_colour'' hair_colour,
           field_error ''birth_place'' birth_place,
           field_error ''resident_address'' resident_address,
           field_error ''portrait_capture_date'' portrait_capture_date,
           field_error ''age_in_years'' age_in_years,
           field_error ''age_birth_year'' age_birth_year,
           field_error ''age_over_xx'' age_over_xx,
           field_error ''issuing_jurisdiction'' issuing_jurisdiction,
           field_error ''nationality'' nationality,
           field_error ''resident_city'' resident_city,
           field_error ''resident_state'' resident_state,
           field_error ''resident_postal_code'' resident_postal_code,
           field_error ''resident_country'' resident_country,
           field_error ''biometric_template_xx'' biometric_template_xx,
           field_error ''family_name_national_character'' family_name_national_character,
           field_error ''given_name_national_character'' given_name_national_character,
           field_error ''signature_usual_mark'' signature_usual_mark])
        \<lparr> iso_family_name = projr family_name,
          iso_given_name = projr given_name,
          iso_birth_date = projr birth_date,
          iso_issue_date = projr issue_date,
          iso_expiry_date = projr expiry_date,
          iso_issuing_country = projr issuing_country,
          iso_issuing_authority = projr issuing_authority,
          iso_document_number = projr document_number,
          iso_portrait = projr portrait,
          iso_driving_privileges = projr driving_privileges,
          iso_un_distinguishing_sign = projr un_distinguishing_sign,
          iso_administrative_number = projr administrative_number,
          iso_sex = projr sex,
          iso_height = projr height,
          iso_weight = projr weight,
          iso_eye_colour = projr eye_colour,
          iso_hair_colour = projr hair_colour,
          iso_birth_place = projr birth_place,
          iso_resident_address = projr resident_address,
          iso_portrait_capture_date = projr portrait_capture_date,
          iso_age_in_years = projr age_in_years,
          iso_age_birth_year = projr age_birth_year,
          iso_age_over_xx = projr age_over_xx,
          iso_issuing_jurisdiction = projr issuing_jurisdiction,
          iso_nationality = projr nationality,
          iso_resident_city = projr resident_city,
          iso_resident_state = projr resident_state,
          iso_resident_postal_code = projr resident_postal_code,
          iso_resident_country = projr resident_country,
          iso_biometric_template_xx = projr biometric_template_xx,
          iso_family_name_national_character = projr family_name_national_character,
          iso_given_name_national_character = projr given_name_national_character,
          iso_signature_usual_mark = projr signature_usual_mark \<rparr>))))"

definition OrgIso1801351_from_json ::
    "'dt date_ops \<Rightarrow> (string \<Rightarrow> bytes option) \<Rightarrow> Json \<Rightarrow> (FromJsonError + OrgIso1801351) option" where
  "OrgIso1801351_from_json T dec v =
     (case as_object v of Inl e \<Rightarrow> Some (Inl e) | Inr m \<Rightarrow> OrgIso1801351_from_map T dec m)"

definition OrgIso1801351_to_ns_map :: "OrgIso1801351 \<Rightarrow> (string, Value) btree_map" where
  "OrgIso1801351_to_ns_map d = ns_map
     [ns_field ''family_name'' (Latin1_into (iso_family_name d)),
      ns_field ''given_name'' (Latin1_into (iso_given_name d)),
      ns_field ''birth_date'' (FullDate_into (iso_birth_date d)),
      ns_field ''issue_date'' (TDateOrFullDate_into (iso_issue_date d)),
      ns_field ''expiry_date'' (TDateOrFullDate_into (iso_expiry_date d)),
      ns_field ''issuing_country'' (Alpha2_into (iso_issuing_country d)),
      ns_field ''issuing_authority'' (Latin1_into (iso_issuing_authority d)),
      ns_field ''document_number'' (Latin1_into (iso_document_number d)),
      ns_field ''portrait'' (ByteStr_into (iso_portrait d)),
      ns_field ''driving_privileges'' (DrivingPrivileges_into (iso_driving_privileges d)),
      ns_field ''un_distinguishing_sign'' (UN_into (iso_un_distinguishing_sign d)),
      ns_opt_field ''administrative_number'' Latin1_into (iso_administrative_number d),
      ns_opt_field ''sex'' Sex_into (iso_sex d),
      ns_opt_field ''height'' u32_to_cbor (iso_height d),
      ns_opt_field ''weight'' u32_to_cbor (iso_weight d),
      ns_opt_field ''eye_colour'' EyeColour_into (iso_eye_colour d),
      ns_opt_field ''hair_colour'' HairColour_into (iso_hair_colour d),
      ns_opt_field ''birth_place'' Latin1_into (iso_birth_place d),
      ns_opt_field ''resident_address'' Latin1_into (iso_resident_address d),
      ns_opt_field ''portrait_capture_date'' TDate_into (iso_portrait_capture_date d),
      ns_opt_field ''age_in_years'' u32_to_cbor (iso_age_in_years d),
      ns_opt_field ''age_birth_year'' u32_to_cbor (iso_age_birth_year d),
      ns_many (AgeOver_to_ns_map (iso_age_over_xx d)),
      ns_opt_field ''issuing_jurisdiction'' IssuingJurisdiction_into (iso_issuing_jurisdiction d),
      ns_opt_field ''nationality'' Alpha2_into (iso_nationality d),
      ns_opt_field ''resident_city'' Latin1_into (iso_resident_city d),
      ns_opt_field ''resident_state'' Latin1_into (iso_resident_state d),
      ns_opt_field ''resident_postal_code'' Latin1_into (iso_resident_postal_code d),
      ns_opt_field ''resident_country'' Alpha2_into (iso_resident_country d),
      ns_many (BiometricTemplate_to_ns_map (iso_biometric_template_xx d)),
      ns_opt_field ''family_name_national_character'' VText (iso_family_name_national_character d),
      ns_opt_field ''given_name_national_character'' VText (iso_given_name_national_character d),
      ns_opt_field ''signature_usual_mark'' ByteStr_into (iso_signature_usual_mark d)]"

definition OrgIso1801351_to_cbor :: "OrgIso1801351 \<Rightarrow> Value" where
  "OrgIso1801351_to_cbor d = ns_map_to_cbor (OrgIso1801351_to_ns_map d)"

section \<open>What is accepted\<close>

text \<open>An object is accepted exactly when every field is, and the struct holds the converted values.\<close>

lemma OrgIso1801351_from_map_Inr:
  "OrgIso1801351_from_map T dec m = Some (Inr d) \<longleftrightarrow>
     from_json_opt Latin1_from_json (bt_get m ''family_name'') = Inr (iso_family_name d) \<and>
     from_json_opt Latin1_from_json (bt_get m ''given_name'') = Inr (iso_given_name d) \<and>
     from_json_opt (FullDate_from_json T) (bt_get m ''birth_date'') = Inr (iso_birth_date d) \<and>
     from_json_opt_panic (TDateOrFullDate_from_json T) (bt_get m ''issue_date'') = Some (Inr (iso_issue_date d)) \<and>
     from_json_opt_panic (TDateOrFullDate_from_json T) (bt_get m ''expiry_date'') = Some (Inr (iso_expiry_date d)) \<and>
     from_json_opt Alpha2_from_json (bt_get m ''issuing_country'') = Inr (iso_issuing_country d) \<and>
     from_json_opt Latin1_from_json (bt_get m ''issuing_authority'') = Inr (iso_issuing_authority d) \<and>
     from_json_opt Latin1_from_json (bt_get m ''document_number'') = Inr (iso_document_number d) \<and>
     from_json_opt (ByteStr_from_json dec) (bt_get m ''portrait'') = Inr (iso_portrait d) \<and>
     from_json_opt (DrivingPrivileges_from_json T) (bt_get m ''driving_privileges'') = Inr (iso_driving_privileges d) \<and>
     from_json_opt UN_from_json (bt_get m ''un_distinguishing_sign'') = Inr (iso_un_distinguishing_sign d) \<and>
     Option_from_json_opt Latin1_from_json (bt_get m ''administrative_number'') = Inr (iso_administrative_number d) \<and>
     Option_from_json_opt Sex_from_json (bt_get m ''sex'') = Inr (iso_sex d) \<and>
     Option_from_json_opt u32_from_json (bt_get m ''height'') = Inr (iso_height d) \<and>
     Option_from_json_opt u32_from_json (bt_get m ''weight'') = Inr (iso_weight d) \<and>
     Option_from_json_opt EyeColour_from_json (bt_get m ''eye_colour'') = Inr (iso_eye_colour d) \<and>
     Option_from_json_opt HairColour_from_json (bt_get m ''hair_colour'') = Inr (iso_hair_colour d) \<and>
     Option_from_json_opt Latin1_from_json (bt_get m ''birth_place'') = Inr (iso_birth_place d) \<and>
     Option_from_json_opt Latin1_from_json (bt_get m ''resident_address'') = Inr (iso_resident_address d) \<and>
     Option_from_json_opt_panic (TDate_from_json T) (bt_get m ''portrait_capture_date'') = Some (Inr (iso_portrait_capture_date d)) \<and>
     Option_from_json_opt u32_from_json (bt_get m ''age_in_years'') = Inr (iso_age_in_years d) \<and>
     Option_from_json_opt u32_from_json (bt_get m ''age_birth_year'') = Inr (iso_age_birth_year d) \<and>
     AgeOver_from_map m = Inr (iso_age_over_xx d) \<and>
     Option_from_map IssuingJurisdiction_from_map m = Inr (iso_issuing_jurisdiction d) \<and>
     Option_from_json_opt Alpha2_from_json (bt_get m ''nationality'') = Inr (iso_nationality d) \<and>
     Option_from_json_opt Latin1_from_json (bt_get m ''resident_city'') = Inr (iso_resident_city d) \<and>
     Option_from_json_opt Latin1_from_json (bt_get m ''resident_state'') = Inr (iso_resident_state d) \<and>
     Option_from_json_opt Latin1_from_json (bt_get m ''resident_postal_code'') = Inr (iso_resident_postal_code d) \<and>
     Option_from_json_opt Alpha2_from_json (bt_get m ''resident_country'') = Inr (iso_resident_country d) \<and>
     BiometricTemplate_from_map dec m = Inr (iso_biometric_template_xx d) \<and>
     Option_from_json_opt String_from_json (bt_get m ''family_name_national_character'') = Inr (iso_family_name_national_character d) \<and>
     Option_from_json_opt String_from_json (bt_get m ''given_name_national_character'') = Inr (iso_given_name_national_character d) \<and>
     Option_from_json_opt (ByteStr_from_json dec) (bt_get m ''signature_usual_mark'') = Inr (iso_signature_usual_mark d)"
  (is "_ \<longleftrightarrow> ?fields")
proof
  assume "OrgIso1801351_from_map T dec m = Some (Inr d)"
  then show ?fields
    unfolding OrgIso1801351_from_map_def Let_def
    by (clarsimp simp: bind_eq_Some_conv struct_result_Inr field_error_Nil)
next
  assume ?fields
  then show "OrgIso1801351_from_map T dec m = Some (Inr d)"
    unfolding OrgIso1801351_from_map_def Let_def
    by (elim conjE) (simp add: struct_result_Inr)
qed

section \<open>Which elements are issued\<close>

lemma panic_field_keys:
  assumes "from_json_opt_panic f (bt_get m n) = Some (Inr x)" "\<And>y. f JNull \<noteq> Some (Inr y)"
  shows "k \<in> fst ` set (ns_field n v) \<longleftrightarrow> k = n \<and> present m k"
  using assms by (auto simp: ns_field_def present_iff from_json_opt_panic_def split: option.splits)

lemma panic_opt_field_keys:
  assumes "Option_from_json_opt_panic f (bt_get m n) = Some (Inr x)"
  shows "k \<in> fst ` set (ns_opt_field n g x) \<longleftrightarrow> k = n \<and> present m k"
  using assms
  by (cases x)
    (auto simp: ns_opt_field_def present_iff Option_from_json_opt_panic_def map_ok_Inr
      split: option.splits if_splits)

text \<open>\<^verbatim>\<open>issuing_jurisdiction\<close> is read from the whole object, together with the issuing country.\<close>

lemma jurisdiction_keys:
  assumes "Option_from_map IssuingJurisdiction_from_map m = Inr x"
    and "from_json_opt Alpha2_from_json (bt_get m ''issuing_country'') = Inr c"
  shows "k \<in> fst ` set (ns_opt_field ''issuing_jurisdiction'' g x) \<longleftrightarrow>
    k = ''issuing_jurisdiction'' \<and> present m k"
proof -
  obtain j where j: "bt_get m ''issuing_country'' = Some j" "Alpha2_from_json j = Inr c"
    using assms(2) by (auto simp: from_json_opt_Inr)
  have "(x = None) = (\<not> present m ''issuing_jurisdiction'')"
  proof (cases "bt_get m ''issuing_jurisdiction''")
    case None
    with assms(1) show ?thesis
      by (auto simp: Option_from_map_def IssuingJurisdiction_from_map_def present_iff)
  next
    case (Some i)
    with assms(1) j show ?thesis
      by (cases i) (auto simp: Option_from_map_def IssuingJurisdiction_from_map_def present_iff
          IssuingJurisdiction_new_def split: if_splits)
  qed
  then show ?thesis by (cases x) (auto simp: ns_opt_field_def)
qed

definition is_age_key :: "string \<Rightarrow> bool" where
  "is_age_key k \<longleftrightarrow> Option.bind (strip_prefix ''age_over_'' k) to_age \<noteq> None"

lemma age_keys:
  assumes "bt_wf m" "AgeOver_from_map m = Inr a"
  shows "k \<in> fst ` set (ns_many (AgeOver_to_ns_map a)) \<longleftrightarrow> is_age_key k \<and> present m k"
proof -
  have wf: "bt_wf a" using assms(2) keyed_from_map_wf by (auto simp: AgeOver_from_map_def)
  have "bt_wf (AgeOver_to_ns_map a)" by (simp add: AgeOver_to_ns_map_def bt_wf_of_list)
  then have "k \<in> fst ` set (ns_many (AgeOver_to_ns_map a)) \<longleftrightarrow> (\<exists>v. bt_get (AgeOver_to_ns_map a) k = Some v)"
    using bt_mem_iff [of "AgeOver_to_ns_map a" k] by (force simp: ns_many_def)
  also have "\<dots> \<longleftrightarrow> (\<exists>i b. k = age_key i \<and> bt_get a i = Some b)"
    unfolding AgeOver_to_ns_map_entries [OF wf] by blast
  also have "\<dots> \<longleftrightarrow> is_age_key k \<and> (\<exists>b. bt_get m k = Some (JBool b))"
    unfolding AgeOver_from_map_get [OF assms] is_age_key_def not_None_eq age_key_parse by blast
  also have "\<dots> \<longleftrightarrow> is_age_key k \<and> present m k"
  proof -
    have "\<exists>b. j = JBool b" if "is_age_key k" "bt_get m k = Some j" for j
      using keyed_from_map_accepts [OF assms(1), of "\<lambda>k. Option.bind (strip_prefix ''age_over_'' k) to_age"
          bool_from_json] assms(2) that
      unfolding AgeOver_from_map_def is_age_key_def bool_from_json_Inr by blast
    then show ?thesis by (auto simp: present_iff)
  qed
  finally show ?thesis .
qed

lemma template_keys:
  assumes "bt_wf m" "BiometricTemplate_from_map dec m = Inr b"
  shows "k \<in> fst ` set (ns_many (BiometricTemplate_to_ns_map b)) \<longleftrightarrow>
    starts_with k ''biometric_template_'' \<and> present m k"
proof -
  have wf: "bt_wf b" using assms(2) keyed_from_map_wf by (auto simp: BiometricTemplate_from_map_def)
  have "k \<in> fst ` set (ns_many (BiometricTemplate_to_ns_map b)) \<longleftrightarrow>
      (\<exists>i x. k = ''biometric_template_'' @ i \<and> bt_get b i = Some x)"
  proof -
    have "fst ` set (ns_many (BiometricTemplate_to_ns_map b)) = (\<lambda>(i, x). ''biometric_template_'' @ i) ` set b"
      unfolding ns_many_def BiometricTemplate_to_ns_map_def
      using ns_map_keys [of "[map (\<lambda>(i, x). (''biometric_template_'' @ i, ByteStr_into x)) b]"]
      by (simp add: ns_map_of_list image_image case_prod_unfold)
    then show ?thesis using bt_mem_iff [OF wf] by force
  qed
  also have "\<dots> \<longleftrightarrow> starts_with k ''biometric_template_'' \<and> present m k"
  proof -
    have "\<exists>s x. j = JString s \<and> dec s = Some x" if pre: "k = ''biometric_template_'' @ i" and get: "bt_get m k = Some j" for i j
    proof -
      have "strip_prefix ''biometric_template_'' k \<noteq> None" by (simp add: pre del: append.simps)
      then obtain x where "ByteStr_from_json dec j = Inr x"
        using keyed_from_map_accepts [OF assms(1), of "\<lambda>k. strip_prefix ''biometric_template_'' k"
            "ByteStr_from_json dec"] assms(2) get
        unfolding BiometricTemplate_from_map_def by blast
      then show ?thesis by (auto simp: ByteStr_from_json_def result_simps)
    qed
    then show ?thesis
      unfolding BiometricTemplate_from_map_get [OF assms] starts_with_append present_iff by blast
  qed
  finally show ?thesis .
qed

definition iso_names :: "string list" where
  "iso_names =
    [''family_name'', ''given_name'', ''birth_date'', ''issue_date'', ''expiry_date'',
     ''issuing_country'', ''issuing_authority'', ''document_number'', ''portrait'',
     ''driving_privileges'', ''un_distinguishing_sign'', ''administrative_number'', ''sex'',
     ''height'', ''weight'', ''eye_colour'', ''hair_colour'', ''birth_place'',
     ''resident_address'', ''portrait_capture_date'', ''age_in_years'', ''age_birth_year'',
     ''issuing_jurisdiction'', ''nationality'', ''resident_city'', ''resident_state'',
     ''resident_postal_code'', ''resident_country'', ''family_name_national_character'',
     ''given_name_national_character'', ''signature_usual_mark'']"

text \<open>No field accepts null, except the optional ones.\<close>

lemma null_refused:
  "Latin1_from_json JNull \<noteq> Inr l" "FullDate_from_json T JNull \<noteq> Inr fd"
  "Alpha2_from_json JNull \<noteq> Inr c" "ByteStr_from_json dec JNull \<noteq> Inr b"
  "DrivingPrivileges_from_json T JNull \<noteq> Inr p" "UN_from_json JNull \<noteq> Inr u"
  "TDateOrFullDate_from_json T JNull \<noteq> Some (Inr t)"
  by (auto simp: Latin1_from_json_def FullDate_from_json_def Alpha2_from_json_def ByteStr_from_json_def
      parse_from_json_def DrivingPrivileges_from_json_def UN_from_json_def TDateOrFullDate_from_json_def
      TDate_from_json_def)

lemma OrgIso1801351_keys:
  assumes wf: "bt_wf m" and d: "OrgIso1801351_from_map T dec m = Some (Inr d)"
  shows "k \<in> fst ` set (OrgIso1801351_to_ns_map d) \<longleftrightarrow>
    present m k \<and> (k \<in> set iso_names \<or> is_age_key k \<or> starts_with k ''biometric_template_'')"
  using d unfolding OrgIso1801351_from_map_Inr
proof (elim conjE, goal_cases)
  case 1
  note keys = field_keys [OF 1(1) null_refused(1)] field_keys [OF 1(2) null_refused(1)]
    field_keys [OF 1(3) null_refused(2)] panic_field_keys [OF 1(4) null_refused(7)]
    panic_field_keys [OF 1(5) null_refused(7)] field_keys [OF 1(6) null_refused(3)]
    field_keys [OF 1(7) null_refused(1)] field_keys [OF 1(8) null_refused(1)]
    field_keys [OF 1(9) null_refused(4)] field_keys [OF 1(10) null_refused(5)]
    field_keys [OF 1(11) null_refused(6)] opt_field_keys [OF 1(12)] opt_field_keys [OF 1(13)]
    opt_field_keys [OF 1(14)] opt_field_keys [OF 1(15)] opt_field_keys [OF 1(16)]
    opt_field_keys [OF 1(17)] opt_field_keys [OF 1(18)] opt_field_keys [OF 1(19)]
    panic_opt_field_keys [OF 1(20)] opt_field_keys [OF 1(21)] opt_field_keys [OF 1(22)]
    age_keys [OF wf 1(23)] jurisdiction_keys [OF 1(24) 1(6)] opt_field_keys [OF 1(25)]
    opt_field_keys [OF 1(26)] opt_field_keys [OF 1(27)] opt_field_keys [OF 1(28)]
    opt_field_keys [OF 1(29)] template_keys [OF wf 1(30)] opt_field_keys [OF 1(31)]
    opt_field_keys [OF 1(32)] opt_field_keys [OF 1(33)]
  have "k \<in> fst ` set (OrgIso1801351_to_ns_map d) \<longleftrightarrow>
      (\<exists>n \<in> set iso_names. k = n \<and> present m k) \<or> is_age_key k \<and> present m k \<or>
      starts_with k ''biometric_template_'' \<and> present m k"
    unfolding OrgIso1801351_to_ns_map_def ns_keys iso_names_def
    by (simp only: list.set bex_simps ex_disj_distrib keys conj_disj_distribR simp_thms disj_ac)
  then show ?case by blast
qed

section \<open>When the conversion panics\<close>

text \<open>The text a date-time is normalised to; \<open>None\<close> when one of the steps panics.\<close>

definition tdate_text :: "'dt date_ops \<Rightarrow> 'dt \<Rightarrow> string option" where
  "tdate_text T t = Option.bind (to_utc T t) (\<lambda>u. Option.bind (clear_millisecond T u) (rfc3339_format T))"

definition date_time_panics :: "'dt date_ops \<Rightarrow> Json option \<Rightarrow> bool" where
  "date_time_panics T j \<longleftrightarrow> (\<exists>s t. j = Some (JString s) \<and> rfc3339_parse T s = Some t \<and> tdate_text T t = None)"

lemma date_panics:
  "from_json_opt_panic (TDateOrFullDate_from_json T) j = None \<longleftrightarrow> date_time_panics T j"
  by (cases j) (auto simp: from_json_opt_panic_def date_time_panics_def tdate_text_def
      TDateOrFullDate_panic TDate_from_json_panic)

lemma opt_date_panics:
  "Option_from_json_opt_panic (TDate_from_json T) j = None \<longleftrightarrow> date_time_panics T j"
  by (cases j) (auto simp: Option_from_json_opt_panic_def date_time_panics_def tdate_text_def
      TDate_from_json_panic)

section \<open>Properties\<close>

text \<open>C35. The conversion of a whole namespace object panics exactly when one of its three date-time
  fields holds a valid RFC 3339 date-time that cannot be moved to UTC or, moved there, cannot be
  formatted, although the source calls both unwraps safe; in every other case it returns.
\<close>

theorem conversion_panics:
  "OrgIso1801351_from_json T dec v = None \<longleftrightarrow>
     (\<exists>m. v = JObject m \<and>
        (\<exists>n \<in> {''issue_date'', ''expiry_date'', ''portrait_capture_date''}. date_time_panics T (bt_get m n)))"
proof -
  have "OrgIso1801351_from_map T dec m = None \<longleftrightarrow>
      date_time_panics T (bt_get m ''issue_date'') \<or> date_time_panics T (bt_get m ''expiry_date'') \<or>
      date_time_panics T (bt_get m ''portrait_capture_date'')" for m
    unfolding OrgIso1801351_from_map_def Let_def bind_eq_None_conv date_panics opt_date_panics
    by (simp only: option.distinct simp_thms)
  then show ?thesis
    by (cases v) (auto simp: OrgIso1801351_from_json_def)
qed

text \<open>C34. The map issued for an accepted object is sorted with each key once, and its keys are exactly
  the keys of the object with a value other than null that name an element of the namespace: one of
  the fixed names, \<^verbatim>\<open>age_over_\<close> and two digits, or \<^verbatim>\<open>biometric_template_\<close> and any text. No element
  is invented and none of these is lost.
\<close>

theorem namespace_elements_exact:
  assumes wf: "bt_wf m" and d: "OrgIso1801351_from_json T dec (JObject m) = Some (Inr d)"
  shows "bt_wf (OrgIso1801351_to_ns_map d) \<and>
    fst ` set (OrgIso1801351_to_ns_map d) =
      {k. present m k \<and> (k \<in> set iso_names \<or> is_age_key k \<or> starts_with k ''biometric_template_'')}"
proof -
  have d: "OrgIso1801351_from_map T dec m = Some (Inr d)" using d by (simp add: OrgIso1801351_from_json_def)
  have "bt_wf (OrgIso1801351_to_ns_map d)" by (simp add: OrgIso1801351_to_ns_map_def ns_map_wf)
  then show ?thesis using OrgIso1801351_keys [OF wf d] by blast
qed

text \<open>An object with the mandatory fields, an age, a null and an unknown key.\<close>

definition sample_object :: "(string, Json) btree_map" where
  "sample_object =
    [(''age_over_18'', JBool True), (''birth_date'', JString ''1980-01-01''),
     (''document_number'', JString ''D1''), (''driving_privileges'', JArray []),
     (''expiry_date'', JString ''2030-01-01''), (''family_name'', JString ''Smith''),
     (''given_name'', JString ''Al''), (''issue_date'', JString ''2020-01-01''),
     (''issuing_authority'', JString ''NY''), (''issuing_country'', JString ''US''),
     (''portrait'', JString ''AA''), (''sex'', JNull),
     (''un_distinguishing_sign'', JString ''USA''), (''zodiac'', JString ''x'')]"

definition sample_base64 :: "string \<Rightarrow> bytes option" where
  "sample_base64 s = Some (map of_char s)"

lemma sample_object_wf: "bt_wf sample_object"
  by (simp add: bt_wf_def sample_object_def less_char_def)

definition sample_licence :: OrgIso1801351 where
  "sample_licence =
   \<lparr> iso_family_name = ''Smith'',
     iso_given_name = ''Al'',
     iso_birth_date = \<lparr> year = 1980, month = 1, day = 1 \<rparr>,
     iso_issue_date = FullDate \<lparr> year = 2020, month = 1, day = 1 \<rparr>,
     iso_expiry_date = FullDate \<lparr> year = 2030, month = 1, day = 1 \<rparr>,
     iso_issuing_country = Alpha2_of_U A2_US,
     iso_issuing_authority = ''NY'',
     iso_document_number = ''D1'',
     iso_portrait = [65, 65],
     iso_driving_privileges = [],
     iso_un_distinguishing_sign = Sign (UN_of_U Sign_USA),
     iso_administrative_number = None,
     iso_sex = None,
     iso_height = None,
     iso_weight = None,
     iso_eye_colour = None,
     iso_hair_colour = None,
     iso_birth_place = None,
     iso_resident_address = None,
     iso_portrait_capture_date = None,
     iso_age_in_years = None,
     iso_age_birth_year = None,
     iso_age_over_xx = [(Age (CHR ''1'') (CHR ''8''), True)],
     iso_issuing_jurisdiction = None,
     iso_nationality = None,
     iso_resident_city = None,
     iso_resident_state = None,
     iso_resident_postal_code = None,
     iso_resident_country = None,
     iso_biometric_template_xx = [],
     iso_family_name_national_character = None,
     iso_given_name_national_character = None,
     iso_signature_usual_mark = None \<rparr>"

lemma sample_dates:
  "FullDate_from_json sample_date_ops (JString ''1980-01-01'') = Inr \<lparr> year = 1980, month = 1, day = 1 \<rparr>"
  "TDateOrFullDate_from_json sample_date_ops (JString ''2020-01-01'')
     = Some (Inr (FullDate \<lparr> year = 2020, month = 1, day = 1 \<rparr>))"
  "TDateOrFullDate_from_json sample_date_ops (JString ''2030-01-01'')
     = Some (Inr (FullDate \<lparr> year = 2030, month = 1, day = 1 \<rparr>))"
  by (simp_all add: TDateOrFullDate_from_json_def TDate_from_json_def FullDate_from_json_def
      parse_from_json_def FullDate_from_str_def sample_date_ops_def sample_date_parse_def digits_value_def
      less_eq_char_def)

lemma sample_families:
  "AgeOver_from_map sample_object = Inr (iso_age_over_xx sample_licence)"
  "BiometricTemplate_from_map sample_base64 sample_object = Inr []"
  by (simp_all add: AgeOver_from_map_def BiometricTemplate_from_map_def keyed_from_map_def keyed_entries_def
      List.map_filter_def sample_object_def sample_licence_def strip_prefix_def is_digit_def less_eq_char_def
      bt_of_list_def)

lemma sample_object_map:
  "OrgIso1801351_from_map sample_date_ops sample_base64 sample_object = Some (Inr sample_licence)"
proof -
  have sign: "UN_from_String ''USA'' = Sign (UN_of_U Sign_USA)"
    using UN_from_String_as_str [of "UN_of_U Sign_USA"] by simp
  show ?thesis
    unfolding OrgIso1801351_from_map_Inr sample_families
    by (simp add: sample_object_def sample_licence_def bt_get_def from_json_opt_def Option_from_json_opt_def
        from_json_opt_panic_def Option_from_json_opt_panic_def sample_dates Latin1_from_json_Inr
        is_latin_def is_lower_latin_def Alpha2_from_json_Inr ByteStr_from_json_def sample_base64_def
        DrivingPrivileges_from_json_def UN_from_json_def sign Option_from_map_def
        IssuingJurisdiction_from_map_def)
qed

lemma sample_object_accepted:
  "OrgIso1801351_from_json sample_date_ops sample_base64 (JObject sample_object) = Some (Inr sample_licence)"
  by (simp add: OrgIso1801351_from_json_def sample_object_map)

theorem namespace_elements_exact_witness:
  "''age_over_18'' \<in> fst ` set (OrgIso1801351_to_ns_map sample_licence) \<and>
   ''sex'' \<notin> fst ` set (OrgIso1801351_to_ns_map sample_licence) \<and>
   ''zodiac'' \<notin> fst ` set (OrgIso1801351_to_ns_map sample_licence)"
proof -
  have age: "present sample_object ''age_over_18''" "is_age_key ''age_over_18''"
    "\<not> present sample_object ''sex''"
    "\<not> (''zodiac'' \<in> set iso_names \<or> is_age_key ''zodiac'' \<or> starts_with ''zodiac'' ''biometric_template_'')"
    by code_simp+
  show ?thesis
    using namespace_elements_exact [OF sample_object_wf sample_object_accepted] age by blast
qed

end
