(* ===== verification/Aamva_Namespace.thy ===== *)
theory Aamva_Namespace
  imports Iso_Namespace
begin

text \<open>
  The namespace \<^verbatim>\<open>org.iso.18013.5.1.aamva\<close>
  (\<^verbatim>\<open>src/definitions/namespaces/org_iso_18013_5_1_aamva\<close>): its element types, one section per
  file, and the struct \<^verbatim>\<open>OrgIso1801351Aamva\<close> with its derived conversions.
\<close>

section \<open>name_suffix.rs\<close>

datatype NameSuffix =
    Suffix_Junior | Suffix_Senior | Suffix_First | Suffix_FirstNumeral | Suffix_Second | Suffix_SecondNumeral | Suffix_Third | Suffix_ThirdNumeral
  | Suffix_Fourth | Suffix_FourthNumeral | Suffix_Fifth | Suffix_FifthNumeral | Suffix_Sixth | Suffix_SixthNumeral | Suffix_Seventh | Suffix_SeventhNumeral
  | Suffix_Eighth | Suffix_EighthNumeral | Suffix_Ninth | Suffix_NinthNumeral

primrec NameSuffix_to_str :: "NameSuffix \<Rightarrow> string" where
  "NameSuffix_to_str Suffix_Junior = ''JR''"
| "NameSuffix_to_str Suffix_Senior = ''SR''"
| "NameSuffix_to_str Suffix_First = ''1ST''"
| "NameSuffix_to_str Suffix_FirstNumeral = ''I''"
| "NameSuffix_to_str Suffix_Second = ''2ND''"
| "NameSuffix_to_str Suffix_SecondNumeral = ''II''"
| "NameSuffix_to_str Suffix_Third = ''3RD''"
| "NameSuffix_to_str Suffix_ThirdNumeral = ''III''"
| "NameSuffix_to_str Suffix_Fourth = ''4TH''"
| "NameSuffix_to_str Suffix_FourthNumeral = ''IV''"
| "NameSuffix_to_str Suffix_Fifth = ''5TH''"
| "NameSuffix_to_str Suffix_FifthNumeral = ''V''"
| "NameSuffix_to_str Suffix_Sixth = ''6TH''"
| "NameSuffix_to_str Suffix_SixthNumeral = ''VI''"
| "NameSuffix_to_str Suffix_Seventh = ''7TH''"
| "NameSuffix_to_str Suffix_SeventhNumeral = ''VII''"
| "NameSuffix_to_str Suffix_Eighth = ''8TH''"
| "NameSuffix_to_str Suffix_EighthNumeral = ''VIII''"
| "NameSuffix_to_str Suffix_Ninth = ''9TH''"
| "NameSuffix_to_str Suffix_NinthNumeral = ''IX''"

definition nameSuffix_arms :: "(string \<times> NameSuffix) list" where
  "nameSuffix_arms =
    [(''JR'', Suffix_Junior), (''SR'', Suffix_Senior), (''1ST'', Suffix_First),
     (''I'', Suffix_FirstNumeral), (''2ND'', Suffix_Second), (''II'', Suffix_SecondNumeral),
     (''3RD'', Suffix_Third), (''III'', Suffix_ThirdNumeral), (''4TH'', Suffix_Fourth),
     (''IV'', Suffix_FourthNumeral), (''5TH'', Suffix_Fifth), (''V'', Suffix_FifthNumeral),
     (''6TH'', Suffix_Sixth), (''VI'', Suffix_SixthNumeral), (''7TH'', Suffix_Seventh),
     (''VII'', Suffix_SeventhNumeral), (''8TH'', Suffix_Eighth),
     (''VIII'', Suffix_EighthNumeral), (''9TH'', Suffix_Ninth), (''IX'', Suffix_NinthNumeral)]"

definition NameSuffix_from_str :: "string \<Rightarrow> anyhow_error + NameSuffix" where
  "NameSuffix_from_str s = match_str nameSuffix_arms s"

definition NameSuffix_from_json :: "Json \<Rightarrow> FromJsonError + NameSuffix" where
  "NameSuffix_from_json v = parse_from_json NameSuffix_from_str v"

definition NameSuffix_to_cbor :: "NameSuffix \<Rightarrow> Value" where
  "NameSuffix_to_cbor c = VText (NameSuffix_to_str c)"

section \<open>name_truncation.rs\<close>

datatype NameTruncation =
    Name_Truncated | Name_NotTruncated | Name_Unknown

primrec NameTruncation_to_str :: "NameTruncation \<Rightarrow> string" where
  "NameTruncation_to_str Name_Truncated = ''T''"
| "NameTruncation_to_str Name_NotTruncated = ''N''"
| "NameTruncation_to_str Name_Unknown = ''U''"

definition nameTruncation_arms :: "(string \<times> NameTruncation) list" where
  "nameTruncation_arms =
    [(''T'', Name_Truncated), (''N'', Name_NotTruncated), (''U'', Name_Unknown)]"

definition NameTruncation_from_str :: "string \<Rightarrow> anyhow_error + NameTruncation" where
  "NameTruncation_from_str s = match_str nameTruncation_arms s"

definition NameTruncation_from_json :: "Json \<Rightarrow> FromJsonError + NameTruncation" where
  "NameTruncation_from_json v = parse_from_json NameTruncation_from_str v"

definition NameTruncation_to_cbor :: "NameTruncation \<Rightarrow> Value" where
  "NameTruncation_to_cbor c = VText (NameTruncation_to_str c)"

section \<open>race_and_ethnicity.rs\<close>

datatype RaceAndEthnicity =
    Race_AI | Race_AP | Race_BK | Race_H | Race_O | Race_U | Race_W

primrec RaceAndEthnicity_to_str :: "RaceAndEthnicity \<Rightarrow> string" where
  "RaceAndEthnicity_to_str Race_AI = ''AI''"
| "RaceAndEthnicity_to_str Race_AP = ''AP''"
| "RaceAndEthnicity_to_str Race_BK = ''BK''"
| "RaceAndEthnicity_to_str Race_H = ''H''"
| "RaceAndEthnicity_to_str Race_O = ''O''"
| "RaceAndEthnicity_to_str Race_U = ''U''"
| "RaceAndEthnicity_to_str Race_W = ''W''"

definition raceAndEthnicity_arms :: "(string \<times> RaceAndEthnicity) list" where
  "raceAndEthnicity_arms =
    [(''AI'', Race_AI), (''AP'', Race_AP), (''BK'', Race_BK), (''H'', Race_H),
     (''O'', Race_O), (''U'', Race_U), (''W'', Race_W)]"

definition RaceAndEthnicity_from_str :: "string \<Rightarrow> anyhow_error + RaceAndEthnicity" where
  "RaceAndEthnicity_from_str s = match_str raceAndEthnicity_arms s"

definition RaceAndEthnicity_from_json :: "Json \<Rightarrow> FromJsonError + RaceAndEthnicity" where
  "RaceAndEthnicity_from_json v = parse_from_json RaceAndEthnicity_from_str v"

definition RaceAndEthnicity_to_cbor :: "RaceAndEthnicity \<Rightarrow> Value" where
  "RaceAndEthnicity_to_cbor c = VText (RaceAndEthnicity_to_str c)"

section \<open>dhs_compliance.rs\<close>

datatype DHSCompliance =
    DHS_F | DHS_N

primrec DHSCompliance_to_str :: "DHSCompliance \<Rightarrow> string" where
  "DHSCompliance_to_str DHS_F = ''F''"
| "DHSCompliance_to_str DHS_N = ''N''"

definition dHSCompliance_arms :: "(string \<times> DHSCompliance) list" where
  "dHSCompliance_arms =
    [(''F'', DHS_F), (''N'', DHS_N)]"

definition DHSCompliance_from_str :: "string \<Rightarrow> anyhow_error + DHSCompliance" where
  "DHSCompliance_from_str s = match_str dHSCompliance_arms s"

definition DHSCompliance_from_json :: "Json \<Rightarrow> FromJsonError + DHSCompliance" where
  "DHSCompliance_from_json v = parse_from_json DHSCompliance_from_str v"

definition DHSCompliance_to_cbor :: "DHSCompliance \<Rightarrow> Value" where
  "DHSCompliance_to_cbor c = VText (DHSCompliance_to_str c)"

section \<open>sex.rs\<close>

datatype AamvaSex =
    Aamva_Male | Aamva_Female | Aamva_NotApplicable

primrec u8_from_AamvaSex :: "AamvaSex \<Rightarrow> u8" where
  "u8_from_AamvaSex Aamva_Male = 1"
| "u8_from_AamvaSex Aamva_Female = 2"
| "u8_from_AamvaSex Aamva_NotApplicable = 9"

definition AamvaSex_try_from :: "u32 \<Rightarrow> anyhow_error + AamvaSex" where
  "AamvaSex_try_from u =
     (if u = 1 then Inr Aamva_Male
      else if u = 2 then Inr Aamva_Female
      else if u = 9 then Inr Aamva_NotApplicable
      else Inl (Any_UnrecognizedNumber u))"

definition AamvaSex_from_json :: "Json \<Rightarrow> FromJsonError + AamvaSex" where
  "AamvaSex_from_json v = and_then (u32_from_json v) (\<lambda>u. map_err Parsing (AamvaSex_try_from u))"

definition AamvaSex_to_cbor :: "AamvaSex \<Rightarrow> Value" where
  "AamvaSex_to_cbor s = u8_to_cbor (u8_from_AamvaSex s)"

section \<open>edl_indicator.rs\<close>

datatype EDLIndicator =
    EDL_DriversLicense | EDL_IdentificationCard

primrec u8_from_EDLIndicator :: "EDLIndicator \<Rightarrow> u8" where
  "u8_from_EDLIndicator EDL_DriversLicense = 1"
| "u8_from_EDLIndicator EDL_IdentificationCard = 2"

definition EDLIndicator_try_from :: "u32 \<Rightarrow> anyhow_error + EDLIndicator" where
  "EDLIndicator_try_from u =
     (if u = 1 then Inr EDL_DriversLicense
      else if u = 2 then Inr EDL_IdentificationCard
      else Inl (Any_UnrecognizedNumber u))"

definition EDLIndicator_from_json :: "Json \<Rightarrow> FromJsonError + EDLIndicator" where
  "EDLIndicator_from_json v = and_then (u32_from_json v) (\<lambda>u. map_err Parsing (EDLIndicator_try_from u))"

definition EDLIndicator_to_cbor :: "EDLIndicator \<Rightarrow> Value" where
  "EDLIndicator_to_cbor s = u8_to_cbor (u8_from_EDLIndicator s)"

section \<open>weight_range.rs\<close>

datatype WeightRange =
    Weight_Zero | Weight_One | Weight_Two | Weight_Three | Weight_Four | Weight_Five | Weight_Six | Weight_Seven | Weight_Eight | Weight_Nine

primrec u8_from_WeightRange :: "WeightRange \<Rightarrow> u8" where
  "u8_from_WeightRange Weight_Zero = 0"
| "u8_from_WeightRange Weight_One = 1"
| "u8_from_WeightRange Weight_Two = 2"
| "u8_from_WeightRange Weight_Three = 3"
| "u8_from_WeightRange Weight_Four = 4"
| "u8_from_WeightRange Weight_Five = 5"
| "u8_from_WeightRange Weight_Six = 6"
| "u8_from_WeightRange Weight_Seven = 7"
| "u8_from_WeightRange Weight_Eight = 8"
| "u8_from_WeightRange Weight_Nine = 9"

definition WeightRange_try_from :: "u32 \<Rightarrow> anyhow_error + WeightRange" where
  "WeightRange_try_from u =
     (if u = 0 then Inr Weight_Zero
      else if u = 1 then Inr Weight_One
      else if u = 2 then Inr Weight_Two
      else if u = 3 then Inr Weight_Three
      else if u = 4 then Inr Weight_Four
      else if u = 5 then Inr Weight_Five
      else if u = 6 then Inr Weight_Six
      else if u = 7 then Inr Weight_Seven
      else if u = 8 then Inr Weight_Eight
      else if u = 9 then Inr Weight_Nine
      else Inl (Any_UnrecognizedNumber u))"

definition WeightRange_from_json :: "Json \<Rightarrow> FromJsonError + WeightRange" where
  "WeightRange_from_json v = and_then (u32_from_json v) (\<lambda>u. map_err Parsing (WeightRange_try_from u))"

definition WeightRange_to_cbor :: "WeightRange \<Rightarrow> Value" where
  "WeightRange_to_cbor s = u8_to_cbor (u8_from_WeightRange s)"

section \<open>present.rs\<close>

datatype Present = Present

definition Present_from_json :: "Json \<Rightarrow> FromJsonError + Present" where
  "Present_from_json v =
     and_then (u32_from_json v)
       (\<lambda>n. if n = 1 then Inr Present else Inl (Parsing (Any_UnrecognizedNumber n)))"

definition Present_to_cbor :: "Present \<Rightarrow> Value" where
  "Present_to_cbor p = VInteger 1"

section \<open>county_code.rs\<close>

datatype CountyCode = CountyCode char char char

text \<open>
  The three digits are taken one by one: a first character that is no digit is reported as the
  scalar value it is, a missing one as \<open>County_TooShort\<close>.
\<close>

definition next_digit :: "string \<Rightarrow> county_error + char \<times> string" where
  "next_digit s =
     (case s of
        [] \<Rightarrow> Inl County_TooShort
      | d # r \<Rightarrow> if is_digit d then Inr (d, r) else Inl (County_InvalidCharacter (hd (str_chars s))))"

definition to_treble_digits :: "string \<Rightarrow> county_error + CountyCode" where
  "to_treble_digits s =
     and_then (next_digit s) (\<lambda>(a, s).
     and_then (next_digit s) (\<lambda>(b, s).
     and_then (next_digit s) (\<lambda>(c, s).
       if s \<noteq> [] then Inl County_TooLong else Inr (CountyCode a b c))))"

definition CountyCode_new :: "string \<Rightarrow> county_error + CountyCode" where
  "CountyCode_new county_code = to_treble_digits county_code"

primrec CountyCode_digits :: "CountyCode \<Rightarrow> char \<times> char \<times> char" where
  "CountyCode_digits (CountyCode a b c) = (a, b, c)"

primrec CountyCode_as_str :: "CountyCode \<Rightarrow> string" where
  "CountyCode_as_str (CountyCode a b c) = [a, b, c]"

definition CountyCode_from_json :: "Json \<Rightarrow> FromJsonError + CountyCode" where
  "CountyCode_from_json v =
     and_then (String_from_json v) (\<lambda>s. map_err (Parsing \<circ> Any_County) (CountyCode_new s))"

definition CountyCode_to_cbor :: "CountyCode \<Rightarrow> Value" where
  "CountyCode_to_cbor c = VText (CountyCode_as_str c)"

section \<open>domestic_driving_privileges.rs\<close>

record DomesticVehicleClass =
  dvc_code :: "string"
  dvc_description :: "string"
  dvc_issue_date :: "Date option"
  dvc_expiry_date :: "Date option"

definition DomesticVehicleClass_from_map ::
    "'dt date_ops \<Rightarrow> (string, Json) btree_map \<Rightarrow> FromJsonError + DomesticVehicleClass" where
  "DomesticVehicleClass_from_map T m =
     (let code = from_json_opt String_from_json (bt_get m ''domestic_vehicle_class_code'');
         description = from_json_opt String_from_json (bt_get m ''domestic_vehicle_class_description'');
         issue_date = Option_from_json_opt (FullDate_from_json T) (bt_get m ''issue_date'');
         expiry_date = Option_from_json_opt (FullDate_from_json T) (bt_get m ''expiry_date'')
     in struct_result (concat
          [field_error ''domestic_vehicle_class_code'' code,
           field_error ''domestic_vehicle_class_description'' description,
           field_error ''issue_date'' issue_date,
           field_error ''expiry_date'' expiry_date])
        \<lparr> dvc_code = projr code,
          dvc_description = projr description,
          dvc_issue_date = projr issue_date,
          dvc_expiry_date = projr expiry_date \<rparr>)"

definition DomesticVehicleClass_from_json ::
    "'dt date_ops \<Rightarrow> Json \<Rightarrow> FromJsonError + DomesticVehicleClass" where
  "DomesticVehicleClass_from_json T v = and_then (as_object v) (DomesticVehicleClass_from_map T)"

definition DomesticVehicleClass_to_ns_map :: "DomesticVehicleClass \<Rightarrow> (string, Value) btree_map" where
  "DomesticVehicleClass_to_ns_map d = ns_map
     [ns_field ''domestic_vehicle_class_code'' (VText (dvc_code d)),
      ns_field ''domestic_vehicle_class_description'' (VText (dvc_description d)),
      ns_opt_field ''issue_date'' FullDate_into (dvc_issue_date d),
      ns_opt_field ''expiry_date'' FullDate_into (dvc_expiry_date d)]"

definition DomesticVehicleClass_to_cbor :: "DomesticVehicleClass \<Rightarrow> Value" where
  "DomesticVehicleClass_to_cbor d = ns_map_to_cbor (DomesticVehicleClass_to_ns_map d)"

record DomesticVehicleRestriction =
  dvr_code :: "string option"
  dvr_description :: "string"

definition DomesticVehicleRestriction_from_map ::
    "(string, Json) btree_map \<Rightarrow> FromJsonError + DomesticVehicleRestriction" where
  "DomesticVehicleRestriction_from_map m =
     (let code = Option_from_json_opt String_from_json (bt_get m ''domestic_vehicle_restriction_code'');
         description = from_json_opt String_from_json (bt_get m ''domestic_vehicle_restriction_description'')
     in struct_result (concat
          [field_error ''domestic_vehicle_restriction_code'' code,
           field_error ''domestic_vehicle_restriction_description'' description])
        \<lparr> dvr_code = projr code,
          dvr_description = projr description \<rparr>)"

definition DomesticVehicleRestriction_from_json ::
    "Json \<Rightarrow> FromJsonError + DomesticVehicleRestriction" where
  "DomesticVehicleRestriction_from_json v = and_then (as_object v) (DomesticVehicleRestriction_from_map )"

definition DomesticVehicleRestriction_to_ns_map :: "DomesticVehicleRestriction \<Rightarrow> (string, Value) btree_map" where
  "DomesticVehicleRestriction_to_ns_map d = ns_map
     [ns_opt_field ''domestic_vehicle_restriction_code'' VText (dvr_code d),
      ns_field ''domestic_vehicle_restriction_description'' (VText (dvr_description d))]"

definition DomesticVehicleRestriction_to_cbor :: "DomesticVehicleRestriction \<Rightarrow> Value" where
  "DomesticVehicleRestriction_to_cbor d = ns_map_to_cbor (DomesticVehicleRestriction_to_ns_map d)"

record DomesticVehicleEndorsement =
  dve_code :: "string option"
  dve_description :: "string"

definition DomesticVehicleEndorsement_from_map ::
    "(string, Json) btree_map \<Rightarrow> FromJsonError + DomesticVehicleEndorsement" where
  "DomesticVehicleEndorsement_from_map m =
     (let code = Option_from_json_opt String_from_json (bt_get m ''domestic_vehicle_endorsement_code'');
         description = from_json_opt String_from_json (bt_get m ''domestic_vehicle_endorsement_description'')
     in struct_result (concat
          [field_error ''domestic_vehicle_endorsement_code'' code,
           field_error ''domestic_vehicle_endorsement_description'' description])
        \<lparr> dve_code = projr code,
          dve_description = projr description \<rparr>)"

definition DomesticVehicleEndorsement_from_json ::
    "Json \<Rightarrow> FromJsonError + DomesticVehicleEndorsement" where
  "DomesticVehicleEndorsement_from_json v = and_then (as_object v) (DomesticVehicleEndorsement_from_map )"

definition DomesticVehicleEndorsement_to_ns_map :: "DomesticVehicleEndorsement \<Rightarrow> (string, Value) btree_map" where
  "DomesticVehicleEndorsement_to_ns_map d = ns_map
     [ns_opt_field ''domestic_vehicle_endorsement_code'' VText (dve_code d),
      ns_field ''domestic_vehicle_endorsement_description'' (VText (dve_description d))]"

definition DomesticVehicleEndorsement_to_cbor :: "DomesticVehicleEndorsement \<Rightarrow> Value" where
  "DomesticVehicleEndorsement_to_cbor d = ns_map_to_cbor (DomesticVehicleEndorsement_to_ns_map d)"

type_synonym DomesticVehicleRestrictions = "DomesticVehicleRestriction list"

definition DomesticVehicleRestrictions_from_json :: "Json \<Rightarrow> FromJsonError + DomesticVehicleRestrictions" where
  "DomesticVehicleRestrictions_from_json v = NonEmptyVec_from_json DomesticVehicleRestriction_from_json v"

definition DomesticVehicleRestrictions_to_cbor :: "DomesticVehicleRestrictions \<Rightarrow> Value" where
  "DomesticVehicleRestrictions_to_cbor r = VArray (map DomesticVehicleRestriction_to_cbor r)"

type_synonym DomesticVehicleEndorsements = "DomesticVehicleEndorsement list"

definition DomesticVehicleEndorsements_from_json :: "Json \<Rightarrow> FromJsonError + DomesticVehicleEndorsements" where
  "DomesticVehicleEndorsements_from_json v = NonEmptyVec_from_json DomesticVehicleEndorsement_from_json v"

definition DomesticVehicleEndorsements_to_cbor :: "DomesticVehicleEndorsements \<Rightarrow> Value" where
  "DomesticVehicleEndorsements_to_cbor r = VArray (map DomesticVehicleEndorsement_to_cbor r)"

record DomesticDrivingPrivilege =
  ddp_class :: "DomesticVehicleClass option"
  ddp_restrictions :: "DomesticVehicleRestrictions option"
  ddp_endorsements :: "DomesticVehicleEndorsements option"

definition DomesticDrivingPrivilege_from_map ::
    "'dt date_ops \<Rightarrow> (string, Json) btree_map \<Rightarrow> FromJsonError + DomesticDrivingPrivilege" where
  "DomesticDrivingPrivilege_from_map T m =
     (let vehicle_class = Option_from_json_opt (DomesticVehicleClass_from_json T) (bt_get m ''domestic_vehicle_class'');
         restrictions = Option_from_json_opt DomesticVehicleRestrictions_from_json (bt_get m ''domestic_vehicle_restrictions'');
         endorsements = Option_from_json_opt DomesticVehicleEndorsements_from_json (bt_get m ''domestic_vehicle_endorsements'')
     in struct_result (concat
          [field_error ''domestic_vehicle_class'' vehicle_class,
           field_error ''domestic_vehicle_restrictions'' restrictions,
           field_error ''domestic_vehicle_endorsements'' endorsements])
        \<lparr> ddp_class = projr vehicle_class,
          ddp_restrictions = projr restrictions,
          ddp_endorsements = projr endorsements \<rparr>)"

definition DomesticDrivingPrivilege_from_json ::
    "'dt date_ops \<Rightarrow> Json \<Rightarrow> FromJsonError + DomesticDrivingPrivilege" where
  "DomesticDrivingPrivilege_from_json T v = and_then (as_object v) (DomesticDrivingPrivilege_from_map T)"

definition DomesticDrivingPrivilege_to_ns_map :: "DomesticDrivingPrivilege \<Rightarrow> (string, Value) btree_map" where
  "DomesticDrivingPrivilege_to_ns_map d = ns_map
     [ns_opt_field ''domestic_vehicle_class'' DomesticVehicleClass_to_cbor (ddp_class d),
      ns_opt_field ''domestic_vehicle_restrictions'' DomesticVehicleRestrictions_to_cbor (ddp_restrictions d),
      ns_opt_field ''domestic_vehicle_endorsements'' DomesticVehicleEndorsements_to_cbor (ddp_endorsements d)]"

definition DomesticDrivingPrivilege_to_cbor :: "DomesticDrivingPrivilege \<Rightarrow> Value" where
  "DomesticDrivingPrivilege_to_cbor d = ns_map_to_cbor (DomesticDrivingPrivilege_to_ns_map d)"

type_synonym DomesticDrivingPrivileges = "DomesticDrivingPrivilege list"

definition DomesticDrivingPrivileges_from_json :: "'dt date_ops \<Rightarrow> Json \<Rightarrow> FromJsonError + DomesticDrivingPrivileges" where
  "DomesticDrivingPrivileges_from_json T v = Vec_from_json (DomesticDrivingPrivilege_from_json T) v"

definition DomesticDrivingPrivileges_to_cbor :: "DomesticDrivingPrivileges \<Rightarrow> Value" where
  "DomesticDrivingPrivileges_to_cbor d = VArray (map DomesticDrivingPrivilege_to_cbor d)"

section \<open>mod.rs\<close>

record OrgIso1801351Aamva =
  aamva_domestic_driving_privileges :: "DomesticDrivingPrivileges"
  aamva_name_suffix :: "NameSuffix option"
  aamva_organ_donor :: "Present option"
  aamva_veteran :: "Present option"
  aamva_family_name_truncation :: "NameTruncation"
  aamva_given_name_truncation :: "NameTruncation"
  aamva_aka_family_name_v2 :: "string option"
  aamva_aka_given_name_v2 :: "string option"
  aamva_aka_suffix :: "NameSuffix option"
  aamva_weight_range :: "WeightRange option"
  aamva_race_ethnicity :: "RaceAndEthnicity option"
  aamva_edl_credential :: "EDLIndicator option"
  aamva_sex :: "AamvaSex"
  aamva_dhs_compliance :: "DHSCompliance"
  aamva_resident_county :: "CountyCode option"
  aamva_hazmat_endorsement_expiration_date :: "Date option"
  aamva_cdl_indicator :: "Present option"
  aamva_dhs_compliance_text :: "string option"
  aamva_dhs_temporary_lawful_status :: "Present option"

definition OrgIso1801351Aamva_from_map ::
    "'dt date_ops \<Rightarrow> (string, Json) btree_map \<Rightarrow> FromJsonError + OrgIso1801351Aamva" where
  "OrgIso1801351Aamva_from_map T m =
     (let domestic_driving_privileges = from_json_opt (DomesticDrivingPrivileges_from_json T) (bt_get m ''domestic_driving_privileges'');
         name_suffix = Option_from_json_opt NameSuffix_from_json (bt_get m ''name_suffix'');
         organ_donor = Option_from_json_opt Present_from_json (bt_get m ''organ_donor'');
         veteran = Option_from_json_opt Present_from_json (bt_get m ''veteran'');
         family_name_truncation = from_json_opt NameTruncation_from_json (bt_get m ''family_name_truncation'');
         given_name_truncation = from_json_opt NameTruncation_from_json (bt_get m ''given_name_truncation'');
         aka_family_name_v2 = Option_from_json_opt Latin1_from_json (bt_get m ''aka_family_name.v2'');
         aka_given_name_v2 = Option_from_json_opt Latin1_from_json (bt_get m ''aka_given_name.v2'');
         aka_suffix = Option_from_json_opt NameSuffix_from_json (bt_get m ''aka_suffix'');
         weight_range = Option_from_json_opt WeightRange_from_json (bt_get m ''weight_range'');
         race_ethnicity = Option_from_json_opt RaceAndEthnicity_from_json (bt_get m ''race_ethnicity'');
         edl_credential = Option_from_json_opt EDLIndicator_from_json (bt_get m ''EDL_credential'');
         sex = from_json_opt AamvaSex_from_json (bt_get m ''sex'');
         dhs_compliance = from_json_opt DHSCompliance_from_json (bt_get m ''DHS_compliance'');
         resident_county = Option_from_json_opt CountyCode_from_json (bt_get m ''resident_county'');
         hazmat_endorsement_expiration_date = Option_from_json_opt (FullDate_from_json T) (bt_get m ''hazmat_endorsement_expiration_date'');
         cdl_indicator = Option_from_json_opt Present_from_json (bt_get m ''CDL_indicator'');
         dhs_compliance_text = Option_from_json_opt String_from_json (bt_get m ''DHS_compliance_text'');
         dhs_temporary_lawful_status = Option_from_json_opt Present_from_json (bt_get m ''DHS_temporary_lawful_status'')
     in struct_result (concat
          [field_error ''domestic_driving_privileges'' domestic_driving_privileges,
           field_error ''name_suffix'' name_suffix,
           field_error ''organ_donor'' organ_donor,
           field_error ''veteran'' veteran,
           field_error ''family_name_truncation'' family_name_truncation,
           field_error ''given_name_truncation'' given_name_truncation,
           field_error ''aka_family_name.v2'' aka_family_name_v2,
           field_error ''aka_given_name.v2'' aka_given_name_v2,
           field_error ''aka_suffix'' aka_suffix,
           field_error ''weight_range'' weight_range,
           field_error ''race_ethnicity'' race_ethnicity,
           field_error ''EDL_credential'' edl_credential,
           field_error ''sex'' sex,
           field_error ''DHS_compliance'' dhs_compliance,
           field_error ''resident_county'' resident_county,
           field_error ''hazmat_endorsement_expiration_date'' hazmat_endorsement_expiration_date,
           field_error ''CDL_indicator'' cdl_indicator,
           field_error ''DHS_compliance_text'' dhs_compliance_text,
           field_error ''DHS_temporary_lawful_status'' dhs_temporary_lawful_status])
        \<lparr> aamva_domestic_driving_privileges = projr domestic_driving_privileges,
          aamva_name_suffix = projr name_suffix,
          aamva_organ_donor = projr organ_donor,
          aamva_veteran = projr veteran,
          aamva_family_name_truncation = projr family_name_truncation,
          aamva_given_name_truncation = projr given_name_truncation,
          aamva_aka_family_name_v2 = projr aka_family_name_v2,
          aamva_aka_given_name_v2 = projr aka_given_name_v2,
          aamva_aka_suffix = projr aka_suffix,
          aamva_weight_range = projr weight_range,
          aamva_race_ethnicity = projr race_ethnicity,
          aamva_edl_credential = projr edl_credential,
          aamva_sex = projr sex,
          aamva_dhs_compliance = projr dhs_compliance,
          aamva_resident_county = projr resident_county,
          aamva_hazmat_endorsement_expiration_date = projr hazmat_endorsement_expiration_date,
          aamva_cdl_indicator = projr cdl_indicator,
          aamva_dhs_compliance_text = projr dhs_compliance_text,
          aamva_dhs_temporary_lawful_status = projr dhs_temporary_lawful_status \<rparr>)"

definition OrgIso1801351Aamva_from_json ::
    "'dt date_ops \<Rightarrow> Json \<Rightarrow> FromJsonError + OrgIso1801351Aamva" where
  "OrgIso1801351Aamva_from_json T v = and_then (as_object v) (OrgIso1801351Aamva_from_map T)"

definition OrgIso1801351Aamva_to_ns_map :: "OrgIso1801351Aamva \<Rightarrow> (string, Value) btree_map" where
  "OrgIso1801351Aamva_to_ns_map d = ns_map
     [ns_field ''domestic_driving_privileges'' (DomesticDrivingPrivileges_to_cbor (aamva_domestic_driving_privileges d)),
      ns_opt_field ''name_suffix'' NameSuffix_to_cbor (aamva_name_suffix d),
      ns_opt_field ''organ_donor'' Present_to_cbor (aamva_organ_donor d),
      ns_opt_field ''veteran'' Present_to_cbor (aamva_veteran d),
      ns_field ''family_name_truncation'' (NameTruncation_to_cbor (aamva_family_name_truncation d)),
      ns_field ''given_name_truncation'' (NameTruncation_to_cbor (aamva_given_name_truncation d)),
      ns_opt_field ''aka_family_name.v2'' Latin1_into (aamva_aka_family_name_v2 d),
      ns_opt_field ''aka_given_name.v2'' Latin1_into (aamva_aka_given_name_v2 d),
      ns_opt_field ''aka_suffix'' NameSuffix_to_cbor (aamva_aka_suffix d),
      ns_opt_field ''weight_range'' WeightRange_to_cbor (aamva_weight_range d),
      ns_opt_field ''race_ethnicity'' RaceAndEthnicity_to_cbor (aamva_race_ethnicity d),
      ns_opt_field ''EDL_credential'' EDLIndicator_to_cbor (aamva_edl_credential d),
      ns_field ''sex'' (AamvaSex_to_cbor (aamva_sex d)),
      ns_field ''DHS_compliance'' (DHSCompliance_to_cbor (aamva_dhs_compliance d)),
      ns_opt_field ''resident_county'' CountyCode_to_cbor (aamva_resident_county d),
      ns_opt_field ''hazmat_endorsement_expiration_date'' FullDate_into (aamva_hazmat_endorsement_expiration_date d),
      ns_opt_field ''CDL_indicator'' Present_to_cbor (aamva_cdl_indicator d),
      ns_opt_field ''DHS_compliance_text'' VText (aamva_dhs_compliance_text d),
      ns_opt_field ''DHS_temporary_lawful_status'' Present_to_cbor (aamva_dhs_temporary_lawful_status d)]"

definition OrgIso1801351Aamva_to_cbor :: "OrgIso1801351Aamva \<Rightarrow> Value" where
  "OrgIso1801351Aamva_to_cbor d = ns_map_to_cbor (OrgIso1801351Aamva_to_ns_map d)"

section \<open>Tables and ranges\<close>

interpretation name_suffix: code_table NameSuffix_to_str nameSuffix_arms
proof
  show "(NameSuffix_to_str c, c) \<in> set nameSuffix_arms" for c
    by (cases c) (simp_all add: nameSuffix_arms_def)
qed (auto simp: nameSuffix_arms_def)

lemma NameSuffix_from_json_Inr [result_simps]:
  "NameSuffix_from_json v = Inr c \<longleftrightarrow> v = JString (NameSuffix_to_str c)"
  by (auto simp: NameSuffix_from_json_def NameSuffix_from_str_def match_str_def result_simps name_suffix.lookup_Some)

interpretation name_truncation: code_table NameTruncation_to_str nameTruncation_arms
proof
  show "(NameTruncation_to_str c, c) \<in> set nameTruncation_arms" for c
    by (cases c) (simp_all add: nameTruncation_arms_def)
qed (auto simp: nameTruncation_arms_def)

lemma NameTruncation_from_json_Inr [result_simps]:
  "NameTruncation_from_json v = Inr c \<longleftrightarrow> v = JString (NameTruncation_to_str c)"
  by (auto simp: NameTruncation_from_json_def NameTruncation_from_str_def match_str_def result_simps name_truncation.lookup_Some)

interpretation race: code_table RaceAndEthnicity_to_str raceAndEthnicity_arms
proof
  show "(RaceAndEthnicity_to_str c, c) \<in> set raceAndEthnicity_arms" for c
    by (cases c) (simp_all add: raceAndEthnicity_arms_def)
qed (auto simp: raceAndEthnicity_arms_def)

lemma RaceAndEthnicity_from_json_Inr [result_simps]:
  "RaceAndEthnicity_from_json v = Inr c \<longleftrightarrow> v = JString (RaceAndEthnicity_to_str c)"
  by (auto simp: RaceAndEthnicity_from_json_def RaceAndEthnicity_from_str_def match_str_def result_simps race.lookup_Some)

interpretation dhs: code_table DHSCompliance_to_str dHSCompliance_arms
proof
  show "(DHSCompliance_to_str c, c) \<in> set dHSCompliance_arms" for c
    by (cases c) (simp_all add: dHSCompliance_arms_def)
qed (auto simp: dHSCompliance_arms_def)

lemma DHSCompliance_from_json_Inr [result_simps]:
  "DHSCompliance_from_json v = Inr c \<longleftrightarrow> v = JString (DHSCompliance_to_str c)"
  by (auto simp: DHSCompliance_from_json_def DHSCompliance_from_str_def match_str_def result_simps dhs.lookup_Some)

lemma AamvaSex_from_json_Inr [result_simps]:
  "AamvaSex_from_json v = Inr s \<longleftrightarrow> v = JNumber (uint (u8_from_AamvaSex s))"
proof -
  have "AamvaSex_try_from u = Inr s \<longleftrightarrow> u = ucast (u8_from_AamvaSex s)" for u
    by (cases s) (auto simp: AamvaSex_try_from_def)
  then show ?thesis
    by (cases s) (auto simp: AamvaSex_from_json_def result_simps)
qed

lemma EDLIndicator_from_json_Inr [result_simps]:
  "EDLIndicator_from_json v = Inr s \<longleftrightarrow> v = JNumber (uint (u8_from_EDLIndicator s))"
proof -
  have "EDLIndicator_try_from u = Inr s \<longleftrightarrow> u = ucast (u8_from_EDLIndicator s)" for u
    by (cases s) (auto simp: EDLIndicator_try_from_def)
  then show ?thesis
    by (cases s) (auto simp: EDLIndicator_from_json_def result_simps)
qed

lemma WeightRange_from_json_Inr [result_simps]:
  "WeightRange_from_json v = Inr s \<longleftrightarrow> v = JNumber (uint (u8_from_WeightRange s))"
proof -
  have "WeightRange_try_from u = Inr s \<longleftrightarrow> u = ucast (u8_from_WeightRange s)" for u
    by (cases s) (auto simp: WeightRange_try_from_def)
  then show ?thesis
    by (cases s) (auto simp: WeightRange_from_json_def result_simps)
qed

lemma Present_from_json_Inr [result_simps]: "Present_from_json v = Inr p \<longleftrightarrow> v = JNumber 1"
  by (cases p) (auto simp: Present_from_json_def result_simps)

lemma next_digit_Inr [result_simps]: "next_digit s = Inr p \<longleftrightarrow> is_digit (fst p) \<and> s = fst p # snd p"
  by (cases p) (auto simp: next_digit_def split: list.splits if_splits)

text \<open>A county code is three digits, no more and no fewer.\<close>

lemma CountyCode_new_Inr [result_simps]:
  "CountyCode_new s = Inr c \<longleftrightarrow> s = CountyCode_as_str c \<and> list_all is_digit s"
  by (cases c) (auto simp: CountyCode_new_def to_treble_digits_def and_then_Inr next_digit_Inr case_prod_unfold
      split: if_splits)

section \<open>The namespace\<close>

lemma OrgIso1801351Aamva_from_map_Inr:
  "OrgIso1801351Aamva_from_map T m = Inr d \<longleftrightarrow>
     from_json_opt (DomesticDrivingPrivileges_from_json T) (bt_get m ''domestic_driving_privileges'') = Inr (aamva_domestic_driving_privileges d) \<and>
     Option_from_json_opt NameSuffix_from_json (bt_get m ''name_suffix'') = Inr (aamva_name_suffix d) \<and>
     Option_from_json_opt Present_from_json (bt_get m ''organ_donor'') = Inr (aamva_organ_donor d) \<and>
     Option_from_json_opt Present_from_json (bt_get m ''veteran'') = Inr (aamva_veteran d) \<and>
     from_json_opt NameTruncation_from_json (bt_get m ''family_name_truncation'') = Inr (aamva_family_name_truncation d) \<and>
     from_json_opt NameTruncation_from_json (bt_get m ''given_name_truncation'') = Inr (aamva_given_name_truncation d) \<and>
     Option_from_json_opt Latin1_from_json (bt_get m ''aka_family_name.v2'') = Inr (aamva_aka_family_name_v2 d) \<and>
     Option_from_json_opt Latin1_from_json (bt_get m ''aka_given_name.v2'') = Inr (aamva_aka_given_name_v2 d) \<and>
     Option_from_json_opt NameSuffix_from_json (bt_get m ''aka_suffix'') = Inr (aamva_aka_suffix d) \<and>
     Option_from_json_opt WeightRange_from_json (bt_get m ''weight_range'') = Inr (aamva_weight_range d) \<and>
     Option_from_json_opt RaceAndEthnicity_from_json (bt_get m ''race_ethnicity'') = Inr (aamva_race_ethnicity d) \<and>
     Option_from_json_opt EDLIndicator_from_json (bt_get m ''EDL_credential'') = Inr (aamva_edl_credential d) \<and>
     from_json_opt AamvaSex_from_json (bt_get m ''sex'') = Inr (aamva_sex d) \<and>
     from_json_opt DHSCompliance_from_json (bt_get m ''DHS_compliance'') = Inr (aamva_dhs_compliance d) \<and>
     Option_from_json_opt CountyCode_from_json (bt_get m ''resident_county'') = Inr (aamva_resident_county d) \<and>
     Option_from_json_opt (FullDate_from_json T) (bt_get m ''hazmat_endorsement_expiration_date'') = Inr (aamva_hazmat_endorsement_expiration_date d) \<and>
     Option_from_json_opt Present_from_json (bt_get m ''CDL_indicator'') = Inr (aamva_cdl_indicator d) \<and>
     Option_from_json_opt String_from_json (bt_get m ''DHS_compliance_text'') = Inr (aamva_dhs_compliance_text d) \<and>
     Option_from_json_opt Present_from_json (bt_get m ''DHS_temporary_lawful_status'') = Inr (aamva_dhs_temporary_lawful_status d)"
  (is "_ \<longleftrightarrow> ?fields")
proof
  assume "OrgIso1801351Aamva_from_map T m = Inr d"
  then show ?fields
    unfolding OrgIso1801351Aamva_from_map_def Let_def
    by (clarsimp simp: struct_result_Inr field_error_Nil)
next
  assume ?fields
  then show "OrgIso1801351Aamva_from_map T m = Inr d"
    unfolding OrgIso1801351Aamva_from_map_def Let_def
    by (elim conjE) (simp add: struct_result_Inr)
qed

definition aamva_names :: "string list" where
  "aamva_names =
    [''domestic_driving_privileges'', ''name_suffix'', ''organ_donor'', ''veteran'',
     ''family_name_truncation'', ''given_name_truncation'', ''aka_family_name.v2'',
     ''aka_given_name.v2'', ''aka_suffix'', ''weight_range'', ''race_ethnicity'',
     ''EDL_credential'', ''sex'', ''DHS_compliance'', ''resident_county'',
     ''hazmat_endorsement_expiration_date'', ''CDL_indicator'', ''DHS_compliance_text'',
     ''DHS_temporary_lawful_status'']"

lemma aamva_null_refused:
  "DomesticDrivingPrivileges_from_json T JNull \<noteq> Inr p" "NameTruncation_from_json JNull \<noteq> Inr n"
  "AamvaSex_from_json JNull \<noteq> Inr s" "DHSCompliance_from_json JNull \<noteq> Inr c"
  by (auto simp: DomesticDrivingPrivileges_from_json_def result_simps)

lemma OrgIso1801351Aamva_keys:
  assumes d: "OrgIso1801351Aamva_from_map T m = Inr d"
  shows "k \<in> fst ` set (OrgIso1801351Aamva_to_ns_map d) \<longleftrightarrow> present m k \<and> k \<in> set aamva_names"
  using d unfolding OrgIso1801351Aamva_from_map_Inr
proof (elim conjE, goal_cases)
  case 1
  note keys = field_keys [OF 1(1) aamva_null_refused(1)] opt_field_keys [OF 1(2)] opt_field_keys [OF 1(3)]
    opt_field_keys [OF 1(4)] field_keys [OF 1(5) aamva_null_refused(2)]
    field_keys [OF 1(6) aamva_null_refused(2)] opt_field_keys [OF 1(7)] opt_field_keys [OF 1(8)]
    opt_field_keys [OF 1(9)] opt_field_keys [OF 1(10)] opt_field_keys [OF 1(11)]
    opt_field_keys [OF 1(12)] field_keys [OF 1(13) aamva_null_refused(3)]
    field_keys [OF 1(14) aamva_null_refused(4)] opt_field_keys [OF 1(15)]
    opt_field_keys [OF 1(16)] opt_field_keys [OF 1(17)] opt_field_keys [OF 1(18)]
    opt_field_keys [OF 1(19)]
  have "k \<in> fst ` set (OrgIso1801351Aamva_to_ns_map d) \<longleftrightarrow> (\<exists>n \<in> set aamva_names. k = n \<and> present m k)"
    unfolding OrgIso1801351Aamva_to_ns_map_def ns_keys aamva_names_def
    by (simp only: list.set bex_simps ex_disj_distrib keys conj_disj_distribR simp_thms disj_ac)
  then show ?case by blast
qed

end
