(* ===== verification/Issued_Elements.thy ===== *)
theory Issued_Elements
  imports Reader_Session Age_Attestation Aamva_Namespace
begin

text \<open>
  The data elements across the life of a document: the namespaces read from JSON are accepted
  for issuance (\<open>validate_namespace_shape\<close> of \<open>Mdoc_Plan\<close>), every value they contain is one the
  reader turns back into JSON (\<open>parse_response\<close> of \<open>Reader_Session\<close>), and the age elements are
  among those the device recognises (\<open>AgeOver_try_from\<close> of \<open>Age_Attestation\<close>).
\<close>

section \<open>Values the reader can read\<close>

text \<open>
  Text, booleans, bytes, integers below the bound of \<^verbatim>\<open>u32\<close>, tagged text, and arrays and maps of
  such values.
\<close>

fun plain :: "Value \<Rightarrow> bool" where
  "plain (VText _) \<longleftrightarrow> True"
| "plain (VBool _) \<longleftrightarrow> True"
| "plain (VBytes _) \<longleftrightarrow> True"
| "plain (VInteger i) \<longleftrightarrow> 0 \<le> i \<and> i < 2 ^ 32"
| "plain (VTag _ v) \<longleftrightarrow> (\<exists>s. v = VText s)"
| "plain (VArray vs) \<longleftrightarrow> (\<forall>v \<in> set vs. plain v)"
| "plain (VMap m) \<longleftrightarrow> (\<forall>p \<in> set m. plain (snd p))"
| "plain VNull \<longleftrightarrow> False"
| "plain (VFloat _) \<longleftrightarrow> False"

text \<open>The conversion of the integers of 32 bits to JSON numbers does not panic.\<close>

definition reads_u32 :: "(int \<Rightarrow> Json option) \<Rightarrow> bool" where
  "reads_u32 integer \<longleftrightarrow> (\<forall>i. 0 \<le> i \<and> i < 2 ^ 32 \<longrightarrow> integer i \<noteq> None)"

lemma plain_read:
  "reads_u32 integer \<Longrightarrow> plain v \<Longrightarrow> \<exists>j. parse_response integer v = Some (Inr j)"
  "reads_u32 integer \<Longrightarrow> \<forall>v \<in> set vs. plain v \<Longrightarrow> \<exists>js. parse_array integer vs = Some (Inr js)"
  "reads_u32 integer \<Longrightarrow> \<forall>p \<in> set m. plain (snd p) \<Longrightarrow> \<exists>r. parse_map integer m acc = Some (Inr r)"
proof (induction integer v and integer vs and integer m acc rule: parse_response_parse_array_parse_map.induct)
  case (7 integer i)
  then show ?case by (auto simp: reads_u32_def)
qed (fastforce split: Value.splits)+

section \<open>What is written is readable\<close>

definition plain_entries :: "(string \<times> Value) list \<Rightarrow> bool" where
  "plain_entries e \<longleftrightarrow> (\<forall>p \<in> set e. plain (snd p))"

lemma plain_entries_field: "plain_entries (ns_field n v) \<longleftrightarrow> plain v"
  by (simp add: plain_entries_def ns_field_def)

lemma plain_entries_opt: "(\<And>x. plain (f x)) \<Longrightarrow> plain_entries (ns_opt_field n f o')"
  by (cases o') (simp_all add: plain_entries_def ns_opt_field_def)

lemma ns_map_mem: "p \<in> set (ns_map entries) \<Longrightarrow> \<exists>e \<in> set entries. p \<in> set e"
proof -
  assume "p \<in> set (ns_map entries)"
  then have "bt_get (ns_map entries) (fst p) = Some (snd p)"
    using bt_mem_iff [OF ns_map_wf, of "fst p" "snd p" entries] by simp
  then have "p \<in> set (rev (concat entries))"
    unfolding ns_map_of_list bt_get_of_list using map_of_SomeD by fastforce
  then show ?thesis by auto
qed

lemma plain_ns_map: "\<forall>e \<in> set entries. plain_entries e \<Longrightarrow> \<forall>p \<in> set (ns_map entries). plain (snd p)"
  using ns_map_mem plain_entries_def by metis

lemma plain_ns_map_to_cbor: "\<forall>e \<in> set entries. plain_entries e \<Longrightarrow> plain (ns_map_to_cbor (ns_map entries))"
  using plain_ns_map by (fastforce simp: ns_map_to_cbor_def)

lemma plain_u32: "plain (u32_to_cbor n)"
  using uint_lt2p [of n] by (simp add: u32_to_cbor_def)

lemma plain_u8: "plain (u8_to_cbor n)"
  using uint_lt2p [of n] by (simp add: u8_to_cbor_def)

lemma plain_basic:
  "plain (Latin1_into l)" "plain (FullDate_into d)" "plain (TDate_into t)" "plain (TDateOrFullDate_into td)"
  "plain (Alpha2_into c)" "plain (ByteStr_into b)" "plain (UN_into u)" "plain (Sex_into s)"
  "plain (EyeColour_into e)" "plain (HairColour_into h)" "plain (IssuingJurisdiction_into i)"
  by (simp_all add: Latin1_into_def FullDate_into_def TDate_into_def Alpha2_into_def ByteStr_into_def
      UN_into_def Sex_into_def EyeColour_into_def HairColour_into_def IssuingJurisdiction_into_def plain_u8)
    (cases td; simp add: TDate_into_def FullDate_into_def)

lemma plain_aamva:
  "plain (NameSuffix_to_cbor n)" "plain (NameTruncation_to_cbor t)" "plain (RaceAndEthnicity_to_cbor r)"
  "plain (DHSCompliance_to_cbor d)" "plain (AamvaSex_to_cbor s)" "plain (EDLIndicator_to_cbor e)"
  "plain (WeightRange_to_cbor w)" "plain (Present_to_cbor p)" "plain (CountyCode_to_cbor c)"
  by (simp_all add: NameSuffix_to_cbor_def NameTruncation_to_cbor_def RaceAndEthnicity_to_cbor_def
      DHSCompliance_to_cbor_def AamvaSex_to_cbor_def EDLIndicator_to_cbor_def WeightRange_to_cbor_def
      Present_to_cbor_def CountyCode_to_cbor_def plain_u8)

lemmas plain_simps = plain_entries_field plain_entries_opt plain_u32 plain_u8 plain_basic plain_aamva

lemma plain_privileges: "plain (DrivingPrivileges_into p)"
proof -
  have "plain (Code_to_cbor c)" for c
    unfolding Code_to_cbor_def by (rule plain_ns_map_to_cbor) (simp add: plain_simps)
  then have "plain (Codes_into c)" for c by (simp add: Codes_into_def)
  then have "plain (DrivingPrivilege_to_cbor q)" for q
    unfolding DrivingPrivilege_to_cbor_def by (intro plain_ns_map_to_cbor) (simp add: plain_simps)
  then show ?thesis by (simp add: DrivingPrivileges_into_def)
qed

lemma plain_domestic: "plain (DomesticDrivingPrivileges_to_cbor p)"
proof -
  have "plain (DomesticVehicleRestriction_to_cbor r)" for r
    unfolding DomesticVehicleRestriction_to_cbor_def DomesticVehicleRestriction_to_ns_map_def
    by (rule plain_ns_map_to_cbor) (simp add: plain_simps)
  moreover have "plain (DomesticVehicleEndorsement_to_cbor r)" for r
    unfolding DomesticVehicleEndorsement_to_cbor_def DomesticVehicleEndorsement_to_ns_map_def
    by (rule plain_ns_map_to_cbor) (simp add: plain_simps)
  moreover have "plain (DomesticVehicleClass_to_cbor c)" for c
    unfolding DomesticVehicleClass_to_cbor_def DomesticVehicleClass_to_ns_map_def
    by (rule plain_ns_map_to_cbor) (simp add: plain_simps)
  ultimately have "plain (DomesticDrivingPrivilege_to_cbor q)" for q
    unfolding DomesticDrivingPrivilege_to_cbor_def DomesticDrivingPrivilege_to_ns_map_def
    by (intro plain_ns_map_to_cbor)
      (simp add: plain_simps DomesticVehicleRestrictions_to_cbor_def DomesticVehicleEndorsements_to_cbor_def)
  then show ?thesis by (simp add: DomesticDrivingPrivileges_to_cbor_def)
qed

lemma plain_families:
  "plain_entries (ns_many (AgeOver_to_ns_map a))" "plain_entries (ns_many (BiometricTemplate_to_ns_map b))"
proof -
  have "plain (snd p)" if "p \<in> set (AgeOver_to_ns_map a)" for p
    using ns_map_mem [of p "[map (\<lambda>(k, v). case k of Age x y \<Rightarrow> (''age_over_'' @ [x, y], VBool v)) a]"] that
    by (auto simp: AgeOver_to_ns_map_def ns_map_of_list split: Age.splits)
  moreover have "plain (snd p)" if "p \<in> set (BiometricTemplate_to_ns_map b)" for p
    using ns_map_mem [of p "[map (\<lambda>(k, v). (''biometric_template_'' @ k, ByteStr_into v)) b]"] that
    by (auto simp: BiometricTemplate_to_ns_map_def ns_map_of_list plain_basic)
  ultimately show "plain_entries (ns_many (AgeOver_to_ns_map a))"
    "plain_entries (ns_many (BiometricTemplate_to_ns_map b))"
    by (simp_all add: plain_entries_def ns_many_def)
qed

lemma plain_iso: "p \<in> set (OrgIso1801351_to_ns_map d) \<Longrightarrow> plain (snd p)"
proof -
  have "\<forall>p \<in> set (OrgIso1801351_to_ns_map d). plain (snd p)"
    unfolding OrgIso1801351_to_ns_map_def
    by (rule plain_ns_map) (simp add: plain_simps plain_privileges plain_families)
  then show "p \<in> set (OrgIso1801351_to_ns_map d) \<Longrightarrow> plain (snd p)" by blast
qed

lemma plain_aamva_ns: "p \<in> set (OrgIso1801351Aamva_to_ns_map d) \<Longrightarrow> plain (snd p)"
proof -
  have "\<forall>p \<in> set (OrgIso1801351Aamva_to_ns_map d). plain (snd p)"
    unfolding OrgIso1801351Aamva_to_ns_map_def
    by (rule plain_ns_map) (simp add: plain_simps plain_domestic)
  then show "p \<in> set (OrgIso1801351Aamva_to_ns_map d) \<Longrightarrow> plain (snd p)" by blast
qed

section \<open>The namespaces are accepted for issuance\<close>

lemma ns_map_not_empty: "e \<in> set entries \<Longrightarrow> e \<noteq> [] \<Longrightarrow> ns_map entries \<noteq> []"
proof
  assume e: "e \<in> set entries" "e \<noteq> []" "ns_map entries = []"
  then have "fst (hd e) \<in> fst ` set (ns_map entries)"
    unfolding ns_keys using hd_in_set [of e] by blast
  with e show False by simp
qed

lemma iso_not_empty: "OrgIso1801351_to_ns_map d \<noteq> []"
  unfolding OrgIso1801351_to_ns_map_def
  by (rule ns_map_not_empty, rule list.set_intros(1)) (simp add: ns_field_def)

lemma aamva_not_empty: "OrgIso1801351Aamva_to_ns_map d \<noteq> []"
  unfolding OrgIso1801351Aamva_to_ns_map_def
  by (rule ns_map_not_empty, rule list.set_intros(1)) (simp add: ns_field_def)

section \<open>Age elements are recognised by the device\<close>

lemma is_digit_value: "is_digit c \<Longrightarrow> \<exists>n < 10. digit_value c = Some n"
  by (auto simp: is_digit_def digit_value_def less_eq_char_def Let_def)

lemma age_key_recognised:
  assumes "is_digit x" "is_digit y"
  shows "\<exists>n < 100. AgeOver_try_from (age_key (Age x y)) = Inr n"
proof -
  obtain i j where d: "i < 10" "digit_value x = Some i" "j < 10" "digit_value y = Some j"
    using is_digit_value assms by metis
  have "x \<noteq> CHR ''+''" using assms(1) by (auto simp: is_digit_def less_eq_char_def)
  then have "parse_u8 [x, y] = Some (i * 10 + j)" using d by (simp add: parse_u8_def)
  then show ?thesis
    using d by (intro exI [of _ "i * 10 + j"])
      (simp add: AgeOver_try_from_def age_key_Age del: append.simps)
qed

section \<open>Properties\<close>

text \<open>C33. Namespaces read from JSON can be issued and presented: the two namespaces of a licence pass
  the check of shape that issuance makes, and every value in either of them is one the reader
  converts to JSON without an error or a panic, provided the JSON numbers cover 32 bits. So no
  element the model issues is dropped by the reader, and its age elements are ones the
  device recognises as claims.
\<close>

theorem issued_elements_usable:
  assumes "reads_u32 integer"
  shows "validate_namespace_shape
      (bt_of_list [(''org.iso.18013.5.1'', OrgIso1801351_to_ns_map d),
        (''org.iso.18013.5.1.aamva'', OrgIso1801351Aamva_to_ns_map a)]) = Inr () \<and>
    ((n, v) \<in> set (OrgIso1801351_to_ns_map d) \<union> set (OrgIso1801351Aamva_to_ns_map a) \<longrightarrow>
      (\<exists>j. parse_response integer v = Some (Inr j)) \<and>
      (is_age_key n \<longrightarrow> (\<exists>k < 100. AgeOver_try_from n = Inr k)))"
proof -
  have "validate_namespace_shape
      (bt_of_list [(''org.iso.18013.5.1'', OrgIso1801351_to_ns_map d),
        (''org.iso.18013.5.1.aamva'', OrgIso1801351Aamva_to_ns_map a)]) = Inr ()"
    by (simp add: validate_namespace_shape_def bt_of_list_def iso_not_empty aamva_not_empty)
  moreover have "\<exists>j. parse_response integer v = Some (Inr j)"
    if "(n, v) \<in> set (OrgIso1801351_to_ns_map d) \<union> set (OrgIso1801351Aamva_to_ns_map a)"
    using plain_read(1) [OF assms] plain_iso [of "(n, v)"] plain_aamva_ns [of "(n, v)"] that by auto
  moreover have "\<exists>k < 100. AgeOver_try_from n = Inr k" if "is_age_key n"
    using that age_key_recognised unfolding is_age_key_def not_None_eq age_key_parse by blast
  ultimately show ?thesis by blast
qed

definition sample_aamva :: OrgIso1801351Aamva where
  "sample_aamva = projr (OrgIso1801351Aamva_from_json sample_date_ops (JObject
     [(''DHS_compliance'', JString ''F''), (''domestic_driving_privileges'', JArray []),
      (''family_name_truncation'', JString ''N''), (''given_name_truncation'', JString ''N''),
      (''sex'', JNumber 1)]))"

theorem issued_elements_usable_witness:
  "\<exists>v j. (''age_over_18'', v) \<in> set (OrgIso1801351_to_ns_map sample_licence) \<and>
     parse_response (\<lambda>i. Some (JNumber i)) v = Some (Inr j) \<and>
     (\<exists>k. AgeOver_try_from ''age_over_18'' = Inr k) \<and>
     validate_namespace_shape
      (bt_of_list [(''org.iso.18013.5.1'', OrgIso1801351_to_ns_map sample_licence),
        (''org.iso.18013.5.1.aamva'', OrgIso1801351Aamva_to_ns_map sample_aamva)]) = Inr ()"
proof -
  have reads: "reads_u32 (\<lambda>i. Some (JNumber i))" by (simp add: reads_u32_def)
  have age: "is_age_key ''age_over_18''" "present sample_object ''age_over_18''" by code_simp+
  then have "''age_over_18'' \<in> fst ` set (OrgIso1801351_to_ns_map sample_licence)"
    unfolding OrgIso1801351_keys [OF sample_object_wf sample_object_map] by blast
  then obtain v where mem: "(''age_over_18'', v) \<in> set (OrgIso1801351_to_ns_map sample_licence)" by auto
  show ?thesis
    using issued_elements_usable [OF reads, of sample_licence sample_aamva "''age_over_18''" v]
      mem age by blast
qed

end
