(* ===== verification/Mdoc_Success.thy ===== *)
theory Mdoc_Success
  imports Mdoc_Default
begin

text \<open>
  Preparation succeeds: when the encoders do not fail and the random generator goes on offering
  identifiers that are not yet in use, every well-shaped document is prepared.
\<close>

text \<open>The generator offers a fresh identifier whatever fewer than \<open>n\<close> identifiers are in use.\<close>

definition offers_fresh :: "nat \<Rightarrow> 'r rng_ops \<Rightarrow> bool" where
  "offers_fresh n g \<longleftrightarrow> (\<forall>used r. finite used \<and> card used < n \<longrightarrow> (\<exists>k. fst (offer g k r) \<notin> used))"

definition encodes_all :: "('v, 'vi, 'r) issuer \<Rightarrow> bool" where
  "encodes_all I \<longleftrightarrow> (\<forall>i. \<exists>b. encode_item (is_codec I) i = Inr b) \<and>
     (\<forall>t b. \<exists>x. encode_value (is_codec I) (VTag t (VBytes b)) = Inr x) \<and> (\<forall>m. \<exists>b. is_encode_mso I m = Inr b)"

text \<open>The most digest jobs a document can have: its elements and nine decoys per namespace.\<close>

definition most_jobs :: "(string \<times> 'a list) list \<Rightarrow> nat" where
  "most_jobs namespaces = sum_list (map (\<lambda>ns. length (snd ns) + 9) namespaces)"

lemma most_jobs_simps [simp]:
  "most_jobs [] = 0" "most_jobs ((name, es) # namespaces) = length es + 9 + most_jobs namespaces"
  by (simp_all add: most_jobs_def)

section \<open>Identifiers and items\<close>

lemma generate_succeeds:
  assumes "offers_fresh n g" "finite used" "card used < n"
  shows "\<exists>d r'. generate_digest_id g used r = Some (d, insert d used, r') \<and> d \<notin> used"
proof -
  obtain x where "generate_digest_id g used r = Some x"
    using assms generate_terminates_iff [of g used r] unfolding offers_fresh_def by blast
  then show ?thesis using generate_Some [of g used r] by (metis prod_cases3)
qed

lemma items_succeed:
  assumes "offers_fresh n g" "\<And>i. \<exists>b. encode_item c i = Inr b"
  shows "finite used \<Longrightarrow> card used + length es \<le> n \<Longrightarrow> \<exists>items r'. to_issuer_items c g used es r = Some (Inr (items, r'))"
proof (induction es arbitrary: used r)
  case (Cons e es)
  obtain k v where e: "e = (k, v)" by (cases e)
  obtain d r1 where d: "generate_digest_id g used r = Some (d, insert d used, r1)" "d \<notin> used"
    using generate_succeeds [OF assms(1) Cons.prems(1), of r] Cons.prems(2) by auto
  obtain salt r2 where salt: "rng_gen_16 g r1 = (salt, r2)" by fastforce
  let ?item = "\<lparr> item_digest_id = d, item_random = salt, item_element_identifier = k, item_element_value = v \<rparr>"
  obtain b where "encode_item c ?item = Inr b" using assms(2) by blast
  moreover obtain items r3 where "to_issuer_items c g (insert d used) es r2 = Some (Inr (items, r3))"
    using Cons.IH [of "insert d used" r2] Cons.prems d(2) by auto
  ultimately show ?case using d(1) salt e by (simp add: Tag24_new_def)
qed simp

lemma issuer_items_length: "issuer_items_ok c elements items \<Longrightarrow> length items = length elements"
  unfolding issuer_items_ok_def by (metis length_map)

lemma namespace_list_succeeds:
  assumes "offers_fresh n g" "\<And>i. \<exists>b. encode_item c i = Inr b"
  shows "\<forall>(name, es) \<in> set namespaces. es \<noteq> [] \<and> length es \<le> n \<Longrightarrow>
    \<exists>out r'. to_issuer_namespace_list c g namespaces r = Some (Inr (out, r'))"
proof (induction namespaces arbitrary: r)
  case (Cons ns namespaces)
  obtain name es where ns: "ns = (name, es)" by (cases ns)
  obtain items r1 where items: "to_issuer_items c g {} es r = Some (Inr (items, r1))"
    using items_succeed [OF assms, of "{}" es r] Cons.prems ns by auto
  then have "items \<noteq> []"
    using to_issuer_items_ok [OF items] issuer_items_length Cons.prems ns by fastforce
  moreover obtain out r2 where "to_issuer_namespace_list c g namespaces r1 = Some (Inr (out, r2))"
    using Cons.IH [of r1] Cons.prems by auto
  ultimately show ?case using items ns by (simp add: NonEmptyVec_try_from_def)
qed simp

lemma issuer_namespaces_succeed:
  assumes "offers_fresh n g" "\<And>i. \<exists>b. encode_item c i = Inr b" "bt_wf namespaces"
    and "validate_namespace_shape namespaces = Inr ()" "\<forall>(name, es) \<in> set namespaces. length es + 9 \<le> n"
  shows "\<exists>out r'. to_issuer_namespaces c g namespaces r = Some (Inr (out, r')) \<and> most_jobs out = most_jobs namespaces \<and>
    (\<forall>(name, items) \<in> set out. length items + 9 \<le> n)"
proof -
  have shape: "namespaces \<noteq> []" "\<forall>(name, es) \<in> set namespaces. es \<noteq> []"
    using assms(4) by (auto simp: validate_shape_iff)
  obtain out r' where out: "to_issuer_namespace_list c g namespaces r = Some (Inr (out, r'))"
    using namespace_list_succeeds [OF assms(1,2), of namespaces r] shape(2) assms(5) by fastforce
  note rel = to_issuer_namespace_list_ok [OF out]
  have fst: "map fst out = map fst namespaces" using rel by (induction rule: list_all2_induct) auto
  then have wf: "bt_wf out" using assms(3) by (simp add: bt_wf_def)
  have "most_jobs out = most_jobs namespaces" "\<forall>(name, items) \<in> set out. length items + 9 \<le> n"
    using rel assms(5)
    by (induction rule: list_all2_induct) (auto simp: issuer_items_length)
  moreover have "out \<noteq> []" using fst shape(1) by auto
  ultimately show ?thesis
    using out by (simp add: to_issuer_namespaces_def bt_of_list_wf [OF wf] NonEmptyMap_try_from_def)
qed

section \<open>Planning\<close>

text \<open>The counter of jobs counts the jobs there are.\<close>

definition counted :: "plan_acc \<Rightarrow> bool" where
  "counted acc \<longleftrightarrow> unat (fst acc) = length (snd acc)"

lemma push_succeeds:
  assumes "counted (fst acc)" "length (snd (fst acc)) + 1 < 2 ^ 64"
  shows "\<exists>acc'. push_planned_digest cid d k alg input acc = Inr acc' \<and> counted (fst acc') \<and>
    length (snd (fst acc')) = length (snd (fst acc)) + 1"
proof -
  obtain m jobs ps where acc: "acc = ((m, jobs), ps)" by (metis prod.collapse)
  have m: "unat m + 1 < 2 ^ 64" using assms acc by (simp add: counted_def)
  then have "unat (m + 1) = unat m + 1" by (rule unat_add_one)
  then show ?thesis using assms acc m by (simp add: push_planned_digest_def checked_add_u64_def counted_def)
qed

lemma plan_elements_succeed:
  assumes "\<And>item. \<exists>b. encode_item_bytes c item = Inr b"
  shows "counted (fst acc) \<Longrightarrow> length (snd (fst acc)) + length items < 2 ^ 64 \<Longrightarrow>
    \<exists>acc'. plan_elements c cid alg k items acc = Inr acc' \<and> counted (fst acc') \<and>
      length (snd (fst acc')) = length (snd (fst acc)) + length items"
proof (induction items arbitrary: k acc)
  case (Cons item items)
  obtain b where b: "encode_item_bytes c item = Inr b" using assms by blast
  obtain acc1 where push: "push_planned_digest cid (item_id item) k alg b acc = Inr acc1" "counted (fst acc1)"
      "length (snd (fst acc1)) = length (snd (fst acc)) + 1"
    using push_succeeds [of acc cid "item_id item" k alg b] Cons.prems by auto
  show ?case using Cons.IH [of acc1 "Suc k"] Cons.prems b push by simp
qed simp

lemma plan_decoys_succeed:
  assumes "offers_fresh n g"
  shows "finite used \<Longrightarrow> card used + m \<le> n \<Longrightarrow> counted (fst acc) \<Longrightarrow> length (snd (fst acc)) + m < 2 ^ 64 \<Longrightarrow>
    \<exists>acc' r'. plan_decoys g cid alg k m used acc r = Some (Inr (acc', r')) \<and> counted (fst acc') \<and>
      length (snd (fst acc')) = length (snd (fst acc)) + m"
proof (induction m arbitrary: k used acc r)
  case (Suc m)
  obtain d r1 where d: "generate_digest_id g used r = Some (d, insert d used, r1)" "d \<notin> used"
    using generate_succeeds [OF assms Suc.prems(1), of r] Suc.prems(2) by auto
  obtain b r2 where b: "rng_fill g DECOY_BYTES_LENGTH r1 = (b, r2)" by fastforce
  obtain acc1 where push: "push_planned_digest cid d k alg b acc = Inr acc1" "counted (fst acc1)"
      "length (snd (fst acc1)) = length (snd (fst acc)) + 1"
    using push_succeeds [of acc cid d k alg b] Suc.prems(3,4) by auto
  show ?case using Suc.IH [of "insert d used" acc1 "Suc k" r2] Suc.prems d b push by simp
qed simp

lemma plan_namespace_succeeds:
  assumes "offers_fresh n g" "\<And>item. \<exists>b. encode_item_bytes c item = Inr b" "rng_ranges g"
    and "length items + 9 \<le> n" "counted acc" "length (snd acc) + length items + 9 < 2 ^ 64"
  shows "\<exists>acc' ps r'. plan_digest_namespace c g cid items alg decoys acc r = Some (Inr ((acc', ps), r')) \<and>
    counted acc' \<and> length (snd acc') \<le> length (snd acc) + length items + 9"
proof -
  obtain m r1 where m: "(if decoys then rng_gen_range_5_10 g r else (0, r)) = (m, r1)" by fastforce
  have "fst (rng_gen_range_5_10 g r) < 10" using assms(3) by (simp add: rng_ranges_def)
  then have "m \<le> 9" using m by (auto split: if_splits)
  obtain acc1 where elements: "plan_elements c cid alg 0 items (acc, []) = Inr acc1" "counted (fst acc1)"
      "length (snd (fst acc1)) = length (snd acc) + length items"
    using plan_elements_succeed [OF assms(2), of "(acc, [])" items cid alg 0] assms(5,6) by auto
  let ?used = "if 0 < m then set (map (\<lambda>item. item_digest_id (tag24_inner item)) items) else {}"
  have used: "finite ?used" "card ?used \<le> length items"
    using card_length [of "map (\<lambda>item. item_digest_id (tag24_inner item)) items"] by simp_all
  obtain acc2 r2 where decoys: "plan_decoys g cid alg (length items) m ?used acc1 r1 = Some (Inr (acc2, r2))"
      "counted (fst acc2)" "length (snd (fst acc2)) = length (snd (fst acc1)) + m"
    using plan_decoys_succeed [OF assms(1) used(1), of m acc1 cid alg "length items" r1] used(2) assms(4,6) elements(2,3)
      \<open>m \<le> 9\<close> by fastforce
  have "plan_digest_namespace c g cid items alg decoys acc r = Some (Inr (acc2, r2))"
    unfolding plan_digest_namespace_def m Let_def prod.case elements(1) run_then.simps decoys(1) ..
  then show ?thesis using decoys elements(3) \<open>m \<le> 9\<close> by (cases acc2) simp
qed

lemma plan_list_succeeds:
  assumes "offers_fresh n g" "\<And>item. \<exists>b. encode_item_bytes c item = Inr b" "rng_ranges g"
  shows "\<forall>(name, items) \<in> set namespaces. length items + 9 \<le> n \<Longrightarrow> counted acc \<Longrightarrow>
    length (snd acc) + most_jobs namespaces < 2 ^ 64 \<Longrightarrow>
    \<exists>acc' nss r'. plan_namespace_list c g cid alg decoys namespaces acc r = Some (Inr ((acc', nss), r')) \<and>
      length (snd acc') \<le> length (snd acc) + most_jobs namespaces"
proof (induction namespaces arbitrary: acc r)
  case (Cons ns namespaces)
  obtain name items where ns: "ns = (name, items)" by (cases ns)
  obtain acc1 ps r1 where one: "plan_digest_namespace c g cid items alg decoys acc r = Some (Inr ((acc1, ps), r1))"
      "counted acc1" "length (snd acc1) \<le> length (snd acc) + length items + 9"
    using plan_namespace_succeeds [OF assms, of items acc cid alg decoys r] Cons.prems ns by auto
  obtain acc2 nss r2 where "plan_namespace_list c g cid alg decoys namespaces acc1 r1 = Some (Inr ((acc2, nss), r2))"
      "length (snd acc2) \<le> length (snd acc1) + most_jobs namespaces"
    using Cons.IH [of acc1 r1] Cons.prems one ns by auto
  then show ?case using one ns by simp
qed simp

lemma planning_succeeds:
  assumes "offers_fresh n g" "\<And>item. \<exists>b. encode_item_bytes c item = Inr b" "rng_ranges g"
    and "\<forall>(name, items) \<in> set namespaces. length items + 9 \<le> n" "most_jobs namespaces < 2 ^ 64"
  shows "\<exists>plan r'. plan_digest_namespaces c g namespaces alg decoys r = Some (Inr (plan, r')) \<and>
    length (plan_jobs plan) \<le> most_jobs namespaces"
proof -
  have "counted (0, [])" by (simp add: counted_def)
  then obtain acc' nss r' where
    "plan_namespace_list c g MDOC_CREDENTIAL_ID alg decoys namespaces (0, []) r = Some (Inr ((acc', nss), r'))"
    "length (snd acc') \<le> most_jobs namespaces"
    using plan_list_succeeds [OF assms(1-4), of "(0, [])" MDOC_CREDENTIAL_ID alg decoys r] assms(5) by auto
  then show ?thesis
    by (cases acc') (simp add: plan_digest_namespaces_def plan_digest_namespaces_for_credential_def)
qed

section \<open>The document\<close>

lemma finish_succeeds:
  assumes "encodes_all I"
  shows "\<exists>p. finish_preparation I doc ins vi alg dki sa vd = Inr p"
proof -
  let ?mso = "\<lparr> mso_version = ''1.0'', mso_digest_algorithm = alg, mso_value_digests = vd,
    mso_device_key_info = dki, mso_doc_type = doc, mso_validity_info = vi \<rparr>"
  obtain b where b: "is_encode_mso I ?mso = Inr b" using assms unfolding encodes_all_def by blast
  obtain x where x: "encode_value (is_codec I) (VTag 24 (VBytes b)) = Inr x" using assms unfolding encodes_all_def by blast
  show ?thesis
    by (simp add: finish_preparation_def Let_def Tag24_new_def b Tag24_into_def x PreparedCoseSign1_new_def)
qed

lemma prepare_succeeds:
  assumes "encodes_all I" "offers_fresh n (is_rng I)" "rng_ranges (is_rng I)" "sha2_lengths h"
    and "bt_wf namespaces" "validate_namespace_shape namespaces = Inr ()" "validate_authorizations dki = Inr ()"
    and "\<forall>(name, es) \<in> set namespaces. length es + 9 \<le> n" "most_jobs namespaces < 2 ^ 64"
    and "\<And>jobs. length jobs \<le> most_jobs namespaces \<Longrightarrow> execute jobs = SerialDigestExecutor_execute h jobs"
  shows "\<exists>p r'. prepare_with_digest_executor I execute doc namespaces vi alg dki sa decoys r = Some (Inr (p, r'))"
proof -
  have items: "\<exists>b. encode_item (is_codec I) i = Inr b" for i using assms(1) by (simp add: encodes_all_def)
  have bytes: "\<exists>b. encode_item_bytes (is_codec I) item = Inr b" for item
    using assms(1) by (simp add: encodes_all_def encode_item_bytes_def Tag24_into_def)
  obtain ins r1 where ins: "to_issuer_namespaces (is_codec I) (is_rng I) namespaces r = Some (Inr (ins, r1))"
      "most_jobs ins = most_jobs namespaces" "\<forall>(name, items) \<in> set ins. length items + 9 \<le> n"
    using issuer_namespaces_succeed [OF assms(2) items assms(5,6,8)] by blast
  obtain plan r2 where plan: "plan_digest_namespaces (is_codec I) (is_rng I) ins alg decoys r1 = Some (Inr (plan, r2))"
      "length (plan_jobs plan) \<le> most_jobs namespaces"
    using planning_succeeds [OF assms(2) bytes assms(3) ins(3)] ins(2) assms(9) by metis
  have "plan_ok plan"
    using planned_credential(1) [OF ins(1) plan(1) [unfolded plan_digest_namespaces_def] assms(3,5)] .
  then have "assemble_digest_namespaces plan (map (execute_digest_job h) (plan_jobs plan))
      = Inr (oracle_value_digests h (plan_jobs plan) plan)"
    using serial.assembled [OF assms(4)] by (simp add: SerialDigestExecutor_execute_def)
  moreover have "execute (plan_jobs plan) = Inr (map (execute_digest_job h) (plan_jobs plan))"
    using assms(10) [OF plan(2)] by (simp add: SerialDigestExecutor_execute_def)
  moreover obtain p where "finish_preparation I doc ins vi alg dki sa (oracle_value_digests h (plan_jobs plan) plan) = Inr p"
    using finish_succeeds [OF assms(1)] by blast
  ultimately show ?thesis
    by (simp add: prepare_with_digest_executor_def assms(6,7) prepare_with_validated_inputs_def ins(1) plan(1))
qed

text \<open>The default executor keeps workloads below its threshold to itself.\<close>

lemma default_executor_small:
  assumes "length jobs < 512"
  shows "default_executor parallel host h pool jobs = SerialDigestExecutor_execute h jobs"
  using assms adaptive_mode_native(1) [of jobs "available_workers host"]
  by (cases "select_adaptive_digest_execution_mode jobs (available_workers host)")
    (force simp: default_executor_def DefaultDigestExecutor_execute_def AdaptiveDigestExecutor_execute_def)+

lemma sample_offers_fresh: "offers_fresh 1000 sample_rng"
proof -
  have offer: "fst (offer sample_rng k r) = int ((r + k) mod 1000)" for k r
  proof (induction k arbitrary: r)
    case 0
    have "int (r mod 1000) < 2147483648" by linarith
    then show ?case by (simp add: sample_rng_def DigestId_new_def)
  qed (simp add: sample_rng_def)
  show ?thesis
    unfolding offers_fresh_def
  proof (intro allI impI)
    fix used :: "int set" and r :: nat
    assume used: "finite used \<and> card used < 1000"
    have "card (int ` {..<1000}) = 1000" by (simp add: card_image)
    with used have "\<not> int ` {..<1000} \<subseteq> used" using card_mono [of used "int ` {..<1000}"] by auto
    then obtain v where v: "v < 1000" "int v \<notin> used" by auto
    have "(r + (v + 1000 - r mod 1000)) mod 1000 = v"
    proof -
      have "r = r div 1000 * 1000 + r mod 1000" "r mod 1000 < 1000" by simp_all
      moreover have "q * 1000 + m + (v + 1000 - m) = v + 1000 * (q + 1)" if "m < 1000" for q m :: nat
        using that by simp
      ultimately have "r + (v + 1000 - r mod 1000) = v + 1000 * (r div 1000 + 1)" by metis
      then show ?thesis using v(1) by (metis mod_mult_self2 mod_less)
    qed
    then have "fst (offer sample_rng (v + 1000 - r mod 1000) r) = int v" by (simp add: offer)
    then show "\<exists>k. fst (offer sample_rng k r) \<notin> used" using v(2) by metis
  qed
qed

section \<open>Properties\<close>

text \<open>C16. A well-shaped document is prepared. When the encoders never fail, the generator goes on
  offering identifiers not in use as long as fewer than \<open>n\<close> are, every namespace has at most \<open>n - 9\<close>
  elements and the authorizations are consistent, then \<^verbatim>\<open>Mdoc::prepare\<close> returns a prepared document
  with the default executor in every build, host and state of the pool, as long as there are fewer
  than 512 digests, the least the native pool is used for; with more, a parallel build may instead
  report that the digests could not be computed, and nothing else.
\<close>

theorem preparation_succeeds:
  assumes "encodes_all I" "offers_fresh n (is_rng I)" "rng_ranges (is_rng I)" "sha2_lengths h" "par_chunks_ordered host"
    and "bt_wf namespaces" "validate_namespace_shape namespaces = Inr ()" "validate_authorizations dki = Inr ()"
    and "\<forall>(name, es) \<in> set namespaces. length es + 9 \<le> n" "most_jobs namespaces < 2 ^ 64"
  shows "(\<exists>p r'. Mdoc_prepare parallel host h pool I doc namespaces vi alg dki sa decoys r = Some (Inr (p, r'))) \<or>
    512 \<le> most_jobs namespaces \<and> parallel \<and>
      Mdoc_prepare parallel host h pool I doc namespaces vi alg dki sa decoys r = Some (Inl DigestExecutionFailed)"
proof (cases "most_jobs namespaces < 512")
  case True
  then show ?thesis
    using prepare_succeeds [OF assms(1-4,6-10) default_executor_small] unfolding Mdoc_prepare_def
    by (meson le_less_trans)
next
  case False
  have serial: "\<exists>p r'. prepare_with_digest_executor I (SerialDigestExecutor_execute h) doc namespaces vi alg dki sa decoys r
      = Some (Inr (p, r'))"
    by (rule prepare_succeeds [OF assms(1-4,6-10)]) simp
  show ?thesis
  proof (cases parallel)
    case True
    with False serial show ?thesis
      using prepare_fails_or_serial [OF default_executor_fails_or_serial [OF assms(5), of h parallel pool], of I doc namespaces vi alg dki sa decoys r]
      unfolding Mdoc_prepare_def by (metis not_less)
  next
    case False
    with serial show ?thesis by (simp add: Mdoc_prepare_def default_executor_scalar)
  qed
qed

theorem preparation_succeeds_witness:
  "\<exists>p r'. Mdoc_prepare True sample_host zero_sha2 (None, None) sample_issuer ''doc'' [(''ns'', [(''age'', 7)])] 0 SHA256
      sample_dki ES256 True 0 = Some (Inr (p, r'))"
proof -
  have "encodes_all sample_issuer" "bt_wf [(''ns'', [(''age'', 7 :: nat)])]" "rng_ranges (is_rng sample_issuer)"
    "offers_fresh 1000 (is_rng sample_issuer)" "validate_authorizations sample_dki = Inr ()"
    by (simp_all add: encodes_all_def sample_issuer_def sample_codec_def bt_wf_def sample_rng_ok sample_offers_fresh
        validate_authorizations_def sample_dki_def)
  from preparation_succeeds [OF this(1,4,3) zero_sha2_ok sample_host_ok this(2) _ this(5), of True "(None, None)"
      "''doc''" 0 SHA256 ES256 True 0]
  show ?thesis by (simp add: validate_namespace_shape_def)
qed

end
