(* ===== verification/Licence_Issuance.thy ===== *)
theory Licence_Issuance
  imports Issued_Elements Mdoc_Success
begin

text \<open>
  A licence from its JSON description to the holder: the namespace read from the object
  (\<open>Iso_Namespace\<close>) is prepared with the default executor (\<open>Mdoc_Default\<close>), signed, and turned into
  the document the device holds (\<open>Document_from_mdoc\<close> of \<open>Disclosure\<close>).
\<close>

section \<open>What preparation and completion keep\<close>

lemma PreparedMdoc_complete_keeps:
  assumes "PreparedMdoc_complete ops h self chain signature = Inr mdoc"
  shows "md_namespaces mdoc = pm_namespaces self" "md_mso mdoc = pm_mso self" "md_doc_type mdoc = pm_doc_type self"
  using assms by (auto simp: PreparedMdoc_complete_def Let_def result_simps)

text \<open>The items of a prepared document are the elements it was given, under their identifiers.\<close>

lemma prepare_validated_finishes:
  assumes "prepare_with_validated_inputs I execute doc namespaces vi alg dki sa decoys r = Some (Inr (p, r'))"
  shows "\<exists>ins r1 vd. to_issuer_namespaces (is_codec I) (is_rng I) namespaces r = Some (Inr (ins, r1)) \<and>
    finish_preparation I doc ins vi alg dki sa vd = Inr p"
  using assms unfolding prepare_with_validated_inputs_def run_then_Inr case_prod_unfold option.inject and_then_Inr
proof (elim exE conjE, goal_cases)
  case (1 x xa xb xc)
  then have "finish_preparation I doc (fst x) vi alg dki sa xc = Inr p"
    by (cases "finish_preparation I doc (fst x) vi alg dki sa xc") simp_all
  then show ?case using 1(1) by (metis prod.collapse)
qed

lemma prepare_validates:
  assumes "prepare_with_digest_executor I execute doc namespaces vi alg dki sa decoys r = Some (Inr (p, r'))"
  shows "prepare_with_validated_inputs I execute doc namespaces vi alg dki sa decoys r = Some (Inr (p, r'))"
  using assms by (auto simp: prepare_with_digest_executor_def run_then_Inr)

lemma prepared_contents:
  assumes "prepare_with_digest_executor I execute doc namespaces vi alg dki sa decoys r = Some (Inr (p, r'))"
    and "bt_wf namespaces"
  shows "list_all2 (\<lambda>(name, elements) (name', items).
      name' = name \<and> items \<noteq> [] \<and> issuer_items_ok (is_codec I) elements items) namespaces (pm_namespaces p)"
    and "mso_digest_algorithm (pm_mso p) = alg" "PreparedCoseSign1_algorithm (pm_prepared_sig p) = Some sa"
proof -
  obtain ins r1 vd where run: "to_issuer_namespaces (is_codec I) (is_rng I) namespaces r = Some (Inr (ins, r1))"
    and p: "finish_preparation I doc ins vi alg dki sa vd = Inr p"
    using prepare_validated_finishes [OF prepare_validates [OF assms(1)]] by blast
  show "list_all2 (\<lambda>(name, elements) (name', items).
      name' = name \<and> items \<noteq> [] \<and> issuer_items_ok (is_codec I) elements items) namespaces (pm_namespaces p)"
    using to_issuer_namespaces_ok(3) [OF run assms(2)] finish_preparation_fields(1) [OF p] by simp
  show "mso_digest_algorithm (pm_mso p) = alg" by (rule finish_preparation_fields(3) [OF p])
  show "PreparedCoseSign1_algorithm (pm_prepared_sig p) = Some sa" by (rule finish_preparation_fields(7) [OF p])
qed

section \<open>What the holder's document holds\<close>

abbreviation element_value :: "item_bytes option \<Rightarrow> Value option" where
  "element_value i \<equiv> map_option (\<lambda>t. item_element_value (tag24_inner t)) i"

lemma extract_items_get:
  assumes "issuer_items_ok c elements items" "bt_wf elements"
  shows "element_value (bt_get (extract_items items) k) = bt_get elements k"
proof -
  have elements: "elements = map (\<lambda>t. (item_element_identifier (tag24_inner t), item_element_value (tag24_inner t))) items"
    using assms(1) by (simp add: issuer_items_ok_def)
  have "distinct (map (\<lambda>t. item_element_identifier (tag24_inner t)) items)"
    using assms(2) unfolding elements by (simp add: bt_wf_def strict_sorted_iff comp_def)
  then have "bt_get (extract_items items) k = map_of (map (\<lambda>t. (item_element_identifier (tag24_inner t), t)) items) k"
    by (simp add: extract_items_def bt_get_of_list_distinct comp_def)
  also have "element_value \<dots> = map_of elements k"
    unfolding elements by (induction items) auto
  finally show ?thesis by (simp add: bt_get_def)
qed

lemma held_single:
  assumes "md_namespaces mdoc = [(ns, items)]" "issuer_items_ok c elements items" "bt_wf elements"
  shows "element_value (held [(t, Document_from_mdoc ident mdoc)] t n k) = (if n = ns then bt_get elements k else None)"
  using assms(1) extract_items_get [OF assms(2,3), of k]
  by (auto simp: held_def Document_from_mdoc_def bt_of_list_def bt_get_def split: if_splits)

section \<open>Properties\<close>

text \<open>C4. A licence reaches its holder whole. When an object is read as a licence, its namespace is
  prepared with the default executor, in any build, and the result completed with a signature, then
  the document on the device holds exactly the elements of the object: under each name the value
  the conversion gave it, in no other namespace anything, and a name is held exactly when the
  object has it, not null, and it names an element; and the security object has for every item the
  digest of its encoding.
\<close>

theorem issued_licence_held:
  assumes "par_chunks_ordered host" "sha2_lengths h" "rng_ranges (is_rng I)"
    and "bt_wf m" "OrgIso1801351_from_json T dec (JObject m) = Some (Inr d)"
    and "Mdoc_prepare parallel host h pool I doc_type (bt_of_list [(''org.iso.18013.5.1'', OrgIso1801351_to_ns_map d)])
      vi alg dki sa decoys r = Some (Inr (p, r'))"
    and "PreparedMdoc_complete ops h p chain signature = Inr mdoc"
  shows "let value_of = (\<lambda>ns k. element_value (held [(doc_type, Document_from_mdoc ident mdoc)] doc_type ns k)) in
    (\<forall>ns k. value_of ns k = (if ns = ''org.iso.18013.5.1'' then bt_get (OrgIso1801351_to_ns_map d) k else None)) \<and>
    (\<forall>k. value_of ''org.iso.18013.5.1'' k \<noteq> None \<longleftrightarrow>
      present m k \<and> (k \<in> set iso_names \<or> is_age_key k \<or> starts_with k ''biometric_template_'')) \<and>
    digests_match h (is_codec I) (mso_digest_algorithm (md_mso mdoc)) (md_namespaces mdoc) (mso_value_digests (md_mso mdoc))"
proof -
  let ?ns = "[(''org.iso.18013.5.1'', OrgIso1801351_to_ns_map d)]"
  have ns: "bt_of_list ?ns = ?ns" "bt_wf ?ns" by (simp_all add: bt_of_list_def bt_wf_def)
  have wf: "bt_wf (OrgIso1801351_to_ns_map d)" by (simp add: OrgIso1801351_to_ns_map_def ns_map_wf)
  note keeps = PreparedMdoc_complete_keeps [OF assms(7)]
  note run = assms(6) [unfolded Mdoc_prepare_def ns(1)]
  obtain items where items: "md_namespaces mdoc = [(''org.iso.18013.5.1'', items)]"
    "issuer_items_ok (is_codec I) (OrgIso1801351_to_ns_map d) items"
    using prepared_contents [OF run ns(2)] keeps(1) by (auto simp: list_all2_Cons1 split: prod.splits)
  have "k \<in> fst ` set (OrgIso1801351_to_ns_map d) \<longleftrightarrow>
      present m k \<and> (k \<in> set iso_names \<or> is_age_key k \<or> starts_with k ''biometric_template_'')" for k
    using OrgIso1801351_keys [OF assms(4)] assms(5) by (simp add: OrgIso1801351_from_json_def)
  then have keys: "bt_get (OrgIso1801351_to_ns_map d) k \<noteq> None \<longleftrightarrow>
      present m k \<and> (k \<in> set iso_names \<or> is_age_key k \<or> starts_with k ''biometric_template_'')" for k
    by (simp add: bt_get_def map_of_eq_None_iff)
  have "ordered_digest_executor h (default_executor parallel host h pool)"
    using default_executor_ordered [OF assms(1), of h parallel "fst pool" "snd pool"]
    by (simp add: default_executor_def [abs_def])
  then have exec: "digest_executor h (default_executor parallel host h pool)"
    by unfold_locales (drule (1) ordered_digest_executor.results_in_order, simp)
  have "digests_match h (is_codec I) (mso_digest_algorithm (md_mso mdoc)) (md_namespaces mdoc) (mso_value_digests (md_mso mdoc))"
    using digest_executor.prepare_digests_match [OF exec assms(2,3) ns(2) prepare_validates [OF run]]
    by (simp add: keeps prepared_contents(2) [OF run ns(2)])
  then show ?thesis
    using held_single [OF items wf] keys by (simp add: Let_def)
qed

text \<open>The sample licence is issued by a process over CBOR values that takes any signature.\<close>

definition licence_issuer :: "(Value, nat, nat) issuer" where
  "licence_issuer = \<lparr> is_codec = \<lparr> encode_item = (\<lambda>i. Inr [of_int (item_digest_id i)]), encode_value = encode_value sample_codec \<rparr>,
     is_encode_mso = (\<lambda>m. Inr []), is_rng = sample_rng, is_sig_structure = (\<lambda>h a b. a @ b) \<rparr>"

definition licence_ops :: "(nat, nat, nat) remote_ops" where
  "licence_ops = \<lparr> rs_parse = (\<lambda>_ b. Some (length b)), rs_key = (\<lambda>_ x. Some x),
                   rs_verify = (\<lambda>_ k d s. k = s), rs_chain_into_cbor = (\<lambda>x. VInteger (int x)) \<rparr>"

abbreviation sample_licence_run ::
    "(mdoc_error + ((Value, nat) PreparedMdoc \<times> nat)) option" where
  "sample_licence_run \<equiv> Mdoc_prepare False sample_host zero_sha2 (None, None) licence_issuer ''mDL''
     (bt_of_list [(''org.iso.18013.5.1'', OrgIso1801351_to_ns_map sample_licence)]) 0 SHA256 sample_dki ES256 False 0"

lemma sample_licence_elements:
  "OrgIso1801351_to_ns_map sample_licence \<noteq> []" "length (OrgIso1801351_to_ns_map sample_licence) \<le> 14"
proof -
  let ?m = "OrgIso1801351_to_ns_map sample_licence"
  note keys = OrgIso1801351_keys [OF sample_object_wf sample_object_map]
  have "present sample_object ''family_name''" "''family_name'' \<in> set iso_names" by code_simp+
  then show "?m \<noteq> []" using keys by fastforce
  have "bt_wf ?m" by (simp add: OrgIso1801351_to_ns_map_def ns_map_wf)
  then have "distinct (map fst ?m)" by (simp add: bt_wf_def strict_sorted_iff)
  from distinct_card [OF this] have "length ?m = card (fst ` set ?m)" by simp
  also have "\<dots> \<le> card (set (map fst sample_object))"
  proof (rule card_mono)
    show "fst ` set ?m \<subseteq> set (map fst sample_object)"
    proof
      fix k assume "k \<in> fst ` set ?m"
      then obtain j where "map_of sample_object k = Some j" using keys by (auto simp: present_iff bt_get_def)
      from map_of_SomeD [OF this] show "k \<in> set (map fst sample_object)" by force
    qed
  qed simp
  also have "\<dots> \<le> length (map fst sample_object)" by (rule card_length)
  also have "\<dots> = 14" by (simp add: sample_object_def)
  finally show "length ?m \<le> 14" .
qed

lemma sample_licence_prepared: "\<exists>p r'. sample_licence_run = Some (Inr (p, r'))"
proof -
  let ?ns = "[(''org.iso.18013.5.1'', OrgIso1801351_to_ns_map sample_licence)]"
  have ns: "bt_of_list ?ns = ?ns" "bt_wf ?ns" by (simp_all add: bt_of_list_def bt_wf_def)
  have "encodes_all licence_issuer" "validate_authorizations sample_dki = Inr ()"
    by (simp_all add: encodes_all_def licence_issuer_def sample_codec_def validate_authorizations_def sample_dki_def)
  moreover have "rng_ranges (is_rng licence_issuer)" "offers_fresh 1000 (is_rng licence_issuer)"
    by (simp_all add: licence_issuer_def sample_rng_ok sample_offers_fresh)
  moreover have "validate_namespace_shape ?ns = Inr ()"
    using sample_licence_elements(1) by (simp add: validate_namespace_shape_def)
  ultimately show ?thesis
    unfolding Mdoc_prepare_def ns(1)
    using sample_licence_elements(2) zero_sha2_ok ns(2)
    by (intro prepare_succeeds) (auto simp: default_executor_scalar)
qed

theorem issued_licence_held_witness:
  "\<exists>p r' mdoc. sample_licence_run = Some (Inr (p, r')) \<and>
     PreparedMdoc_complete licence_ops zero_sha2 p 3 [7, 8, 9] = Inr mdoc \<and>
     (let value_of = (\<lambda>k. element_value (held [(''mDL'', Document_from_mdoc [] mdoc)] ''mDL'' ''org.iso.18013.5.1'' k))
      in value_of ''family_name'' \<noteq> None \<and> value_of ''age_over_18'' \<noteq> None \<and> value_of ''sex'' = None \<and>
         value_of ''zodiac'' = None)"
proof -
  let ?ns = "[(''org.iso.18013.5.1'', OrgIso1801351_to_ns_map sample_licence)]"
  obtain p r' where run: "sample_licence_run = Some (Inr (p, r'))" using sample_licence_prepared by blast
  have "bt_wf (bt_of_list ?ns)" by (simp add: bt_of_list_def bt_wf_def)
  then have "PreparedCoseSign1_algorithm (pm_prepared_sig p) = Some ES256"
    by (rule prepared_contents(3) [OF run [unfolded Mdoc_prepare_def]])
  then obtain mdoc where mdoc: "PreparedMdoc_complete licence_ops zero_sha2 p 3 [7, 8, 9] = Inr mdoc"
    by (simp add: PreparedMdoc_complete_def verify_remote_signature_def verify_curve_def licence_ops_def Let_def)
  have rng: "rng_ranges (is_rng licence_issuer)" by (simp add: licence_issuer_def sample_rng_ok)
  have names: "present sample_object ''family_name''" "''family_name'' \<in> set iso_names"
    "present sample_object ''age_over_18''" "is_age_key ''age_over_18''" "\<not> present sample_object ''sex''"
    "\<not> (''zodiac'' \<in> set iso_names \<or> is_age_key ''zodiac'' \<or> starts_with ''zodiac'' ''biometric_template_'')"
    by code_simp+
  from issued_licence_held [OF sample_host_ok zero_sha2_ok rng sample_object_wf sample_object_accepted run mdoc, of "[]"]
  have held: "element_value (held [(''mDL'', Document_from_mdoc [] mdoc)] ''mDL'' ''org.iso.18013.5.1'' k) \<noteq> None \<longleftrightarrow>
      present sample_object k \<and> (k \<in> set iso_names \<or> is_age_key k \<or> starts_with k ''biometric_template_'')" for k
    unfolding Let_def by blast
  have "element_value (held [(''mDL'', Document_from_mdoc [] mdoc)] ''mDL'' ''org.iso.18013.5.1'' ''family_name'') \<noteq> None"
    "element_value (held [(''mDL'', Document_from_mdoc [] mdoc)] ''mDL'' ''org.iso.18013.5.1'' ''age_over_18'') \<noteq> None"
    unfolding held using names(1-4) by simp_all
  moreover have "element_value (held [(''mDL'', Document_from_mdoc [] mdoc)] ''mDL'' ''org.iso.18013.5.1'' ''sex'') = None"
    "element_value (held [(''mDL'', Document_from_mdoc [] mdoc)] ''mDL'' ''org.iso.18013.5.1'' ''zodiac'') = None"
    using held [of "''sex''"] held [of "''zodiac''"] names(5,6) by argo+
  ultimately show ?thesis using run mdoc unfolding Let_def by blast
qed

end
