(* ===== verification/Derive_Macro.thy ===== *)
theory Derive_Macro
  imports From_Json
begin

text \<open>
  The two derive macros of the package \<^verbatim>\<open>macros\<close> (\<^verbatim>\<open>macros/src/lib.rs\<close>, \<^verbatim>\<open>from_json.rs\<close>, \<^verbatim>\<open>to_cbor.rs\<close>):
  how they read the attributes of a struct and its fields, and the code they generate, as data and
  with the meaning it has when it runs. The syntax trees are those of the package \<^verbatim>\<open>syn\<close>, as far
  as the macros look at them.
\<close>

section \<open>Syntax trees\<close>

text \<open>A path is its segments; an attribute is what parsing its meta item gives, if it does.\<close>

datatype Lit = Lit_Str string | Lit_Other

datatype Meta =
    Meta_Path "string list"
  | Meta_List "string list" "NestedMeta list"
  | Meta_NameValue "string list" Lit
and NestedMeta = Nested_Meta Meta | Nested_Lit Lit

type_synonym Attribute = "Meta option"

text \<open>A type that is a path has segments with an identifier and type arguments.\<close>

datatype Type = Type_Path "(string \<times> Type list) list" | Type_Other

record Field =
  f_ident :: string
  f_ty :: Type
  f_attrs :: "Attribute list"

datatype Fields = Fields_Named "Field list" | Fields_Unnamed "Type list" | Fields_Unit

datatype Data = Data_Struct Fields | Data_Enum | Data_Union

record DeriveInput =
  di_ident :: string
  di_data :: Data
  di_attrs :: "Attribute list"

fun meta_path :: "Meta \<Rightarrow> string list" where
  "meta_path (Meta_Path p) = p"
| "meta_path (Meta_List p _) = p"
| "meta_path (Meta_NameValue p _) = p"

definition is_ident :: "string list \<Rightarrow> string \<Rightarrow> bool" where
  "is_ident path name \<longleftrightarrow> path = [name]"

section \<open>Reading the attributes\<close>

definition get_isomdl_attributes :: "Attribute \<Rightarrow> NestedMeta list option" where
  "get_isomdl_attributes attr =
     Option.bind attr (\<lambda>meta. case meta of
         Meta_List path nested \<Rightarrow> if \<not> is_ident path ''isomdl'' then None else Some nested
       | _ \<Rightarrow> None)"

fun nested_is :: "string \<Rightarrow> NestedMeta \<Rightarrow> bool" where
  "nested_is name (Nested_Meta meta) \<longleftrightarrow> is_ident (meta_path meta) name"
| "nested_is name (Nested_Lit _) \<longleftrightarrow> False"

definition is_dynamic_parse :: "Attribute \<Rightarrow> bool" where
  "is_dynamic_parse attr =
     (case get_isomdl_attributes attr of
        Some ms \<Rightarrow> list_ex (\<lambda>n. nested_is ''dynamic_parse'' n \<or> nested_is ''many'' n) ms
      | None \<Rightarrow> False)"

definition is_many :: "Attribute \<Rightarrow> bool" where
  "is_many attr =
     (case get_isomdl_attributes attr of Some ms \<Rightarrow> list_ex (nested_is ''many'') ms | None \<Rightarrow> False)"

fun is_optional :: "Type \<Rightarrow> bool" where
  "is_optional (Type_Path segments) = (segments \<noteq> [] \<and> fst (last segments) = ''Option'')"
| "is_optional Type_Other = False"

fun named_string :: "string \<Rightarrow> NestedMeta \<Rightarrow> string option" where
  "named_string name (Nested_Meta (Meta_NameValue path lit)) =
     (if \<not> is_ident path name then None
      else case lit of Lit_Str s \<Rightarrow> Some s | Lit_Other \<Rightarrow> None)"
| "named_string name _ = None"

text \<open>The first item of an iterator.\<close>

definition first_of :: "'a list \<Rightarrow> 'a option" where
  "first_of xs = (case xs of [] \<Rightarrow> None | x # _ \<Rightarrow> Some x)"

definition crate_path :: "Attribute \<Rightarrow> string option" where
  "crate_path attr =
     Option.bind (get_isomdl_attributes attr) (\<lambda>ms. first_of (List.map_filter (named_string ''crate'') ms))"

definition rename :: "Attribute \<Rightarrow> string option" where
  "rename attr =
     Option.bind (get_isomdl_attributes attr) (\<lambda>ms. first_of (List.map_filter (named_string ''rename'') ms))"

definition isomdl_path :: "Attribute list \<Rightarrow> string" where
  "isomdl_path attrs =
     (case first_of (List.map_filter crate_path attrs) of Some p \<Rightarrow> p | None \<Rightarrow> ''isomdl'')"

definition field_str :: "Field \<Rightarrow> string" where
  "field_str f = (case first_of (List.map_filter rename (f_attrs f)) of Some r \<Rightarrow> r | None \<Rightarrow> f_ident f)"

section \<open>The code the macros generate\<close>

text \<open>
  A conversion is one field of the generated struct conversion: its identifier, its type and its
  key. \<open>From_map\<close> reads the whole object, \<open>From_json_opt\<close> the value under the key.
\<close>

datatype from_conversion =
    From_json_opt string Type string
  | From_map string Type string

datatype to_conversion =
    To_many string Type
  | To_optional string Type string
  | To_value string Type string

datatype 'c derived =
    Compile_error string
  | Impl_named string string "'c list"
  | Impl_transparent string string Type

definition from_json_conversion :: "Field \<Rightarrow> from_conversion" where
  "from_json_conversion f =
     (if \<not> list_ex is_dynamic_parse (f_attrs f) then From_json_opt (f_ident f) (f_ty f) (field_str f)
      else From_map (f_ident f) (f_ty f) (field_str f))"

definition to_cbor_conversion :: "Field \<Rightarrow> to_conversion" where
  "to_cbor_conversion f =
     (if list_ex is_many (f_attrs f) then To_many (f_ident f) (f_ty f)
      else if is_optional (f_ty f) then To_optional (f_ident f) (f_ty f) (field_str f)
      else To_value (f_ident f) (f_ty f) (field_str f))"

text \<open>
  The fields of a tuple struct are popped from the end: there must be exactly one. The conversion
  of its type is called; for \<^verbatim>\<open>ToCbor\<close> the generated call passes the struct itself, which does not
  type-check, and the program derives that trait for no such struct.
\<close>

definition unnamed_fields :: "string \<Rightarrow> string \<Rightarrow> string \<Rightarrow> Type list \<Rightarrow> 'c derived" where
  "unnamed_fields trait path ident types =
     (case rev types of
        [] \<Rightarrow> Compile_error (''cannot derive '' @ trait @ '' for tuple structs of less than one field'')
      | [ty] \<Rightarrow> Impl_transparent path ident ty
      | _ \<Rightarrow> Compile_error (''cannot derive '' @ trait @ '' for tuple structs of more than one field''))"

definition derive :: "string \<Rightarrow> (Field \<Rightarrow> 'c) \<Rightarrow> DeriveInput \<Rightarrow> 'c derived" where
  "derive trait conversion input =
     (let path = isomdl_path (di_attrs input) in
      case di_data input of
        Data_Enum \<Rightarrow> Compile_error (''cannot derive '' @ trait @ '' for enums'')
      | Data_Union \<Rightarrow> Compile_error (''cannot derive '' @ trait @ '' for unions'')
      | Data_Struct fs \<Rightarrow>
          (case fs of
             Fields_Named named \<Rightarrow> Impl_named path (di_ident input) (map conversion named)
           | Fields_Unnamed types \<Rightarrow> unnamed_fields trait path (di_ident input) types
           | Fields_Unit \<Rightarrow> Compile_error (''cannot derive '' @ trait @ '' for unit struct'')))"

definition derive_from_json :: "DeriveInput \<Rightarrow> from_conversion derived" where
  "derive_from_json input = derive ''FromJson'' from_json_conversion input"

definition derive_to_cbor :: "DeriveInput \<Rightarrow> to_conversion derived" where
  "derive_to_cbor input = derive ''ToCbor'' to_cbor_conversion input"

section \<open>Running the generated code\<close>

text \<open>
  The generated code calls the conversions of the field types, whose values are here of one type
  \<open>'u\<close>: \<open>json ty\<close> is \<^verbatim>\<open>from_json_opt\<close> and \<open>whole ty\<close> is \<^verbatim>\<open>from_map\<close> of a type. A struct is the list of
  its fields by identifier.
\<close>

fun conversion_ident :: "from_conversion \<Rightarrow> string" where
  "conversion_ident (From_json_opt ident _ _) = ident"
| "conversion_ident (From_map ident _ _) = ident"

fun conversion_key :: "from_conversion \<Rightarrow> string" where
  "conversion_key (From_json_opt _ _ key) = key"
| "conversion_key (From_map _ _ key) = key"

fun run_from_conversion ::
    "(Type \<Rightarrow> Json option \<Rightarrow> FromJsonError + 'u) \<Rightarrow> (Type \<Rightarrow> (string, Json) btree_map \<Rightarrow> FromJsonError + 'u)
      \<Rightarrow> (string, Json) btree_map \<Rightarrow> from_conversion \<Rightarrow> FromJsonError + 'u" where
  "run_from_conversion json whole m (From_json_opt _ ty key) = json ty (bt_get m key)"
| "run_from_conversion json whole m (From_map _ ty _) = whole ty m"

definition run_from_json ::
    "(Type \<Rightarrow> Json option \<Rightarrow> FromJsonError + 'u) \<Rightarrow> (Type \<Rightarrow> (string, Json) btree_map \<Rightarrow> FromJsonError + 'u)
      \<Rightarrow> from_conversion list \<Rightarrow> Json \<Rightarrow> FromJsonError + (string \<times> 'u) list" where
  "run_from_json json whole conversions v =
     and_then (as_object v) (\<lambda>m.
       let run = run_from_conversion json whole m
       in struct_result (concat (map (\<lambda>c. field_error (conversion_key c) (run c)) conversions))
            (map (\<lambda>c. (conversion_ident c, projr (run c))) conversions))"

text \<open>
  A struct to be written gives the value of each field: \<open>val\<close> of a plain one, \<open>optional\<close> of an
  optional one and \<open>many\<close> the map of a family.
\<close>

fun run_to_conversion ::
    "(string \<Rightarrow> Value) \<Rightarrow> (string \<Rightarrow> Value option) \<Rightarrow> (string \<Rightarrow> (string, Value) btree_map)
      \<Rightarrow> to_conversion \<Rightarrow> (string \<times> Value) list" where
  "run_to_conversion val optional many (To_many ident _) = ns_many (many ident)"
| "run_to_conversion val optional many (To_optional ident _ key) = ns_opt_field key (\<lambda>v. v) (optional ident)"
| "run_to_conversion val optional many (To_value ident _ key) = ns_field key (val ident)"

definition run_to_ns_map ::
    "(string \<Rightarrow> Value) \<Rightarrow> (string \<Rightarrow> Value option) \<Rightarrow> (string \<Rightarrow> (string, Value) btree_map)
      \<Rightarrow> to_conversion list \<Rightarrow> (string, Value) btree_map" where
  "run_to_ns_map val optional many conversions = ns_map (map (run_to_conversion val optional many) conversions)"

section \<open>What the macros accept\<close>

text \<open>
  Code is generated exactly for structs with named fields and for tuple structs of one field, by
  both macros alike.
\<close>

lemma unnamed_compile_error:
  "(\<exists>e. unnamed_fields trait path ident types = Compile_error e) \<longleftrightarrow> length types \<noteq> 1"
proof (cases types rule: rev_cases)
  case Nil
  then show ?thesis by (simp add: unnamed_fields_def)
next
  case (snoc ts t)
  then show ?thesis by (cases ts rule: rev_cases) (simp_all add: unnamed_fields_def)
qed

lemma derive_compile_error:
  "(\<exists>e. derive trait conversion input = Compile_error e) \<longleftrightarrow>
     (\<forall>fs. di_data input = Data_Struct fs \<longrightarrow>
        fs = Fields_Unit \<or> (\<exists>types. fs = Fields_Unnamed types \<and> length types \<noteq> 1))"
  by (cases "di_data input"; cases "case di_data input of Data_Struct fs \<Rightarrow> fs | _ \<Rightarrow> Fields_Unit")
    (auto simp: derive_def Let_def unnamed_compile_error)

text \<open>A renamed field is converted under its new key in both directions.\<close>

lemma conversion_key_field [simp]: "conversion_key (from_json_conversion f) = field_str f"
  by (simp add: from_json_conversion_def)

lemma conversion_ident_field [simp]: "conversion_ident (from_json_conversion f) = f_ident f"
  by (simp add: from_json_conversion_def)

text \<open>Every family is read from the whole object; the converse is what \<^verbatim>\<open>dynamic_parse\<close> adds.\<close>

lemma many_dynamic: "is_many attr \<Longrightarrow> is_dynamic_parse attr"
  by (auto simp: is_many_def is_dynamic_parse_def list_ex_iff split: option.splits)

text \<open>The generated reader accepts an object exactly when every field converts.\<close>

lemma concat_field_errors_Nil:
  "concat (map (\<lambda>c. field_error (key c) (run c)) cs) = [] \<longleftrightarrow> (\<forall>c \<in> set cs. \<exists>x. run c = Inr x)"
  by (auto simp: field_error_Nil)

lemma run_all_Inr:
  "(\<forall>c \<in> set cs. \<exists>x. run c = Inr x) \<and> fs = map (\<lambda>c. (ident c, projr (run c))) cs \<longleftrightarrow>
     list_all2 (\<lambda>c f. fst f = ident c \<and> run c = Inr (snd f)) cs fs"
proof (induction cs arbitrary: fs)
  case (Cons c cs)
  then show ?case by (cases fs) (auto simp flip: Cons.IH)
qed simp

lemma run_from_json_Inr:
  "run_from_json json whole cs v = Inr fs \<longleftrightarrow>
     (\<exists>m. v = JObject m \<and>
       list_all2 (\<lambda>c f. fst f = conversion_ident c \<and> run_from_conversion json whole m c = Inr (snd f)) cs fs)"
  by (auto simp: run_from_json_def Let_def result_simps concat_field_errors_Nil run_all_Inr [symmetric])

end
