(* ===== verification/Derived_Namespaces.thy ===== *)
theory Derived_Namespaces
  imports Derive_Macro Iso_Namespace Aamva_Namespace
begin

text \<open>
  The declarations of the two namespaces (\<^verbatim>\<open>org_iso_18013_5_1/mod.rs\<close> and
  \<^verbatim>\<open>org_iso_18013_5_1_aamva/mod.rs\<close>) as the derive macros see them, and the proof that what the
  macros generate for them is the conversions of \<open>Iso_Namespace\<close> and \<open>Aamva_Namespace\<close>: the same
  fields under the same keys in the same order, read and written the same way.
\<close>

section \<open>Declarations\<close>

definition named_type :: "string \<Rightarrow> Type" where
  "named_type t = Type_Path [(t, [])]"

definition option_of :: "string \<Rightarrow> Type" where
  "option_of t = Type_Path [(''Option'', [named_type t])]"

definition isomdl_word :: "string \<Rightarrow> Attribute" where
  "isomdl_word w = Some (Meta_List [''isomdl''] [Nested_Meta (Meta_Path [w])])"

definition isomdl_value :: "string \<Rightarrow> string \<Rightarrow> Attribute" where
  "isomdl_value w s = Some (Meta_List [''isomdl''] [Nested_Meta (Meta_NameValue [w] (Lit_Str s))])"

definition field :: "string \<Rightarrow> Type \<Rightarrow> Attribute list \<Rightarrow> Field" where
  "field ident ty attrs = \<lparr> f_ident = ident, f_ty = ty, f_attrs = attrs \<rparr>"

definition aamva_declared :: "Field list" where
  "aamva_declared =
    [field ''domestic_driving_privileges'' (named_type ''DomesticDrivingPrivileges'') [],
     field ''name_suffix'' (option_of ''NameSuffix'') [],
     field ''organ_donor'' (option_of ''Present'') [],
     field ''veteran'' (option_of ''Present'') [],
     field ''family_name_truncation'' (named_type ''NameTruncation'') [],
     field ''given_name_truncation'' (named_type ''NameTruncation'') [],
     field ''aka_family_name_v2'' (option_of ''Latin1'') [isomdl_value ''rename'' ''aka_family_name.v2''],
     field ''aka_given_name_v2'' (option_of ''Latin1'') [isomdl_value ''rename'' ''aka_given_name.v2''],
     field ''aka_suffix'' (option_of ''NameSuffix'') [],
     field ''weight_range'' (option_of ''WeightRange'') [],
     field ''race_ethnicity'' (option_of ''RaceAndEthnicity'') [],
     field ''edl_credential'' (option_of ''EDLIndicator'') [isomdl_value ''rename'' ''EDL_credential''],
     field ''sex'' (named_type ''Sex'') [],
     field ''dhs_compliance'' (named_type ''DHSCompliance'') [isomdl_value ''rename'' ''DHS_compliance''],
     field ''resident_county'' (option_of ''CountyCode'') [],
     field ''hazmat_endorsement_expiration_date'' (option_of ''FullDate'') [],
     field ''cdl_indicator'' (option_of ''Present'') [isomdl_value ''rename'' ''CDL_indicator''],
     field ''dhs_compliance_text'' (option_of ''String'') [isomdl_value ''rename'' ''DHS_compliance_text''],
     field ''dhs_temporary_lawful_status'' (option_of ''Present'') [isomdl_value ''rename'' ''DHS_temporary_lawful_status'']]"

definition aamva_declaration :: DeriveInput where
  "aamva_declaration = \<lparr> di_ident = ''OrgIso1801351Aamva'', di_data = Data_Struct (Fields_Named aamva_declared),
     di_attrs = [isomdl_value ''crate'' ''crate''] \<rparr>"

definition iso_declared :: "Field list" where
  "iso_declared =
    [field ''family_name'' (named_type ''Latin1'') [],
     field ''given_name'' (named_type ''Latin1'') [],
     field ''birth_date'' (named_type ''FullDate'') [],
     field ''issue_date'' (named_type ''TDateOrFullDate'') [],
     field ''expiry_date'' (named_type ''TDateOrFullDate'') [],
     field ''issuing_country'' (named_type ''Alpha2'') [],
     field ''issuing_authority'' (named_type ''Latin1'') [],
     field ''document_number'' (named_type ''Latin1'') [],
     field ''portrait'' (named_type ''ByteStr'') [],
     field ''driving_privileges'' (named_type ''DrivingPrivileges'') [],
     field ''un_distinguishing_sign'' (named_type ''UNDistinguishingSign'') [],
     field ''administrative_number'' (option_of ''Latin1'') [],
     field ''sex'' (option_of ''Sex'') [],
     field ''height'' (option_of ''u32'') [],
     field ''weight'' (option_of ''u32'') [],
     field ''eye_colour'' (option_of ''EyeColour'') [],
     field ''hair_colour'' (option_of ''HairColour'') [],
     field ''birth_place'' (option_of ''Latin1'') [],
     field ''resident_address'' (option_of ''Latin1'') [],
     field ''portrait_capture_date'' (option_of ''TDate'') [],
     field ''age_in_years'' (option_of ''u32'') [],
     field ''age_birth_year'' (option_of ''u32'') [],
     field ''age_over_xx'' (named_type ''AgeOver'') [isomdl_word ''many''],
     field ''issuing_jurisdiction'' (option_of ''IssuingJurisdiction'') [isomdl_word ''dynamic_parse''],
     field ''nationality'' (option_of ''Alpha2'') [],
     field ''resident_city'' (option_of ''Latin1'') [],
     field ''resident_state'' (option_of ''Latin1'') [],
     field ''resident_postal_code'' (option_of ''Latin1'') [],
     field ''resident_country'' (option_of ''Alpha2'') [],
     field ''biometric_template_xx'' (named_type ''BiometricTemplate'') [isomdl_word ''many''],
     field ''family_name_national_character'' (option_of ''String'') [],
     field ''given_name_national_character'' (option_of ''String'') [],
     field ''signature_usual_mark'' (option_of ''ByteStr'') []]"

definition iso_declaration :: DeriveInput where
  "iso_declaration = \<lparr> di_ident = ''OrgIso1801351'', di_data = Data_Struct (Fields_Named iso_declared),
     di_attrs = [isomdl_value ''crate'' ''crate''] \<rparr>"

section \<open>What the macros make of them\<close>

lemmas attribute_defs = from_json_conversion_def to_cbor_conversion_def field_def field_str_def is_dynamic_parse_def
  is_many_def rename_def crate_path_def get_isomdl_attributes_def is_ident_def isomdl_word_def isomdl_value_def
  first_of_def List.map_filter_def

lemma is_optional_type [simp]: "is_optional (option_of t)" "is_optional (named_type t) \<longleftrightarrow> t = ''Option''"
  by (auto simp: option_of_def named_type_def)

lemma aamva_from_conversions:
  "map from_json_conversion aamva_declared =
    [From_json_opt ''domestic_driving_privileges'' (named_type ''DomesticDrivingPrivileges'') ''domestic_driving_privileges'',
     From_json_opt ''name_suffix'' (option_of ''NameSuffix'') ''name_suffix'',
     From_json_opt ''organ_donor'' (option_of ''Present'') ''organ_donor'',
     From_json_opt ''veteran'' (option_of ''Present'') ''veteran'',
     From_json_opt ''family_name_truncation'' (named_type ''NameTruncation'') ''family_name_truncation'',
     From_json_opt ''given_name_truncation'' (named_type ''NameTruncation'') ''given_name_truncation'',
     From_json_opt ''aka_family_name_v2'' (option_of ''Latin1'') ''aka_family_name.v2'',
     From_json_opt ''aka_given_name_v2'' (option_of ''Latin1'') ''aka_given_name.v2'',
     From_json_opt ''aka_suffix'' (option_of ''NameSuffix'') ''aka_suffix'',
     From_json_opt ''weight_range'' (option_of ''WeightRange'') ''weight_range'',
     From_json_opt ''race_ethnicity'' (option_of ''RaceAndEthnicity'') ''race_ethnicity'',
     From_json_opt ''edl_credential'' (option_of ''EDLIndicator'') ''EDL_credential'',
     From_json_opt ''sex'' (named_type ''Sex'') ''sex'',
     From_json_opt ''dhs_compliance'' (named_type ''DHSCompliance'') ''DHS_compliance'',
     From_json_opt ''resident_county'' (option_of ''CountyCode'') ''resident_county'',
     From_json_opt ''hazmat_endorsement_expiration_date'' (option_of ''FullDate'') ''hazmat_endorsement_expiration_date'',
     From_json_opt ''cdl_indicator'' (option_of ''Present'') ''CDL_indicator'',
     From_json_opt ''dhs_compliance_text'' (option_of ''String'') ''DHS_compliance_text'',
     From_json_opt ''dhs_temporary_lawful_status'' (option_of ''Present'') ''DHS_temporary_lawful_status'']"
  by (simp add: aamva_declared_def attribute_defs)

lemma aamva_to_conversions:
  "map to_cbor_conversion aamva_declared =
    [To_value ''domestic_driving_privileges'' (named_type ''DomesticDrivingPrivileges'') ''domestic_driving_privileges'',
     To_optional ''name_suffix'' (option_of ''NameSuffix'') ''name_suffix'',
     To_optional ''organ_donor'' (option_of ''Present'') ''organ_donor'',
     To_optional ''veteran'' (option_of ''Present'') ''veteran'',
     To_value ''family_name_truncation'' (named_type ''NameTruncation'') ''family_name_truncation'',
     To_value ''given_name_truncation'' (named_type ''NameTruncation'') ''given_name_truncation'',
     To_optional ''aka_family_name_v2'' (option_of ''Latin1'') ''aka_family_name.v2'',
     To_optional ''aka_given_name_v2'' (option_of ''Latin1'') ''aka_given_name.v2'',
     To_optional ''aka_suffix'' (option_of ''NameSuffix'') ''aka_suffix'',
     To_optional ''weight_range'' (option_of ''WeightRange'') ''weight_range'',
     To_optional ''race_ethnicity'' (option_of ''RaceAndEthnicity'') ''race_ethnicity'',
     To_optional ''edl_credential'' (option_of ''EDLIndicator'') ''EDL_credential'',
     To_value ''sex'' (named_type ''Sex'') ''sex'',
     To_value ''dhs_compliance'' (named_type ''DHSCompliance'') ''DHS_compliance'',
     To_optional ''resident_county'' (option_of ''CountyCode'') ''resident_county'',
     To_optional ''hazmat_endorsement_expiration_date'' (option_of ''FullDate'') ''hazmat_endorsement_expiration_date'',
     To_optional ''cdl_indicator'' (option_of ''Present'') ''CDL_indicator'',
     To_optional ''dhs_compliance_text'' (option_of ''String'') ''DHS_compliance_text'',
     To_optional ''dhs_temporary_lawful_status'' (option_of ''Present'') ''DHS_temporary_lawful_status'']"
  by (simp add: aamva_declared_def attribute_defs)

lemma iso_from_conversions:
  "map from_json_conversion iso_declared =
    [From_json_opt ''family_name'' (named_type ''Latin1'') ''family_name'',
     From_json_opt ''given_name'' (named_type ''Latin1'') ''given_name'',
     From_json_opt ''birth_date'' (named_type ''FullDate'') ''birth_date'',
     From_json_opt ''issue_date'' (named_type ''TDateOrFullDate'') ''issue_date'',
     From_json_opt ''expiry_date'' (named_type ''TDateOrFullDate'') ''expiry_date'',
     From_json_opt ''issuing_country'' (named_type ''Alpha2'') ''issuing_country'',
     From_json_opt ''issuing_authority'' (named_type ''Latin1'') ''issuing_authority'',
     From_json_opt ''document_number'' (named_type ''Latin1'') ''document_number'',
     From_json_opt ''portrait'' (named_type ''ByteStr'') ''portrait'',
     From_json_opt ''driving_privileges'' (named_type ''DrivingPrivileges'') ''driving_privileges'',
     From_json_opt ''un_distinguishing_sign'' (named_type ''UNDistinguishingSign'') ''un_distinguishing_sign'',
     From_json_opt ''administrative_number'' (option_of ''Latin1'') ''administrative_number'',
     From_json_opt ''sex'' (option_of ''Sex'') ''sex'',
     From_json_opt ''height'' (option_of ''u32'') ''height'',
     From_json_opt ''weight'' (option_of ''u32'') ''weight'',
     From_json_opt ''eye_colour'' (option_of ''EyeColour'') ''eye_colour'',
     From_json_opt ''hair_colour'' (option_of ''HairColour'') ''hair_colour'',
     From_json_opt ''birth_place'' (option_of ''Latin1'') ''birth_place'',
     From_json_opt ''resident_address'' (option_of ''Latin1'') ''resident_address'',
     From_json_opt ''portrait_capture_date'' (option_of ''TDate'') ''portrait_capture_date'',
     From_json_opt ''age_in_years'' (option_of ''u32'') ''age_in_years'',
     From_json_opt ''age_birth_year'' (option_of ''u32'') ''age_birth_year'',
     From_map ''age_over_xx'' (named_type ''AgeOver'') ''age_over_xx'',
     From_map ''issuing_jurisdiction'' (option_of ''IssuingJurisdiction'') ''issuing_jurisdiction'',
     From_json_opt ''nationality'' (option_of ''Alpha2'') ''nationality'',
     From_json_opt ''resident_city'' (option_of ''Latin1'') ''resident_city'',
     From_json_opt ''resident_state'' (option_of ''Latin1'') ''resident_state'',
     From_json_opt ''resident_postal_code'' (option_of ''Latin1'') ''resident_postal_code'',
     From_json_opt ''resident_country'' (option_of ''Alpha2'') ''resident_country'',
     From_map ''biometric_template_xx'' (named_type ''BiometricTemplate'') ''biometric_template_xx'',
     From_json_opt ''family_name_national_character'' (option_of ''String'') ''family_name_national_character'',
     From_json_opt ''given_name_national_character'' (option_of ''String'') ''given_name_national_character'',
     From_json_opt ''signature_usual_mark'' (option_of ''ByteStr'') ''signature_usual_mark'']"
  by (simp add: iso_declared_def attribute_defs)

lemma iso_to_conversions:
  "map to_cbor_conversion iso_declared =
    [To_value ''family_name'' (named_type ''Latin1'') ''family_name'',
     To_value ''given_name'' (named_type ''Latin1'') ''given_name'',
     To_value ''birth_date'' (named_type ''FullDate'') ''birth_date'',
     To_value ''issue_date'' (named_type ''TDateOrFullDate'') ''issue_date'',
     To_value ''expiry_date'' (named_type ''TDateOrFullDate'') ''expiry_date'',
     To_value ''issuing_country'' (named_type ''Alpha2'') ''issuing_country'',
     To_value ''issuing_authority'' (named_type ''Latin1'') ''issuing_authority'',
     To_value ''document_number'' (named_type ''Latin1'') ''document_number'',
     To_value ''portrait'' (named_type ''ByteStr'') ''portrait'',
     To_value ''driving_privileges'' (named_type ''DrivingPrivileges'') ''driving_privileges'',
     To_value ''un_distinguishing_sign'' (named_type ''UNDistinguishingSign'') ''un_distinguishing_sign'',
     To_optional ''administrative_number'' (option_of ''Latin1'') ''administrative_number'',
     To_optional ''sex'' (option_of ''Sex'') ''sex'',
     To_optional ''height'' (option_of ''u32'') ''height'',
     To_optional ''weight'' (option_of ''u32'') ''weight'',
     To_optional ''eye_colour'' (option_of ''EyeColour'') ''eye_colour'',
     To_optional ''hair_colour'' (option_of ''HairColour'') ''hair_colour'',
     To_optional ''birth_place'' (option_of ''Latin1'') ''birth_place'',
     To_optional ''resident_address'' (option_of ''Latin1'') ''resident_address'',
     To_optional ''portrait_capture_date'' (option_of ''TDate'') ''portrait_capture_date'',
     To_optional ''age_in_years'' (option_of ''u32'') ''age_in_years'',
     To_optional ''age_birth_year'' (option_of ''u32'') ''age_birth_year'',
     To_many ''age_over_xx'' (named_type ''AgeOver''),
     To_optional ''issuing_jurisdiction'' (option_of ''IssuingJurisdiction'') ''issuing_jurisdiction'',
     To_optional ''nationality'' (option_of ''Alpha2'') ''nationality'',
     To_optional ''resident_city'' (option_of ''Latin1'') ''resident_city'',
     To_optional ''resident_state'' (option_of ''Latin1'') ''resident_state'',
     To_optional ''resident_postal_code'' (option_of ''Latin1'') ''resident_postal_code'',
     To_optional ''resident_country'' (option_of ''Alpha2'') ''resident_country'',
     To_many ''biometric_template_xx'' (named_type ''BiometricTemplate''),
     To_optional ''family_name_national_character'' (option_of ''String'') ''family_name_national_character'',
     To_optional ''given_name_national_character'' (option_of ''String'') ''given_name_national_character'',
     To_optional ''signature_usual_mark'' (option_of ''ByteStr'') ''signature_usual_mark'']"
  by (simp add: iso_declared_def attribute_defs)

section \<open>The values of the AAMVA fields\<close>

text \<open>One type for the values of all field types, and the readers of the types by name.\<close>

datatype aamva_value =
    AV_Privileges DomesticDrivingPrivileges |
    AV_Suffix NameSuffix |
    AV_Present Present |
    AV_Truncation NameTruncation |
    AV_Latin1 string |
    AV_Weight WeightRange |
    AV_Race RaceAndEthnicity |
    AV_Edl EDLIndicator |
    AV_Sex AamvaSex |
    AV_Dhs DHSCompliance |
    AV_County CountyCode |
    AV_Date Date |
    AV_String string

datatype 'u field_value = One 'u | Opt "'u option"

definition aamva_base :: "'dt date_ops \<Rightarrow> string \<Rightarrow> Json \<Rightarrow> FromJsonError + aamva_value" where
  "aamva_base T name =
     (case map_of
       [(''DomesticDrivingPrivileges'', \<lambda>v. map_ok AV_Privileges (DomesticDrivingPrivileges_from_json T v)),
        (''NameSuffix'', \<lambda>v. map_ok AV_Suffix (NameSuffix_from_json v)),
        (''Present'', \<lambda>v. map_ok AV_Present (Present_from_json v)),
        (''NameTruncation'', \<lambda>v. map_ok AV_Truncation (NameTruncation_from_json v)),
        (''Latin1'', \<lambda>v. map_ok AV_Latin1 (Latin1_from_json v)),
        (''WeightRange'', \<lambda>v. map_ok AV_Weight (WeightRange_from_json v)),
        (''RaceAndEthnicity'', \<lambda>v. map_ok AV_Race (RaceAndEthnicity_from_json v)),
        (''EDLIndicator'', \<lambda>v. map_ok AV_Edl (EDLIndicator_from_json v)),
        (''Sex'', \<lambda>v. map_ok AV_Sex (AamvaSex_from_json v)),
        (''DHSCompliance'', \<lambda>v. map_ok AV_Dhs (DHSCompliance_from_json v)),
        (''CountyCode'', \<lambda>v. map_ok AV_County (CountyCode_from_json v)),
        (''FullDate'', \<lambda>v. map_ok AV_Date (FullDate_from_json T v)),
        (''String'', \<lambda>v. map_ok AV_String (String_from_json v))] name of
        Some f \<Rightarrow> f
      | None \<Rightarrow> \<lambda>_. Inl Missing)"

text \<open>\<^verbatim>\<open>from_json_opt\<close> of a type by its name, and of an \<^verbatim>\<open>Option\<close> of one.\<close>

fun field_reader :: "(string \<Rightarrow> Json \<Rightarrow> FromJsonError + 'u) \<Rightarrow> Type \<Rightarrow> Json option \<Rightarrow> FromJsonError + 'u field_value" where
  "field_reader base (Type_Path [(n, [Type_Path [(t, [])]])]) j = map_ok Opt (Option_from_json_opt (base t) j)"
| "field_reader base (Type_Path [(n, [])]) j = map_ok One (from_json_opt (base n) j)"
| "field_reader base _ j = Inl Missing"

definition aamva_fields :: "OrgIso1801351Aamva \<Rightarrow> (string \<times> aamva_value field_value) list" where
  "aamva_fields d =
    [(''domestic_driving_privileges'', One (AV_Privileges (aamva_domestic_driving_privileges d))),
     (''name_suffix'', Opt (map_option AV_Suffix (aamva_name_suffix d))),
     (''organ_donor'', Opt (map_option AV_Present (aamva_organ_donor d))),
     (''veteran'', Opt (map_option AV_Present (aamva_veteran d))),
     (''family_name_truncation'', One (AV_Truncation (aamva_family_name_truncation d))),
     (''given_name_truncation'', One (AV_Truncation (aamva_given_name_truncation d))),
     (''aka_family_name_v2'', Opt (map_option AV_Latin1 (aamva_aka_family_name_v2 d))),
     (''aka_given_name_v2'', Opt (map_option AV_Latin1 (aamva_aka_given_name_v2 d))),
     (''aka_suffix'', Opt (map_option AV_Suffix (aamva_aka_suffix d))),
     (''weight_range'', Opt (map_option AV_Weight (aamva_weight_range d))),
     (''race_ethnicity'', Opt (map_option AV_Race (aamva_race_ethnicity d))),
     (''edl_credential'', Opt (map_option AV_Edl (aamva_edl_credential d))),
     (''sex'', One (AV_Sex (aamva_sex d))),
     (''dhs_compliance'', One (AV_Dhs (aamva_dhs_compliance d))),
     (''resident_county'', Opt (map_option AV_County (aamva_resident_county d))),
     (''hazmat_endorsement_expiration_date'', Opt (map_option AV_Date (aamva_hazmat_endorsement_expiration_date d))),
     (''cdl_indicator'', Opt (map_option AV_Present (aamva_cdl_indicator d))),
     (''dhs_compliance_text'', Opt (map_option AV_String (aamva_dhs_compliance_text d))),
     (''dhs_temporary_lawful_status'', Opt (map_option AV_Present (aamva_dhs_temporary_lawful_status d)))]"

definition aamva_plain :: "OrgIso1801351Aamva \<Rightarrow> (string \<times> Value) list" where
  "aamva_plain d =
    [(''domestic_driving_privileges'', DomesticDrivingPrivileges_to_cbor (aamva_domestic_driving_privileges d)),
     (''family_name_truncation'', NameTruncation_to_cbor (aamva_family_name_truncation d)),
     (''given_name_truncation'', NameTruncation_to_cbor (aamva_given_name_truncation d)),
     (''sex'', AamvaSex_to_cbor (aamva_sex d)),
     (''dhs_compliance'', DHSCompliance_to_cbor (aamva_dhs_compliance d))]"

definition aamva_optional :: "OrgIso1801351Aamva \<Rightarrow> (string \<times> Value option) list" where
  "aamva_optional d =
    [(''name_suffix'', map_option NameSuffix_to_cbor (aamva_name_suffix d)),
     (''organ_donor'', map_option Present_to_cbor (aamva_organ_donor d)),
     (''veteran'', map_option Present_to_cbor (aamva_veteran d)),
     (''aka_family_name_v2'', map_option Latin1_into (aamva_aka_family_name_v2 d)),
     (''aka_given_name_v2'', map_option Latin1_into (aamva_aka_given_name_v2 d)),
     (''aka_suffix'', map_option NameSuffix_to_cbor (aamva_aka_suffix d)),
     (''weight_range'', map_option WeightRange_to_cbor (aamva_weight_range d)),
     (''race_ethnicity'', map_option RaceAndEthnicity_to_cbor (aamva_race_ethnicity d)),
     (''edl_credential'', map_option EDLIndicator_to_cbor (aamva_edl_credential d)),
     (''resident_county'', map_option CountyCode_to_cbor (aamva_resident_county d)),
     (''hazmat_endorsement_expiration_date'', map_option FullDate_into (aamva_hazmat_endorsement_expiration_date d)),
     (''cdl_indicator'', map_option Present_to_cbor (aamva_cdl_indicator d)),
     (''dhs_compliance_text'', map_option VText (aamva_dhs_compliance_text d)),
     (''dhs_temporary_lawful_status'', map_option Present_to_cbor (aamva_dhs_temporary_lawful_status d))]"

definition iso_plain :: "OrgIso1801351 \<Rightarrow> (string \<times> Value) list" where
  "iso_plain d =
    [(''family_name'', Latin1_into (iso_family_name d)),
     (''given_name'', Latin1_into (iso_given_name d)),
     (''birth_date'', FullDate_into (iso_birth_date d)),
     (''issue_date'', TDateOrFullDate_into (iso_issue_date d)),
     (''expiry_date'', TDateOrFullDate_into (iso_expiry_date d)),
     (''issuing_country'', Alpha2_into (iso_issuing_country d)),
     (''issuing_authority'', Latin1_into (iso_issuing_authority d)),
     (''document_number'', Latin1_into (iso_document_number d)),
     (''portrait'', ByteStr_into (iso_portrait d)),
     (''driving_privileges'', DrivingPrivileges_into (iso_driving_privileges d)),
     (''un_distinguishing_sign'', UN_into (iso_un_distinguishing_sign d))]"

definition iso_optional :: "OrgIso1801351 \<Rightarrow> (string \<times> Value option) list" where
  "iso_optional d =
    [(''administrative_number'', map_option Latin1_into (iso_administrative_number d)),
     (''sex'', map_option Sex_into (iso_sex d)),
     (''height'', map_option u32_to_cbor (iso_height d)),
     (''weight'', map_option u32_to_cbor (iso_weight d)),
     (''eye_colour'', map_option EyeColour_into (iso_eye_colour d)),
     (''hair_colour'', map_option HairColour_into (iso_hair_colour d)),
     (''birth_place'', map_option Latin1_into (iso_birth_place d)),
     (''resident_address'', map_option Latin1_into (iso_resident_address d)),
     (''portrait_capture_date'', map_option TDate_into (iso_portrait_capture_date d)),
     (''age_in_years'', map_option u32_to_cbor (iso_age_in_years d)),
     (''age_birth_year'', map_option u32_to_cbor (iso_age_birth_year d)),
     (''issuing_jurisdiction'', map_option IssuingJurisdiction_into (iso_issuing_jurisdiction d)),
     (''nationality'', map_option Alpha2_into (iso_nationality d)),
     (''resident_city'', map_option Latin1_into (iso_resident_city d)),
     (''resident_state'', map_option Latin1_into (iso_resident_state d)),
     (''resident_postal_code'', map_option Latin1_into (iso_resident_postal_code d)),
     (''resident_country'', map_option Alpha2_into (iso_resident_country d)),
     (''family_name_national_character'', map_option VText (iso_family_name_national_character d)),
     (''given_name_national_character'', map_option VText (iso_given_name_national_character d)),
     (''signature_usual_mark'', map_option ByteStr_into (iso_signature_usual_mark d))]"

definition iso_many :: "OrgIso1801351 \<Rightarrow> (string \<times> (string, Value) btree_map) list" where
  "iso_many d =
    [(''age_over_xx'', AgeOver_to_ns_map (iso_age_over_xx d)),
     (''biometric_template_xx'', BiometricTemplate_to_ns_map (iso_biometric_template_xx d))]"

section \<open>The generated code is the model\<close>

lemma map_ok_comp: "map_ok g (map_ok f r) = map_ok (\<lambda>x. g (f x)) r"
  by (cases r) auto

lemma from_json_opt_map: "from_json_opt (\<lambda>v. map_ok g (f v)) j = map_ok g (from_json_opt f j)"
  by (cases j) (simp_all add: from_json_opt_def)

lemma Option_from_json_opt_map:
  "Option_from_json_opt (\<lambda>v. map_ok g (f v)) j = map_ok (map_option g) (Option_from_json_opt f j)"
proof (cases j)
  case (Some v)
  then show ?thesis by (cases "f v") (simp_all add: Option_from_json_opt_def)
qed (simp add: Option_from_json_opt_def)

lemma field_error_map_ok: "field_error name (map_ok g r) = field_error name r"
  by (cases r) auto

lemma struct_result_map_ok:
  assumes "es = []  \<Longrightarrow> x = g y"
  shows "struct_result es x = map_ok g (struct_result es y)"
  using assms by (auto simp: struct_result_def split: list.splits)

lemma reader_simps:
  "field_reader base (named_type t) j = map_ok One (from_json_opt (base t) j)"
  "field_reader base (option_of t) j = map_ok Opt (Option_from_json_opt (base t) j)"
  by (simp_all add: named_type_def option_of_def)

lemma aamva_base_simps:
  "aamva_base T ''DomesticDrivingPrivileges'' = (\<lambda>v. map_ok AV_Privileges (DomesticDrivingPrivileges_from_json T v))"
  "aamva_base T ''NameSuffix'' = (\<lambda>v. map_ok AV_Suffix (NameSuffix_from_json v))"
  "aamva_base T ''Present'' = (\<lambda>v. map_ok AV_Present (Present_from_json v))"
  "aamva_base T ''NameTruncation'' = (\<lambda>v. map_ok AV_Truncation (NameTruncation_from_json v))"
  "aamva_base T ''Latin1'' = (\<lambda>v. map_ok AV_Latin1 (Latin1_from_json v))"
  "aamva_base T ''WeightRange'' = (\<lambda>v. map_ok AV_Weight (WeightRange_from_json v))"
  "aamva_base T ''RaceAndEthnicity'' = (\<lambda>v. map_ok AV_Race (RaceAndEthnicity_from_json v))"
  "aamva_base T ''EDLIndicator'' = (\<lambda>v. map_ok AV_Edl (EDLIndicator_from_json v))"
  "aamva_base T ''Sex'' = (\<lambda>v. map_ok AV_Sex (AamvaSex_from_json v))"
  "aamva_base T ''DHSCompliance'' = (\<lambda>v. map_ok AV_Dhs (DHSCompliance_from_json v))"
  "aamva_base T ''CountyCode'' = (\<lambda>v. map_ok AV_County (CountyCode_from_json v))"
  "aamva_base T ''FullDate'' = (\<lambda>v. map_ok AV_Date (FullDate_from_json T v))"
  "aamva_base T ''String'' = (\<lambda>v. map_ok AV_String (String_from_json v))"
  by (simp_all add: aamva_base_def)

lemma aamva_run:
  "run_from_json (field_reader (aamva_base T)) whole (map from_json_conversion aamva_declared) v
     = map_ok aamva_fields (OrgIso1801351Aamva_from_json T v)"
proof (cases "as_object v")
  case (Inl e)
  then show ?thesis by (simp add: run_from_json_def OrgIso1801351Aamva_from_json_def)
next
  case (Inr m)
  have "run_from_json (field_reader (aamva_base T)) whole (map from_json_conversion aamva_declared) v
      = map_ok aamva_fields (OrgIso1801351Aamva_from_map T m)"
    unfolding run_from_json_def Inr and_then.simps OrgIso1801351Aamva_from_map_def Let_def aamva_from_conversions
      list.map conversion_key.simps conversion_ident.simps run_from_conversion.simps reader_simps aamva_base_simps
      from_json_opt_map Option_from_json_opt_map map_ok_comp field_error_map_ok
  proof (rule struct_result_map_ok, goal_cases)
    case 1
    then show ?case
      unfolding concat.simps append_is_Nil_conv field_error_Nil
      by (elim conjE exE) (simp add: aamva_fields_def)
  qed
  then show ?thesis by (simp add: OrgIso1801351Aamva_from_json_def Inr)
qed

text \<open>The value of a field in a table of them.\<close>

definition of_field :: "(string \<times> 'a) list \<Rightarrow> string \<Rightarrow> 'a" where
  "of_field table ident = the (map_of table ident)"

lemma ns_opt_field_map: "ns_opt_field key (\<lambda>v. v) (map_option f x) = ns_opt_field key f x"
  by (cases x) (simp_all add: ns_opt_field_def)

lemma aamva_written:
  "run_to_ns_map (of_field (aamva_plain d)) (of_field (aamva_optional d)) many (map to_cbor_conversion aamva_declared)
     = OrgIso1801351Aamva_to_ns_map d"
  unfolding run_to_ns_map_def aamva_to_conversions OrgIso1801351Aamva_to_ns_map_def
  by (simp add: of_field_def aamva_plain_def aamva_optional_def ns_opt_field_map)

lemma iso_written:
  "run_to_ns_map (of_field (iso_plain d)) (of_field (iso_optional d)) (of_field (iso_many d)) (map to_cbor_conversion iso_declared)
     = OrgIso1801351_to_ns_map d"
  unfolding run_to_ns_map_def iso_to_conversions OrgIso1801351_to_ns_map_def
  by (simp add: of_field_def iso_plain_def iso_optional_def iso_many_def ns_opt_field_map)

section \<open>Properties\<close>

lemma map_option_eq: "inj f \<Longrightarrow> map_option f x = map_option f y \<longleftrightarrow> x = y"
  by (cases x; cases y) (auto dest: injD)

lemma aamva_value_inj:
  "inj AV_Suffix" "inj AV_Present" "inj AV_Latin1" "inj AV_Weight" "inj AV_Race" "inj AV_Edl" "inj AV_County"
  "inj AV_Date" "inj AV_String"
  by (simp_all add: inj_def)

lemmas aamva_option_eq = aamva_value_inj [THEN map_option_eq]

lemma aamva_fields_inj: "inj aamva_fields"
  by (rule injI, rule OrgIso1801351Aamva.equality)
    (simp_all only: aamva_fields_def list.inject prod.inject field_value.inject aamva_value.inject
      aamva_option_eq simp_thms, simp)

text \<open>The conversions of the two namespaces are the ones the derive macros generate from their
  declarations. Run on the declaration of the AAMVA namespace, the generated reader gives for every
  JSON value the outcome of the modelled one, with the same errors in the same order and, field by
  field, the same values, which determine the struct; and for both namespaces the generated writer
  gives the modelled map, renamed and optional fields and families of keys included.
\<close>

lemma derived_conversions:
  "(\<exists>cs. derive_from_json aamva_declaration = Impl_named ''crate'' ''OrgIso1801351Aamva'' cs \<and>
      run_from_json (field_reader (aamva_base T)) whole cs v
        = map_ok aamva_fields (OrgIso1801351Aamva_from_json T v)) \<and> inj aamva_fields \<and>
   (\<exists>cs. derive_to_cbor aamva_declaration = Impl_named ''crate'' ''OrgIso1801351Aamva'' cs \<and>
      run_to_ns_map (of_field (aamva_plain a)) (of_field (aamva_optional a)) many cs = OrgIso1801351Aamva_to_ns_map a) \<and>
   (\<exists>cs. derive_to_cbor iso_declaration = Impl_named ''crate'' ''OrgIso1801351'' cs \<and>
      run_to_ns_map (of_field (iso_plain d)) (of_field (iso_optional d)) (of_field (iso_many d)) cs
        = OrgIso1801351_to_ns_map d)"
proof -
  have "isomdl_path [isomdl_value ''crate'' ''crate''] = ''crate''"
    by (simp add: isomdl_path_def attribute_defs)
  then show ?thesis
    by (simp add: derive_from_json_def derive_to_cbor_def derive_def aamva_declaration_def iso_declaration_def
        aamva_run aamva_written iso_written aamva_fields_inj)
qed

end
