(* ===== verification/Utility.thy ===== *)
theory Utility
  imports X509_Validation Cbor_Interface Disclosure
begin

text \<open>
  The command line tool (\<^verbatim>\<open>src/bin/utils.rs\<close>, \<^verbatim>\<open>src/bin/x509/mod.rs\<close>): the namespaces and element
  identifiers of a stored document, and the validation of a document signer certificate against a
  root. The contents of the files are arguments, what is printed is the result, and parsing the
  command line is left out. PEM, base64 and the decoders are parameters.
\<close>

datatype RuleSet = RuleSet_Iaca | RuleSet_Aamva

datatype utility_error = Utility_Mdl stringify_error | Utility_Root | Utility_Chain x5chain_error

text \<open>The claims printed: every namespace with the identifiers of its elements, in key order.\<close>

definition document_claims :: "'vi Document \<Rightarrow> (string, string list) btree_map" where
  "document_claims doc = bt_of_list (map (\<lambda>(ns, inner). (ns, map fst inner)) (doc_namespaces doc))"

definition print_namespaces ::
    "('e \<Rightarrow> string) \<Rightarrow> (bytes \<Rightarrow> 'e + 'vi Document) \<Rightarrow> (string \<Rightarrow> bytes option) \<Rightarrow> string
      \<Rightarrow> utility_error + (string, string list) btree_map" where
  "print_namespaces show_error from_reader decode mdl =
     map_ok document_claims (map_err Utility_Mdl (parse_stringified show_error from_reader decode mdl))"

fun ruleset_of :: "RuleSet \<Rightarrow> ValidationRuleset" where
  "ruleset_of RuleSet_Iaca = Mdl"
| "ruleset_of RuleSet_Aamva = AamvaMdl"

text \<open>The root is read first; the chain is the signer alone and the registry the root alone.\<close>

definition validate_certs :: "('k, 's) x509_ops \<Rightarrow> u64 \<Rightarrow> (bytes \<Rightarrow> bytes option) \<Rightarrow> (bytes \<Rightarrow> Certificate option)
    \<Rightarrow> RuleSet \<Rightarrow> bytes \<Rightarrow> bytes \<Rightarrow> utility_error + context_error list" where
  "validate_certs ops now decode_pem from_der rules signer root =
     and_then (ok_or (Option.bind (decode_pem root) from_der) Utility_Root) (\<lambda>root.
     let trust_anchor_registry = \<lparr> anchors = [\<lparr> ta_certificate = root, ta_purpose = Iaca \<rparr>] \<rparr> in
     and_then (map_err Utility_Chain (and_then (with_pem_certificate decode_pem from_der [] signer) build_chain)) (\<lambda>x5chain.
       Inr (ValidationRuleset_validate ops now (ruleset_of rules) x5chain trust_anchor_registry)))"

section \<open>What the tool reports\<close>

text \<open>A document keeps its claims under the names they have in it.\<close>

lemma document_claims_get:
  assumes "bt_wf (doc_namespaces doc)"
  shows "bt_get (document_claims doc) ns = map_option (map fst) (bt_get (doc_namespaces doc) ns)"
proof -
  have "distinct (map fst (map (\<lambda>(ns, inner). (ns, map fst inner)) (doc_namespaces doc)))"
    using assms by (simp add: bt_wf_def strict_sorted_iff case_prod_unfold comp_def)
  then show ?thesis
    using assms by (simp add: document_claims_def bt_get_of_list_distinct bt_get_def map_of_map)
qed

text \<open>The tool prints errors of the rules exactly when both certificates can be read.\<close>

lemma validate_certs_Inr:
  "validate_certs ops now decode_pem from_der rules signer root = Inr errors \<longleftrightarrow>
     (\<exists>r d c. Option.bind (decode_pem root) from_der = Some r \<and> decode_pem signer = Some d \<and> from_der d = Some c \<and>
        errors = ValidationRuleset_validate ops now (ruleset_of rules) [\<lparr> cwd_inner = c, cwd_der = d \<rparr>]
          \<lparr> anchors = [\<lparr> ta_certificate = r, ta_purpose = Iaca \<rparr>] \<rparr>)"
  by (cases "Option.bind (decode_pem root) from_der"; cases "decode_pem signer";
      cases "from_der (the (decode_pem signer))")
    (auto simp: validate_certs_def with_pem_certificate_def CertificateWithDer_from_pem_def
      CertificateWithDer_from_der_def build_chain_def NonEmptyVec_try_from_def)

end
