(* ===== verification/Spec2Isabelle.thy ===== *)
theory Spec2Isabelle
  imports Worker_Budget Mdoc_Default Nfc_Options Session Age_Attestation Reader_Session Validity_Info Cbor_Interface
    Licence_Issuance Derived_Namespaces Utility
begin

text \<open>
  A verification library for the crate \<^verbatim>\<open>isomdl\<close> (ISO/IEC 18013-5 mobile documents): issuance of a
  document, its presentation between a holder's device and a reader, and the cryptography, certificate
  rules and CBOR structures underneath. Paths are relative to the crate's \<^verbatim>\<open>src/\<close>, those of the derive
  macros to the repository's \<^verbatim>\<open>macros/\<close>.

  \<^bold>\<open>How the parts interact.\<close> The data elements of a licence are read from JSON into the structs of two
  namespaces and written as CBOR (\<^verbatim>\<open>definitions/namespaces\<close> over \<^verbatim>\<open>definitions/traits\<close> and the derive
  macros). An issuer plans the digests of a document's items, has an executor
  compute them, assembles the mobile security object and has it signed (\<^verbatim>\<open>issuance/mdoc.rs\<close> over
  \<^verbatim>\<open>digest_executor.rs\<close>, \<^verbatim>\<open>simd_sha256.rs\<close>, \<^verbatim>\<open>cose.rs\<close>). The holder's device shows an engagement as a QR
  code; a reader derives session keys from it and sends an encrypted request; the device
  authenticates the reader, filters what it was asked by what the holder permits, prepares documents,
  has them signed and answers; the reader decrypts, parses and judges the answer
  (\<^verbatim>\<open>presentation/\<close> over \<^verbatim>\<open>definitions/\<close>).

  \<^bold>\<open>Theories.\<close>
  \<^item> Prelude, BTree_Map: results as sums, machine integers, big-endian bytes, the \<^verbatim>\<open>BTreeMap\<close> as a sorted
    association list with its invariant, non-empty containers.
  \<^item> Cbor_Value: CBOR values, byte strings and embedded items (\<^verbatim>\<open>definitions/helpers\<close>).
  \<^item> Sha256: the standard's hash as the reference. Simd_Sha256: the eight-lane hash. Digest_Executor,
    Worker_Budget: serial, SIMD, pooled and adaptive executors and the shared worker budget as a step
    relation. The contract of an executor is the locale \<open>digest_executor\<close>.
  \<^item> Mdoc_Plan, Mdoc_Assemble, Mdoc, Mdoc_Batch: planning with decoys, assembly of results in plan order or
    any other, preparation of one document and of a batch, and completion with a remote signature.
    Mdoc_Default: the calls that choose the default executor. Mdoc_Success: when preparation succeeds.
  \<^item> Session_Crypto: the streaming hash, HMAC and HKDF with their scratch memory. Cose: COSE_Sign1 and
    COSE_Mac0. Device_Key: COSE keys and key authorizations.
  \<^item> Nfc_Options, Device_Engagement: the engagement and its CBOR and QR forms; the locale
    \<open>derived_decoders\<close> states what the derived decoders promise.
  \<^item> Session: messages, key derivation and the encrypted channel. The locales \<open>session_channel\<close>,
    \<open>aead_package\<close> and \<open>truncating_aead_package\<close> state what the ciphers promise; the sublocales show that
    both backends of the code keep the channel's contract.
  \<^item> X509, X509_Validation: certificates, chains, trust anchors and the three rulesets.
  \<^item> Device_Response, Disclosure: the structures of requests and responses, the filter of permitted items
    and the preparation of documents. Age_Attestation: the choice of an \<^verbatim>\<open>age_over_NN\<close> claim.
  \<^item> Device_Session: the device's state machine, one definition per public operation, its runs as an
    inductive relation. Mdoc_Authentication: issuer and device authentication and the verdict.
    Reader_Session: the reader's session, its verdict on a message and what it reports; the locale
    \<open>presentation_packages\<close> states what the packages promise when both ends use them.
  \<^item> Cbor_Encoding: the encoding of CBOR values in bytes, written from RFC 8949 and proved to be read
    back. Presentation_Codec: codecs over it for session data and requests. Both are specification: the
    promises about the CBOR package are stated with them and instantiated by them.
  \<^item> Rust_String: strings as their UTF-8 bytes with the operations of the standard library in use.
    Cbor_Interface: the wrappers around the CBOR package and the text form of a session.
  \<^item> From_Json: JSON values, the conversion traits and the code the derive macros generate. Code_Table: the
    locale \<open>code_table\<close> of an enumeration with a table of strings. Country_Code, Un_Sign, Date_Text,
    Iso_Elements: the element types of the ISO namespace; the two large enumerations are split by
    initial letter. Iso_Namespace, Aamva_Namespace: the two structs. Issued_Elements: what becomes of
    their elements at issuance and at the reader. Validity_Info: the dates of a security object.
  \<^item> Licence_Issuance: the composition of the conversion, the preparation, the completion and the
    holder's document.
  \<^item> Derive_Macro: the derive macros over syntax trees. Derived_Namespaces: run on the declarations of the
    two namespaces they give the conversions modelled. Utility: the command line tool.
  \<^item> This theory: the properties of both ends together.

  \<^bold>\<open>Conventions.\<close> A record is a struct, a datatype an enum, \<open>error + 'a\<close> a \<^verbatim>\<open>Result\<close>, an option an
  \<^verbatim>\<open>Option\<close>; integers of fixed width are words. An operation on \<^verbatim>\<open>&mut self\<close> returns the new state. Where a
  result has a further option around it, \<open>None\<close> is a panic or, in the loop that draws digest
  identifiers, the absence of a fresh one. Error texts are constructors with the values the format
  strings print. The clock is read once per operation and passed in. A fresh key, the random
  generator, the CBOR package at each type, base64, the elliptic curves, the ciphers, DER and the
  hash's block function are arguments, gathered in records (\<open>item_codec\<close>, \<open>rng_ops\<close>, \<open>sha2_ops\<close>, \<open>x509_ops\<close>,
  \<open>device_env\<close>, \<open>auth_env\<close>, \<open>reader_env\<close>); what is relied on is a named hypothesis or a locale, and every locale
  is interpreted on the model's own definitions or on concrete packages. Of the codecs of a
  presentation it is relied on that session data, and a request the reader builds from well-formed
  namespaces, are read back; nothing is assumed of the codec of responses, whose error codes and
  embedded items are not all read back as they were. In the instances of these packages responses have
  a codec of one response. A COSE header is its algorithm and the rest of its entries; the key
  identifier and the original bytes of a received protected header, which only the COSE package reads,
  are left out.

  \<^bold>\<open>What is shown.\<close> Issuance: every disclosed item has the digest of its encoding under its own identifier,
  for every executor that keeps the contract; all executors keep it; assembly accepts exactly complete
  results, in any order; a batch is the sequence of its documents; a well-shaped document is prepared
  when the encoders and the random generator keep their promises; a licence read from JSON reaches the
  document the device holds with exactly its elements. Cryptography: the hashes and the
  key derivation are the standard's. Session: messages arrive exactly and in order among failures and
  rejected arrivals, no initialization vector repeats, released memory is zero. Presentation:
  whatever calls are made, nothing leaves the device that was not permitted, requested and held;
  signing completes; both ends derive the same session and stay in step over every exchange, and the
  reader reads the response from the bytes the device signed and encoded; a later request for a
  document type already requested is ignored; a device's signature is accepted exactly when it is
  valid. Verification: exactly which certificate chains are accepted, exactly what verdict any message
  gets, exactly what is reported of it and when the reader panics, and that the verdict does not
  depend on the disclosed items. Data elements: which objects are read and exactly which elements they become,
  when reading panics, that tables of codes, dates and validity information are read back as written,
  and that what is issued can be presented.

  \<^bold>\<open>Bounds.\<close> The hash and HMAC theorems assume inputs below \<open>2 ^ 61\<close> bytes, the standard's limit; lengths and
  counts are \<open>usize\<close> of 64 bits. No definition uses fuel: loops recurse on their data, the loop that draws
  identifiers is a partial function whose termination is characterised.

  \<^bold>\<open>Not modelled.\<close> Serialization derived by the package \<^verbatim>\<open>serde\<close> is a parameter, and so are dates, the
  CBOR, base64, PEM and DER codecs. Of the derive macros the tokens themselves are left out: the
  model has the tree of conversions they spell. The texts of errors (\<^verbatim>\<open>Display\<close>), redacting \<^verbatim>\<open>Debug\<close>
  implementations, module declarations, the parsing of the command line, benches, examples and tests
  have no behaviour the rest depends on.
\<close>

section \<open>A whole presentation\<close>

text \<open>C5. Establishing a session, for a request of a well-formed map of namespaces. When the device has initialised itself and shows its engagement as a
  QR code, and the reader establishes a session from that code, then the establishment message the
  reader sends makes the device derive the same two session keys and the same transcript: both ends
  have the same counters, the device awaits a request with the holder's documents and its trust
  anchors, and the outcome it returns asks for exactly the elements the reader asked for, in the mDL
  document type, without error. The reader never signs its requests, so its authentication is invalid.
  Both ends compute the same Bluetooth identifier.\<close>

theorem session_established:
  assumes "presentation_packages env public" "request_namespaces namespaces"
    and "initialise (re_base env) device_fresh documents methods servers = Inr init"
    and "re_decode_engagement env (tag24_inner_bytes (smi_device_engagement init)) = Inr (tag24_inner (smi_device_engagement init))"
    and "establish_session env reader_fresh (snd (qr_engagement (re_base env) init)) namespaces registry = Some (Inr (rsm, message, ident))"
  shows "\<exists>establishment sm. re_encode_establishment env establishment = Inr message \<and>
    process_session_establishment (re_base env) now (fst (qr_engagement (re_base env) init)) establishment trusted = Some (Inr (sm,
      RequestAuthenticationOutcome_default \<lparr> ro_items_request := [mdl_request namespaces], ro_reader_authentication := Invalid \<rparr>)) \<and>
    synchronised rsm sm \<and> sm_documents sm = documents \<and> sm_state sm = AwaitingRequest \<and> sm_trusted_verifiers sm = trusted \<and>
    ble_ident env init = Inr ident"
  by (rule presentation_packages.handshake [OF assms])

definition pkg_init :: "(unit, u8) SessionManagerInit" where
  "pkg_init = \<lparr> smi_documents = [(MDL_DOC_TYPE, sample_document)], smi_e_device_key = 3,
     smi_device_engagement = \<lparr> tag24_inner = pkg_engagement, tag24_inner_bytes = [0] \<rparr> \<rparr>"

lemma pkg_initialise: "initialise pkg_base 3 [(MDL_DOC_TYPE, sample_document)] None None = Inr pkg_init"
  by (simp add: initialise_def create_p256_ephemeral_keys_def pkg_base_def Tag24_new_def pkg_init_def pkg_engagement_def
    EC2Curve_try_from_def)

lemma pkg_derive:
  assumes "length secret < 100"
  shows "\<exists>k. length k = 32 \<and>
    derive_session_key (de_compress pkg_base) (encode_embedded pkg_base) secret t reader = Some (Inr k)"
proof -
  have encode: "encode_embedded pkg_base = (\<lambda>t. Inr [])"
    by (rule ext) (simp add: encode_embedded_def pkg_base_def sample_device_codec_def)
  have "derive_session_key sha_compress (encode_embedded pkg_base) secret t reader =
      Some (Inr (hkdf_sha256_32 secret (sha256 []) (text_bytes (if reader then ''SKReader'' else ''SKDevice''))))"
    using assms by (intro derive_session_key_spec sha_compress_standard) (simp_all add: encode)
  then show ?thesis by (simp add: pkg_base_def hkdf_sha256_32_def length_simps)
qed

lemma pkg_request_namespaces: "request_namespaces pkg_namespaces"
  by (simp add: request_namespaces_def pkg_namespaces_def bt_wf_def)

lemma pkg_request_bytes:
  "\<exists>b. and_then (build_device_request pkg_env pkg_namespaces) encode_request = Inr b \<and> length b < 1000"
proof -
  let ?v = "items_request_value (mdl_request pkg_namespaces)"
  let ?t = "\<lparr> tag24_inner = mdl_request pkg_namespaces, tag24_inner_bytes = cbor_write ?v \<rparr>"
  have items: "cbor_ok ?v" "length (cbor_write ?v) < 200"
    by (simp_all add: items_request_value_def mdl_request_def namespaces_value_def map_value_def MDL_DOC_TYPE_def pkg_namespaces_def
      cbor_head_def be_nat_simps)
  then have "Tag24_new encode_items_request (mdl_request pkg_namespaces) = Inr ?t"
    by (simp add: Tag24_new_def encode_items_request_def cbor_encode_def mdl_request_def)
  then have "build_device_request pkg_env pkg_namespaces = Inr \<lparr> dreq_version = DeviceRequest_VERSION,
      dreq_doc_requests = [\<lparr> dq_items_request = ?t, dq_reader_auth = None \<rparr>],
      dreq_reader_auth_all = None, dreq_device_request_info = None \<rparr>"
    by (simp add: build_device_request_def pkg_base_simps mdl_request_def)
  with items(2) show ?thesis
    by (simp add: encode_request_def cbor_encode_def Tag24_into_def DeviceRequest_VERSION_def cbor_head_def)
qed

lemma pkg_build:
  assumes "length (rsm_sk_reader rsm) = 32" "rsm_reader_message_counter rsm \<noteq> -1"
  shows "\<exists>data rsm'. build_request pkg_env rsm pkg_namespaces = (Inr data, rsm') \<and> length data < 2000 \<and>
    rsm' = rsm \<lparr> rsm_reader_message_counter := rsm_reader_message_counter rsm + 1 \<rparr>"
proof -
  obtain b where "and_then (build_device_request pkg_env pkg_namespaces) encode_request = Inr b" "length b < 1000"
    using pkg_request_bytes by blast
  then show ?thesis
    using assms by (simp add: build_request_def encrypt_reader_data_def encrypt_def get_initialization_vector_def Let_def
      pkg_base_simps pkg_encrypt length_hmac_tag)
qed

lemma pkg_establishment:
  "length data < 2000 \<Longrightarrow> \<exists>b. re_encode_establishment pkg_env \<lparr> se_e_reader_key = \<lparr> tag24_inner = key, tag24_inner_bytes = [] \<rparr>, se_data = data \<rparr> = Inr b"
  by (simp add: pkg_env_def encode_establishment_def cbor_encode_def Tag24_into_def ByteStr_into_def)

theorem session_established_witness:
  "\<exists>rsm message ident establishment sm.
     establish_session pkg_env 5 (snd (qr_engagement pkg_base pkg_init)) pkg_namespaces \<lparr> anchors = [] \<rparr> = Some (Inr (rsm, message, ident)) \<and>
     re_encode_establishment pkg_env establishment = Inr message \<and>
     process_session_establishment pkg_base 0 (fst (qr_engagement pkg_base pkg_init)) establishment \<lparr> anchors = [] \<rparr> = Some (Inr (sm,
       RequestAuthenticationOutcome_default \<lparr> ro_items_request := [mdl_request pkg_namespaces], ro_reader_authentication := Invalid \<rparr>)) \<and>
     synchronised rsm sm"
proof -
  have packages: "presentation_packages pkg_env (\<lambda>sk. sk)" by (rule pkg.presentation_packages_axioms)
  have engagement: "re_decode_engagement pkg_env (tag24_inner_bytes (smi_device_engagement pkg_init)) =
      Inr (tag24_inner (smi_device_engagement pkg_init))"
    by (simp add: pkg_env_def pkg_init_def)
  let ?uri = "snd (qr_engagement pkg_base pkg_init)"
  have qr: "from_qr_code_uri (re_base64_decode pkg_env) (re_decode_engagement pkg_env) ?uri = Inr (smi_device_engagement pkg_init)"
    unfolding qr_engagement_def snd_conv
    by (rule qr_read_back) (simp add: pkg_env_def pkg_base_def sample_decode_encode, rule engagement)
  obtain key where key: "create_p256_ephemeral_keys 5 (de_encoded_point pkg_base) (de_point_x pkg_base) (de_point_y pkg_base) = Inr (5, key)"
    by (simp add: create_p256_ephemeral_keys_def pkg_base_def EC2Curve_try_from_def)
  have secret: "get_shared_secret (de_point_from_bytes pkg_base) (de_public_key pkg_base) (de_diffie_hellman pkg_base)
      (tag24_inner (snd (de_security (tag24_inner (smi_device_engagement pkg_init))))) 5 = Inr [15]"
    by (simp add: get_shared_secret_def pkg_init_def pkg_engagement_def pkg_base_def nth_append)
  obtain rsm message ident where est:
    "establish_session pkg_env 5 ?uri pkg_namespaces \<lparr> anchors = [] \<rparr> = Some (Inr (rsm, message, ident))"
  proof -
    let ?key = "\<lparr> tag24_inner = key, tag24_inner_bytes = [] \<rparr>"
    let ?transcript = "SessionTranscript180135 (smi_device_engagement pkg_init) ?key QR"
    let ?bytes = "\<lparr> tag24_inner = ?transcript, tag24_inner_bytes = [] \<rparr>"
    obtain sk_reader where sk_reader: "length sk_reader = 32"
      "derive_session_key (de_compress pkg_base) (encode_embedded pkg_base) [15] ?bytes True = Some (Inr sk_reader)"
      using pkg_derive [of "[15]" ?bytes True] by auto
    obtain sk_device where sk_device:
      "derive_session_key (de_compress pkg_base) (encode_embedded pkg_base) [15] ?bytes False = Some (Inr sk_device)"
      using pkg_derive [of "[15]" ?bytes False] by auto
    have encoded: "Tag24_new (de_encode_key pkg_base) key = Inr ?key" "Tag24_new (de_encode_transcript pkg_base) ?transcript = Inr ?bytes"
      by (simp_all add: Tag24_new_def pkg_base_def)
    obtain ident where ident: "calculate_ble_ident pkg_env (snd (de_security (tag24_inner (smi_device_engagement pkg_init)))) = Inr ident"
      by (simp add: calculate_ble_ident_def pkg_env_def encode_embedded_def pkg_base_def sample_device_codec_def)
    obtain data rsm where "build_request pkg_env \<lparr> rsm_session_transcript = ?transcript, rsm_sk_device = sk_device,
        rsm_device_message_counter = 0, rsm_sk_reader = sk_reader, rsm_reader_message_counter = 0,
        rsm_trust_anchor_registry = \<lparr> anchors = [] \<rparr> \<rparr> pkg_namespaces = (Inr data, rsm)" "length data < 2000"
      using pkg_build [of "\<lparr> rsm_session_transcript = ?transcript, rsm_sk_device = sk_device,
        rsm_device_message_counter = 0, rsm_sk_reader = sk_reader, rsm_reader_message_counter = 0,
        rsm_trust_anchor_registry = \<lparr> anchors = [] \<rparr> \<rparr>"] sk_reader(1) by auto
    moreover from this(2) obtain sent where "re_encode_establishment pkg_env \<lparr> se_e_reader_key = ?key, se_data = data \<rparr> = Inr sent"
      using pkg_establishment by blast
    ultimately show ?thesis
      using that qr key secret encoded ident sk_reader(2) sk_device
      by (simp add: establish_session_def pkg_base_simps(1) Let_def)
  qed
  from session_established [OF packages pkg_request_namespaces, unfolded pkg_base_simps(1), OF pkg_initialise engagement est, of 0 "\<lparr> anchors = [] \<rparr>"] est
  show ?thesis by blast
qed

text \<open>C3. A whole exchange over an established session. When the reader's request is handled by the
  device, the holder permits some of what was asked, at least one document is prepared, every
  prepared document is signed and the response is retrieved, then the response of the signed documents
  has an encoding; the reader is given the report of the failure exactly when the device could not
  encrypt these bytes, and otherwise the response it reads from these very bytes, one the encoder
  writes as these bytes. The two ends are in step for the next exchange, and the device awaits it with
  the same session. Nothing is assumed of the codec of responses.\<close>

theorem exchange_delivers:
  assumes "presentation_packages env public" "synchronised rsm sm" "request_namespaces namespaces"
    and "new_request env rsm namespaces = (Inr message, rsm1)"
    and "handle_request (re_base env) now sm message = (outcome, sm1)"
    and "p = prepare_response (de_codec (re_base env)) (sm_session_transcript sm) (sm_device_auth_type sm) (sm_documents sm)
      [mdl_request namespaces] permitted"
    and "prepared_documents p \<noteq> []" "length signatures = length (prepared_documents p)"
    and "submit_signatures (re_base env) (sm_prepare_response (re_base env) sm1 (ro_items_request outcome) permitted) signatures
      = Some (Inr (), sm2)"
    and "retrieve_response sm2 = (Some reply, sm3)"
  shows "\<exists>b response rsm2. de_encode_response (re_base env) (complete_response (signed_response p signatures)) = Inr b \<and>
    de_encode_response (re_base env) response = Inr b \<and>
    decrypt_response env rsm1 reply =
      (if isl (fst (encrypt_device_data (de_encrypt (re_base env)) (sm_sk_device sm) b (sm_device_message_counter sm)))
       then Inl HolderError else Inr response, rsm2) \<and>
    synchronised rsm2 sm3 \<and> same_session sm3 sm \<and> sm_state sm3 = AwaitingRequest"
  by (rule presentation_packages.exchange [OF assms])

definition pkg_transcript :: SessionTranscript180135 where
  "pkg_transcript = SessionTranscript180135 (smi_device_engagement pkg_init) \<lparr> tag24_inner = sample_key, tag24_inner_bytes = [] \<rparr> QR"

definition pkg_reader :: ReaderSessionManager where
  "pkg_reader = \<lparr> rsm_session_transcript = pkg_transcript, rsm_sk_device = sample_session_key, rsm_device_message_counter = 0,
     rsm_sk_reader = sample_session_key, rsm_reader_message_counter = 0, rsm_trust_anchor_registry = \<lparr> anchors = [] \<rparr> \<rparr>"

definition pkg_device :: "unit SessionManager" where
  "pkg_device = \<lparr> sm_documents = [(MDL_DOC_TYPE, sample_document)], sm_session_transcript = pkg_transcript,
     sm_sk_device = sample_session_key, sm_device_message_counter = 0, sm_sk_reader = sample_session_key,
     sm_reader_message_counter = 0, sm_state = AwaitingRequest, sm_trusted_verifiers = \<lparr> anchors = [] \<rparr>, sm_device_auth_type = Sign1 \<rparr>"

lemma pkg_prepare:
  "prepare_response (de_codec pkg_base) transcript Sign1 [(MDL_DOC_TYPE, sample_document)] [mdl_request pkg_namespaces] pkg_permitted
     = pkg_prepared"
  "length (prepared_documents pkg_prepared) = 1"
proof -
  have filtered: "filter_permitted [mdl_request pkg_namespaces] pkg_permitted = [(MDL_DOC_TYPE, [(''n'', [''a''])])]" by code_simp
  have "prepare_document sample_device_codec transcript Sign1 sample_document MDL_DOC_TYPE nss =
      prepare_document sample_device_codec (0 :: nat) Sign1 sample_document MDL_DOC_TYPE nss" for nss
    by (simp add: prepare_document_def prepare_cose_def sample_device_codec_def device_authentication_bytes_def Tag24_new_def)
  then show "prepare_response (de_codec pkg_base) transcript Sign1 [(MDL_DOC_TYPE, sample_document)] [mdl_request pkg_namespaces] pkg_permitted
     = pkg_prepared"
    by (simp add: pkg_prepared_def prepare_response_def filtered pkg_base_def bt_get_def)
  show "length (prepared_documents pkg_prepared) = 1" by code_simp
qed

lemma pkg_respond:
  assumes "length (sm_sk_device sm) = 32" "sm_device_message_counter sm = 0"
  shows "isl (fst (encrypt_device_data (de_encrypt pkg_base) (sm_sk_device sm) [2] (sm_device_message_counter sm))) = False"
    and "\<exists>message sm'. encrypt_response pkg_base sm [2] = (Inr (), sm') \<and> sm_state sm' = ReadyToRespond message"
proof -
  obtain ct c where ct: "encrypt_device_data (de_encrypt pkg_base) (sm_sk_device sm) [2] 0 = (Inr ct, c)" "length ct = 17"
    using assms by (simp add: encrypt_device_data_def encrypt_def get_initialization_vector_def Let_def pkg_base_simps pkg_encrypt
      length_hmac_tag)
  then show "isl (fst (encrypt_device_data (de_encrypt pkg_base) (sm_sk_device sm) [2] (sm_device_message_counter sm))) = False"
    using assms by simp
  obtain message where "encode_session_data \<lparr> sd_data = Some ct, sd_status = None \<rparr> = Inr message"
    using session_data_encodes [of "\<lparr> sd_data = Some ct, sd_status = None \<rparr>"] ct(2) by auto
  with ct assms show "\<exists>message sm'. encrypt_response pkg_base sm [2] = (Inr (), sm') \<and> sm_state sm' = ReadyToRespond message"
    by (simp add: encrypt_response_def pkg_base_simps)
qed

lemma pkg_submit:
  assumes "sm_state sm = Signing pkg_prepared"
  shows "submit_signatures pkg_base sm [[9]] =
    (case encrypt_response pkg_base (sm \<lparr> sm_state := AwaitingRequest \<rparr>) [2] of (r, sm') \<Rightarrow> Some (r, sm'))"
proof -
  obtain d where d: "prepared_documents pkg_prepared = [] @ [d]"
    using pkg_prepare(2) by (cases "prepared_documents pkg_prepared") auto
  have "is_complete (response_submit pkg_prepared [9])" by (simp add: is_complete_def response_submit_snoc [OF d])
  moreover have "complete_response (response_submit pkg_prepared [9]) = pkg_reply"
    using d by (simp add: pkg_reply_def signed_response_def response_submit_snoc [OF d])
  moreover have "de_encode_response pkg_base pkg_reply = Inr [2]" "de_decode_response pkg_base [2] = Inr pkg_reply"
    by (simp_all add: pkg_base_def)
  ultimately have "submit_next_signature pkg_base sm [9] =
      Some (encrypt_response pkg_base (sm \<lparr> sm_state := AwaitingRequest \<rparr>) [2])"
    using assms by (simp add: submit_next_signature_def finalize_response_def)
  then show ?thesis by (simp split: prod.splits sum.splits)
qed

theorem exchange_delivers_witness:
  "\<exists>message rsm1 (sm2 :: unit SessionManager) reply rsm2 sm3. new_request pkg_env pkg_reader pkg_namespaces = (Inr message, rsm1) \<and>
     retrieve_response sm2 = (Some reply, sm3) \<and>
     decrypt_response pkg_env rsm1 reply = (Inr pkg_reply, rsm2) \<and> synchronised rsm2 sm3"
proof -
  have packages: "presentation_packages pkg_env (\<lambda>sk. sk)" by (rule pkg.presentation_packages_axioms)
  have sync: "synchronised pkg_reader pkg_device" by (simp add: synchronised_def pkg_reader_def pkg_device_def)
  have size: "length sample_session_key = 32" by (simp add: sample_session_key_def)
  obtain data rsm1 where "build_request pkg_env pkg_reader pkg_namespaces = (Inr data, rsm1)" "length data < 2000"
    using pkg_build [of pkg_reader] size by (auto simp: pkg_reader_def)
  then obtain message where message: "new_request pkg_env pkg_reader pkg_namespaces = (Inr message, rsm1)"
    using session_data_encodes [of "\<lparr> sd_data = Some data, sd_status = None \<rparr>"]
    by (auto simp: new_request_def pkg_base_simps)
  obtain outcome sm1 where handled: "handle_request pkg_base 0 pkg_device message = (outcome, sm1)" by fastforce
  then have outcome: "ro_items_request outcome = [mdl_request pkg_namespaces]" "same_session sm1 pkg_device" "synchronised rsm1 sm1"
    using pkg.new_request_delivered [OF sync pkg_request_namespaces message, of 0] by (auto simp: pkg_base_simps(1))
  let ?sm = "sm_prepare_response pkg_base sm1 (ro_items_request outcome) pkg_permitted"
  have signing: "sm_state ?sm = Signing pkg_prepared"
    using outcome by (simp add: sm_prepare_response_def same_session_def pkg_device_def pkg_prepare)
  have key: "sm_sk_device (?sm \<lparr> sm_state := AwaitingRequest \<rparr>) = sample_session_key"
    "sm_device_message_counter (?sm \<lparr> sm_state := AwaitingRequest \<rparr>) = 0"
    using outcome(2,3) new_request_counter [OF message]
    by (simp_all add: sm_prepare_response_def same_session_def pkg_device_def synchronised_def pkg_reader_def)
  obtain reply sm2 where sm2: "submit_signatures pkg_base ?sm [[9]] = Some (Inr (), sm2)" "sm_state sm2 = ReadyToRespond reply"
    using pkg_respond(2) [OF _ key(2)] key(1) size pkg_submit [OF signing] by auto
  then obtain sm3 where reply: "retrieve_response sm2 = (Some reply, sm3)" by (simp add: retrieve_response_def)
  have prepared: "pkg_prepared = prepare_response (de_codec pkg_base) (sm_session_transcript pkg_device)
      (sm_device_auth_type pkg_device) (sm_documents pkg_device) [mdl_request pkg_namespaces] pkg_permitted"
    by (simp add: pkg_device_def pkg_prepare)
  have "prepared_documents pkg_prepared \<noteq> []" "length [[9 :: u8]] = length (prepared_documents pkg_prepared)"
    using pkg_prepare(2) by auto
  from exchange_delivers [OF packages sync pkg_request_namespaces message, unfolded pkg_base_simps(1), OF handled prepared this sm2(1) reply]
  obtain b response rsm2 where delivered: "de_encode_response pkg_base (complete_response (signed_response pkg_prepared [[9]])) = Inr b"
    "de_encode_response pkg_base response = Inr b" "synchronised rsm2 sm3"
    "decrypt_response pkg_env rsm1 reply =
      (if isl (fst (encrypt_device_data (de_encrypt pkg_base) (sm_sk_device pkg_device) b (sm_device_message_counter pkg_device)))
       then Inl HolderError else Inr response, rsm2)"
    by blast
  then have "response = pkg_reply" "b = [2]"
    by (auto simp: pkg_base_def pkg_reply_def [symmetric] split: if_splits)
  with delivered(3,4) pkg_respond(1) [of pkg_device] size show ?thesis
    using message reply by (auto simp: pkg_device_def)
qed

end
